(* ===== verification/Prelude.thy ===== *)
theory Prelude
imports Main "HOL-Library.AList" "HOL-Library.Multiset" "HOL-Library.Char_ord"
  "HOL-Library.List_Lexorder"
begin

text \<open>
  Shared vocabulary of the development.

  Go strings are byte strings, so a Go \<^verbatim>\<open>string\<close> is a HOL \<^typ>\<open>string\<close> (a list of
  8-bit characters).  The functions of Go's package \<^verbatim>\<open>strings\<close> that the program calls are
  defined here, restricted to the arguments it calls them with (a one-byte separator for
  Split, Cut, IndexByte and LastIndexByte; the ASCII white space for TrimSpace).

  A Go map whose iteration order is observable is an association list with distinct keys
  in an arbitrary order: a theorem about all such lists is a theorem about every iteration
  order.  Such a list is updated with \<^const>\<open>AList.update\<close> and \<^const>\<open>AList.delete\<close>.

  The theory also holds the in-place insertion sort the program writes twice, and the
  interface \<^verbatim>\<open>keyed_store\<close> which every table of the program implements.
\<close>

named_theorems str_simps "evaluation of the string functions"

section \<open>Strings\<close>

definition newline :: string where
  "newline = [CHR 0x0A]"

fun cut_at :: "char \<Rightarrow> string \<Rightarrow> (string \<times> string) option" where
  "cut_at c [] = None"
| "cut_at c (x # xs) =
     (if x = c then Some ([], xs)
      else case cut_at c xs of None \<Rightarrow> None | Some (a, b) \<Rightarrow> Some (x # a, b))"

definition cut_last :: "char \<Rightarrow> string \<Rightarrow> (string \<times> string) option" where
  "cut_last c s = (case cut_at c (rev s) of None \<Rightarrow> None | Some (a, b) \<Rightarrow> Some (rev b, rev a))"

fun has_prefix :: "string \<Rightarrow> string \<Rightarrow> bool" where
  "has_prefix [] s = True"
| "has_prefix (x # p) [] = False"
| "has_prefix (x # p) (y # s) = (x = y \<and> has_prefix p s)"

definition has_suffix :: "string \<Rightarrow> string \<Rightarrow> bool" where
  "has_suffix p s \<longleftrightarrow> has_prefix (rev p) (rev s)"

definition trim_prefix :: "string \<Rightarrow> string \<Rightarrow> string" where
  "trim_prefix p s = (if has_prefix p s then drop (length p) s else s)"

definition trim_suffix :: "string \<Rightarrow> string \<Rightarrow> string" where
  "trim_suffix p s = (if has_suffix p s then take (length s - length p) s else s)"

fun contains_sub :: "string \<Rightarrow> string \<Rightarrow> bool" where
  "contains_sub p [] = (p = [])"
| "contains_sub p (x # xs) = (has_prefix p (x # xs) \<or> contains_sub p xs)"

definition is_space :: "char \<Rightarrow> bool" where
  "is_space c \<longleftrightarrow> c \<in> {CHR '' '', CHR 0x09, CHR 0x0A, CHR 0x0B, CHR 0x0C, CHR 0x0D}"

definition trim_space :: "string \<Rightarrow> string" where
  "trim_space s = rev (dropWhile is_space (rev (dropWhile is_space s)))"

fun split_on :: "char \<Rightarrow> string \<Rightarrow> string list" where
  "split_on c [] = [[]]"
| "split_on c (x # xs) =
     (if x = c then [] # split_on c xs
      else case split_on c xs of [] \<Rightarrow> [[x]] | y # ys \<Rightarrow> (x # y) # ys)"

fun join_with :: "string \<Rightarrow> string list \<Rightarrow> string" where
  "join_with sep [] = []"
| "join_with sep [x] = x"
| "join_with sep (x # y # ys) = x @ sep @ join_with sep (y # ys)"

lemma cut_at_None [simp]: "cut_at c s = None \<longleftrightarrow> c \<notin> set s"
  by (induction s) (auto split: option.splits)

lemma cut_at_append [str_simps]: "c \<notin> set a \<Longrightarrow> cut_at c (a @ c # b) = Some (a, b)"
  by (induction a) auto

lemma cut_at_SomeD: "cut_at c s = Some (a, b) \<Longrightarrow> s = a @ c # b \<and> c \<notin> set a"
proof (induction s arbitrary: a)
  case (Cons x xs)
  show ?case
  proof (cases "x = c")
    case False
    with Cons.prems obtain a' where "cut_at c xs = Some (a', b)" "a = x # a'"
      by (auto split: option.splits)
    with Cons.IH False show ?thesis by simp
  qed (use Cons.prems in simp)
qed simp

lemma cut_at_Some: "cut_at c s = Some (a, b) \<longleftrightarrow> s = a @ c # b \<and> c \<notin> set a"
  by (metis cut_at_SomeD cut_at_append)

lemma cut_last_Some: "cut_last c s = Some (a, b) \<longleftrightarrow> s = a @ c # b \<and> c \<notin> set b"
proof -
  have "cut_last c s = Some (a, b) \<longleftrightarrow> cut_at c (rev s) = Some (rev b, rev a)"
    by (cases "cut_at c (rev s)") (auto simp: cut_last_def simp del: cut_at_None)
  also have "\<dots> \<longleftrightarrow> rev s = rev (a @ c # b) \<and> c \<notin> set b"
    by (simp add: cut_at_Some)
  finally show ?thesis by (simp only: rev_is_rev_conv)
qed

lemma cut_last_None [simp]: "cut_last c s = None \<longleftrightarrow> c \<notin> set s"
proof -
  have "cut_last c s = None \<longleftrightarrow> cut_at c (rev s) = None"
    by (simp only: cut_last_def split: option.splits prod.splits) simp
  then show ?thesis by simp
qed

lemma cut_last_append [str_simps]: "c \<notin> set b \<Longrightarrow> cut_last c (a @ c # b) = Some (a, b)"
  by (simp add: cut_last_Some)

lemma has_prefix_def: "has_prefix p s \<longleftrightarrow> take (length p) s = p"
  by (induction p s rule: has_prefix.induct) auto

lemma has_prefix_append [simp]: "has_prefix p (p @ s)"
  by (simp add: has_prefix_def)

lemma has_prefixE: "has_prefix p s \<Longrightarrow> (\<And>r. s = p @ r \<Longrightarrow> P) \<Longrightarrow> P"
  unfolding has_prefix_def by (metis append_take_drop_id)

lemma has_suffix_append [simp]: "has_suffix p (s @ p)"
  by (simp add: has_suffix_def)

lemma has_suffixE: "has_suffix p s \<Longrightarrow> (\<And>r. s = r @ p \<Longrightarrow> P) \<Longrightarrow> P"
  unfolding has_suffix_def by (metis has_prefixE rev_append rev_rev_ident)

lemma trim_suffix_append [simp]: "trim_suffix p (s @ p) = s"
  by (simp add: trim_suffix_def)

lemma trim_prefix_append [simp]: "trim_prefix p (p @ s) = s"
  by (simp add: trim_prefix_def)

lemma contains_sub_single [simp]: "contains_sub [c] s \<longleftrightarrow> c \<in> set s"
  by (induction s) (auto simp: has_prefix_def)

lemma split_on_not_Nil [simp]: "split_on c s \<noteq> []"
  by (cases s) (auto split: list.splits)

lemma split_on_no_sep: "c \<notin> set s \<Longrightarrow> split_on c s = [s]"
  by (induction s) auto

lemma split_on_append: "c \<notin> set a \<Longrightarrow> split_on c (a @ c # b) = a # split_on c b"
  by (induction a) auto

lemma join_split_on: "join_with [c] (split_on c s) = s"
proof (induction s)
  case (Cons x xs)
  obtain y ys where "split_on c xs = y # ys" by (cases "split_on c xs") auto
  with Cons show ?case by (cases ys) auto
qed simp

lemma split_on_parts: "p \<in> set (split_on c s) \<Longrightarrow> c \<notin> set p"
proof (induction s arbitrary: p)
  case (Cons x xs)
  then show ?case by (cases "split_on c xs") (auto split: if_splits)
qed simp

lemma last_dropWhile: "dropWhile P xs \<noteq> [] \<Longrightarrow> last (dropWhile P xs) = last xs"
  by (induction xs) auto

lemma dropWhile_clean: "xs = [] \<or> \<not> P (hd xs) \<Longrightarrow> dropWhile P xs = xs"
  by (cases xs) auto

lemma trim_space_clean:
  assumes "s = [] \<or> (\<not> is_space (hd s) \<and> \<not> is_space (last s))"
  shows "trim_space s = s"
proof -
  have "dropWhile is_space s = s" using assms by (intro dropWhile_clean) auto
  moreover have "dropWhile is_space (rev s) = rev s"
    using assms by (intro dropWhile_clean) (auto simp: hd_rev)
  ultimately show ?thesis by (simp add: trim_space_def)
qed

section \<open>In-place insertion sort\<close>

text \<open>
  The nested loop \<^verbatim>\<open>for i := 1..; for j := i; j > 0 && r[j] < r[j-1]; j-- { swap }\<close>, written
  twice in the program (runners by id, protocol names).
\<close>

fun sift :: "('a \<Rightarrow> 'k::linorder) \<Rightarrow> nat \<Rightarrow> 'a list \<Rightarrow> 'a list" where
  "sift key 0 xs = xs"
| "sift key (Suc j) xs =
     (if key (xs ! Suc j) < key (xs ! j)
      then sift key j (xs[Suc j := xs ! j, j := xs ! Suc j]) else xs)"

definition insertion_sort :: "('a \<Rightarrow> 'k::linorder) \<Rightarrow> 'a list \<Rightarrow> 'a list" where
  "insertion_sort key xs = fold (sift key) [1..<length xs] xs"

definition ins_from_right :: "('a \<Rightarrow> 'k::linorder) \<Rightarrow> 'a \<Rightarrow> 'a list \<Rightarrow> 'a list" where
  "ins_from_right key x ys =
     rev (dropWhile (\<lambda>y. key x < key y) (rev ys)) @ x # rev (takeWhile (\<lambda>y. key x < key y) (rev ys))"

lemma sift_ins: "sift key (length ys) (ys @ x # zs) = ins_from_right key x ys @ zs"
proof (induction ys arbitrary: zs rule: rev_induct)
  case (snoc y ys)
  have "sift key (Suc (length ys)) (ys @ y # x # zs) =
      (if key x < key y then sift key (length ys) (ys @ x # y # zs) else ys @ y # x # zs)"
    by (simp add: nth_append list_update_append)
  then show ?case by (simp add: snoc.IH) (simp add: ins_from_right_def)
qed (simp add: ins_from_right_def)

lemma mset_ins_from_right: "mset (ins_from_right key x ys) = add_mset x (mset ys)"
proof -
  have "mset (ins_from_right key x ys) =
      add_mset x (mset (takeWhile (\<lambda>y. key x < key y) (rev ys) @ dropWhile (\<lambda>y. key x < key y) (rev ys)))"
    by (simp only: ins_from_right_def mset_append mset_rev mset.simps) simp
  then show ?thesis by simp
qed

lemma ins_from_right_split:
  assumes "sorted (map key ys)"
  shows "\<exists>us vs. ys = us @ vs \<and> ins_from_right key x ys = us @ x # vs
    \<and> (\<forall>u \<in> set us. key u \<le> key x) \<and> (\<forall>v \<in> set vs. key x < key v)"
proof -
  define us where "us = rev (dropWhile (\<lambda>y. key x < key y) (rev ys))"
  define vs where "vs = rev (takeWhile (\<lambda>y. key x < key y) (rev ys))"
  have ys: "ys = us @ vs"
    unfolding us_def vs_def by (metis rev_append rev_rev_ident takeWhile_dropWhile_id)
  have vs: "\<forall>v \<in> set vs. key x < key v" by (auto simp: vs_def dest: set_takeWhileD)
  have "us = [] \<or> key (last us) \<le> key x"
  proof (cases "dropWhile (\<lambda>y. key x < key y) (rev ys) = []")
    case False
    then show ?thesis
      using hd_dropWhile[OF False] by (simp add: us_def last_rev not_less)
  qed (simp add: us_def)
  moreover have "sorted (map key us)" using assms by (simp add: ys sorted_append)
  then have "\<forall>u \<in> set us. key u \<le> key (last us)"
    by (induction us) (auto split: if_splits)
  ultimately have "\<forall>u \<in> set us. key u \<le> key x" using order_trans by fastforce
  moreover have "ins_from_right key x ys = us @ x # vs"
    by (simp add: ins_from_right_def us_def vs_def)
  ultimately show ?thesis using ys vs by blast
qed

lemma ins_from_right_sort_key:
  "ins_from_right key x (sort_key key ys) = sort_key key (ys @ [x])"
proof -
  obtain us vs where s: "sort_key key ys = us @ vs"
    and i: "ins_from_right key x (sort_key key ys) = us @ x # vs"
    and le: "\<forall>u \<in> set us. key u \<le> key x" and gt: "\<forall>v \<in> set vs. key x < key v"
    using ins_from_right_split[of key "sort_key key ys" x] by auto
  have st: "filter (\<lambda>y. key k = key y) us @ filter (\<lambda>y. key k = key y) vs
      = filter (\<lambda>y. key k = key y) ys" for k
    using sort_key_stable[of key "key k" ys] by (simp add: s eq_commute)
  have "sort_key key (ys @ [x]) = us @ x # vs"
  proof (rule properties_for_sort_key)
    show "mset (us @ x # vs) = mset (ys @ [x])"
      by (metis i mset_ins_from_right mset_append mset_sort add_mset_add_single mset_single_iff_right union_mset_add_mset_right mset.simps)
    show "filter (\<lambda>y. key k = key y) (us @ x # vs) = filter (\<lambda>y. key k = key y) (ys @ [x])"
      if "k \<in> set (us @ x # vs)" for k
    proof (cases "key k = key x")
      case True
      then have "filter (\<lambda>y. key k = key y) vs = []" using gt by (auto simp: filter_empty_conv)
      then show ?thesis using st[of k] True by simp
    next
      case False
      then show ?thesis using st[of k] by simp
    qed
    have "sorted (map key (us @ vs))" by (metis s sorted_sort_key)
    then show "sorted (map key (us @ x # vs))" using le gt by (auto simp: sorted_append less_imp_le)
  qed
  then show ?thesis by (simp add: i)
qed

lemma insertion_sort_prefix:
  "i < length xs \<Longrightarrow> fold (sift key) [1..<Suc i] xs = sort_key key (take (Suc i) xs) @ drop (Suc i) xs"
proof (induction i)
  case 0
  then show ?case by (cases xs) auto
next
  case (Suc i)
  let ?ys = "sort_key key (take (Suc i) xs)"
  have len: "length ?ys = Suc i" using Suc.prems by simp
  have "drop (Suc i) xs = xs ! Suc i # drop (Suc (Suc i)) xs"
    using Suc.prems by (simp add: Cons_nth_drop_Suc)
  then have "fold (sift key) [1..<Suc (Suc i)] xs
      = sift key (length ?ys) (?ys @ xs ! Suc i # drop (Suc (Suc i)) xs)"
    using Suc by (simp add: len)
  also have "\<dots> = sort_key key (take (Suc i) xs @ [xs ! Suc i]) @ drop (Suc (Suc i)) xs"
    by (simp only: sift_ins ins_from_right_sort_key)
  also have "take (Suc i) xs @ [xs ! Suc i] = take (Suc (Suc i)) xs"
    using Suc.prems by (simp add: take_Suc_conv_app_nth)
  finally show ?case .
qed

lemma insertion_sort_eq_sort_key: "insertion_sort key xs = sort_key key xs"
proof (cases xs)
  case Nil
  then show ?thesis by (simp add: insertion_sort_def)
next
  case (Cons y ys)
  then show ?thesis
    using insertion_sort_prefix[of "length xs - 1" xs key] by (simp add: insertion_sort_def)
qed

section \<open>The interface of a keyed table\<close>

text \<open>
  What every client of a table relies on: the value found under a key after an insertion or
  a deletion, and the table's own invariant.  The laws are discharged for each table of the
  program in its own theory.
\<close>

locale keyed_store =
  fixes ok :: "'s \<Rightarrow> bool"
    and look :: "'s \<Rightarrow> 'k \<Rightarrow> 'v option"
    and put :: "'k \<Rightarrow> 'v \<Rightarrow> 's \<Rightarrow> 's"
    and del :: "'k \<Rightarrow> 's \<Rightarrow> 's"
  assumes ok_put: "ok s \<Longrightarrow> ok (put k v s)"
    and ok_del: "ok s \<Longrightarrow> ok (del k s)"
    and look_put: "ok s \<Longrightarrow> look (put k v s) k' = (if k' = k then Some v else look s k')"
    and look_del: "ok s \<Longrightarrow> look (del k s) k' = (if k' = k then None else look s k')"
begin

lemma look_put_del: "ok s \<Longrightarrow> look (put k v (del k s)) = look (put k v s)"
  by (auto simp: fun_eq_iff look_put look_del ok_del)

lemma look_del_put: "ok s \<Longrightarrow> look (del k (put k v s)) = look (del k s)"
  by (auto simp: fun_eq_iff look_put look_del ok_put)

lemma look_put_put: "ok s \<Longrightarrow> look (put k v (put k w s)) = look (put k v s)"
  by (auto simp: fun_eq_iff look_put ok_put)

lemma ok_fold_del: "ok s \<Longrightarrow> ok (fold del ks s)"
  by (induction ks arbitrary: s) (auto simp: ok_del)

lemma look_fold_del: "ok s \<Longrightarrow> look (fold del ks s) k = (if k \<in> set ks then None else look s k)"
  by (induction ks arbitrary: s) (auto simp: ok_del look_del)

lemma ok_fold_put: "ok s \<Longrightarrow> ok (fold (\<lambda>(k, v). put k v) kvs s)"
  by (induction kvs arbitrary: s) (auto simp: ok_put)

lemma look_fold_put:
  "ok s \<Longrightarrow> look (fold (\<lambda>(k, v). put k v) kvs s) k =
    (case map_of (rev kvs) k of Some v \<Rightarrow> Some v | None \<Rightarrow> look s k)"
proof (induction kvs arbitrary: s)
  case (Cons kv kvs)
  then show ?case
    by (cases kv) (auto simp: ok_put look_put map_add_def split: option.splits)
qed simp

end

text \<open>Association lists with distinct keys provide the interface.\<close>

definition al_ok :: "('k \<times> 'v) list \<Rightarrow> bool" where
  "al_ok al \<longleftrightarrow> distinct (map fst al)"

interpretation al_store: keyed_store al_ok map_of AList.update AList.delete
  by unfold_locales
    (auto simp: al_ok_def update_conv' delete_conv' distinct_update distinct_delete)

end
