(* ===== verification/CI_Types.thy ===== *)
theory CI_Types
imports Prelude
begin

text \<open>
  The data of package \<^verbatim>\<open>internal/ci\<close> (file ci.go): jobs, steps, produce actions, workflows,
  runners, runs, and the mutators of a run.

  The mutex of a run makes each mutator atomic, so a mutator is a function on the run.
  An action is a string in the code (the workflow file can put any text there), the states
  are only ever set to the five constants and form a datatype.  A \<^verbatim>\<open>time.Time\<close> is
  an \<^typ>\<open>int option\<close> in nanoseconds, \<^const>\<open>None\<close> being Go's zero time.
\<close>

type_synonym action = string
type_synonym gotime = "int option"

definition ActionOCIBuild :: action where
  "ActionOCIBuild = ''oci-build''"

definition ActionPublishProtocol :: action where
  "ActionPublishProtocol = ''publish-protocol''"

definition Toolchains :: "(string \<times> string) list" where
  "Toolchains = [
     (''go'', ''docker.io/library/golang:1.26-alpine''),
     (''rust'', ''docker.io/library/rust:1-alpine''),
     (''node'', ''docker.io/library/node:22-alpine''),
     (''python'', ''docker.io/library/python:3.12-alpine''),
     (''ruby'', ''docker.io/library/ruby:3.3-alpine''),
     (''dotnet'', ''docker.io/library/dotnet:8.0-sdk''),
     (''swift'', ''docker.io/library/swift:6.1''),
     (''xcode'', '''')]"

definition toolchain_image :: "string \<Rightarrow> string" where
  "toolchain_image tc = (case map_of Toolchains tc of Some img \<Rightarrow> img | None \<Rightarrow> '''')"

record step_def =
  step_name :: string
  step_run :: string
  step_env :: "(string \<times> string) list"
  step_dir :: string

record produce =
  pr_action :: action
  pr_context :: string
  pr_dockerfile :: string
  pr_tag :: string
  pr_path :: string
  pr_destination :: string
  pr_ref :: string
  pr_protocol :: string
  pr_name :: string
  pr_version :: string
  pr_file :: string
  pr_containerfile :: string

definition no_produce :: produce where
  "no_produce = \<lparr> pr_action = '''', pr_context = '''', pr_dockerfile = '''', pr_tag = '''',
     pr_path = '''', pr_destination = '''', pr_ref = '''', pr_protocol = '''', pr_name = '''',
     pr_version = '''', pr_file = '''', pr_containerfile = '''' \<rparr>"

record job =
  job_id :: string
  job_needs :: "string list"
  job_runs_on :: "string list"
  job_org :: string
  job_repo :: string
  job_branch :: string
  job_container :: string
  job_dir :: string
  job_steps :: "step_def list"
  job_produce :: produce

record workflow =
  wf_id :: string
  wf_name :: string
  wf_org :: string
  wf_repo :: string
  wf_branch :: string
  wf_on :: "string list"
  wf_jobs :: "job list"

record runner =
  rn_id :: string
  rn_labels :: "string list"
  rn_backend :: string
  rn_addr :: string
  rn_last_seen :: gotime
  rn_session_bound :: bool
  rn_toolchains :: "(string \<times> string) list"

datatype ci_state =
    StatePending | StateRunning | StateSuccess | StateFailure | StateCancelled

fun state_text :: "ci_state \<Rightarrow> string" where
  "state_text StatePending = ''pending''"
| "state_text StateRunning = ''running''"
| "state_text StateSuccess = ''success''"
| "state_text StateFailure = ''failure''"
| "state_text StateCancelled = ''cancelled''"

record job_instance =
  ji_job_id :: string
  ji_def_id :: string
  ji_state :: ci_state
  ji_result :: string

record run_rec =
  run_id :: string
  run_workflow_id :: string
  run_state :: ci_state
  run_jobs :: "job_instance list"
  run_started :: gotime
  run_finished :: gotime

section \<open>Mutators of a run\<close>

definition snapshot :: "run_rec \<Rightarrow> run_rec" where
  "snapshot r = \<lparr> run_id = run_id r, run_workflow_id = run_workflow_id r, run_state = run_state r,
     run_jobs = run_jobs r, run_started = run_started r, run_finished = run_finished r \<rparr>"

definition set_state :: "ci_state \<Rightarrow> run_rec \<Rightarrow> run_rec" where
  "set_state s r = r\<lparr> run_state := s \<rparr>"

fun set_first_job :: "string \<Rightarrow> ci_state \<Rightarrow> string \<Rightarrow> job_instance list \<Rightarrow> job_instance list" where
  "set_first_job d s res [] = []"
| "set_first_job d s res (i # is) =
     (if ji_def_id i = d
      then i\<lparr> ji_state := s, ji_result := (if res \<noteq> '''' then res else ji_result i) \<rparr> # is
      else i # set_first_job d s res is)"

definition set_job_state :: "string \<Rightarrow> ci_state \<Rightarrow> string \<Rightarrow> run_rec \<Rightarrow> run_rec" where
  "set_job_state d s res r = r\<lparr> run_jobs := set_first_job d s res (run_jobs r) \<rparr>"

text \<open>The state recorded for a job definition: that of its first instance.\<close>

definition job_status :: "run_rec \<Rightarrow> string \<Rightarrow> ci_state option" where
  "job_status r d = map_option ji_state (find (\<lambda>i. ji_def_id i = d) (run_jobs r))"

definition job_result :: "run_rec \<Rightarrow> string \<Rightarrow> string option" where
  "job_result r d = map_option ji_result (find (\<lambda>i. ji_def_id i = d) (run_jobs r))"

lemma snapshot_id [simp]: "snapshot r = r"
  by (simp add: snapshot_def)

lemma set_first_job_defs [simp]:
  "map ji_def_id (set_first_job d s res is) = map ji_def_id is"
  by (induction "is") auto

lemma set_first_job_ids [simp]:
  "map ji_job_id (set_first_job d s res is) = map ji_job_id is"
  by (induction "is") auto

lemma find_set_first_job:
  "find (\<lambda>i. ji_def_id i = d') (set_first_job d s res is) =
    (if d' = d
     then map_option (\<lambda>i. i\<lparr> ji_state := s, ji_result := (if res \<noteq> '''' then res else ji_result i) \<rparr>)
            (find (\<lambda>i. ji_def_id i = d) is)
     else find (\<lambda>i. ji_def_id i = d') is)"
  by (induction "is") auto

lemma job_status_set_job_state:
  "job_status (set_job_state d s res r) d' =
    (if d' = d then map_option (\<lambda>_. s) (job_status r d) else job_status r d')"
  by (simp add: job_status_def set_job_state_def find_set_first_job option.map_comp comp_def)

lemma job_result_set_job_state:
  "job_result (set_job_state d s res r) d' =
    (if d' = d \<and> res \<noteq> '''' then map_option (\<lambda>_. res) (job_result r d) else job_result r d')"
  by (simp add: job_result_def set_job_state_def find_set_first_job option.map_comp comp_def)

lemma job_status_set_state [simp]: "job_status (set_state s r) d = job_status r d"
  by (simp add: job_status_def set_state_def)

lemma job_result_set_state [simp]: "job_result (set_state s r) d = job_result r d"
  by (simp add: job_result_def set_state_def)

lemma run_state_set_state [simp]: "run_state (set_state s r) = s"
  by (simp add: set_state_def)

lemma run_state_set_job_state [simp]: "run_state (set_job_state d s res r) = run_state r"
  by (simp add: set_job_state_def)

lemma job_status_None_iff: "job_status r d = None \<longleftrightarrow> d \<notin> ji_def_id ` set (run_jobs r)"
  by (auto simp: job_status_def find_None_iff)

lemma run_jobs_defs_set_job_state [simp]:
  "map ji_def_id (run_jobs (set_job_state d s res r)) = map ji_def_id (run_jobs r)"
  by (simp add: set_job_state_def)

end
