(* ===== verification/CI_Registry.thy ===== *)
theory CI_Registry
imports CI_Types
begin

text \<open>
  The pool of CI runners (\<^verbatim>\<open>internal/ci/registry.go\<close>): registration, heartbeat, the score of a
  runner against the labels a job requires, the choice of a runner and the listing.

  The pool is a Go map from runner id to runner.  It is modelled by an association list with
  distinct keys, the order being that in which the map happens to be iterated.  The methods
  hold the lock throughout, so each is one step.  The clock \<^verbatim>\<open>time.Now()\<close> is an argument.
\<close>

type_synonym runner_registry = "(string \<times> runner) list"

datatype registry_error = RunnerIdRequired

definition new_registry :: runner_registry where
  "new_registry = []"

definition register :: "int \<Rightarrow> runner \<Rightarrow> runner_registry \<Rightarrow> registry_error + runner_registry" where
  "register now rn reg =
    (if rn_id rn = '''' then Inl RunnerIdRequired
     else
       let rn1 = (if rn_last_seen rn = None then rn\<lparr> rn_last_seen := Some now \<rparr> else rn);
           rn2 = (case map_of reg (rn_id rn) of
                    Some existing \<Rightarrow> rn1\<lparr> rn_labels := rn_labels existing \<rparr>
                  | None \<Rightarrow> rn1)
       in Inr (AList.update (rn_id rn) rn2 reg))"

definition heartbeat :: "int \<Rightarrow> string \<Rightarrow> runner_registry \<Rightarrow> bool \<times> runner_registry" where
  "heartbeat now i reg =
    (case map_of reg i of
       Some rn \<Rightarrow> (True, AList.update i (rn\<lparr> rn_last_seen := Some now \<rparr>) reg)
     | None \<Rightarrow> (False, reg))"

definition unregister :: "string \<Rightarrow> runner_registry \<Rightarrow> runner_registry" where
  "unregister i reg = AList.delete i reg"

definition registry_list :: "runner_registry \<Rightarrow> runner list" where
  "registry_list reg = map snd reg"

section \<open>Labels and scores\<close>

definition split_kv :: "string \<Rightarrow> (string \<times> string) option" where
  "split_kv s = cut_at CHR ''='' s"

definition has_label :: "string list \<Rightarrow> string \<Rightarrow> bool" where
  "has_label labels l = list_ex (\<lambda>x. x = l) labels"

fun runner_label :: "string list \<Rightarrow> string \<Rightarrow> string" where
  "runner_label [] key = ''''"
| "runner_label (l # ls) key =
     (case cut_at CHR ''='' l of
        Some (k, v) \<Rightarrow> if k \<noteq> [] \<and> k = key then v else runner_label ls key
      | None \<Rightarrow> runner_label ls key)"

fun score_loop :: "runner \<Rightarrow> string list \<Rightarrow> int \<Rightarrow> int" where
  "score_loop rn [] sc = sc"
| "score_loop rn (req # reqs) sc =
     (case split_kv req of
        None \<Rightarrow>
          if \<not> has_label (rn_labels rn) req then -1 else score_loop rn reqs (sc + 1)
      | Some (key, val) \<Rightarrow>
          let rv = runner_label (rn_labels rn) key in
          if key = ''toolchain'' then
            (if rv = val then score_loop rn reqs sc
             else if map_of (rn_toolchains rn) val \<noteq> None then score_loop rn reqs sc
             else if map_of Toolchains val \<noteq> None then score_loop rn reqs sc
             else if val = ''xcode'' \<and> runner_label (rn_labels rn) ''os'' = ''macos''
               then score_loop rn reqs sc
             else -1)
          else if rv \<noteq> val then -1
          else score_loop rn reqs (sc + 1))"

definition score :: "runner \<Rightarrow> string list \<Rightarrow> int" where
  "score rn required = score_loop rn required 0"

section \<open>Choice and listing\<close>

definition two_minutes :: int where
  "two_minutes = 2 * 60 * 1000000000"

definition is_stale :: "int \<Rightarrow> runner \<Rightarrow> bool" where
  "is_stale now rn =
    (case rn_last_seen rn of None \<Rightarrow> True | Some t \<Rightarrow> now - t > two_minutes)"

fun match_loop :: "int \<Rightarrow> string list \<Rightarrow> runner_registry \<Rightarrow> runner option \<times> int \<Rightarrow> runner option \<times> int" where
  "match_loop now labels [] b = b"
| "match_loop now labels ((i, rn) # rest) (best, best_score) =
     (if rn_session_bound rn then match_loop now labels rest (best, best_score)
      else if is_stale now rn then match_loop now labels rest (best, best_score)
      else
        let s = score rn labels in
        if s \<ge> 0 \<and> s > best_score then match_loop now labels rest (Some rn, s)
        else match_loop now labels rest (best, best_score))"

definition match_runner :: "int \<Rightarrow> string list \<Rightarrow> runner_registry \<Rightarrow> runner option" where
  "match_runner now labels reg = fst (match_loop now labels reg (None, -1))"

definition sort_runner :: "runner list \<Rightarrow> runner list" where
  "sort_runner = insertion_sort rn_id"

definition list_runners :: "runner_registry \<Rightarrow> runner list" where
  "list_runners reg = sort_runner (filter (\<lambda>rn. \<not> rn_session_bound rn) (registry_list reg))"

section \<open>Invariant of the pool\<close>

definition registry_ok :: "runner_registry \<Rightarrow> bool" where
  "registry_ok reg \<longleftrightarrow> al_ok reg \<and> (\<forall>(i, rn) \<in> set reg. rn_id rn = i \<and> i \<noteq> '''' \<and> rn_last_seen rn \<noteq> None)"

lemma map_of_ok: "registry_ok reg \<Longrightarrow> map_of reg i = Some rn \<longleftrightarrow> (i, rn) \<in> set reg"
  by (auto simp: registry_ok_def al_ok_def map_of_eq_Some_iff)

lemma registry_okI:
  assumes "al_ok reg"
    and "\<And>i rn. map_of reg i = Some rn \<Longrightarrow> rn_id rn = i \<and> i \<noteq> '''' \<and> rn_last_seen rn \<noteq> None"
  shows "registry_ok reg"
  using assms by (auto simp: registry_ok_def al_ok_def)

lemma registry_okD:
  "registry_ok reg \<Longrightarrow> map_of reg i = Some rn \<Longrightarrow> rn_id rn = i \<and> i \<noteq> '''' \<and> rn_last_seen rn \<noteq> None"
  by (auto simp: registry_ok_def dest: map_of_SomeD)

lemma registry_ok_al: "registry_ok reg \<Longrightarrow> al_ok reg"
  by (simp add: registry_ok_def)

lemma registry_ok_update:
  assumes "registry_ok reg" and "rn_id rn = i" "i \<noteq> ''''" "rn_last_seen rn \<noteq> None"
  shows "registry_ok (AList.update i rn reg)"
  using assms
  by (intro registry_okI al_store.ok_put)
    (auto simp: al_store.look_put registry_ok_al split: if_splits dest: registry_okD)

lemma register_ok: "registry_ok reg \<Longrightarrow> register now rn reg = Inr reg' \<Longrightarrow> registry_ok reg'"
  by (auto simp: register_def Let_def split: if_splits option.splits intro!: registry_ok_update)

lemma heartbeat_ok: "registry_ok reg \<Longrightarrow> registry_ok (snd (heartbeat now i reg))"
  by (auto simp: heartbeat_def split: option.splits dest: registry_okD intro!: registry_ok_update)

lemma unregister_ok: "registry_ok reg \<Longrightarrow> registry_ok (unregister i reg)"
  unfolding unregister_def
  by (intro registry_okI al_store.ok_del)
    (auto simp: al_store.look_del registry_ok_al split: if_splits dest: registry_okD)

section \<open>What a score means\<close>

text \<open>A runner satisfies one required label; the labels that count towards the score.\<close>

definition satisfies :: "runner \<Rightarrow> string \<Rightarrow> bool" where
  "satisfies rn req =
    (case split_kv req of
       None \<Rightarrow> req \<in> set (rn_labels rn)
     | Some (key, val) \<Rightarrow>
         runner_label (rn_labels rn) key = val \<or>
         key = ''toolchain'' \<and>
           (val \<in> fst ` set (rn_toolchains rn) \<or> val \<in> fst ` set Toolchains))"

definition counted :: "string \<Rightarrow> bool" where
  "counted req = (case split_kv req of None \<Rightarrow> True | Some (key, val) \<Rightarrow> key \<noteq> ''toolchain'')"

lemma satisfies_plain: "split_kv req = None \<Longrightarrow> satisfies rn req \<longleftrightarrow> req \<in> set (rn_labels rn)"
  by (simp add: satisfies_def)

lemma satisfies_kv:
  "split_kv req = Some (key, val) \<Longrightarrow> satisfies rn req \<longleftrightarrow>
    runner_label (rn_labels rn) key = val \<or> key = ''toolchain'' \<and>
      (val \<in> fst ` set (rn_toolchains rn) \<or> val \<in> fst ` set Toolchains)"
  by (simp add: satisfies_def)

lemma counted_plain: "split_kv req = None \<Longrightarrow> counted req"
  by (simp add: counted_def)

lemma counted_kv: "split_kv req = Some (key, val) \<Longrightarrow> counted req \<longleftrightarrow> key \<noteq> ''toolchain''"
  by (simp add: counted_def)

lemmas label_simps = satisfies_plain satisfies_kv counted_plain counted_kv

lemma has_label_iff [simp]: "has_label labels l \<longleftrightarrow> l \<in> set labels"
  by (auto simp: has_label_def list_ex_iff)

lemma xcode_known: "''xcode'' \<in> fst ` set Toolchains"
  by (simp add: Toolchains_def)

lemma map_of_not_None: "map_of al k \<noteq> None \<longleftrightarrow> k \<in> fst ` set al"
  by (simp add: map_of_eq_None_iff)

lemma score_loop_spec:
  "score_loop rn reqs sc =
    (if list_all (satisfies rn) reqs then sc + int (length (filter counted reqs)) else -1)"
proof (induction reqs arbitrary: sc)
  case (Cons req reqs)
  show ?case
  proof (cases "split_kv req")
    case None
    then show ?thesis using Cons.IH by (simp add: label_simps)
  next
    case (Some kv)
    obtain key val where kv: "kv = (key, val)" by (cases kv)
    show ?thesis
    proof (cases "key = ''toolchain''")
      case True
      then show ?thesis using Some kv Cons.IH xcode_known
        by (auto simp: label_simps Let_def map_of_not_None simp del: map_of_eq_None_iff not_None_eq)
    next
      case False
      then show ?thesis using Some kv Cons.IH by (simp add: label_simps Let_def)
    qed
  qed
qed simp

lemma score_spec:
  "score rn reqs =
    (if list_all (satisfies rn) reqs then int (length (filter counted reqs)) else -1)"
  by (simp add: score_def score_loop_spec)

definition eligible :: "int \<Rightarrow> string list \<Rightarrow> runner \<Rightarrow> bool" where
  "eligible now labels rn \<longleftrightarrow>
     \<not> rn_session_bound rn \<and> \<not> is_stale now rn \<and> list_all (satisfies rn) labels"

lemma eligible_score: "list_all (satisfies rn) labels \<longleftrightarrow> score rn labels \<ge> 0"
  by (simp add: score_spec)

text \<open>
  Since all compatible runners have the same score, the loop keeps the first eligible one.
\<close>

lemma match_loop_keep:
  "fst (match_loop now labels reg (best, int (length (filter counted labels)))) = best"
  by (induction reg) (auto simp: score_spec Let_def)

lemma match_loop_first:
  "fst (match_loop now labels reg (None, -1)) = find (eligible now labels) (map snd reg)"
proof (induction reg)
  case (Cons e reg)
  obtain i rn where e: "e = (i, rn)" by (cases e)
  show ?case
  proof (cases "eligible now labels rn")
    case True
    then show ?thesis
      by (simp add: e eligible_def score_spec Let_def match_loop_keep)
  next
    case False
    then have "fst (match_loop now labels (e # reg) (None, -1)) = fst (match_loop now labels reg (None, -1))"
      by (auto simp: e eligible_def score_spec Let_def)
    with False Cons.IH show ?thesis by (simp add: e)
  qed
qed simp

lemma match_runner_find: "match_runner now labels reg = find (eligible now labels) (registry_list reg)"
  by (simp add: match_runner_def match_loop_first registry_list_def)

section \<open>Reachable pools\<close>

inductive pool_step :: "runner_registry \<Rightarrow> runner_registry \<Rightarrow> bool" where
  step_register: "register now rn reg = Inr reg' \<Longrightarrow> pool_step reg reg'"
| step_heartbeat: "pool_step reg (snd (heartbeat now i reg))"
| step_unregister: "pool_step reg (unregister i reg)"

inductive pool_reach :: "runner_registry \<Rightarrow> bool" where
  pool_init: "pool_reach new_registry"
| pool_next: "pool_reach reg \<Longrightarrow> pool_step reg reg' \<Longrightarrow> pool_reach reg'"

inductive_cases pool_stepE: "pool_step reg reg'"

lemma pool_step_ok: "pool_step reg reg' \<Longrightarrow> registry_ok reg \<Longrightarrow> registry_ok reg'"
  by (elim pool_stepE) (auto simp: heartbeat_ok unregister_ok intro: register_ok)

lemma pool_reach_ok: "pool_reach reg \<Longrightarrow> registry_ok reg"
proof (induction rule: pool_reach.induct)
  case pool_init
  show ?case by (simp add: new_registry_def registry_ok_def al_ok_def)
qed (rule pool_step_ok)

text \<open>
  In every reachable pool the ids are non-empty, each runner is stored under its own id
  exactly once and has a last-seen time, and a step that does not remove a runner never
  changes the labels it was first registered with, whatever a later registration says.
\<close>
lemma registry_labels_stable:
  assumes "pool_reach reg" and "pool_step reg reg'"
    and "map_of reg i = Some rn" and "map_of reg' i = Some rn'"
  shows "registry_ok reg' \<and> rn_id rn' = i \<and> rn_labels rn' = rn_labels rn"
proof -
  have ok: "registry_ok reg" and ok': "registry_ok reg'"
    using assms(1,2) pool_reach_ok pool_step_ok by blast+
  have "rn_labels rn' = rn_labels rn"
    using assms(2,3,4) registry_ok_al[OF ok]
    by (elim pool_stepE)
      (auto simp: register_def heartbeat_def unregister_def Let_def al_store.look_put
        al_store.look_del split: if_splits option.splits)
  with ok' assms(4) show ?thesis by (auto dest: registry_okD)
qed

text \<open>
  C5: Choice of a runner.  The runner chosen is eligible (not bound to a session, seen within
  two minutes, satisfying every required label) and no eligible runner scores higher; none is
  chosen exactly when no runner of the pool is eligible.  Every eligible runner has the same
  score, the number of required labels other than toolchain labels, so that the score only
  separates compatible from incompatible runners.
\<close>
theorem match_runner_correct:
  "case match_runner now labels reg of
     None \<Rightarrow> list_all (\<lambda>rn. \<not> eligible now labels rn) (registry_list reg)
   | Some rn \<Rightarrow> rn \<in> set (registry_list reg) \<and> eligible now labels rn
       \<and> score rn labels = int (length (filter counted labels))
       \<and> list_all (\<lambda>rn'. score rn' labels \<le> score rn labels) (registry_list reg)"
proof (cases "find (eligible now labels) (registry_list reg)")
  case None
  then have "list_all (\<lambda>rn. \<not> eligible now labels rn) (registry_list reg)"
    by (simp add: find_None_iff list_all_iff)
  then show ?thesis by (simp add: match_runner_find None)
next
  case (Some rn)
  then have "rn \<in> set (registry_list reg)" "eligible now labels rn"
    by (auto simp: find_Some_iff)
  then show ?thesis
    by (auto simp: match_runner_find Some score_spec eligible_def list_all_iff)
qed

text \<open>
  The listing of the pool holds exactly the runners that are not bound to a session, each
  once, in increasing order of id, and does not depend on the order in which the map is
  iterated.
\<close>
lemma list_runners_canonical:
  assumes "registry_ok reg" and "registry_ok reg'" and "map_of reg = map_of reg'"
  shows "list_runners reg = list_runners reg'
    \<and> sorted_wrt (<) (map rn_id (list_runners reg))
    \<and> set (list_runners reg) = {rn. rn_session_bound rn = False \<and> map_of reg (rn_id rn) = Some rn}"
proof -
  let ?keep = "filter (\<lambda>rn. \<not> rn_session_bound rn)"
  have ids: "map rn_id (registry_list r) = map fst r" if "registry_ok r" for r
    using that by (auto simp: registry_ok_def registry_list_def)
  have dist: "distinct (map rn_id (?keep (registry_list r)))" if "registry_ok r" for r
    using that ids[OF that] by (metis distinct_map_filter registry_ok_al al_ok_def)
  have elems: "set (?keep (registry_list r))
      = {rn. rn_session_bound rn = False \<and> map_of r (rn_id rn) = Some rn}" if "registry_ok r" for r
  proof (intro set_eqI iffI)
    fix rn assume "rn \<in> set (?keep (registry_list r))"
    then show "rn \<in> {rn. rn_session_bound rn = False \<and> map_of r (rn_id rn) = Some rn}"
      using that by (auto simp: map_of_ok registry_list_def registry_ok_def)
  next
    fix rn assume "rn \<in> {rn. rn_session_bound rn = False \<and> map_of r (rn_id rn) = Some rn}"
    then show "rn \<in> set (?keep (registry_list r))"
      by (force simp: registry_list_def dest: map_of_SomeD)
  qed
  have srt: "list_runners r = sort_key rn_id (?keep (registry_list r))" for r
    by (simp add: list_runners_def sort_runner_def insertion_sort_eq_sort_key)
  have strict: "sorted_wrt (<) (map rn_id (list_runners r))" if "registry_ok r" for r
    using dist[OF that] by (simp add: srt strict_sorted_iff distinct_map)
  have sets: "set (list_runners r) = {rn. rn_session_bound rn = False \<and> map_of r (rn_id rn) = Some rn}"
    if "registry_ok r" for r
    using elems[OF that] by (simp add: srt)
  have inj: "inj_on rn_id (set (list_runners reg))"
    using strict[OF assms(1)] by (simp add: strict_sorted_iff distinct_map)
  have "list_runners reg = list_runners reg'"
  proof (rule map_inj_on[of rn_id])
    show "inj_on rn_id (set (list_runners reg) \<union> set (list_runners reg'))"
      using inj sets[OF assms(1)] sets[OF assms(2)] assms(3) by simp
    show "map rn_id (list_runners reg) = map rn_id (list_runners reg')"
      using strict[OF assms(1)] strict[OF assms(2)] sets[OF assms(1)] sets[OF assms(2)] assms(3)
      by (intro strict_sorted_equal) auto
  qed
  with strict[OF assms(1)] sets[OF assms(1)] show ?thesis by blast
qed

section \<open>Concrete pools\<close>

definition linux_runner :: runner where
  "linux_runner = \<lparr> rn_id = ''r1'', rn_labels = [''os=linux'', ''gpu''], rn_backend = ''host'',
     rn_addr = ''10.0.0.1'', rn_last_seen = Some 0, rn_session_bound = False, rn_toolchains = [] \<rparr>"

definition mac_runner :: runner where
  "mac_runner = \<lparr> rn_id = ''m1'', rn_labels = [''os=macos''], rn_backend = ''host'',
     rn_addr = ''10.0.0.2'', rn_last_seen = Some 5, rn_session_bound = False, rn_toolchains = [] \<rparr>"

lemma registry_labels_stable_witness:
  "rn_labels (linux_runner\<lparr> rn_last_seen := Some 9 \<rparr>) = rn_labels linux_runner \<and>
   map_of [(''r1'', linux_runner\<lparr> rn_last_seen := Some 9 \<rparr>)] ''r1''
     = Some (linux_runner\<lparr> rn_last_seen := Some 9 \<rparr>)"
proof -
  let ?reg = "[(''r1'', linux_runner)]"
  let ?again = "linux_runner\<lparr> rn_last_seen := Some 9, rn_labels := [''os=windows''] \<rparr>"
  let ?reg' = "[(''r1'', linux_runner\<lparr> rn_last_seen := Some 9 \<rparr>)]"
  have "register 0 linux_runner new_registry = Inr ?reg"
    by (simp add: register_def new_registry_def linux_runner_def)
  then have r: "pool_reach ?reg" using pool_init pool_next step_register by blast
  have "register 9 ?again ?reg = Inr ?reg'"
    by (simp add: register_def linux_runner_def)
  then have "pool_step ?reg ?reg'" by (rule step_register)
  from registry_labels_stable[OF r this, of "''r1''" linux_runner "linux_runner\<lparr> rn_last_seen := Some 9 \<rparr>"]
  show ?thesis by simp
qed

lemma list_runners_canonical_witness:
  "list_runners [(''r1'', linux_runner), (''m1'', mac_runner)] = [mac_runner, linux_runner]
   \<and> list_runners [(''m1'', mac_runner), (''r1'', linux_runner)] = [mac_runner, linux_runner]"
proof -
  let ?reg = "[(''r1'', linux_runner), (''m1'', mac_runner)]"
  let ?reg' = "[(''m1'', mac_runner), (''r1'', linux_runner)]"
  have "registry_ok ?reg" "registry_ok ?reg'"
    by (simp_all add: registry_ok_def al_ok_def linux_runner_def mac_runner_def)
  moreover have "map_of ?reg = map_of ?reg'" by (auto simp: fun_eq_iff)
  ultimately have "list_runners ?reg = list_runners ?reg'"
    using list_runners_canonical[of ?reg ?reg'] by blast
  moreover have "list_runners ?reg' = [mac_runner, linux_runner]"
    by (simp add: list_runners_def sort_runner_def insertion_sort_eq_sort_key registry_list_def
        linux_runner_def mac_runner_def less_char_def)
  ultimately show ?thesis by simp
qed

end
