(* ===== verification/CI_Scheduler.thy ===== *)
theory CI_Scheduler
imports CI_Registry
begin

text \<open>
  The scheduler of package \<^verbatim>\<open>internal/ci\<close> (file scheduler.go): it materialises the job
  instances of a workflow and executes the jobs in the order of their needs by repeated passes
  over the job list.

  The execution engine (\<^verbatim>\<open>Backend\<close>) is an interface of the program; it is a parameter: a
  function of the job, the runner chosen and the outside world (any type \<^typ>\<open>'w\<close>), which
  returns the result, the error and the log lines together with the next world.  The pool of
  runners and the clock belong to the world too, because runners register and expire while a
  job runs.  The map \<^verbatim>\<open>done\<close> only ever receives absent keys, with the value true; it is the
  list of its keys in the order of insertion, so that its Go length is the length of the list.
  \<^verbatim>\<open>byDef\<close> maps an id to the last job of that id and holds pointers into the workflow, so
  that the coordinates stamped on a job are written back to the workflow.
\<close>

record back_result =
  br_out :: string
  br_err :: "string option"
  br_lines :: "string list"

record 'w sched_env =
  se_view :: "'w \<Rightarrow> int \<times> runner_registry"
  se_back :: "job \<Rightarrow> runner option \<Rightarrow> 'w \<Rightarrow> back_result \<times> 'w"
  se_onlog :: bool

record 'w sched =
  sc_wf :: workflow
  sc_run :: run_rec
  sc_done :: "string list"
  sc_log :: "(string \<times> string) list"
  sc_world :: 'w

datatype sched_error = JobFailed string string | Unresolved

datatype resolve_error = NoRunnerMatches "string list"

section \<open>Runner and image of a job\<close>

definition resolve_runner :: "int \<Rightarrow> runner_registry \<Rightarrow> job \<Rightarrow> resolve_error + runner" where
  "resolve_runner now reg j =
    (case match_runner now (job_runs_on j) reg of
       None \<Rightarrow> Inl (NoRunnerMatches (job_runs_on j))
     | Some rn \<Rightarrow> Inr rn)"

definition pick_runner :: "'w sched_env \<Rightarrow> job \<Rightarrow> 'w \<Rightarrow> runner option" where
  "pick_runner env j w =
    (case se_view env w of
       (now, reg) \<Rightarrow> (case resolve_runner now reg j of Inl _ \<Rightarrow> None | Inr rn \<Rightarrow> Some rn))"

definition label_value :: "string \<Rightarrow> string \<Rightarrow> string" where
  "label_value label key =
    (case cut_at CHR ''='' label of
       Some (k, v) \<Rightarrow> if k = key then v else ''''
     | None \<Rightarrow> '''')"

fun image_for_labels :: "runner option \<Rightarrow> string list \<Rightarrow> string" where
  "image_for_labels rn [] = ''''"
| "image_for_labels rn (l # ls) =
     (let tc = label_value l ''toolchain'' in
      if tc = '''' then image_for_labels rn ls
      else case (case rn of Some r \<Rightarrow> map_of (rn_toolchains r) tc | None \<Rightarrow> None) of
             Some img \<Rightarrow> img
           | None \<Rightarrow>
               (case map_of Toolchains tc of
                  Some img \<Rightarrow> img
                | None \<Rightarrow> image_for_labels rn ls))"

definition image_for :: "job \<Rightarrow> runner option \<Rightarrow> string" where
  "image_for j rn =
    (if job_container j \<noteq> '''' then job_container j else image_for_labels rn (job_runs_on j))"

section \<open>Materialising a run\<close>

text \<open>The \<^verbatim>\<open>n\<close>-th call of newID returns \<^verbatim>\<open>fresh n\<close>.\<close>

definition new_run :: "(nat \<Rightarrow> string) \<Rightarrow> int \<Rightarrow> workflow \<Rightarrow> run_rec" where
  "new_run fresh now wk =
    \<lparr> run_id = ''run-'' @ fresh 0, run_workflow_id = wf_id wk, run_state = StatePending,
      run_jobs = map (\<lambda>(n, j). \<lparr> ji_job_id = fresh n, ji_def_id = job_id j,
                                ji_state = StatePending, ji_result = '''' \<rparr>)
                     (zip [1..<Suc (length (wf_jobs wk))] (wf_jobs wk)),
      run_started = Some now, run_finished = None \<rparr>"

section \<open>The walk\<close>

definition all_done :: "string list \<Rightarrow> string list \<Rightarrow> bool" where
  "all_done needs dn = list_all (\<lambda>n. n \<in> set dn) needs"

definition by_def :: "job list \<Rightarrow> string \<Rightarrow> nat option" where
  "by_def jobs d = map_of (rev (zip (map job_id jobs) [0..<length jobs])) d"

definition stamp :: "workflow \<Rightarrow> job \<Rightarrow> job" where
  "stamp wk j = j\<lparr> job_org := wf_org wk, job_repo := wf_repo wk, job_branch := wf_branch wk \<rparr>"

definition stamp_at :: "nat \<Rightarrow> workflow \<Rightarrow> workflow" where
  "stamp_at k wk = wk\<lparr> wf_jobs := (wf_jobs wk)[k := stamp wk (wf_jobs wk ! k)] \<rparr>"

definition zero_instance :: job_instance where
  "zero_instance = \<lparr> ji_job_id = '''', ji_def_id = '''', ji_state = StatePending, ji_result = '''' \<rparr>"

definition find_instance :: "job_instance list \<Rightarrow> string \<Rightarrow> job_instance" where
  "find_instance insts d =
    (case find (\<lambda>i. ji_def_id i = d) insts of
       Some i \<Rightarrow> i
     | None \<Rightarrow> if insts = [] then zero_instance else last insts)"

definition back_ok :: "back_result \<Rightarrow> bool" where
  "back_ok res \<longleftrightarrow> br_err res = None \<and> br_out res = ''ok''"

definition back_text :: "back_result \<Rightarrow> string" where
  "back_text res = (case br_err res of Some e \<Rightarrow> e | None \<Rightarrow> br_out res)"

definition run_job :: "'w sched_env \<Rightarrow> nat \<Rightarrow> 'w sched \<Rightarrow> (sched_error + unit) \<times> 'w sched" where
  "run_job env k st =
    (let wk = stamp_at k (sc_wf st);
         j = wf_jobs wk ! k;
         inst = find_instance (run_jobs (sc_run st)) (job_id j);
         run1 = set_job_state (job_id j) StateRunning '''' (sc_run st);
         out = se_back env j (pick_runner env j (sc_world st)) (sc_world st);
         res = fst out;
         log = (if se_onlog env then map (\<lambda>l. (ji_job_id inst, l)) (br_lines res) else []);
         st1 = st\<lparr> sc_wf := wk, sc_log := sc_log st @ log, sc_world := snd out \<rparr>
     in if \<not> back_ok res
        then (Inl (JobFailed (job_id j) (back_text res)),
              st1\<lparr> sc_run := set_job_state (job_id j) StateFailure (back_text res) run1 \<rparr>)
        else (Inr (),
              st1\<lparr> sc_run := set_job_state (job_id j) StateSuccess '''' run1,
                   sc_done := sc_done st @ [job_id j] \<rparr>))"

fun walk_pass :: "'w sched_env \<Rightarrow> string list \<Rightarrow> bool \<Rightarrow> 'w sched
    \<Rightarrow> (sched_error + bool) \<times> 'w sched" where
  "walk_pass env [] progress st = (Inr progress, st)"
| "walk_pass env (d # ds) progress st =
     (case by_def (wf_jobs (sc_wf st)) d of
        None \<Rightarrow> walk_pass env ds progress st
      | Some k \<Rightarrow>
          if d \<in> set (sc_done st) then walk_pass env ds progress st
          else if \<not> all_done (job_needs (wf_jobs (sc_wf st) ! k)) (sc_done st)
            then walk_pass env ds progress st
          else
            (case run_job env k st of
               (Inl e, st') \<Rightarrow> (Inl e, st')
             | (Inr _, st') \<Rightarrow> walk_pass env ds True st'))"

lemma by_def_Some:
  assumes "by_def jobs d = Some k"
  shows "k < length jobs \<and> job_id (jobs ! k) = d"
proof -
  have "(d, k) \<in> set (zip (map job_id jobs) [0..<length jobs])"
    using map_of_SomeD[OF assms[unfolded by_def_def]] by simp
  then show ?thesis by (auto simp: set_zip)
qed

lemma by_def_None: "by_def jobs d = None \<longleftrightarrow> d \<notin> job_id ` set jobs"
proof -
  have "by_def jobs d = None \<longleftrightarrow> d \<notin> fst ` set (zip (map job_id jobs) [0..<length jobs])"
    by (simp add: by_def_def map_of_eq_None_iff)
  also have "fst ` set (zip (map job_id jobs) [0..<length jobs]) = set (map job_id jobs)"
    by (simp only: set_map[symmetric] map_fst_zip length_map length_upt diff_zero)
  finally show ?thesis by simp
qed

lemma by_def_cong: "map job_id js = map job_id js' \<Longrightarrow> by_def js = by_def js'"
  by (auto simp: by_def_def fun_eq_iff dest: map_eq_imp_length_eq)

lemma stamp_simps [simp]:
  "job_id (stamp wk j) = job_id j" "job_needs (stamp wk j) = job_needs j"
  "stamp wk (stamp wk j) = stamp wk j"
  by (simp_all add: stamp_def)

definition job_ids :: "workflow \<Rightarrow> string list" where
  "job_ids wk = map job_id (wf_jobs wk)"

lemma job_ids_stamp_at [simp]: "job_ids (stamp_at k wk) = job_ids wk"
  by (cases "k < length (wf_jobs wk)")
    (simp_all add: job_ids_def stamp_at_def map_update list_update_same_conv list_update_beyond)

lemma run_job_ids: "job_ids (sc_wf (snd (run_job env k st))) = job_ids (sc_wf st)"
  by (simp add: run_job_def Let_def)

lemma run_job_done:
  assumes "run_job env k st = (Inr u, st')" and "k < length (wf_jobs (sc_wf st))"
  shows "sc_done st' = sc_done st @ [job_id (wf_jobs (sc_wf st) ! k)]"
  using assms by (auto simp: run_job_def Let_def stamp_at_def split: if_splits)

lemma walk_pass_ids: "job_ids (sc_wf (snd (walk_pass env ds p st))) = job_ids (sc_wf st)"
proof (induction env ds p st rule: walk_pass.induct)
  case (2 env d ds p st)
  then show ?case
    using run_job_ids[of env _ st]
    by (auto split: option.splits sum.splits prod.splits) (metis snd_conv)+
qed simp

lemma walk_pass_grows:
  "walk_pass env ds p st = (Inr q, st') \<Longrightarrow>
    \<exists>new. sc_done st' = sc_done st @ new \<and> set new \<inter> set (sc_done st) = {}
      \<and> set new \<subseteq> set (job_ids (sc_wf st)) \<and> (q \<longleftrightarrow> p \<or> new \<noteq> [])"
proof (induction env ds p st rule: walk_pass.induct)
  case (2 env d ds p st)
  show ?case
  proof (cases "by_def (wf_jobs (sc_wf st)) d")
    case None
    with 2 show ?thesis by simp
  next
    case (Some k)
    note k = by_def_Some[OF Some]
    show ?thesis
    proof (cases "d \<in> set (sc_done st) \<or> \<not> all_done (job_needs (wf_jobs (sc_wf st) ! k)) (sc_done st)")
      case True
      with 2 Some show ?thesis by (auto split: if_splits)
    next
      case False
      with 2(5) Some obtain u st1 where r: "run_job env k st = (Inr u, st1)"
        and w: "walk_pass env ds True st1 = (Inr q, st')"
        by (auto split: sum.splits prod.splits)
      from 2(4)[OF Some] False r w obtain new where n: "sc_done st' = sc_done st1 @ new"
        "set new \<inter> set (sc_done st1) = {}" "set new \<subseteq> set (job_ids (sc_wf st1))" q
        by auto
      have d1: "sc_done st1 = sc_done st @ [d]" using run_job_done[OF r] k by simp
      moreover have "job_ids (sc_wf st1) = job_ids (sc_wf st)" using run_job_ids[of env k st] r by simp
      moreover have "d \<in> set (job_ids (sc_wf st))" using k by (auto simp: job_ids_def)
      ultimately show ?thesis using n False by (intro exI[of _ "d # new"]) auto
    qed
  qed
qed simp

function walk_loop :: "'w sched_env \<Rightarrow> 'w sched \<Rightarrow> (sched_error + unit) \<times> 'w sched" where
  "walk_loop env st =
    (if length (sc_done st) < length (wf_jobs (sc_wf st)) then
       (case walk_pass env (job_ids (sc_wf st)) False st of
          (Inl e, st') \<Rightarrow> (Inl e, st')
        | (Inr progress, st') \<Rightarrow>
            if \<not> progress then (Inl Unresolved, st') else walk_loop env st')
     else (Inr (), st))"
  by pat_completeness auto
termination
proof (relation "measure (\<lambda>(env, st). card (set (job_ids (sc_wf st)) - set (sc_done st)))")
  fix env :: "'w sched_env" and st st' :: "'w sched" 
    and y :: "sched_error + bool" and p
  assume x: "(y, st') = walk_pass env (job_ids (sc_wf st)) False st" "y = Inr p" "\<not> \<not> p"
  then have "walk_pass env (job_ids (sc_wf st)) False st = (Inr True, st')" by simp
  from walk_pass_grows[OF this] obtain new where n: "sc_done st' = sc_done st @ new"
    "set new \<inter> set (sc_done st) = {}" "set new \<subseteq> set (job_ids (sc_wf st))" "new \<noteq> []" by auto
  have ids: "job_ids (sc_wf st') = job_ids (sc_wf st)"
    using walk_pass_ids[of env "job_ids (sc_wf st)" False st] x by (metis snd_conv)
  have "hd new \<in> set (job_ids (sc_wf st)) - set (sc_done st)" "hd new \<in> set (sc_done st')"
    using n by (auto simp: disjoint_iff)
  moreover have "set (sc_done st) \<subseteq> set (sc_done st')" using n by simp
  ultimately have "set (job_ids (sc_wf st')) - set (sc_done st') \<subset> set (job_ids (sc_wf st)) - set (sc_done st)"
    unfolding ids by blast
  then show "((env, st'), (env, st)) \<in> measure (\<lambda>(env, st). card (set (job_ids (sc_wf st)) - set (sc_done st)))"
    by (auto intro: psubset_card_mono)
qed simp

declare walk_loop.simps [simp del]

definition walk :: "'w sched_env \<Rightarrow> workflow \<Rightarrow> run_rec \<Rightarrow> 'w \<Rightarrow> (sched_error + unit) \<times> 'w sched" where
  "walk env wk run w =
    walk_loop env \<lparr> sc_wf = wk, sc_run = run, sc_done = [], sc_log = [], sc_world = w \<rparr>"

section \<open>Running a materialised run\<close>

definition run_scheduler :: "'w sched_env \<Rightarrow> workflow \<Rightarrow> run_rec \<Rightarrow> 'w
    \<Rightarrow> sched_error option \<times> 'w sched" where
  "run_scheduler env wk run w =
    (case walk env wk (set_state StateRunning run) w of
       (Inl e, st) \<Rightarrow>
         (Some e, st\<lparr> sc_run := (set_state StateFailure (sc_run st))
                                  \<lparr> run_finished := Some (fst (se_view env (sc_world st))) \<rparr> \<rparr>)
     | (Inr _, st) \<Rightarrow>
         (None, st\<lparr> sc_run := (set_state StateSuccess (sc_run st))
                                \<lparr> run_finished := Some (fst (se_view env (sc_world st))) \<rparr> \<rparr>))"

definition schedule :: "'w sched_env \<Rightarrow> (nat \<Rightarrow> string) \<Rightarrow> workflow \<Rightarrow> 'w
    \<Rightarrow> sched_error option \<times> 'w sched" where
  "schedule env fresh wk w =
    run_scheduler env wk (new_run fresh (fst (se_view env w)) wk) w"

end
