(* ===== verification/CI_Scheduler_Correct.thy ===== *)
theory CI_Scheduler_Correct
imports CI_Scheduler
begin

text \<open>
  Correctness of the scheduler: what a walk has executed when it succeeds, when a job fails and
  when it gives up, and that it succeeds on every acyclic workflow whose jobs succeed.

  The specification is sequential: \<^verbatim>\<open>run_order\<close> executes the given jobs one after the other on
  the outside world, and \<^verbatim>\<open>needs_met\<close> says that each job comes after all its needs.
\<close>

definition stamped_job :: "workflow \<Rightarrow> string \<Rightarrow> job option" where
  "stamped_job wk d = map_option (\<lambda>k. stamp wk (wf_jobs wk ! k)) (by_def (wf_jobs wk) d)"

fun run_order :: "'w sched_env \<Rightarrow> workflow \<Rightarrow> string list \<Rightarrow> 'w \<Rightarrow> 'w option" where
  "run_order env wk [] w = Some w"
| "run_order env wk (d # ds) w =
     (case stamped_job wk d of
        None \<Rightarrow> None
      | Some j \<Rightarrow>
          (case se_back env j (pick_runner env j w) w of
             (res, w') \<Rightarrow> if back_ok res then run_order env wk ds w' else None))"

fun needs_met :: "workflow \<Rightarrow> string list \<Rightarrow> string list \<Rightarrow> bool" where
  "needs_met wk before [] = True"
| "needs_met wk before (d # ds) =
     (case stamped_job wk d of
        None \<Rightarrow> False
      | Some j \<Rightarrow> all_done (job_needs j) before \<and> needs_met wk (before @ [d]) ds)"

lemma run_order_snoc:
  "run_order env wk (ds @ [d]) w =
    (case run_order env wk ds w of None \<Rightarrow> None | Some w1 \<Rightarrow> run_order env wk [d] w1)"
  by (induction ds arbitrary: w) (auto split: option.splits prod.splits)

lemma needs_met_snoc:
  "needs_met wk b (ds @ [d]) \<longleftrightarrow> needs_met wk b ds \<and> needs_met wk (b @ ds) [d]"
  by (induction ds arbitrary: b) (auto split: option.splits)

lemma stamped_job_Some:
  "stamped_job wk d = Some j \<Longrightarrow> job_id j = d \<and> (\<exists>j0 \<in> set (wf_jobs wk). j = stamp wk j0)"
  by (auto simp: stamped_job_def dest!: by_def_Some)

lemma stamped_job_None: "stamped_job wk d = None \<longleftrightarrow> d \<notin> set (job_ids wk)"
  by (simp add: stamped_job_def by_def_None job_ids_def)

section \<open>The invariant of the walk\<close>

definition same_flow :: "workflow \<Rightarrow> workflow \<Rightarrow> bool" where
  "same_flow wk wk' \<longleftrightarrow> wf_org wk' = wf_org wk \<and> wf_repo wk' = wf_repo wk \<and> wf_branch wk' = wf_branch wk
     \<and> map (stamp wk) (wf_jobs wk') = map (stamp wk) (wf_jobs wk)"

definition progress_ok :: "'w sched_env \<Rightarrow> workflow \<Rightarrow> 'w \<Rightarrow> string list \<Rightarrow> 'w \<Rightarrow> bool" where
  "progress_ok env wk w ds w' \<longleftrightarrow>
     distinct ds \<and> set ds \<subseteq> set (job_ids wk) \<and> needs_met wk [] ds \<and> run_order env wk ds w = Some w'"

definition statuses :: "run_rec \<Rightarrow> string list \<Rightarrow> string option \<Rightarrow> run_rec \<Rightarrow> bool" where
  "statuses run ds failed run' \<longleftrightarrow>
     (\<forall>d. job_status run' d =
        (if failed = Some d then map_option (\<lambda>_. StateFailure) (job_status run d)
         else if d \<in> set ds then map_option (\<lambda>_. StateSuccess) (job_status run d)
         else job_status run d))"

definition sched_inv :: "'w sched_env \<Rightarrow> workflow \<Rightarrow> run_rec \<Rightarrow> 'w \<Rightarrow> 'w sched \<Rightarrow> bool" where
  "sched_inv env wk run w st \<longleftrightarrow>
     same_flow wk (sc_wf st) \<and> progress_ok env wk w (sc_done st) (sc_world st)
     \<and> statuses run (sc_done st) None (sc_run st)"

definition failed_at :: "'w sched_env \<Rightarrow> workflow \<Rightarrow> run_rec \<Rightarrow> 'w \<Rightarrow> string \<Rightarrow> string \<Rightarrow> 'w sched \<Rightarrow> bool" where
  "failed_at env wk run w d msg st \<longleftrightarrow>
     (\<exists>j w1 res. progress_ok env wk w (sc_done st) w1 \<and> d \<notin> set (sc_done st)
        \<and> stamped_job wk d = Some j \<and> all_done (job_needs j) (sc_done st)
        \<and> se_back env j (pick_runner env j w1) w1 = (res, sc_world st)
        \<and> \<not> back_ok res \<and> msg = back_text res)
     \<and> statuses run (sc_done st) (Some d) (sc_run st)
     \<and> (msg \<noteq> '''' \<longrightarrow> job_result (sc_run st) d = map_option (\<lambda>_. msg) (job_status run d))"

lemma same_flow_ids: "same_flow wk wk' \<Longrightarrow> job_ids wk' = job_ids wk"
proof -
  assume "same_flow wk wk'"
  then have "map job_id (map (stamp wk) (wf_jobs wk')) = map job_id (map (stamp wk) (wf_jobs wk))"
    by (simp add: same_flow_def)
  then show ?thesis by (simp add: job_ids_def comp_def)
qed

lemma same_flow_by_def: "same_flow wk wk' \<Longrightarrow> by_def (wf_jobs wk') = by_def (wf_jobs wk)"
  using same_flow_ids by (intro by_def_cong) (simp add: job_ids_def)

lemma same_flow_stamp:
  assumes "same_flow wk wk'" and "k < length (wf_jobs wk')"
  shows "stamp wk' (wf_jobs wk' ! k) = stamp wk (wf_jobs wk ! k)"
    and "job_needs (wf_jobs wk' ! k) = job_needs (wf_jobs wk ! k)"
proof -
  have m: "map (stamp wk) (wf_jobs wk') = map (stamp wk) (wf_jobs wk)"
    using assms(1) by (simp add: same_flow_def)
  have l: "k < length (wf_jobs wk)" using assms(2) m by (metis length_map)
  have "stamp wk (wf_jobs wk' ! k) = stamp wk (wf_jobs wk ! k)"
    using arg_cong[OF m, of "\<lambda>xs. xs ! k"] assms(2) l by simp
  moreover have "stamp wk' = stamp wk"
    using assms(1) by (simp add: same_flow_def stamp_def fun_eq_iff)
  ultimately show "stamp wk' (wf_jobs wk' ! k) = stamp wk (wf_jobs wk ! k)" by simp
  then have "job_needs (stamp wk' (wf_jobs wk' ! k)) = job_needs (stamp wk (wf_jobs wk ! k))" by simp
  then show "job_needs (wf_jobs wk' ! k) = job_needs (wf_jobs wk ! k)" by (simp only: stamp_simps)
qed

lemma same_flow_stamp_at:
  assumes "same_flow wk wk'" and "k < length (wf_jobs wk')"
  shows "same_flow wk (stamp_at k wk')"
proof -
  have "stamp wk' = stamp wk" using assms(1) by (simp add: same_flow_def stamp_def fun_eq_iff)
  then have "map (stamp wk) (wf_jobs (stamp_at k wk')) = map (stamp wk) (wf_jobs wk')"
    using assms(2) by (simp add: stamp_at_def map_update list_update_same_conv)
  then show ?thesis using assms(1) by (simp add: same_flow_def stamp_at_def)
qed

lemma progress_ok_snoc:
  assumes "progress_ok env wk w ds w1" "stamped_job wk d = Some j" "d \<notin> set ds"
    and "all_done (job_needs j) ds" "se_back env j (pick_runner env j w1) w1 = (res, w2)" "back_ok res"
  shows "progress_ok env wk w (ds @ [d]) w2"
proof -
  have "d \<in> set (job_ids wk)" using assms(2) stamped_job_None[of wk d] by simp
  then show ?thesis
    using assms by (simp add: progress_ok_def run_order_snoc needs_met_snoc)
qed

lemma run_job_cases:
  assumes inv: "sched_inv env wk run w st" and k: "by_def (wf_jobs (sc_wf st)) d = Some k"
    and fresh: "d \<notin> set (sc_done st)"
    and ready: "all_done (job_needs (wf_jobs (sc_wf st) ! k)) (sc_done st)"
  shows "(\<exists>st'. run_job env k st = (Inr (), st') \<and> sched_inv env wk run w st'
            \<and> sc_done st' = sc_done st @ [d])
       \<or> (\<exists>st' msg. run_job env k st = (Inl (JobFailed d msg), st') \<and> failed_at env wk run w d msg st')"
proof -
  define j where "j = stamp wk (wf_jobs wk ! k)"
  obtain res w2 where out: "se_back env j (pick_runner env j (sc_world st)) (sc_world st) = (res, w2)"
    by (cases "se_back env j (pick_runner env j (sc_world st)) (sc_world st)")
  note flow = inv[unfolded sched_inv_def, THEN conjunct1]
  have kl: "k < length (wf_jobs (sc_wf st))" and kid: "job_id (wf_jobs (sc_wf st) ! k) = d"
    using by_def_Some[OF k] by auto
  have jk: "wf_jobs (stamp_at k (sc_wf st)) ! k = j" and flow': "same_flow wk (stamp_at k (sc_wf st))"
    using same_flow_stamp(1)[OF flow kl] same_flow_stamp_at[OF flow kl] kl
    by (simp_all add: stamp_at_def j_def)
  have jid: "job_id j = d" using jk kl kid by (simp add: stamp_at_def) (metis stamp_simps(1))
  have sj: "stamped_job wk d = Some j"
    using k same_flow_by_def[OF flow] by (simp add: stamped_job_def j_def)
  have needs: "all_done (job_needs j) (sc_done st)"
    using ready same_flow_stamp(2)[OF flow kl] by (simp add: j_def)
  have prog: "progress_ok env wk w (sc_done st) (sc_world st)" "statuses run (sc_done st) None (sc_run st)"
    using inv by (simp_all add: sched_inv_def)
  show ?thesis
  proof (cases "back_ok res")
    case True
    then have "progress_ok env wk w (sc_done st @ [d]) w2"
      using progress_ok_snoc[OF prog(1) sj fresh needs out] by simp
    moreover have "statuses run (sc_done st @ [d]) None
        (set_job_state d StateSuccess '''' (set_job_state d StateRunning '''' (sc_run st)))"
      using prog(2) fresh by (auto simp: statuses_def job_status_set_job_state option.map_comp comp_def)
    ultimately show ?thesis
      using True flow' by (intro disjI1) (simp add: run_job_def Let_def jk jid out sched_inv_def)
  next
    case False
    let ?run = "set_job_state d StateFailure (back_text res) (set_job_state d StateRunning '''' (sc_run st))"
    have "statuses run (sc_done st) (Some d) ?run"
      using prog(2) fresh by (auto simp: statuses_def job_status_set_job_state option.map_comp comp_def)
    moreover have "job_result ?run d = map_option (\<lambda>_. back_text res) (job_status run d)"
      if "back_text res \<noteq> ''''"
    proof -
      have "job_status (sc_run st) d = job_status run d"
        using prog(2) fresh by (simp add: statuses_def)
      then have "(job_result (sc_run st) d = None) = (job_status run d = None)"
        by (metis job_result_def job_status_def map_option_is_None)
      then show ?thesis using that
        by (auto simp: job_result_set_job_state split: option.splits)
    qed
    ultimately show ?thesis
      using False prog(1) fresh sj needs out
      by (intro disjI2) (simp add: run_job_def Let_def jk jid failed_at_def, blast)
  qed
qed

section \<open>Passes and the whole walk\<close>

definition stuck :: "workflow \<Rightarrow> string list \<Rightarrow> string list \<Rightarrow> bool" where
  "stuck wk dn ds \<longleftrightarrow>
     (\<forall>d \<in> set ds. d \<notin> set dn \<longrightarrow> (\<exists>j. stamped_job wk d = Some j \<and> \<not> all_done (job_needs j) dn))"

lemma stuck_Cons:
  "stuck wk dn (d # ds) \<longleftrightarrow>
    (d \<in> set dn \<or> (\<exists>j. stamped_job wk d = Some j \<and> \<not> all_done (job_needs j) dn)) \<and> stuck wk dn ds"
  by (auto simp: stuck_def)

lemma walk_pass_correct:
  assumes "sched_inv env wk run w st" and "set ds \<subseteq> set (job_ids wk)"
  shows "case walk_pass env ds p st of
      (Inl e, st') \<Rightarrow> \<exists>d msg. e = JobFailed d msg \<and> failed_at env wk run w d msg st'
    | (Inr q, st') \<Rightarrow> sched_inv env wk run w st' \<and> (\<not> q \<longrightarrow> stuck wk (sc_done st) ds)"
  using assms
proof (induction ds arbitrary: p st)
  case Nil
  then show ?case by (simp add: stuck_def)
next
  case (Cons d ds)
  note inv = Cons.prems(1)
  have flow: "same_flow wk (sc_wf st)" using inv by (simp add: sched_inv_def)
  have "d \<in> job_id ` set (wf_jobs (sc_wf st))"
  proof -
    have "d \<in> set (job_ids (sc_wf st))" using Cons.prems(2) same_flow_ids[OF flow] by simp
    then show ?thesis by (simp add: job_ids_def)
  qed
  then obtain k where k: "by_def (wf_jobs (sc_wf st)) d = Some k"
    using by_def_None[of "wf_jobs (sc_wf st)" d] by auto
  have kl: "k < length (wf_jobs (sc_wf st))" using by_def_Some[OF k] by simp
  have sj: "stamped_job wk d = Some (stamp wk (wf_jobs wk ! k))"
    using k same_flow_by_def[OF flow] by (simp add: stamped_job_def)
  have needs: "job_needs (wf_jobs (sc_wf st) ! k) = job_needs (stamp wk (wf_jobs wk ! k))"
    using same_flow_stamp(2)[OF flow kl] by simp
  show ?case
  proof (cases "d \<in> set (sc_done st) \<or> \<not> all_done (job_needs (wf_jobs (sc_wf st) ! k)) (sc_done st)")
    case True
    then have "walk_pass env (d # ds) p st = walk_pass env ds p st" using k by auto
    moreover have "stuck wk (sc_done st) (d # ds) \<longleftrightarrow> stuck wk (sc_done st) ds"
      using True needs sj by (auto simp only: stuck_Cons)
    moreover have "set ds \<subseteq> set (job_ids wk)" using Cons.prems(2) by simp
    note Cons.IH[OF inv this, of p]
    ultimately show ?thesis by (simp only:)
  next
    case False
    then consider (ok) st1 where "run_job env k st = (Inr (), st1)" "sched_inv env wk run w st1"
      | (bad) st1 msg where "run_job env k st = (Inl (JobFailed d msg), st1)" "failed_at env wk run w d msg st1"
      using run_job_cases[OF inv k] by blast
    then show ?thesis
    proof cases
      case ok
      then have eq: "walk_pass env (d # ds) p st = walk_pass env ds True st1" using False k by simp
      obtain r st2 where r: "walk_pass env ds True st1 = (r, st2)" by (cases "walk_pass env ds True st1")
      have "q" if "r = Inr q" for q using walk_pass_grows[of env ds True st1 q st2] r that by auto
      then show ?thesis
        using Cons.IH[OF ok(2), of True] Cons.prems(2) eq r by (auto split: sum.splits)
    next
      case bad
      then show ?thesis using False k by simp
    qed
  qed
qed

lemma walk_loop_correct:
  "sched_inv env wk run w st \<Longrightarrow>
    (case walk_loop env st of
      (Inl (JobFailed d msg), st') \<Rightarrow> failed_at env wk run w d msg st'
    | (Inl Unresolved, st') \<Rightarrow> sched_inv env wk run w st' \<and> stuck wk (sc_done st') (job_ids wk)
        \<and> length (sc_done st') < length (wf_jobs wk)
    | (Inr _, st') \<Rightarrow> sched_inv env wk run w st' \<and> length (wf_jobs wk) \<le> length (sc_done st'))"
proof (induction env st rule: walk_loop.induct)
  case (1 env st)
  have ids: "job_ids (sc_wf st) = job_ids wk"
    using 1(2) by (auto simp: sched_inv_def intro: same_flow_ids)
  then have len: "length (wf_jobs (sc_wf st)) = length (wf_jobs wk)"
    by (metis job_ids_def length_map)
  show ?case
  proof (cases "length (sc_done st) < length (wf_jobs (sc_wf st))")
    case False
    then show ?thesis using 1(2) len by (simp add: walk_loop.simps)
  next
    case True
    obtain r st1 where w: "walk_pass env (job_ids (sc_wf st)) False st = (r, st1)"
      by (cases "walk_pass env (job_ids (sc_wf st)) False st")
    note pass = walk_pass_correct[OF 1(2), of "job_ids (sc_wf st)" False, unfolded w]
    show ?thesis
    proof (cases r)
      case (Inl e)
      then show ?thesis using pass ids True w by (auto simp: walk_loop.simps[of env st])
    next
      case (Inr q)
      show ?thesis
      proof (cases q)
        case True
        then show ?thesis
          using 1(1)[of r st1 q] pass ids Inr w \<open>length (sc_done st) < length (wf_jobs (sc_wf st))\<close>
          by (simp add: walk_loop.simps[of env st])
      next
        case False
        have "sc_done st1 = sc_done st" using walk_pass_grows[of env _ False st q st1] w Inr False by auto
        then show ?thesis
          using False pass ids Inr w True len by (simp add: walk_loop.simps[of env st])
      qed
    qed
  qed
qed

lemma sched_inv_start:
  "sched_inv env wk run w \<lparr> sc_wf = wk, sc_run = run, sc_done = [], sc_log = [], sc_world = w \<rparr>"
  by (simp add: sched_inv_def same_flow_def progress_ok_def statuses_def)

lemmas walk_correct = walk_loop_correct[OF sched_inv_start, folded walk_def]

section \<open>Runs\<close>

lemma status_finished [simp]:
  "job_status (r\<lparr> run_finished := t \<rparr>) d = job_status r d"
  "job_result (r\<lparr> run_finished := t \<rparr>) d = job_result r d"
  by (simp_all add: job_status_def job_result_def)

lemma statuses_set_state [simp]: "statuses (set_state s run) ds f run' = statuses run ds f run'"
  by (simp add: statuses_def)

lemma new_run_defs: "map ji_def_id (run_jobs (new_run fresh now wk)) = job_ids wk"
proof -
  have "map ji_def_id (run_jobs (new_run fresh now wk)) =
      map job_id (map snd (zip [1..<Suc (length (wf_jobs wk))] (wf_jobs wk)))"
    by (simp add: new_run_def case_prod_unfold comp_def)
  also have "map snd (zip [1..<Suc (length (wf_jobs wk))] (wf_jobs wk)) = wf_jobs wk"
    by (rule map_snd_zip) (simp only: length_upt diff_Suc_1)
  finally show ?thesis by (simp add: job_ids_def)
qed

lemma new_run_status:
  "job_status (new_run fresh now wk) d = (if d \<in> set (job_ids wk) then Some StatePending else None)"
proof -
  let ?run = "new_run fresh now wk"
  have st: "\<forall>i \<in> set (run_jobs ?run). ji_state i = StatePending"
    by (auto simp: new_run_def)
  have "ji_def_id ` set (run_jobs ?run) = set (job_ids wk)"
    using new_run_defs[of fresh now wk] by (metis set_map)
  then have "d \<notin> set (job_ids wk) \<longleftrightarrow> job_status ?run d = None"
    using job_status_None_iff[of ?run d] by simp
  moreover have "s = StatePending" if "job_status ?run d = Some s" for s
    using that st nth_mem by (auto simp: job_status_def find_Some_iff)
  ultimately show ?thesis by (metis not_Some_eq)
qed

lemma covered_ids:
  assumes "distinct ds" "set ds \<subseteq> set (job_ids wk)" "length (wf_jobs wk) \<le> length ds"
  shows "distinct (job_ids wk) \<and> set ds = set (job_ids wk)"
proof -
  have "length (job_ids wk) \<le> card (set ds)"
    using assms by (simp add: job_ids_def distinct_card)
  moreover have "card (set ds) \<le> card (set (job_ids wk))" using assms(2) by (intro card_mono) auto
  moreover have "card (set (job_ids wk)) \<le> length (job_ids wk)" by (rule card_length)
  ultimately have c: "card (set ds) = card (set (job_ids wk))" "card (set (job_ids wk)) = length (job_ids wk)"
    by linarith+
  then show ?thesis
    using assms(2) card_subset_eq[of "set (job_ids wk)" "set ds"] by (simp add: card_distinct)
qed

text \<open>
  C1: When a run succeeds, its job ids are distinct and every job has been executed exactly
  once, one after the other, each after all its needs, on the runner chosen for it, and each
  returned ok; the run is recorded as a success with a finishing time, and every job as well.
\<close>
theorem schedule_success:
  assumes "schedule env fresh wk w = (None, st)"
  shows "distinct (job_ids wk) \<and> distinct (sc_done st) \<and> set (sc_done st) = set (job_ids wk)
    \<and> needs_met wk [] (sc_done st) \<and> run_order env wk (sc_done st) w = Some (sc_world st)
    \<and> run_state (sc_run st) = StateSuccess \<and> run_finished (sc_run st) \<noteq> None
    \<and> list_all (\<lambda>d. job_status (sc_run st) d = Some StateSuccess) (job_ids wk)"
proof -
  let ?run = "new_run fresh (fst (se_view env w)) wk"
  obtain r st1 where w: "walk env wk (set_state StateRunning ?run) w = (r, st1)"
    by (cases "walk env wk (set_state StateRunning ?run) w")
  from assms w obtain u where r: "r = Inr u"
    and st: "st = st1\<lparr> sc_run := (set_state StateSuccess (sc_run st1))
                       \<lparr> run_finished := Some (fst (se_view env (sc_world st1))) \<rparr> \<rparr>"
    by (auto simp: schedule_def run_scheduler_def split: sum.splits)
  have inv: "sched_inv env wk (set_state StateRunning ?run) w st1" "length (wf_jobs wk) \<le> length (sc_done st1)"
    using walk_correct[of env wk "set_state StateRunning ?run" w] w r by simp_all
  then have p: "progress_ok env wk w (sc_done st1) (sc_world st1)" "statuses ?run (sc_done st1) None (sc_run st1)"
    by (simp_all add: sched_inv_def)
  have c: "distinct (job_ids wk) \<and> set (sc_done st1) = set (job_ids wk)"
    using covered_ids[of "sc_done st1" wk] p(1) inv(2) by (simp add: progress_ok_def)
  have "list_all (\<lambda>d. job_status (sc_run st1) d = Some StateSuccess) (job_ids wk)"
    using p(2) c by (simp add: list_all_iff statuses_def new_run_status)
  then show ?thesis using p(1) c by (simp add: st progress_ok_def set_state_def job_status_def)
qed

text \<open>
  C3: When a run fails because a job failed, exactly the jobs before it have been executed, in
  an order that respects the needs, all successfully; the failing job was ready and its call
  is the last one made; the run and the job are recorded as failures (the job with the message),
  the jobs executed before as successes, and every other job is left pending.
\<close>
theorem schedule_job_failure:
  assumes "schedule env fresh wk w = (Some (JobFailed d msg), st)"
  shows "failed_at env wk (new_run fresh (fst (se_view env w)) wk) w d msg st
    \<and> run_state (sc_run st) = StateFailure \<and> run_finished (sc_run st) \<noteq> None
    \<and> job_status (sc_run st) d = Some StateFailure
    \<and> list_all (\<lambda>d'. d' = d \<or> job_status (sc_run st) d'
          = Some (if d' \<in> set (sc_done st) then StateSuccess else StatePending)) (job_ids wk)"
proof -
  let ?run = "new_run fresh (fst (se_view env w)) wk"
  obtain r st1 where w: "walk env wk (set_state StateRunning ?run) w = (r, st1)"
    by (cases "walk env wk (set_state StateRunning ?run) w")
  from assms w have r: "r = Inl (JobFailed d msg)"
    and st: "st = st1\<lparr> sc_run := (set_state StateFailure (sc_run st1))
                       \<lparr> run_finished := Some (fst (se_view env (sc_world st1))) \<rparr> \<rparr>"
    by (auto simp: schedule_def run_scheduler_def split: sum.splits)
  have f: "failed_at env wk (set_state StateRunning ?run) w d msg st1"
    using walk_correct[of env wk "set_state StateRunning ?run" w] w r by simp
  then have s: "statuses ?run (sc_done st1) (Some d) (sc_run st1)"
    and d: "d \<in> set (job_ids wk)"
    using stamped_job_None[of wk d] by (auto simp: failed_at_def)
  have same: "statuses ?run ds fd (sc_run st) = statuses ?run ds fd (sc_run st1)" for ds fd
    by (simp add: st statuses_def)
  have "failed_at env wk ?run w d msg st"
    using f same by (simp add: failed_at_def st)
  moreover have "job_status (sc_run st1) d = Some StateFailure"
    using s d by (simp add: statuses_def new_run_status)
  moreover have "list_all (\<lambda>d'. d' = d \<or> job_status (sc_run st1) d'
          = Some (if d' \<in> set (sc_done st1) then StateSuccess else StatePending)) (job_ids wk)"
    using s by (simp add: list_all_iff statuses_def new_run_status)
  ultimately show ?thesis by (simp add: st)
qed

text \<open>
  The scheduler gives up with the unresolved error only when a job cannot become ready:
  either two jobs have the same id, or some job is not done; and every job not done waits for a
  need that is not done.  What was executed until then respects the needs, and the run fails.
\<close>
lemma schedule_unresolved:
  assumes "schedule env fresh wk w = (Some Unresolved, st)"
  shows "(\<not> distinct (job_ids wk) \<or> set (sc_done st) \<subset> set (job_ids wk))
    \<and> stuck wk (sc_done st) (job_ids wk)
    \<and> progress_ok env wk w (sc_done st) (sc_world st)
    \<and> run_state (sc_run st) = StateFailure"
proof -
  let ?run = "set_state StateRunning (new_run fresh (fst (se_view env w)) wk)"
  obtain r st1 where w: "walk env wk ?run w = (r, st1)" by (cases "walk env wk ?run w")
  from assms w have r: "r = Inl Unresolved"
    and st: "st = st1\<lparr> sc_run := (set_state StateFailure (sc_run st1))
                       \<lparr> run_finished := Some (fst (se_view env (sc_world st1))) \<rparr> \<rparr>"
    by (auto simp: schedule_def run_scheduler_def split: sum.splits)
  have u: "sched_inv env wk ?run w st1" "stuck wk (sc_done st1) (job_ids wk)"
    "length (sc_done st1) < length (job_ids wk)"
    using walk_correct[of env wk ?run w] w r by (simp_all add: job_ids_def)
  have p: "progress_ok env wk w (sc_done st1) (sc_world st1)" using u(1) by (simp add: sched_inv_def)
  have "set (sc_done st1) \<noteq> set (job_ids wk)" if "distinct (job_ids wk)"
    using u(3) p that by (metis distinct_card progress_ok_def nat_neq_iff)
  then show ?thesis using u p by (auto simp: st progress_ok_def psubset_eq set_state_def)
qed

text \<open>
  C2: Completeness of the scheduler: when the ids are distinct, every need names a job of the
  workflow and the needs are acyclic (witnessed by a rank), and the engine returns ok for every
  job, the run succeeds.
\<close>
theorem schedule_acyclic_succeeds:
  assumes "distinct (job_ids wk)"
    and "\<And>j n. j \<in> set (wf_jobs wk) \<Longrightarrow> n \<in> set (job_needs j) \<Longrightarrow>
           n \<in> set (job_ids wk) \<and> rank n < (rank (job_id j) :: nat)"
    and "\<And>j rn v. back_ok (fst (se_back env j rn v))"
  shows "fst (schedule env fresh wk w) = None"
proof -
  let ?run = "set_state StateRunning (new_run fresh (fst (se_view env w)) wk)"
  obtain r st where w: "walk env wk ?run w = (r, st)" by (cases "walk env wk ?run w")
  note correct = walk_correct[of env wk ?run w, unfolded w]
  show ?thesis
  proof (cases r)
    case (Inr u)
    then show ?thesis using w by (simp add: schedule_def run_scheduler_def)
  next
    case (Inl e)
    show ?thesis
    proof (cases e)
      case (JobFailed d msg)
      then obtain j w1 res where "se_back env j (pick_runner env j w1) w1 = (res, sc_world st)" "\<not> back_ok res"
        using correct Inl by (auto simp: failed_at_def)
      then show ?thesis using assms(3)[of j "pick_runner env j w1" w1] by simp
    next
      case Unresolved
      then have s: "stuck wk (sc_done st) (job_ids wk)" "length (sc_done st) < length (job_ids wk)"
        "distinct (sc_done st)"
        using correct Inl by (simp_all add: sched_inv_def progress_ok_def job_ids_def)
      have "\<not> set (job_ids wk) \<subseteq> set (sc_done st)"
        using s(2,3) assms(1) by (metis List.finite_set card_mono distinct_card not_less)
      then obtain d0 where d0: "d0 \<in> set (job_ids wk) \<and> d0 \<notin> set (sc_done st)" by blast
      obtain d where d: "d \<in> set (job_ids wk) \<and> d \<notin> set (sc_done st)"
        and least: "\<And>d'. d' \<in> set (job_ids wk) \<and> d' \<notin> set (sc_done st) \<Longrightarrow> rank d \<le> rank d'"
        using ex_has_least_nat[of "\<lambda>d. d \<in> set (job_ids wk) \<and> d \<notin> set (sc_done st)" d0 rank] d0 by blast
      obtain j n where j: "stamped_job wk d = Some j" "n \<in> set (job_needs j)" "n \<notin> set (sc_done st)"
        using s(1) d by (auto simp: stuck_def all_done_def list_all_iff)
      obtain j0 where j0: "j0 \<in> set (wf_jobs wk)" "j = stamp wk j0" "job_id j = d"
        using stamped_job_Some[OF j(1)] by blast
      have "n \<in> set (job_ids wk)" "rank n < rank d" using assms(2)[of j0 n] j0 j by auto
      then show ?thesis using least[of n] j(3) by simp
    qed
  qed
qed

section \<open>Concrete runs\<close>

text \<open>
  An engine that records the ids of the jobs it runs and fails the job called bad, and
  workflows over it: a chain listed in the wrong order, one with a bad job, and a cycle.
\<close>

definition demo_job :: "string \<Rightarrow> string list \<Rightarrow> job" where
  "demo_job d needs = \<lparr> job_id = d, job_needs = needs, job_runs_on = [''os=linux''], job_org = '''',
     job_repo = '''', job_branch = '''', job_container = '''', job_dir = '''', job_steps = [],
     job_produce = no_produce \<rparr>"

definition demo_flow :: "job list \<Rightarrow> workflow" where
  "demo_flow js = \<lparr> wf_id = ''w1'', wf_name = ''demo'', wf_org = ''o'', wf_repo = ''r'',
     wf_branch = ''main'', wf_on = [''push''], wf_jobs = js \<rparr>"

definition demo_env :: "string list sched_env" where
  "demo_env = \<lparr> se_view = (\<lambda>_. (0, [])),
     se_back = (\<lambda>j rn w. (\<lparr> br_out = (if job_id j = ''bad'' then ''boom'' else ''ok''), br_err = None,
                            br_lines = [job_id j] \<rparr>, w @ [job_id j])),
     se_onlog = True \<rparr>"

definition demo_fresh :: "nat \<Rightarrow> string" where
  "demo_fresh n = replicate n CHR ''i''"

definition chain :: workflow where
  "chain = demo_flow [demo_job ''test'' [''build''], demo_job ''build'' []]"

definition broken :: workflow where
  "broken = demo_flow [demo_job ''bad'' [''build''], demo_job ''build'' [], demo_job ''end'' [''bad'']]"

definition cyclic :: workflow where
  "cyclic = demo_flow [demo_job ''a'' [''b''], demo_job ''b'' [''a''], demo_job ''c'' []]"

lemma schedule_success_witness:
  "distinct (sc_done (snd (schedule demo_env demo_fresh chain [])))
   \<and> set (sc_done (snd (schedule demo_env demo_fresh chain []))) = {''test'', ''build''}"
proof -
  have "fst (schedule demo_env demo_fresh chain []) = None" by code_simp
  then have "schedule demo_env demo_fresh chain [] = (None, snd (schedule demo_env demo_fresh chain []))"
    by (metis prod.collapse)
  from schedule_success[OF this] show ?thesis
    by (simp add: job_ids_def chain_def demo_flow_def demo_job_def)
qed

lemma schedule_job_failure_witness:
  "job_status (sc_run (snd (schedule demo_env demo_fresh broken []))) ''bad'' = Some StateFailure"
proof -
  have "fst (schedule demo_env demo_fresh broken []) = Some (JobFailed ''bad'' ''boom'')" by code_simp
  then have "schedule demo_env demo_fresh broken []
      = (Some (JobFailed ''bad'' ''boom''), snd (schedule demo_env demo_fresh broken []))"
    by (metis prod.collapse)
  from schedule_job_failure[OF this] show ?thesis by blast
qed

lemma schedule_unresolved_witness:
  "stuck cyclic (sc_done (snd (schedule demo_env demo_fresh cyclic []))) [''a'', ''b'', ''c'']"
proof -
  have "fst (schedule demo_env demo_fresh cyclic []) = Some Unresolved" by code_simp
  then have "schedule demo_env demo_fresh cyclic []
      = (Some Unresolved, snd (schedule demo_env demo_fresh cyclic []))"
    by (metis prod.collapse)
  from schedule_unresolved[OF this] show ?thesis
    by (simp add: job_ids_def cyclic_def demo_flow_def demo_job_def)
qed

lemma schedule_acyclic_succeeds_witness:
  "fst (schedule (demo_env\<lparr> se_back := (\<lambda>j rn w. (\<lparr> br_out = ''ok'', br_err = None, br_lines = [] \<rparr>, w)) \<rparr>)
     demo_fresh chain []) = None"
  by (rule schedule_acyclic_succeeds[where rank = "\<lambda>d. if d = ''build'' then 0 else 1"])
    (auto simp: job_ids_def chain_def demo_flow_def demo_job_def back_ok_def)

end
