(* ===== verification/CI_LogHub.thy ===== *)
theory CI_LogHub
imports CI_Types
begin

text \<open>
  The live log bus of CI jobs (\<^verbatim>\<open>internal/ci/runbus.go\<close>): per job a bounded tail of lines, the
  subscribers' channels and the terminal state.

  A Go channel of capacity 256 is its buffer and a closed flag; channels are numbered in the
  order of their creation.  Each operation holds the mutex of the job log for its whole body,
  so it is one step, unless it blocks on a channel while it holds the mutex: then the mutex is
  never released (nobody else can reach the channel yet) and the job log is marked as locked,
  on which every later operation on the job blocks.  Sending on a closed channel and closing
  it twice panic in Go and are the outcome \<^verbatim>\<open>Panics\<close>.
\<close>

record log_event =
  ev_line :: string
  ev_state :: string
  ev_closed :: bool

record chan =
  ch_buf :: "log_event list"
  ch_closed :: bool

record job_log =
  jl_lines :: "string list"
  jl_subs :: "nat list"
  jl_state :: string
  jl_closed :: bool
  jl_locked :: bool

record hub =
  hub_jobs :: "string \<Rightarrow> job_log option"
  hub_chans :: "chan list"

datatype 'a outcome = Returns 'a hub | Blocks hub | Panics

definition job_log_tail :: nat where
  "job_log_tail = 500"

definition chan_cap :: nat where
  "chan_cap = 256"

definition new_hub :: hub where
  "new_hub = \<lparr> hub_jobs = (\<lambda>_. None), hub_chans = [] \<rparr>"

definition empty_log :: job_log where
  "empty_log = \<lparr> jl_lines = [], jl_subs = [], jl_state = '''', jl_closed = False, jl_locked = False \<rparr>"

definition line_event :: "string \<Rightarrow> log_event" where
  "line_event l = \<lparr> ev_line = l, ev_state = '''', ev_closed = False \<rparr>"

definition final_event :: "string \<Rightarrow> log_event" where
  "final_event s = \<lparr> ev_line = '''', ev_state = s, ev_closed = True \<rparr>"

definition hub_get :: "string \<Rightarrow> hub \<Rightarrow> job_log" where
  "hub_get d h = (case hub_jobs h d of Some j \<Rightarrow> j | None \<Rightarrow> empty_log)"

definition hub_set :: "string \<Rightarrow> job_log \<Rightarrow> hub \<Rightarrow> hub" where
  "hub_set d j h = h\<lparr> hub_jobs := (hub_jobs h)(d \<mapsto> j) \<rparr>"

section \<open>Operations\<close>

text \<open>A send in a select with a default branch: the event is dropped when the buffer is full.\<close>

definition try_send :: "log_event \<Rightarrow> chan \<Rightarrow> chan" where
  "try_send ev c = (if length (ch_buf c) < chan_cap then c\<lparr> ch_buf := ch_buf c @ [ev] \<rparr> else c)"

fun fan_out :: "log_event \<Rightarrow> nat list \<Rightarrow> chan list \<Rightarrow> chan list option" where
  "fan_out ev [] cs = Some cs"
| "fan_out ev (n # ns) cs =
     (if ch_closed (cs ! n) then None else fan_out ev ns (cs[n := try_send ev (cs ! n)]))"

definition hub_log :: "string \<Rightarrow> string \<Rightarrow> hub \<Rightarrow> unit outcome" where
  "hub_log d line h =
    (let j = hub_get d h in
     if jl_locked j then Blocks (hub_set d j h)
     else
       let ls = jl_lines j @ [line];
           ls' = (if length ls > job_log_tail then drop (length ls - job_log_tail) ls else ls)
       in case fan_out (line_event line) (jl_subs j) (hub_chans h) of
            None \<Rightarrow> Panics
          | Some cs \<Rightarrow> Returns () (hub_set d (j\<lparr> jl_lines := ls' \<rparr>) (h\<lparr> hub_chans := cs \<rparr>)))"

fun finish_subs :: "string \<Rightarrow> nat list \<Rightarrow> chan list \<Rightarrow> chan list option" where
  "finish_subs s [] cs = Some cs"
| "finish_subs s (n # ns) cs =
     (if ch_closed (cs ! n) then None
      else finish_subs s ns (cs[n := (try_send (final_event s) (cs ! n))\<lparr> ch_closed := True \<rparr>]))"

definition hub_finish :: "string \<Rightarrow> string \<Rightarrow> hub \<Rightarrow> unit outcome" where
  "hub_finish d s h =
    (let j = hub_get d h in
     if jl_locked j then Blocks (hub_set d j h)
     else case finish_subs s (jl_subs j) (hub_chans h) of
            None \<Rightarrow> Panics
          | Some cs \<Rightarrow>
              Returns () (hub_set d (j\<lparr> jl_state := s, jl_closed := True, jl_subs := [] \<rparr>)
                (h\<lparr> hub_chans := cs \<rparr>)))"

definition fill_chan :: "string list \<Rightarrow> chan" where
  "fill_chan ls = fold (\<lambda>l. try_send (line_event l)) ls \<lparr> ch_buf = [], ch_closed = False \<rparr>"

definition hub_subscribe :: "string \<Rightarrow> hub \<Rightarrow> nat outcome" where
  "hub_subscribe d h =
    (let j = hub_get d h; c = fill_chan (jl_lines j); n = length (hub_chans h) in
     if jl_locked j then Blocks (hub_set d j h)
     else if jl_state j \<noteq> '''' then
       (if length (ch_buf c) < chan_cap
        then Returns n (hub_set d j (h\<lparr> hub_chans := hub_chans h @
               [c\<lparr> ch_buf := ch_buf c @ [final_event (jl_state j)], ch_closed := True \<rparr>] \<rparr>))
        else Blocks (hub_set d (j\<lparr> jl_locked := True \<rparr>) (h\<lparr> hub_chans := hub_chans h @ [c] \<rparr>)))
     else Returns n (hub_set d (j\<lparr> jl_subs := jl_subs j @ [n] \<rparr>) (h\<lparr> hub_chans := hub_chans h @ [c] \<rparr>)))"

definition hub_cancel :: "string \<Rightarrow> nat \<Rightarrow> hub \<Rightarrow> unit outcome" where
  "hub_cancel d n h =
    (let j = hub_get d h in
     if jl_locked j then Blocks h
     else if n \<in> set (jl_subs j) then
       (if ch_closed (hub_chans h ! n) then Panics
        else Returns () (hub_set d (j\<lparr> jl_subs := remove1 n (jl_subs j) \<rparr>)
               (h\<lparr> hub_chans := (hub_chans h)[n := (hub_chans h ! n)\<lparr> ch_closed := True \<rparr>] \<rparr>)))
     else Returns () h)"

text \<open>The reader of a channel (language semantics): the next event, if one is buffered.\<close>

definition hub_recv :: "nat \<Rightarrow> hub \<Rightarrow> log_event option \<times> hub" where
  "hub_recv n h =
    (case ch_buf (hub_chans h ! n) of
       [] \<Rightarrow> (None, h)
     | ev # rest \<Rightarrow>
         (Some ev, h\<lparr> hub_chans := (hub_chans h)[n := (hub_chans h ! n)\<lparr> ch_buf := rest \<rparr>] \<rparr>))"

section \<open>Reachable hubs\<close>

fun hub_after :: "'a outcome \<Rightarrow> hub option" where
  "hub_after (Returns _ h) = Some h"
| "hub_after (Blocks h) = Some h"
| "hub_after Panics = None"

inductive hub_reach :: "hub \<Rightarrow> bool" where
  reach_new: "hub_reach new_hub"
| reach_log: "hub_reach h \<Longrightarrow> hub_after (hub_log d l h) = Some h' \<Longrightarrow> hub_reach h'"
| reach_finish: "hub_reach h \<Longrightarrow> hub_after (hub_finish d s h) = Some h' \<Longrightarrow> hub_reach h'"
| reach_subscribe: "hub_reach h \<Longrightarrow> hub_after (hub_subscribe d h) = Some h' \<Longrightarrow> hub_reach h'"
| reach_cancel: "hub_reach h \<Longrightarrow> hub_after (hub_cancel d n h) = Some h' \<Longrightarrow> hub_reach h'"
| reach_recv: "hub_reach h \<Longrightarrow> n < length (hub_chans h) \<Longrightarrow> hub_reach (snd (hub_recv n h))"

text \<open>
  The invariant: tails and buffers are bounded, every subscriber is an open channel and belongs
  to one job.
\<close>

definition chans_ok :: "chan list \<Rightarrow> bool" where
  "chans_ok cs \<longleftrightarrow> (\<forall>c \<in> set cs. length (ch_buf c) \<le> chan_cap)"

definition subs_open :: "nat list \<Rightarrow> chan list \<Rightarrow> bool" where
  "subs_open ns cs \<longleftrightarrow> distinct ns \<and> (\<forall>n \<in> set ns. n < length cs \<and> \<not> ch_closed (cs ! n))"

definition hub_ok :: "hub \<Rightarrow> bool" where
  "hub_ok h \<longleftrightarrow> chans_ok (hub_chans h) \<and>
     (\<forall>d. length (jl_lines (hub_get d h)) \<le> job_log_tail
        \<and> subs_open (jl_subs (hub_get d h)) (hub_chans h)) \<and>
     (\<forall>d d'. d \<noteq> d' \<longrightarrow> set (jl_subs (hub_get d h)) \<inter> set (jl_subs (hub_get d' h)) = {})"

lemma hub_get_set [simp]: "hub_get d' (hub_set d j h) = (if d' = d then j else hub_get d' h)"
  by (simp add: hub_get_def hub_set_def)

lemma hub_get_chans [simp]: "hub_get d (h\<lparr> hub_chans := cs \<rparr>) = hub_get d h"
  by (simp add: hub_get_def)

lemma hub_chans_set [simp]: "hub_chans (hub_set d j h) = hub_chans h"
  by (simp add: hub_set_def)

lemma try_send_simps [simp]:
  "ch_closed (try_send ev c) = ch_closed c"
  "length (ch_buf c) \<le> chan_cap \<Longrightarrow> length (ch_buf (try_send ev c)) \<le> chan_cap"
  by (auto simp: try_send_def)

lemma fan_out_Some:
  assumes "subs_open ns cs"
  shows "\<exists>cs'. fan_out ev ns cs = Some cs' \<and> length cs' = length cs
    \<and> (\<forall>i < length cs. cs' ! i = (if i \<in> set ns then try_send ev (cs ! i) else cs ! i))"
  using assms
proof (induction ns arbitrary: cs)
  case (Cons n ns)
  then have "subs_open ns (cs[n := try_send ev (cs ! n)])"
    by (auto simp: subs_open_def nth_list_update)
  from Cons.IH[OF this] Cons.prems show ?case
    by (auto simp: subs_open_def nth_list_update)
qed simp

lemma finish_subs_Some:
  assumes "subs_open ns cs"
  shows "\<exists>cs'. finish_subs s ns cs = Some cs' \<and> length cs' = length cs
    \<and> (\<forall>i < length cs. cs' ! i =
         (if i \<in> set ns then (try_send (final_event s) (cs ! i))\<lparr> ch_closed := True \<rparr> else cs ! i))"
  using assms
proof (induction ns arbitrary: cs)
  case (Cons n ns)
  then have "subs_open ns (cs[n := (try_send (final_event s) (cs ! n))\<lparr> ch_closed := True \<rparr>])"
    by (auto simp: subs_open_def nth_list_update)
  from Cons.IH[OF this] Cons.prems show ?case
    by (auto simp: subs_open_def nth_list_update)
qed simp

lemma fill_chan_spec:
  "fill_chan ls = \<lparr> ch_buf = map line_event (take chan_cap ls), ch_closed = False \<rparr>"
proof -
  have "fold (\<lambda>l. try_send (line_event l)) ls \<lparr> ch_buf = b, ch_closed = False \<rparr>
      = \<lparr> ch_buf = b @ map line_event (take (chan_cap - length b) ls), ch_closed = False \<rparr>"
    if "length b \<le> chan_cap" for b
    using that
  proof (induction ls arbitrary: b)
    case (Cons l ls)
    show ?case
    proof (cases "length b < chan_cap")
      case True
      then have "chan_cap - length b = Suc (chan_cap - length (b @ [line_event l]))" by simp
      then show ?thesis using Cons.IH[of "b @ [line_event l]"] True by (simp add: try_send_def)
    next
      case False
      then show ?thesis using Cons.IH[of b] Cons.prems by (simp add: try_send_def)
    qed
  qed simp
  from this[of "[]"] show ?thesis by (simp add: fill_chan_def)
qed

section \<open>The invariant holds and nothing panics\<close>

lemma chans_ok_nth: "chans_ok cs \<longleftrightarrow> (\<forall>i < length cs. length (ch_buf (cs ! i)) \<le> chan_cap)"
  by (simp add: chans_ok_def all_set_conv_all_nth)

lemma hub_ok_setI:
  assumes "hub_ok h" "chans_ok cs" "length (jl_lines j) \<le> job_log_tail" "subs_open (jl_subs j) cs"
    and "\<And>d'. d' \<noteq> d \<Longrightarrow> subs_open (jl_subs (hub_get d' h)) cs"
    and "\<And>d'. d' \<noteq> d \<Longrightarrow> set (jl_subs j) \<inter> set (jl_subs (hub_get d' h)) = {}"
  shows "hub_ok (hub_set d j (h\<lparr> hub_chans := cs \<rparr>))"
  using assms unfolding hub_ok_def by (auto simp: disjoint_iff)

lemma hub_set_same_chans: "hub_set d j h = hub_set d j (h\<lparr> hub_chans := hub_chans h \<rparr>)"
  by simp

lemma hub_okD:
  assumes "hub_ok h"
  shows "chans_ok (hub_chans h)" "length (jl_lines (hub_get d h)) \<le> job_log_tail"
    "subs_open (jl_subs (hub_get d h)) (hub_chans h)"
    "d \<noteq> d' \<Longrightarrow> set (jl_subs (hub_get d h)) \<inter> set (jl_subs (hub_get d' h)) = {}"
  using assms by (auto simp: hub_ok_def)

lemma hub_ok_touch:
  assumes "hub_ok h" and "jl_lines j = jl_lines (hub_get d h)" "jl_subs j = jl_subs (hub_get d h)"
  shows "hub_ok (hub_set d j h)"
proof -
  have "hub_ok (hub_set d j (h\<lparr> hub_chans := hub_chans h \<rparr>))"
    using hub_okD[OF assms(1)] assms by (intro hub_ok_setI) auto
  then show ?thesis by simp
qed

lemma hub_log_cases:
  assumes "hub_ok h"
  obtains (locked) h' where "jl_locked (hub_get d h)" "hub_log d line h = Blocks h'" "hub_ok h'"
    | (logged) cs ls where "\<not> jl_locked (hub_get d h)"
        "ls = (let ls = jl_lines (hub_get d h) @ [line] in drop (length ls - job_log_tail) ls)"
        "hub_log d line h = Returns () (hub_set d ((hub_get d h)\<lparr> jl_lines := ls \<rparr>) (h\<lparr> hub_chans := cs \<rparr>))"
        "length cs = length (hub_chans h)"
        "\<forall>i < length cs. cs ! i = (if i \<in> set (jl_subs (hub_get d h))
           then try_send (line_event line) (hub_chans h ! i) else hub_chans h ! i)"
        "hub_ok (hub_set d ((hub_get d h)\<lparr> jl_lines := ls \<rparr>) (h\<lparr> hub_chans := cs \<rparr>))"
proof (cases "jl_locked (hub_get d h)")
  case True
  then show ?thesis using locked hub_ok_touch[OF assms refl refl] by (simp add: hub_log_def)
next
  case False
  note ok = hub_okD[OF assms]
  obtain cs where cs: "fan_out (line_event line) (jl_subs (hub_get d h)) (hub_chans h) = Some cs"
    "length cs = length (hub_chans h)"
    "\<forall>i < length (hub_chans h). cs ! i = (if i \<in> set (jl_subs (hub_get d h))
       then try_send (line_event line) (hub_chans h ! i) else hub_chans h ! i)"
    using fan_out_Some[OF ok(3)] by blast
  define ls where "ls = (let ls = jl_lines (hub_get d h) @ [line] in drop (length ls - job_log_tail) ls)"
  have ls: "ls = (let ls = jl_lines (hub_get d h) @ [line]
      in if length ls > job_log_tail then drop (length ls - job_log_tail) ls else ls)"
    by (simp add: ls_def Let_def)
  have open': "subs_open (jl_subs (hub_get d' h)) cs" for d'
    using ok(3)[of d'] cs by (auto simp: subs_open_def)
  have "hub_ok (hub_set d ((hub_get d h)\<lparr> jl_lines := ls \<rparr>) (h\<lparr> hub_chans := cs \<rparr>))"
  proof (rule hub_ok_setI[OF assms])
    show "chans_ok cs" using ok(1) cs by (auto simp: chans_ok_nth)
    show "length (jl_lines ((hub_get d h)\<lparr> jl_lines := ls \<rparr>)) \<le> job_log_tail"
      by (simp add: ls_def Let_def)
  qed (use open' ok(4)[of d] in auto)
  then show ?thesis
    using logged[of ls cs] False cs by (simp add: hub_log_def ls_def Let_def)
qed

lemma hub_finish_cases:
  assumes "hub_ok h"
  obtains (locked) h' where "jl_locked (hub_get d h)" "hub_finish d s h = Blocks h'" "hub_ok h'"
    | (finished) cs where "\<not> jl_locked (hub_get d h)"
        "hub_finish d s h = Returns () (hub_set d ((hub_get d h)\<lparr> jl_state := s, jl_closed := True, jl_subs := [] \<rparr>)
            (h\<lparr> hub_chans := cs \<rparr>))"
        "length cs = length (hub_chans h)"
        "\<forall>i < length cs. cs ! i = (if i \<in> set (jl_subs (hub_get d h))
           then (try_send (final_event s) (hub_chans h ! i))\<lparr> ch_closed := True \<rparr> else hub_chans h ! i)"
        "hub_ok (hub_set d ((hub_get d h)\<lparr> jl_state := s, jl_closed := True, jl_subs := [] \<rparr>)
            (h\<lparr> hub_chans := cs \<rparr>))"
proof (cases "jl_locked (hub_get d h)")
  case True
  then show ?thesis using locked hub_ok_touch[OF assms refl refl] by (simp add: hub_finish_def)
next
  case False
  note ok = hub_okD[OF assms]
  obtain cs where cs: "finish_subs s (jl_subs (hub_get d h)) (hub_chans h) = Some cs"
    "length cs = length (hub_chans h)"
    "\<forall>i < length (hub_chans h). cs ! i = (if i \<in> set (jl_subs (hub_get d h))
       then (try_send (final_event s) (hub_chans h ! i))\<lparr> ch_closed := True \<rparr> else hub_chans h ! i)"
    using finish_subs_Some[OF ok(3)] by blast
  have open': "subs_open (jl_subs (hub_get d' h)) cs" if "d' \<noteq> d" for d'
    using ok(3)[of d'] ok(4)[OF that] cs by (auto simp: subs_open_def)
  have "hub_ok (hub_set d ((hub_get d h)\<lparr> jl_state := s, jl_closed := True, jl_subs := [] \<rparr>)
      (h\<lparr> hub_chans := cs \<rparr>))"
  proof (rule hub_ok_setI[OF assms])
    show "chans_ok cs" using ok(1) cs by (auto simp: chans_ok_nth)
  qed (use open' ok(2)[of d] in \<open>auto simp: subs_open_def\<close>)
  then show ?thesis using finished[of cs] False cs by (simp add: hub_finish_def)
qed

lemma subs_open_append: "subs_open ns cs \<Longrightarrow> subs_open ns (cs @ [c])"
  by (auto simp: subs_open_def nth_append)

lemma chans_ok_append: "chans_ok (cs @ [c]) \<longleftrightarrow> chans_ok cs \<and> length (ch_buf c) \<le> chan_cap"
  by (auto simp: chans_ok_def)

lemma hub_subscribe_ok:
  assumes "hub_ok h" and "hub_after (hub_subscribe d h) = Some h'"
  shows "hub_ok h'"
proof -
  let ?j = "hub_get d h" and ?n = "length (hub_chans h)"
  note ok = hub_okD[OF assms(1)]
  have fill: "length (ch_buf (fill_chan ls)) \<le> chan_cap" "ch_closed (fill_chan ls) = False" for ls
    by (simp_all add: fill_chan_spec)
  have quiet: "hub_ok (hub_set d j (h\<lparr> hub_chans := hub_chans h @ [c] \<rparr>))"
    if "length (ch_buf c) \<le> chan_cap" "jl_lines j = jl_lines ?j" "jl_subs j = jl_subs ?j" for c j
    using that ok ok(2)[of d] by (intro hub_ok_setI[OF assms(1)]) (auto simp: chans_ok_append subs_open_append)
  have new: "hub_ok (hub_set d (?j\<lparr> jl_subs := jl_subs ?j @ [?n] \<rparr>)
      (h\<lparr> hub_chans := hub_chans h @ [fill_chan ls] \<rparr>))" for ls
  proof (rule hub_ok_setI[OF assms(1)])
    show "subs_open (jl_subs (?j\<lparr> jl_subs := jl_subs ?j @ [?n] \<rparr>)) (hub_chans h @ [fill_chan ls])"
      using ok(3)[of d] fill by (auto simp: subs_open_def nth_append)
    show "set (jl_subs (?j\<lparr> jl_subs := jl_subs ?j @ [?n] \<rparr>)) \<inter> set (jl_subs (hub_get d' h)) = {}"
      if "d' \<noteq> d" for d'
      using ok(3)[of d'] ok(4)[of d d'] that by (auto simp: subs_open_def)
  qed (use ok ok(2)[of d] fill in \<open>auto simp: chans_ok_append subs_open_append\<close>)
  show ?thesis
    using assms(2) new quiet fill hub_ok_touch[OF assms(1) refl refl]
    by (auto simp: hub_subscribe_def Let_def split: if_splits)
qed

lemma nth_upd: "xs[n := x] ! i = (if i = n \<and> n < length xs then x else xs ! i)"
  by (cases "n < length xs") (auto simp: nth_list_update list_update_beyond)

lemma hub_cancel_ok:
  assumes "hub_ok h"
  shows "hub_cancel d n h \<noteq> Panics \<and> (\<forall>h'. hub_after (hub_cancel d n h) = Some h' \<longrightarrow> hub_ok h')"
proof -
  let ?j = "hub_get d h"
  let ?cs = "(hub_chans h)[n := (hub_chans h ! n)\<lparr> ch_closed := True \<rparr>]"
  note ok = hub_okD[OF assms]
  have "hub_ok (hub_set d (?j\<lparr> jl_subs := remove1 n (jl_subs ?j) \<rparr>) (h\<lparr> hub_chans := ?cs \<rparr>))"
    if "n \<in> set (jl_subs ?j)"
  proof (rule hub_ok_setI[OF assms])
    show "chans_ok ?cs" using ok(1) by (auto simp: chans_ok_nth nth_upd)
    show "subs_open (jl_subs (?j\<lparr> jl_subs := remove1 n (jl_subs ?j) \<rparr>)) ?cs"
      using ok(3)[of d] by (auto simp: subs_open_def nth_upd)
    show "subs_open (jl_subs (hub_get d' h)) ?cs" if "d' \<noteq> d" for d'
      using ok(3)[of d'] ok(4)[OF that] \<open>n \<in> set (jl_subs ?j)\<close>
      by (auto simp: subs_open_def nth_upd)
    show "set (jl_subs (?j\<lparr> jl_subs := remove1 n (jl_subs ?j) \<rparr>)) \<inter> set (jl_subs (hub_get d' h)) = {}"
      if "d' \<noteq> d" for d'
      using ok(4)[of d d'] that by (auto dest: notin_set_remove1 simp: disjoint_iff)
  qed (use ok(2)[of d] in auto)
  moreover have "\<not> ch_closed (hub_chans h ! n)" if "n \<in> set (jl_subs ?j)"
    using ok(3)[of d] that by (auto simp: subs_open_def)
  ultimately show ?thesis using assms by (auto simp: hub_cancel_def Let_def)
qed

lemma hub_recv_ok: "hub_ok h \<Longrightarrow> hub_ok (snd (hub_recv n h))"
proof -
  assume a: "hub_ok h"
  have "hub_ok (h\<lparr> hub_chans := (hub_chans h)[n := (hub_chans h ! n)\<lparr> ch_buf := rest \<rparr>] \<rparr>)"
    if "ch_buf (hub_chans h ! n) = ev # rest" for ev rest
  proof -
    have "length rest \<le> chan_cap" if "n < length (hub_chans h)"
      using that hub_okD(1)[OF a] \<open>ch_buf (hub_chans h ! n) = ev # rest\<close>
      by (fastforce simp: chans_ok_nth)
    then show ?thesis using a
      by (auto simp: hub_ok_def chans_ok_nth subs_open_def nth_upd)
  qed
  then show ?thesis using a by (auto simp: hub_recv_def split: list.splits)
qed

lemma hub_log_ok:
  assumes "hub_ok h"
  shows "hub_log d l h \<noteq> Panics \<and> (\<forall>h'. hub_after (hub_log d l h) = Some h' \<longrightarrow> hub_ok h')"
  by (rule hub_log_cases[OF assms, of d l]) auto

lemma hub_finish_ok:
  assumes "hub_ok h"
  shows "hub_finish d s h \<noteq> Panics \<and> (\<forall>h'. hub_after (hub_finish d s h) = Some h' \<longrightarrow> hub_ok h')"
  by (rule hub_finish_cases[OF assms, of d s]) auto

lemma hub_reach_ok: "hub_reach h \<Longrightarrow> hub_ok h"
proof (induction rule: hub_reach.induct)
  case reach_new
  show ?case by (simp add: hub_ok_def new_hub_def hub_get_def chans_ok_def subs_open_def empty_log_def)
qed (use hub_log_ok hub_finish_ok hub_cancel_ok hub_subscribe_ok hub_recv_ok in blast)+

section \<open>What a subscriber receives\<close>

fun log_lines :: "string \<Rightarrow> string list \<Rightarrow> hub \<Rightarrow> hub option" where
  "log_lines d [] h = Some h"
| "log_lines d (l # ls) h =
     (case hub_log d l h of Returns _ h' \<Rightarrow> log_lines d ls h' | _ \<Rightarrow> None)"

lemma try_send_take:
  "ch_buf c = take chan_cap evs \<Longrightarrow> ch_buf (try_send ev c) = take chan_cap (evs @ [ev])"
  by (cases "length evs < chan_cap") (auto simp: try_send_def)

lemma log_lines_subscriber:
  assumes "hub_ok h" "\<not> jl_locked (hub_get d h)" "n \<in> set (jl_subs (hub_get d h))"
    and "ch_buf (hub_chans h ! n) = take chan_cap evs"
  shows "\<exists>h'. log_lines d ls h = Some h' \<and> hub_ok h' \<and> \<not> jl_locked (hub_get d h')
    \<and> n \<in> set (jl_subs (hub_get d h'))
    \<and> ch_buf (hub_chans h' ! n) = take chan_cap (evs @ map line_event ls)"
  using assms
proof (induction ls arbitrary: h evs)
  case (Cons l ls)
  have n: "n < length (hub_chans h)" using hub_okD(3)[OF Cons.prems(1), of d] Cons.prems(3)
    by (auto simp: subs_open_def)
  show ?case
  proof (rule hub_log_cases[OF Cons.prems(1), of d l])
    fix cs tail
    let ?h = "hub_set d ((hub_get d h)\<lparr> jl_lines := tail \<rparr>) (h\<lparr> hub_chans := cs \<rparr>)"
    assume a: "hub_log d l h = Returns () ?h" "length cs = length (hub_chans h)" "hub_ok ?h"
      "\<forall>i < length cs. cs ! i = (if i \<in> set (jl_subs (hub_get d h))
         then try_send (line_event l) (hub_chans h ! i) else hub_chans h ! i)"
    have "ch_buf (hub_chans ?h ! n) = take chan_cap (evs @ [line_event l])"
      using a n Cons.prems(3) try_send_take[OF Cons.prems(4)] by simp
    note IH = Cons.IH[OF a(3) _ _ this]
    have "log_lines d (l # ls) h = log_lines d ls ?h" using a(1) by simp
    moreover have "evs @ map line_event (l # ls) = (evs @ [line_event l]) @ map line_event ls" by simp
    ultimately show ?thesis using IH Cons.prems(2,3) by (simp only: hub_get_set) simp
  qed (use Cons.prems(2) in simp)
qed simp

text \<open>
  In every state the bus can reach, every tail holds at most 500 lines, every channel at
  most 256 events, every subscriber's channel is open and subscribed to one job only; so no
  operation ever sends on, or closes, a closed channel.
\<close>
lemma hub_never_panics:
  assumes "hub_reach h"
  shows "hub_ok h \<and> hub_log d l h \<noteq> Panics \<and> hub_finish d s h \<noteq> Panics
    \<and> hub_subscribe d h \<noteq> Panics \<and> hub_cancel d n h \<noteq> Panics"
proof -
  have ok: "hub_ok h" using hub_reach_ok[OF assms] .
  have "hub_subscribe d h \<noteq> Panics" by (simp add: hub_subscribe_def Let_def)
  with ok hub_log_ok[OF ok] hub_finish_ok[OF ok] hub_cancel_ok[OF ok] show ?thesis by blast
qed

text \<open>
  C4: What a subscriber of a running job receives when it reads nothing before the job ends.
  Its channel holds the tail of the job in order, then the lines logged since in order, cut
  after the first 256 events; the terminal event follows only if there was room for it; and
  the channel is closed.  None of these steps blocks or panics.
\<close>
theorem subscriber_stream:
  assumes "hub_reach h" and "\<not> jl_locked (hub_get d h)" and "jl_state (hub_get d h) = ''''"
  shows "\<exists>n h1 h2 h3. hub_subscribe d h = Returns n h1 \<and> log_lines d ls h1 = Some h2
    \<and> hub_finish d s h2 = Returns () h3 \<and> ch_closed (hub_chans h3 ! n)
    \<and> (let evs = map line_event (jl_lines (hub_get d h) @ ls) in
        ch_buf (hub_chans h3 ! n) =
          take chan_cap evs @ (if length evs < chan_cap then [final_event s] else []))"
proof -
  let ?n = "length (hub_chans h)" and ?j = "hub_get d h"
  let ?evs = "map line_event (jl_lines ?j)"
  let ?h1 = "hub_set d (?j\<lparr> jl_subs := jl_subs ?j @ [?n] \<rparr>)
               (h\<lparr> hub_chans := hub_chans h @ [fill_chan (jl_lines ?j)] \<rparr>)"
  have s1: "hub_subscribe d h = Returns ?n ?h1"
    using assms by (simp add: hub_subscribe_def Let_def)
  then have ok1: "hub_ok ?h1" using hub_subscribe_ok[OF hub_reach_ok[OF assms(1)], of d] by simp
  have "ch_buf (hub_chans ?h1 ! ?n) = take chan_cap ?evs" by (simp add: fill_chan_spec take_map)
  from log_lines_subscriber[OF ok1 _ _ this, of d ls] assms(2)
  obtain h2 where h2: "log_lines d ls ?h1 = Some h2" "hub_ok h2" "\<not> jl_locked (hub_get d h2)"
    "?n \<in> set (jl_subs (hub_get d h2))"
    "ch_buf (hub_chans h2 ! ?n) = take chan_cap (?evs @ map line_event ls)" by auto
  have n: "?n < length (hub_chans h2)" using hub_okD(3)[OF h2(2), of d] h2(4) by (auto simp: subs_open_def)
  show ?thesis
  proof (rule hub_finish_cases[OF h2(2), of d s])
    fix cs
    let ?h3 = "hub_set d ((hub_get d h2)\<lparr> jl_state := s, jl_closed := True, jl_subs := [] \<rparr>) (h2\<lparr> hub_chans := cs \<rparr>)"
    assume a: "hub_finish d s h2 = Returns () ?h3" "length cs = length (hub_chans h2)"
      "\<forall>i < length cs. cs ! i = (if i \<in> set (jl_subs (hub_get d h2))
         then (try_send (final_event s) (hub_chans h2 ! i))\<lparr> ch_closed := True \<rparr> else hub_chans h2 ! i)"
    have "cs ! ?n = (try_send (final_event s) (hub_chans h2 ! ?n))\<lparr> ch_closed := True \<rparr>"
      using a n h2(4) by simp
    then have "ch_closed (hub_chans ?h3 ! ?n) \<and> ch_buf (hub_chans ?h3 ! ?n) =
        take chan_cap (?evs @ map line_event ls)
          @ (if length (?evs @ map line_event ls) < chan_cap then [final_event s] else [])"
      using h2(5) by (auto simp: try_send_def)
    then show ?thesis using s1 h2(1) a(1) unfolding Let_def map_append by blast
  qed (use h2(3) in simp)
qed

text \<open>
  Subscribing to a job blocks exactly when the job has ended and left 256 lines or more in
  its tail: the terminal event is then sent without a default branch into a full channel that
  nobody can read yet.  The mutex stays locked, and from then on every log, finish and
  subscribe call on the job blocks as well.
\<close>
lemma subscribe_blocks_iff:
  assumes "\<not> jl_locked (hub_get d h)"
  shows "case hub_subscribe d h of
      Blocks h' \<Rightarrow> jl_state (hub_get d h) \<noteq> '''' \<and> chan_cap \<le> length (jl_lines (hub_get d h))
        \<and> hub_log d l h' = Blocks h' \<and> hub_finish d s h' = Blocks h' \<and> hub_subscribe d h' = Blocks h'
    | Returns n h' \<Rightarrow> jl_state (hub_get d h) = '''' \<or> length (jl_lines (hub_get d h)) < chan_cap
    | Panics \<Rightarrow> False"
proof -
  have same: "hub_set d (hub_get d (hub_set d j x)) (hub_set d j x) = hub_set d j x" for j x
    by (simp only: hub_get_set) (simp add: hub_set_def)
  show ?thesis
    using assms same
    by (auto simp: hub_subscribe_def hub_log_def hub_finish_def Let_def fill_chan_spec)
qed

section \<open>Concrete buses\<close>

definition short_hub :: hub where
  "short_hub = \<lparr> hub_jobs = (\<lambda>_. None)(''j'' \<mapsto> empty_log\<lparr> jl_lines := [''a''] \<rparr>), hub_chans = [] \<rparr>"

lemma short_hub_reach: "hub_reach short_hub"
proof -
  have "hub_after (hub_log ''j'' ''a'' new_hub) = Some short_hub"
    by (simp add: hub_log_def new_hub_def hub_get_def hub_set_def empty_log_def short_hub_def job_log_tail_def)
  then show ?thesis by (rule reach_log[OF reach_new])
qed

lemma hub_never_panics_witness: "hub_log ''j'' ''b'' short_hub \<noteq> Panics"
  using hub_never_panics[OF short_hub_reach] by blast

lemma subscriber_stream_witness:
  "\<exists>n h1 h2 h3. hub_subscribe ''j'' short_hub = Returns n h1 \<and> log_lines ''j'' [''b''] h1 = Some h2
    \<and> hub_finish ''j'' ''success'' h2 = Returns () h3
    \<and> ch_buf (hub_chans h3 ! n) = [line_event ''a'', line_event ''b'', final_event ''success'']"
proof -
  have "\<not> jl_locked (hub_get ''j'' short_hub)" "jl_state (hub_get ''j'' short_hub) = ''''"
    "jl_lines (hub_get ''j'' short_hub) = [''a'']"
    by (simp_all add: short_hub_def hub_get_def empty_log_def)
  from subscriber_stream[OF short_hub_reach this(1,2), of "[''b'']" "''success''"] this(3)
  have "\<exists>n h1 h2 h3. hub_subscribe ''j'' short_hub = Returns n h1 \<and> log_lines ''j'' [''b''] h1 = Some h2
    \<and> hub_finish ''j'' ''success'' h2 = Returns () h3 \<and> ch_closed (hub_chans h3 ! n)
    \<and> ch_buf (hub_chans h3 ! n) = [line_event ''a'', line_event ''b'', final_event ''success'']"
    by (simp only: Let_def) (simp add: chan_cap_def del: log_lines.simps)
  then show ?thesis by blast
qed

lemma subscribe_blocks_iff_witness:
  "\<exists>h'. hub_subscribe ''j'' (hub_set ''j'' (empty_log\<lparr> jl_lines := replicate 300 ''x'', jl_state := ''failure'' \<rparr>) new_hub)
     = Blocks h'"
proof -
  let ?h = "hub_set ''j'' (empty_log\<lparr> jl_lines := replicate 300 ''x'', jl_state := ''failure'' \<rparr>) new_hub"
  have "\<not> jl_locked (hub_get ''j'' ?h)" by (simp add: empty_log_def)
  from subscribe_blocks_iff[OF this] show ?thesis
    by (cases "hub_subscribe ''j'' ?h") (auto simp: chan_cap_def)
qed

end
