(* ===== verification/Publish.thy ===== *)
theory Publish
imports Prelude
begin

text \<open>
  Package \<^verbatim>\<open>internal/publish\<close>: the table of publish templates, one per protocol, and the
  renderer that turns a template into a container file.

  The table is a Go map, here an association list in the order of the source.  The bodies are
  the raw strings of the source, one list element per line.
\<close>

record publish_spec =
  ps_image :: string
  ps_args :: "string list"
  ps_required :: "string list"
  ps_steps :: string
  ps_multi :: bool

datatype publish_error = ErrProtocol string | ErrArgs string string

definition backslash :: string where
  "backslash = [CHR 0x5C]"

definition argArtifactURL :: string where
  "argArtifactURL = ''ARTIFACT_URL''"

definition argArtifactTok :: string where
  "argArtifactTok = ''ARTIFACT_TOKEN''"

definition argPublishTS :: string where
  "argPublishTS = ''PUBLISH_TS''"

section \<open>The templates\<close>

definition spec_npm :: publish_spec where
  "spec_npm = \<lparr>
     ps_image = ''node:22-alpine'',
     ps_args = [''NPMRC_LINE''],
     ps_required = [],
     ps_steps = join_with newline [
       ''RUN echo \"$NPMRC_LINE\" > .npmrc '' @ backslash,
       '' && npm publish --registry \"$ARTIFACT_URL/artifacts/npm/\" '' @ backslash,
       '' && echo \"$PUBLISH_TS\" > /dev/null''],
     ps_multi = False \<rparr>"

definition spec_pypi :: publish_spec where
  "spec_pypi = \<lparr>
     ps_image = ''python:3.12-alpine'',
     ps_args = [],
     ps_required = [],
     ps_steps = join_with newline [
       ''RUN pip config set global.index-url \"$ARTIFACT_URL/artifacts/pypi/simple\" '' @ backslash,
       '' && pip config set global.trusted-host \"$(echo \"$ARTIFACT_URL\" | sed 's|.*://||; s|[:/].*||')\" '' @ backslash,
       '' && pip install --no-cache-dir build twine '' @ backslash,
       '' && { [ -d dist ] && [ -n \"$(ls -A dist 2>/dev/null)\" ] || python -m build; } '' @ backslash,
       '' && twine upload --repository-url \"$ARTIFACT_URL/artifacts/pypi/\" -u agent -p \"${ARTIFACT_TOKEN:-dummy}\" --non-interactive dist/* '' @ backslash,
       '' && echo \"$PUBLISH_TS\" > /dev/null''],
     ps_multi = False \<rparr>"

definition spec_cargo :: publish_spec where
  "spec_cargo = \<lparr>
     ps_image = ''rust:1-alpine'',
     ps_args = [],
     ps_required = [],
     ps_steps = join_with newline [
       ''RUN export CARGO_REGISTRIES_EASYLAB_INDEX=\"sparse+$ARTIFACT_URL/artifacts/cargo/index/\" '' @ backslash,
       '' && export CARGO_REGISTRIES_EASYLAB_TOKEN=\"${ARTIFACT_TOKEN:-dummy}\" '' @ backslash,
       '' && cargo publish --registry easylab --allow-dirty '' @ backslash,
       '' && echo \"$PUBLISH_TS\" > /dev/null''],
     ps_multi = False \<rparr>"

definition spec_rubygems :: publish_spec where
  "spec_rubygems = \<lparr>
     ps_image = ''ruby:3.3-alpine'',
     ps_args = [],
     ps_required = [],
     ps_steps = join_with newline [
       ''RUN gem build *.gemspec '' @ backslash,
       '' && GEM=\"$(ls -t *.gem 2>/dev/null | head -n1)\" '' @ backslash,
       '' && [ -n \"$GEM\" ] || { echo 'no *.gem produced; check the gemspec'; exit 1; } '' @ backslash,
       '' && mkdir -p \"$HOME/.gem\" '' @ backslash,
       '' && printf ':rubygems_api_key: %s'' @ backslash @ ''n' \"$ARTIFACT_TOKEN\" > \"$HOME/.gem/credentials\" '' @ backslash,
       '' && chmod 0600 \"$HOME/.gem/credentials\" '' @ backslash,
       '' && gem push \"$GEM\" --host \"$ARTIFACT_URL/artifacts/rubygems\" '' @ backslash,
       '' && echo \"$PUBLISH_TS\" > /dev/null''],
     ps_multi = False \<rparr>"

definition spec_helm :: publish_spec where
  "spec_helm = \<lparr>
     ps_image = '''',
     ps_args = [],
     ps_required = [],
     ps_steps = join_with newline [
       ''FROM alpine/helm:3.16 AS pkg'',
       ''WORKDIR /pkg'',
       ''COPY . .'',
       ''RUN helm package .'',
       '''',
       ''FROM curlimages/curl:8.11.1'',
       ''WORKDIR /pkg'',
       ''ARG ARTIFACT_URL'',
       ''ARG ARTIFACT_TOKEN'',
       ''ARG PUBLISH_TS'',
       ''COPY --from=pkg /pkg/*.tgz .'',
       ''RUN curl -sSf -H \"Authorization: Bearer $ARTIFACT_TOKEN\" -F \"chart=@$(ls *.tgz | head -n1)\" \"$ARTIFACT_URL/artifacts/helm/api/charts\" '' @ backslash,
       '' && echo \"$PUBLISH_TS\" > /dev/null''],
     ps_multi = True \<rparr>"

definition spec_nuget :: publish_spec where
  "spec_nuget = \<lparr>
     ps_image = ''curlimages/curl:8.11.1'',
     ps_args = [],
     ps_required = [],
     ps_steps = join_with newline [
       ''RUN NUPKG=\"$(find . -name '*.nupkg' | head -n1)\" '' @ backslash,
       '' && [ -n \"$NUPKG\" ] || { echo 'no *.nupkg found; build the project first (dotnet pack) and commit/port the artifact'; exit 1; } '' @ backslash,
       '' && curl -sSf -X PUT -H \"X-NuGet-ApiKey: $ARTIFACT_TOKEN\" --data-binary @\"$NUPKG\" \"$ARTIFACT_URL/artifacts/nuget/v3/package\" '' @ backslash,
       '' && echo \"$PUBLISH_TS\" > /dev/null''],
     ps_multi = False \<rparr>"

definition spec_maven :: publish_spec where
  "spec_maven = \<lparr>
     ps_image = ''curlimages/curl:8.11.1'',
     ps_args = [''NAME'', ''VERSION''],
     ps_required = [''NAME'', ''VERSION''],
     ps_steps = join_with newline [
       ''RUN JAR=\"$(find . -name '*.jar' -not -path './.m2/*' | head -n1)\" '' @ backslash,
       '' && [ -n \"$JAR\" ] || { echo 'no *.jar found; build the project first (mvn package) and commit/port the artifact'; exit 1; } '' @ backslash,
       '' && curl -sSf -X PUT -H \"Authorization: Bearer $ARTIFACT_TOKEN\" --data-binary @\"$JAR\" '' @ backslash,
       ''    \"$ARTIFACT_URL/artifacts/maven/$(echo \"$NAME\" | tr '.' '/')/$VERSION/$(basename \"$JAR\")\" '' @ backslash,
       '' && echo \"$PUBLISH_TS\" > /dev/null''],
     ps_multi = False \<rparr>"

definition spec_go :: publish_spec where
  "spec_go = \<lparr>
     ps_image = ''library/python:3.12-alpine'',
     ps_args = [''NAME'', ''VERSION''],
     ps_required = [''NAME'', ''VERSION''],
     ps_steps = join_with newline [
       ''RUN PUBLISH_TS=\"$PUBLISH_TS\" python <<'EOF'' @ [CHR 0x27],
       ''import io, os, urllib.parse, urllib.request, zipfile'',
       ''name, ver = os.environ[\"NAME\"], os.environ[\"VERSION\"]'',
       ''base, tok = os.environ[\"ARTIFACT_URL\"], os.environ[\"ARTIFACT_TOKEN\"]'',
       ''buf = io.BytesIO()'',
       ''with zipfile.ZipFile(buf, \"w\", zipfile.ZIP_DEFLATED) as z:'',
       ''    for root, dirs, files in os.walk(\".\"):'',
       ''        dirs[:] = [d for d in dirs if d not in (\".git\", \"target\", \"node_modules\")]'',
       ''        for f in files:'',
       ''            p = os.path.join(root, f)'',
       ''            z.write(p, \"%s@%s/%s\" % (name, ver, os.path.relpath(p, \".\")))'',
       ''q = urllib.parse.urlencode({\"name\": name, \"version\": ver})'',
       ''req = urllib.request.Request(base + \"/artifacts/go/upload?\" + q, data=buf.getvalue(), method=\"PUT\")'',
       ''if tok:'',
       ''    req.add_header(\"Authorization\", \"Bearer \" + tok)'',
       ''print(\"go publish\", name, ver, \"->\", urllib.request.urlopen(req).status, os.environ[\"PUBLISH_TS\"])'',
       ''EOF''],
     ps_multi = False \<rparr>"

definition spec_hex :: publish_spec where
  "spec_hex = \<lparr>
     ps_image = ''library/python:3.12-alpine'',
     ps_args = [''NAME'', ''VERSION''],
     ps_required = [''NAME'', ''VERSION''],
     ps_steps = join_with newline [
       ''RUN PUBLISH_TS=\"$PUBLISH_TS\" python <<'EOF'' @ [CHR 0x27],
       ''import io, os, tarfile, urllib.parse, urllib.request'',
       ''name, ver = os.environ[\"NAME\"], os.environ[\"VERSION\"]'',
       ''base, tok = os.environ[\"ARTIFACT_URL\"], os.environ[\"ARTIFACT_TOKEN\"]'',
       ''buf = io.BytesIO()'',
       ''with tarfile.open(fileobj=buf, mode=\"w:gz\") as t:'',
       ''    for root, dirs, files in os.walk(\".\"):'',
       ''        dirs[:] = [d for d in dirs if d not in (\".git\", \"_build\", \"deps\", \"node_modules\")]'',
       ''        for f in files:'',
       ''            p = os.path.join(root, f)'',
       ''            t.add(p, arcname=os.path.relpath(p, \".\"))'',
       ''q = urllib.parse.urlencode({\"name\": name, \"version\": ver})'',
       ''req = urllib.request.Request(base + \"/artifacts/hex/publish?\" + q, data=buf.getvalue(), method=\"POST\")'',
       ''if tok:'',
       ''    req.add_header(\"Authorization\", \"Bearer \" + tok)'',
       ''print(\"hex publish\", name, ver, \"->\", urllib.request.urlopen(req).status, os.environ[\"PUBLISH_TS\"])'',
       ''EOF''],
     ps_multi = False \<rparr>"

definition spec_composer :: publish_spec where
  "spec_composer = \<lparr>
     ps_image = ''library/python:3.12-alpine'',
     ps_args = [''NAME'', ''VERSION''],
     ps_required = [''NAME'', ''VERSION''],
     ps_steps = join_with newline [
       ''RUN PUBLISH_TS=\"$PUBLISH_TS\" python <<'EOF'' @ [CHR 0x27],
       ''import io, os, urllib.parse, urllib.request, zipfile'',
       ''name, ver = os.environ[\"NAME\"], os.environ[\"VERSION\"]'',
       ''base, tok = os.environ[\"ARTIFACT_URL\"], os.environ[\"ARTIFACT_TOKEN\"]'',
       ''buf = io.BytesIO()'',
       ''with zipfile.ZipFile(buf, \"w\", zipfile.ZIP_DEFLATED) as z:'',
       ''    for root, dirs, files in os.walk(\".\"):'',
       ''        dirs[:] = [d for d in dirs if d not in (\".git\", \"vendor\", \"node_modules\")]'',
       ''        for f in files:'',
       ''            p = os.path.join(root, f)'',
       ''            z.write(p, os.path.relpath(p, \".\"))'',
       ''q = urllib.parse.urlencode({\"name\": name, \"version\": ver})'',
       ''req = urllib.request.Request(base + \"/artifacts/composer/api/packages?\" + q, data=buf.getvalue(), method=\"PUT\")'',
       ''if tok:'',
       ''    req.add_header(\"Authorization\", \"Bearer \" + tok)'',
       ''print(\"composer publish\", name, ver, \"->\", urllib.request.urlopen(req).status, os.environ[\"PUBLISH_TS\"])'',
       ''EOF''],
     ps_multi = False \<rparr>"

definition spec_generic :: publish_spec where
  "spec_generic = \<lparr>
     ps_image = ''curlimages/curl:8.11.1'',
     ps_args = [''NAME'', ''VERSION'', ''FILE''],
     ps_required = [''NAME'', ''VERSION'', ''FILE''],
     ps_steps = join_with newline [
       ''RUN [ -f \"$FILE\" ] || { echo \"file not found in repo: $FILE\"; exit 1; } '' @ backslash,
       '' && curl -sSf -X PUT -H \"Authorization: Bearer $ARTIFACT_TOKEN\" --data-binary @\"$FILE\" '' @ backslash,
       ''    \"$ARTIFACT_URL/artifacts/generic/$NAME/$VERSION/$(basename \"$FILE\")\" '' @ backslash,
       '' && echo \"$PUBLISH_TS\" > /dev/null''],
     ps_multi = False \<rparr>"

definition spec_conan :: publish_spec where
  "spec_conan = \<lparr>
     ps_image = ''python:3.12-alpine'',
     ps_args = [],
     ps_required = [],
     ps_steps = join_with newline [
       ''RUN pip config set global.index-url \"$ARTIFACT_URL/artifacts/pypi/simple\" '' @ backslash,
       '' && pip config set global.trusted-host \"$(echo \"$ARTIFACT_URL\" | sed 's|.*://||; s|[:/].*||')\" '' @ backslash,
       '' && pip install --no-cache-dir 'conan>=2' '' @ backslash,
       '' && conan profile detect --force '' @ backslash,
       '' && conan remote add easylab \"$ARTIFACT_URL/artifacts/conan\" --force '' @ backslash,
       '' && { [ -z \"$ARTIFACT_TOKEN\" ] || conan remote login easylab agent -p \"$ARTIFACT_TOKEN\"; } '' @ backslash,
       '' && conan create . '' @ backslash,
       '' && conan upload '*' -r easylab -c '' @ backslash,
       '' && echo \"$PUBLISH_TS\" > /dev/null''],
     ps_multi = False \<rparr>"

definition spec_pub :: publish_spec where
  "spec_pub = \<lparr>
     ps_image = ''dart:stable'',
     ps_args = [],
     ps_required = [],
     ps_steps = join_with newline [
       ''RUN [ -f LICENSE ] || printf 'MIT License'' @ backslash @ ''n' > LICENSE '' @ backslash,
       '' && { [ -z \"$ARTIFACT_TOKEN\" ] || dart pub token add \"$ARTIFACT_URL/artifacts/pub\" \"$ARTIFACT_TOKEN\"; } '' @ backslash,
       '' && dart pub publish --force --server \"$ARTIFACT_URL/artifacts/pub\" '' @ backslash,
       '' && echo \"$PUBLISH_TS\" > /dev/null''],
     ps_multi = False \<rparr>"

definition spec_swift :: publish_spec where
  "spec_swift = \<lparr>
     ps_image = ''swift:6.1'',
     ps_args = [''NAME'', ''VERSION''],
     ps_required = [''NAME'', ''VERSION''],
     ps_steps = join_with newline [
       ''RUN if ! command -v zip >/dev/null 2>&1 || ! command -v curl >/dev/null 2>&1; then apt-get update -qq && apt-get install -y -qq zip curl; fi'',
       ''RUN swift package archive-source --output /tmp/src.zip '' @ backslash,
       '' && curl -sSf -X PUT -H \"Authorization: Bearer $ARTIFACT_TOKEN\" --data-binary @/tmp/src.zip '' @ backslash,
       ''    \"$ARTIFACT_URL/artifacts/swift/$(echo \"$NAME\" | tr '.' '/')/$VERSION\" '' @ backslash,
       '' && echo \"$PUBLISH_TS\" > /dev/null''],
     ps_multi = False \<rparr>"

definition publish_specs :: "(string \<times> publish_spec) list" where
  "publish_specs = [
     (''npm'', spec_npm),
     (''pypi'', spec_pypi),
     (''cargo'', spec_cargo),
     (''rubygems'', spec_rubygems),
     (''helm'', spec_helm),
     (''nuget'', spec_nuget),
     (''maven'', spec_maven),
     (''go'', spec_go),
     (''hex'', spec_hex),
     (''composer'', spec_composer),
     (''generic'', spec_generic),
     (''conan'', spec_conan),
     (''pub'', spec_pub),
     (''swift'', spec_swift)]"

section \<open>The renderer\<close>

definition arg_line :: "string \<Rightarrow> string" where
  "arg_line a = ''ARG '' @ a @ newline"

definition render_containerfile :: "publish_spec \<Rightarrow> string" where
  "render_containerfile spec =
    (let preamble = arg_line argArtifactURL @ arg_line argArtifactTok @ arg_line argPublishTS
                    @ concat (map arg_line (ps_args spec))
     in if ps_multi spec then preamble @ ps_steps spec @ newline
        else preamble @ ''FROM '' @ ps_image spec @ newline @ preamble
             @ ''WORKDIR /pkg'' @ newline @ ''COPY . .'' @ newline @ ps_steps spec @ newline)"

definition protocol_known :: "string \<Rightarrow> bool" where
  "protocol_known p \<longleftrightarrow> map_of publish_specs p \<noteq> None"

definition supported :: "string list" where
  "supported = insertion_sort (\<lambda>x. x) (map fst publish_specs)"

definition required :: "string \<Rightarrow> string list" where
  "required p = (case map_of publish_specs p of None \<Rightarrow> [] | Some spec \<Rightarrow> ps_required spec)"

definition render_args :: "string \<Rightarrow> string \<Rightarrow> string \<Rightarrow> string \<Rightarrow> string" where
  "render_args name version file a =
    (case map_of [(''NAME'', name), (''VERSION'', version), (''FILE'', file)] a of
       Some v \<Rightarrow> v | None \<Rightarrow> '''')"

definition render :: "string \<Rightarrow> string \<Rightarrow> string \<Rightarrow> string \<Rightarrow> publish_error + string" where
  "render p name version file =
    (case map_of publish_specs p of
       None \<Rightarrow> Inl (ErrProtocol p)
     | Some spec \<Rightarrow>
         (case find (\<lambda>req. render_args name version file req = '''') (ps_required spec) of
            Some req \<Rightarrow> Inl (ErrArgs req p)
          | None \<Rightarrow> Inr (render_containerfile spec)))"

section \<open>Facts on the table\<close>

lemma publish_keys:
  "map fst publish_specs = [''npm'', ''pypi'', ''cargo'', ''rubygems'', ''helm'', ''nuget'', ''maven'',
     ''go'', ''hex'', ''composer'', ''generic'', ''conan'', ''pub'', ''swift'']"
  by (simp add: publish_specs_def)

lemma publish_required:
  "map (\<lambda>(p, s). (p, ps_required s)) publish_specs =
    map (\<lambda>p. (p, [])) [''npm'', ''pypi'', ''cargo'', ''rubygems'', ''helm'', ''nuget'']
    @ map (\<lambda>p. (p, [''NAME'', ''VERSION''])) [''maven'', ''go'', ''hex'', ''composer'']
    @ [(''generic'', [''NAME'', ''VERSION'', ''FILE'']), (''conan'', []), (''pub'', []),
       (''swift'', [''NAME'', ''VERSION''])]"
  by (simp add: publish_specs_def spec_npm_def spec_pypi_def spec_cargo_def spec_rubygems_def
      spec_helm_def spec_nuget_def spec_maven_def spec_go_def spec_hex_def spec_composer_def
      spec_generic_def spec_conan_def spec_pub_def spec_swift_def)

section \<open>The templates are closed\<close>

text \<open>The lines of a container file after its last FROM: the stage that runs.\<close>

definition file_lines :: "string \<Rightarrow> string list" where
  "file_lines t = split_on CHR 0x0A t"

definition last_stage :: "string list \<Rightarrow> string list" where
  "last_stage ls = rev (takeWhile (\<lambda>l. \<not> has_prefix ''FROM '' l) (rev ls))"

definition uses_variable :: "string \<Rightarrow> string \<Rightarrow> bool" where
  "uses_variable v t \<longleftrightarrow>
     contains_sub (''$'' @ v) t \<or> contains_sub (''environ['' @ [CHR 0x22] @ v @ [CHR 0x22]) t"

definition declared_in_stage :: "publish_spec \<Rightarrow> bool" where
  "declared_in_stage spec \<longleftrightarrow>
     list_all (\<lambda>a. (''ARG '' @ a) \<in> set (last_stage (file_lines (render_containerfile spec))))
       ([argArtifactURL, argArtifactTok, argPublishTS] @ ps_args spec)"

definition uses_declared :: "publish_spec \<Rightarrow> bool" where
  "uses_declared spec \<longleftrightarrow>
     list_all (\<lambda>v. uses_variable v (ps_steps spec) \<longleftrightarrow> v \<in> set (ps_args spec))
       [''NAME'', ''VERSION'', ''FILE'', ''NPMRC_LINE'']
     \<and> list_all (\<lambda>r. r \<in> set (ps_args spec)) (ps_required spec)"

lemma split_on_join:
  "ls \<noteq> [] \<Longrightarrow> \<forall>l \<in> set ls. c \<notin> set l \<Longrightarrow> split_on c (join_with [c] ls) = ls"
  by (induction "[c]" ls rule: join_with.induct) (auto simp: split_on_no_sep split_on_append)

lemma join_with_snoc: "ls \<noteq> [] \<Longrightarrow> join_with c (ls @ [l]) = join_with c ls @ c @ l"
  by (induction c ls rule: join_with.induct) auto

lemma split_on_arg_lines:
  "\<forall>a \<in> set as. CHR 0x0A \<notin> set a \<Longrightarrow>
    split_on CHR 0x0A (concat (map arg_line as) @ t) = map ((@) ''ARG '') as @ split_on CHR 0x0A t"
proof (induction "as")
  case (Cons a as)
  have "CHR 0x0A \<notin> set (''ARG '' @ a)" using Cons.prems by simp
  from split_on_append[OF this] Cons show ?case by (simp add: arg_line_def newline_def)
qed simp

text \<open>A single-stage template whose body has no line starting with FROM declares every argument in its stage.\<close>

lemma declared_single:
  assumes "\<not> ps_multi spec" "ps_steps spec = join_with newline ls" "ls \<noteq> []"
    and clean: "\<forall>l \<in> set ls. CHR 0x0A \<notin> set l" "list_all (\<lambda>l. \<not> has_prefix ''FROM '' l) ls"
    and "\<forall>a \<in> set (ps_args spec). CHR 0x0A \<notin> set a" "CHR 0x0A \<notin> set (ps_image spec)"
  shows "declared_in_stage spec"
proof -
  let ?as = "[argArtifactURL, argArtifactTok, argPublishTS] @ ps_args spec"
  let ?args = "map ((@) ''ARG '') ?as"
  have as: "\<forall>a \<in> set ?as. CHR 0x0A \<notin> set a"
    using assms(6) by (auto simp: argArtifactURL_def argArtifactTok_def argPublishTS_def)
  have steps: "split_on CHR 0x0A (ps_steps spec @ newline) = ls @ [[]]"
  proof -
    have "ps_steps spec @ newline = join_with [CHR 0x0A] (ls @ [[]])"
      using assms(2,3) by (simp add: join_with_snoc newline_def)
    moreover have "split_on CHR 0x0A (join_with [CHR 0x0A] (ls @ [[]])) = ls @ [[]]"
      using clean(1) by (intro split_on_join) auto
    ultimately show ?thesis by simp
  qed
  have rendered: "render_containerfile spec = concat (map arg_line ?as) @ (''FROM '' @ ps_image spec) @ CHR 0x0A #
      (concat (map arg_line ?as) @ ''WORKDIR /pkg'' @ CHR 0x0A # ''COPY . .'' @ CHR 0x0A # ps_steps spec @ newline)"
    using assms(1) by (simp add: render_containerfile_def Let_def newline_def)
  have "CHR 0x0A \<notin> set (''FROM '' @ ps_image spec)" using assms(7) by simp
  note parts = split_on_arg_lines[OF as] split_on_append[OF this]
    split_on_append[of "CHR 0x0A" "''WORKDIR /pkg''"] split_on_append[of "CHR 0x0A" "''COPY . .''"] steps
  have "file_lines (render_containerfile spec) = ?args @ (''FROM '' @ ps_image spec) #
      (?args @ [''WORKDIR /pkg'', ''COPY . .''] @ ls @ [[]])"
    unfolding file_lines_def rendered by (simp only: parts) (simp add: parts)
  moreover have "\<forall>l \<in> set (?args @ [''WORKDIR /pkg'', ''COPY . .''] @ ls @ [[]]). \<not> has_prefix ''FROM '' l"
    using clean(2) by (auto simp: list_all_iff)
  then have "takeWhile (\<lambda>l. \<not> has_prefix ''FROM '' l)
      (rev (?args @ [''WORKDIR /pkg'', ''COPY . .''] @ ls @ [[]]) @ (''FROM '' @ ps_image spec) # rev ?args)
      = rev (?args @ [''WORKDIR /pkg'', ''COPY . .''] @ ls @ [[]])"
    by (subst takeWhile_append2) auto
  ultimately have "last_stage (file_lines (render_containerfile spec))
      = ?args @ [''WORKDIR /pkg'', ''COPY . .''] @ ls @ [[]]"
    by (simp add: last_stage_def)
  then show ?thesis by (auto simp: declared_in_stage_def list_all_iff)
qed

lemma stage_npm: "declared_in_stage spec_npm"
  unfolding spec_npm_def by (rule declared_single[OF _ publish_spec.select_convs(4)]) (simp_all add: backslash_def)

lemma stage_pypi: "declared_in_stage spec_pypi"
  unfolding spec_pypi_def by (rule declared_single[OF _ publish_spec.select_convs(4)]) (simp_all add: backslash_def)

lemma stage_cargo: "declared_in_stage spec_cargo"
  unfolding spec_cargo_def by (rule declared_single[OF _ publish_spec.select_convs(4)]) (simp_all add: backslash_def)

lemma stage_rubygems: "declared_in_stage spec_rubygems"
  unfolding spec_rubygems_def by (rule declared_single[OF _ publish_spec.select_convs(4)]) (simp_all add: backslash_def)

lemma stage_nuget: "declared_in_stage spec_nuget"
  unfolding spec_nuget_def by (rule declared_single[OF _ publish_spec.select_convs(4)]) (simp_all add: backslash_def)

lemma stage_maven: "declared_in_stage spec_maven"
  unfolding spec_maven_def by (rule declared_single[OF _ publish_spec.select_convs(4)]) (simp_all add: backslash_def)

lemma stage_go: "declared_in_stage spec_go"
  unfolding spec_go_def by (rule declared_single[OF _ publish_spec.select_convs(4)]) (simp_all add: backslash_def)

lemma stage_hex: "declared_in_stage spec_hex"
  unfolding spec_hex_def by (rule declared_single[OF _ publish_spec.select_convs(4)]) (simp_all add: backslash_def)

lemma stage_composer: "declared_in_stage spec_composer"
  unfolding spec_composer_def by (rule declared_single[OF _ publish_spec.select_convs(4)]) (simp_all add: backslash_def)

lemma stage_generic: "declared_in_stage spec_generic"
  unfolding spec_generic_def by (rule declared_single[OF _ publish_spec.select_convs(4)]) (simp_all add: backslash_def)

lemma stage_conan: "declared_in_stage spec_conan"
  unfolding spec_conan_def by (rule declared_single[OF _ publish_spec.select_convs(4)]) (simp_all add: backslash_def)

lemma stage_pub: "declared_in_stage spec_pub"
  unfolding spec_pub_def by (rule declared_single[OF _ publish_spec.select_convs(4)]) (simp_all add: backslash_def)

lemma stage_swift: "declared_in_stage spec_swift"
  unfolding spec_swift_def by (rule declared_single[OF _ publish_spec.select_convs(4)]) (simp_all add: backslash_def)

lemma stage_helm: "declared_in_stage spec_helm"
  by (simp add: declared_in_stage_def spec_helm_def render_containerfile_def file_lines_def
      last_stage_def arg_line_def newline_def backslash_def Let_def argArtifactURL_def
      argArtifactTok_def argPublishTS_def)

lemma uses_npm: "uses_declared spec_npm"
  by (simp add: uses_declared_def uses_variable_def spec_npm_def newline_def backslash_def)

lemma uses_pypi: "uses_declared spec_pypi"
  by (simp add: uses_declared_def uses_variable_def spec_pypi_def newline_def backslash_def)

lemma uses_cargo: "uses_declared spec_cargo"
  by (simp add: uses_declared_def uses_variable_def spec_cargo_def newline_def backslash_def)

lemma uses_rubygems: "uses_declared spec_rubygems"
  by (simp add: uses_declared_def uses_variable_def spec_rubygems_def newline_def backslash_def)

lemma uses_helm: "uses_declared spec_helm"
  by (simp add: uses_declared_def uses_variable_def spec_helm_def newline_def backslash_def)

lemma uses_nuget: "uses_declared spec_nuget"
  by (simp add: uses_declared_def uses_variable_def spec_nuget_def newline_def backslash_def)

lemma uses_maven: "uses_declared spec_maven"
  by (simp add: uses_declared_def uses_variable_def spec_maven_def newline_def backslash_def)

lemma uses_go: "uses_declared spec_go"
  by (simp add: uses_declared_def uses_variable_def spec_go_def newline_def backslash_def)

lemma uses_hex: "uses_declared spec_hex"
  by (simp add: uses_declared_def uses_variable_def spec_hex_def newline_def backslash_def)

lemma uses_composer: "uses_declared spec_composer"
  by (simp add: uses_declared_def uses_variable_def spec_composer_def newline_def backslash_def)

lemma uses_generic: "uses_declared spec_generic"
  by (simp add: uses_declared_def uses_variable_def spec_generic_def newline_def backslash_def)

lemma uses_conan: "uses_declared spec_conan"
  by (simp add: uses_declared_def uses_variable_def spec_conan_def newline_def backslash_def)

lemma uses_pub: "uses_declared spec_pub"
  by (simp add: uses_declared_def uses_variable_def spec_pub_def newline_def backslash_def)

lemma uses_swift: "uses_declared spec_swift"
  by (simp add: uses_declared_def uses_variable_def spec_swift_def newline_def backslash_def)

lemmas stage_all = stage_npm stage_pypi stage_cargo stage_rubygems stage_helm stage_nuget stage_maven stage_go stage_hex stage_composer stage_generic stage_conan stage_pub stage_swift

lemmas uses_all = uses_npm uses_pypi uses_cargo uses_rubygems uses_helm uses_nuget uses_maven uses_go uses_hex uses_composer uses_generic uses_conan uses_pub uses_swift

text \<open>
  In the container file rendered for every supported protocol, every build argument is
  declared by an ARG line in the stage that runs, after its FROM line; the commands of the
  template read NAME, VERSION, FILE or the npm line exactly when the template declares it; and
  every argument that must be supplied is declared.
\<close>
lemma templates_closed:
  "list_all (\<lambda>(p, spec). declared_in_stage spec \<and> uses_declared spec) publish_specs"
  by (simp add: publish_specs_def stage_all uses_all)

end
