(* ===== verification/CI_Workflow.thy ===== *)
theory CI_Workflow
imports CI_Types Publish
begin

text \<open>
  Declarative workflows: the parsed shape of \<^verbatim>\<open>.easylab/workflows.yaml\<close> and its translation to
  workflows (\<^verbatim>\<open>internal/ci/workflowfile.go\<close>), and the presets that expand to a job
  (\<^verbatim>\<open>internal/ci/presets.go\<close>).

  The YAML decoder is third-party code: the model starts at the decoded document, and
  \<^verbatim>\<open>parse_workflow_file\<close> takes the decoder's result (an error text or the document) as
  its argument.  Error values carry the arguments of the code's messages.
\<close>

type_synonym args = "(string \<times> string) list"

datatype preset_error =
    UnknownPreset string "string list"
  | PresetRequires string string
  | TagRequired

datatype workflow_error =
    YamlError string
  | UnsupportedVersion int
  | NoWorkflows
  | NameRequired nat
  | DuplicateName string
  | PresetAndJobs string
  | PresetFailed string preset_error
  | JobIdRequired string nat
  | NothingDeclared string

section \<open>Presets\<close>

definition arg_get :: "args \<Rightarrow> string \<Rightarrow> string" where
  "arg_get args k = (case map_of args k of Some v \<Rightarrow> v | None \<Rightarrow> '''')"

definition publish_protocols :: "string list" where
  "publish_protocols =
    [''npm'', ''pypi'', ''cargo'', ''rubygems'', ''helm'', ''nuget'', ''conan'', ''pub'',
     ''maven'', ''go'', ''hex'', ''composer'', ''swift'', ''generic'']"

definition required_args :: "(string \<times> string list) list" where
  "required_args = [
     (''maven'', [''name'', ''version'']),
     (''go'', [''name'', ''version'']),
     (''hex'', [''name'', ''version'']),
     (''composer'', [''name'', ''version'']),
     (''swift'', [''name'', ''version'']),
     (''generic'', [''name'', ''version'', ''file''])]"

definition required_arg :: "string \<Rightarrow> string \<Rightarrow> bool" where
  "required_arg proto a =
    (case map_of required_args proto of Some as \<Rightarrow> list_ex (\<lambda>x. x = a) as | None \<Rightarrow> False)"

definition blank_job :: job where
  "blank_job = \<lparr> job_id = '''', job_needs = [], job_runs_on = [], job_org = '''', job_repo = '''',
     job_branch = '''', job_container = '''', job_dir = '''', job_steps = [], job_produce = no_produce \<rparr>"

definition plain_step :: "string \<Rightarrow> string \<Rightarrow> step_def" where
  "plain_step n r = \<lparr> step_name = n, step_run = r, step_env = [], step_dir = '''' \<rparr>"

definition publish_preset :: "string \<Rightarrow> args \<Rightarrow> preset_error + job" where
  "publish_preset proto args =
    (let j = blank_job\<lparr>
          job_runs_on := [''os=linux'', ''is_container=true''],
          job_steps := [plain_step ''publish'' ''true''],
          job_produce := no_produce\<lparr>
            pr_action := ActionPublishProtocol, pr_protocol := proto,
            pr_name := arg_get args ''name'', pr_version := arg_get args ''version'',
            pr_file := arg_get args ''file'' \<rparr> \<rparr>
     in case find (\<lambda>req. required_arg proto req \<and> arg_get args req = '''') [''name'', ''version'', ''file''] of
          Some req \<Rightarrow> Inl (PresetRequires proto req)
        | None \<Rightarrow> Inr j)"

definition container_preset :: "args \<Rightarrow> preset_error + job" where
  "container_preset args =
    (if arg_get args ''tag'' = '''' then Inl TagRequired
     else Inr (blank_job\<lparr>
        job_runs_on := [''os=linux'', ''is_container=true''],
        job_steps := [plain_step ''build'' ''true''],
        job_produce := no_produce\<lparr>
          pr_action := ActionOCIBuild, pr_tag := arg_get args ''tag'',
          pr_dockerfile := arg_get args ''dockerfile'', pr_context := arg_get args ''context'',
          pr_containerfile := arg_get args ''containerfile'' \<rparr> \<rparr>))"

definition presets :: "(string \<times> (args \<Rightarrow> preset_error + job)) list" where
  "presets = map (\<lambda>p. (p @ ''-publish'', publish_preset p)) publish_protocols
             @ [(''container-build'', container_preset)]"

definition preset_names :: "string list" where
  "preset_names = sort (map fst presets)"

definition expand_preset :: "string \<Rightarrow> string \<Rightarrow> args \<Rightarrow> preset_error + job" where
  "expand_preset name i args =
    (case map_of presets name of
       None \<Rightarrow> Inl (UnknownPreset name preset_names)
     | Some build \<Rightarrow>
         (case build args of
            Inl e \<Rightarrow> Inl e
          | Inr j \<Rightarrow> Inr (j\<lparr> job_id := (if i = '''' then trim_suffix ''-publish'' name else i) \<rparr>)))"

section \<open>The workflow file\<close>

record step_doc =
  sd_name :: string
  sd_run :: string
  sd_env :: "(string \<times> string) list"
  sd_dir :: string

record produce_doc =
  pd_action :: string
  pd_context :: string
  pd_dockerfile :: string
  pd_tag :: string
  pd_path :: string
  pd_destination :: string
  pd_ref :: string
  pd_protocol :: string
  pd_name :: string
  pd_version :: string
  pd_file :: string
  pd_containerfile :: string

record job_doc =
  jd_id :: string
  jd_needs :: "string list"
  jd_runs_on :: "string list"
  jd_container :: string
  jd_dir :: string
  jd_steps :: "step_doc list"
  jd_produce :: produce_doc

record workflow_doc =
  wd_name :: string
  wd_id :: string
  wd_on :: "string list"
  wd_preset :: string
  wd_args :: args
  wd_jobs :: "job_doc list"

record workflow_file =
  wff_version :: int
  wff_workflows :: "workflow_doc list"

definition doc_step :: "step_doc \<Rightarrow> step_def" where
  "doc_step s = \<lparr> step_name = sd_name s, step_run = sd_run s, step_env = sd_env s, step_dir = sd_dir s \<rparr>"

definition doc_job :: "job_doc \<Rightarrow> job" where
  "doc_job d =
    (let p = jd_produce d in
     \<lparr> job_id = jd_id d, job_needs = jd_needs d, job_runs_on = jd_runs_on d, job_org = '''',
       job_repo = '''', job_branch = '''', job_container = jd_container d, job_dir = jd_dir d,
       job_steps = map doc_step (jd_steps d),
       job_produce = \<lparr> pr_action = pd_action p, pr_context = pd_context p,
         pr_dockerfile = pd_dockerfile p, pr_tag = pd_tag p, pr_path = pd_path p,
         pr_destination = pd_destination p, pr_ref = pd_ref p, pr_protocol = pd_protocol p,
         pr_name = pd_name p, pr_version = pd_version p, pr_file = pd_file p,
         pr_containerfile = pd_containerfile p \<rparr> \<rparr>)"

fun doc_jobs :: "string \<Rightarrow> nat \<Rightarrow> job_doc list \<Rightarrow> workflow_error + job list" where
  "doc_jobs name i [] = Inr []"
| "doc_jobs name i (d # ds) =
     (if jd_id d = '''' then Inl (JobIdRequired name i)
      else case doc_jobs name (Suc i) ds of
             Inl e \<Rightarrow> Inl e
           | Inr js \<Rightarrow> Inr (doc_job d # js))"

definition doc_workflow :: "workflow_doc \<Rightarrow> workflow_error + workflow" where
  "doc_workflow d =
    (let base = \<lparr> wf_id = wd_id d, wf_name = wd_name d, wf_org = '''', wf_repo = '''', wf_branch = '''',
                  wf_on = (if wd_on d = [] then [''manual''] else wd_on d), wf_jobs = [] \<rparr>
     in if wd_preset d \<noteq> '''' \<and> wd_jobs d \<noteq> [] then Inl (PresetAndJobs (wd_name d))
        else if wd_preset d \<noteq> '''' then
          (case expand_preset (wd_preset d) '''' (wd_args d) of
             Inl e \<Rightarrow> Inl (PresetFailed (wd_name d) e)
           | Inr j \<Rightarrow> Inr (base\<lparr> wf_jobs := [j] \<rparr>))
        else if wd_jobs d \<noteq> [] then
          (case doc_jobs (wd_name d) 0 (wd_jobs d) of
             Inl e \<Rightarrow> Inl e
           | Inr js \<Rightarrow> Inr (base\<lparr> wf_jobs := js \<rparr>))
        else Inl (NothingDeclared (wd_name d)))"

fun parse_docs :: "string \<Rightarrow> nat \<Rightarrow> string list \<Rightarrow> workflow_doc list \<Rightarrow> workflow_error + workflow list" where
  "parse_docs name i seen [] = Inr []"
| "parse_docs name i seen (d # ds) =
     (if wd_name d = '''' then Inl (NameRequired i)
      else if wd_name d \<in> set seen then Inl (DuplicateName (wd_name d))
      else if name \<noteq> '''' \<and> wd_name d \<noteq> name then parse_docs name (Suc i) (wd_name d # seen) ds
      else case doc_workflow d of
             Inl e \<Rightarrow> Inl e
           | Inr w \<Rightarrow>
               (case parse_docs name (Suc i) (wd_name d # seen) ds of
                  Inl e \<Rightarrow> Inl e
                | Inr ws \<Rightarrow> Inr (w # ws)))"

definition parse_workflow_file :: "(string + workflow_file) \<Rightarrow> string
    \<Rightarrow> workflow_error + workflow list \<times> string list" where
  "parse_workflow_file decoded name =
    (case decoded of
       Inl e \<Rightarrow> Inl (YamlError e)
     | Inr f \<Rightarrow>
         if wff_version f \<noteq> 0 \<and> wff_version f \<noteq> 1 then Inl (UnsupportedVersion (wff_version f))
         else if wff_workflows f = [] then Inl NoWorkflows
         else case parse_docs name 0 [] (wff_workflows f) of
                Inl e \<Rightarrow> Inl e
              | Inr ws \<Rightarrow> Inr (ws, if name \<noteq> '''' \<and> ws = [] then [name] else []))"

section \<open>Presets agree with the publish templates\<close>

lemma preset_keys: "distinct (map fst presets)"
  by (simp add: presets_def publish_protocols_def)

lemma map_of_publish_preset:
  assumes "p \<in> set publish_protocols"
  shows "map_of presets (p @ ''-publish'') = Some (publish_preset p)"
proof -
  have "(p @ ''-publish'', publish_preset p) \<in> set presets"
    using assms by (auto simp: presets_def)
  then show ?thesis by (rule map_of_is_SomeI[OF preset_keys])
qed

lemma map_of_presets_cases:
  assumes "map_of presets name = Some build"
  obtains p where "p \<in> set publish_protocols" "name = p @ ''-publish''" "build = publish_preset p"
    | "name = ''container-build''" "build = container_preset"
  using map_of_SomeD[OF assms] by (auto simp: presets_def)

definition template_arg :: "string \<Rightarrow> string" where
  "template_arg req =
    (if req = ''name'' then ''NAME'' else if req = ''version'' then ''VERSION'' else ''FILE'')"

text \<open>The table of required arguments of the presets is the one of the templates.\<close>

lemma required_tables:
  "list_all (\<lambda>p. case map_of publish_specs p of
      None \<Rightarrow> False
    | Some spec \<Rightarrow> ps_required spec =
        map template_arg (filter (required_arg p) [''name'', ''version'', ''file''])) publish_protocols"
proof -
  have m: "map_of (map (\<lambda>(p, s). (p, ps_required s)) publish_specs) p = map_option ps_required (map_of publish_specs p)" for p
    by (simp add: map_of_map)
  have "list_all (\<lambda>p. map_of (map (\<lambda>(p, s). (p, ps_required s)) publish_specs) p =
      Some (map template_arg (filter (required_arg p) [''name'', ''version'', ''file'']))) publish_protocols"
    unfolding publish_required
    by (simp add: publish_protocols_def required_arg_def required_args_def template_arg_def)
  then show ?thesis unfolding m by (auto simp: list_all_iff split: option.splits)
qed

lemma find_map: "find P (map f xs) = map_option f (find (P \<circ> f) xs)"
  by (induction xs) auto

lemma find_filter: "find P (filter Q xs) = find (\<lambda>x. Q x \<and> P x) xs"
  by (induction xs) auto

lemma find_cong: "(\<And>x. x \<in> set xs \<Longrightarrow> P x = Q x) \<Longrightarrow> find P xs = find Q xs"
  by (induction xs) auto

lemma render_preset:
  assumes "p \<in> set publish_protocols"
  shows "\<exists>t. render p (arg_get args ''name'') (arg_get args ''version'') (arg_get args ''file'') =
    (case find (\<lambda>req. required_arg p req \<and> arg_get args req = '''') [''name'', ''version'', ''file''] of
       Some req \<Rightarrow> Inl (ErrArgs (template_arg req) p) | None \<Rightarrow> Inr t)"
proof -
  let ?ra = "render_args (arg_get args ''name'') (arg_get args ''version'') (arg_get args ''file'')"
  obtain spec where s: "map_of publish_specs p = Some spec"
    "ps_required spec = map template_arg (filter (required_arg p) [''name'', ''version'', ''file''])"
    using required_tables assms by (fastforce simp: list_all_iff split: option.splits)
  have "?ra (template_arg req) = arg_get args req" if "req \<in> set [''name'', ''version'', ''file'']" for req
    using that by (auto simp: template_arg_def render_args_def)
  then have "find (\<lambda>a. ?ra a = '''') (ps_required spec) =
      map_option template_arg (find (\<lambda>req. required_arg p req \<and> arg_get args req = '''') [''name'', ''version'', ''file''])"
    unfolding s(2) find_map find_filter by (intro arg_cong[where f = "map_option template_arg"] find_cong) auto
  then show ?thesis by (auto simp: render_def s(1) split: option.splits)
qed

text \<open>
  For every publish protocol and all arguments, the preset named after the protocol expands
  exactly when the protocol's template renders with the same arguments; when it does not, both
  name the same missing argument, and when it does, the job publishes that protocol with these
  arguments under the protocol's name.  So no expanded publish job is refused by the renderer.
\<close>
lemma preset_matches_template:
  assumes "p \<in> set (map fst publish_specs)"
  shows "case expand_preset (p @ ''-publish'') '''' args of
      Inr j \<Rightarrow> job_id j = p \<and> pr_action (job_produce j) = ActionPublishProtocol
        \<and> isl (render (pr_protocol (job_produce j)) (pr_name (job_produce j))
             (pr_version (job_produce j)) (pr_file (job_produce j))) = False
    | Inl e \<Rightarrow> (\<exists>req. e = PresetRequires p req
        \<and> render p (arg_get args ''name'') (arg_get args ''version'') (arg_get args ''file'')
            = Inl (ErrArgs (template_arg req) p))"
proof -
  have p: "p \<in> set publish_protocols"
    using assms unfolding publish_keys by (auto simp: publish_protocols_def)
  obtain t where r: "render p (arg_get args ''name'') (arg_get args ''version'') (arg_get args ''file'') =
    (case find (\<lambda>req. required_arg p req \<and> arg_get args req = '''') [''name'', ''version'', ''file''] of
       Some req \<Rightarrow> Inl (ErrArgs (template_arg req) p) | None \<Rightarrow> Inr t)"
    using render_preset[OF p] by blast
  show ?thesis
  proof (cases "find (\<lambda>req. required_arg p req \<and> arg_get args req = '''') [''name'', ''version'', ''file'']")
    case None
    show ?thesis using r unfolding None
      by (simp add: expand_preset_def map_of_publish_preset[OF p] publish_preset_def None Let_def del: find.simps)
  next
    case (Some req)
    show ?thesis using r unfolding Some
      by (simp add: expand_preset_def map_of_publish_preset[OF p] publish_preset_def Some Let_def del: find.simps)
  qed
qed

lemma preset_matches_template_witness:
  "case expand_preset (''maven'' @ ''-publish'') '''' [(''name'', ''com.x''), (''version'', ''1'')] of
     Inr j \<Rightarrow> job_id j = ''maven'' | Inl e \<Rightarrow> False"
proof -
  let ?args = "[(''name'', ''com.x''), (''version'', ''1'')]"
  have p: "''maven'' \<in> set (map fst publish_specs)" unfolding publish_keys by simp
  have "\<not> isl (expand_preset (''maven'' @ ''-publish'') '''' ?args)"
    using map_of_publish_preset[of "''maven''"]
    by (simp add: expand_preset_def publish_protocols_def publish_preset_def required_arg_def
        required_args_def arg_get_def Let_def)
  with preset_matches_template[OF p, of ?args] show ?thesis
    by (auto simp only: isl_def split: sum.splits)
qed

section \<open>Parsing a workflow file\<close>

definition selected :: "string \<Rightarrow> workflow_doc \<Rightarrow> bool" where
  "selected name d \<longleftrightarrow> name = '''' \<or> wd_name d = name"

lemma parse_docs_iff:
  "parse_docs name i seen ds = Inr ws \<longleftrightarrow>
    '''' \<notin> wd_name ` set ds \<and> distinct (map wd_name ds) \<and> set seen \<inter> wd_name ` set ds = {}
    \<and> map doc_workflow (filter (selected name) ds) = map Inr ws"
proof (induction ds arbitrary: i seen ws)
  case Nil
  then show ?case by auto
next
  case (Cons d ds)
  show ?case
  proof (cases "wd_name d = '''' \<or> wd_name d \<in> set seen")
    case True
    then show ?thesis by auto
  next
    case False
    note IH = Cons.IH[of "Suc i" "wd_name d # seen"]
    show ?thesis
    proof (cases "selected name d")
      case False
      then show ?thesis using \<open>\<not> (wd_name d = '''' \<or> wd_name d \<in> set seen)\<close> IH[of ws]
        by (auto simp: selected_def)
    next
      case True
      then have n: "\<not> (name \<noteq> '''' \<and> wd_name d \<noteq> name)" by (auto simp: selected_def)
      show ?thesis
      proof (cases ws)
        case Nil
        then show ?thesis using False n True by (auto split: sum.splits)
      next
        case (Cons w ws')
        have "parse_docs name i seen (d # ds) = Inr ws \<longleftrightarrow>
            doc_workflow d = Inr w \<and> parse_docs name (Suc i) (wd_name d # seen) ds = Inr ws'"
          using False n Cons by (auto split: sum.splits)
        then show ?thesis using IH[of ws'] False True Cons by auto
      qed
    qed
  qed
qed

text \<open>
  A workflow file is accepted exactly when its version is 0 or 1, it declares a workflow,
  the names are non-empty and pairwise distinct (also those the filter leaves out), and every
  selected document translates; the result is the translations of the selected documents in
  their order, and the requested name is reported as missing exactly when nothing matched.
\<close>
lemma parse_workflow_file_iff:
  "parse_workflow_file (Inr f) name = Inr (ws, missing) \<longleftrightarrow>
    wff_version f \<in> {0, 1} \<and> wff_workflows f \<noteq> []
    \<and> '''' \<notin> set (map wd_name (wff_workflows f)) \<and> distinct (map wd_name (wff_workflows f))
    \<and> map doc_workflow (filter (selected name) (wff_workflows f)) = map Inr ws
    \<and> missing = (if name \<noteq> '''' \<and> name \<notin> set (map wd_name (wff_workflows f)) then [name] else [])"
proof -
  have sel: "ws = [] \<longleftrightarrow> name \<notin> set (map wd_name (wff_workflows f))"
    if "map doc_workflow (filter (selected name) (wff_workflows f)) = map Inr ws" "name \<noteq> ''''"
  proof -
    have "ws = [] \<longleftrightarrow> filter (selected name) (wff_workflows f) = []"
      using that(1) by (metis Nil_is_map_conv)
    then show ?thesis using that(2) by (auto simp: filter_empty_conv selected_def)
  qed
  have "parse_workflow_file (Inr f) name = Inr (ws, missing) \<longleftrightarrow>
      wff_version f \<in> {0, 1} \<and> wff_workflows f \<noteq> [] \<and> parse_docs name 0 [] (wff_workflows f) = Inr ws
      \<and> missing = (if name \<noteq> '''' \<and> ws = [] then [name] else [])"
    by (auto simp: parse_workflow_file_def split: sum.splits if_splits)
  then show ?thesis unfolding parse_docs_iff using sel by auto
qed

lemma doc_jobs_ids:
  "doc_jobs name i ds = Inr js \<Longrightarrow> js = map doc_job ds \<and> '''' \<notin> set (map job_id js)"
  by (induction ds arbitrary: i js) (auto simp: doc_job_def Let_def image_iff split: if_splits sum.splits)

lemma publish_protocols_nonempty: "'''' \<notin> set publish_protocols"
  by (simp add: publish_protocols_def)

lemma expand_preset_id:
  assumes "expand_preset name '''' args = Inr j"
  shows "job_id j \<noteq> '''' \<and> (pr_action (job_produce j) = ActionPublishProtocol \<or> pr_action (job_produce j) = ActionOCIBuild)"
proof -
  obtain build j0 where b: "map_of presets name = Some build" "build args = Inr j0"
    "j = j0\<lparr> job_id := trim_suffix ''-publish'' name \<rparr>"
    using assms by (auto simp: expand_preset_def split: option.splits sum.splits)
  from b(1) show ?thesis
  proof (cases rule: map_of_presets_cases)
    case (1 p)
    then show ?thesis using b publish_protocols_nonempty
      by (auto simp: publish_preset_def Let_def split: option.splits)
  next
    case 2
    have "trim_suffix ''-publish'' ''container-build'' = ''container-build''"
      by (simp add: trim_suffix_def has_suffix_def)
    then show ?thesis using 2 b by (auto simp: container_preset_def split: if_splits)
  qed
qed

text \<open>
  C7: Every workflow that comes out of a workflow file can be scheduled: it carries its
  document's name, reacts to at least one event, has at least one job, and no job id is empty.
\<close>
theorem parsed_workflow_wellformed:
  assumes "doc_workflow d = Inr w"
  shows "wf_name w = wd_name d \<and> wf_id w = wd_id d \<and> wf_on w \<noteq> [] \<and> wf_jobs w \<noteq> []
    \<and> '''' \<notin> set (map job_id (wf_jobs w))
    \<and> (wd_preset d = '''' \<longrightarrow> wf_jobs w = map doc_job (wd_jobs d))"
proof -
  let ?base = "\<lparr> wf_id = wd_id d, wf_name = wd_name d, wf_org = '''', wf_repo = '''', wf_branch = '''',
     wf_on = (if wd_on d = [] then [''manual''] else wd_on d), wf_jobs = [] \<rparr>"
  consider (preset) j where "wd_preset d \<noteq> ''''" "expand_preset (wd_preset d) '''' (wd_args d) = Inr j"
      "w = ?base\<lparr> wf_jobs := [j] \<rparr>"
    | (jobs) js where "wd_preset d = ''''" "wd_jobs d \<noteq> []" "doc_jobs (wd_name d) 0 (wd_jobs d) = Inr js"
      "w = ?base\<lparr> wf_jobs := js \<rparr>"
    using assms by (auto simp: doc_workflow_def Let_def split: if_splits sum.splits)
  then show ?thesis
  proof cases
    case preset
    then show ?thesis using expand_preset_id[OF preset(2)] by auto
  next
    case jobs
    have js: "js = map doc_job (wd_jobs d)" "'''' \<notin> set (map job_id js)"
      using doc_jobs_ids[OF jobs(3)] by blast+
    then show ?thesis using jobs by (simp del: list.set_map set_map map_map)
  qed
qed

lemma parsed_workflow_wellformed_witness:
  "\<exists>w. doc_workflow \<lparr> wd_name = ''img'', wd_id = '''', wd_on = [], wd_preset = ''container-build'',
       wd_args = [(''tag'', ''app:1'')], wd_jobs = [] \<rparr> = Inr w \<and> wf_on w \<noteq> []"
proof -
  let ?d = "\<lparr> wd_name = ''img'', wd_id = '''', wd_on = [], wd_preset = ''container-build'',
       wd_args = [(''tag'', ''app:1'')], wd_jobs = [] \<rparr>"
  have "map_of presets ''container-build'' = Some container_preset"
    by (simp add: presets_def publish_protocols_def)
  then obtain w where w: "doc_workflow ?d = Inr w"
    by (simp add: doc_workflow_def expand_preset_def container_preset_def arg_get_def Let_def)
  from parsed_workflow_wellformed[OF w] w show ?thesis by blast
qed

end
