(* ===== verification/Registry_Ref.thy ===== *)
theory Registry_Ref
imports Prelude
begin

text \<open>
  OCI image references (\<^verbatim>\<open>internal/registry/ref.go\<close>): splitting, qualification with the local
  registry host, and the rewriting of external references to pull-through references.

  \<^verbatim>\<open>atoi_ok\<close> is the acceptance condition of Go's \<^verbatim>\<open>strconv.Atoi\<close> on a 64-bit platform: an
  optional sign, at least one digit, and a value in the range of the type.
\<close>

definition is_digit :: "char \<Rightarrow> bool" where
  "is_digit c \<longleftrightarrow> 48 \<le> (of_char c :: nat) \<and> (of_char c :: nat) \<le> 57"

definition digits_value :: "string \<Rightarrow> int" where
  "digits_value ds = foldl (\<lambda>n c. 10 * n + (int (of_char c) - 48)) 0 ds"

definition atoi_ok :: "string \<Rightarrow> bool" where
  "atoi_ok s =
    (case s of
       [] \<Rightarrow> False
     | c # cs \<Rightarrow>
         (if c = CHR ''-'' then cs \<noteq> [] \<and> list_all is_digit cs \<and> digits_value cs \<le> 2 ^ 63
          else if c = CHR ''+'' then cs \<noteq> [] \<and> list_all is_digit cs \<and> digits_value cs < 2 ^ 63
          else list_all is_digit s \<and> digits_value s < 2 ^ 63))"

definition is_host :: "string \<Rightarrow> bool" where
  "is_host seg =
    (if seg = ''localhost'' then True
     else if contains_sub ''.'' seg then True
     else case cut_at CHR '':'' seg of
            Some (_, port) \<Rightarrow> port \<noteq> '''' \<and> atoi_ok port
          | None \<Rightarrow> False)"

text \<open>The part of a reference before its first slash, the whole reference when it has none.\<close>

definition first_segment :: "string \<Rightarrow> string" where
  "first_segment ref = (case cut_at CHR ''/'' ref of Some (a, _) \<Rightarrow> a | None \<Rightarrow> ref)"

definition ref_split :: "string \<Rightarrow> string \<times> string \<times> string" where
  "ref_split ref =
    (let (host, rest) = (case cut_at CHR ''/'' ref of Some (a, b) \<Rightarrow> (a, b) | None \<Rightarrow> ('''', ref))
     in case cut_last CHR '':'' rest of
          Some (repo, tag) \<Rightarrow> (host, repo, tag)
        | None \<Rightarrow> (host, rest, ''latest''))"

definition ref_join :: "string \<Rightarrow> string \<Rightarrow> string" where
  "ref_join host name0 =
    (let name = trim_space name0 in
     if host = '''' \<or> name = '''' then name
     else if is_host (first_segment name) then name
     else host @ ''/'' @ name)"

definition ref_local :: "string \<Rightarrow> string \<Rightarrow> string \<Rightarrow> string" where
  "ref_local ref0 host default_tag =
    (let ref = trim_space ref0 in
     if ref = '''' then ref
     else if is_host (first_segment ref) then ref
     else
       let tagged = (if \<not> contains_sub '':'' ref
                     then ref @ '':'' @ (if default_tag = '''' then ''latest'' else default_tag)
                     else ref)
       in if host = '''' then tagged else host @ ''/'' @ tagged)"

definition pull_through :: "string \<Rightarrow> string \<Rightarrow> string" where
  "pull_through ref0 host =
    (let ref = trim_space ref0; first = first_segment ref in
     if ref = '''' \<or> host = '''' then ref
     else if first = host \<or> first = ''localhost'' \<or> has_prefix ''localhost:'' first then ref
     else if contains_sub ''.svc'' first then ref
     else
       let is_reg = contains_sub ''.'' first \<or> (contains_sub '':'' first \<and> contains_sub ''/'' ref)
       in if \<not> is_reg then
            (if contains_sub ''/'' ref then host @ ''/docker.io/'' @ ref
             else host @ ''/docker.io/library/'' @ ref)
          else host @ ''/'' @ ref)"

section \<open>Segments and white space\<close>

text \<open>A host that can stand in front of a reference: no slash and no white space at its ends.\<close>

definition clean_host :: "string \<Rightarrow> bool" where
  "clean_host h \<longleftrightarrow> h \<noteq> '''' \<and> CHR ''/'' \<notin> set h \<and> \<not> is_space (hd h)"

lemma first_segment_append [simp]:
  "CHR ''/'' \<notin> set h \<Longrightarrow> first_segment (h @ CHR ''/'' # r) = h"
  by (simp add: first_segment_def cut_at_append)

lemma first_segment_no_slash: "CHR ''/'' \<notin> set ref \<Longrightarrow> first_segment ref = ref"
proof -
  assume "CHR ''/'' \<notin> set ref"
  then have "cut_at CHR ''/'' ref = None" by simp
  then show ?thesis by (simp only: first_segment_def option.case)
qed

lemma trim_space_last: "trim_space s = [] \<or> \<not> is_space (last (trim_space s))"
proof -
  let ?d = "dropWhile is_space (rev (dropWhile is_space s))"
  have "?d = [] \<or> \<not> is_space (hd ?d)" using hd_dropWhile by blast
  then show ?thesis by (auto simp: trim_space_def last_rev)
qed

lemma trim_space_hd: "trim_space s = [] \<or> \<not> is_space (hd (trim_space s))"
proof (cases "trim_space s = []")
  case False
  let ?t = "dropWhile is_space s"
  have d: "dropWhile is_space (rev ?t) \<noteq> []" using False by (simp add: trim_space_def)
  then have t: "?t \<noteq> []" by (metis dropWhile.simps(1) rev.simps(1))
  have "hd (trim_space s) = last (dropWhile is_space (rev ?t))" by (simp add: trim_space_def hd_rev)
  also have "\<dots> = hd ?t" using last_dropWhile[OF d] t by (simp add: last_rev)
  finally show ?thesis using hd_dropWhile[OF t] by simp
qed simp

lemma trim_space_idem [simp]: "trim_space (trim_space s) = trim_space s"
  using trim_space_hd trim_space_last by (intro trim_space_clean) blast

lemma trim_space_qualified:
  assumes "clean_host h" "s = trim_space s0" "s \<noteq> []"
  shows "trim_space (h @ p @ s) = h @ p @ s"
  using assms trim_space_last[of s0]
  by (intro trim_space_clean) (auto simp: clean_host_def)

text \<open>
  Rewriting to a pull-through reference is idempotent, for every reference and every clean
  host: a reference that has been rewritten once (by a build, say) is left alone by the next
  rewriting, so no reference is ever prefixed twice.
\<close>
lemma pull_through_idempotent:
  assumes "clean_host host"
  shows "pull_through (pull_through ref host) host = pull_through ref host"
proof -
  let ?r = "trim_space ref"
  have trim: "trim_space ?r = ?r"
    by (rule trim_space_idem)
  have stay: "pull_through (host @ CHR ''/'' # p @ ?r) host = host @ CHR ''/'' # p @ ?r" if "?r \<noteq> []" for p
    using trim_space_qualified[OF assms refl that, of "CHR ''/'' # p"] assms
    by (simp add: pull_through_def Let_def clean_host_def)
  have same: "pull_through ?r host = ?r" if "pull_through ref host = ?r"
    using that trim by (simp add: pull_through_def)
  have "pull_through ref host = ?r \<or> ?r \<noteq> [] \<and> (pull_through ref host = host @ CHR ''/'' # [] @ ?r
      \<or> pull_through ref host = host @ CHR ''/'' # ''docker.io/'' @ ?r
      \<or> pull_through ref host = host @ CHR ''/'' # ''docker.io/library/'' @ ?r)"
    by (simp add: pull_through_def Let_def)
  then show ?thesis using stay same by metis
qed

text \<open>
  Qualifying a bare repository name with a host and a tag and splitting the result gives the
  three parts back; and qualifying it once more changes nothing when the host is recognised as
  one (it has a dot, a numeric port, or is localhost).
\<close>
lemma ref_local_roundtrip:
  assumes repo: "repo \<noteq> ''''" "trim_space repo = repo" "CHR '':'' \<notin> set repo" "\<not> is_host (first_segment repo)"
    and host: "clean_host host"
    and tag: "tag \<noteq> ''''" "CHR '':'' \<notin> set tag" "\<not> is_space (last tag)"
  shows "ref_split (ref_local repo host tag) = (host, repo, tag)
    \<and> (is_host host \<longrightarrow> ref_local (ref_local repo host tag) host tag' = ref_local repo host tag)"
proof -
  have eq: "ref_local repo host tag = host @ CHR ''/'' # repo @ CHR '':'' # tag"
    using repo host tag(1) by (simp add: ref_local_def Let_def clean_host_def)
  have hs: "CHR ''/'' \<notin> set host" using host by (simp add: clean_host_def)
  have "ref_split (ref_local repo host tag) = (host, repo, tag)"
    using cut_at_append[OF hs, of "repo @ CHR '':'' # tag"] cut_last_append[OF tag(2), of repo]
    by (simp add: eq ref_split_def)
  moreover have "trim_space (host @ CHR ''/'' # repo @ CHR '':'' # tag) = host @ CHR ''/'' # repo @ CHR '':'' # tag"
    using host tag(1,3) by (intro trim_space_clean) (auto simp: clean_host_def)
  then have "is_host host \<longrightarrow> ref_local (ref_local repo host tag) host tag' = ref_local repo host tag"
    using hs by (simp add: eq ref_local_def[of "host @ CHR ''/'' # repo @ CHR '':'' # tag"] Let_def)
  ultimately show ?thesis ..
qed

text \<open>
  The default registry host of the program is not recognised as a host, so with it the
  qualification is not idempotent.
\<close>

lemma default_host_not_idempotent:
  "ref_local ''app'' ''easylab'' '''' = ''easylab/app:latest''
   \<and> ref_local (ref_local ''app'' ''easylab'' '''') ''easylab'' '''' = ''easylab/easylab/app:latest''"
  by (simp add: ref_local_def trim_space_def is_space_def first_segment_def is_host_def Let_def)

lemma pull_through_idempotent_witness:
  "pull_through (pull_through ''nginx:alpine'' ''easylab:80'') ''easylab:80'' = ''easylab:80/docker.io/library/nginx:alpine''"
proof -
  have "clean_host ''easylab:80''" by (simp add: clean_host_def is_space_def)
  from pull_through_idempotent[OF this, of "''nginx:alpine''"] show ?thesis
    by (simp add: pull_through_def trim_space_def is_space_def first_segment_def Let_def)
qed

lemma ref_local_roundtrip_witness:
  "ref_split (ref_local ''team/app'' ''reg.local'' ''v1'') = (''reg.local'', ''team/app'', ''v1'')"
  using ref_local_roundtrip[of "''team/app''" "''reg.local''" "''v1''"]
  by (simp add: trim_space_def is_space_def is_host_def first_segment_def clean_host_def)

end
