(* ===== verification/Naming.thy ===== *)
theory Naming
imports Prelude
begin

text \<open>
  Names derived from a workspace triple: session names (\<^verbatim>\<open>internal/ext/ops/naming.go\<close>,
  \<^verbatim>\<open>internal/ext/repo/helpers.go\<close>), label values and sandbox keys
  (\<^verbatim>\<open>internal/ext/ops/sessions.go\<close>, \<^verbatim>\<open>internal/k8s/util.go\<close>) and service names
  (\<^verbatim>\<open>internal/ext/ops/helpers_domain.go\<close>).

  SHA-256 is a parameter: the function from a text to the lower-case hexadecimal digits of its
  digest.  What the code relies on is the hypothesis \<^verbatim>\<open>hex_digest\<close>.  The component pattern is
  the regular expression of the source written as a test on the characters; no character above
  127 passes any test here, so that testing bytes and testing runes agree.  The service name maps
  runes, one to one: there texts are taken to be valid UTF-8.
\<close>

section \<open>Session names\<close>

definition char_between :: "char \<Rightarrow> char \<Rightarrow> char \<Rightarrow> bool" where
  "char_between a b c \<longleftrightarrow> (of_char a :: nat) \<le> of_char c \<and> (of_char c :: nat) \<le> of_char b"

definition is_alnum :: "char \<Rightarrow> bool" where
  "is_alnum c \<longleftrightarrow> char_between CHR ''A'' CHR ''Z'' c \<or> char_between CHR ''a'' CHR ''z'' c
     \<or> char_between CHR ''0'' CHR ''9'' c"

definition component_re :: "string \<Rightarrow> bool" where
  "component_re s =
    (case s of
       [] \<Rightarrow> False
     | c # cs \<Rightarrow> is_alnum c \<and> length cs \<le> 127
         \<and> list_all (\<lambda>d. is_alnum d \<or> d = CHR ''.'' \<or> d = CHR ''_'' \<or> d = CHR ''/'' \<or> d = CHR ''-'') cs)"

definition valid_component :: "string \<Rightarrow> bool" where
  "valid_component s =
    (if \<not> component_re s then False
     else if contains_sub '':'' s then False
     else if contains_sub ''..'' s then False
     else if has_prefix ''/'' s \<or> has_suffix ''/'' s \<or> contains_sub ''//'' s then False
     else if has_suffix ''.'' s \<or> has_suffix ''.lock'' s then False
     else True)"

definition valid_session_component :: "string \<Rightarrow> bool" where
  "valid_session_component s =
    (if \<not> component_re s then False
     else if contains_sub '':'' s \<or> contains_sub ''..'' s \<or> has_prefix ''/'' s \<or> has_suffix ''/'' s
       \<or> contains_sub ''//'' s \<or> has_suffix ''.'' s \<or> has_suffix ''.lock'' s then False
     else True)"

definition parse_session_name :: "string \<Rightarrow> (string \<times> string \<times> string) option" where
  "parse_session_name name =
    (case split_on CHR '':'' name of
       [a, b, c] \<Rightarrow> if list_all valid_component [a, b, c] then Some (a, b, c) else None
     | _ \<Rightarrow> None)"

definition naming_session :: "string \<Rightarrow> string \<Rightarrow> string \<Rightarrow> string" where
  "naming_session org repo branch = org @ '':'' @ repo @ '':'' @ branch"

definition parse_session :: "string \<Rightarrow> (string \<times> string \<times> string) option" where
  "parse_session name =
    (case split_on CHR '':'' name of
       [a, b, c] \<Rightarrow> Some (a, b, c)
     | _ \<Rightarrow> None)"

definition branch_or_main :: "string \<Rightarrow> string" where
  "branch_or_main b = (if b = '''' then ''main'' else b)"

section \<open>Label values and keys\<close>

definition is_label_char :: "char \<Rightarrow> bool" where
  "is_label_char c \<longleftrightarrow> is_alnum c \<or> c = CHR ''-'' \<or> c = CHR ''_'' \<or> c = CHR ''.''"

definition valid_label_value :: "string \<Rightarrow> bool" where
  "valid_label_value v =
    (if v = '''' \<or> length v > 63 then False else list_all is_label_char v)"

definition label_key :: "(string \<Rightarrow> string) \<Rightarrow> string \<Rightarrow> string" where
  "label_key sha label = (if valid_label_value label then label else take 16 (sha label))"

definition session_key :: "(string \<Rightarrow> string) \<Rightarrow> string \<Rightarrow> string \<Rightarrow> string" where
  "session_key sha tenant session =
    (if tenant = '''' \<or> tenant = ''default'' then label_key sha session
     else label_key sha (tenant @ [CHR 0x00] @ session))"

section \<open>Service names\<close>

definition lower_char :: "char \<Rightarrow> char" where
  "lower_char c = (if char_between CHR ''A'' CHR ''Z'' c then char_of ((of_char c :: nat) + 32) else c)"

text \<open>
  Lower case by runes: of a multi-byte character only the first byte is kept, which no test here passes;
  the two such characters whose lower case is an ASCII letter are the Kelvin sign and the dotted I.
\<close>

fun lower_runes :: "string \<Rightarrow> string" where
  "lower_runes [] = []"
| "lower_runes (c # s) =
    (if (of_char c :: nat) < 128 then lower_char c # lower_runes s
     else if (of_char c :: nat) < 192 then lower_runes s
     else if c = CHR 0xC4 \<and> take 1 s = [CHR 0xB0] then CHR ''i'' # lower_runes s
     else if c = CHR 0xE2 \<and> take 2 s = [CHR 0x84, CHR 0xAA] then CHR ''k'' # lower_runes s
     else c # lower_runes s)"

definition dns_char :: "char \<Rightarrow> char" where
  "dns_char c = (if char_between CHR ''a'' CHR ''z'' c \<or> char_between CHR ''0'' CHR ''9'' c \<or> c = CHR ''-''
     then c else CHR ''-'')"

definition trim_dashes :: "string \<Rightarrow> string" where
  "trim_dashes s = rev (dropWhile (\<lambda>c. c = CHR ''-'') (rev (dropWhile (\<lambda>c. c = CHR ''-'') s)))"

definition k8s_service_name :: "(string \<Rightarrow> string) \<Rightarrow> string \<Rightarrow> string \<Rightarrow> string \<Rightarrow> string" where
  "k8s_service_name sha org repo bm =
    (let s = lower_runes (org @ ''-'' @ repo @ ''-'' @ bm);
         name = trim_dashes (map dns_char s)
     in if length name \<le> 63 then name
        else ''svc-'' @ take 16 (sha (org @ '':'' @ repo @ '':'' @ bm)))"

definition sanitize_name :: "string \<Rightarrow> string" where
  "sanitize_name s =
    (let keep = (\<lambda>c. if char_between CHR ''a'' CHR ''z'' c \<or> char_between CHR ''0'' CHR ''9'' c then c else CHR ''-'');
         t = trim_dashes (map keep (map lower_char s));
         u = (if length t > 20 then take 20 t else t)
     in if u = '''' then ''job'' else u)"

section \<open>Round trip of session names\<close>

lemma valid_component_no_colon: "valid_component s \<Longrightarrow> CHR '':'' \<notin> set s"
  by (auto simp: valid_component_def split: if_splits)

lemma three_parts:
  "CHR '':'' \<notin> set a \<Longrightarrow> CHR '':'' \<notin> set b \<Longrightarrow> CHR '':'' \<notin> set c \<Longrightarrow>
    split_on CHR '':'' (naming_session a b c) = [a, b, c]"
  by (simp add: naming_session_def split_on_append split_on_no_sep)

lemma split_three:
  "split_on CHR '':'' name = [a, b, c] \<longleftrightarrow>
    name = naming_session a b c \<and> CHR '':'' \<notin> set a \<and> CHR '':'' \<notin> set b \<and> CHR '':'' \<notin> set c"
proof
  assume s: "split_on CHR '':'' name = [a, b, c]"
  have "name = join_with [CHR '':''] (split_on CHR '':'' name)" by (simp only: join_split_on)
  then have "name = naming_session a b c" by (simp add: s naming_session_def)
  then show "name = naming_session a b c \<and> CHR '':'' \<notin> set a \<and> CHR '':'' \<notin> set b \<and> CHR '':'' \<notin> set c"
    using split_on_parts[of _ "CHR '':''" name] s by auto
qed (simp add: three_parts)

lemma parse_session_iff:
  "parse_session name = Some (a, b, c) \<longleftrightarrow>
    name = naming_session a b c \<and> CHR '':'' \<notin> set a \<and> CHR '':'' \<notin> set b \<and> CHR '':'' \<notin> set c"
proof -
  have "parse_session name = Some (a, b, c) \<longleftrightarrow> split_on CHR '':'' name = [a, b, c]"
    by (auto simp: parse_session_def split: list.splits)
  then show ?thesis by (simp only: split_three)
qed

lemma parse_session_name_parse:
  "parse_session_name name = Some (a, b, c) \<longleftrightarrow>
    parse_session name = Some (a, b, c) \<and> valid_component a \<and> valid_component b \<and> valid_component c"
  by (auto simp: parse_session_def parse_session_name_def split: list.splits if_splits)

text \<open>
  Session names and workspace triples of valid components are in bijection: a name parses to
  a triple exactly when the three components are valid and the name is the one derived from
  them.
\<close>
lemma session_name_bijection:
  "parse_session_name name = Some (org, repo, branch) \<longleftrightarrow>
    name = naming_session org repo branch
    \<and> valid_component org \<and> valid_component repo \<and> valid_component branch"
  using valid_component_no_colon
  by (auto simp: parse_session_name_parse parse_session_iff)

text \<open>
  The two extensions agree on what a valid component is, although each has its own copy of
  the test; but the repository extension's parser does not apply it, so it accepts exactly the
  names of three colon-separated parts, valid or not, and the operations extension accepts the
  subset with valid parts.
\<close>
lemma session_parsers_compared:
  "valid_session_component s = valid_component s
   \<and> (parse_session_name name = Some t \<longrightarrow> parse_session name = Some t)
   \<and> (parse_session name = Some (a, b, c) \<longrightarrow>
        (parse_session_name name = None) = (\<not> (valid_session_component a \<and> valid_session_component b
           \<and> valid_session_component c)))
   \<and> parse_session (naming_session '''' ''..'' ''x'') = Some ('''', ''..'', ''x'')
   \<and> parse_session_name (naming_session '''' ''..'' ''x'') = None"
proof -
  have v: "valid_session_component s = valid_component s" for s
    by (auto simp: valid_component_def valid_session_component_def)
  have sub: "parse_session_name name = Some t \<longrightarrow> parse_session name = Some t"
    by (cases t) (auto simp: parse_session_name_parse)
  have refuse: "(parse_session_name name = None) = (\<not> (valid_component a \<and> valid_component b \<and> valid_component c))"
    if p: "parse_session name = Some (a, b, c)"
  proof (cases "parse_session_name name")
    case None
    then show ?thesis using p parse_session_name_parse[of name a b c] by auto
  next
    case (Some t')
    then have "parse_session name = Some t'" by (cases t') (auto simp: parse_session_name_parse)
    with p have "t' = (a, b, c)" by simp
    with Some show ?thesis using parse_session_name_parse[of name a b c] by simp
  qed
  have "parse_session (naming_session '''' ''..'' ''x'') = Some ('''', ''..'', ''x'')"
    by (simp add: parse_session_iff)
  moreover have "parse_session_name (naming_session '''' ''..'' ''x'') = None"
    by (simp add: parse_session_name_def naming_session_def valid_component_def component_re_def)
  ultimately show ?thesis using v sub refuse by blast
qed

lemma session_parsers_compared_witness:
  "parse_session (naming_session ''acme'' ''my.repo'' ''feature-x'') = Some (''acme'', ''my.repo'', ''feature-x'')
   \<and> parse_session_name (naming_session ''acme'' '''' ''x'') = None"
proof -
  have "valid_component ''acme''" "valid_component ''my.repo''" "valid_component ''feature-x''"
    by (simp_all add: valid_component_def component_re_def is_alnum_def char_between_def has_suffix_def)
  then have "parse_session_name (naming_session ''acme'' ''my.repo'' ''feature-x'') = Some (''acme'', ''my.repo'', ''feature-x'')"
    using valid_component_no_colon by (simp add: parse_session_name_parse parse_session_iff)
  moreover have "parse_session (naming_session ''acme'' '''' ''x'') = Some (''acme'', '''', ''x'')"
    by (simp add: parse_session_iff)
  moreover have "\<not> valid_session_component ''''"
    by (simp add: valid_session_component_def component_re_def)
  ultimately show ?thesis
    using session_parsers_compared[of "''x''" "naming_session ''acme'' ''my.repo'' ''feature-x''"]
      session_parsers_compared[of "''x''" "naming_session ''acme'' '''' ''x''" _ "''acme''" "''''" "''x''"]
    by blast
qed

section \<open>Keys and service names are valid for Kubernetes\<close>

definition is_hex :: "char \<Rightarrow> bool" where
  "is_hex c \<longleftrightarrow> char_between CHR ''0'' CHR ''9'' c \<or> char_between CHR ''a'' CHR ''f'' c"

definition hex_digest :: "(string \<Rightarrow> string) \<Rightarrow> bool" where
  "hex_digest sha \<longleftrightarrow> (\<forall>s. length (sha s) = 64 \<and> list_all is_hex (sha s))"

definition is_dns_char :: "char \<Rightarrow> bool" where
  "is_dns_char c \<longleftrightarrow> char_between CHR ''a'' CHR ''z'' c \<or> char_between CHR ''0'' CHR ''9'' c \<or> c = CHR ''-''"

lemma hex_chars: "is_hex c \<Longrightarrow> is_label_char c \<and> is_dns_char c \<and> c \<noteq> CHR ''-''"
  by (auto simp: is_hex_def is_label_char_def is_alnum_def is_dns_char_def char_between_def)

lemma digest_prefix:
  assumes "hex_digest sha"
  shows "length (take 16 (sha s)) = 16" "list_all is_hex (take 16 (sha s))"
proof -
  have s: "length (sha s) = 64" "list_all is_hex (sha s)" using assms unfolding hex_digest_def by blast+
  show "length (take 16 (sha s)) = 16" using s(1) by simp
  show "list_all is_hex (take 16 (sha s))"
    using s(2) set_take_subset[of 16 "sha s"] unfolding list_all_iff by blast
qed

lemma hex_list:
  assumes "list_all is_hex h"
  shows "list_all is_label_char h" "list_all is_dns_char h" "h \<noteq> [] \<Longrightarrow> last h \<noteq> CHR ''-''"
proof -
  show "list_all is_label_char h" "list_all is_dns_char h"
    using assms by (rule list.pred_mono_strong, simp add: hex_chars)+
  show "last h \<noteq> CHR ''-''" if "h \<noteq> []"
    using assms last_in_set[OF that] hex_chars[of "last h"] by (simp add: list_all_iff)
qed

lemma label_key_valid:
  assumes "hex_digest sha"
  shows "valid_label_value (label_key sha l)"
proof -
  let ?h = "take 16 (sha l)"
  have "length ?h = 16" "list_all is_label_char ?h"
    using digest_prefix[OF assms, of l] hex_list by blast+
  then have "valid_label_value ?h"
    by (cases ?h) (simp_all only: valid_label_value_def, simp_all)
  then show ?thesis by (simp add: label_key_def)
qed

lemma trim_dashes_subset: "set (trim_dashes s) \<subseteq> set s"
  by (auto simp: trim_dashes_def dest!: set_dropWhileD)

lemma trim_dashes_ends:
  "trim_dashes s \<noteq> [] \<Longrightarrow> hd (trim_dashes s) \<noteq> CHR ''-'' \<and> last (trim_dashes s) \<noteq> CHR ''-''"
proof -
  let ?P = "\<lambda>c. c = CHR ''-''"
  let ?t = "dropWhile ?P s"
  assume ne: "trim_dashes s \<noteq> []"
  then have d: "dropWhile ?P (rev ?t) \<noteq> []" by (simp add: trim_dashes_def)
  then have t: "?t \<noteq> []" by (metis dropWhile.simps(1) rev.simps(1))
  have "last (dropWhile ?P (rev ?t)) = last (rev ?t)"
    by (rule last_dropWhile[OF d])
  then have "hd (trim_dashes s) = hd ?t" using t by (simp add: trim_dashes_def hd_rev last_rev)
  moreover have "last (trim_dashes s) = hd (dropWhile ?P (rev ?t))"
    using d by (simp add: trim_dashes_def last_rev)
  ultimately show ?thesis using hd_dropWhile[OF t] hd_dropWhile[OF d] by simp
qed

lemma dns_char_ok: "is_dns_char (dns_char c)"
  by (auto simp: dns_char_def is_dns_char_def)

lemma nul_not_label: "\<not> valid_label_value (t @ CHR 0x00 # s)"
  by (auto simp: valid_label_value_def is_label_char_def is_alnum_def char_between_def)

text \<open>
  Every sandbox key is a valid Kubernetes label value, and two sessions of non-default
  tenants get the same key only if they are the same session of the same tenant or the first
  64 bits of two different texts' digests collide; so equally named sessions of different
  tenants never share a sandbox.
\<close>
lemma session_keys_separate:
  assumes "hex_digest sha"
    and "CHR 0x00 \<notin> set t" "CHR 0x00 \<notin> set t'"
    and "t \<notin> {'''', ''default''}" "t' \<notin> {'''', ''default''}"
  shows "valid_label_value (session_key sha t s)
    \<and> (session_key sha t s = session_key sha t' s' \<longrightarrow>
        (t = t' \<and> s = s') \<or>
        (t @ CHR 0x00 # s \<noteq> t' @ CHR 0x00 # s'
         \<and> take 16 (sha (t @ CHR 0x00 # s)) = take 16 (sha (t' @ CHR 0x00 # s'))))"
proof -
  have key: "session_key sha a x = take 16 (sha (a @ CHR 0x00 # x))" if "a \<notin> {'''', ''default''}" for a x
    using that nul_not_label[of a x] by (simp add: session_key_def label_key_def)
  have inj: "t = t' \<and> s = s'" if "t @ CHR 0x00 # s = t' @ CHR 0x00 # s'"
  proof -
    have "Some (t, s) = cut_at CHR 0x00 (t @ CHR 0x00 # s)" using cut_at_append[OF assms(2)] by simp
    also have "\<dots> = Some (t', s')" unfolding that using cut_at_append[OF assms(3)] by simp
    finally show ?thesis by simp
  qed
  have "valid_label_value (session_key sha t s)"
    using assms(4) label_key_valid[OF assms(1)] by (simp add: session_key_def)
  then show ?thesis using key[OF assms(4)] key[OF assms(5)] inj by auto
qed

text \<open>
  C8: Every service name derived from a workspace is at most 63 characters of the DNS label
  alphabet and neither begins nor ends with a dash.  It does not determine the workspace:
  different workspaces can share a service name.
\<close>
theorem service_names_valid:
  assumes "hex_digest sha"
  shows "length (k8s_service_name sha org repo bm) \<le> 63
    \<and> list_all is_dns_char (k8s_service_name sha org repo bm)
    \<and> (k8s_service_name sha org repo bm \<noteq> '''' \<longrightarrow>
         hd (k8s_service_name sha org repo bm) \<noteq> CHR ''-'' \<and> last (k8s_service_name sha org repo bm) \<noteq> CHR ''-'')
    \<and> k8s_service_name sha ''a-b'' ''c'' ''main'' = k8s_service_name sha ''a'' ''b-c'' ''main''"
proof -
  let ?s = "lower_runes (org @ ''-'' @ repo @ ''-'' @ bm)"
  let ?n = "trim_dashes (map dns_char ?s)"
  let ?h = "take 16 (sha (org @ '':'' @ repo @ '':'' @ bm))"
  have plain: "list_all is_dns_char ?n"
    using trim_dashes_subset[of "map dns_char ?s"] dns_char_ok by (fastforce simp: list_all_iff)
  have h: "length ?h = 16" "list_all is_hex ?h" using digest_prefix[OF assms] by blast+
  then have ne: "?h \<noteq> []" by (metis list.size(3) zero_neq_numeral)
  have "list_all is_dns_char ''svc-''" by (simp add: is_dns_char_def char_between_def)
  then have hashed: "list_all is_dns_char (''svc-'' @ ?h)" "last (''svc-'' @ ?h) \<noteq> CHR ''-''"
    using hex_list[OF h(2)] ne by (simp_all only: list_all_append last_append if_False simp_thms)
  have same: "k8s_service_name sha ''a-b'' ''c'' ''main'' = k8s_service_name sha ''a'' ''b-c'' ''main''"
    by (simp add: k8s_service_name_def Let_def trim_dashes_def dns_char_def lower_char_def char_between_def)
  show ?thesis
  proof (cases "length ?n \<le> 63")
    case True
    then have "k8s_service_name sha org repo bm = ?n" by (simp add: k8s_service_name_def Let_def)
    then show ?thesis using True plain trim_dashes_ends[of "map dns_char ?s"] same by simp
  next
    case False
    then have "k8s_service_name sha org repo bm = ''svc-'' @ ?h" by (simp add: k8s_service_name_def Let_def)
    then show ?thesis using hashed h(1) same by simp
  qed
qed

definition zero_sha :: "string \<Rightarrow> string" where
  "zero_sha s = replicate 64 CHR ''0''"

lemma zero_sha_digest: "hex_digest zero_sha"
  by (simp add: hex_digest_def zero_sha_def is_hex_def char_between_def list_all_iff)

lemma session_keys_separate_witness:
  "valid_label_value (session_key zero_sha ''alice'' ''o:r:main'')"
  using session_keys_separate[OF zero_sha_digest, of "''alice''" "''bob''" "''o:r:main''"] by simp

lemma service_names_valid_witness:
  "list_all is_dns_char (k8s_service_name zero_sha ''Acme'' ''my.repo'' ''feature/x'')"
  using service_names_valid[OF zero_sha_digest, of "''Acme''"] by blast

end
