(* ===== verification/Repo_Store.thy ===== *)
theory Repo_Store
imports Prelude Naming "HOL-Library.Product_Lexorder"
begin

text \<open>
  The private store of the repository extension (\<^verbatim>\<open>internal/ext/repo/pg.go\<close>), its typed errors
  (\<^verbatim>\<open>errs.go\<close>) and the session cache (\<^verbatim>\<open>sessions_http.go\<close>).

  A table is the list of its rows in insertion order; the primary key and the unique constraint
  are checked by the statements that insert or update, as SQLite does, and ORDER BY sorts with
  the byte order of the text.  The database itself is taken to be available: a statement fails
  only on a constraint.  \<^verbatim>\<open>Repo_Migration\<close> models the schema and its migration.
\<close>

datatype op_error = OpError int string

definition err_not_found :: "string \<Rightarrow> op_error" where
  "err_not_found msg = OpError 404 msg"

definition err_conflict :: "string \<Rightarrow> op_error" where
  "err_conflict msg = OpError 409 msg"

definition err_bad :: "string \<Rightarrow> op_error" where
  "err_bad msg = OpError 400 msg"

definition err_downstream :: "string \<Rightarrow> string \<Rightarrow> op_error" where
  "err_downstream what err = OpError 502 (what @ '' unavailable: '' @ err)"

fun status_of :: "op_error \<Rightarrow> int" where
  "status_of (OpError st msg) = st"

definition is_permanent :: "op_error \<Rightarrow> bool" where
  "is_permanent e \<longleftrightarrow> status_of e < 500"

section \<open>Rows and queries\<close>

record map_row =
  mr_tenant :: string
  mr_org :: string
  mr_repo :: string
  mr_branch :: string
  mr_session :: string

record repo_store =
  rs_managed :: "(string \<times> string \<times> string) list"
  rs_rows :: "map_row list"

definition empty_store :: repo_store where
  "empty_store = \<lparr> rs_managed = [], rs_rows = [] \<rparr>"

definition row_key :: "map_row \<Rightarrow> string \<times> string \<times> string \<times> string" where
  "row_key r = (mr_tenant r, mr_org r, mr_repo r, mr_branch r)"

definition session_key_of :: "map_row \<Rightarrow> string \<times> string" where
  "session_key_of r = (mr_tenant r, mr_session r)"

definition is_managed :: "string \<Rightarrow> string \<Rightarrow> string \<Rightarrow> repo_store \<Rightarrow> bool" where
  "is_managed t o' r st = list_ex (\<lambda>m. m = (t, o', r)) (rs_managed st)"

definition insert_managed :: "string \<Rightarrow> string \<Rightarrow> string \<Rightarrow> repo_store \<Rightarrow> repo_store" where
  "insert_managed t o' r st =
    (if is_managed t o' r st then st else st\<lparr> rs_managed := rs_managed st @ [(t, o', r)] \<rparr>)"

definition delete_managed :: "string \<Rightarrow> string \<Rightarrow> string \<Rightarrow> repo_store \<Rightarrow> repo_store" where
  "delete_managed t o' r st = st\<lparr> rs_managed := filter (\<lambda>m. m \<noteq> (t, o', r)) (rs_managed st) \<rparr>"

definition list_managed :: "repo_store \<Rightarrow> (string \<times> string \<times> string) list" where
  "list_managed st = sort (rs_managed st)"

definition get_row :: "string \<Rightarrow> string \<Rightarrow> string \<Rightarrow> string \<Rightarrow> repo_store \<Rightarrow> map_row option" where
  "get_row t o' r b st = find (\<lambda>x. row_key x = (t, o', r, b)) (rs_rows st)"

definition get_row_by_session :: "string \<Rightarrow> string \<Rightarrow> repo_store \<Rightarrow> map_row option" where
  "get_row_by_session t s st = find (\<lambda>x. session_key_of x = (t, s)) (rs_rows st)"

definition insert_row :: "string \<Rightarrow> string \<Rightarrow> string \<Rightarrow> string \<Rightarrow> string \<Rightarrow> repo_store
    \<Rightarrow> op_error + repo_store" where
  "insert_row t o' r b s st =
    (let x = \<lparr> mr_tenant = t, mr_org = o', mr_repo = r, mr_branch = b, mr_session = s \<rparr> in
     if list_ex (\<lambda>y. row_key y = row_key x \<or> session_key_of y = session_key_of x) (rs_rows st)
     then Inl (err_conflict ''branch or session already bound'')
     else Inr (st\<lparr> rs_rows := rs_rows st @ [x] \<rparr>))"

definition rename_row :: "string \<Rightarrow> string \<Rightarrow> string \<Rightarrow> string \<Rightarrow> string \<Rightarrow> string \<Rightarrow> repo_store
    \<Rightarrow> op_error + repo_store" where
  "rename_row t o' r from_bm to_bm to_session st =
    (let k = (t, o', r, from_bm);
         move = (\<lambda>x. if row_key x = k then x\<lparr> mr_branch := to_bm, mr_session := to_session \<rparr> else x)
     in if \<not> list_ex (\<lambda>x. row_key x = k) (rs_rows st) then Inl (err_not_found ''mapping row not found'')
        else if list_ex (\<lambda>y. row_key y \<noteq> k \<and>
             (row_key y = (t, o', r, to_bm) \<or> session_key_of y = (t, to_session))) (rs_rows st)
        then Inl (err_conflict ''target branch or session already bound'')
        else Inr (st\<lparr> rs_rows := map move (rs_rows st) \<rparr>))"

definition delete_row :: "string \<Rightarrow> string \<Rightarrow> string \<Rightarrow> string \<Rightarrow> repo_store \<Rightarrow> repo_store" where
  "delete_row t o' r b st = st\<lparr> rs_rows := filter (\<lambda>x. row_key x \<noteq> (t, o', r, b)) (rs_rows st) \<rparr>"

definition delete_rows_for_repo :: "string \<Rightarrow> string \<Rightarrow> string \<Rightarrow> repo_store \<Rightarrow> repo_store" where
  "delete_rows_for_repo t o' r st =
    st\<lparr> rs_rows := filter (\<lambda>x. (mr_tenant x, mr_org x, mr_repo x) \<noteq> (t, o', r)) (rs_rows st) \<rparr>"

definition list_rows_for_repo :: "string \<Rightarrow> string \<Rightarrow> string \<Rightarrow> repo_store \<Rightarrow> map_row list" where
  "list_rows_for_repo t o' r st =
    sort_key mr_branch (filter (\<lambda>x. (mr_tenant x, mr_org x, mr_repo x) = (t, o', r)) (rs_rows st))"

definition list_rows :: "repo_store \<Rightarrow> map_row list" where
  "list_rows st = sort_key row_key (rs_rows st)"

definition tenant_of_row :: "map_row option \<Rightarrow> string" where
  "tenant_of_row x =
    (case x of None \<Rightarrow> ''default'' | Some r \<Rightarrow> if mr_tenant r = '''' then ''default'' else mr_tenant r)"

section \<open>The cache\<close>

record sess_entry =
  se_org :: string
  se_repo :: string
  se_branch :: string
  se_exp :: int

type_synonym sess_cache = "string \<Rightarrow> sess_entry option"

definition cache_get :: "int \<Rightarrow> string \<Rightarrow> sess_cache \<Rightarrow> (string \<times> string \<times> string) option" where
  "cache_get now sid c =
    (case c sid of
       None \<Rightarrow> None
     | Some e \<Rightarrow> if now > se_exp e then None else Some (se_org e, se_repo e, se_branch e))"

definition cache_put :: "int \<Rightarrow> int \<Rightarrow> string \<Rightarrow> string \<Rightarrow> string \<Rightarrow> string \<Rightarrow> sess_cache \<Rightarrow> sess_cache" where
  "cache_put now ttl sid o' r b c =
    c(sid \<mapsto> \<lparr> se_org = o', se_repo = r, se_branch = b, se_exp = now + ttl \<rparr>)"

definition cache_evict :: "string \<Rightarrow> sess_cache \<Rightarrow> sess_cache" where
  "cache_evict sid c = c(sid := None)"

definition quoted :: "string \<Rightarrow> string" where
  "quoted s = CHR 0x27 # s @ [CHR 0x27]"

definition resolve_session :: "int \<Rightarrow> int \<Rightarrow> string \<Rightarrow> string \<Rightarrow> repo_store \<times> sess_cache
    \<Rightarrow> (op_error + string \<times> string \<times> string) \<times> sess_cache" where
  "resolve_session now ttl tenant0 sid sc =
    (let tenant = (if tenant0 = '''' then ''default'' else tenant0);
         key = tenant @ [CHR 0x00] @ sid
     in case cache_get now key (snd sc) of
          Some t \<Rightarrow> (Inr t, snd sc)
        | None \<Rightarrow>
            (case get_row_by_session tenant sid (fst sc) of
               None \<Rightarrow>
                 (if parse_session sid = None
                  then (Inl (err_bad (''session '' @ quoted sid @
                    '' does not match org:repo:branch naming; cannot resolve workspace'')), snd sc)
                  else (Inl (err_not_found (''session '' @ quoted sid @
                    '' workspace is not ready yet (lifecycle event in progress); retry later'')), snd sc))
             | Some row \<Rightarrow>
                 (Inr (mr_org row, mr_repo row, mr_branch row),
                  cache_put now ttl key (mr_org row) (mr_repo row) (mr_branch row) (snd sc))))"

definition bind_row :: "string \<Rightarrow> string \<Rightarrow> string \<Rightarrow> string \<Rightarrow> string \<Rightarrow> repo_store
    \<Rightarrow> op_error option \<times> repo_store" where
  "bind_row t o' r b s st =
    (case insert_row t o' r b s st of
       Inl e \<Rightarrow> if status_of e = 409 then (None, st) else (Some e, st)
     | Inr st' \<Rightarrow> (None, insert_managed t o' r st'))"

interpretation sess_store: keyed_store "\<lambda>_ :: sess_cache. True" "\<lambda>c k. c k"
  "\<lambda>k e c. c(k \<mapsto> e)" "cache_evict"
  by unfold_locales (auto simp: cache_evict_def)

section \<open>The constraints are an invariant\<close>

definition store_ok :: "repo_store \<Rightarrow> bool" where
  "store_ok st \<longleftrightarrow> distinct (map row_key (rs_rows st)) \<and> distinct (map session_key_of (rs_rows st))
     \<and> distinct (rs_managed st)"

lemma find_distinct:
  "distinct (map f xs) \<Longrightarrow> find (\<lambda>x. f x = k) xs = Some x \<longleftrightarrow> x \<in> set xs \<and> f x = k"
proof (induction xs)
  case (Cons a xs)
  then show ?case by (auto simp: image_iff)
qed simp

lemma get_row_iff: "store_ok st \<Longrightarrow>
    get_row t o' r b st = Some x \<longleftrightarrow> x \<in> set (rs_rows st) \<and> row_key x = (t, o', r, b)"
  by (simp add: get_row_def store_ok_def find_distinct)

lemma get_row_by_session_iff: "store_ok st \<Longrightarrow>
    get_row_by_session t s st = Some x \<longleftrightarrow> x \<in> set (rs_rows st) \<and> session_key_of x = (t, s)"
  by (simp add: get_row_by_session_def store_ok_def find_distinct)

lemma get_row_None: "get_row t o' r b st = None \<longleftrightarrow> (t, o', r, b) \<notin> row_key ` set (rs_rows st)"
  by (force simp: get_row_def find_None_iff)

lemma get_row_by_session_None:
  "get_row_by_session t s st = None \<longleftrightarrow> (t, s) \<notin> session_key_of ` set (rs_rows st)"
  by (force simp: get_row_by_session_def find_None_iff)

lemma row_key_simps [simp]:
  "row_key \<lparr> mr_tenant = t, mr_org = o', mr_repo = r, mr_branch = b, mr_session = s \<rparr> = (t, o', r, b)"
  "session_key_of \<lparr> mr_tenant = t, mr_org = o', mr_repo = r, mr_branch = b, mr_session = s \<rparr> = (t, s)"
  by (simp_all add: row_key_def session_key_of_def)

lemma insert_row_ok:
  assumes "store_ok st" "insert_row t o' r b s st = Inr st'"
  shows "store_ok st'"
proof -
  let ?x = "\<lparr> mr_tenant = t, mr_org = o', mr_repo = r, mr_branch = b, mr_session = s \<rparr>"
  have st': "st' = st\<lparr> rs_rows := rs_rows st @ [?x] \<rparr>"
    and free: "row_key ?x \<notin> row_key ` set (rs_rows st)" "session_key_of ?x \<notin> session_key_of ` set (rs_rows st)"
    using assms(2) by (force simp: insert_row_def Let_def list_ex_iff split: if_splits)+
  then show ?thesis using assms(1) by (simp add: store_ok_def)
qed

lemma delete_row_ok: "store_ok st \<Longrightarrow> store_ok (delete_row t o' r b st)"
  by (simp add: store_ok_def delete_row_def distinct_map_filter)

lemma delete_rows_for_repo_ok: "store_ok st \<Longrightarrow> store_ok (delete_rows_for_repo t o' r st)"
  by (simp add: store_ok_def delete_rows_for_repo_def distinct_map_filter)

lemma insert_managed_ok: "store_ok st \<Longrightarrow> store_ok (insert_managed t o' r st)"
  by (auto simp: store_ok_def insert_managed_def is_managed_def list_ex_iff)

lemma delete_managed_ok: "store_ok st \<Longrightarrow> store_ok (delete_managed t o' r st)"
  by (simp add: store_ok_def delete_managed_def)

lemma distinct_map_move:
  assumes "distinct (map f xs)" and "\<And>x. x \<in> set xs \<Longrightarrow> f x = k \<Longrightarrow> \<not> P x \<Longrightarrow> False"
    and "\<And>x y. x \<in> set xs \<Longrightarrow> y \<in> set xs \<Longrightarrow> P x \<Longrightarrow> P y \<Longrightarrow> x = y"
    and "\<And>x. x \<in> set xs \<Longrightarrow> P x \<Longrightarrow> f (g x) = k"
  shows "distinct (map f (map (\<lambda>x. if P x then g x else x) xs))"
proof -
  have "inj_on (\<lambda>x. f (if P x then g x else x)) (set xs)"
  proof (rule inj_onI)
    fix x y assume xy: "x \<in> set xs" "y \<in> set xs"
      "f (if P x then g x else x) = f (if P y then g y else y)"
    have inj: "f x = f y \<Longrightarrow> x = y" using assms(1) xy by (auto simp: distinct_map inj_on_def)
    show "x = y"
      using xy inj assms(2)[OF xy(1)] assms(2)[OF xy(2)] assms(3)[OF xy(1,2)]
        assms(4)[OF xy(1)] assms(4)[OF xy(2)]
      by (auto split: if_splits)
  qed
  then show ?thesis using assms(1) by (simp add: distinct_map comp_def)
qed

lemma rename_row_ok:
  assumes ok: "store_ok st" and r: "rename_row t o' r fb tb ts st = Inr st'"
  shows "store_ok st'"
proof -
  let ?k = "(t, o', r, fb)"
  let ?g = "\<lambda>x. x\<lparr> mr_branch := tb, mr_session := ts \<rparr>"
  have st': "st' = st\<lparr> rs_rows := map (\<lambda>x. if row_key x = ?k then ?g x else x) (rs_rows st) \<rparr>"
    and free: "\<And>y. y \<in> set (rs_rows st) \<Longrightarrow> row_key y \<noteq> ?k \<Longrightarrow>
        row_key y \<noteq> (t, o', r, tb) \<and> session_key_of y \<noteq> (t, ts)"
    using r by (auto simp: rename_row_def Let_def list_ex_iff split: if_splits)
  have one: "x = y" if "x \<in> set (rs_rows st)" "y \<in> set (rs_rows st)" "row_key x = ?k" "row_key y = ?k" for x y
    using ok that by (auto simp: store_ok_def distinct_map inj_on_def)
  have rows: "rs_rows st' = map (\<lambda>x. if row_key x = ?k then ?g x else x) (rs_rows st)"
    by (simp add: st')
  have "distinct (map row_key (rs_rows st'))"
    unfolding rows
    using ok free one by (intro distinct_map_move[where k = "(t, o', r, tb)"]) (auto simp: store_ok_def row_key_def)
  moreover have "distinct (map session_key_of (rs_rows st'))"
    unfolding rows
    using ok free one
    by (intro distinct_map_move[where k = "(t, ts)"]) (auto simp: store_ok_def session_key_of_def row_key_def)
  ultimately show ?thesis using ok by (simp add: store_ok_def st')
qed

lemma bind_row_ok: "store_ok st \<Longrightarrow> store_ok (snd (bind_row t o' r b s st))"
  by (auto simp: bind_row_def insert_managed_ok split: sum.splits dest: insert_row_ok)

section \<open>Reachable stores and the mapping\<close>

lemma option_eq_iff: "a = b \<longleftrightarrow> (\<forall>z. a = Some z \<longleftrightarrow> b = Some z)"
  by (cases a; cases b) auto

lemma move_mem:
  assumes m: "\<forall>y. f y = k \<longrightarrow> f (g y) = k'"
  shows "x \<in> set xs \<Longrightarrow> f x = k \<Longrightarrow>
      g x \<in> set (map (\<lambda>y. if f y = k then g y else y) xs) \<and> f (g x) = k'"
    and "k \<noteq> k' \<Longrightarrow> k \<notin> f ` set (map (\<lambda>y. if f y = k then g y else y) xs)"
    and "j \<noteq> k \<Longrightarrow> j \<noteq> k' \<Longrightarrow>
      z \<in> set (map (\<lambda>y. if f y = k then g y else y) xs) \<and> f z = j \<longleftrightarrow> z \<in> set xs \<and> f z = j"
proof -
  show "g x \<in> set (map (\<lambda>y. if f y = k then g y else y) xs) \<and> f (g x) = k'"
    if "x \<in> set xs" "f x = k" using that m by (force simp: image_iff)
  show "k \<notin> f ` set (map (\<lambda>y. if f y = k then g y else y) xs)" if "k \<noteq> k'"
    using that m by (auto simp: image_iff)
  show "z \<in> set (map (\<lambda>y. if f y = k then g y else y) xs) \<and> f z = j \<longleftrightarrow> z \<in> set xs \<and> f z = j"
    if "j \<noteq> k" "j \<noteq> k'"
    using that m by (induction xs) auto
qed

inductive store_step :: "repo_store \<Rightarrow> repo_store \<Rightarrow> bool" where
  st_insert: "insert_row t o' r b s st = Inr st' \<Longrightarrow> store_step st st'"
| st_bind: "store_step st (snd (bind_row t o' r b s st))"
| st_rename: "rename_row t o' r fb tb ts st = Inr st' \<Longrightarrow> store_step st st'"
| st_delete: "store_step st (delete_row t o' r b st)"
| st_delete_repo: "store_step st (delete_rows_for_repo t o' r st)"
| st_manage: "store_step st (insert_managed t o' r st)"
| st_unmanage: "store_step st (delete_managed t o' r st)"

inductive store_reach :: "repo_store \<Rightarrow> bool" where
  sr_empty: "store_reach empty_store"
| sr_step: "store_reach st \<Longrightarrow> store_step st st' \<Longrightarrow> store_reach st'"

inductive_cases store_stepE: "store_step st st'"

lemma store_step_ok: "store_step st st' \<Longrightarrow> store_ok st \<Longrightarrow> store_ok st'"
  by (elim store_stepE)
    (auto simp: bind_row_ok delete_row_ok delete_rows_for_repo_ok insert_managed_ok delete_managed_ok
      intro: insert_row_ok rename_row_ok)

lemma store_reach_ok: "store_reach st \<Longrightarrow> store_ok st"
proof (induction rule: store_reach.induct)
  case sr_empty
  show ?case by (simp add: store_ok_def empty_store_def)
qed (rule store_step_ok)

definition demo_store :: repo_store where
  "demo_store = \<lparr> rs_managed = [], rs_rows =
     [\<lparr> mr_tenant = ''default'', mr_org = ''acme'', mr_repo = ''web'', mr_branch = ''main'', mr_session = ''acme.web.main'' \<rparr>] \<rparr>"

lemma demo_store_reach: "store_reach demo_store"
  by (rule sr_step[OF sr_empty st_insert[of "''default''" "''acme''" "''web''" "''main''" "''acme.web.main''"]])
    (simp add: insert_row_def Let_def empty_store_def demo_store_def)

text \<open>
  C6: In every store the statements can produce, branches and sessions are mapped one to one
  within a tenant: the row found by its branch is the row found by its session name, and the
  other way round; no repository is listed as managed twice.
\<close>
theorem mapping_one_to_one:
  assumes "store_reach st"
  shows "store_ok st
    \<and> (get_row t o' r b st = Some x \<longrightarrow> get_row_by_session t (mr_session x) st = Some x)
    \<and> (get_row_by_session t s st = Some x \<longrightarrow> get_row t (mr_org x) (mr_repo x) (mr_branch x) st = Some x)"
  using store_reach_ok[OF assms]
  by (auto simp: get_row_iff get_row_by_session_iff row_key_def session_key_of_def)

lemma mapping_one_to_one_witness:
  "get_row_by_session ''default'' ''acme.web.main'' demo_store =
     get_row ''default'' ''acme'' ''web'' ''main'' demo_store
   \<and> get_row ''default'' ''acme'' ''web'' ''main'' demo_store \<noteq> None"
  using mapping_one_to_one[OF demo_store_reach, of "''default''" "''acme''" "''web''" "''main''" "hd (rs_rows demo_store)"]
  by (simp add: demo_store_def get_row_def)

text \<open>
  An insertion succeeds exactly when neither the branch nor the session is bound in the
  tenant, and then adds this row and changes no other lookup; otherwise it is a conflict (409)
  and the store is unchanged by it.
\<close>
lemma insert_row_spec:
  assumes "store_reach st"
  shows "case insert_row t o' r b s st of
      Inl e \<Rightarrow> status_of e = 409 \<and> (get_row t o' r b st \<noteq> None \<or> get_row_by_session t s st \<noteq> None)
    | Inr st' \<Rightarrow> get_row t o' r b st = None \<and> get_row_by_session t s st = None
        \<and> (\<forall>t' p q c. get_row t' p q c st' =
             (if (t', p, q, c) = (t, o', r, b)
              then Some \<lparr> mr_tenant = t, mr_org = o', mr_repo = r, mr_branch = b, mr_session = s \<rparr>
              else get_row t' p q c st))
        \<and> rs_managed st' = rs_managed st"
proof -
  let ?x = "\<lparr> mr_tenant = t, mr_org = o', mr_repo = r, mr_branch = b, mr_session = s \<rparr>"
  have app: "find P (xs @ [y]) = (case find P xs of Some z \<Rightarrow> Some z | None \<Rightarrow> if P y then Some y else None)"
    for P :: "map_row \<Rightarrow> bool" and xs y
    by (induction xs) auto
  show ?thesis
  proof (cases "list_ex (\<lambda>y. row_key y = row_key ?x \<or> session_key_of y = session_key_of ?x) (rs_rows st)")
    case True
    then have "insert_row t o' r b s st = Inl (err_conflict ''branch or session already bound'')"
      by (simp add: insert_row_def Let_def)
    moreover have "get_row t o' r b st \<noteq> None \<or> get_row_by_session t s st \<noteq> None"
      using True unfolding list_ex_iff get_row_None get_row_by_session_None by force
    ultimately show ?thesis by (simp add: err_conflict_def)
  next
    case False
    then have i: "insert_row t o' r b s st = Inr (st\<lparr> rs_rows := rs_rows st @ [?x] \<rparr>)"
      by (simp add: insert_row_def Let_def)
    have n: "get_row t o' r b st = None" "get_row_by_session t s st = None"
      using False unfolding list_ex_iff get_row_None get_row_by_session_None by force+
    show ?thesis using n by (auto simp: i get_row_def app split: option.splits)
  qed
qed

lemma insert_row_spec_witness:
  "(case insert_row ''default'' ''acme'' ''web'' ''dev'' ''acme.web.dev'' demo_store of
      Inl e \<Rightarrow> False
    | Inr st' \<Rightarrow> get_row ''default'' ''acme'' ''web'' ''main'' st' = get_row ''default'' ''acme'' ''web'' ''main'' demo_store)"
  using insert_row_spec[OF demo_store_reach, of "''default''" "''acme''" "''web''" "''dev''" "''acme.web.dev''"]
  by (simp add: insert_row_def demo_store_def Let_def)

text \<open>
  A rename fails with 404 when there is no row for the old branch, with 409 when the new
  branch or the new session is bound by another row, and otherwise moves exactly this row:
  the old branch is then unbound unless it is also the new one, the new one carries the new
  session name, and every other lookup is unchanged.
\<close>
lemma rename_row_spec:
  assumes "store_reach st"
  shows "case rename_row t o' r fb tb ts st of
      Inl e \<Rightarrow> status_of e = 404 \<and> get_row t o' r fb st = None
        \<or> status_of e = 409 \<and> get_row t o' r fb st \<noteq> None
          \<and> (tb \<noteq> fb \<and> get_row t o' r tb st \<noteq> None
             \<or> (\<exists>y. get_row_by_session t ts st = Some y \<and> row_key y \<noteq> (t, o', r, fb)))
    | Inr st' \<Rightarrow> \<exists>x. get_row t o' r fb st = Some x
        \<and> get_row t o' r tb st' = Some (x\<lparr> mr_branch := tb, mr_session := ts \<rparr>)
        \<and> (fb \<noteq> tb \<longrightarrow> get_row t o' r fb st' = None)
        \<and> (\<forall>t' p q c. (t', p, q, c) \<noteq> (t, o', r, fb) \<longrightarrow> (t', p, q, c) \<noteq> (t, o', r, tb) \<longrightarrow>
             get_row t' p q c st' = get_row t' p q c st)"
proof -
  let ?k = "(t, o', r, fb)"
  note ok = store_reach_ok[OF assms]
  show ?thesis
  proof (cases "rename_row t o' r fb tb ts st")
    case (Inl e)
    then consider "\<not> list_ex (\<lambda>x. row_key x = ?k) (rs_rows st)" "e = err_not_found ''mapping row not found''"
      | y where "list_ex (\<lambda>x. row_key x = ?k) (rs_rows st)" "e = err_conflict ''target branch or session already bound''"
        "y \<in> set (rs_rows st)" "row_key y \<noteq> ?k" "row_key y = (t, o', r, tb) \<or> session_key_of y = (t, ts)"
      by (auto simp: rename_row_def Let_def list_ex_iff split: if_splits)
    then show ?thesis
    proof cases
      case 1
      then show ?thesis using Inl by (force simp: list_ex_iff get_row_None err_not_found_def)
    next
      case 2
      then have "get_row t o' r fb st \<noteq> None" unfolding get_row_None list_ex_iff by force
      moreover have "tb \<noteq> fb \<and> get_row t o' r tb st \<noteq> None
          \<or> (\<exists>y. get_row_by_session t ts st = Some y \<and> row_key y \<noteq> ?k)"
        using 2(3-5) get_row_iff[OF ok] get_row_by_session_iff[OF ok] by (metis option.distinct(1))
      ultimately show ?thesis using Inl 2(2) by (simp add: err_conflict_def)
    qed
  next
    case (Inr st')
    note ok' = rename_row_ok[OF ok Inr]
    have rows: "rs_rows st' = map (\<lambda>x. if row_key x = ?k then x\<lparr> mr_branch := tb, mr_session := ts \<rparr> else x) (rs_rows st)"
      using Inr by (auto simp: rename_row_def Let_def split: if_splits)
    have free: "row_key y \<noteq> (t, o', r, tb)" if "y \<in> set (rs_rows st)" "row_key y \<noteq> ?k" for y
      using Inr that by (auto simp: rename_row_def Let_def list_ex_iff split: if_splits)
    obtain x where x: "x \<in> set (rs_rows st)" "row_key x = ?k"
      using Inr by (auto simp: rename_row_def Let_def list_ex_iff split: if_splits)
    have moved: "\<forall>y. row_key y = ?k \<longrightarrow>
        row_key (y\<lparr> mr_branch := tb, mr_session := ts \<rparr>) = (t, o', r, tb)"
      by (simp add: row_key_def)
    note mem = move_mem[of row_key ?k "\<lambda>y. y\<lparr> mr_branch := tb, mr_session := ts \<rparr>", OF moved]
    have "get_row t o' r fb st = Some x" unfolding get_row_iff[OF ok] using x by (rule conjI)
    moreover have "get_row t o' r tb st' = Some (x\<lparr> mr_branch := tb, mr_session := ts \<rparr>)"
      unfolding get_row_iff[OF ok'] rows using mem(1)[OF x] by blast
    moreover have "get_row t o' r fb st' = None" if "fb \<noteq> tb"
      unfolding get_row_None rows using mem(2) that by blast
    moreover have "get_row t' p q c st' = get_row t' p q c st"
      if n: "(t', p, q, c) \<noteq> ?k" "(t', p, q, c) \<noteq> (t, o', r, tb)" for t' p q c
    proof (rule option_eq_iff[THEN iffD2], rule allI)
      show "get_row t' p q c st' = Some z \<longleftrightarrow> get_row t' p q c st = Some z" for z
        unfolding get_row_iff[OF ok] get_row_iff[OF ok'] rows by (rule mem(3)[OF n])
    qed
    ultimately show ?thesis unfolding Inr sum.case by blast
  qed
qed

lemma rename_row_spec_witness:
  "(case rename_row ''default'' ''acme'' ''web'' ''main'' ''trunk'' ''acme.web.trunk'' demo_store of
      Inl e \<Rightarrow> False
    | Inr st' \<Rightarrow> get_row ''default'' ''acme'' ''web'' ''main'' st' = None)"
  using rename_row_spec[OF demo_store_reach, of "''default''" "''acme''" "''web''" "''main''" "''trunk''" "''acme.web.trunk''"]
  by (auto simp: rename_row_def demo_store_def Let_def row_key_def)

text \<open>
  Evicting a session by its bare name never changes what the session resolves to, because
  the cache is keyed by tenant and name: a resolution that was cached stays in force until it
  expires, whatever happened to the row; after that the store's row is returned.
\<close>
lemma evict_has_no_effect:
  "fst (resolve_session now ttl tenant sid (st, cache_evict sid c)) = fst (resolve_session now ttl tenant sid (st, c))
   \<and> (case cache_get now ((if tenant = '''' then ''default'' else tenant) @ [CHR 0x00] @ sid) c of
        Some t \<Rightarrow> fst (resolve_session now ttl tenant sid (st, cache_evict sid c)) = Inr t
      | None \<Rightarrow> (case get_row_by_session (if tenant = '''' then ''default'' else tenant) sid st of
          Some row \<Rightarrow> fst (resolve_session now ttl tenant sid (st, c)) = Inr (mr_org row, mr_repo row, mr_branch row)
        | None \<Rightarrow> (\<exists>e. fst (resolve_session now ttl tenant sid (st, c)) = Inl e \<and> is_permanent e)))"
proof -
  have "p @ [CHR 0x00] @ sid \<noteq> sid" for p 
  proof
    assume "p @ [CHR 0x00] @ sid = sid"
    then have "length (p @ [CHR 0x00] @ sid) = length sid" by (rule arg_cong)
    then show False by simp
  qed
  then have "cache_get now (p @ [CHR 0x00] @ sid) (cache_evict sid c) = cache_get now (p @ [CHR 0x00] @ sid) c" for p
    by (simp add: cache_get_def cache_evict_def del: append.simps)
  then show ?thesis
    by (cases "cache_get now ((if tenant = '''' then ''default'' else tenant) @ [CHR 0x00] @ sid) c";
        cases "get_row_by_session (if tenant = '''' then ''default'' else tenant) sid st")
      (simp_all add: resolve_session_def Let_def is_permanent_def err_bad_def err_not_found_def del: append.simps)
qed

end
