(* ===== verification/Rpc.thy ===== *)
theory Rpc
imports Prelude
begin

text \<open>
  What the remote procedure calls of the program share: the Connect error codes its handlers
  return and its clients inspect, and the decimal text of integers (\<^verbatim>\<open>strconv.FormatInt\<close>,
  \<^verbatim>\<open>strconv.ParseInt\<close> with base 10 and 64 bits, \<^verbatim>\<open>strconv.Atoi\<close>).
\<close>

section \<open>Errors\<close>

datatype conn_code =
    AlreadyExists | InvalidArgument | NotFound | Unauthenticated | PermissionDenied
  | Internal | Unimplemented | FailedPrecondition | Unavailable | OtherCode

datatype conn_err = ConnErr conn_code string

fun code_of :: "conn_err \<Rightarrow> conn_code" where
  "code_of (ConnErr c m) = c"

fun conn_text :: "conn_err \<Rightarrow> string" where
  "conn_text (ConnErr c m) = m"

section \<open>Decimal text\<close>

definition digit_char :: "nat \<Rightarrow> char" where
  "digit_char d = char_of (48 + d)"

definition is_dec :: "char \<Rightarrow> bool" where
  "is_dec c \<longleftrightarrow> 48 \<le> (of_char c :: nat) \<and> (of_char c :: nat) \<le> 57"

definition digit_val :: "char \<Rightarrow> nat" where
  "digit_val c = of_char c - 48"

fun dec_nat :: "nat \<Rightarrow> string" where
  "dec_nat n = (if n < 10 then [digit_char n] else dec_nat (n div 10) @ [digit_char (n mod 10)])"

declare dec_nat.simps [simp del]

definition dec_int :: "int \<Rightarrow> string" where
  "dec_int i = (if i < 0 then CHR ''-'' # dec_nat (nat (- i)) else dec_nat (nat i))"

definition nat_val :: "string \<Rightarrow> nat" where
  "nat_val s = foldl (\<lambda>v c. v * 10 + digit_val c) 0 s"

definition parse_digits :: "string \<Rightarrow> nat option" where
  "parse_digits s = (if s \<noteq> [] \<and> list_all is_dec s then Some (nat_val s) else None)"

definition parse_int64 :: "string \<Rightarrow> int option" where
  "parse_int64 s =
    (let neg = has_prefix ''-'' s;
         body = (if neg \<or> has_prefix ''+'' s then tl s else s)
     in case parse_digits body of
          None \<Rightarrow> None
        | Some n \<Rightarrow>
            if neg then (if n \<le> 2 ^ 63 then Some (- int n) else None)
            else if n < 2 ^ 63 then Some (int n) else None)"

lemma of_digit_char: "d < 10 \<Longrightarrow> (of_char (digit_char d) :: nat) = 48 + d"
  by (simp add: digit_char_def)

lemma digit_char_dec: "d < 10 \<Longrightarrow> is_dec (digit_char d)"
  by (simp add: is_dec_def of_digit_char)

lemma digit_val_char: "d < 10 \<Longrightarrow> digit_val (digit_char d) = d"
  by (simp add: digit_val_def of_digit_char)

lemma dec_nat_not_Nil [simp]: "dec_nat n \<noteq> []"
  by (subst dec_nat.simps) simp

lemma dec_nat_digits: "list_all is_dec (dec_nat n)"
proof (induction n rule: dec_nat.induct)
  case (1 n)
  then show ?case by (subst dec_nat.simps) (simp add: digit_char_dec)
qed

lemma nat_val_dec: "nat_val (dec_nat n) = n"
proof (induction n rule: dec_nat.induct)
  case (1 n)
  then show ?case by (subst dec_nat.simps) (auto simp: nat_val_def digit_val_char)
qed

lemma parse_dec_nat: "parse_digits (dec_nat n) = Some n"
  by (simp add: parse_digits_def dec_nat_digits nat_val_dec)

lemma dec_nat_inj: "dec_nat m = dec_nat n \<longleftrightarrow> m = n"
  by (metis nat_val_dec)

lemma dec_head: "list_all is_dec s \<Longrightarrow> \<not> has_prefix ''-'' s \<and> \<not> has_prefix ''+'' s"
  by (cases s) (auto simp: is_dec_def)

text \<open>Reading the text of a 64-bit integer gives the integer back.\<close>

lemma parse_dec_int:
  assumes "- (2 ^ 63) \<le> i" "i < 2 ^ 63"
  shows "parse_int64 (dec_int i) = Some i"
proof (cases "i < 0")
  case True
  then have "nat (- i) \<le> 2 ^ 63" using assms(1) by simp
  then show ?thesis using True by (simp add: parse_int64_def dec_int_def parse_dec_nat)
next
  case False
  then have "nat i < 2 ^ 63" using assms(2) by simp
  then show ?thesis
    using False dec_head[OF dec_nat_digits] by (simp add: parse_int64_def dec_int_def parse_dec_nat Let_def)
qed

lemma dec_int_not_Nil [simp]: "dec_int i \<noteq> []"
  by (simp add: dec_int_def)

text \<open>The conversion of an integer to 32 bits wraps around.\<close>

definition int32_of :: "int \<Rightarrow> int" where
  "int32_of i = (i + 2 ^ 31) mod 2 ^ 32 - 2 ^ 31"

lemma int32_of_code [code]: "int32_of i = (i + 2147483648) mod 4294967296 - 2147483648"
  by (simp add: int32_of_def)

lemma int32_of_small: "- (2 ^ 31) \<le> i \<Longrightarrow> i < 2 ^ 31 \<Longrightarrow> int32_of i = i"
  by (simp add: int32_of_def)

definition int64_of :: "int \<Rightarrow> int" where
  "int64_of i = (i + 2 ^ 63) mod 2 ^ 64 - 2 ^ 63"

lemma int64_of_code [code]:
  "int64_of i = (i + 9223372036854775808) mod 18446744073709551616 - 9223372036854775808"
  by (simp add: int64_of_def)

lemma int64_of_small: "- (2 ^ 63) \<le> i \<Longrightarrow> i < 2 ^ 63 \<Longrightarrow> int64_of i = i"
  by (simp add: int64_of_def)

section \<open>Quoted text\<close>

text \<open>
  The \<^verbatim>\<open>%q\<close> of the formatted errors: a byte that is not printable ASCII is escaped; bytes from
  128 on are parts of multi-byte characters and are printed as they are.
\<close>

definition hex_digit :: "nat \<Rightarrow> char" where
  "hex_digit d = (if d < 10 then char_of (48 + d) else char_of (87 + d))"

definition quote_char :: "char \<Rightarrow> string" where
  "quote_char c =
    (let n = (of_char c :: nat) in
     if n = 34 \<or> n = 92 then [CHR 0x5C, c]
     else if n = 7 then [CHR 0x5C, CHR ''a''] else if n = 8 then [CHR 0x5C, CHR ''b'']
     else if n = 9 then [CHR 0x5C, CHR ''t''] else if n = 10 then [CHR 0x5C, CHR ''n'']
     else if n = 11 then [CHR 0x5C, CHR ''v''] else if n = 12 then [CHR 0x5C, CHR ''f'']
     else if n = 13 then [CHR 0x5C, CHR ''r'']
     else if n < 32 \<or> n = 127 then [CHR 0x5C, CHR ''x'', hex_digit (n div 16), hex_digit (n mod 16)]
     else [c])"

definition go_quote :: "string \<Rightarrow> string" where
  "go_quote s = [CHR 0x22] @ concat (map quote_char s) @ [CHR 0x22]"

end
