(* ===== verification/Repo_Lab.thy ===== *)
theory Repo_Lab
imports Repo_Store Rpc
begin

text \<open>
  The repository extension's client of the lab API (\<^verbatim>\<open>internal/ext/repo/client_easylab.go\<close>) and
  of the agent's session API (\<^verbatim>\<open>internal/ext/repo/client_agent.go\<close>).

  The services behind the two clients are other processes.  They are a parameter: a record of
  functions over an external world \<^verbatim>\<open>'e\<close>.  Every call takes the world and returns a new one, so
  that other actors, lost replies and outages are all instances of the parameter.  The first
  argument of a lab call is the tenant the client stamps on the request.
\<close>

datatype file_change = FileChange string string bool

record 'e env =
  ev_list_repos :: "string \<Rightarrow> 'e \<Rightarrow> (conn_err + (string \<times> string) list) \<times> 'e"
  ev_branches :: "string \<Rightarrow> string \<Rightarrow> string \<Rightarrow> 'e \<Rightarrow> (conn_err + (string \<times> string) list) \<times> 'e"
  ev_ensure_repo :: "string \<Rightarrow> string \<Rightarrow> string \<Rightarrow> 'e \<Rightarrow> conn_err option \<times> 'e"
  ev_create_branch :: "string \<Rightarrow> string \<Rightarrow> string \<Rightarrow> string \<Rightarrow> string \<Rightarrow> 'e \<Rightarrow> conn_err option \<times> 'e"
  ev_delete_branch :: "string \<Rightarrow> string \<Rightarrow> string \<Rightarrow> string \<Rightarrow> 'e \<Rightarrow> conn_err option \<times> 'e"
  ev_revisions :: "string \<Rightarrow> string \<Rightarrow> string \<Rightarrow> string \<Rightarrow> nat \<Rightarrow> 'e \<Rightarrow> (conn_err + (string \<times> string) list) \<times> 'e"
  ev_write_files :: "string \<Rightarrow> string \<Rightarrow> string \<Rightarrow> string \<Rightarrow> string \<Rightarrow> file_change list \<Rightarrow> 'e
      \<Rightarrow> (conn_err + string \<times> string) \<times> 'e"
  ev_list_sessions :: "'e \<Rightarrow> (conn_err + string list) \<times> 'e"
  ev_get_session :: "string \<Rightarrow> 'e \<Rightarrow> (conn_err + string option) \<times> 'e"
  ev_set_group :: "string \<Rightarrow> string \<Rightarrow> 'e \<Rightarrow> conn_err option \<times> 'e"
  ev_create_session :: "string \<Rightarrow> string \<Rightarrow> string \<Rightarrow> string \<Rightarrow> string \<Rightarrow> string \<Rightarrow> 'e \<Rightarrow> conn_err option \<times> 'e"
  ev_fork_session :: "string \<Rightarrow> string \<Rightarrow> string \<Rightarrow> string \<Rightarrow> 'e \<Rightarrow> conn_err option \<times> 'e"
  ev_delete_session :: "string \<Rightarrow> 'e \<Rightarrow> conn_err option \<times> 'e"
  ev_has_vars :: bool
  ev_set_var :: "string \<Rightarrow> string \<Rightarrow> string \<Rightarrow> string \<Rightarrow> 'e \<Rightarrow> 'e"
  ev_clear_vars :: "string \<Rightarrow> string \<Rightarrow> 'e \<Rightarrow> 'e"
  ev_now :: "'e \<Rightarrow> int"

section \<open>The tree of repositories and branches\<close>

record branch_info =
  br_name :: string
  br_sha :: string

type_synonym repo_tree = "string \<Rightarrow> (string \<Rightarrow> branch_info list option) option"

definition repo_exists :: "repo_tree \<Rightarrow> string \<Rightarrow> string \<Rightarrow> bool" where
  "repo_exists t org repo =
    (case t org of None \<Rightarrow> False | Some repos \<Rightarrow> repos repo \<noteq> None)"

definition tree_branches :: "repo_tree \<Rightarrow> string \<Rightarrow> string \<Rightarrow> branch_info list" where
  "tree_branches t org repo =
    (case t org of None \<Rightarrow> [] | Some repos \<Rightarrow> (case repos repo of None \<Rightarrow> [] | Some bs \<Rightarrow> bs))"

definition branch_exists :: "repo_tree \<Rightarrow> string \<Rightarrow> string \<Rightarrow> string \<Rightarrow> bool" where
  "branch_exists t org repo b = list_ex (\<lambda>x. br_name x = b) (tree_branches t org repo)"

definition get_branches_detail :: "'e env \<Rightarrow> string \<Rightarrow> string \<Rightarrow> string \<Rightarrow> 'e
    \<Rightarrow> (conn_err + branch_info list) \<times> 'e" where
  "get_branches_detail ev tn org repo e =
    (case ev_branches ev tn org repo e of
       (Inl err, e') \<Rightarrow> (Inl err, e')
     | (Inr bs, e') \<Rightarrow> (Inr (map (\<lambda>(n, s). \<lparr> br_name = n, br_sha = s \<rparr>) bs), e'))"

fun tree_loop :: "'e env \<Rightarrow> string \<Rightarrow> (string \<times> string) list \<Rightarrow> repo_tree \<Rightarrow> 'e \<Rightarrow> repo_tree \<times> 'e" where
  "tree_loop ev tn [] t e = (t, e)"
| "tree_loop ev tn ((ns, name) # rs) t e =
     (if ns = '''' \<or> name = '''' then tree_loop ev tn rs t e
      else
        let repos = (case t ns of None \<Rightarrow> Map.empty | Some m \<Rightarrow> m) in
        case get_branches_detail ev tn ns name e of
          (Inl err, e') \<Rightarrow> tree_loop ev tn rs (t(ns \<mapsto> repos(name \<mapsto> []))) e'
        | (Inr bms, e') \<Rightarrow> tree_loop ev tn rs (t(ns \<mapsto> repos(name \<mapsto> bms))) e')"

definition get_repo_tree :: "'e env \<Rightarrow> string \<Rightarrow> 'e \<Rightarrow> (op_error + repo_tree) \<times> 'e" where
  "get_repo_tree ev tn e =
    (case ev_list_repos ev tn e of
       (Inl err, e') \<Rightarrow> (Inl (err_downstream ''easylab'' (conn_text err)), e')
     | (Inr repos, e') \<Rightarrow>
         (case tree_loop ev tn repos (\<lambda>_. None) e' of (t, e'') \<Rightarrow> (Inr t, e'')))"

definition get_branches :: "'e env \<Rightarrow> string \<Rightarrow> string \<Rightarrow> string \<Rightarrow> 'e \<Rightarrow> (op_error + string list) \<times> 'e" where
  "get_branches ev tn org repo e =
    (case ev_branches ev tn org repo e of
       (Inl err, e') \<Rightarrow> (Inl (err_downstream ''easylab'' (conn_text err)), e')
     | (Inr bs, e') \<Rightarrow> (Inr (filter (\<lambda>n. n \<noteq> '''') (map fst bs)), e'))"

section \<open>Repositories and branches\<close>

definition ensure_repo :: "'e env \<Rightarrow> string \<Rightarrow> string \<Rightarrow> string \<Rightarrow> 'e \<Rightarrow> op_error option \<times> 'e" where
  "ensure_repo ev tn org repo e =
    (case ev_ensure_repo ev tn org repo e of
       (None, e') \<Rightarrow> (None, e')
     | (Some err, e') \<Rightarrow>
         if code_of err = AlreadyExists \<or> code_of err = InvalidArgument then (None, e')
         else (Some (err_downstream ''easylab'' (conn_text err)), e'))"

definition ensure_branch :: "'e env \<Rightarrow> string \<Rightarrow> string \<Rightarrow> string \<Rightarrow> string \<Rightarrow> string \<Rightarrow> 'e
    \<Rightarrow> op_error option \<times> 'e" where
  "ensure_branch ev tn org repo src branch e =
    (case get_repo_tree ev tn e of
       (Inl err, e1) \<Rightarrow> (Some err, e1)
     | (Inr tree, e1) \<Rightarrow>
         if branch_exists tree org repo branch then (None, e1)
         else if \<not> repo_exists tree org repo
         then (Some (err_not_found (''repository '' @ org @ ''/'' @ repo @ '' does not exist'')), e1)
         else (case ev_create_branch ev tn org repo branch src e1 of
                 (None, e2) \<Rightarrow> (None, e2)
               | (Some err, e2) \<Rightarrow>
                   if code_of err \<noteq> AlreadyExists \<and> code_of err \<noteq> InvalidArgument
                   then (Some (err_downstream ''easylab'' (conn_text err)), e2)
                   else (None, e2)))"

definition delete_branch :: "'e env \<Rightarrow> string \<Rightarrow> string \<Rightarrow> string \<Rightarrow> string \<Rightarrow> 'e \<Rightarrow> op_error option \<times> 'e" where
  "delete_branch ev tn org repo branch e =
    (case get_repo_tree ev tn e of
       (Inl err, e1) \<Rightarrow> (Some err, e1)
     | (Inr tree, e1) \<Rightarrow>
         if \<not> branch_exists tree org repo branch then (None, e1)
         else (case ev_delete_branch ev tn org repo branch e1 of
                 (None, e2) \<Rightarrow> (None, e2)
               | (Some err, e2) \<Rightarrow>
                   if code_of err \<noteq> NotFound
                   then (Some (err_downstream ''easylab'' (conn_text err)), e2)
                   else (None, e2)))"

definition can_resolve :: "'e env \<Rightarrow> string \<Rightarrow> string \<Rightarrow> string \<Rightarrow> string \<Rightarrow> 'e \<Rightarrow> (op_error + bool) \<times> 'e" where
  "can_resolve ev tn org repo rv e =
    (case ev_branches ev tn org repo e of
       (Inl err, e1) \<Rightarrow>
         if code_of err = NotFound then (Inr False, e1)
         else (Inl (err_downstream ''easylab'' (conn_text err)), e1)
     | (Inr bs, e1) \<Rightarrow>
         if list_ex (\<lambda>(n, s). n = rv \<or> s = rv) bs then (Inr True, e1)
         else (case ev_revisions ev tn org repo '''' 200 e1 of
                 (Inl err, e2) \<Rightarrow> (Inl (err_downstream ''easylab'' (conn_text err)), e2)
               | (Inr revs, e2) \<Rightarrow> (Inr (list_ex (\<lambda>(r, s). r = rv \<or> s = rv) revs), e2)))"

definition get_branch_head :: "'e env \<Rightarrow> string \<Rightarrow> string \<Rightarrow> string \<Rightarrow> string \<Rightarrow> 'e
    \<Rightarrow> (op_error + string) \<times> 'e" where
  "get_branch_head ev tn org repo branch e =
    (case ev_revisions ev tn org repo branch 1 e of
       (revs, e1) \<Rightarrow>
         let first = (case revs of Inr ((r, sha) # _) \<Rightarrow> sha | _ \<Rightarrow> '''') in
         if first \<noteq> '''' then (Inr first, e1)
         else (case ev_branches ev tn org repo e1 of
                 (Inl err, e2) \<Rightarrow> (Inl (err_downstream ''easylab'' (conn_text err)), e2)
               | (Inr bs, e2) \<Rightarrow>
                   (case find (\<lambda>(n, s). n = branch) bs of
                      Some (n, sha) \<Rightarrow>
                        if length sha = 64 then (Inr sha, e2)
                        else (Inl (err_downstream ''easylab''
                               (''branch '' @ org @ ''/'' @ repo @ ''#'' @ branch @ '' not found'')), e2)
                    | None \<Rightarrow> (Inl (err_downstream ''easylab''
                               (''branch '' @ org @ ''/'' @ repo @ ''#'' @ branch @ '' not found'')), e2))))"

section \<open>Commits\<close>

text \<open>
  An action of a commit is a JSON object; a missing or ill-typed member reads as its zero
  value.  The decoder of base64 text is a parameter: None when the text is not base64.
\<close>

record commit_action =
  ca_path :: string
  ca_delete :: bool
  ca_action :: string
  ca_content :: string

definition change_of :: "(string \<Rightarrow> string option) \<Rightarrow> commit_action \<Rightarrow> file_change" where
  "change_of decode a =
    (if ca_delete a \<or> ca_action a = ''delete'' then FileChange (ca_path a) '''' True
     else case decode (ca_content a) of
            Some dec \<Rightarrow> FileChange (ca_path a) dec False
          | None \<Rightarrow> FileChange (ca_path a) (ca_content a) False)"

definition commit :: "'e env \<Rightarrow> (string \<Rightarrow> string option) \<Rightarrow> string \<Rightarrow> string \<Rightarrow> string \<Rightarrow> string \<Rightarrow> string
    \<Rightarrow> commit_action list \<Rightarrow> 'e \<Rightarrow> (op_error + string \<times> string \<times> string) \<times> 'e" where
  "commit ev decode tn org repo branch message actions e =
    (case ev_write_files ev tn org repo branch message (map (change_of decode) actions) e of
       (Inl err, e') \<Rightarrow> (Inl (err_downstream ''easylab'' (conn_text err)), e')
     | (Inr (revision_id, change_id), e') \<Rightarrow> (Inr (revision_id, change_id, change_id), e'))"

section \<open>The agent's sessions\<close>

definition list_sessions :: "'e env \<Rightarrow> 'e \<Rightarrow> (conn_err + string list) \<times> 'e" where
  "list_sessions ev e =
    (case ev_list_sessions ev e of
       (Inl err, e') \<Rightarrow> (Inl err, e')
     | (Inr ss, e') \<Rightarrow> (Inr (remdups (filter (\<lambda>s. s \<noteq> '''') ss)), e'))"

definition get_session :: "'e env \<Rightarrow> string \<Rightarrow> 'e \<Rightarrow> (conn_err + string option) \<times> 'e" where
  "get_session ev name e =
    (case ev_get_session ev name e of
       (Inl err, e') \<Rightarrow> if code_of err = NotFound then (Inr None, e') else (Inl err, e')
     | (Inr s, e') \<Rightarrow> (Inr s, e'))"

definition create_repo_session :: "'e env \<Rightarrow> string \<Rightarrow> string \<Rightarrow> string \<Rightarrow> string \<Rightarrow> 'e
    \<Rightarrow> conn_err option \<times> 'e" where
  "create_repo_session ev org repo branch preset e =
    (case ev_create_session ev (naming_session org repo branch) org repo branch preset (org @ ''/'' @ repo) e of
       (None, e') \<Rightarrow> (None, e')
     | (Some err, e') \<Rightarrow>
         if code_of err = AlreadyExists \<or> code_of err = InvalidArgument then (None, e') else (Some err, e'))"

definition fork_session :: "'e env \<Rightarrow> string \<Rightarrow> string \<Rightarrow> string \<Rightarrow> string \<Rightarrow> 'e \<Rightarrow> conn_err option \<times> 'e" where
  "fork_session ev parent name message_id preset e =
    (case ev_fork_session ev parent name message_id preset e of
       (None, e') \<Rightarrow> (None, e')
     | (Some err, e') \<Rightarrow>
         if code_of err = AlreadyExists \<or> code_of err = InvalidArgument then (None, e') else (Some err, e'))"

definition delete_session :: "'e env \<Rightarrow> string \<Rightarrow> 'e \<Rightarrow> conn_err option \<times> 'e" where
  "delete_session ev name e =
    (case ev_delete_session ev name e of
       (None, e') \<Rightarrow> (None, e')
     | (Some err, e') \<Rightarrow> if code_of err = NotFound then (None, e') else (Some err, e'))"

end
