(* ===== verification/Lifecycle.thy ===== *)
theory Lifecycle
imports Repo_Lab
begin

text \<open>
  The lifecycle of workspaces in the repository extension: the handler of the agent's events
  (\<^verbatim>\<open>internal/ext/repo/events_sub.go\<close>), the reconciler (\<^verbatim>\<open>reconcile.go\<close>), the adoption of an
  orphan branch (\<^verbatim>\<open>sessions_http.go\<close>) and the projection to session variables
  (\<^verbatim>\<open>variables.go\<close>).

  A world is the store, the cache and everything outside the process.  An error that is not an
  \<^verbatim>\<open>opError\<close> has status 502 for every caller, so it is written as such.  The punctuation of the
  messages is its UTF-8 encoding; logging is left out.  The database is taken to be available.
\<close>

record 'e world =
  w_store :: repo_store
  w_cache :: sess_cache
  w_env :: 'e

record lifecycle_event =
  le_session :: string
  le_parent :: "string option"
  le_from :: "string option"
  le_to :: "string option"

definition strp :: "string option \<Rightarrow> string" where
  "strp s = (case s of None \<Rightarrow> '''' | Some x \<Rightarrow> x)"

definition em_dash :: string where
  "em_dash = [CHR 0xE2, CHR 0x80, CHR 0x94]"

definition arrow :: string where
  "arrow = [CHR 0xE2, CHR 0x86, CHR 0x92]"

definition sess_ttl :: int where
  "sess_ttl = 5000000000"

definition plain_error :: "conn_err \<Rightarrow> op_error" where
  "plain_error err = OpError 502 (conn_text err)"

section \<open>Session variables\<close>

definition resolve_in :: "'e env \<Rightarrow> string \<Rightarrow> string \<Rightarrow> 'e world
    \<Rightarrow> (op_error + string \<times> string \<times> string) \<times> 'e world" where
  "resolve_in ev tenant sid w =
    (case resolve_session (ev_now ev (w_env w)) sess_ttl tenant sid (w_store w, w_cache w) of
       (r, c) \<Rightarrow> (r, w\<lparr> w_cache := c \<rparr>))"

definition publish_session_vars :: "'e env \<Rightarrow> string \<Rightarrow> string \<Rightarrow> 'e world \<Rightarrow> 'e world" where
  "publish_session_vars ev tenant sid w =
    (if \<not> ev_has_vars ev then w
     else case resolve_in ev tenant sid w of
            (Inl err, w') \<Rightarrow> w'
          | (Inr (org, repo, b), w') \<Rightarrow>
              w'\<lparr> w_env := ev_set_var ev tenant sid ''branch'' b
                             (ev_set_var ev tenant sid ''repo'' repo
                               (ev_set_var ev tenant sid ''org'' org (w_env w'))) \<rparr>)"

definition clear_session_vars :: "'e env \<Rightarrow> string \<Rightarrow> string \<Rightarrow> 'e world \<Rightarrow> 'e world" where
  "clear_session_vars ev tenant sid w =
    (if \<not> ev_has_vars ev then w else w\<lparr> w_env := ev_clear_vars ev tenant sid (w_env w) \<rparr>)"

section \<open>The steps of the handler\<close>

definition ensure_branch_anchored :: "'e env \<Rightarrow> string \<Rightarrow> string \<Rightarrow> string \<Rightarrow> string \<Rightarrow> 'e
    \<Rightarrow> op_error option \<times> 'e" where
  "ensure_branch_anchored ev tn org repo bm e =
    (case can_resolve ev tn org repo ''main'' e of
       (Inl err, e1) \<Rightarrow> (Some err, e1)
     | (Inr ok, e1) \<Rightarrow> ensure_branch ev tn org repo (if ok then ''main'' else '''') bm e1)"

definition ensure_created :: "'e env \<Rightarrow> string \<Rightarrow> string \<Rightarrow> string \<Rightarrow> string \<Rightarrow> string \<Rightarrow> 'e world
    \<Rightarrow> op_error option \<times> 'e world" where
  "ensure_created ev tenant org repo bm sid w =
    (case get_row_by_session tenant sid (w_store w) of
       Some row \<Rightarrow> (None, w)
     | None \<Rightarrow>
         (case ensure_repo ev tenant org repo (w_env w) of
            (Some err, e1) \<Rightarrow> (Some err, w\<lparr> w_env := e1 \<rparr>)
          | (None, e1) \<Rightarrow>
              (case ensure_branch_anchored ev tenant org repo bm e1 of
                 (Some err, e2) \<Rightarrow> (Some err, w\<lparr> w_env := e2 \<rparr>)
               | (None, e2) \<Rightarrow>
                   (case bind_row tenant org repo bm sid (w_store w) of
                      (r, st) \<Rightarrow> (r, w\<lparr> w_env := e2, w_store := st \<rparr>)))))"

definition fork_from :: "'e env \<Rightarrow> string \<Rightarrow> string \<Rightarrow> string \<Rightarrow> string \<Rightarrow> string \<Rightarrow> string \<Rightarrow> 'e world
    \<Rightarrow> op_error option \<times> 'e world" where
  "fork_from ev tenant org repo bm sid parent_bm w =
    (case ensure_branch ev tenant org repo parent_bm bm (w_env w) of
       (Some err, e1) \<Rightarrow> (Some err, w\<lparr> w_env := e1 \<rparr>)
     | (None, e1) \<Rightarrow>
         (case bind_row tenant org repo bm sid (w_store w) of
            (r, st) \<Rightarrow> (r, w\<lparr> w_env := e1, w_store := st \<rparr>)))"

definition ensure_forked :: "'e env \<Rightarrow> string \<Rightarrow> string \<Rightarrow> string \<Rightarrow> string \<Rightarrow> string \<Rightarrow> string \<Rightarrow> 'e world
    \<Rightarrow> op_error option \<times> 'e world" where
  "ensure_forked ev tenant org repo bm sid parent_sid w =
    (case get_row_by_session tenant sid (w_store w) of
       Some row \<Rightarrow> (None, w)
     | None \<Rightarrow>
         (case parse_session parent_sid of
            None \<Rightarrow> fork_from ev tenant org repo bm sid ''main'' w
          | Some (p_org, p_repo, p_bm) \<Rightarrow>
              if p_org \<noteq> org \<or> p_repo \<noteq> repo
              then (Some (err_bad (''fork across repositories ('' @ parent_sid @ '' '' @ arrow @ '' '' @ org @ ''/'' @ repo
                     @ '') '' @ em_dash @ '' unsupported'')), w)
              else (case get_row tenant org repo p_bm (w_store w) of
                      Some prow \<Rightarrow> fork_from ev tenant org repo bm sid p_bm w
                    | None \<Rightarrow>
                        (case ensure_created ev tenant org repo p_bm parent_sid w of
                           (Some err, w1) \<Rightarrow> (Some err, w1)
                         | (None, w1) \<Rightarrow> fork_from ev tenant org repo bm sid p_bm w1))))"

definition ensure_renamed :: "'e env \<Rightarrow> string \<Rightarrow> string \<Rightarrow> string \<Rightarrow> 'e world
    \<Rightarrow> op_error option \<times> 'e world" where
  "ensure_renamed ev tenant from_sid to_sid w =
    (case parse_session from_sid of
       None \<Rightarrow> (Some (err_bad (''session '' @ go_quote from_sid @ '' does not match naming '' @ em_dash
              @ '' ignoring rename'')), w)
     | Some (from_org, from_repo, from_bm) \<Rightarrow>
         (case parse_session to_sid of
            None \<Rightarrow> (Some (err_bad (''session '' @ go_quote to_sid @ '' does not match naming '' @ em_dash
                   @ '' ignoring rename'')), w)
          | Some (to_org, to_repo, to_bm) \<Rightarrow>
              if from_org \<noteq> to_org \<or> from_repo \<noteq> to_repo
              then (Some (err_bad (''rename across repositories ('' @ from_sid @ '' '' @ arrow @ '' '' @ to_sid
                     @ '') '' @ em_dash @ '' unsupported'')), w)
              else (case get_row tenant from_org from_repo from_bm (w_store w) of
                      None \<Rightarrow> ensure_created ev tenant to_org to_repo to_bm to_sid w
                    | Some row \<Rightarrow>
                        (case ensure_branch ev tenant from_org from_repo from_bm to_bm (w_env w) of
                           (Some err, e1) \<Rightarrow> (Some err, w\<lparr> w_env := e1 \<rparr>)
                         | (None, e1) \<Rightarrow>
                             (case rename_row tenant from_org from_repo from_bm to_bm to_sid (w_store w) of
                                Inl err \<Rightarrow>
                                  if status_of err = 409 then (None, w\<lparr> w_env := e1 \<rparr>)
                                  else (Some (err_downstream ''postgres'' ''mapping row not found''),
                                        w\<lparr> w_env := e1 \<rparr>)
                              | Inr st \<Rightarrow>
                                  (case delete_branch ev tenant from_org from_repo from_bm e1 of
                                     (r, e2) \<Rightarrow> (r, w\<lparr> w_env := e2, w_store := st,
                                                     w_cache := cache_evict from_sid (w_cache w) \<rparr>)))))))"

definition ensure_deleted :: "'e env \<Rightarrow> string \<Rightarrow> string \<Rightarrow> 'e world \<Rightarrow> op_error option \<times> 'e world" where
  "ensure_deleted ev tenant sid w =
    (case parse_session sid of
       None \<Rightarrow> (Some (err_bad (''session '' @ go_quote sid @ '' does not match naming '' @ em_dash
              @ '' ignoring delete'')), w)
     | Some (org, repo, bm) \<Rightarrow>
         (case get_row_by_session tenant sid (w_store w) of
            None \<Rightarrow> (None, w)
          | Some row \<Rightarrow>
              (case delete_branch ev tenant org repo bm (w_env w) of
                 (Some err, e1) \<Rightarrow> (Some err, w\<lparr> w_env := e1 \<rparr>)
               | (None, e1) \<Rightarrow>
                   (None, w\<lparr> w_env := e1, w_store := delete_row tenant org repo bm (w_store w),
                            w_cache := cache_evict sid (w_cache w) \<rparr>))))"

definition mirror_event :: "'e env \<Rightarrow> string \<Rightarrow> lifecycle_event \<Rightarrow> string \<Rightarrow> 'e world
    \<Rightarrow> op_error option \<times> 'e world" where
  "mirror_event ev kind le tenant w =
    (let sid = le_session le;
         bad = (Some (err_bad (''session '' @ go_quote sid @
                  '' does not match org:repo:branch naming '' @ em_dash @ '' ignoring'')), w)
     in if kind = ''created'' then
          (case parse_session sid of
             None \<Rightarrow> bad
           | Some (org, repo, bm) \<Rightarrow> ensure_created ev tenant org repo bm sid w)
        else if kind = ''forked'' then
          (case parse_session sid of
             None \<Rightarrow> bad
           | Some (org, repo, bm) \<Rightarrow> ensure_forked ev tenant org repo bm sid (strp (le_parent le)) w)
        else if kind = ''renamed'' then ensure_renamed ev tenant (strp (le_from le)) (strp (le_to le)) w
        else if kind = ''deleted'' then ensure_deleted ev tenant sid w
        else (Some (err_bad (''unknown lifecycle event '' @ go_quote kind @ '' '' @ em_dash @ '' ignoring'')), w))"

definition handle_event :: "'e env \<Rightarrow> string \<Rightarrow> lifecycle_event \<Rightarrow> string \<Rightarrow> 'e world
    \<Rightarrow> op_error option \<times> 'e world" where
  "handle_event ev kind le tenant w =
    (case mirror_event ev kind le tenant w of
       (Some err, w1) \<Rightarrow> (Some err, w1)
     | (None, w1) \<Rightarrow>
         if kind = ''deleted'' then (None, clear_session_vars ev tenant (le_session le) w1)
         else
           let sid = (if (kind = ''forked'' \<or> kind = ''renamed'') \<and> strp (le_to le) \<noteq> ''''
                      then strp (le_to le) else le_session le)
           in (None, publish_session_vars ev tenant sid w1))"

section \<open>The reconciler\<close>

definition unmap_row :: "map_row \<Rightarrow> 'e world \<Rightarrow> 'e world" where
  "unmap_row row w =
    w\<lparr> w_store := delete_row (mr_tenant row) (mr_org row) (mr_repo row) (mr_branch row) (w_store w),
       w_cache := cache_evict (mr_session row) (w_cache w) \<rparr>"

fun converge_rows :: "string list \<Rightarrow> string list \<Rightarrow> map_row list \<Rightarrow> 'e world \<Rightarrow> 'e world" where
  "converge_rows bms sessions [] w = w"
| "converge_rows bms sessions (row # rows) w =
     converge_rows bms sessions rows
       (if mr_branch row \<notin> set bms then unmap_row row w
        else if mr_session row \<notin> set sessions then unmap_row row w
        else w)"

fun converge_repos :: "repo_tree \<Rightarrow> string list \<Rightarrow> (string \<times> string \<times> string) list \<Rightarrow> 'e world \<Rightarrow> 'e world" where
  "converge_repos tree sessions [] w = w"
| "converge_repos tree sessions ((tn, org, repo) # ms) w =
     converge_repos tree sessions ms
       (converge_rows (map br_name (tree_branches tree org repo)) sessions
         (list_rows_for_repo tn org repo (w_store w)) w)"

definition converge_drift :: "'e env \<Rightarrow> string list \<Rightarrow> 'e world \<Rightarrow> op_error option \<times> 'e world" where
  "converge_drift ev sessions w =
    (if list_managed (w_store w) = [] then (None, w)
     else case get_repo_tree ev '''' (w_env w) of
            (Inl err, e1) \<Rightarrow> (Some err, w\<lparr> w_env := e1 \<rparr>)
          | (Inr tree, e1) \<Rightarrow>
              (None, converge_repos tree sessions (list_managed (w_store w)) (w\<lparr> w_env := e1 \<rparr>)))"

fun backfill_group_loop :: "'e env \<Rightarrow> map_row list \<Rightarrow> 'e \<Rightarrow> 'e" where
  "backfill_group_loop ev [] e = e"
| "backfill_group_loop ev (r # rows) e =
     (let group = mr_org r @ ''/'' @ mr_repo r in
      case get_session ev (mr_session r) e of
        (Inl err, e1) \<Rightarrow> backfill_group_loop ev rows e1
      | (Inr g, e1) \<Rightarrow>
          if g = Some group then backfill_group_loop ev rows e1
          else backfill_group_loop ev rows (snd (ev_set_group ev (mr_session r) group e1)))"

definition backfill_groups :: "'e env \<Rightarrow> 'e world \<Rightarrow> 'e world" where
  "backfill_groups ev w = w\<lparr> w_env := backfill_group_loop ev (list_rows (w_store w)) (w_env w) \<rparr>"

fun backfill_loop :: "'e env \<Rightarrow> string list \<Rightarrow> string list \<Rightarrow> 'e world \<Rightarrow> op_error option \<times> 'e world" where
  "backfill_loop ev mapped [] w = (None, w)"
| "backfill_loop ev mapped (name # names) w =
     (if name \<in> set mapped then backfill_loop ev mapped names w
      else case parse_session name of
             None \<Rightarrow> backfill_loop ev mapped names w
           | Some (org, repo, bm) \<Rightarrow>
               (case ensure_created ev ''default'' org repo bm name w of
                  (None, w1) \<Rightarrow> backfill_loop ev mapped names w1
                | (Some err, w1) \<Rightarrow>
                    if is_permanent err then backfill_loop ev mapped names w1 else (Some err, w1)))"

definition backfill_workspaces :: "'e env \<Rightarrow> string list \<Rightarrow> 'e world \<Rightarrow> op_error option \<times> 'e world" where
  "backfill_workspaces ev sessions w =
    backfill_loop ev (map (\<lambda>r. mr_tenant r @ [CHR 0x00] @ mr_session r) (list_rows (w_store w))) sessions w"

definition reconcile_once :: "'e env \<Rightarrow> 'e world \<Rightarrow> op_error option \<times> 'e world" where
  "reconcile_once ev w =
    (case list_sessions ev (w_env w) of
       (Inl err, e1) \<Rightarrow> (Some (plain_error err), w\<lparr> w_env := e1 \<rparr>)
     | (Inr sessions, e1) \<Rightarrow>
         (case converge_drift ev sessions (w\<lparr> w_env := e1 \<rparr>) of
            (Some err, w1) \<Rightarrow> (Some err, w1)
          | (None, w1) \<Rightarrow> backfill_workspaces ev sessions (backfill_groups ev w1)))"

section \<open>Adopting an orphan branch\<close>

definition adopt_branch :: "'e env \<Rightarrow> string \<Rightarrow> string \<Rightarrow> string \<Rightarrow> string \<Rightarrow> string \<Rightarrow> 'e world
    \<Rightarrow> (op_error + string \<times> bool) \<times> 'e world" where
  "adopt_branch ev tn tenant org repo branch w =
    (case get_row tenant org repo branch (w_store w) of
       Some row \<Rightarrow> (Inr (mr_session row, False), w)
     | None \<Rightarrow>
         (case get_repo_tree ev tn (w_env w) of
            (Inl err, e1) \<Rightarrow> (Inl err, w\<lparr> w_env := e1 \<rparr>)
          | (Inr tree, e1) \<Rightarrow>
              if \<not> repo_exists tree org repo
              then (Inl (err_not_found (''repository '' @ org @ ''/'' @ repo @ '' does not exist'')),
                    w\<lparr> w_env := e1 \<rparr>)
              else if \<not> branch_exists tree org repo branch
              then (Inl (err_not_found (''branch '' @ org @ ''/'' @ repo @ ''#'' @ branch @ '' does not exist'')),
                    w\<lparr> w_env := e1 \<rparr>)
              else (case create_repo_session ev org repo branch ''build'' e1 of
                      (Some err, e2) \<Rightarrow> (Inl (plain_error err), w\<lparr> w_env := e2 \<rparr>)
                    | (None, e2) \<Rightarrow>
                        (case insert_row tenant org repo branch (naming_session org repo branch) (w_store w) of
                           Inl err \<Rightarrow> (Inl err, w\<lparr> w_env := e2 \<rparr>)
                         | Inr st \<Rightarrow> (Inr (naming_session org repo branch, True),
                                        w\<lparr> w_env := e2, w_store := st \<rparr>)))))"

end
