(* ===== verification/Repo_Lab_Correct.thy ===== *)
theory Repo_Lab_Correct
imports Repo_Lab
begin

text \<open>
  What the lab client's branch operations achieve on a lab that tells the truth.

  \<^verbatim>\<open>view\<close> reads the branches of every repository off the external world; \<^verbatim>\<open>truthful\<close> collects what
  the client relies on: answers describe the view, accepted writes have their effect, and refused
  calls have none.  Any call may fail at any time.
\<close>

type_synonym lab_view = "string \<Rightarrow> string \<Rightarrow> string set option"

definition view_with :: "lab_view \<Rightarrow> string \<Rightarrow> string \<Rightarrow> string set \<Rightarrow> lab_view" where
  "view_with v org repo B = (\<lambda>p q. if p = org \<and> q = repo then Some B else v p q)"

definition branches_in :: "lab_view \<Rightarrow> string \<Rightarrow> string \<Rightarrow> string set" where
  "branches_in v org repo = (case v org repo of None \<Rightarrow> {} | Some B \<Rightarrow> B)"

definition truthful_reads :: "'e env \<Rightarrow> ('e \<Rightarrow> lab_view) \<Rightarrow> bool" where
  "truthful_reads ev view \<longleftrightarrow>
    (\<forall>tn e. view (snd (ev_list_repos ev tn e)) = view e
      \<and> (\<forall>rs. fst (ev_list_repos ev tn e) = Inr rs \<longrightarrow> set rs = {(p, q). view e p q \<noteq> None}))
    \<and> (\<forall>tn org repo e. view (snd (ev_branches ev tn org repo e)) = view e
      \<and> (\<forall>bs. fst (ev_branches ev tn org repo e) = Inr bs \<longrightarrow> view e org repo = Some (set (map fst bs))))
    \<and> (\<forall>tn org repo ref n e. view (snd (ev_revisions ev tn org repo ref n e)) = view e)"

definition truthful_writes :: "'e env \<Rightarrow> ('e \<Rightarrow> lab_view) \<Rightarrow> bool" where
  "truthful_writes ev view \<longleftrightarrow>
    (\<forall>tn org repo b src e. case ev_create_branch ev tn org repo b src e of
        (None, e') \<Rightarrow> view e' = view_with (view e) org repo (insert b (branches_in (view e) org repo))
      | (Some err, e') \<Rightarrow> view e' = view e \<and> (code_of err = AlreadyExists \<longrightarrow> b \<in> branches_in (view e) org repo))
    \<and> (\<forall>tn org repo b e. case ev_delete_branch ev tn org repo b e of
        (None, e') \<Rightarrow> view e' = view_with (view e) org repo (branches_in (view e) org repo - {b})
      | (Some err, e') \<Rightarrow> view e' = view e \<and> (code_of err = NotFound \<longrightarrow> b \<notin> branches_in (view e) org repo))"

definition truthful :: "'e env \<Rightarrow> ('e \<Rightarrow> lab_view) \<Rightarrow> bool" where
  "truthful ev view \<longleftrightarrow> truthful_reads ev view \<and> truthful_writes ev view
    \<and> (\<forall>tn org repo e p q. branches_in (view (snd (ev_ensure_repo ev tn org repo e))) p q = branches_in (view e) p q)"

lemma truthful_list:
  assumes "truthful_reads ev view" "ev_list_repos ev tn e = (r, e')"
  shows "view e' = view e" and "r = Inr rs \<Longrightarrow> set rs = {(p, q). view e p q \<noteq> None}"
  using assms unfolding truthful_reads_def by (metis fst_conv snd_conv)+

lemma truthful_branches:
  assumes "truthful_reads ev view" "ev_branches ev tn org repo e = (r, e')"
  shows "view e' = view e" and "r = Inr bs \<Longrightarrow> view e org repo = Some (set (map fst bs))"
  using assms unfolding truthful_reads_def by (metis fst_conv snd_conv)+

lemma truthful_create:
  assumes "truthful_writes ev view" "ev_create_branch ev tn org repo b src e = (r, e')"
  shows "r = None \<Longrightarrow> b \<in> branches_in (view e') org repo"
    and "r = Some err \<Longrightarrow> view e' = view e"
    and "r = Some err \<Longrightarrow> code_of err = AlreadyExists \<Longrightarrow> b \<in> branches_in (view e) org repo"
proof -
  have "case ev_create_branch ev tn org repo b src e of
        (None, e') \<Rightarrow> view e' = view_with (view e) org repo (insert b (branches_in (view e) org repo))
      | (Some err, e') \<Rightarrow> view e' = view e \<and> (code_of err = AlreadyExists \<longrightarrow> b \<in> branches_in (view e) org repo)"
    by (rule conjunct1[OF assms(1)[unfolded truthful_writes_def], THEN spec, THEN spec, THEN spec, THEN spec, THEN spec, THEN spec])
  then show "r = None \<Longrightarrow> b \<in> branches_in (view e') org repo"
    and "r = Some err \<Longrightarrow> view e' = view e"
    and "r = Some err \<Longrightarrow> code_of err = AlreadyExists \<Longrightarrow> b \<in> branches_in (view e) org repo"
    unfolding assms(2) by (auto simp: view_with_def branches_in_def)
qed

lemma truthful_delete:
  assumes "truthful_writes ev view" "ev_delete_branch ev tn org repo b e = (r, e')"
  shows "r = None \<Longrightarrow> b \<notin> branches_in (view e') org repo"
    and "r = Some err \<Longrightarrow> view e' = view e"
    and "r = Some err \<Longrightarrow> code_of err = NotFound \<Longrightarrow> b \<notin> branches_in (view e) org repo"
proof -
  have "case ev_delete_branch ev tn org repo b e of
        (None, e') \<Rightarrow> view e' = view_with (view e) org repo (branches_in (view e) org repo - {b})
      | (Some err, e') \<Rightarrow> view e' = view e \<and> (code_of err = NotFound \<longrightarrow> b \<notin> branches_in (view e) org repo)"
    by (rule conjunct2[OF assms(1)[unfolded truthful_writes_def], THEN spec, THEN spec, THEN spec, THEN spec, THEN spec])
  then show "r = None \<Longrightarrow> b \<notin> branches_in (view e') org repo"
    and "r = Some err \<Longrightarrow> view e' = view e"
    and "r = Some err \<Longrightarrow> code_of err = NotFound \<Longrightarrow> b \<notin> branches_in (view e) org repo"
    unfolding assms(2) by (auto simp: view_with_def branches_in_def)
qed

section \<open>The tree\<close>

definition names_of :: "repo_tree \<Rightarrow> string \<Rightarrow> string \<Rightarrow> string set option" where
  "names_of t org repo = (if repo_exists t org repo then Some (set (map br_name (tree_branches t org repo))) else None)"

lemma names_of_exists: "repo_exists t org repo \<longleftrightarrow> names_of t org repo \<noteq> None"
  by (simp add: names_of_def)

lemma names_of_branch: "branch_exists t org repo b \<longleftrightarrow> b \<in> branches_in (names_of t) org repo"
  by (auto simp: names_of_def branch_exists_def list_ex_iff branches_in_def repo_exists_def tree_branches_def
      split: option.splits)

lemma names_of_upd:
  "names_of (t(ns \<mapsto> (case t ns of None \<Rightarrow> Map.empty | Some m \<Rightarrow> m)(name \<mapsto> bs))) =
    view_with (names_of t) ns name (set (map br_name bs))"
  by (intro ext) (auto simp: names_of_def view_with_def repo_exists_def tree_branches_def split: option.splits)

definition listing_fails :: "'e env \<Rightarrow> ('e \<Rightarrow> lab_view) \<Rightarrow> string \<Rightarrow> string \<Rightarrow> string \<Rightarrow> bool" where
  "listing_fails ev view tn org repo \<longleftrightarrow>
    (\<exists>e. view e org repo \<noteq> None \<and> isl (fst (ev_branches ev tn org repo e)))"

lemma tree_loop_step:
  assumes "ns \<noteq> ''''" "name \<noteq> ''''" "get_branches_detail ev tn ns name e = (r, e1)"
  shows "tree_loop ev tn ((ns, name) # rs) t e =
    tree_loop ev tn rs (t(ns \<mapsto> (case t ns of None \<Rightarrow> Map.empty | Some m \<Rightarrow> m)
      (name \<mapsto> (case r of Inl _ \<Rightarrow> [] | Inr l \<Rightarrow> l)))) e1"
  using assms by (simp add: Let_def split: sum.split)

definition told :: "'e env \<Rightarrow> ('e \<Rightarrow> lab_view) \<Rightarrow> string \<Rightarrow> 'e \<Rightarrow> string \<Rightarrow> string \<Rightarrow> string set option \<Rightarrow> bool" where
  "told ev view tn e p q N \<longleftrightarrow>
    N = Some (branches_in (view e) p q) \<or> N = Some {} \<and> listing_fails ev view tn p q"

lemma tree_loop_truthful:
  assumes tr: "truthful_reads ev view" and l: "tree_loop ev tn rs t e = (t', e')"
  shows "view e' = view e \<and> (\<forall>p q.
     if (p, q) \<in> set rs \<and> p \<noteq> '''' \<and> q \<noteq> '''' then told ev view tn e p q (names_of t' p q)
     else names_of t' p q = names_of t p q)"
  using l
proof (induction rs arbitrary: t e)
  case (Cons r rs)
  obtain ns name where r: "r = (ns, name)" by (cases r)
  show ?case
  proof (cases "ns = '''' \<or> name = ''''")
    case True
    then show ?thesis using Cons.IH[of t e] Cons.prems r by auto
  next
    case False
    then have ne: "ns \<noteq> ''''" "name \<noteq> ''''" by simp_all
    obtain d e1 where d: "get_branches_detail ev tn ns name e = (d, e1)" by fastforce
    define bs where "bs = (case d of Inl _ \<Rightarrow> [] | Inr l \<Rightarrow> l)"
    define t1 where "t1 = t(ns \<mapsto> (case t ns of None \<Rightarrow> Map.empty | Some m \<Rightarrow> m)(name \<mapsto> bs))"
    have v: "view e1 = view e" and good: "told ev view tn e ns name (Some (set (map br_name bs)))"
    proof -
      obtain x e2 where x: "ev_branches ev tn ns name e = (x, e2)" by fastforce
      have "e2 = e1" using d x by (auto simp: get_branches_detail_def split: sum.splits)
      then show "view e1 = view e" using truthful_branches(1)[OF tr x] by simp
      show "told ev view tn e ns name (Some (set (map br_name bs)))"
      proof (cases x)
        case (Inl err)
        then have "bs = []" using d x by (auto simp: get_branches_detail_def bs_def)
        moreover have "listing_fails ev view tn ns name" if "view e ns name \<noteq> None"
          using that x Inl by (auto simp: listing_fails_def intro!: exI[of _ e])
        ultimately show ?thesis by (cases "view e ns name") (auto simp: told_def branches_in_def)
      next
        case (Inr l)
        then have "bs = map (\<lambda>(n, s). \<lparr> br_name = n, br_sha = s \<rparr>) l"
          using d x by (auto simp: get_branches_detail_def bs_def)
        then have "set (map br_name bs) = set (map fst l)" by (force simp: image_iff)
        then show ?thesis
          using truthful_branches(2)[OF tr x Inr] by (simp add: told_def branches_in_def)
      qed
    qed
    have n1: "names_of t1 = view_with (names_of t) ns name (set (map br_name bs))"
      unfolding t1_def by (rule names_of_upd)
    have "tree_loop ev tn rs t1 e1 = (t', e')"
      using Cons.prems tree_loop_step[OF ne d, of rs t] by (simp add: r t1_def bs_def)
    note ih = Cons.IH[OF this]
    have told_e1: "told ev view tn e1 p q N = told ev view tn e p q N" for p q N
      by (simp add: told_def v)
    show ?thesis
    proof (intro conjI allI)
      show "view e' = view e" using ih v by simp
      fix p q
      have ipq: "if (p, q) \<in> set rs \<and> p \<noteq> '''' \<and> q \<noteq> '''' then told ev view tn e p q (names_of t' p q)
          else names_of t' p q = names_of t1 p q"
        using ih unfolding told_e1 by blast
      show "if (p, q) \<in> set (r # rs) \<and> p \<noteq> '''' \<and> q \<noteq> '''' then told ev view tn e p q (names_of t' p q)
          else names_of t' p q = names_of t p q"
        using ipq good ne by (auto simp: r n1 view_with_def split: if_splits)
    qed
  qed
qed simp

lemma empty_tree_names: "names_of (\<lambda>_. None) p q = None"
  by (simp add: names_of_def repo_exists_def)

lemma tree_truthful:
  assumes tr: "truthful_reads ev view" and g: "get_repo_tree ev tn e = (Inr t, e')"
  shows "view e' = view e"
    and "repo_exists t p q \<longleftrightarrow> view e p q \<noteq> None \<and> p \<noteq> '''' \<and> q \<noteq> ''''"
    and "branch_exists t p q b \<Longrightarrow> b \<in> branches_in (view e) p q"
    and "\<not> branch_exists t p q b \<Longrightarrow> p \<noteq> '''' \<Longrightarrow> q \<noteq> '''' \<Longrightarrow>
      b \<notin> branches_in (view e) p q \<or> listing_fails ev view tn p q"
proof -
  obtain rs e1 where l: "ev_list_repos ev tn e = (Inr rs, e1)" "tree_loop ev tn rs (\<lambda>_. None) e1 = (t, e')"
    using g by (auto simp: get_repo_tree_def split: prod.splits sum.splits)
  note v1 = truthful_list(1)[OF tr l(1)] and rs = truthful_list(2)[OF tr l(1) refl]
  note h = tree_loop_truthful[OF tr l(2)]
  have told_e: "told ev view tn e1 p q N = told ev view tn e p q N" for N
    by (simp add: told_def v1)
  have n: "if view e p q \<noteq> None \<and> p \<noteq> '''' \<and> q \<noteq> '''' then told ev view tn e p q (names_of t p q)
      else names_of t p q = None"
    using h rs unfolding told_e[symmetric] by (auto simp: empty_tree_names)
  show "view e' = view e" using h v1 by simp
  show "repo_exists t p q \<longleftrightarrow> view e p q \<noteq> None \<and> p \<noteq> '''' \<and> q \<noteq> ''''"
    using n by (auto simp: names_of_exists told_def split: if_splits)
  show "b \<in> branches_in (view e) p q" if "branch_exists t p q b"
    using that n by (auto simp: names_of_branch told_def branches_in_def split: if_splits option.splits)
  show "b \<notin> branches_in (view e) p q \<or> listing_fails ev view tn p q"
    if "\<not> branch_exists t p q b" "p \<noteq> ''''" "q \<noteq> ''''"
    using that n by (auto simp: names_of_branch told_def branches_in_def split: if_splits option.splits)
qed

lemma tree_view_any:
  assumes tr: "truthful_reads ev view" and g: "get_repo_tree ev tn e = (r, e')"
  shows "view e' = view e"
proof (cases r)
  case (Inl err)
  then show ?thesis
    using g truthful_list(1)[OF tr] by (auto simp: get_repo_tree_def split: prod.splits sum.splits)
next
  case (Inr t)
  then show ?thesis using tree_truthful(1)[OF tr] g by simp
qed

section \<open>Outcome of the branch operations\<close>

definition create_refused :: "'e env \<Rightarrow> string \<Rightarrow> string \<Rightarrow> string \<Rightarrow> string \<Rightarrow> bool" where
  "create_refused ev tn org repo b \<longleftrightarrow> (\<exists>src e err e'.
     ev_create_branch ev tn org repo b src e = (Some err, e') \<and> code_of err = InvalidArgument)"

definition always_refused :: "'e env \<Rightarrow> string \<Rightarrow> string \<Rightarrow> string \<Rightarrow> string \<Rightarrow> bool" where
  "always_refused ev tn org repo b \<longleftrightarrow> (\<forall>src e. fst (ev_create_branch ev tn org repo b src e) \<noteq> None)"

lemma ensure_branch_outcome:
  assumes tr: "truthful ev view" and r: "ensure_branch ev tn org repo src b e = (None, e')"
  shows "b \<in> branches_in (view e') org repo \<or> create_refused ev tn org repo b"
proof -
  have tr1: "truthful_reads ev view" and tr2: "truthful_writes ev view"
    using tr by (simp_all add: truthful_def)
  obtain t e1 where g: "get_repo_tree ev tn e = (Inr t, e1)"
    using r by (auto simp: ensure_branch_def split: prod.splits sum.splits)
  note g' = tree_truthful[OF tr1 g]
  show ?thesis
  proof (cases "branch_exists t org repo b")
    case True
    then have "e' = e1" using r g by (simp add: ensure_branch_def)
    then show ?thesis using g'(1) g'(3)[OF True] by simp
  next
    case False
    obtain x e2 where x: "ev_create_branch ev tn org repo b src e1 = (x, e2)" by fastforce
    have ex: "repo_exists t org repo" using r g False by (auto simp: ensure_branch_def split: if_splits)
    have "e' = e2" using r g x False ex by (auto simp: ensure_branch_def split: option.splits if_splits)
    moreover have "x = None \<or> (\<exists>err. x = Some err \<and> (code_of err = AlreadyExists \<or> code_of err = InvalidArgument))"
      using r g x False ex by (auto simp: ensure_branch_def split: option.splits if_splits)
    ultimately show ?thesis
      using truthful_create[OF tr2 x] x unfolding create_refused_def by metis
  qed
qed

lemma ensure_branch_refused:
  assumes tr: "truthful ev view" and no: "always_refused ev tn org repo b"
  shows "view (snd (ensure_branch ev tn org repo src b e)) = view e"
proof -
  have tr1: "truthful_reads ev view" and tr2: "truthful_writes ev view"
    using tr by (simp_all add: truthful_def)
  obtain r e1 where g: "get_repo_tree ev tn e = (r, e1)" by fastforce
  have v: "view e1 = view e" by (rule tree_view_any[OF tr1 g])
  obtain x e2 where x: "ev_create_branch ev tn org repo b src e1 = (x, e2)" by fastforce
  have "x \<noteq> None" using no x unfolding always_refused_def by (metis fst_conv)
  then obtain err where err: "x = Some err" by auto
  have "view e2 = view e" using truthful_create(2)[OF tr2 x err] v by simp
  then show ?thesis
    using g v x err by (simp add: ensure_branch_def split: sum.split)
qed

lemma delete_branch_outcome:
  assumes tr: "truthful ev view" and r: "delete_branch ev tn org repo b e = (None, e')"
    and ne: "org \<noteq> ''''" "repo \<noteq> ''''"
  shows "b \<notin> branches_in (view e') org repo \<or> listing_fails ev view tn org repo"
proof -
  have tr1: "truthful_reads ev view" and tr2: "truthful_writes ev view"
    using tr by (simp_all add: truthful_def)
  obtain t e1 where g: "get_repo_tree ev tn e = (Inr t, e1)"
    using r by (auto simp: delete_branch_def split: prod.splits sum.splits)
  note g' = tree_truthful[OF tr1 g]
  show ?thesis
  proof (cases "branch_exists t org repo b")
    case False
    then have "e' = e1" using r g by (simp add: delete_branch_def)
    then show ?thesis using g'(1) g'(4)[OF False ne] by simp
  next
    case True
    obtain x e2 where x: "ev_delete_branch ev tn org repo b e1 = (x, e2)" by fastforce
    have "e' = e2" using r g x True by (auto simp: delete_branch_def split: option.splits if_splits)
    moreover have "x = None \<or> (\<exists>err. x = Some err \<and> code_of err = NotFound)"
      using r g x True by (auto simp: delete_branch_def split: option.splits if_splits)
    ultimately show ?thesis
      using truthful_delete[OF tr2 x] by metis
  qed
qed

lemma can_resolve_view:
  assumes tr: "truthful_reads ev view" and r: "can_resolve ev tn org repo rv e = (x, e')"
  shows "view e' = view e"
proof -
  obtain y e1 where y: "ev_branches ev tn org repo e = (y, e1)" by fastforce
  obtain z e2 where z: "ev_revisions ev tn org repo '''' 200 e1 = (z, e2)" by fastforce
  have "view e1 = view e" by (rule truthful_branches(1)[OF tr y])
  moreover have "view e2 = view e1" using tr z unfolding truthful_reads_def by (metis snd_conv)
  moreover have "e' = e1 \<or> e' = e2"
    using r y z by (auto simp: can_resolve_def split: sum.splits if_splits)
  ultimately show ?thesis by auto
qed

lemma tree_branches_upd:
  "tree_branches (t(ns \<mapsto> (case t ns of None \<Rightarrow> Map.empty | Some m \<Rightarrow> m)(name \<mapsto> bs))) org repo =
    (if (org, repo) = (ns, name) then bs else tree_branches t org repo)"
  by (auto simp: tree_branches_def split: option.splits)

lemma tree_loop_down:
  assumes down: "\<And>e. isl (fst (ev_branches ev tn org repo e))" and t: "tree_branches t org repo = []"
  shows "tree_branches (fst (tree_loop ev tn rs t e)) org repo = []"
  using t
proof (induction rs arbitrary: t e)
  case (Cons r rs)
  obtain ns name where r: "r = (ns, name)" by (cases r)
  show ?case
  proof (cases "ns = '''' \<or> name = ''''")
    case True
    then show ?thesis using Cons by (auto simp: r)
  next
    case False
    then have ne: "ns \<noteq> ''''" "name \<noteq> ''''" by simp_all
    obtain d e1 where d: "get_branches_detail ev tn ns name e = (d, e1)" by fastforce
    have "isl d" if "(org, repo) = (ns, name)"
    proof -
      obtain x e2 where x: "ev_branches ev tn ns name e = (x, e2)" by fastforce
      then have "isl x" using down[of e] that by simp
      then show ?thesis using d x by (auto simp: get_branches_detail_def isl_def)
    qed
    then have "(case d of Inl _ \<Rightarrow> [] | Inr l \<Rightarrow> l) = []" if "(org, repo) = (ns, name)"
      using that by (cases d) auto
    then have "tree_branches (t(ns \<mapsto> (case t ns of None \<Rightarrow> Map.empty | Some m \<Rightarrow> m)
      (name \<mapsto> (case d of Inl _ \<Rightarrow> [] | Inr l \<Rightarrow> l)))) org repo = []"
      using Cons.prems by (simp add: tree_branches_upd)
    then show ?thesis unfolding r tree_loop_step[OF ne d] by (rule Cons.IH)
  qed
qed simp

lemma tree_down:
  assumes "\<And>e. isl (fst (ev_branches ev tn org repo e))" and "get_repo_tree ev tn e = (Inr tree, e1)"
  shows "\<not> branch_exists tree org repo b"
proof -
  obtain rs e2 where "fst (tree_loop ev tn rs (\<lambda>_. None) e2) = tree"
    using assms(2) by (auto simp: get_repo_tree_def split: prod.splits sum.splits) (metis fst_conv)
  then have "tree_branches tree org repo = []"
    using tree_loop_down[OF assms(1), where t = "\<lambda>_. None" and rs = rs and e = e2]
    by (auto simp: tree_branches_def)
  then show ?thesis by (simp add: branch_exists_def)
qed

end
