(* ===== verification/Lifecycle_Correct.thy ===== *)
theory Lifecycle_Correct
imports Lifecycle Repo_Lab_Correct
begin

text \<open>
  What the lifecycle keeps and reaches, for every behaviour of the lab, the agent and the clock.

  The mapping is named: every row is the row of its own session's name.  The handler's steps
  satisfy the contract of an at-least-once bus, stated as the locale \<^verbatim>\<open>at_least_once\<close>:
  a step that reports success has reached its goal, and in its goal a step does nothing.
\<close>

section \<open>The contract of a redelivered step\<close>

fun redeliver :: "nat \<Rightarrow> ('w \<Rightarrow> 'r option \<times> 'w) \<Rightarrow> 'w \<Rightarrow> 'w" where
  "redeliver 0 step w = w"
| "redeliver (Suc n) step w = redeliver n step (snd (step w))"

lemma redeliver_add: "redeliver (m + n) step w = redeliver n step (redeliver m step w)"
  by (induction m arbitrary: w) auto

locale at_least_once =
  fixes inv :: "'w \<Rightarrow> bool"
    and step :: "'w \<Rightarrow> 'r option \<times> 'w"
    and fin :: "'w \<Rightarrow> bool"
    and obs :: "'w \<Rightarrow> 'o"
  assumes inv_step: "inv w \<Longrightarrow> inv (snd (step w))"
    and fin_step: "inv w \<Longrightarrow> fin w \<Longrightarrow> fst (step w) = None \<and> obs (snd (step w)) = obs w"
    and fin_obs: "obs v = obs w \<Longrightarrow> fin v = fin w"
    and ok_fin: "inv w \<Longrightarrow> fst (step w) = None \<Longrightarrow> fin (snd (step w))"
begin

lemma inv_redeliver: "inv w \<Longrightarrow> inv (redeliver n step w)"
  by (induction n arbitrary: w) (auto simp: inv_step)

lemma again: "inv w \<Longrightarrow> fst (step w) = None \<Longrightarrow>
    fst (step (snd (step w))) = None \<and> obs (snd (step (snd (step w)))) = obs (snd (step w))"
  by (simp add: fin_step inv_step ok_fin)

lemma fin_redeliver: "inv w \<Longrightarrow> fin w \<Longrightarrow> fin (redeliver n step w) \<and> obs (redeliver n step w) = obs w"
proof (induction n arbitrary: w)
  case (Suc n)
  note s = fin_step[OF Suc.prems]
  have "fin (snd (step w))" using fin_obs[OF conjunct2[OF s]] Suc.prems(2) by simp
  then show ?case using Suc.IH[OF inv_step[OF Suc.prems(1)]] s by simp
qed simp

lemma converges:
  assumes "inv w" and "fst (step (redeliver k step w)) = None" and "k < n"
  shows "obs (redeliver n step w) = obs (redeliver (Suc k) step w) \<and> fin (redeliver n step w)"
proof -
  let ?v = "redeliver k step w"
  have v: "inv ?v" by (rule inv_redeliver[OF assms(1)])
  have s: "redeliver (Suc k) step w = snd (step ?v)"
    using redeliver_add[of k 1 step w] by simp
  have f: "fin (snd (step ?v))" by (rule ok_fin[OF v assms(2)])
  have "redeliver n step w = redeliver (n - Suc k) step (redeliver (Suc k) step w)"
    using assms(3) by (metis Suc_leI le_add_diff_inverse redeliver_add)
  then show ?thesis using fin_redeliver[OF inv_step[OF v] f] unfolding s by simp
qed

end

section \<open>Named rows\<close>

definition row_named :: "map_row \<Rightarrow> bool" where
  "row_named r \<longleftrightarrow> parse_session (mr_session r) = Some (mr_org r, mr_repo r, mr_branch r)"

definition store_named :: "repo_store \<Rightarrow> bool" where
  "store_named st \<longleftrightarrow> store_ok st \<and> (\<forall>r\<in>set (rs_rows st). row_named r)"

lemma parse_session_inj:
  "parse_session s = Some x \<Longrightarrow> parse_session s' = Some x \<Longrightarrow> s = s'"
  by (cases x) (simp add: parse_session_iff)

lemma named_by_session:
  assumes "store_named st" and "get_row_by_session t s st = Some x"
  shows "x \<in> set (rs_rows st)" "mr_tenant x = t" "mr_session x = s"
    "parse_session s = Some (mr_org x, mr_repo x, mr_branch x)"
  using assms by (auto simp: store_named_def get_row_by_session_iff session_key_of_def row_named_def)

text \<open>In a named store a branch and its session name are bound together.\<close>

lemma named_lookup:
  assumes st: "store_named st" and p: "parse_session s = Some (org, repo, b)"
  shows "get_row_by_session t s st = get_row t org repo b st"
proof (rule option_eq_iff[THEN iffD2], rule allI)
  fix z
  have ok: "store_ok st" using st by (simp add: store_named_def)
  have "session_key_of z = (t, s) \<longleftrightarrow> row_key z = (t, org, repo, b)" if "z \<in> set (rs_rows st)"
  proof -
    have "parse_session (mr_session z) = Some (mr_org z, mr_repo z, mr_branch z)"
      using st that by (simp add: store_named_def row_named_def)
    then show ?thesis
      using p parse_session_inj[of "mr_session z" "(org, repo, b)" s]
      by (auto simp: session_key_of_def row_key_def)
  qed
  then show "get_row_by_session t s st = Some z \<longleftrightarrow> get_row t org repo b st = Some z"
    by (auto simp: get_row_iff[OF ok] get_row_by_session_iff[OF ok])
qed

lemma insert_row_rows:
  "insert_row t org repo b s st = Inr st' \<Longrightarrow>
    st' = st\<lparr> rs_rows := rs_rows st @ [\<lparr> mr_tenant = t, mr_org = org, mr_repo = repo, mr_branch = b,
      mr_session = s \<rparr>] \<rparr>"
  by (simp add: insert_row_def Let_def split: if_splits)

lemma insert_row_named:
  assumes "store_named st" "parse_session s = Some (org, repo, b)" "insert_row t org repo b s st = Inr st'"
  shows "store_named st'"
  using assms insert_row_ok[OF _ assms(3)] insert_row_rows[OF assms(3)]
  by (auto simp: store_named_def row_named_def)

lemma insert_managed_rows [simp]: "rs_rows (insert_managed t org repo st) = rs_rows st"
  by (simp add: insert_managed_def)

lemma get_row_managed [simp]:
  "get_row t' o' r' b' (insert_managed t org repo st) = get_row t' o' r' b' st"
  "get_row_by_session t' s' (insert_managed t org repo st) = get_row_by_session t' s' st"
  by (simp_all add: get_row_def get_row_by_session_def)

lemma bind_row_None: "fst (bind_row t org repo b s st) = None"
  by (auto simp: bind_row_def insert_row_def Let_def err_conflict_def split: sum.splits if_splits)

lemma bind_row_named:
  assumes "store_named st" "parse_session s = Some (org, repo, b)"
  shows "store_named (snd (bind_row t org repo b s st))"
proof (cases "insert_row t org repo b s st")
  case (Inl e)
  then show ?thesis using assms(1) by (simp add: bind_row_def)
next
  case (Inr st')
  then have "store_named st'" by (rule insert_row_named[OF assms])
  then show ?thesis
    using Inr by (simp add: bind_row_def store_named_def insert_managed_ok)
qed

lemma bind_row_binds:
  assumes "store_named st" "parse_session s = Some (org, repo, b)"
  shows "get_row_by_session t s (snd (bind_row t org repo b s st)) \<noteq> None"
proof (cases "insert_row t org repo b s st")
  case (Inl e)
  then have "\<exists>y\<in>set (rs_rows st). row_key y = (t, org, repo, b) \<or> session_key_of y = (t, s)"
    by (auto simp: insert_row_def Let_def list_ex_iff split: if_splits)
  then have "get_row t org repo b st \<noteq> None \<or> get_row_by_session t s st \<noteq> None"
    unfolding get_row_None get_row_by_session_None by force
  then show ?thesis using Inl named_lookup[OF assms] by (simp add: bind_row_def)
next
  case (Inr st')
  then show ?thesis
    using insert_row_rows[OF Inr] by (simp add: bind_row_def get_row_by_session_None)
qed

text \<open>A binding never removes or changes a row.\<close>

lemma bind_row_keeps:
  assumes "get_row_by_session t' s' st = Some x"
  shows "get_row_by_session t' s' (snd (bind_row t org repo b s st)) = Some x"
proof (cases "insert_row t org repo b s st")
  case (Inr st')
  have "find P xs = Some x \<Longrightarrow> find P (xs @ ys) = Some x" for P and xs ys :: "map_row list"
    by (induction xs) auto
  then show ?thesis
    using assms Inr insert_row_rows[OF Inr] by (simp add: bind_row_def get_row_by_session_def)
qed (use assms in \<open>simp add: bind_row_def\<close>)

lemma delete_row_named: "store_named st \<Longrightarrow> store_named (delete_row t org repo b st)"
  by (auto simp: store_named_def delete_row_ok) (simp add: delete_row_def)

lemma rename_row_named:
  assumes "store_named st" "parse_session ts = Some (org, repo, tb)"
    and "rename_row t org repo fb tb ts st = Inr st'"
  shows "store_named st'"
proof -
  have "rs_rows st' = map (\<lambda>x. if row_key x = (t, org, repo, fb)
      then x\<lparr> mr_branch := tb, mr_session := ts \<rparr> else x) (rs_rows st)"
    using assms(3) by (auto simp: rename_row_def Let_def split: if_splits)
  then show ?thesis
    using assms(1,2) rename_row_ok[OF _ assms(3)]
    by (auto simp: store_named_def row_named_def row_key_def)
qed

section \<open>Creation and forking\<close>

lemma created_cases:
  obtains (bound) row where "get_row_by_session tenant sid (w_store w) = Some row"
      "ensure_created ev tenant org repo bm sid w = (None, w)"
    | (failed) err e where "get_row_by_session tenant sid (w_store w) = None"
      "ensure_created ev tenant org repo bm sid w = (Some err, w\<lparr> w_env := e \<rparr>)"
    | (made) e where "get_row_by_session tenant sid (w_store w) = None"
      "ensure_created ev tenant org repo bm sid w =
        (None, w\<lparr> w_env := e, w_store := snd (bind_row tenant org repo bm sid (w_store w)) \<rparr>)"
proof (cases "get_row_by_session tenant sid (w_store w)")
  case (Some row)
  then show ?thesis by (intro bound[of row]) (simp_all add: ensure_created_def)
next
  case None
  obtain r1 e1 where 1: "ensure_repo ev tenant org repo (w_env w) = (r1, e1)" by fastforce
  obtain r2 e2 where 2: "ensure_branch_anchored ev tenant org repo bm e1 = (r2, e2)" by fastforce
  obtain r3 st where 3: "bind_row tenant org repo bm sid (w_store w) = (r3, st)" by fastforce
  have r3: "r3 = None" using bind_row_None[of tenant org repo bm sid "w_store w"] by (simp add: 3)
  show ?thesis
  proof (cases r1)
    case (Some err)
    then show ?thesis using None 1 by (intro failed[of err e1]) (simp_all add: ensure_created_def)
  next
    case r1: None
    show ?thesis
    proof (cases r2)
      case (Some err)
      then show ?thesis using None 1 2 r1 by (intro failed[of err e2]) (simp_all add: ensure_created_def)
    next
      case None
      then show ?thesis
        using \<open>get_row_by_session tenant sid (w_store w) = None\<close> 1 2 3 r1 r3
        by (intro made[of e2]) (simp_all add: ensure_created_def)
    qed
  qed
qed

lemma created_cache [simp]: "w_cache (snd (ensure_created ev tenant org repo bm sid w)) = w_cache w"
  by (cases rule: created_cases[of tenant sid w ev org repo bm]) simp_all

lemma created_named:
  assumes "store_named (w_store w)" "parse_session sid = Some (org, repo, bm)"
  shows "store_named (w_store (snd (ensure_created ev tenant org repo bm sid w)))"
  using assms bind_row_named[OF assms]
  by (cases rule: created_cases[of tenant sid w ev org repo bm]) simp_all

lemma created_binds:
  assumes "store_named (w_store w)" "parse_session sid = Some (org, repo, bm)"
    and "fst (ensure_created ev tenant org repo bm sid w) = None"
  shows "get_row_by_session tenant sid (w_store (snd (ensure_created ev tenant org repo bm sid w))) \<noteq> None"
  using assms bind_row_binds[OF assms(1,2)]
  by (cases rule: created_cases[of tenant sid w ev org repo bm]) simp_all

lemma created_keeps:
  "get_row_by_session t' s' (w_store w) = Some x \<Longrightarrow>
    get_row_by_session t' s' (w_store (snd (ensure_created ev tenant org repo bm sid w))) = Some x"
  by (cases rule: created_cases[of tenant sid w ev org repo bm]) (simp_all add: bind_row_keeps)

lemma created_error:
  "fst (ensure_created ev tenant org repo bm sid w) = Some err \<Longrightarrow>
    w_store (snd (ensure_created ev tenant org repo bm sid w)) = w_store w
    \<and> get_row_by_session tenant sid (w_store w) = None"
  by (cases rule: created_cases[of tenant sid w ev org repo bm]) simp_all

lemma fork_from_cases:
  obtains (failed) err e where "fork_from ev tenant org repo bm sid pb w = (Some err, w\<lparr> w_env := e \<rparr>)"
    | (made) e where "fork_from ev tenant org repo bm sid pb w =
        (None, w\<lparr> w_env := e, w_store := snd (bind_row tenant org repo bm sid (w_store w)) \<rparr>)"
proof -
  obtain r1 e1 where 1: "ensure_branch ev tenant org repo pb bm (w_env w) = (r1, e1)" by fastforce
  obtain r3 st where 3: "bind_row tenant org repo bm sid (w_store w) = (r3, st)" by fastforce
  have r3: "r3 = None" using bind_row_None[of tenant org repo bm sid "w_store w"] by (simp add: 3)
  show ?thesis
  proof (cases r1)
    case (Some err)
    then show ?thesis using 1 by (intro failed[of err e1]) (simp add: fork_from_def)
  next
    case None
    then show ?thesis using 1 3 r3 by (intro made[of e1]) (simp add: fork_from_def)
  qed
qed

lemma forked_cases:
  obtains (bound) row where "get_row_by_session tenant sid (w_store w) = Some row"
      "ensure_forked ev tenant org repo bm sid psid w = (None, w)"
    | (refused) err where "get_row_by_session tenant sid (w_store w) = None"
      "ensure_forked ev tenant org repo bm sid psid w = (Some err, w)"
    | (plain) pb where "get_row_by_session tenant sid (w_store w) = None"
      "ensure_forked ev tenant org repo bm sid psid w = fork_from ev tenant org repo bm sid pb w"
    | (parent_failed) pb err where "get_row_by_session tenant sid (w_store w) = None"
      "parse_session psid = Some (org, repo, pb)"
      "fst (ensure_created ev tenant org repo pb psid w) = Some err"
      "ensure_forked ev tenant org repo bm sid psid w = ensure_created ev tenant org repo pb psid w"
    | (parent_made) pb where "get_row_by_session tenant sid (w_store w) = None"
      "parse_session psid = Some (org, repo, pb)"
      "ensure_forked ev tenant org repo bm sid psid w =
        fork_from ev tenant org repo bm sid pb (snd (ensure_created ev tenant org repo pb psid w))"
proof (cases "get_row_by_session tenant sid (w_store w)")
  case (Some row)
  then show ?thesis by (intro bound[of row]) (simp_all add: ensure_forked_def)
next
  case None
  show ?thesis
  proof (cases "parse_session psid")
    case p: None
    then show ?thesis using None by (intro plain[of "''main''"]) (simp_all add: ensure_forked_def)
  next
    case p: (Some t)
    obtain po pr pb where t: "t = (po, pr, pb)" by (cases t)
    obtain r1 w1 where 1: "ensure_created ev tenant org repo pb psid w = (r1, w1)" by fastforce
    consider "po \<noteq> org \<or> pr \<noteq> repo" | row where "po = org" "pr = repo" "get_row tenant org repo pb (w_store w) = Some row"
      | err where "po = org" "pr = repo" "get_row tenant org repo pb (w_store w) = None" "r1 = Some err"
      | "po = org" "pr = repo" "get_row tenant org repo pb (w_store w) = None" "r1 = None"
      by fastforce
    then show ?thesis
    proof cases
      case 1
      then show ?thesis using None p t by (intro refused) (auto simp: ensure_forked_def)
    next
      case 2
      then show ?thesis using None p t by (intro plain[of pb]) (simp_all add: ensure_forked_def)
    next
      case 3
      then show ?thesis
        using None p t 1 by (intro parent_failed[of pb err]) (simp_all add: ensure_forked_def)
    next
      case 4
      then show ?thesis
        using None p t 1 by (intro parent_made[of pb]) (simp_all add: ensure_forked_def)
    qed
  qed
qed

lemma fork_from_named:
  assumes "store_named (w_store w)" "parse_session sid = Some (org, repo, bm)"
  shows "store_named (w_store (snd (fork_from ev tenant org repo bm sid pb w)))"
  using assms(1) bind_row_named[OF assms]
  by (cases rule: fork_from_cases[of ev tenant org repo bm sid pb w]) simp_all

lemma fork_from_binds:
  assumes "store_named (w_store w)" "parse_session sid = Some (org, repo, bm)"
    and "fst (fork_from ev tenant org repo bm sid pb w) = None"
  shows "get_row_by_session tenant sid (w_store (snd (fork_from ev tenant org repo bm sid pb w))) \<noteq> None"
  using assms(3) bind_row_binds[OF assms(1,2)]
  by (cases rule: fork_from_cases[of ev tenant org repo bm sid pb w]) simp_all

lemma fork_from_cache [simp]: "w_cache (snd (fork_from ev tenant org repo bm sid pb w)) = w_cache w"
  by (cases rule: fork_from_cases[of ev tenant org repo bm sid pb w]) simp_all

lemma forked_cache [simp]: "w_cache (snd (ensure_forked ev tenant org repo bm sid psid w)) = w_cache w"
  by (cases rule: forked_cases[of tenant sid w ev org repo bm psid]) simp_all

lemma forked_named:
  assumes "store_named (w_store w)" "parse_session sid = Some (org, repo, bm)"
  shows "store_named (w_store (snd (ensure_forked ev tenant org repo bm sid psid w)))"
  by (cases rule: forked_cases[of tenant sid w ev org repo bm psid])
    (use assms in \<open>simp_all add: fork_from_named created_named\<close>)

lemma forked_binds:
  assumes "store_named (w_store w)" "parse_session sid = Some (org, repo, bm)"
    and "fst (ensure_forked ev tenant org repo bm sid psid w) = None"
  shows "get_row_by_session tenant sid (w_store (snd (ensure_forked ev tenant org repo bm sid psid w))) \<noteq> None"
  by (cases rule: forked_cases[of tenant sid w ev org repo bm psid])
    (use assms in \<open>simp_all add: fork_from_binds created_named\<close>)

section \<open>Deletion\<close>

lemma deleted_cases:
  assumes "parse_session sid = Some (org, repo, bm)"
  obtains (absent) "get_row_by_session tenant sid (w_store w) = None"
      "ensure_deleted ev tenant sid w = (None, w)"
    | (failed) row err e where "get_row_by_session tenant sid (w_store w) = Some row"
      "ensure_deleted ev tenant sid w = (Some err, w\<lparr> w_env := e \<rparr>)"
    | (gone) row e where "get_row_by_session tenant sid (w_store w) = Some row"
      "ensure_deleted ev tenant sid w =
        (None, w\<lparr> w_env := e, w_store := delete_row tenant org repo bm (w_store w),
                  w_cache := cache_evict sid (w_cache w) \<rparr>)"
proof (cases "get_row_by_session tenant sid (w_store w)")
  case None
  then show ?thesis using assms by (intro absent) (simp_all add: ensure_deleted_def)
next
  case (Some row)
  obtain r e where d: "delete_branch ev tenant org repo bm (w_env w) = (r, e)" by fastforce
  show ?thesis
  proof (cases r)
    case None
    then show ?thesis using assms Some d by (intro gone[of row e]) (simp_all add: ensure_deleted_def)
  next
    case (Some err)
    then show ?thesis
      using assms \<open>get_row_by_session tenant sid (w_store w) = Some row\<close> d
      by (intro failed[of row err e]) (simp_all add: ensure_deleted_def)
  qed
qed

lemma deleted_named:
  assumes "store_named (w_store w)"
  shows "store_named (w_store (snd (ensure_deleted ev tenant sid w)))"
proof (cases "parse_session sid")
  case None
  then show ?thesis using assms by (simp add: ensure_deleted_def)
next
  case (Some t)
  obtain org repo bm where "t = (org, repo, bm)" by (cases t)
  with Some have p: "parse_session sid = Some (org, repo, bm)" by simp
  from p show ?thesis
    by (cases rule: deleted_cases[where tenant = tenant and w = w and ev = ev])
      (use assms in \<open>simp_all add: delete_row_named\<close>)
qed

lemma delete_row_filter:
  "rs_rows (delete_row t org repo b st) = filter (\<lambda>x. row_key x \<noteq> (t, org, repo, b)) (rs_rows st)"
  by (simp add: delete_row_def)

lemma find_filter_other:
  "(\<And>x. P x \<Longrightarrow> Q x) \<Longrightarrow> find P (filter Q xs) = find P xs"
  by (induction xs) auto

lemma delete_row_lookup:
  assumes st: "store_named st" and p: "parse_session s = Some (org, repo, b)"
  shows "get_row_by_session t' s' (delete_row t org repo b st) =
    (if (t', s') = (t, s) then None else get_row_by_session t' s' st)"
proof -
  have key: "row_key x = (t, org, repo, b) \<longleftrightarrow> session_key_of x = (t, s)" if "x \<in> set (rs_rows st)" for x
  proof -
    have "parse_session (mr_session x) = Some (mr_org x, mr_repo x, mr_branch x)"
      using st that by (simp add: store_named_def row_named_def)
    then show ?thesis
      using p parse_session_inj[of "mr_session x" "(org, repo, b)" s] by (auto simp: session_key_of_def row_key_def)
  qed
  have f: "rs_rows (delete_row t org repo b st) = filter (\<lambda>x. session_key_of x \<noteq> (t, s)) (rs_rows st)"
    unfolding delete_row_filter using key by (intro filter_cong) auto
  show ?thesis
  proof (cases "(t', s') = (t, s)")
    case True
    then show ?thesis by (auto simp: get_row_by_session_None f)
  next
    case False
    then show ?thesis by (simp only: get_row_by_session_def f if_False) (rule find_filter_other, simp)
  qed
qed

section \<open>Renaming\<close>

lemma renamed_cases:
  assumes "parse_session from_sid = Some (org, repo, fb)" "parse_session to_sid = Some (org, repo, tb)"
  obtains (fresh) "get_row tenant org repo fb (w_store w) = None"
      "ensure_renamed ev tenant from_sid to_sid w = ensure_created ev tenant org repo tb to_sid w"
    | (failed) row err e where "get_row tenant org repo fb (w_store w) = Some row"
      "ensure_renamed ev tenant from_sid to_sid w = (Some err, w\<lparr> w_env := e \<rparr>)"
    | (taken) row e err where "get_row tenant org repo fb (w_store w) = Some row"
      "rename_row tenant org repo fb tb to_sid (w_store w) = Inl err" "status_of err = 409"
      "ensure_renamed ev tenant from_sid to_sid w = (None, w\<lparr> w_env := e \<rparr>)"
    | (moved) row st r e where "get_row tenant org repo fb (w_store w) = Some row"
      "rename_row tenant org repo fb tb to_sid (w_store w) = Inr st"
      "ensure_renamed ev tenant from_sid to_sid w =
        (r, w\<lparr> w_env := e, w_store := st, w_cache := cache_evict from_sid (w_cache w) \<rparr>)"
proof (cases "get_row tenant org repo fb (w_store w)")
  case None
  then show ?thesis using assms by (intro fresh) (simp_all add: ensure_renamed_def)
next
  case row: (Some row)
  obtain r1 e1 where 1: "ensure_branch ev tenant org repo fb tb (w_env w) = (r1, e1)" by fastforce
  show ?thesis
  proof (cases r1)
    case (Some err)
    then show ?thesis using assms row 1 by (intro failed[of row err e1]) (simp_all add: ensure_renamed_def)
  next
    case r1: None
    show ?thesis
    proof (cases "rename_row tenant org repo fb tb to_sid (w_store w)")
      case (Inl err)
      show ?thesis
      proof (cases "status_of err = 409")
        case True
        then show ?thesis
          using assms row 1 r1 Inl by (intro taken[of row err e1]) (simp_all add: ensure_renamed_def)
      next
        case False
        then show ?thesis
          using assms row 1 r1 Inl
          by (intro failed[of row "err_downstream ''postgres'' ''mapping row not found''" e1])
            (simp_all add: ensure_renamed_def)
      qed
    next
      case (Inr st)
      obtain r e2 where "delete_branch ev tenant org repo fb e1 = (r, e2)" by fastforce
      then show ?thesis
        using assms row 1 r1 Inr by (intro moved[of row st r e2]) (simp_all add: ensure_renamed_def)
    qed
  qed
qed

lemma renamed_refused:
  assumes "\<nexists>org repo fb tb. parse_session from_sid = Some (org, repo, fb) \<and> parse_session to_sid = Some (org, repo, tb)"
  shows "\<exists>err. ensure_renamed ev tenant from_sid to_sid w = (Some err, w)"
  using assms by (auto simp: ensure_renamed_def split: option.splits)

lemma renamed_named:
  assumes "store_named (w_store w)"
  shows "store_named (w_store (snd (ensure_renamed ev tenant from_sid to_sid w)))"
proof (cases "\<exists>org repo fb tb. parse_session from_sid = Some (org, repo, fb) \<and> parse_session to_sid = Some (org, repo, tb)")
  case False
  then show ?thesis using renamed_refused[OF False, of ev tenant w] assms by auto
next
  case True
  then obtain org repo fb tb where p: "parse_session from_sid = Some (org, repo, fb)"
    "parse_session to_sid = Some (org, repo, tb)" by blast
  from p show ?thesis
  proof (cases rule: renamed_cases[where tenant = tenant and w = w and ev = ev])
    case (moved row st r e)
    then show ?thesis using rename_row_named[OF assms p(2)] by simp
  qed (use assms p in \<open>simp_all add: created_named\<close>)
qed

section \<open>The steps meet the contract\<close>

definition world_named :: "'e world \<Rightarrow> bool" where
  "world_named w \<longleftrightarrow> store_named (w_store w)"

lemma mirror_created:
  "mirror_event ev ''created'' le tenant w =
    (case parse_session (le_session le) of
       None \<Rightarrow> (Some (err_bad (''session '' @ go_quote (le_session le) @
                  '' does not match org:repo:branch naming '' @ em_dash @ '' ignoring'')), w)
     | Some (org, repo, bm) \<Rightarrow> ensure_created ev tenant org repo bm (le_session le) w)"
  by (simp add: mirror_event_def Let_def del: append.simps)

lemma mirror_forked:
  "mirror_event ev ''forked'' le tenant w =
    (case parse_session (le_session le) of
       None \<Rightarrow> (Some (err_bad (''session '' @ go_quote (le_session le) @
                  '' does not match org:repo:branch naming '' @ em_dash @ '' ignoring'')), w)
     | Some (org, repo, bm) \<Rightarrow> ensure_forked ev tenant org repo bm (le_session le) (strp (le_parent le)) w)"
  by (simp add: mirror_event_def Let_def del: append.simps)

lemma mirror_renamed:
  "mirror_event ev ''renamed'' le tenant w = ensure_renamed ev tenant (strp (le_from le)) (strp (le_to le)) w"
  by (simp add: mirror_event_def Let_def del: append.simps)

lemma mirror_deleted: "mirror_event ev ''deleted'' le tenant w = ensure_deleted ev tenant (le_session le) w"
  by (simp add: mirror_event_def Let_def del: append.simps)

lemma mirror_other:
  "kind \<notin> {''created'', ''forked'', ''renamed'', ''deleted''} \<Longrightarrow>
    \<exists>err. mirror_event ev kind le tenant w = (Some err, w)"
  by (simp add: mirror_event_def Let_def)

lemmas mirror_kinds = mirror_created mirror_forked mirror_renamed mirror_deleted

lemma mirror_named:
  assumes "store_named (w_store w)"
  shows "store_named (w_store (snd (mirror_event ev kind le tenant w)))"
proof -
  consider "kind = ''created''" | "kind = ''forked''" | "kind = ''renamed''" | "kind = ''deleted''"
    | "kind \<notin> {''created'', ''forked'', ''renamed'', ''deleted''}" by blast
  then show ?thesis
  proof cases
    case 5
    then show ?thesis using mirror_other[OF 5, of ev le tenant w] assms by auto
  qed (use assms in \<open>auto simp: mirror_kinds created_named forked_named renamed_named deleted_named split: option.splits\<close>)
qed

lemma bound_parses:
  assumes "store_named st" "get_row_by_session t s st \<noteq> None"
  obtains org repo bm where "parse_session s = Some (org, repo, bm)"
  using assms(2) named_by_session(4)[OF assms(1)] by auto

text \<open>The mirroring of an event by itself, before the variables are told.\<close>

lemma mirror_bound:
  assumes "kind \<in> {''created'', ''forked''}" "store_named (w_store w)"
    "get_row_by_session tenant (le_session le) (w_store w) \<noteq> None"
  shows "mirror_event ev kind le tenant w = (None, w)"
  using assms(3) by (rule bound_parses[OF assms(2)])
    (use assms in \<open>auto simp: mirror_created mirror_forked ensure_created_def ensure_forked_def\<close>)

lemma mirror_binds:
  assumes "kind \<in> {''created'', ''forked''}" "store_named (w_store w)" "fst (mirror_event ev kind le tenant w) = None"
  shows "get_row_by_session tenant (le_session le) (w_store (snd (mirror_event ev kind le tenant w))) \<noteq> None"
  using assms created_binds[OF assms(2)] forked_binds[OF assms(2)]
  by (auto simp: mirror_created mirror_forked split: option.splits)

interpretation deleted: at_least_once "world_named" "mirror_event ev ''deleted'' le tenant"
  "\<lambda>w. parse_session (le_session le) \<noteq> None \<and> get_row_by_session tenant (le_session le) (w_store w) = None"
  "\<lambda>w. w"
  for ev le tenant
proof unfold_locales
  fix w :: "'a world"
  assume w: "world_named w"
  then have n: "store_named (w_store w)" by (simp add: world_named_def)
  show "world_named (snd (mirror_event ev ''deleted'' le tenant w))"
    using mirror_named[OF n] by (simp add: world_named_def)
  show "fst (mirror_event ev ''deleted'' le tenant w) = None \<and> snd (mirror_event ev ''deleted'' le tenant w) = w"
    if "parse_session (le_session le) \<noteq> None \<and> get_row_by_session tenant (le_session le) (w_store w) = None"
    using that by (auto simp: mirror_deleted ensure_deleted_def)
  show "parse_session (le_session le) \<noteq> None \<and>
      get_row_by_session tenant (le_session le) (w_store (snd (mirror_event ev ''deleted'' le tenant w))) = None"
    if ok: "fst (mirror_event ev ''deleted'' le tenant w) = None"
  proof (cases "parse_session (le_session le)")
    case None
    then show ?thesis using ok by (simp add: mirror_deleted ensure_deleted_def)
  next
    case (Some t)
    obtain org repo bm where "t = (org, repo, bm)" by (cases t)
    with Some have p: "parse_session (le_session le) = Some (org, repo, bm)" by simp
    from p show ?thesis
      by (cases rule: deleted_cases[where tenant = tenant and w = w and ev = ev])
        (use ok p in \<open>simp_all add: mirror_deleted delete_row_lookup[OF n p]\<close>)
  qed
qed simp

section \<open>Reachable worlds\<close>

inductive life_step :: "'e env \<Rightarrow> 'e world \<Rightarrow> 'e world \<Rightarrow> bool" for ev where
  ls_event: "life_step ev w (snd (handle_event ev kind le tenant w))"
| ls_reconcile: "life_step ev w (snd (reconcile_once ev w))"
| ls_adopt: "CHR '':'' \<notin> set org \<Longrightarrow> CHR '':'' \<notin> set repo \<Longrightarrow> CHR '':'' \<notin> set branch \<Longrightarrow>
    life_step ev w (snd (adopt_branch ev tn tenant org repo branch w))"
| ls_resolve: "life_step ev w (snd (resolve_in ev tenant sid w))"
| ls_outside: "life_step ev w (w\<lparr> w_env := e \<rparr>)"

inductive life_reach :: "'e env \<Rightarrow> 'e world \<Rightarrow> bool" for ev where
  lr_start: "life_reach ev \<lparr> w_store = empty_store, w_cache = (\<lambda>_. None), w_env = e \<rparr>"
| lr_step: "life_reach ev w \<Longrightarrow> life_step ev w w' \<Longrightarrow> life_reach ev w'"

definition cache_named :: "sess_cache \<Rightarrow> bool" where
  "cache_named c \<longleftrightarrow> (\<forall>k x. c k = Some x \<longrightarrow>
    (\<exists>t s. k = t @ [CHR 0x00] @ s \<and> parse_session s = Some (se_org x, se_repo x, se_branch x)))"

definition world_inv :: "'e world \<Rightarrow> bool" where
  "world_inv w \<longleftrightarrow> store_named (w_store w) \<and> cache_named (w_cache w)"

lemma evict_named: "cache_named c \<Longrightarrow> cache_named (cache_evict k c)"
  by (simp add: cache_named_def cache_evict_def)

lemma resolve_inv:
  assumes "world_inv w"
  shows "world_inv (snd (resolve_in ev tenant sid w))"
proof -
  let ?tn = "if tenant = '''' then ''default'' else tenant"
  have "cache_named (snd (resolve_session now ttl tenant sid (w_store w, w_cache w)))" for now ttl
  proof (cases "cache_get now (?tn @ [CHR 0x00] @ sid) (w_cache w)")
    case (Some t)
    then show ?thesis using assms by (simp add: resolve_session_def Let_def world_inv_def del: append.simps)
  next
    case None
    show ?thesis
    proof (cases "get_row_by_session ?tn sid (w_store w)")
      case n: None
      then show ?thesis
        using None assms by (simp add: resolve_session_def Let_def world_inv_def del: append.simps)
    next
      case (Some row)
      have p: "parse_session sid = Some (mr_org row, mr_repo row, mr_branch row)"
        using named_by_session(4)[OF _ Some] assms by (simp add: world_inv_def)
      have c: "cache_named (w_cache w)" using assms by (simp add: world_inv_def)
      have "cache_named (cache_put now ttl (?tn @ [CHR 0x00] @ sid) (mr_org row) (mr_repo row) (mr_branch row) (w_cache w))"
        using c p unfolding cache_named_def cache_put_def
        by (auto simp del: append.simps)
      then show ?thesis
        using None Some by (simp add: resolve_session_def Let_def del: append.simps)
    qed
  qed
  then show ?thesis
    using assms by (simp add: world_inv_def resolve_in_def split: prod.split)
      (metis snd_conv)
qed

lemma env_inv [simp]: "world_inv (w\<lparr> w_env := e \<rparr>) = world_inv w"
  by (simp add: world_inv_def)

lemma publish_inv: "world_inv w \<Longrightarrow> world_inv (publish_session_vars ev tenant sid w)"
  using resolve_inv[of w ev tenant sid]
  by (auto simp: publish_session_vars_def split: prod.splits sum.splits)

lemma clear_inv: "world_inv w \<Longrightarrow> world_inv (clear_session_vars ev tenant sid w)"
  by (simp add: clear_session_vars_def)

lemma deleted_cache:
  "w_cache (snd (ensure_deleted ev tenant sid w)) \<in> {w_cache w, cache_evict sid (w_cache w)}"
  by (simp add: ensure_deleted_def split: option.split prod.split)

lemma renamed_cache:
  "w_cache (snd (ensure_renamed ev tenant fs ts w)) \<in> {w_cache w, cache_evict fs (w_cache w)}"
proof (cases "\<exists>org repo fb tb. parse_session fs = Some (org, repo, fb) \<and> parse_session ts = Some (org, repo, tb)")
  case False
  then show ?thesis using renamed_refused[OF False, of ev tenant w] by auto
next
  case True
  then obtain org repo fb tb where p: "parse_session fs = Some (org, repo, fb)"
    "parse_session ts = Some (org, repo, tb)" by blast
  from p show ?thesis
    by (cases rule: renamed_cases[where tenant = tenant and w = w and ev = ev]) simp_all
qed

lemma mirror_cache:
  "\<exists>k. w_cache (snd (mirror_event ev kind le tenant w)) \<in> {w_cache w, cache_evict k (w_cache w)}"
proof -
  consider "kind = ''created''" | "kind = ''forked''" | "kind = ''renamed''" | "kind = ''deleted''"
    | "kind \<notin> {''created'', ''forked'', ''renamed'', ''deleted''}" by blast
  then show ?thesis
  proof cases
    case 3
    then show ?thesis
      using renamed_cache[of ev tenant "strp (le_from le)" "strp (le_to le)" w] unfolding 3 mirror_renamed
      by blast
  next
    case 4
    then show ?thesis
      using deleted_cache[of ev tenant "le_session le" w] unfolding 4 mirror_deleted by blast
  next
    case 5
    then show ?thesis using mirror_other[OF 5, of ev le tenant w] by auto
  qed (auto simp: mirror_kinds split: option.splits)
qed

lemma event_inv:
  assumes "world_inv w"
  shows "world_inv (snd (handle_event ev kind le tenant w))"
proof -
  obtain k where "w_cache (snd (mirror_event ev kind le tenant w)) \<in> {w_cache w, cache_evict k (w_cache w)}"
    using mirror_cache by blast
  then have "world_inv (snd (mirror_event ev kind le tenant w))"
    using assms mirror_named[of w ev kind le tenant] evict_named by (auto simp: world_inv_def)
  then show ?thesis
    by (auto simp: handle_event_def Let_def publish_inv clear_inv split: prod.splits option.splits)
qed

section \<open>The reconciler's drift rule\<close>

definition keep_row :: "string list \<Rightarrow> string list \<Rightarrow> map_row \<Rightarrow> bool" where
  "keep_row bms sessions r \<longleftrightarrow> mr_branch r \<in> set bms \<and> mr_session r \<in> set sessions"

definition repo_of :: "map_row \<Rightarrow> string \<times> string \<times> string" where
  "repo_of r = (mr_tenant r, mr_org r, mr_repo r)"

lemma unmap_row_store:
  "w_store (unmap_row row w) =
    (w_store w)\<lparr> rs_rows := filter (\<lambda>x. row_key x \<noteq> row_key row) (rs_rows (w_store w)) \<rparr>"
  by (simp add: unmap_row_def delete_row_def row_key_def)

lemma converge_rows_step:
  "converge_rows bms ss (row # rows) w =
    converge_rows bms ss rows (if keep_row bms ss row then w else unmap_row row w)"
  by (simp add: keep_row_def)

lemma converge_rows_store:
  "w_store (converge_rows bms ss rows w) = (w_store w)\<lparr> rs_rows :=
    filter (\<lambda>x. \<forall>r\<in>set rows. row_key r = row_key x \<longrightarrow> keep_row bms ss r) (rs_rows (w_store w)) \<rparr>"
proof (induction rows arbitrary: w)
  case (Cons row rows)
  show ?case
    unfolding converge_rows_step Cons.IH
    by (cases "keep_row bms ss row") (auto simp: unmap_row_store eq_commute[of "row_key row"])
qed simp

lemma converge_rows_env [simp]: "w_env (converge_rows bms ss rows w) = w_env w"
  by (induction rows arbitrary: w) (auto simp: unmap_row_def)

lemma converge_rows_cache: "cache_named (w_cache w) \<Longrightarrow> cache_named (w_cache (converge_rows bms ss rows w))"
  by (induction rows arbitrary: w) (auto simp: unmap_row_def evict_named)

lemma set_list_rows_for_repo:
  "set (list_rows_for_repo t org repo st) = {x \<in> set (rs_rows st). repo_of x = (t, org, repo)}"
  by (auto simp: list_rows_for_repo_def repo_of_def)

lemma converge_repo_store:
  assumes "distinct (map row_key (rs_rows (w_store w)))"
  shows "w_store (converge_rows bms ss (list_rows_for_repo t org repo (w_store w)) w) =
    (w_store w)\<lparr> rs_rows :=
      filter (\<lambda>x. repo_of x = (t, org, repo) \<longrightarrow> keep_row bms ss x) (rs_rows (w_store w)) \<rparr>"
proof -
  have "(\<forall>r\<in>set (list_rows_for_repo t org repo (w_store w)). row_key r = row_key x \<longrightarrow> keep_row bms ss r)
      = (repo_of x = (t, org, repo) \<longrightarrow> keep_row bms ss x)"
    if x: "x \<in> set (rs_rows (w_store w))" for x
  proof -
    have "r = x" if "r \<in> set (rs_rows (w_store w))" "row_key r = row_key x" for r
      using assms x that by (auto simp: distinct_map inj_on_def)
    moreover have "repo_of r = repo_of x" if "row_key r = row_key x" for r
      using that by (simp add: row_key_def repo_of_def)
    ultimately show ?thesis using x unfolding set_list_rows_for_repo by blast
  qed
  then show ?thesis
    unfolding converge_rows_store by (intro arg_cong[where f = "\<lambda>l. (w_store w)\<lparr> rs_rows := l \<rparr>"] filter_cong refl)
qed

definition tree_names :: "repo_tree \<Rightarrow> string \<Rightarrow> string \<Rightarrow> string list" where
  "tree_names tree org repo = map br_name (tree_branches tree org repo)"

lemma tree_names_iff: "b \<in> set (tree_names tree org repo) \<longleftrightarrow> branch_exists tree org repo b"
  by (auto simp: tree_names_def branch_exists_def list_ex_iff)

lemma converge_repos_store:
  assumes "distinct (map row_key (rs_rows (w_store w)))"
  shows "w_store (converge_repos tree ss ms w) = (w_store w)\<lparr> rs_rows :=
    filter (\<lambda>x. repo_of x \<in> set ms \<longrightarrow> keep_row (tree_names tree (mr_org x) (mr_repo x)) ss x)
      (rs_rows (w_store w)) \<rparr>"
  using assms
proof (induction ms arbitrary: w)
  case (Cons m ms)
  obtain t org repo where m: "m = (t, org, repo)" by (cases m)
  let ?w = "converge_rows (map br_name (tree_branches tree org repo)) ss
      (list_rows_for_repo t org repo (w_store w)) w"
  note s = converge_repo_store[OF Cons.prems, of "map br_name (tree_branches tree org repo)" ss t org repo]
  have d: "distinct (map row_key (rs_rows (w_store ?w)))"
    unfolding s using Cons.prems by (simp add: distinct_map_filter)
  have "w_store (converge_repos tree ss (m # ms) w) = w_store (converge_repos tree ss ms ?w)"
    by (simp add: m)
  also have "\<dots> = (w_store w)\<lparr> rs_rows :=
    filter (\<lambda>x. repo_of x \<in> set ms \<longrightarrow> keep_row (tree_names tree (mr_org x) (mr_repo x)) ss x)
      (filter (\<lambda>x. repo_of x = (t, org, repo) \<longrightarrow> keep_row (tree_names tree org repo) ss x) (rs_rows (w_store w))) \<rparr>"
    unfolding Cons.IH[OF d] s by (simp add: tree_names_def)
  also have "\<dots> = (w_store w)\<lparr> rs_rows :=
    filter (\<lambda>x. repo_of x \<in> set (m # ms) \<longrightarrow> keep_row (tree_names tree (mr_org x) (mr_repo x)) ss x)
      (rs_rows (w_store w)) \<rparr>"
    unfolding filter_filter m
    by (intro arg_cong[where f = "\<lambda>l. (w_store w)\<lparr> rs_rows := l \<rparr>"] filter_cong refl)
      (auto simp: repo_of_def)
  finally show ?case .
qed simp

lemma converge_repos_env [simp]: "w_env (converge_repos tree ss ms w) = w_env w"
  by (induction tree ss ms w rule: converge_repos.induct) auto

lemma converge_repos_cache: "cache_named (w_cache w) \<Longrightarrow> cache_named (w_cache (converge_repos tree ss ms w))"
  by (induction tree ss ms w rule: converge_repos.induct) (auto simp: converge_rows_cache)

lemma converge_repos_inv: "world_inv w \<Longrightarrow> world_inv (converge_repos tree ss ms w)"
  by (auto simp: world_inv_def store_named_def store_ok_def converge_repos_store converge_repos_cache
      distinct_map_filter)

lemma converge_drift_inv: "world_inv w \<Longrightarrow> world_inv (snd (converge_drift ev ss w))"
  by (auto simp: converge_drift_def converge_repos_inv split: prod.split sum.split)

lemma set_list_managed [simp]: "set (list_managed st) = set (rs_managed st)"
  by (simp add: list_managed_def)

section \<open>Backfilling\<close>

lemma backfill_groups_inv: "world_inv w \<Longrightarrow> world_inv (backfill_groups ev w)"
  by (simp add: backfill_groups_def)

lemma created_inv:
  "world_inv w \<Longrightarrow> parse_session sid = Some (org, repo, bm) \<Longrightarrow>
    world_inv (snd (ensure_created ev tenant org repo bm sid w))"
  by (simp add: world_inv_def created_named)

lemma backfill_step:
  "backfill_loop ev mapped (name # names) w =
    (if name \<in> set mapped \<or> parse_session name = None then backfill_loop ev mapped names w
     else case parse_session name of Some (org, repo, bm) \<Rightarrow>
       let r = ensure_created ev ''default'' org repo bm name w in
       case fst r of
         None \<Rightarrow> backfill_loop ev mapped names (snd r)
       | Some err \<Rightarrow> if is_permanent err then backfill_loop ev mapped names (snd r) else r)"
  by (auto simp: Let_def split: option.splits prod.splits)

lemma backfill_inv:
  "world_inv w \<Longrightarrow> world_inv (snd (backfill_loop ev mapped names w))"
proof (induction names arbitrary: w)
  case (Cons name names)
  show ?case
  proof (cases "name \<in> set mapped \<or> parse_session name = None")
    case True
    then show ?thesis using Cons by (auto split: option.splits)
  next
    case False
    then obtain org repo bm where p: "parse_session name = Some (org, repo, bm)" by auto
    have i: "world_inv (snd (ensure_created ev ''default'' org repo bm name w))"
      by (rule created_inv[OF Cons.prems p])
    show ?thesis
      unfolding backfill_step using False p i Cons.IH[OF i] by (simp add: Let_def split: option.split)
  qed
qed simp

lemma backfill_keeps:
  "get_row_by_session t s (w_store w) = Some x \<Longrightarrow>
    get_row_by_session t s (w_store (snd (backfill_loop ev mapped names w))) = Some x"
proof (induction names arbitrary: w)
  case (Cons name names)
  show ?case
  proof (cases "name \<in> set mapped \<or> parse_session name = None")
    case True
    then show ?thesis using Cons by (auto split: option.splits)
  next
    case False
    then obtain org repo bm where p: "parse_session name = Some (org, repo, bm)" by auto
    have i: "get_row_by_session t s (w_store (snd (ensure_created ev ''default'' org repo bm name w))) = Some x"
      by (rule created_keeps[OF Cons.prems])
    show ?thesis
      unfolding backfill_step using False p i Cons.IH[OF i] by (simp add: Let_def split: option.split)
  qed
qed simp

lemma reconcile_inv:
  assumes "world_inv w"
  shows "world_inv (snd (reconcile_once ev w))"
proof -
  have "world_inv (snd (backfill_workspaces ev ss (backfill_groups ev (snd (converge_drift ev ss (w\<lparr> w_env := e \<rparr>))))))"
    for ss e
    using assms by (simp add: backfill_workspaces_def backfill_inv backfill_groups_inv converge_drift_inv)
  moreover have "world_inv (snd (converge_drift ev ss (w\<lparr> w_env := e \<rparr>)))" for ss e
    using assms by (simp add: converge_drift_inv)
  ultimately show ?thesis
    using assms by (auto simp: reconcile_once_def split: prod.split sum.split option.split) (metis snd_conv)+
qed

lemma adopt_inv:
  assumes "world_inv w" "CHR '':'' \<notin> set org" "CHR '':'' \<notin> set repo" "CHR '':'' \<notin> set branch"
  shows "world_inv (snd (adopt_branch ev tn tenant org repo branch w))"
proof -
  have p: "parse_session (naming_session org repo branch) = Some (org, repo, branch)"
    using assms(2-4) by (simp add: parse_session_iff)
  have "world_inv (w\<lparr> w_env := e, w_store := st \<rparr>)"
    if "insert_row tenant org repo branch (naming_session org repo branch) (w_store w) = Inr st" for e st
    using assms(1) insert_row_named[OF _ p that] by (simp add: world_inv_def)
  then show ?thesis
    using assms(1) by (auto simp: adopt_branch_def split: option.split prod.split sum.split)
qed

lemma life_reach_inv: "life_reach ev w \<Longrightarrow> world_inv w"
proof (induction rule: life_reach.induct)
  case (lr_start e)
  show ?case by (simp add: world_inv_def store_named_def store_ok_def empty_store_def cache_named_def)
next
  case (lr_step w w')
  from lr_step.hyps(2) lr_step.IH show ?case
    by cases (simp_all add: event_inv reconcile_inv adopt_inv resolve_inv)
qed

lemma one_nul:
  assumes "t @ CHR 0x00 # s = t' @ CHR 0x00 # s'" "CHR 0x00 \<notin> set t'" "CHR 0x00 \<notin> set s'"
  shows "t = t' \<and> s = s'"
  using assms
proof (induction t' arbitrary: t)
  case Nil
  then show ?case by (cases t) auto
next
  case (Cons a t')
  then show ?case by (cases t) auto
qed

text \<open>
  In a world that satisfies the invariant a resolved workspace is spelled by a session name, and that name
  stands under the same key of the cache.
\<close>

lemma resolved_named:
  assumes "world_inv w" "fst (resolve_in ev tenant sid w) = Inr (org, repo, b)"
  shows "\<exists>t s. (if tenant = '''' then ''default'' else tenant) @ [CHR 0x00] @ sid = t @ [CHR 0x00] @ s
    \<and> parse_session s = Some (org, repo, b)"
proof -
  have i: "store_named (w_store w)" "cache_named (w_cache w)" using assms(1) by (simp_all add: world_inv_def)
  let ?tn = "if tenant = '''' then ''default'' else tenant"
  let ?now = "ev_now ev (w_env w)"
  have r: "fst (resolve_session ?now sess_ttl tenant sid (w_store w, w_cache w)) = Inr (org, repo, b)"
    using assms(2) by (simp add: resolve_in_def split: prod.splits)
  show ?thesis
  proof (cases "cache_get ?now (?tn @ [CHR 0x00] @ sid) (w_cache w)")
    case (Some t)
    then have t: "t = (org, repo, b)"
      using r by (simp add: resolve_session_def Let_def del: append.simps)
    then obtain x where "w_cache w (?tn @ [CHR 0x00] @ sid) = Some x" "se_org x = org" "se_repo x = repo" "se_branch x = b"
      using Some by (auto simp: cache_get_def simp del: append.simps split: option.splits if_splits)
    then show ?thesis using i(2) unfolding cache_named_def by blast
  next
    case None
    then obtain row where row: "get_row_by_session ?tn sid (w_store w) = Some row"
        "(mr_org row, mr_repo row, mr_branch row) = (org, repo, b)"
      using r by (auto simp: resolve_session_def Let_def simp del: append.simps split: option.splits if_splits)
    then have "parse_session sid = Some (org, repo, b)" using named_by_session(4)[OF i(1) row(1)] by simp
    then show ?thesis by blast
  qed
qed

lemma resolved_own_name:
  assumes "world_inv w" "fst (resolve_in ev tenant sid w) = Inr (org, repo, b)"
    and "CHR 0x00 \<notin> set tenant" "CHR 0x00 \<notin> set sid"
  shows "parse_session sid = Some (org, repo, b)"
proof -
  let ?tn = "if tenant = '''' then ''default'' else tenant"
  obtain t s where ts: "?tn @ [CHR 0x00] @ sid = t @ [CHR 0x00] @ s" "parse_session s = Some (org, repo, b)"
    using resolved_named[OF assms(1,2)] by blast
  moreover have "CHR 0x00 \<notin> set ?tn" using assms(3) by simp
  ultimately have "s = sid" using one_nul[of t s ?tn sid] assms(4) by simp
  then show ?thesis using ts by simp
qed

lemma inv_rows:
  "world_inv w \<Longrightarrow> store_ok (w_store w)
    \<and> (\<forall>x\<in>set (rs_rows (w_store w)). parse_session (mr_session x) = Some (mr_org x, mr_repo x, mr_branch x))"
  by (auto simp: world_inv_def store_named_def row_named_def)

text \<open>
  Whatever the lab, the agent, the clock and the order of events do, a session that resolves
  resolves to the workspace its own name spells, from the row and from the cache alike; and
  within a tenant the rows of the mapping stay one to one.
\<close>

lemma resolves_to_own_name:
  assumes "life_reach ev w"
    and "fst (resolve_in ev tenant sid w) = Inr (org, repo, b)"
    and "CHR 0x00 \<notin> set tenant" "CHR 0x00 \<notin> set sid"
  shows "parse_session sid = Some (org, repo, b) \<and> store_ok (w_store w)
    \<and> (\<forall>x\<in>set (rs_rows (w_store w)). parse_session (mr_session x) = Some (mr_org x, mr_repo x, mr_branch x))"
  using life_reach_inv[OF assms(1)] resolved_own_name[OF _ assms(2-4)] inv_rows by blast

text \<open>Telling the variables of a session.\<close>

lemma publish_store [simp]: "w_store (publish_session_vars ev tenant sid w) = w_store w"
  by (auto simp: publish_session_vars_def resolve_in_def split: prod.splits sum.splits)

lemma resolve_cache:
  "k \<noteq> (if tenant = '''' then ''default'' else tenant) @ [CHR 0x00] @ sid \<Longrightarrow>
    w_cache (snd (resolve_in ev tenant sid w)) k = w_cache w k"
  by (auto simp: resolve_in_def resolve_session_def Let_def cache_put_def simp del: append.simps
      split: prod.splits option.splits if_splits)

lemma resolve_env [simp]: "w_env (snd (resolve_in ev tenant sid w)) = w_env w"
  by (simp add: resolve_in_def split: prod.split)

lemma publish_bound:
  assumes i: "world_inv w" and tenant: "tenant \<noteq> ''''" "CHR 0x00 \<notin> set tenant" "CHR 0x00 \<notin> set sid"
    and row: "get_row_by_session tenant sid (w_store w) = Some row"
  shows "w_env (publish_session_vars ev tenant sid w) =
      (if ev_has_vars ev
       then ev_set_var ev tenant sid ''branch'' (mr_branch row)
              (ev_set_var ev tenant sid ''repo'' (mr_repo row) (ev_set_var ev tenant sid ''org'' (mr_org row) (w_env w)))
       else w_env w)"
    "k \<noteq> tenant @ [CHR 0x00] @ sid \<Longrightarrow> w_cache (publish_session_vars ev tenant sid w) k = w_cache w k"
proof -
  have p: "parse_session sid = Some (mr_org row, mr_repo row, mr_branch row)"
    using named_by_session(4)[OF _ row] i by (simp add: world_inv_def)
  have "fst (resolve_in ev tenant sid w) \<noteq> Inl err" for err
    using row tenant(1)
    by (auto simp: resolve_in_def resolve_session_def Let_def simp del: append.simps split: prod.splits option.splits)
  then obtain t where t: "fst (resolve_in ev tenant sid w) = Inr t" by (cases "fst (resolve_in ev tenant sid w)") auto
  then have "t = (mr_org row, mr_repo row, mr_branch row)"
    using resolved_own_name[OF i _ tenant(2,3), of ev] p by (cases t) auto
  with t obtain w' where r: "resolve_in ev tenant sid w = (Inr (mr_org row, mr_repo row, mr_branch row), w')"
    by (cases "resolve_in ev tenant sid w") auto
  have w': "w_env w' = w_env w" using resolve_env[of ev tenant sid w] r by simp
  show "w_env (publish_session_vars ev tenant sid w) =
      (if ev_has_vars ev
       then ev_set_var ev tenant sid ''branch'' (mr_branch row)
              (ev_set_var ev tenant sid ''repo'' (mr_repo row) (ev_set_var ev tenant sid ''org'' (mr_org row) (w_env w)))
       else w_env w)"
    by (simp add: publish_session_vars_def r w')
  show "w_cache (publish_session_vars ev tenant sid w) k = w_cache w k" if "k \<noteq> tenant @ [CHR 0x00] @ sid"
    using resolve_cache[of k tenant sid ev w] that tenant(1) r
    by (simp add: publish_session_vars_def del: append.simps)
qed

text \<open>The whole handler: a successful delivery has bound the session, and a bound session stays bound.\<close>

definition told_session :: "string \<Rightarrow> lifecycle_event \<Rightarrow> string" where
  "told_session kind le = (if kind = ''forked'' \<and> strp (le_to le) \<noteq> '''' then strp (le_to le) else le_session le)"

lemma handle_creation:
  assumes "kind \<in> {''created'', ''forked''}"
  shows "handle_event ev kind le tenant w =
    (case mirror_event ev kind le tenant w of
       (Some err, w1) \<Rightarrow> (Some err, w1)
     | (None, w1) \<Rightarrow> (None, publish_session_vars ev tenant (told_session kind le) w1))"
  using assms by (auto simp: handle_event_def told_session_def Let_def split: prod.split option.split)

lemma handle_bound:
  assumes "kind \<in> {''created'', ''forked''}" "world_inv w"
    "get_row_by_session tenant (le_session le) (w_store w) \<noteq> None"
  shows "handle_event ev kind le tenant w = (None, publish_session_vars ev tenant (told_session kind le) w)"
  using mirror_bound[OF assms(1) _ assms(3), of ev] assms(2) by (simp add: handle_creation[OF assms(1)] world_inv_def)

lemma handle_binds:
  assumes "kind \<in> {''created'', ''forked''}" "world_inv w" "fst (handle_event ev kind le tenant w) = None"
  shows "get_row_by_session tenant (le_session le) (w_store (snd (handle_event ev kind le tenant w))) \<noteq> None"
  using mirror_binds[OF assms(1), of w ev le tenant] assms
  by (auto simp: handle_creation world_inv_def split: prod.splits option.splits)

interpretation created: at_least_once "world_inv" "handle_event ev ''created'' le tenant"
  "\<lambda>w. get_row_by_session tenant (le_session le) (w_store w) \<noteq> None" w_store for ev le tenant
  by unfold_locales (simp add: event_inv, simp add: handle_bound, simp, rule handle_binds, auto)

interpretation forked: at_least_once "world_inv" "handle_event ev ''forked'' le tenant"
  "\<lambda>w. get_row_by_session tenant (le_session le) (w_store w) \<noteq> None" w_store for ev le tenant
  by unfold_locales (simp add: event_inv, simp add: handle_bound, simp, rule handle_binds, auto)

text \<open>
  C9: Once the handling of a creation or of a fork succeeds, the session is bound to the workspace
  its name spells, and stays so: every further delivery succeeds and leaves the mapping as it is.  All
  such a delivery does is to set the three variables of the session it tells to that workspace again and to
  refresh this session's entry of the cache.  Deliveries that failed before do not matter.
\<close>
theorem creation_converges:
  assumes w: "life_reach ev w" and kind: "kind \<in> {''created'', ''forked''}"
    and ok: "fst (handle_event ev kind le tenant (redeliver k (handle_event ev kind le tenant) w)) = None"
    and n: "k < n"
  shows "let step = handle_event ev kind le tenant; w' = redeliver n step w; w'' = snd (step w'); sid = le_session le in
    w_store w' = w_store (redeliver (Suc k) step w) \<and> fst (step w') = None \<and> w_store w'' = w_store w'
    \<and> (\<exists>row. get_row_by_session tenant sid (w_store w') = Some row
        \<and> parse_session sid = Some (mr_org row, mr_repo row, mr_branch row)
        \<and> (tenant \<noteq> '''' \<and> CHR 0x00 \<notin> set tenant \<and> CHR 0x00 \<notin> set sid
              \<and> (kind = ''created'' \<or> strp (le_to le) \<in> {'''', sid}) \<longrightarrow>
            w_env w'' = (if ev_has_vars ev
              then ev_set_var ev tenant sid ''branch'' (mr_branch row)
                    (ev_set_var ev tenant sid ''repo'' (mr_repo row)
                      (ev_set_var ev tenant sid ''org'' (mr_org row) (w_env w')))
              else w_env w')
            \<and> (\<forall>key. key \<noteq> tenant @ [CHR 0x00] @ sid \<longrightarrow> w_cache w'' key = w_cache w' key)))"
proof -
  let ?step = "handle_event ev kind le tenant" and ?sid = "le_session le"
  let ?w' = "redeliver n ?step w"
  have i: "world_inv w" by (rule life_reach_inv[OF w])
  have "w_store ?w' = w_store (redeliver (Suc k) ?step w) \<and> get_row_by_session tenant ?sid (w_store ?w') \<noteq> None"
    using kind created.converges[OF i _ n, where le = le and tenant = tenant and ev = ev] ok
      forked.converges[OF i _ n, where le = le and tenant = tenant and ev = ev] by blast
  then have s: "w_store ?w' = w_store (redeliver (Suc k) ?step w)"
    and b: "get_row_by_session tenant ?sid (w_store ?w') \<noteq> None" by blast+
  from b obtain row where row: "get_row_by_session tenant ?sid (w_store ?w') = Some row" by blast
  have i': "world_inv ?w'"
    using kind created.inv_redeliver[OF i] forked.inv_redeliver[OF i] by blast
  have p: "parse_session ?sid = Some (mr_org row, mr_repo row, mr_branch row)"
    using named_by_session(4)[OF _ row] i' by (simp add: world_inv_def)
  have h: "?step ?w' = (None, publish_session_vars ev tenant (told_session kind le) ?w')"
    by (rule handle_bound[OF kind i' b])
  have told: "told_session kind le = ?sid" if "kind = ''created'' \<or> strp (le_to le) \<in> {'''', ?sid}"
    using that kind by (auto simp: told_session_def)
  show ?thesis
    unfolding Let_def h fst_conv snd_conv using s row p told publish_bound[OF i' _ _ _ row, where ev = ev] by auto
qed

text \<open>
  Handling a deletion either fails and leaves the mapping as it is, or removes exactly the
  row of that session of that tenant; and a redelivery after a success does nothing.
\<close>
lemma deletion_spec:
  assumes w: "life_reach ev w"
  shows "case mirror_event ev ''deleted'' le tenant w of
      (Some err, w') \<Rightarrow> w_store w' = w_store w \<and> w_cache w' = w_cache w
    | (None, w') \<Rightarrow> (\<forall>t s. get_row_by_session t s (w_store w') =
          (if (t, s) = (tenant, le_session le) then None else get_row_by_session t s (w_store w)))
        \<and> mirror_event ev ''deleted'' le tenant w' = (None, w')"
proof -
  have n: "store_named (w_store w)" using life_reach_inv[OF w] by (simp add: world_inv_def)
  show ?thesis
  proof (cases "parse_session (le_session le)")
    case None
    then show ?thesis by (simp add: mirror_deleted ensure_deleted_def)
  next
    case (Some t)
    obtain org repo bm where "t = (org, repo, bm)" by (cases t)
    with Some have p: "parse_session (le_session le) = Some (org, repo, bm)" by simp
    from p show ?thesis
    proof (cases rule: deleted_cases[where tenant = tenant and w = w and ev = ev])
      case absent
      then show ?thesis by (simp add: mirror_deleted)
    next
      case (failed row err e)
      then show ?thesis by (simp add: mirror_deleted)
    next
      case (gone row e)
      then have "fst (mirror_event ev ''deleted'' le tenant w) = None" by (simp add: mirror_deleted)
      then have again: "mirror_event ev ''deleted'' le tenant (snd (mirror_event ev ''deleted'' le tenant w)) =
          (None, snd (mirror_event ev ''deleted'' le tenant w))"
        using deleted.again[of w ev le tenant] n by (simp add: world_named_def prod_eq_iff)
      show ?thesis
        using gone again delete_row_lookup[OF n p, of _ _ tenant] by (simp add: mirror_deleted)
    qed
  qed
qed

section \<open>Renaming\<close>

lemma bind_row_other:
  assumes "(t', s') \<noteq> (t, s)"
  shows "get_row_by_session t' s' (snd (bind_row t org repo b s st)) = get_row_by_session t' s' st"
proof (cases "insert_row t org repo b s st")
  case (Inr st')
  have "find P (xs @ [y]) = find P xs" if "\<not> P y" for P and xs :: "map_row list" and y
    using that by (induction xs) auto
  then show ?thesis
    using assms Inr insert_row_rows[OF Inr] by (auto simp: bind_row_def get_row_by_session_def)
qed (simp add: bind_row_def)

lemma created_other:
  "(t', s') \<noteq> (tenant, sid) \<Longrightarrow>
    get_row_by_session t' s' (w_store (snd (ensure_created ev tenant org repo bm sid w))) =
      get_row_by_session t' s' (w_store w)"
  by (cases rule: created_cases[of tenant sid w ev org repo bm]) (simp_all add: bind_row_other)

lemma rename_conflict:
  assumes n: "store_named st" and p: "parse_session ts = Some (org, repo, tb)"
    and g: "get_row t org repo fb st \<noteq> None" and r: "rename_row t org repo fb tb ts st = Inl err"
  shows "get_row_by_session t ts st \<noteq> None"
proof -
  have "list_ex (\<lambda>x. row_key x = (t, org, repo, fb)) (rs_rows st)"
    using g unfolding get_row_None by (auto simp: list_ex_iff)
  then have "\<exists>y\<in>set (rs_rows st). row_key y = (t, org, repo, tb) \<or> session_key_of y = (t, ts)"
    using r by (auto simp: rename_row_def Let_def list_ex_iff split: if_splits)
  then have "get_row t org repo tb st \<noteq> None \<or> get_row_by_session t ts st \<noteq> None"
    unfolding get_row_None get_row_by_session_None by force
  then show ?thesis using named_lookup[OF n p] by simp
qed

lemma rename_moved:
  assumes n: "store_named st" and pf: "parse_session fs = Some (org, repo, fb)"
    and pt: "parse_session ts = Some (org, repo, tb)" and ne: "fs \<noteq> ts"
    and g: "get_row t org repo fb st \<noteq> None" and r: "rename_row t org repo fb tb ts st = Inr st'"
  shows "get_row_by_session t ts st = None" "get_row_by_session t fs st' = None"
    "get_row_by_session t ts st' \<noteq> None"
proof -
  let ?k = "(t, org, repo, fb)"
  let ?g = "\<lambda>y. y\<lparr> mr_branch := tb, mr_session := ts \<rparr>"
  have n': "store_named st'" by (rule rename_row_named[OF n pt r])
  have rows: "rs_rows st' = map (\<lambda>x. if row_key x = ?k then ?g x else x) (rs_rows st)"
    using r by (auto simp: rename_row_def Let_def split: if_splits)
  have tb: "tb \<noteq> fb" using parse_session_inj pf pt ne by metis
  have moved: "\<forall>y. row_key y = ?k \<longrightarrow> row_key (?g y) = (t, org, repo, tb)" by (simp add: row_key_def)
  note mem = move_mem[of row_key ?k ?g, OF moved]
  obtain x where x: "x \<in> set (rs_rows st)" "row_key x = ?k"
    using g unfolding get_row_None by auto
  have free: "row_key y \<noteq> (t, org, repo, tb)" if "y \<in> set (rs_rows st)" "row_key y \<noteq> ?k" for y
    using r that by (auto simp: rename_row_def Let_def list_ex_iff split: if_splits)
  have "get_row t org repo tb st = None"
    unfolding get_row_None
  proof
    assume "(t, org, repo, tb) \<in> row_key ` set (rs_rows st)"
    then obtain y where y: "y \<in> set (rs_rows st)" "row_key y = (t, org, repo, tb)" by auto
    then have "row_key y \<noteq> ?k" using tb by simp
    then show False using free[OF y(1)] y(2) by blast
  qed
  then show "get_row_by_session t ts st = None" by (simp add: named_lookup[OF n pt])
  have "get_row t org repo fb st' = None"
    unfolding get_row_None rows using mem(2) tb by blast
  then show "get_row_by_session t fs st' = None" by (simp add: named_lookup[OF n' pf])
  have "get_row t org repo tb st' \<noteq> None"
    unfolding get_row_None rows not_not
    by (rule image_eqI[of _ row_key, OF sym[OF conjunct2[OF mem(1)[OF x]]] conjunct1[OF mem(1)[OF x]]])
  then show "get_row_by_session t ts st' \<noteq> None" by (simp add: named_lookup[OF n' pt])
qed

text \<open>
  A rename that reports success has the new session bound, but it has released the old
  session only if the new one was not bound before: a conflict is taken for a rename that already
  happened, and then both sessions stay.  A rename that fails leaves the mapping as it was, unless
  only the removal of the old branch failed; then the mapping has moved, and the next delivery
  reports success at once, without trying to remove the old branch again.
\<close>
lemma rename_spec:
  assumes w: "life_reach ev w"
    and pf: "parse_session fs = Some (org, repo, fb)" and pt: "parse_session ts = Some (org, repo, tb)"
    and ne: "fs \<noteq> ts"
  shows "case ensure_renamed ev tenant fs ts w of
      (None, w') \<Rightarrow> get_row_by_session tenant ts (w_store w') \<noteq> None
        \<and> get_row_by_session tenant fs (w_store w') =
            (if get_row_by_session tenant ts (w_store w) = None then None
             else get_row_by_session tenant fs (w_store w))
    | (Some err, w') \<Rightarrow> w_store w' = w_store w
        \<or> get_row_by_session tenant fs (w_store w') = None \<and> get_row_by_session tenant ts (w_store w') \<noteq> None
          \<and> ensure_renamed ev tenant fs ts w' = (None, w')"
proof -
  have n: "store_named (w_store w)" using life_reach_inv[OF w] by (simp add: world_inv_def)
  note lookup = named_lookup[OF n pf, of tenant]
  from pf pt show ?thesis
  proof (cases rule: renamed_cases[where tenant = tenant and w = w and ev = ev])
    case fresh
    let ?c = "ensure_created ev tenant org repo tb ts w"
    have old: "get_row_by_session tenant fs (w_store (snd ?c)) = None"
      using created_other[of tenant fs tenant ts ev org repo tb w] ne lookup fresh(1) by simp
    show ?thesis
    proof (cases "fst ?c")
      case None
      then have "get_row_by_session tenant ts (w_store (snd ?c)) \<noteq> None" by (rule created_binds[OF n pt])
      then show ?thesis
        unfolding fresh(2) using None old lookup fresh(1) by (cases ?c) simp
    next
      case (Some err)
      then have "w_store (snd ?c) = w_store w" using created_error[OF Some] by simp
      then show ?thesis unfolding fresh(2) using Some by (cases ?c) simp
    qed
  next
    case (failed row err e)
    then show ?thesis by simp
  next
    case (taken row e err)
    then have "get_row_by_session tenant ts (w_store w) \<noteq> None"
      by (intro rename_conflict[OF n pt _ taken(2)]) simp
    then show ?thesis unfolding taken(4) by (simp del: not_None_eq)
  next
    case (moved row st r e)
    note m = rename_moved[OF n pf pt ne _ moved(2)]
    have n': "store_named st" by (rule rename_row_named[OF n pt moved(2)])
    have new: "get_row_by_session tenant ts st \<noteq> None" "get_row_by_session tenant fs st = None"
      "get_row_by_session tenant ts (w_store w) = None"
      using m moved(1) by simp_all
    show ?thesis
    proof (cases r)
      case None
      then show ?thesis unfolding moved(3) using new by simp
    next
      case (Some err)
      have "get_row tenant org repo fb st = None" using new(2) named_lookup[OF n' pf] by simp
      then have "ensure_renamed ev tenant fs ts
          (w\<lparr> w_env := e, w_store := st, w_cache := cache_evict fs (w_cache w) \<rparr>) =
        (None, w\<lparr> w_env := e, w_store := st, w_cache := cache_evict fs (w_cache w) \<rparr>)"
        using new(1) pf pt by (auto simp: ensure_renamed_def ensure_created_def)
      then show ?thesis unfolding moved(3) using new Some by simp
    qed
  qed
qed

section \<open>The branch behind a mapping\<close>

text \<open>
  On a truthful lab, a creation that succeeds has bound the session and its branch exists,
  unless the lab answered some creation of that branch with InvalidArgument: the client takes
  this answer for success.  When the lab always refuses to create the branch (a repository without
  any revision has nothing to anchor it to), the session is bound all the same and the branch is
  still missing.
\<close>
lemma created_branch_outcome:
  assumes w: "life_reach ev w" and tr: "truthful ev view"
    and p: "parse_session sid = Some (org, repo, b)"
    and new: "get_row_by_session tenant sid (w_store w) = None"
    and ok: "ensure_created ev tenant org repo b sid w = (None, w')"
  shows "get_row_by_session tenant sid (w_store w') \<noteq> None
    \<and> (b \<in> branches_in (view (w_env w')) org repo \<or> create_refused ev tenant org repo b)
    \<and> (always_refused ev tenant org repo b \<longrightarrow> b \<notin> branches_in (view (w_env w)) org repo \<longrightarrow>
        b \<notin> branches_in (view (w_env w')) org repo)"
proof -
  have n: "store_named (w_store w)" using life_reach_inv[OF w] by (simp add: world_inv_def)
  have tr1: "truthful_reads ev view" using tr by (simp add: truthful_def)
  have bound: "get_row_by_session tenant sid (w_store w') \<noteq> None"
    using created_binds[OF n p, of ev tenant] ok by simp
  obtain e1 where e1: "ensure_repo ev tenant org repo (w_env w) = (None, e1)"
    using new ok by (auto simp: ensure_created_def split: prod.splits option.splits)
  obtain e2 where e2: "ensure_branch_anchored ev tenant org repo b e1 = (None, e2)"
    using new ok e1 by (auto simp: ensure_created_def split: prod.splits option.splits)
  have env: "w_env w' = e2"
    using new ok e1 e2 by (auto simp: ensure_created_def split: prod.splits option.splits)
  obtain c e3 where c: "can_resolve ev tenant org repo ''main'' e1 = (c, e3)" by fastforce
  obtain src where r: "ensure_branch ev tenant org repo src b e3 = (None, e2)"
    using e2 c by (auto simp: ensure_branch_anchored_def split: sum.splits)
  have "b \<in> branches_in (view e2) org repo \<or> create_refused ev tenant org repo b"
    by (rule ensure_branch_outcome[OF tr r])
  moreover have "b \<notin> branches_in (view e2) org repo"
    if "always_refused ev tenant org repo b" "b \<notin> branches_in (view (w_env w)) org repo"
  proof -
    have "view e2 = view e3" using ensure_branch_refused[OF tr that(1), of src e3] r by simp
    also have "\<dots> = view e1" by (rule can_resolve_view[OF tr1 c])
    finally have "branches_in (view e2) org repo = branches_in (view e1) org repo" by simp
    also have "\<dots> = branches_in (view (w_env w)) org repo"
    proof -
      have "e1 = snd (ev_ensure_repo ev tenant org repo (w_env w))"
        using e1 by (auto simp: ensure_repo_def split: prod.splits option.splits if_splits)
      then show ?thesis using tr by (simp add: truthful_def)
    qed
    finally show ?thesis using that(2) by simp
  qed
  ultimately show ?thesis using bound env by simp
qed

text \<open>
  Renaming a bound session to itself removes its branch: on a truthful lab whose branch
  listing of the repository never fails, a success leaves the same mapping, and the branch the
  session is bound to is gone.
\<close>
lemma rename_to_itself:
  assumes w: "life_reach ev w" and tr: "truthful ev view"
    and p: "parse_session sid = Some (org, repo, b)" and ne: "org \<noteq> ''''" "repo \<noteq> ''''"
    and up: "\<not> listing_fails ev view tenant org repo"
    and bound: "get_row_by_session tenant sid (w_store w) \<noteq> None"
    and ok: "ensure_renamed ev tenant sid sid w = (None, w')"
  shows "w_store w' = w_store w \<and> b \<notin> branches_in (view (w_env w')) org repo"
proof -
  have n: "store_named (w_store w)" using life_reach_inv[OF w] by (simp add: world_inv_def)
  let ?k = "(tenant, org, repo, b)"
  have g: "get_row tenant org repo b (w_store w) \<noteq> None" using bound named_lookup[OF n p] by simp
  have same: "x\<lparr> mr_branch := b, mr_session := sid \<rparr> = x" if "x \<in> set (rs_rows (w_store w))" "row_key x = ?k" for x
  proof -
    have "parse_session (mr_session x) = Some (org, repo, b)"
      using n that by (auto simp: store_named_def row_named_def row_key_def)
    then have "mr_session x = sid" by (rule parse_session_inj[OF _ p])
    then show ?thesis using that(2) by (cases x) (simp add: row_key_def)
  qed
  have uniq: "\<not> (row_key y = ?k \<or> session_key_of y = (tenant, sid))"
    if "y \<in> set (rs_rows (w_store w))" "row_key y \<noteq> ?k" for y
  proof -
    have "mr_session y = sid \<Longrightarrow> (mr_org y, mr_repo y, mr_branch y) = (org, repo, b)"
      using n that(1) p by (auto simp: store_named_def row_named_def)
    then show ?thesis using that(2) by (auto simp: row_key_def session_key_of_def)
  qed
  have r: "rename_row tenant org repo b b sid (w_store w) = Inr (w_store w)"
  proof -
    have "list_ex (\<lambda>x. row_key x = ?k) (rs_rows (w_store w))"
      using g unfolding get_row_None by (auto simp: list_ex_iff)
    moreover have "\<not> list_ex (\<lambda>y. row_key y \<noteq> ?k \<and> (row_key y = ?k \<or> session_key_of y = (tenant, sid)))
        (rs_rows (w_store w))"
      using uniq by (auto simp: list_ex_iff)
    moreover have "map (\<lambda>x. if row_key x = ?k then x\<lparr> mr_branch := b, mr_session := sid \<rparr> else x)
        (rs_rows (w_store w)) = rs_rows (w_store w)"
      using same by (intro map_idI) simp
    ultimately show ?thesis by (simp add: rename_row_def Let_def)
  qed
  obtain e1 where e1: "ensure_branch ev tenant org repo b b (w_env w) = (None, e1)"
    using ok p g by (auto simp: ensure_renamed_def split: option.splits prod.splits)
  obtain x e2 where d: "delete_branch ev tenant org repo b e1 = (x, e2)" by fastforce
  have "(x, w\<lparr> w_env := e2, w_store := w_store w, w_cache := cache_evict sid (w_cache w) \<rparr>) = (None, w')"
    using ok p g e1 d r by (auto simp: ensure_renamed_def split: option.splits)
  then have x: "x = None" "w_env w' = e2" "w_store w' = w_store w" by auto
  then show ?thesis using delete_branch_outcome[OF tr d[unfolded x(1)] ne] up by simp
qed

section \<open>What reconciling does\<close>

lemma converge_drift_result:
  assumes ok: "store_ok (w_store w)"
    and tree: "get_repo_tree ev '''' (w_env w) = (Inr tree, e1)" and some: "rs_managed (w_store w) \<noteq> []"
  shows "converge_drift ev sessions w =
      (None, converge_repos tree sessions (list_managed (w_store w)) (w\<lparr> w_env := e1 \<rparr>))"
    and "w_store (converge_repos tree sessions (list_managed (w_store w)) (w\<lparr> w_env := e1 \<rparr>)) =
      (w_store w)\<lparr> rs_rows := filter (\<lambda>x. (mr_tenant x, mr_org x, mr_repo x) \<in> set (rs_managed (w_store w)) \<longrightarrow>
          branch_exists tree (mr_org x) (mr_repo x) (mr_branch x) \<and> mr_session x \<in> set sessions)
        (rs_rows (w_store w)) \<rparr>"
proof -
  have ne: "list_managed (w_store w) \<noteq> []" using some by (metis list.set_sel(1) set_list_managed set_empty)
  then show "converge_drift ev sessions w =
      (None, converge_repos tree sessions (list_managed (w_store w)) (w\<lparr> w_env := e1 \<rparr>))"
    using tree by (simp add: converge_drift_def)
  have Q: "(\<lambda>x. repo_of x \<in> set (rs_managed (w_store w)) \<longrightarrow> keep_row (tree_names tree (mr_org x) (mr_repo x)) sessions x)
      = (\<lambda>x. (mr_tenant x, mr_org x, mr_repo x) \<in> set (rs_managed (w_store w)) \<longrightarrow>
          branch_exists tree (mr_org x) (mr_repo x) (mr_branch x) \<and> mr_session x \<in> set sessions)"
    by (simp add: repo_of_def keep_row_def tree_names_iff)
  show "w_store (converge_repos tree sessions (list_managed (w_store w)) (w\<lparr> w_env := e1 \<rparr>)) =
      (w_store w)\<lparr> rs_rows := filter (\<lambda>x. (mr_tenant x, mr_org x, mr_repo x) \<in> set (rs_managed (w_store w)) \<longrightarrow>
          branch_exists tree (mr_org x) (mr_repo x) (mr_branch x) \<and> mr_session x \<in> set sessions)
        (rs_rows (w_store w)) \<rparr>"
    using ok Q by (subst converge_repos_store) (simp_all add: store_ok_def)
qed

text \<open>
  The drift rule keeps exactly the rows of repositories that are not managed, and of the
  managed ones those whose branch is in the lab's tree and whose session is listed; it calls
  nobody but the lab's listing, and applying it again to what it left changes nothing.  The
  listing has no tenant: a row of any tenant is kept only if its session name is listed.
\<close>
lemma converge_drift_exact:
  assumes w: "life_reach ev w"
    and tree: "get_repo_tree ev '''' (w_env w) = (Inr tree, e1)" and some: "rs_managed (w_store w) \<noteq> []"
  shows "case converge_drift ev sessions w of (r, w') \<Rightarrow> r = None \<and> w_env w' = e1
    \<and> rs_managed (w_store w') = rs_managed (w_store w)
    \<and> rs_rows (w_store w') = filter (\<lambda>x. (mr_tenant x, mr_org x, mr_repo x) \<in> set (rs_managed (w_store w)) \<longrightarrow>
          branch_exists tree (mr_org x) (mr_repo x) (mr_branch x) \<and> mr_session x \<in> set sessions) (rs_rows (w_store w))
    \<and> w_store (converge_repos tree sessions (list_managed (w_store w')) w') = w_store w'"
proof -
  have ok: "store_ok (w_store w)" using life_reach_inv[OF w] by (simp add: world_inv_def store_named_def)
  note c = converge_drift_result[OF ok tree some, of sessions]
  let ?w = "converge_repos tree sessions (list_managed (w_store w)) (w\<lparr> w_env := e1 \<rparr>)"
  have d: "distinct (map row_key (rs_rows (w_store ?w)))"
    unfolding c(2) using ok by (simp add: store_ok_def distinct_map_filter)
  have m: "set (list_managed (w_store ?w)) = set (rs_managed (w_store w))" by (simp add: c(2))
  have "w_store (converge_repos tree sessions (list_managed (w_store ?w)) ?w) = w_store ?w"
    unfolding converge_repos_store[OF d] m c(2)
    by (simp add: filter_id_conv repo_of_def keep_row_def tree_names_iff)
  then show ?thesis unfolding c(1) prod.case using c(2) by simp
qed

text \<open>
  An outage of the branch listing of one repository unmaps all its sessions: when the
  repositories can be listed but the branches of this one cannot, the drift rule succeeds and
  no row of the repository is left, in any tenant that manages it.
\<close>
lemma outage_unmaps_sessions:
  assumes w: "life_reach ev w"
    and tree: "get_repo_tree ev '''' (w_env w) = (Inr tree, e1)"
    and managed: "(tenant, org, repo) \<in> set (rs_managed (w_store w))"
    and down: "\<And>e. isl (fst (ev_branches ev '''' org repo e))"
  shows "fst (converge_drift ev sessions w) = None
    \<and> (\<forall>b. get_row tenant org repo b (w_store (snd (converge_drift ev sessions w))) = None)"
proof -
  have ok: "store_ok (w_store w)" using life_reach_inv[OF w] by (simp add: world_inv_def store_named_def)
  have some: "rs_managed (w_store w) \<noteq> []" using managed by auto
  note c = converge_drift_result[OF ok tree some, of sessions]
  have "row_key x \<noteq> (tenant, org, repo, b)"
    if "x \<in> set (rs_rows (w_store (converge_repos tree sessions (list_managed (w_store w)) (w\<lparr> w_env := e1 \<rparr>))))" for x b
    using that managed tree_down[OF down tree, of b] unfolding c(2) by (auto simp: row_key_def)
  then have "(tenant, org, repo, b) \<notin> row_key ` set (rs_rows (w_store
      (converge_repos tree sessions (list_managed (w_store w)) (w\<lparr> w_env := e1 \<rparr>))))" for b
    by (simp add: image_iff eq_commute)
  then show ?thesis unfolding c(1) get_row_None fst_conv snd_conv by blast
qed

text \<open>The only refusal of a creation that is final: the repository is not among those the lab lists.\<close>

lemma downstream_transient: "\<not> is_permanent (err_downstream what m)"
  by (simp add: is_permanent_def err_downstream_def)

lemma repo_tree_error: "fst (get_repo_tree ev tn e) = Inl err \<Longrightarrow> \<not> is_permanent err"
  by (auto simp: get_repo_tree_def downstream_transient split: sum.splits prod.splits)

lemma ensure_repo_error: "fst (ensure_repo ev tn org repo e) = Some err \<Longrightarrow> \<not> is_permanent err"
  by (auto simp: ensure_repo_def downstream_transient split: option.splits prod.splits if_splits)

lemma can_resolve_error: "fst (can_resolve ev tn org repo rv e) = Inl err \<Longrightarrow> \<not> is_permanent err"
  by (auto simp: can_resolve_def downstream_transient split: sum.splits prod.splits if_splits)

lemma ensure_branch_error:
  assumes "fst (ensure_branch ev tn org repo src b e) = Some err" "is_permanent err"
  shows "err = err_not_found (''repository '' @ org @ ''/'' @ repo @ '' does not exist'')"
proof -
  obtain r e1 where t: "get_repo_tree ev tn e = (r, e1)" by (cases "get_repo_tree ev tn e")
  show ?thesis
  proof (cases r)
    case (Inl err')
    then show ?thesis using assms t repo_tree_error[of ev tn e err'] by (simp add: ensure_branch_def)
  next
    case (Inr tree)
    then show ?thesis
      using assms t by (auto simp: ensure_branch_def downstream_transient split: if_splits prod.splits option.splits)
  qed
qed

lemma created_refusal:
  assumes "fst (ensure_created ev tenant org repo b sid w) = Some err" "is_permanent err"
  shows "err = err_not_found (''repository '' @ org @ ''/'' @ repo @ '' does not exist'')"
proof -
  obtain r1 e1 where 1: "ensure_repo ev tenant org repo (w_env w) = (r1, e1)" by fastforce
  obtain r2 e2 where 2: "can_resolve ev tenant org repo ''main'' e1 = (r2, e2)" by fastforce
  have n: "get_row_by_session tenant sid (w_store w) = None" using created_error[OF assms(1)] by blast
  have r1: "r1 = None"
    using assms 1 n ensure_repo_error[of ev tenant org repo "w_env w"] by (cases r1) (auto simp: ensure_created_def)
  have r2: "\<not> isl r2"
    using assms 1 2 n r1 can_resolve_error[of ev tenant org repo "''main''" e1]
    by (cases r2) (auto simp: ensure_created_def ensure_branch_anchored_def)
  then obtain ok where ok: "r2 = Inr ok" by (cases r2) auto
  let ?src = "if ok then ''main'' else ''''"
  have "fst (ensure_branch ev tenant org repo ?src b e2) = Some err"
  proof (cases "fst (ensure_branch ev tenant org repo ?src b e2)")
    case None
    then show ?thesis
      using assms(1) 1 2 n r1 ok bind_row_None[of tenant org repo b sid "w_store w"]
      by (cases "ensure_branch ev tenant org repo ?src b e2")
        (auto simp: ensure_created_def ensure_branch_anchored_def split: prod.splits)
  next
    case (Some err')
    then show ?thesis
      using assms(1) 1 2 n r1 ok by (cases "ensure_branch ev tenant org repo ?src b e2")
        (auto simp: ensure_created_def ensure_branch_anchored_def)
  qed
  then show ?thesis by (rule ensure_branch_error[OF _ assms(2)])
qed

text \<open>The turn of a session in a pass over the sessions, and what becomes of it.\<close>

lemma backfill_other:
  "name \<notin> set names \<Longrightarrow> get_row_by_session t name (w_store (snd (backfill_loop ev mapped names w)))
    = get_row_by_session t name (w_store w)"
proof (induction names arbitrary: w)
  case (Cons n names)
  then have ne: "name \<noteq> n" "name \<notin> set names" by auto
  show ?case
  proof (cases "n \<in> set mapped \<or> parse_session n = None")
    case True
    then show ?thesis using Cons.IH[OF ne(2)] by (auto split: option.splits)
  next
    case False
    then obtain org repo bm where p: "parse_session n = Some (org, repo, bm)" by auto
    have "get_row_by_session t name (w_store (snd (ensure_created ev ''default'' org repo bm n w))) =
        get_row_by_session t name (w_store w)"
      by (rule created_other) (use ne in simp)
    then show ?thesis
      unfolding backfill_step using False p Cons.IH[OF ne(2)] by (simp add: Let_def split: option.split)
  qed
qed simp

lemma backfill_turn:
  assumes p: "parse_session name = Some (org, repo, b)" and m: "name \<notin> set mapped"
  shows "world_inv w \<Longrightarrow> fst (backfill_loop ev mapped names w) = None \<Longrightarrow> distinct names \<Longrightarrow> name \<in> set names \<Longrightarrow>
    (let r = fst (ensure_created ev ''default'' org repo b name
               (snd (backfill_loop ev mapped (takeWhile (\<lambda>n. n \<noteq> name) names) w)))
     in (\<forall>err. r = Some err \<longrightarrow> is_permanent err)
        \<and> (r = None \<longleftrightarrow> get_row_by_session ''default'' name (w_store (snd (backfill_loop ev mapped names w))) \<noteq> None))"
proof (induction names arbitrary: w)
  case (Cons n names)
  show ?case
  proof (cases "n = name")
    case True
    let ?r = "ensure_created ev ''default'' org repo b name w"
    have perm: "is_permanent err" if "fst ?r = Some err" for err
      using Cons.prems(2) that True p m unfolding backfill_step by (auto simp: Let_def split: if_splits)
    have go: "backfill_loop ev mapped (n # names) w = backfill_loop ev mapped names (snd ?r)"
      unfolding backfill_step using True p m perm by (auto simp: Let_def split: option.split)
    have later: "get_row_by_session ''default'' name (w_store (snd (backfill_loop ev mapped names (snd ?r))))
        = get_row_by_session ''default'' name (w_store (snd ?r))"
      using Cons.prems(3) True by (intro backfill_other) simp
    have "fst ?r = None \<longleftrightarrow> get_row_by_session ''default'' name (w_store (snd ?r)) \<noteq> None"
    proof (cases "fst ?r")
      case None
      then show ?thesis using created_binds[OF _ p, of w ev "''default''"] Cons.prems(1) by (simp add: world_inv_def)
    next
      case (Some err)
      then show ?thesis using created_error[OF Some] by simp
    qed
    then show ?thesis using True perm unfolding go later by (simp add: Let_def)
  next
    case False
    have in_rest: "name \<in> set names" "distinct names" using Cons.prems False by auto
    have tw: "takeWhile (\<lambda>n. n \<noteq> name) (n # names) = n # takeWhile (\<lambda>n. n \<noteq> name) names" using False by simp
    show ?thesis
    proof (cases "n \<in> set mapped \<or> parse_session n = None")
      case True
      then have "backfill_loop ev mapped (n # xs) w = backfill_loop ev mapped xs w" for xs
        unfolding backfill_step by simp
      then show ?thesis using Cons.IH[OF Cons.prems(1) _ in_rest(2,1)] Cons.prems(2) unfolding tw by simp
    next
      case False
      then obtain o' r' b' where pn: "parse_session n = Some (o', r', b')" by auto
      let ?r = "ensure_created ev ''default'' o' r' b' n w"
      have i: "world_inv (snd ?r)" by (rule created_inv[OF Cons.prems(1) pn])
      consider "fst ?r = None" | err where "fst ?r = Some err" "is_permanent err"
        using Cons.prems(2) False pn unfolding backfill_step
        by (cases "fst ?r") (auto simp: Let_def split: if_splits)
      then have go: "backfill_loop ev mapped (n # xs) w = backfill_loop ev mapped xs (snd ?r)" for xs
        unfolding backfill_step using False pn by cases (simp_all add: Let_def)
      show ?thesis using Cons.IH[OF i _ in_rest(2,1)] Cons.prems(2) unfolding tw go .
    qed
  qed
qed simp

text \<open>The world in which a reconciliation that lists \<^verbatim>\<open>names\<close> comes to create the workspace of one of them.\<close>

definition turn_in_pass :: "'e env \<Rightarrow> string list \<Rightarrow> string \<Rightarrow> 'e world \<Rightarrow> 'e world" where
  "turn_in_pass ev names name w =
    snd (backfill_workspaces ev (takeWhile (\<lambda>n. n \<noteq> name) names)
      (backfill_groups ev (snd (converge_drift ev names w))))"

text \<open>
  C10: What a successful reconciliation does for a listed session whose name spells a workspace.  When the session's turn
  comes in the pass, its creation either succeeds or is refused because the lab does not list the repository;
  no other error is possible.  In the first case, and only then, the session is bound to its workspace in the default tenant when the
  pass ends.
\<close>
theorem reconcile_heals:
  assumes w: "life_reach ev w" and ok: "reconcile_once ev w = (None, w')"
    and listed: "list_sessions ev (w_env w) = (Inr names, e1)" "distinct names" "name \<in> set names"
    and p: "parse_session name = Some (org, repo, b)" and nul: "CHR 0x00 \<notin> set name"
  shows "let r = fst (ensure_created ev ''default'' org repo b name (turn_in_pass ev names name (w\<lparr> w_env := e1 \<rparr>))) in
    r \<in> {None, Some (err_not_found (''repository '' @ org @ ''/'' @ repo @ '' does not exist''))}
    \<and> (r = None \<longrightarrow> (\<exists>row. get_row_by_session ''default'' name (w_store w') = Some row
          \<and> (mr_org row, mr_repo row, mr_branch row) = (org, repo, b)))
    \<and> (r \<noteq> None \<longrightarrow> get_row_by_session ''default'' name (w_store w') = None)"
proof -
  have i: "world_inv w" by (rule life_reach_inv[OF w])
  obtain w1 where w1: "converge_drift ev names (w\<lparr> w_env := e1 \<rparr>) = (None, w1)"
    using ok listed(1) by (auto simp: reconcile_once_def split: prod.splits option.splits)
  let ?g = "backfill_groups ev w1"
  have i1: "world_inv ?g"
    using converge_drift_inv[of "w\<lparr> w_env := e1 \<rparr>" ev names] i w1 by (simp add: backfill_groups_inv)
  have b: "backfill_workspaces ev names ?g = (None, w')"
    using ok listed(1) w1 by (simp add: reconcile_once_def)
  let ?mapped = "map (\<lambda>r. mr_tenant r @ [CHR 0x00] @ mr_session r) (list_rows (w_store ?g))"
  have m: "name \<notin> set ?mapped" using nul by auto
  have loop: "backfill_loop ev ?mapped names ?g = (None, w')" using b by (simp add: backfill_workspaces_def)
  have turn: "turn_in_pass ev names name (w\<lparr> w_env := e1 \<rparr>)
      = snd (backfill_loop ev ?mapped (takeWhile (\<lambda>n. n \<noteq> name) names) ?g)"
    by (simp add: turn_in_pass_def w1 backfill_workspaces_def)
  have i': "store_named (w_store w')"
    using backfill_inv[OF i1, of ev ?mapped names] loop by (simp add: world_inv_def)
  let ?r = "fst (ensure_created ev ''default'' org repo b name (turn_in_pass ev names name (w\<lparr> w_env := e1 \<rparr>)))"
  have h: "(\<forall>err. ?r = Some err \<longrightarrow> is_permanent err)
      \<and> (?r = None \<longleftrightarrow> get_row_by_session ''default'' name (w_store w') \<noteq> None)"
    using backfill_turn[OF p m i1 _ listed(2,3), of ev] unfolding loop turn by (simp add: Let_def)
  then have known: "?r \<in> {None, Some (err_not_found (''repository '' @ org @ ''/'' @ repo @ '' does not exist''))}"
    using created_refusal[of ev "''default''" org repo b name] by (cases ?r) blast+
  have bound: "\<exists>row. get_row_by_session ''default'' name (w_store w') = Some row
          \<and> (mr_org row, mr_repo row, mr_branch row) = (org, repo, b)" if "?r = None"
    using h that named_by_session(4)[OF i', of "''default''" name] p by fastforce
  have unbound: "get_row_by_session ''default'' name (w_store w') = None" if "?r \<noteq> None"
    using conjunct2[OF h] that by (simp only: simp_thms not_not)
  show ?thesis
    unfolding Let_def by (intro conjI impI known bound unbound)
qed

section \<open>A concrete lab\<close>

text \<open>
  A lab for the witnesses: the world lists the repositories with their branches; a branch can be
  created only from a branch that exists, the empty name standing for any.
\<close>

type_synonym demo = "((string \<times> string) \<times> string list) list"

definition demo_branches :: "demo \<Rightarrow> string \<Rightarrow> string \<Rightarrow> string list option" where
  "demo_branches d org repo = map_of d (org, repo)"

definition demo_set :: "demo \<Rightarrow> string \<Rightarrow> string \<Rightarrow> string list \<Rightarrow> demo" where
  "demo_set d org repo bs = AList.update (org, repo) bs d"

definition demo_env :: "demo env" where
  "demo_env = \<lparr>
     ev_list_repos = (\<lambda>tn d. (Inr (map fst d), d)),
     ev_branches = (\<lambda>tn org repo d. (case demo_branches d org repo of
        None \<Rightarrow> (Inl (ConnErr NotFound ''no such repository''), d)
      | Some bs \<Rightarrow> (Inr (map (\<lambda>b. (b, ''sha'')) bs), d))),
     ev_ensure_repo = (\<lambda>tn org repo d. (None, if demo_branches d org repo = None then d @ [((org, repo), [])] else d)),
     ev_create_branch = (\<lambda>tn org repo b src d. (case demo_branches d org repo of
        None \<Rightarrow> (Some (ConnErr NotFound ''no such repository''), d)
      | Some bs \<Rightarrow> if bs = [] then (Some (ConnErr InvalidArgument ''no revisions''), d)
                   else (None, demo_set d org repo (b # bs)))),
     ev_delete_branch = (\<lambda>tn org repo b d. (case demo_branches d org repo of
        None \<Rightarrow> (Some (ConnErr NotFound ''no such repository''), d)
      | Some bs \<Rightarrow> (None, demo_set d org repo (filter (\<lambda>x. x \<noteq> b) bs)))),
     ev_revisions = (\<lambda>tn org repo ref n d. (Inr [], d)),
     ev_write_files = (\<lambda>tn org repo b m cs d. (Inr (''r'', ''c''), d)),
     ev_list_sessions = (\<lambda>d. (Inr [''acme:web:dev''], d)),
     ev_get_session = (\<lambda>n d. (Inr None, d)),
     ev_set_group = (\<lambda>n g d. (None, d)),
     ev_create_session = (\<lambda>n o' r b p g d. (None, d)),
     ev_fork_session = (\<lambda>p n m r d. (None, d)),
     ev_delete_session = (\<lambda>n d. (None, d)),
     ev_has_vars = True,
     ev_set_var = (\<lambda>t s k v d. d),
     ev_clear_vars = (\<lambda>t s d. d),
     ev_now = (\<lambda>d. 0) \<rparr>"

definition demo_view :: "demo \<Rightarrow> lab_view" where
  "demo_view d org repo = map_option set (demo_branches d org repo)"

lemma demo_truthful: "truthful demo_env demo_view"
proof -
  have upd: "demo_view (demo_set d org repo bs) = view_with (demo_view d) org repo (set bs)" for d org repo bs
    by (intro ext) (auto simp: demo_view_def demo_set_def demo_branches_def view_with_def update_conv')
  have reads: "truthful_reads demo_env demo_view"
    by (auto simp: truthful_reads_def demo_env_def demo_view_def demo_branches_def image_iff map_of_eq_None_iff
        comp_def split: option.splits)
  have writes: "truthful_writes demo_env demo_view"
    unfolding truthful_writes_def
    by (auto simp: demo_env_def upd branches_in_def split: option.splits)
      (auto simp: demo_view_def intro!: arg_cong[where f = "view_with _ _ _"])
  have "branches_in (demo_view (snd (ev_ensure_repo demo_env tn org repo d))) p q = branches_in (demo_view d) p q"
    for tn org repo d p q
    by (auto simp: demo_env_def demo_view_def demo_branches_def branches_in_def map_add_def split: option.splits)
  then show ?thesis using reads writes by (simp add: truthful_def)
qed

definition demo_event :: "string \<Rightarrow> lifecycle_event" where
  "demo_event sid = \<lparr> le_session = sid, le_parent = None, le_from = None, le_to = None \<rparr>"

definition demo_start :: "demo \<Rightarrow> demo world" where
  "demo_start d = \<lparr> w_store = empty_store, w_cache = (\<lambda>_. None), w_env = d \<rparr>"

definition demo_bound :: "demo \<Rightarrow> demo world" where
  "demo_bound d = snd (handle_event demo_env ''created'' (demo_event ''acme:web:dev'') ''default'' (demo_start d))"

lemma demo_start_reach: "life_reach demo_env (demo_start d)"
  unfolding demo_start_def by (rule lr_start)

lemma demo_bound_reach: "life_reach demo_env (demo_bound d)"
  unfolding demo_bound_def by (rule lr_step[OF demo_start_reach ls_event])

definition demo_lab :: demo where
  "demo_lab = [((''acme'', ''web''), [''main''])]"

definition empty_lab :: demo where
  "empty_lab = [((''acme'', ''web''), [])]"

definition dev :: string where
  "dev = ''acme:web:dev''"

lemma demo_facts:
  "get_row_by_session ''default'' dev (w_store (demo_bound demo_lab)) \<noteq> None"
  "fst (resolve_in demo_env ''default'' dev (demo_bound demo_lab)) = Inr (''acme'', ''web'', ''dev'')"
  "parse_session dev = Some (''acme'', ''web'', ''dev'')"
  "parse_session ''acme:web:next'' = Some (''acme'', ''web'', ''next'')"
  by code_simp+

lemma resolves_to_own_name_witness:
  "fst (resolve_in demo_env ''default'' dev (demo_bound demo_lab)) = Inr (''acme'', ''web'', ''dev'')
   \<and> store_ok (w_store (demo_bound demo_lab))"
  using resolves_to_own_name[OF demo_bound_reach demo_facts(2)] demo_facts(2) by (simp add: dev_def)

lemma creation_converges_witness:
  "get_row_by_session ''default'' dev
      (w_store (redeliver 3 (handle_event demo_env ''created'' (demo_event dev) ''default'') (demo_start demo_lab))) \<noteq> None"
proof -
  have "fst (handle_event demo_env ''created'' (demo_event dev) ''default''
      (redeliver 0 (handle_event demo_env ''created'' (demo_event dev) ''default'') (demo_start demo_lab))) = None"
    by code_simp
  moreover have "''created'' \<in> {''created'', ''forked''}" and "(0::nat) < 3" by simp_all
  moreover have "le_session (demo_event dev) = dev" by (simp add: demo_event_def)
  ultimately show ?thesis
    using creation_converges[OF demo_start_reach[of demo_lab], where kind = "''created''" and le = "demo_event dev" and tenant = "''default''"
        and k = 0 and n = 3]
    unfolding Let_def by fastforce
qed

lemma deletion_spec_witness:
  "get_row_by_session ''default'' dev
     (w_store (snd (mirror_event demo_env ''deleted'' (demo_event dev) ''default'' (demo_bound demo_lab)))) = None"
proof -
  let ?r = "mirror_event demo_env ''deleted'' (demo_event dev) ''default'' (demo_bound demo_lab)"
  have "fst ?r = None" by code_simp
  then have r: "?r = (None, snd ?r)" by (cases ?r) simp
  have s: "le_session (demo_event dev) = dev" by (simp add: demo_event_def)
  show ?thesis
    using deletion_spec[OF demo_bound_reach[of demo_lab], where le = "demo_event dev" and tenant = "''default''"]
    unfolding s by (subst (asm) r) simp
qed

lemma rename_spec_witness:
  "get_row_by_session ''default'' dev
     (w_store (snd (ensure_renamed demo_env ''default'' dev ''acme:web:next'' (demo_bound demo_lab)))) = None"
proof -
  let ?r = "ensure_renamed demo_env ''default'' dev ''acme:web:next'' (demo_bound demo_lab)"
  have "fst ?r = None" and t: "get_row_by_session ''default'' ''acme:web:next'' (w_store (demo_bound demo_lab)) = None"
    by code_simp+
  then have r: "?r = (None, snd ?r)" by (cases ?r) simp
  have ne: "dev \<noteq> ''acme:web:next''" by (simp add: dev_def)
  show ?thesis
    using rename_spec[OF demo_bound_reach[of demo_lab] demo_facts(3,4) ne, where tenant = "''default''"]
    by (subst (asm) r) (simp add: t)
qed

lemma created_branch_outcome_witness:
  "get_row_by_session ''default'' dev
      (w_store (snd (ensure_created demo_env ''default'' ''acme'' ''web'' ''dev'' dev (demo_start empty_lab)))) \<noteq> None
   \<and> create_refused demo_env ''default'' ''acme'' ''web'' ''dev''"
proof -
  let ?r = "ensure_created demo_env ''default'' ''acme'' ''web'' ''dev'' dev (demo_start empty_lab)"
  have ok: "ensure_created demo_env ''default'' ''acme'' ''web'' ''dev'' dev (demo_start empty_lab) = (None, snd ?r)"
  proof -
    have "fst ?r = None" by code_simp
    then show ?thesis by (cases ?r) simp
  qed
  have new: "get_row_by_session ''default'' dev (w_store (demo_start empty_lab)) = None" by code_simp
  have e: "w_env (snd ?r) = empty_lab" by code_simp
  have "''dev'' \<notin> branches_in (demo_view (w_env (snd ?r))) ''acme'' ''web''"
    unfolding e by (simp add: empty_lab_def demo_view_def demo_branches_def branches_in_def)
  then show ?thesis
    using created_branch_outcome[OF demo_start_reach demo_truthful demo_facts(3) new ok] by blast
qed

lemma rename_to_itself_witness:
  "''dev'' \<notin> branches_in (demo_view (w_env (snd (ensure_renamed demo_env ''default'' dev dev (demo_bound demo_lab)))))
      ''acme'' ''web''"
proof -
  let ?r = "ensure_renamed demo_env ''default'' dev dev (demo_bound demo_lab)"
  have "fst ?r = None" by code_simp
  then have ok: "ensure_renamed demo_env ''default'' dev dev (demo_bound demo_lab) = (None, snd ?r)"
    by (cases ?r) simp
  have up: "\<not> listing_fails demo_env demo_view ''default'' ''acme'' ''web''"
    by (auto simp: listing_fails_def demo_env_def demo_view_def split: option.splits)
  show ?thesis
    using rename_to_itself[OF demo_bound_reach demo_truthful demo_facts(3) _ _ up demo_facts(1) ok] by simp
qed

lemma converge_drift_exact_witness:
  "fst (converge_drift demo_env [] (demo_bound demo_lab)) = None
   \<and> rs_rows (w_store (snd (converge_drift demo_env [] (demo_bound demo_lab)))) = []"
proof -
  let ?g = "get_repo_tree demo_env [] (w_env (demo_bound demo_lab))"
  have "\<not> isl (fst ?g)" by code_simp
  then obtain tree where g: "?g = (Inr tree, snd ?g)" by (cases ?g; cases "fst ?g") auto
  have m: "rs_managed (w_store (demo_bound demo_lab)) = [(''default'', ''acme'', ''web'')]"
    and r: "map repo_of (rs_rows (w_store (demo_bound demo_lab))) = [(''default'', ''acme'', ''web'')]"
    by code_simp+
  have "repo_of x = (''default'', ''acme'', ''web'')" if "x \<in> set (rs_rows (w_store (demo_bound demo_lab)))" for x
    using r that by auto
  then show ?thesis
    using converge_drift_exact[OF demo_bound_reach g, of "[]"] m
    by (cases "converge_drift demo_env [] (demo_bound demo_lab)") (auto simp: repo_of_def filter_empty_conv)
qed

definition down_env :: "demo env" where
  "down_env = demo_env\<lparr> ev_branches := (\<lambda>tn org repo d.
     if tn = [] then (Inl (ConnErr OtherCode ''unavailable''), d) else ev_branches demo_env tn org repo d) \<rparr>"

lemma outage_unmaps_sessions_witness:
  "get_row ''default'' ''acme'' ''web'' ''dev'' (w_store (snd (converge_drift down_env [dev]
     (snd (handle_event down_env ''created'' (demo_event dev) ''default'' (demo_start demo_lab)))))) = None
   \<and> get_row ''default'' ''acme'' ''web'' ''dev''
     (w_store (snd (handle_event down_env ''created'' (demo_event dev) ''default'' (demo_start demo_lab)))) \<noteq> None"
proof -
  let ?w = "snd (handle_event down_env ''created'' (demo_event dev) ''default'' (demo_start demo_lab))"
  let ?g = "get_repo_tree down_env [] (w_env ?w)"
  have w: "life_reach down_env ?w"
    by (rule lr_step[OF _ ls_event]) (simp add: demo_start_def lr_start)
  have "\<not> isl (fst ?g)" by code_simp
  then obtain tree where g: "?g = (Inr tree, snd ?g)" by (cases ?g; cases "fst ?g") auto
  have m: "(''default'', ''acme'', ''web'') \<in> set (rs_managed (w_store ?w))"
    and r: "get_row ''default'' ''acme'' ''web'' ''dev'' (w_store ?w) \<noteq> None"
    by code_simp+
  have "isl (fst (ev_branches down_env [] ''acme'' ''web'' d))" for d by (simp add: down_env_def)
  from outage_unmaps_sessions[OF w g m this, of "[dev]"] show ?thesis using r by blast
qed

lemma reconcile_heals_witness:
  "\<exists>row. get_row_by_session ''default'' dev (w_store (snd (reconcile_once demo_env (demo_start demo_lab)))) = Some row
     \<and> (mr_org row, mr_repo row, mr_branch row) = (''acme'', ''web'', ''dev'')"
proof -
  let ?r = "reconcile_once demo_env (demo_start demo_lab)"
  have "fst ?r = None" by code_simp
  then have ok: "?r = (None, snd ?r)" by (cases ?r) simp
  have l: "list_sessions demo_env (w_env (demo_start demo_lab)) = (Inr [dev], demo_lab)" by code_simp
  have t: "fst (ensure_created demo_env ''default'' ''acme'' ''web'' ''dev'' dev
      (turn_in_pass demo_env [dev] dev ((demo_start demo_lab)\<lparr> w_env := demo_lab \<rparr>))) = None" by code_simp
  have nul: "CHR 0x00 \<notin> set dev" by (simp add: dev_def)
  show ?thesis
    using reconcile_heals[OF demo_start_reach ok l _ _ demo_facts(3) nul] unfolding t by simp
qed

end
