(* ===== verification/Act.thy ===== *)
theory Act
imports Rpc
begin

text \<open>
  How a remote procedure call runs: a handler is a function of the stored state that answers and
  leaves the state.  The steps of the handlers are small combinators (check, read, write, chase a
  reference), each ending the call with a Connect error where the code returns one.

  A handler is \<^verbatim>\<open>guarded_by\<close> a condition if it leaves every state that fails the condition as it
  is, whatever it answers.  The rules below prove that from the shape of a handler: the condition
  has to follow from the checks that stand before its first write.
\<close>

datatype 'a reply = Done 'a | Fail conn_err | Panic | Diverge

type_synonym ('v, 'a) act = "'v \<Rightarrow> 'a reply \<times> 'v"

named_theorems act_defs

definition give :: "'a \<Rightarrow> ('v, 'a) act" where
  "give a v = (Done a, v)"

definition refuse :: "conn_code \<Rightarrow> string \<Rightarrow> ('v, 'a) act" where
  "refuse c m v = (Fail (ConnErr c m), v)"

definition demand :: "('v \<Rightarrow> conn_err option) \<Rightarrow> ('v, 'a) act \<Rightarrow> ('v, 'a) act" where
  "demand e m v = (case e v of Some err \<Rightarrow> (Fail err, v) | None \<Rightarrow> m v)"

definition peek :: "('v \<Rightarrow> 'b) \<Rightarrow> ('b \<Rightarrow> ('v, 'a) act) \<Rightarrow> ('v, 'a) act" where
  "peek f k v = k (f v) v"

definition look :: "conn_code \<Rightarrow> ('v \<Rightarrow> string + 'b) \<Rightarrow> ('b \<Rightarrow> ('v, 'a) act) \<Rightarrow> ('v, 'a) act" where
  "look c f k v = (case f v of Inl m \<Rightarrow> (Fail (ConnErr c m), v) | Inr b \<Rightarrow> k b v)"

definition chase :: "conn_code \<Rightarrow> ('v \<Rightarrow> (string + 'b) option) \<Rightarrow> ('b \<Rightarrow> ('v, 'a) act) \<Rightarrow> ('v, 'a) act" where
  "chase c f k v =
    (case f v of
       None \<Rightarrow> (Diverge, v)
     | Some (Inl m) \<Rightarrow> (Fail (ConnErr c m), v)
     | Some (Inr b) \<Rightarrow> k b v)"

definition effect :: "conn_code \<Rightarrow> ('v \<Rightarrow> (string + 'b) \<times> 'v) \<Rightarrow> ('b \<Rightarrow> ('v, 'a) act) \<Rightarrow> ('v, 'a) act" where
  "effect c f k v =
    (case f v of
       (Inl m, v') \<Rightarrow> (Fail (ConnErr c m), v')
     | (Inr b, v') \<Rightarrow> k b v')"

definition crash :: "('v, 'a) act" where
  "crash v = (Panic, v)"

text \<open>
  Calls of other handlers: the caller goes on with the answer or the error of the call, passes an
  error on as it is or under a text of its own, runs a cleanup at the end whatever happened, or
  runs the call on a part of its state.
\<close>

definition flunk :: "conn_err \<Rightarrow> ('v, 'a) act" where
  "flunk e v = (Fail e, v)"

definition attempt :: "('v, 'b) act \<Rightarrow> (conn_err + 'b \<Rightarrow> ('v, 'a) act) \<Rightarrow> ('v, 'a) act" where
  "attempt m k v =
    (case m v of
       (Done b, v') \<Rightarrow> k (Inr b) v'
     | (Fail e, v') \<Rightarrow> k (Inl e) v'
     | (Panic, v') \<Rightarrow> (Panic, v')
     | (Diverge, v') \<Rightarrow> (Diverge, v'))"

definition after :: "('v, 'b) act \<Rightarrow> ('b \<Rightarrow> ('v, 'a) act) \<Rightarrow> ('v, 'a) act" where
  "after m k = attempt m (\<lambda>r. case r of Inl e \<Rightarrow> flunk e | Inr b \<Rightarrow> k b)"

definition wrapping :: "conn_code \<Rightarrow> string \<Rightarrow> ('v, 'b) act \<Rightarrow> ('b \<Rightarrow> ('v, 'a) act) \<Rightarrow> ('v, 'a) act" where
  "wrapping c p m k = attempt m (\<lambda>r. case r of Inl e \<Rightarrow> refuse c (p @ conn_text e) | Inr b \<Rightarrow> k b)"

definition wind_up :: "('v, 'a) act \<Rightarrow> ('v \<Rightarrow> 'v) \<Rightarrow> ('v, 'a) act" where
  "wind_up m f v = (case m v of (Diverge, v') \<Rightarrow> (Diverge, v') | (r, v') \<Rightarrow> (r, f v'))"

definition zoom :: "('s \<Rightarrow> 'v) \<Rightarrow> ('v \<Rightarrow> 's \<Rightarrow> 's) \<Rightarrow> ('v, 'a) act \<Rightarrow> ('s, 'a) act" where
  "zoom g p m s = (case m (g s) of (r, v') \<Rightarrow> (r, p v' s))"

definition alter :: "('v \<Rightarrow> 'v) \<Rightarrow> ('v, 'a) act \<Rightarrow> ('v, 'a) act" where
  "alter f m v = m (f v)"

definition ignored :: "('v, 'a) act \<Rightarrow> ('v, unit) act" where
  "ignored m = after m (\<lambda>_. give ())"

lemmas [act_defs] = flunk_def attempt_def after_def wrapping_def wind_up_def zoom_def alter_def

lemmas [act_defs] = give_def refuse_def demand_def peek_def look_def chase_def effect_def crash_def

section \<open>What a handler may change\<close>

definition guarded_by :: "('v \<Rightarrow> bool) \<Rightarrow> ('v, 'a) act \<Rightarrow> bool" where
  "guarded_by P m \<longleftrightarrow> (\<forall>v. snd (m v) \<noteq> v \<longrightarrow> P v)"

named_theorems guard_intros

lemma guarded_give [guard_intros]: "guarded_by P (give a)"
  by (simp add: guarded_by_def give_def)

lemma guarded_refuse [guard_intros]: "guarded_by P (refuse c m)"
  by (simp add: guarded_by_def refuse_def)

lemma guarded_crash [guard_intros]: "guarded_by P crash"
  by (simp add: guarded_by_def crash_def)

lemma guarded_if [guard_intros]:
  "guarded_by P m \<Longrightarrow> guarded_by P n \<Longrightarrow> guarded_by P (if b then m else n)"
  by simp

lemma guarded_peek [guard_intros]: "(\<And>b. guarded_by P (k b)) \<Longrightarrow> guarded_by P (peek f k)"
  by (simp add: guarded_by_def peek_def)

lemma guarded_look [guard_intros]: "(\<And>b. guarded_by P (k b)) \<Longrightarrow> guarded_by P (look c f k)"
  by (auto simp: guarded_by_def look_def split: sum.splits)

lemma guarded_chase [guard_intros]: "(\<And>b. guarded_by P (k b)) \<Longrightarrow> guarded_by P (chase c f k)"
  by (auto simp: guarded_by_def chase_def split: sum.splits option.splits)

lemma guarded_demand: "(\<And>v. e v = None \<Longrightarrow> P v) \<Longrightarrow> guarded_by P (demand e m)"
  by (auto simp: guarded_by_def demand_def split: option.splits)

lemma guarded_demand_later [guard_intros]: "guarded_by P m \<Longrightarrow> guarded_by P (demand e m)"
  by (auto simp: guarded_by_def demand_def split: option.splits)

lemma guarded_flunk [guard_intros]: "guarded_by P (flunk e)"
  by (simp add: guarded_by_def flunk_def)

lemma guarded_case_sum [guard_intros]:
  "(\<And>e. guarded_by P (f e)) \<Longrightarrow> (\<And>b. guarded_by P (g b)) \<Longrightarrow> guarded_by P (case r of Inl e \<Rightarrow> f e | Inr b \<Rightarrow> g b)"
  by (cases r) simp_all

text \<open>A call that only answers leaves the state to what follows it.\<close>

definition reads_only :: "('v, 'a) act \<Rightarrow> bool" where
  "reads_only m \<longleftrightarrow> (\<forall>v. snd (m v) = v)"

lemma guarded_attempt: "reads_only m \<Longrightarrow> (\<And>r. guarded_by P (k r)) \<Longrightarrow> guarded_by P (attempt m k)"
  unfolding guarded_by_def reads_only_def attempt_def
  by (auto split: prod.split reply.split) (metis snd_conv)+

named_theorems keep_intros

definition keeps :: "('v \<Rightarrow> 'b) \<Rightarrow> ('v, 'a) act \<Rightarrow> bool" where
  "keeps V m \<longleftrightarrow> (\<forall>v. V (snd (m v)) = V v)"

lemma keepsD: "keeps V m \<Longrightarrow> m v = (r, v') \<Longrightarrow> V v' = V v"
  unfolding keeps_def by (metis snd_conv)

lemma keeps_give [keep_intros]: "keeps V (give a)"
  by (simp add: keeps_def give_def)

lemma keeps_refuse [keep_intros]: "keeps V (refuse c m)"
  by (simp add: keeps_def refuse_def)

lemma keeps_flunk [keep_intros]: "keeps V (flunk e)"
  by (simp add: keeps_def flunk_def)

lemma keeps_if [keep_intros]: "keeps V m \<Longrightarrow> keeps V n \<Longrightarrow> keeps V (if b then m else n)"
  by simp

lemma keeps_case_sum [keep_intros]:
  "(\<And>e. keeps V (f e)) \<Longrightarrow> (\<And>b. keeps V (g b)) \<Longrightarrow> keeps V (case r of Inl e \<Rightarrow> f e | Inr b \<Rightarrow> g b)"
  by (cases r) simp_all

lemma keeps_attempt [keep_intros]: "keeps V m \<Longrightarrow> (\<And>r. keeps V (k r)) \<Longrightarrow> keeps V (attempt m k)"
  unfolding keeps_def attempt_def by (auto split: prod.split reply.split) (metis snd_conv)+

lemma keeps_after [keep_intros]: "keeps V m \<Longrightarrow> (\<And>b. keeps V (k b)) \<Longrightarrow> keeps V (after m k)"
  unfolding after_def by (intro keep_intros)

lemma keeps_wrapping [keep_intros]: "keeps V m \<Longrightarrow> (\<And>b. keeps V (k b)) \<Longrightarrow> keeps V (wrapping c p m k)"
  unfolding wrapping_def by (intro keep_intros)

lemma keeps_effect: "(\<And>v. V (snd (f v)) = V v) \<Longrightarrow> (\<And>b. keeps V (k b)) \<Longrightarrow> keeps V (effect c f k)"
  unfolding keeps_def effect_def by (auto split: prod.split sum.split) (metis snd_conv)+

lemma keeps_look [keep_intros]: "(\<And>b. keeps V (k b)) \<Longrightarrow> keeps V (look c f k)"
  unfolding keeps_def look_def by (auto split: sum.split)

text \<open>A call extends another if it does the same wherever the other does not succeed.\<close>

definition extends :: "('v, 'a) act \<Rightarrow> ('v, 'a) act \<Rightarrow> bool" where
  "extends m m' \<longleftrightarrow> (\<forall>v. (\<exists>a. fst (m v) = Done a) \<or> m' v = m v)"

lemma extendsD: "extends m m' \<Longrightarrow> m v = (r, v') \<Longrightarrow> \<not> (\<exists>a. r = Done a) \<Longrightarrow> m' v = (r, v')"
  unfolding extends_def by (metis fst_conv)

lemma extends_refl: "extends m m"
  by (simp add: extends_def)

lemma extends_if: "extends m m' \<Longrightarrow> extends n n' \<Longrightarrow> extends (if b then m else n) (if b then m' else n')"
  by simp

lemma extends_attempt: "(\<And>r. extends (k r) (k' r)) \<Longrightarrow> extends (attempt m k) (attempt m k')"
  unfolding extends_def attempt_def by (auto split: prod.split reply.split)

lemma extends_after: "(\<And>b. extends (k b) (k' b)) \<Longrightarrow> extends (after m k) (after m k')"
  unfolding after_def by (rule extends_attempt) (simp add: extends_refl split: sum.split)

lemma extends_wrapping: "(\<And>b. extends (k b) (k' b)) \<Longrightarrow> extends (wrapping c p m k) (wrapping c p m k')"
  unfolding wrapping_def by (rule extends_attempt) (simp add: extends_refl split: sum.split)

lemma extends_wind_up:
  assumes "extends m m'"
  shows "extends (wind_up m f) (wind_up m' f)"
  unfolding extends_def
proof
  fix v
  show "(\<exists>a. fst (wind_up m f v) = Done a) \<or> wind_up m' f v = wind_up m f v"
  proof (cases "\<exists>a. fst (m v) = Done a")
    case True
    then obtain a v' where "m v = (Done a, v')" by (metis prod.collapse)
    then show ?thesis by (simp add: wind_up_def)
  next
    case False
    then have "m' v = m v" using assms unfolding extends_def by blast
    then show ?thesis by (simp add: wind_up_def)
  qed
qed

named_theorems return_intros

definition returns :: "('v, 'a) act \<Rightarrow> bool" where
  "returns m \<longleftrightarrow> (\<forall>v. fst (m v) \<noteq> Diverge)"

lemma returnsD: "returns m \<Longrightarrow> m v = (r, v') \<Longrightarrow> r \<noteq> Diverge"
  unfolding returns_def by (metis fst_conv)

lemma returns_leaves [return_intros]: "returns (give a)" "returns (refuse c m)" "returns (flunk e)" "returns crash"
  by (simp_all add: returns_def give_def refuse_def flunk_def crash_def)

lemma returns_if [return_intros]: "returns m \<Longrightarrow> returns n \<Longrightarrow> returns (if b then m else n)"
  by simp

lemma returns_case_sum [return_intros]:
  "(\<And>e. returns (f e)) \<Longrightarrow> (\<And>b. returns (g b)) \<Longrightarrow> returns (case r of Inl e \<Rightarrow> f e | Inr b \<Rightarrow> g b)"
  by (cases r) simp_all

lemma returns_case_option [return_intros]:
  "returns n \<Longrightarrow> (\<And>b. returns (f b)) \<Longrightarrow> returns (case x of None \<Rightarrow> n | Some b \<Rightarrow> f b)"
  by (cases x) simp_all

lemma returns_case_prod [return_intros]: "(\<And>a b. returns (f a b)) \<Longrightarrow> returns (case p of (a, b) \<Rightarrow> f a b)"
  by (cases p) simp

lemma returns_attempt [return_intros]: "returns m \<Longrightarrow> (\<And>r. returns (k r)) \<Longrightarrow> returns (attempt m k)"
  unfolding returns_def attempt_def by (auto split: prod.split reply.split) (metis fst_conv)+

lemma returns_after [return_intros]: "returns m \<Longrightarrow> (\<And>b. returns (k b)) \<Longrightarrow> returns (after m k)"
  unfolding after_def by (intro return_intros)

lemma returns_wrapping [return_intros]: "returns m \<Longrightarrow> (\<And>b. returns (k b)) \<Longrightarrow> returns (wrapping c p m k)"
  unfolding wrapping_def by (intro return_intros)

lemma returns_effect [return_intros]: "(\<And>b. returns (k b)) \<Longrightarrow> returns (effect c f k)"
  unfolding returns_def effect_def by (auto split: prod.split sum.split)

lemma returns_look [return_intros]: "(\<And>b. returns (k b)) \<Longrightarrow> returns (look c f k)"
  unfolding returns_def look_def by (auto split: sum.split)

lemma returns_peek [return_intros]: "(\<And>b. returns (k b)) \<Longrightarrow> returns (peek f k)"
  unfolding returns_def peek_def by simp

lemma returns_demand [return_intros]: "returns m \<Longrightarrow> returns (demand e m)"
  unfolding returns_def demand_def by (auto split: option.split)

lemma returns_alter [return_intros]: "returns m \<Longrightarrow> returns (alter f m)"
  unfolding returns_def alter_def by simp

lemma returns_zoom [return_intros]: "returns m \<Longrightarrow> returns (zoom g p m)"
  unfolding returns_def zoom_def by (simp split: prod.split) (metis fst_conv)

lemma returns_wind_up [return_intros]: "returns m \<Longrightarrow> returns (wind_up m f)"
  unfolding returns_def wind_up_def by (auto split: prod.split reply.split) (metis fst_conv)

lemma reads_only_keeps: "reads_only m \<longleftrightarrow> keeps (\<lambda>v. v) m"
  by (simp add: reads_only_def keeps_def)

lemma attempt_reads: "keeps (\<lambda>v. v) m \<Longrightarrow> attempt m k v =
    (case fst (m v) of Done b \<Rightarrow> k (Inr b) v | Fail e \<Rightarrow> k (Inl e) v | Panic \<Rightarrow> (Panic, v) | Diverge \<Rightarrow> (Diverge, v))"
  unfolding keeps_def attempt_def by (auto split: prod.split reply.split) (metis fst_conv snd_conv)+

lemma guarded_byD: "guarded_by P m \<Longrightarrow> m v = (r, v') \<Longrightarrow> v' \<noteq> v \<Longrightarrow> P v"
  unfolding guarded_by_def by (metis snd_conv)

lemma demand_cases:
  "demand e m v = (r, v') \<longleftrightarrow> (\<exists>err. e v = Some err \<and> r = Fail err \<and> v' = v) \<or> (e v = None \<and> m v = (r, v'))"
  by (auto simp: demand_def split: option.splits)

lemma in_map_filter: "y \<in> set (List.map_filter f xs) \<longleftrightarrow> (\<exists>x\<in>set xs. f x = Some y)"
  by (induction xs) (auto split: option.splits)

section \<open>How an answer comes about\<close>

named_theorems done_cases

lemma give_Done [done_cases]: "give a v = (Done b, v') \<longleftrightarrow> b = a \<and> v' = v"
  by (auto simp: give_def)

lemma refuse_Done [done_cases]: "refuse c m v = (Done b, v') \<longleftrightarrow> False"
  by (simp add: refuse_def)

lemma crash_Done [done_cases]: "crash v = (Done b, v') \<longleftrightarrow> False"
  by (simp add: crash_def)

lemma demand_Done [done_cases]: "demand e m v = (Done b, v') \<longleftrightarrow> e v = None \<and> m v = (Done b, v')"
  by (simp add: demand_def split: option.split)

lemma peek_Done [done_cases]: "peek f k v = (Done b, v') \<longleftrightarrow> k (f v) v = (Done b, v')"
  by (simp add: peek_def)

lemma look_Done [done_cases]: "look c f k v = (Done b, v') \<longleftrightarrow> (\<exists>a. f v = Inr a \<and> k a v = (Done b, v'))"
  by (simp add: look_def split: sum.split)

lemma chase_Done [done_cases]: "chase c f k v = (Done b, v') \<longleftrightarrow> (\<exists>a. f v = Some (Inr a) \<and> k a v = (Done b, v'))"
  by (simp add: chase_def split: sum.split option.split)

lemma flunk_Done [done_cases]: "flunk e v = (Done b, v') \<longleftrightarrow> False"
  by (simp add: flunk_def)

lemma after_Done [done_cases]:
  "after m k v = (Done b, v') \<longleftrightarrow> (\<exists>a v1. m v = (Done a, v1) \<and> k a v1 = (Done b, v'))"
  by (auto simp: after_def attempt_def flunk_def split: prod.split reply.split)

lemma attempt_Done:
  "attempt m k v = (Done b, v') \<longleftrightarrow>
    (\<exists>a v1. m v = (Done a, v1) \<and> k (Inr a) v1 = (Done b, v')) \<or> (\<exists>e v1. m v = (Fail e, v1) \<and> k (Inl e) v1 = (Done b, v'))"
  by (auto simp: attempt_def split: prod.split reply.split)

lemma wrapping_Done [done_cases]:
  "wrapping c p m k v = (Done b, v') \<longleftrightarrow> (\<exists>a v1. m v = (Done a, v1) \<and> k a v1 = (Done b, v'))"
  by (auto simp: wrapping_def attempt_def refuse_def split: prod.split reply.split)

lemma wind_up_Done [done_cases]:
  "wind_up m f v = (Done b, v') \<longleftrightarrow> (\<exists>v1. m v = (Done b, v1) \<and> v' = f v1)"
  by (auto simp: wind_up_def split: prod.split reply.split)

lemma zoom_Done [done_cases]:
  "zoom g p m s = (Done b, s') \<longleftrightarrow> (\<exists>v'. m (g s) = (Done b, v') \<and> s' = p v' s)"
  by (auto simp: zoom_def split: prod.split)

lemma alter_Done [done_cases]: "alter f m v = (Done b, v') \<longleftrightarrow> m (f v) = (Done b, v')"
  by (simp add: alter_def)

lemma effect_Done [done_cases]:
  "effect c f k v = (Done b, v') \<longleftrightarrow> (\<exists>a v1. f v = (Inr a, v1) \<and> k a v1 = (Done b, v'))"
  by (simp add: effect_def split: sum.split prod.split)

end
