(* ===== verification/Kube_Pod.thy ===== *)
theory Kube_Pod
imports Registry_Ref Naming Act
begin

text \<open>
  The workloads of the Kubernetes backend as data (\<^verbatim>\<open>internal/k8s\<close>): the execution profiles of
  sandboxes (\<^verbatim>\<open>runtime.go\<close>), the client's configuration and its egress policy
  (\<^verbatim>\<open>client.go\<close>, \<^verbatim>\<open>util.go\<close>), the egress sidecar that is put into every pod (\<^verbatim>\<open>proxy.go\<close>), and the
  pod of a sandbox (\<^verbatim>\<open>sandbox.go\<close>).  The objects of the Kubernetes API carry the fields the
  program sets.  A Go map is a list of pairs with distinct keys in its iteration order; where the
  code tells a missing map, list or pointer from an empty one, it is an option.
\<close>

type_synonym smap = "(string \<times> string) list"

section \<open>Objects\<close>

record resources =
  re_requests :: smap
  re_limits :: smap

record security =
  se_user :: "int option"
  se_group :: "int option"
  se_non_root :: "bool option"
  se_escalate :: "bool option"
  se_privileged :: "bool option"
  se_caps :: "string list"
  se_apparmor :: string
  se_seccomp :: string

datatype env_var = EnvValue string string | EnvField string string

record cport =
  cp_name :: string
  cp_port :: int
  cp_proto :: string

record mount =
  mo_name :: string
  mo_path :: string
  mo_sub :: string
  mo_readonly :: bool

datatype volume_source =
    HostPath string string
  | ConfigMapVol string smap
  | SecretVol string

record volume =
  vo_name :: string
  vo_source :: volume_source

record container =
  co_name :: string
  co_image :: string
  co_command :: "string list"
  co_args :: "string list"
  co_env :: "env_var list"
  co_ports :: "cport list"
  co_mounts :: "mount list"
  co_resources :: resources
  co_security :: "security option"

record dns_config =
  dc_servers :: "string list"
  dc_searches :: "string list"
  dc_options :: smap

record pod_spec =
  ps_restart :: string
  ps_selector :: smap
  ps_pull :: "string list"
  ps_init :: "container list"
  ps_containers :: "container list"
  ps_volumes :: "volume list"
  ps_dns_policy :: string
  ps_dns :: "dns_config option"

record pod =
  po_name :: string
  po_labels :: smap
  po_spec :: pod_spec

definition blank_container :: "string \<Rightarrow> string \<Rightarrow> container" where
  "blank_container name img =
    \<lparr> co_name = name, co_image = img, co_command = [], co_args = [], co_env = [], co_ports = [],
      co_mounts = [], co_resources = \<lparr> re_requests = [], re_limits = [] \<rparr>, co_security = None \<rparr>"

definition blank_spec :: pod_spec where
  "blank_spec = \<lparr> ps_restart = '''', ps_selector = [], ps_pull = [], ps_init = [], ps_containers = [],
     ps_volumes = [], ps_dns_policy = '''', ps_dns = None \<rparr>"

definition no_security :: security where
  "no_security = \<lparr> se_user = None, se_group = None, se_non_root = None, se_escalate = None,
     se_privileged = None, se_caps = [], se_apparmor = '''', se_seccomp = '''' \<rparr>"

definition requests_limits :: "string \<Rightarrow> string \<Rightarrow> string \<Rightarrow> string \<Rightarrow> resources" where
  "requests_limits cpu mem cpu' mem' =
    \<lparr> re_requests = [(''cpu'', cpu), (''memory'', mem)], re_limits = [(''cpu'', cpu'), (''memory'', mem')] \<rparr>"

definition build_resources :: "string \<Rightarrow> string \<Rightarrow> resources" where
  "build_resources cpu mem = requests_limits cpu mem cpu mem"

definition default_resources :: resources where
  "default_resources = requests_limits ''500m'' ''512Mi'' ''2'' ''2Gi''"

section \<open>Execution profiles\<close>

record runtime_profile =
  rt_name :: string
  rt_image :: string
  rt_derived :: bool
  rt_port :: int
  rt_tun :: bool
  rt_selector :: "smap option"
  rt_devices :: "smap option"
  rt_secrets :: "string list option"
  rt_security :: "security option"
  rt_env :: "smap option"
  rt_resources :: "resources option"
  rt_timeout :: string

definition blank_profile :: runtime_profile where
  "blank_profile = \<lparr> rt_name = '''', rt_image = '''', rt_derived = False, rt_port = 0, rt_tun = False,
     rt_selector = None, rt_devices = None, rt_secrets = None, rt_security = None, rt_env = None,
     rt_resources = None, rt_timeout = '''' \<rparr>"

text \<open>
  A duration is a number of nanoseconds; \<^verbatim>\<open>parse\<close> is \<^verbatim>\<open>time.ParseDuration\<close>, nothing on a malformed
  text.
\<close>

definition one_minute :: int where
  "one_minute = 60 * 10 ^ 9"

definition ready_timeout :: "(string \<Rightarrow> int option) \<Rightarrow> runtime_profile \<Rightarrow> int" where
  "ready_timeout parse p =
    (if rt_timeout p = '''' then one_minute
     else case parse (rt_timeout p) of
            None \<Rightarrow> one_minute
          | Some d \<Rightarrow> if d \<le> 0 then one_minute else d)"

definition profile_port :: "runtime_profile \<Rightarrow> int" where
  "profile_port p = (if rt_port p \<noteq> 0 then rt_port p else 48080)"

definition vm_security :: security where
  "vm_security = no_security\<lparr> se_user := Some 0, se_escalate := Some True, se_privileged := Some False,
     se_caps := [''NET_ADMIN'', ''NET_RAW'', ''SYS_ADMIN'', ''SYS_NICE'', ''MKNOD'',
                 ''CHOWN'', ''SETUID'', ''SETGID'', ''DAC_OVERRIDE'', ''FOWNER'', ''KILL''],
     se_apparmor := ''Unconfined'', se_seccomp := ''Unconfined'' \<rparr>"

definition vm_profile :: "string \<Rightarrow> string \<Rightarrow> smap \<Rightarrow> runtime_profile" where
  "vm_profile name img env = blank_profile\<lparr>
     rt_name := name, rt_image := img, rt_port := 48080, rt_tun := True,
     rt_devices := Some [(''squat.ai/kvm'', ''1'')], rt_security := Some vm_security,
     rt_resources := Some (requests_limits ''2'' ''8Gi'' ''2'' ''8Gi''),
     rt_env := Some env, rt_timeout := ''15m'' \<rparr>"

definition default_runtimes :: "(string \<times> runtime_profile) list" where
  "default_runtimes =
    [(''linux'', blank_profile\<lparr> rt_name := ''linux'', rt_derived := True, rt_port := 48080, rt_timeout := ''60s'' \<rparr>),
     (''windows'', vm_profile ''windows'' ''easylab/vm-images/easyworker-windows:v1.2.2''
        [(''VERSION'', ''win11''), (''EDITION'', ''pro''), (''DISK_FMT'', ''qcow2''), (''MANUAL'', ''N''),
         (''SAMBA'', ''N''), (''CPU_CORES'', ''2''), (''RAM_SIZE'', ''8192M''), (''DISK_SIZE'', ''128G'')]),
     (''macos'', vm_profile ''macos'' ''easylab/vm-images/easyworker-macos:v1.2.2''
        [(''VERSION'', ''14''), (''MANUAL'', ''N''), (''CPU_CORES'', ''2''), (''RAM_SIZE'', ''8192M''),
         (''DISK_SIZE'', ''128G'')])]"

definition or_else :: "'a option \<Rightarrow> 'a option \<Rightarrow> 'a option" where
  "or_else a b = (case a of Some x \<Rightarrow> Some x | None \<Rightarrow> b)"

definition overlay :: "smap \<Rightarrow> smap \<Rightarrow> smap" where
  "overlay base over = fold (\<lambda>(k, v) m. AList.update k v m) over base"

definition merge_profile :: "runtime_profile \<Rightarrow> runtime_profile \<Rightarrow> runtime_profile" where
  "merge_profile dst src = dst\<lparr>
     rt_image := (if rt_image src \<noteq> '''' then rt_image src else rt_image dst),
     rt_derived := (if rt_image src \<noteq> '''' then rt_derived src else rt_derived dst),
     rt_port := (if rt_port src \<noteq> 0 then rt_port src else rt_port dst),
     rt_tun := (rt_tun src \<or> rt_tun dst),
     rt_selector := or_else (rt_selector src) (rt_selector dst),
     rt_devices := or_else (rt_devices src) (rt_devices dst),
     rt_secrets := or_else (rt_secrets src) (rt_secrets dst),
     rt_security := or_else (rt_security src) (rt_security dst),
     rt_env := (case rt_env src of
                  None \<Rightarrow> rt_env dst
                | Some over \<Rightarrow> Some (overlay (case rt_env dst of None \<Rightarrow> [] | Some m \<Rightarrow> m) over)),
     rt_resources := or_else (rt_resources src) (rt_resources dst),
     rt_timeout := (if rt_timeout src \<noteq> '''' then rt_timeout src else rt_timeout dst) \<rparr>"

text \<open>
  The deployment's overrides come as the text of a JSON object; \<^verbatim>\<open>decode\<close> is the JSON decoder of
  the standard library at this type, nothing on a malformed text.
\<close>

definition new_profile :: "string \<Rightarrow> runtime_profile" where
  "new_profile name = blank_profile\<lparr> rt_name := name, rt_port := 48080 \<rparr>"

definition override_one :: "string \<times> runtime_profile \<Rightarrow> (string \<times> runtime_profile) list
    \<Rightarrow> (string \<times> runtime_profile) list" where
  "override_one np out =
    (let base = (case map_of out (fst np) of Some b \<Rightarrow> b | None \<Rightarrow> new_profile (fst np))
     in AList.update (fst np) (merge_profile (base\<lparr> rt_name := fst np \<rparr>) (snd np)) out)"

definition load_runtimes :: "(string \<Rightarrow> (string \<times> runtime_profile) list option) \<Rightarrow> string
    \<Rightarrow> (string \<times> runtime_profile) list" where
  "load_runtimes decode env =
    (let raw = trim_space env in
     if raw = '''' then default_runtimes
     else case decode raw of
            None \<Rightarrow> default_runtimes
          | Some over \<Rightarrow> fold override_one over default_runtimes)"

section \<open>The client\<close>

record egress_policy =
  eg_enabled :: bool
  eg_image :: string
  eg_gateway :: string
  eg_ca_cert :: string
  eg_ca_key :: string
  eg_spoof_dns :: string
  eg_upstream :: string
  eg_domain :: string
  eg_capture :: bool
  eg_forward :: bool
  eg_mitm :: bool
  eg_udp_allow :: "string list"
  eg_udp_mode :: string
  eg_default_mode :: string
  eg_exempt :: "string list"
  eg_web_ports :: "int list"

record kube_config =
  cf_namespace :: string
  cf_buildkit :: string
  cf_registry :: string
  cf_token :: string
  cf_proxy :: string
  cf_disabled :: bool
  cf_image :: string
  cf_gateway :: string
  cf_ca_cert :: string
  cf_ca_key :: string
  cf_mode :: string
  cf_spoof_dns :: string
  cf_upstream :: string
  cf_domain :: string
  cf_mitm :: bool
  cf_udp_allow :: "string list"
  cf_udp_mode :: string
  cf_default_mode :: string
  cf_exempt :: "string list"
  cf_forward :: bool
  cf_tcp_ports :: "int list"

record kube_client =
  kc_namespace :: string
  kc_buildkit :: string
  kc_registry :: string
  kc_token :: string
  kc_proxy :: string
  kc_runtimes :: "(string \<times> runtime_profile) list"
  kc_egress :: egress_policy

definition or_default :: "string \<Rightarrow> string \<Rightarrow> string" where
  "or_default v d = (if v = '''' then d else v)"

definition new_client :: "(string \<times> runtime_profile) list \<Rightarrow> kube_config \<Rightarrow> kube_client" where
  "new_client runtimes cfg =
    (let registry = or_default (cf_registry cfg) ''easylab'' in
     \<lparr> kc_namespace = or_default (cf_namespace cfg) ''default'',
       kc_buildkit = or_default (cf_buildkit cfg) ''easylab/buildkit-worker:latest'',
       kc_registry = registry, kc_token = cf_token cfg, kc_proxy = cf_proxy cfg, kc_runtimes = runtimes,
       kc_egress = \<lparr>
         eg_enabled = (\<not> cf_disabled cfg),
         eg_image = or_default (cf_image cfg) ''easylab/easysidecar:v0.1.0'',
         eg_gateway = or_default (cf_gateway cfg) registry,
         eg_ca_cert = cf_ca_cert cfg, eg_ca_key = cf_ca_key cfg, eg_spoof_dns = cf_spoof_dns cfg,
         eg_upstream = cf_upstream cfg, eg_domain = cf_domain cfg, eg_capture = (cf_mode cfg = ''capture''),
         eg_forward = cf_forward cfg, eg_mitm = cf_mitm cfg, eg_udp_allow = cf_udp_allow cfg,
         eg_udp_mode = cf_udp_mode cfg, eg_default_mode = cf_default_mode cfg, eg_exempt = cf_exempt cfg,
         eg_web_ports = [] \<rparr> \<rparr>)"

definition service_dns :: "kube_client \<Rightarrow> string \<Rightarrow> string" where
  "service_dns c name = name @ ''.'' @ kc_namespace c @ ''.svc.cluster.local''"

definition qualify_runtime_image :: "kube_client \<Rightarrow> string \<Rightarrow> string" where
  "qualify_runtime_image c ref = ref_local ref (kc_registry c) ''''"

definition rewrite_image_ref :: "kube_client \<Rightarrow> string \<Rightarrow> string" where
  "rewrite_image_ref c ref = pull_through ref (kc_registry c)"

definition resolve_runtime :: "kube_client \<Rightarrow> string \<Rightarrow> string + runtime_profile" where
  "resolve_runtime c name0 =
    (let name = or_default name0 ''linux'' in
     case map_of (kc_runtimes c) name of
       None \<Rightarrow> Inl (''unknown sandbox runtime '' @ go_quote name)
     | Some p \<Rightarrow>
         if rt_derived p then Inr p
         else if rt_image p = '''' then Inl (''sandbox runtime '' @ go_quote name @ '' has no image configured'')
         else Inr (p\<lparr> rt_image := qualify_runtime_image c (rt_image p) \<rparr>))"

definition proxy_vars :: "kube_client \<Rightarrow> smap" where
  "proxy_vars c =
    (if kc_proxy c = '''' then []
     else [(''HTTP_PROXY'', kc_proxy c), (''HTTPS_PROXY'', kc_proxy c),
           (''NO_PROXY'', ''localhost,127.0.0.1,.svc.cluster.local,.svc,'' @ kc_registry c)])"

text \<open>The reference an image's build cache is kept under.\<close>

definition cache_ref_for :: "kube_client \<Rightarrow> string \<Rightarrow> string" where
  "cache_ref_for c img =
    (let host = (case cut_at CHR ''/'' img of Some (h, _) \<Rightarrow> h | None \<Rightarrow> '''');
         (name, tag) =
           (case cut_last CHR '':'' img of
              Some (n, t) \<Rightarrow> if CHR ''/'' \<in> set t then (img, ''latest'') else (n, t)
            | None \<Rightarrow> (img, ''latest''));
         repo = (if host \<noteq> '''' then drop (length host + 1) name else name)
     in kc_registry c @ ''/easylab-cache/'' @ repo @ '':'' @ tag)"

section \<open>Errors of the API\<close>

definition is_not_found :: "string \<Rightarrow> bool" where
  "is_not_found e = contains_sub ''not found'' e"

definition is_already_exists :: "string \<Rightarrow> bool" where
  "is_already_exists e = contains_sub ''already exists'' e"

definition split_lines :: "string \<Rightarrow> string list" where
  "split_lines s = filter (\<lambda>l. l \<noteq> '''') (split_on CHR 0x0A s)"

end
