(* ===== verification/Kube_Egress.thy ===== *)
theory Kube_Egress
imports Kube_Pod
begin

text \<open>
  The egress sidecar (\<^verbatim>\<open>internal/k8s/proxy.go\<close>, and the default policy in \<^verbatim>\<open>client.go\<close>): what
  \<^verbatim>\<open>withProxy\<close> adds to a pod, and the pod of a sandbox (\<^verbatim>\<open>sandbox.go\<close>).

  The code adds the device limits of a profile to the map of limits the profile itself holds.  Every
  caller takes both from the same profile, so writing them again changes no value, and the pod is modelled
  without the sharing.
\<close>

record proxy_spec =
  px_rules :: string
  px_mitm :: bool
  px_ca_cert :: string
  px_ca_key :: string
  px_image :: string
  px_spoof_dns :: string
  px_upstream :: string
  px_self_ip :: string
  px_domain :: string
  px_capture :: bool
  px_capture_addr :: string
  px_udp_allow :: "string list"
  px_udp_mode :: string
  px_default_mode :: string
  px_exempt :: "string list"
  px_forward :: bool
  px_web_ports :: "int list"

text \<open>
  The text of the default rules is rendered by the shared target table of another module:
  \<^verbatim>\<open>render\<close> takes the gateway, whether to decrypt by default, and the heading.
\<close>

definition default_rules_yaml :: "(string \<Rightarrow> bool \<Rightarrow> string \<Rightarrow> string) \<Rightarrow> string \<Rightarrow> bool \<Rightarrow> string" where
  "default_rules_yaml render gateway mitm =
    render gateway mitm ''easysidecar default egress policy (managed by easylab).''"

definition egress_spec_for :: "(string \<Rightarrow> bool \<Rightarrow> string \<Rightarrow> string) \<Rightarrow> kube_client \<Rightarrow> bool \<Rightarrow> proxy_spec option" where
  "egress_spec_for render c is_service =
    (let e = kc_egress c in
     if \<not> eg_enabled e then None
     else Some \<lparr> px_rules = default_rules_yaml render (eg_gateway e) (eg_mitm e), px_mitm = eg_mitm e,
       px_ca_cert = eg_ca_cert e, px_ca_key = eg_ca_key e, px_image = eg_image e,
       px_spoof_dns = eg_spoof_dns e, px_upstream = eg_upstream e, px_self_ip = '''',
       px_domain = eg_domain e, px_capture = eg_capture e, px_capture_addr = '''',
       px_udp_allow = eg_udp_allow e, px_udp_mode = eg_udp_mode e, px_default_mode = eg_default_mode e,
       px_exempt = eg_exempt e, px_forward = eg_forward e, px_web_ports = eg_web_ports e \<rparr>)"

definition proxy_config_map_name :: "string \<Rightarrow> string" where
  "proxy_config_map_name pod = pod @ ''-easysidecar-rules''"

definition proxy_ca_secret_name :: "string \<Rightarrow> string" where
  "proxy_ca_secret_name pod = pod @ ''-easysidecar-ca''"

definition mode_or :: "string \<Rightarrow> string \<Rightarrow> string" where
  "mode_or v d = (if trim_space v = '''' then d else v)"

definition capture_port :: "string \<Rightarrow> int" where
  "capture_port addr =
    (case cut_last CHR '':'' addr of
       Some (_, port) \<Rightarrow> (case parse_int64 port of Some p \<Rightarrow> int32_of p | None \<Rightarrow> 15001)
     | None \<Rightarrow> 15001)"

definition proxy_ca_path :: string where
  "proxy_ca_path = ''/etc/easysidecar/ca.crt''"

definition capture_addr_of :: "proxy_spec \<Rightarrow> string" where
  "capture_addr_of p = (if px_capture p \<and> px_capture_addr p = '''' then ''0.0.0.0:15001'' else px_capture_addr p)"

definition comma_list :: "string \<Rightarrow> string list \<Rightarrow> string list" where
  "comma_list flag xs = (if xs = [] then [] else [flag @ join_with '','' xs])"

definition sidecar_args :: "proxy_spec \<Rightarrow> string list" where
  "sidecar_args p =
    [''--rules=/etc/easysidecar/rules.yaml'']
    @ (if px_capture p then
         [''--mode=capture'', ''--capture-addr='' @ capture_addr_of p, ''--capture-dns'',
          ''--spoof-dns-addr=0.0.0.0:53'', ''--upstream-dns='' @ px_spoof_dns p,
          ''--capture-udp-mode='' @ mode_or (px_udp_mode p) ''log'',
          ''--capture-default-mode='' @ mode_or (px_default_mode p) ''log'']
         @ comma_list ''--capture-udp-allow='' (px_udp_allow p)
         @ comma_list ''--capture-exempt-cidrs='' (px_exempt p)
         @ (if px_forward p then [''--capture-forward-addr=0.0.0.0:15006''] else [])
         @ comma_list ''--capture-tcp-ports='' (map dec_int (px_web_ports p))
       else
         [''--mode=proxy'', ''--spoof'', ''--spoof-dns-addr=0.0.0.0:53'', ''--spoof-tls-addr=0.0.0.0:443'',
          ''--spoof-http-addr=0.0.0.0:80'', ''--upstream-dns='' @ px_spoof_dns p])
    @ (if px_upstream p \<noteq> '''' then [''--upstream-proxy='' @ px_upstream p] else [])
    @ (if px_ca_cert p \<noteq> '''' then [''--ca-cert=/etc/easysidecar/ca/ca.crt'', ''--ca-key=/etc/easysidecar/ca/ca.key''] else [])
    @ (if px_mitm p then [''--mitm-default''] else [])"

definition read_only_mount :: "string \<Rightarrow> string \<Rightarrow> mount" where
  "read_only_mount name path = \<lparr> mo_name = name, mo_path = path, mo_sub = '''', mo_readonly = True \<rparr>"

definition net_admin :: security where
  "net_admin = no_security\<lparr> se_caps := [''NET_ADMIN''] \<rparr>"

definition sidecar :: "proxy_spec \<Rightarrow> container" where
  "sidecar p = (blank_container ''easysidecar'' (px_image p))\<lparr>
     co_args := sidecar_args p,
     co_ports :=
       (if px_capture p then [\<lparr> cp_name = ''capture'', cp_port = capture_port (capture_addr_of p), cp_proto = '''' \<rparr>]
        else [\<lparr> cp_name = ''dns'', cp_port = 53, cp_proto = ''UDP'' \<rparr>, \<lparr> cp_name = ''dns-tcp'', cp_port = 53, cp_proto = ''TCP'' \<rparr>,
              \<lparr> cp_name = ''tls'', cp_port = 443, cp_proto = '''' \<rparr>, \<lparr> cp_name = ''http'', cp_port = 80, cp_proto = '''' \<rparr>]),
     co_resources := requests_limits ''50m'' ''64Mi'' ''500m'' ''256Mi'',
     co_mounts := [read_only_mount ''easysidecar-rules'' ''/etc/easysidecar'',
                   read_only_mount ''easysidecar-ca'' ''/etc/easysidecar/ca''],
     co_security := (if px_capture p then Some net_admin else None) \<rparr>"

definition capture_init :: "proxy_spec \<Rightarrow> container" where
  "capture_init p = (blank_container ''easysidecar-capture-init'' (px_image p))\<lparr>
     co_args := [''--mode=capture'', ''--capture-init'', ''--capture-addr='' @ capture_addr_of p],
     co_security := Some net_admin,
     co_resources := requests_limits ''20m'' ''32Mi'' ''200m'' ''128Mi'' \<rparr>"

definition proxy_volumes :: "string \<Rightarrow> proxy_spec \<Rightarrow> volume list" where
  "proxy_volumes workload p =
    \<lparr> vo_name = ''easysidecar-rules'',
      vo_source = ConfigMapVol (proxy_config_map_name workload) [(''rules.yaml'', ''rules.yaml'')] \<rparr>
    # (if px_ca_cert p \<noteq> ''''
       then [\<lparr> vo_name = ''easysidecar-ca'', vo_source = SecretVol (proxy_ca_secret_name workload) \<rparr>] else [])"

definition proxy_dns :: "string \<Rightarrow> proxy_spec \<Rightarrow> dns_config" where
  "proxy_dns ns p =
    (let domain = or_default (px_domain p) ''cluster.local'' in
     \<lparr> dc_servers = [''127.0.0.1''],
       dc_searches = [ns @ ''.svc.'' @ domain, ''svc.'' @ domain, domain],
       dc_options = [(''ndots'', ''5'')] \<rparr>)"

text \<open>What every container of the pod gets at the end: the sidecar its address, the others the trust.\<close>

definition pod_ip_env :: env_var where
  "pod_ip_env = EnvField ''POD_IP'' ''status.podIP''"

definition ca_mount :: mount where
  "ca_mount = \<lparr> mo_name = ''easysidecar-ca'', mo_path = proxy_ca_path, mo_sub = ''ca.crt'', mo_readonly = True \<rparr>"

definition trust_ca :: "proxy_spec \<Rightarrow> container \<Rightarrow> container" where
  "trust_ca p co =
    (if co_name co = ''easysidecar'' then co\<lparr> co_env := co_env co @ [pod_ip_env] \<rparr>
     else if px_ca_cert p \<noteq> ''''
     then co\<lparr> co_env := co_env co @ [EnvValue ''SSL_CERT_FILE'' proxy_ca_path,
               EnvValue ''NODE_EXTRA_CA_CERTS'' proxy_ca_path, EnvValue ''REQUESTS_CA_BUNDLE'' proxy_ca_path],
             co_mounts := co_mounts co @ [ca_mount] \<rparr>
     else co)"

definition has_rewrite :: "proxy_spec \<Rightarrow> bool" where
  "has_rewrite p = contains_sub ''action: rewrite'' (px_rules p)"

definition proxy_refusal :: "proxy_spec \<Rightarrow> string option" where
  "proxy_refusal p =
    (if px_image p = '''' then Some ''proxy: image required''
     else if trim_space (px_rules p) = '''' then Some ''proxy: rules required''
     else if trim_space (px_spoof_dns p) = '''' then Some ''proxy: SpoofUpstreamDNS required (cluster resolver)''
     else if has_rewrite p \<and> px_ca_cert p = '''' then Some ''proxy: rewrite rules require a CA certificate''
     else None)"

definition with_proxy :: "pod_spec \<Rightarrow> string \<Rightarrow> string \<Rightarrow> proxy_spec option \<Rightarrow> string + pod_spec" where
  "with_proxy spec workload ns proxy =
    (case proxy of
       None \<Rightarrow> Inr spec
     | Some p \<Rightarrow>
         (case proxy_refusal p of
            Some e \<Rightarrow> Inl e
          | None \<Rightarrow>
              Inr (spec\<lparr>
                ps_init := ps_init spec @ (if px_capture p then [capture_init p] else []),
                ps_containers := map (trust_ca p) (ps_containers spec @ [sidecar p]),
                ps_volumes := ps_volumes spec @ proxy_volumes workload p,
                ps_dns_policy := ''None'',
                ps_dns := Some (proxy_dns ns p) \<rparr>)))"

section \<open>The pod of a sandbox\<close>

record sandbox_spec =
  sp_name :: string
  sp_image :: string
  sp_workspace :: string
  sp_env :: smap
  sp_command :: "string list"
  sp_devices :: smap
  sp_selector :: smap
  sp_tun :: bool
  sp_port :: int
  sp_profile :: "runtime_profile option"
  sp_worker_dir :: string
  sp_no_service :: bool
  sp_proxy :: "proxy_spec option"
  sp_no_proxy :: bool

definition spec_port :: "sandbox_spec \<Rightarrow> int" where
  "spec_port s = (if sp_port s \<noteq> 0 then sp_port s else 48080)"

definition nonempty_or :: "smap option \<Rightarrow> smap \<Rightarrow> smap" where
  "nonempty_or m d = (case m of Some (x # xs) \<Rightarrow> x # xs | _ \<Rightarrow> d)"

definition add_limits :: "smap \<Rightarrow> resources \<Rightarrow> resources" where
  "add_limits devices r = r\<lparr> re_limits := overlay (re_limits r) devices \<rparr>"

definition sandbox_tun :: "sandbox_spec \<Rightarrow> bool" where
  "sandbox_tun s = (sp_tun s \<or> (case sp_profile s of Some p \<Rightarrow> rt_tun p | None \<Rightarrow> False))"

definition sandbox_devices :: "sandbox_spec \<Rightarrow> smap" where
  "sandbox_devices s = nonempty_or (Option.bind (sp_profile s) rt_devices) (sp_devices s)"

definition tun_volume :: volume where
  "tun_volume = \<lparr> vo_name = ''devtun'', vo_source = HostPath ''/dev/net/tun'' ''CharDevice'' \<rparr>"

definition worker_volume :: "string \<Rightarrow> volume" where
  "worker_volume dir = \<lparr> vo_name = ''worker-bin'', vo_source = HostPath dir ''DirectoryOrCreate'' \<rparr>"

definition rw_mount :: "string \<Rightarrow> string \<Rightarrow> mount" where
  "rw_mount name path = \<lparr> mo_name = name, mo_path = path, mo_sub = '''', mo_readonly = False \<rparr>"

definition worker_env :: "sandbox_spec \<Rightarrow> env_var list" where
  "worker_env s =
    [EnvValue ''WORKER_WORKSPACE'' (or_default (sp_workspace s) ''/workspace''),
     EnvValue ''WORKER_PORT'' (dec_int (spec_port s))]
    @ map (\<lambda>(k, v). EnvValue k v) (sp_env s)"

definition worker_container :: "sandbox_spec \<Rightarrow> container" where
  "worker_container s =
    (let prof = sp_profile s;
         res = (case Option.bind prof rt_resources of Some r \<Rightarrow> r | None \<Rightarrow> default_resources);
         dir = sp_worker_dir s
     in (blank_container ''worker'' (sp_image s))\<lparr>
          co_env := worker_env s,
          co_ports := [\<lparr> cp_name = ''worker'', cp_port = spec_port s, cp_proto = '''' \<rparr>],
          co_resources := add_limits (sandbox_devices s) res,
          co_security := Option.bind prof rt_security,
          co_command := (if sp_command s \<noteq> [] then sp_command s
                         else if dir \<noteq> '''' then [''/easylab-worker/easyworker''] else []),
          co_mounts := (if sandbox_tun s then [rw_mount ''devtun'' ''/dev/net/tun''] else [])
                       @ (if dir \<noteq> '''' then [rw_mount ''worker-bin'' ''/easylab-worker''] else []) \<rparr>)"

definition sandbox_pod :: "sandbox_spec \<Rightarrow> pod" where
  "sandbox_pod s =
    \<lparr> po_name = sp_name s,
      po_labels = [(''easylab/sandbox'', ''1''), (''app'', sp_name s)],
      po_spec = blank_spec\<lparr>
        ps_restart := ''Always'',
        ps_selector := nonempty_or (Option.bind (sp_profile s) rt_selector) (sp_selector s),
        ps_pull := (case Option.bind (sp_profile s) rt_secrets of Some xs \<Rightarrow> xs | None \<Rightarrow> []),
        ps_volumes := (if sandbox_tun s then [tun_volume] else [])
                      @ (if sp_worker_dir s \<noteq> '''' then [worker_volume (sp_worker_dir s)] else []),
        ps_containers := [worker_container s] \<rparr> \<rparr>"

definition sandbox_proxy :: "(string \<Rightarrow> bool \<Rightarrow> string \<Rightarrow> string) \<Rightarrow> kube_client \<Rightarrow> sandbox_spec \<Rightarrow> proxy_spec option" where
  "sandbox_proxy render c s =
    (let proxy = (if sp_proxy s = None \<and> \<not> sp_no_proxy s then egress_spec_for render c False else sp_proxy s)
     in if sp_tun s then None else proxy)"

section \<open>What the sidecar changes\<close>

text \<open>A pod is accepted only if every mount of its containers names a volume of the pod.\<close>

definition mounts_declared :: "pod_spec \<Rightarrow> bool" where
  "mounts_declared spec \<longleftrightarrow>
    (\<forall>co \<in> set (ps_init spec @ ps_containers spec). \<forall>m \<in> set (co_mounts co).
       mo_name m \<in> vo_name ` set (ps_volumes spec))"

text \<open>What a container may do and what it runs, apart from its environment and mounts.\<close>

definition same_workload :: "container \<Rightarrow> container \<Rightarrow> bool" where
  "same_workload a b \<longleftrightarrow>
    co_name b = co_name a \<and> co_image b = co_image a \<and> co_command b = co_command a \<and> co_args b = co_args a
    \<and> co_ports b = co_ports a \<and> co_resources b = co_resources a \<and> co_security b = co_security a
    \<and> (\<exists>e. co_env b = co_env a @ e) \<and> (\<exists>m. co_mounts b = co_mounts a @ m)"

lemma trust_ca_same: "same_workload co (trust_ca p co)"
  by (simp add: same_workload_def trust_ca_def)

lemma trust_ca_name [simp]: "co_name (trust_ca p co) = co_name co"
  by (simp add: trust_ca_def)

lemma trust_ca_mounts:
  "co_mounts (trust_ca p co) =
    co_mounts co @ (if co_name co \<noteq> ''easysidecar'' \<and> px_ca_cert p \<noteq> '''' then [ca_mount] else [])"
  by (simp add: trust_ca_def)

lemma with_proxy_Inr:
  "with_proxy spec w ns (Some p) = Inr spec' \<longleftrightarrow>
    proxy_refusal p = None \<and>
    spec' = spec\<lparr> ps_init := ps_init spec @ (if px_capture p then [capture_init p] else []),
                ps_containers := map (trust_ca p) (ps_containers spec @ [sidecar p]),
                ps_volumes := ps_volumes spec @ proxy_volumes w p,
                ps_dns_policy := ''None'',
                ps_dns := Some (proxy_dns ns p) \<rparr>"
  by (auto simp: with_proxy_def split: option.splits)

lemma sidecar_mounts:
  "co_mounts (trust_ca p (sidecar p)) =
    [read_only_mount ''easysidecar-rules'' ''/etc/easysidecar'', read_only_mount ''easysidecar-ca'' ''/etc/easysidecar/ca'']"
  by (simp add: trust_ca_mounts sidecar_def blank_container_def)

lemma proxy_volume_names:
  "vo_name ` set (proxy_volumes w p) =
    (if px_ca_cert p \<noteq> '''' then {''easysidecar-rules'', ''easysidecar-ca''} else {''easysidecar-rules''})"
  by (simp add: proxy_volumes_def)

lemma with_proxy_mounts:
  assumes "with_proxy spec w ns (Some p) = Inr spec'" "mounts_declared spec"
    "''easysidecar-ca'' \<notin> vo_name ` set (ps_volumes spec)"
  shows "mounts_declared spec' \<longleftrightarrow> px_ca_cert p \<noteq> ''''"
proof -
  let ?N = "vo_name ` set (ps_volumes spec) \<union> vo_name ` set (proxy_volumes w p)"
  have s: "spec' = spec\<lparr> ps_init := ps_init spec @ (if px_capture p then [capture_init p] else []),
      ps_containers := map (trust_ca p) (ps_containers spec @ [sidecar p]),
      ps_volumes := ps_volumes spec @ proxy_volumes w p, ps_dns_policy := ''None'', ps_dns := Some (proxy_dns ns p) \<rparr>"
    using assms(1) by (simp add: with_proxy_Inr)
  have side: "mounts_declared spec' \<Longrightarrow> ''easysidecar-ca'' \<in> ?N"
    unfolding mounts_declared_def s by (auto simp: sidecar_mounts read_only_mount_def image_Un)
  have old: "mo_name m \<in> ?N" if "co \<in> set (ps_init spec @ ps_containers spec)" "m \<in> set (co_mounts co)" for co m
    using assms(2) that unfolding mounts_declared_def by blast
  have init: "co_mounts (capture_init p) = []" by (simp add: capture_init_def blank_container_def)
  show ?thesis
  proof
    assume "mounts_declared spec'"
    then show "px_ca_cert p \<noteq> ''''" using side assms(3) by (auto simp: proxy_volume_names)
  next
    assume ca: "px_ca_cert p \<noteq> ''''"
    have "mo_name m \<in> ?N" if cm: "co \<in> set (ps_init spec' @ ps_containers spec')" and mm: "m \<in> set (co_mounts co)" for co m
    proof -
      have n: "''easysidecar-ca'' \<in> ?N" "''easysidecar-rules'' \<in> ?N" using ca by (simp_all add: proxy_volume_names)
      consider "co \<in> set (ps_init spec)" | "co = capture_init p" | "co = trust_ca p (sidecar p)"
        | c where "c \<in> set (ps_containers spec)" "co = trust_ca p c"
        using cm unfolding s by (auto simp del: trust_ca_name split: if_splits)
      then show ?thesis
      proof cases
        case 1 then show ?thesis using old[of co m] mm by simp
      next
        case 2 then show ?thesis using mm init by simp
      next
        case 3 then show ?thesis using mm n by (auto simp: sidecar_mounts read_only_mount_def)
      next
        case 4
        then have "m \<in> set (co_mounts c) \<or> m = ca_mount"
          using mm by (auto simp: trust_ca_mounts split: if_splits)
        then show ?thesis using old[of c m] 4(1) n(1) by (auto simp: ca_mount_def)
      qed
    qed
    then show "mounts_declared spec'" unfolding mounts_declared_def s by (simp add: image_Un)
  qed
qed

lemma sandbox_pod_declared: "mounts_declared (po_spec (sandbox_pod s))"
  by (auto simp: mounts_declared_def sandbox_pod_def blank_spec_def worker_container_def blank_container_def Let_def
      rw_mount_def tun_volume_def worker_volume_def)

lemma sandbox_pod_volumes: "''easysidecar-ca'' \<notin> vo_name ` set (ps_volumes (po_spec (sandbox_pod s)))"
  by (auto simp: sandbox_pod_def tun_volume_def worker_volume_def)

lemma with_proxy_workloads:
  assumes "with_proxy spec w ns (Some p) = Inr spec'"
  shows "length (ps_containers spec') = Suc (length (ps_containers spec))"
    "i < length (ps_containers spec) \<Longrightarrow> same_workload (ps_containers spec ! i) (ps_containers spec' ! i)"
    "last (ps_containers spec') = trust_ca p (sidecar p)"
    "ps_init spec' = ps_init spec @ (if px_capture p then [capture_init p] else [])"
  using assms by (auto simp: with_proxy_Inr nth_append trust_ca_same)

text \<open>
  C19: The pod of a sandbox under an egress policy.  It is refused exactly for a policy without an
  image, without rules, without a resolver, or with rewrite rules but no certificate.  Otherwise the
  worker keeps its image, command, ports, resources and privileges, gains only environment and
  mounts, and stands beside one sidecar; the administration of the network is granted to the sidecar
  in capture mode only; and every mount names a volume of the pod exactly when the policy has a
  certificate: without one the sidecar still mounts the certificate's volume, which the pod does not
  declare.
\<close>
theorem sandbox_egress_spec:
  "case with_proxy (po_spec (sandbox_pod s)) w ns (Some p) of
     Inl _ \<Rightarrow> px_image p = '''' \<or> trim_space (px_rules p) = '''' \<or> trim_space (px_spoof_dns p) = ''''
            \<or> (has_rewrite p \<and> px_ca_cert p = '''')
   | Inr spec' \<Rightarrow>
       px_image p \<noteq> '''' \<and> trim_space (px_rules p) \<noteq> '''' \<and> trim_space (px_spoof_dns p) \<noteq> ''''
       \<and> \<not> (has_rewrite p \<and> px_ca_cert p = '''')
       \<and> (\<exists>worker side. ps_containers spec' = [worker, side] \<and> same_workload (worker_container s) worker
           \<and> co_name side = ''easysidecar'' \<and> co_security side = (if px_capture p then Some net_admin else None))
       \<and> (mounts_declared spec' \<longleftrightarrow> px_ca_cert p \<noteq> '''')"
proof (cases "with_proxy (po_spec (sandbox_pod s)) w ns (Some p)")
  case (Inl e)
  then show ?thesis by (auto simp: with_proxy_def proxy_refusal_def split: if_splits option.splits)
next
  case (Inr spec')
  let ?spec = "po_spec (sandbox_pod s)"
  have r: "proxy_refusal p = None" using Inr by (simp add: with_proxy_Inr)
  have c: "ps_containers ?spec = [worker_container s]" by (simp add: sandbox_pod_def)
  have "ps_containers spec' = [trust_ca p (worker_container s), trust_ca p (sidecar p)]"
    using Inr c by (simp add: with_proxy_Inr)
  moreover have "co_name (trust_ca p (sidecar p)) = ''easysidecar''"
    by (simp add: sidecar_def blank_container_def)
  moreover have "co_security (trust_ca p (sidecar p)) = (if px_capture p then Some net_admin else None)"
    by (simp add: trust_ca_def sidecar_def)
  ultimately have "\<exists>worker side. ps_containers spec' = [worker, side] \<and> same_workload (worker_container s) worker
      \<and> co_name side = ''easysidecar'' \<and> co_security side = (if px_capture p then Some net_admin else None)"
    using trust_ca_same by blast
  moreover have "mounts_declared spec' \<longleftrightarrow> px_ca_cert p \<noteq> ''''"
    by (rule with_proxy_mounts[OF Inr sandbox_pod_declared sandbox_pod_volumes])
  ultimately show ?thesis using r Inr by (auto simp: proxy_refusal_def split: if_splits)
qed

end
