(* ===== verification/Kube_Client.thy ===== *)
theory Kube_Client
imports Kube_Egress
begin

text \<open>
  The operations of the Kubernetes client (\<^verbatim>\<open>internal/k8s/sandbox.go\<close>, \<^verbatim>\<open>service.go\<close>,
  \<^verbatim>\<open>proxy.go\<close>).  The API server and the network are third parties: a record of their answers over
  an opaque world \<^verbatim>\<open>'k\<close>, all within the client's namespace.  An error of the API is its text, which
  is all the client looks at.  Waiting goes through \<^verbatim>\<open>ka_pause\<close>, which lets the given milliseconds
  pass or answers the error of a context that has ended; \<^verbatim>\<open>ka_now\<close> is the clock in milliseconds.

  The polling loops of the client are one loop, \<^verbatim>\<open>poll\<close>, that looks, waits and looks again until its
  deadline.  It returns whenever the clock goes on while it waits.
\<close>

section \<open>The cluster\<close>

record pod_status =
  pt_phase :: string
  pt_ip :: string
  pt_ready :: "bool list"

record deployment =
  de_name :: string
  de_version :: string
  de_labels :: smap
  de_selector :: smap
  de_replicas :: int
  de_spec :: pod_spec
  de_ready :: int

record service_port =
  sv_name :: string
  sv_port :: int
  sv_target :: int

record kservice =
  ks_name :: string
  ks_labels :: smap
  ks_selector :: smap
  ks_ports :: "service_port list"

record kdata =
  kd_name :: string
  kd_data :: smap

record 'k kube_api =
  ka_pod_create :: "pod \<Rightarrow> 'k \<Rightarrow> (string + unit) \<times> 'k"
  ka_pod_delete :: "string \<Rightarrow> 'k \<Rightarrow> (string + unit) \<times> 'k"
  ka_pod :: "'k \<Rightarrow> string \<Rightarrow> string + pod_status"
  ka_pods :: "'k \<Rightarrow> string + (string \<times> pod_status) list"
  ka_svc_create :: "kservice \<Rightarrow> 'k \<Rightarrow> (string + unit) \<times> 'k"
  ka_svc_delete :: "string \<Rightarrow> 'k \<Rightarrow> (string + unit) \<times> 'k"
  ka_cm_create :: "kdata \<Rightarrow> 'k \<Rightarrow> (string + unit) \<times> 'k"
  ka_cm_update :: "kdata \<Rightarrow> 'k \<Rightarrow> (string + unit) \<times> 'k"
  ka_secret_create :: "kdata \<Rightarrow> 'k \<Rightarrow> (string + unit) \<times> 'k"
  ka_secret_update :: "kdata \<Rightarrow> 'k \<Rightarrow> (string + unit) \<times> 'k"
  ka_dep_create :: "deployment \<Rightarrow> 'k \<Rightarrow> (string + unit) \<times> 'k"
  ka_dep_replace :: "deployment \<Rightarrow> 'k \<Rightarrow> (string + unit) \<times> 'k"
  ka_dep_delete :: "string \<Rightarrow> 'k \<Rightarrow> (string + unit) \<times> 'k"
  ka_dep :: "'k \<Rightarrow> string \<Rightarrow> string + deployment"
  ka_deps :: "'k \<Rightarrow> string + deployment list"
  ka_dial :: "'k \<Rightarrow> string \<Rightarrow> string option"
  ka_now :: "'k \<Rightarrow> int"
  ka_pause :: "int \<Rightarrow> 'k \<Rightarrow> string option \<times> 'k"
  ka_quantity :: "string \<Rightarrow> bool"
  ka_parse_duration :: "string \<Rightarrow> int option"
  ka_show_duration :: "int \<Rightarrow> string"
  ka_render :: "string \<Rightarrow> bool \<Rightarrow> string \<Rightarrow> string"

record sandbox_status =
  st_name :: string
  st_phase :: string
  st_ip :: string
  st_ready :: bool
  st_service :: string
  st_owner :: string
  st_org :: string
  st_repo :: string
  st_session :: string

section \<open>Calls and polling\<close>

definition api :: "('k \<Rightarrow> (string + 'b) \<times> 'k) \<Rightarrow> ('k, 'b) act" where
  "api f = effect OtherCode f give"

definition ask :: "('k \<Rightarrow> string + 'b) \<Rightarrow> ('k, 'b) act" where
  "ask f = look OtherCode f give"

definition plain :: "string \<Rightarrow> ('k, 'a) act" where
  "plain m = refuse OtherCode m"

datatype ('s, 'b) poll_end = Found 'b | Cancelled string | TimedOut 's

partial_function (option) poll :: "('k \<Rightarrow> int) \<Rightarrow> ('k \<Rightarrow> string option \<times> 'k) \<Rightarrow> int \<Rightarrow> ('s \<Rightarrow> 'k \<Rightarrow> 's + 'b)
    \<Rightarrow> 's \<Rightarrow> 'k \<Rightarrow> (('s, 'b) poll_end \<times> 'k) option" where
  "poll now pause deadline probe s k =
    (if now k < deadline then
       (case probe s k of
          Inr b \<Rightarrow> Some (Found b, k)
        | Inl s' \<Rightarrow>
            (case pause k of
               (Some e, k') \<Rightarrow> Some (Cancelled e, k')
             | (None, k') \<Rightarrow> poll now pause deadline probe s' k'))
     else Some (TimedOut s, k))"

declare poll.simps [code]

definition polling :: "('k \<Rightarrow> (('s, 'b) poll_end \<times> 'k) option) \<Rightarrow> (('s, 'b) poll_end \<Rightarrow> ('k, 'a) act) \<Rightarrow> ('k, 'a) act" where
  "polling p f k = (case p k of None \<Rightarrow> (Diverge, k) | Some (r, k') \<Rightarrow> f r k')"

definition quarter_wait :: int where
  "quarter_wait = 300"

definition half_wait :: int where
  "half_wait = 500"

text \<open>A duration in nanoseconds is added to a clock in milliseconds.\<close>

definition deadline_in :: "'k kube_api \<Rightarrow> int \<Rightarrow> 'k \<Rightarrow> int" where
  "deadline_in A d k = ka_now A k + d div 10 ^ 6"

section \<open>The egress objects of a workload\<close>

definition create_or_update :: "('k \<Rightarrow> (string + unit) \<times> 'k) \<Rightarrow> ('k \<Rightarrow> (string + unit) \<times> 'k) \<Rightarrow> ('k, unit) act" where
  "create_or_update create update =
    attempt (api create) (\<lambda>r. case r of
      Inr _ \<Rightarrow> give ()
    | Inl e \<Rightarrow> if is_already_exists (conn_text e) then api update else flunk e)"

definition create_proxy_config_map :: "'k kube_api \<Rightarrow> string \<Rightarrow> string \<Rightarrow> ('k, unit) act" where
  "create_proxy_config_map A pod rules =
    (let cm = \<lparr> kd_name = proxy_config_map_name pod, kd_data = [(''rules.yaml'', rules)] \<rparr>
     in create_or_update (ka_cm_create A cm) (ka_cm_update A cm))"

definition create_proxy_ca_secret :: "'k kube_api \<Rightarrow> string \<Rightarrow> string \<Rightarrow> string \<Rightarrow> ('k, unit) act" where
  "create_proxy_ca_secret A pod cert key =
    (let sec = \<lparr> kd_name = proxy_ca_secret_name pod, kd_data = [(''ca.crt'', cert), (''ca.key'', key)] \<rparr>
     in create_or_update (ka_secret_create A sec) (ka_secret_update A sec))"

definition with_egress :: "'k kube_api \<Rightarrow> kube_client \<Rightarrow> string \<Rightarrow> proxy_spec option \<Rightarrow> pod_spec
    \<Rightarrow> (pod_spec \<Rightarrow> ('k, 'a) act) \<Rightarrow> ('k, 'a) act" where
  "with_egress A c name proxy spec k =
    (case proxy of
       None \<Rightarrow> k spec
     | Some p \<Rightarrow>
         wrapping OtherCode ''proxy configmap: '' (create_proxy_config_map A name (px_rules p)) (\<lambda>_.
         wrapping OtherCode ''proxy CA secret: ''
           (if px_ca_cert p \<noteq> '''' \<and> px_ca_key p \<noteq> ''''
            then create_proxy_ca_secret A name (px_ca_cert p) (px_ca_key p) else give ()) (\<lambda>_.
         case with_proxy spec name (kc_namespace c) proxy of
           Inl e \<Rightarrow> plain e
         | Inr spec' \<Rightarrow> k spec')))"

section \<open>Sandboxes\<close>

definition pod_view :: "kube_client \<Rightarrow> string \<Rightarrow> pod_status \<Rightarrow> sandbox_status" where
  "pod_view c name p =
    \<lparr> st_name = name, st_phase = pt_phase p, st_ip = pt_ip p, st_ready = list_ex (\<lambda>r. r) (pt_ready p),
      st_service = service_dns c name, st_owner = '''', st_org = '''', st_repo = '''', st_session = '''' \<rparr>"

definition kube_status :: "'k kube_api \<Rightarrow> kube_client \<Rightarrow> string \<Rightarrow> ('k, sandbox_status) act" where
  "kube_status A c name = after (ask (\<lambda>k. ka_pod A k name)) (\<lambda>p. give (pod_view c name p))"

definition delete_pod :: "'k kube_api \<Rightarrow> string \<Rightarrow> ('k, unit) act" where
  "delete_pod A name =
    alter (\<lambda>k. snd (ka_svc_delete A name k)) (
    attempt (api (ka_pod_delete A name)) (\<lambda>r. case r of
      Inr _ \<Rightarrow> give ()
    | Inl e \<Rightarrow> if is_not_found (conn_text e) then give () else flunk e))"

definition kube_delete_sandbox :: "'k kube_api \<Rightarrow> string \<Rightarrow> ('k, unit) act" where
  "kube_delete_sandbox A name = delete_pod A name"

definition pod_gone :: "'k kube_api \<Rightarrow> string \<Rightarrow> unit \<Rightarrow> 'k \<Rightarrow> unit + unit" where
  "pod_gone A name s k =
    (case ka_pod A k name of
       Inl e \<Rightarrow> if is_not_found e then Inr () else Inl ()
     | Inr _ \<Rightarrow> Inl ())"

definition thirty_seconds :: int where
  "thirty_seconds = 30 * 10 ^ 9"

definition delete_sandbox_wait :: "'k kube_api \<Rightarrow> string \<Rightarrow> ('k, unit) act" where
  "delete_sandbox_wait A name =
    after (delete_pod A name) (\<lambda>_.
    polling (\<lambda>k. poll (ka_now A) (ka_pause A quarter_wait) (deadline_in A thirty_seconds k) (pod_gone A name) () k)
      (\<lambda>r. case r of Cancelled e \<Rightarrow> plain e | _ \<Rightarrow> give ()))"

definition sandbox_service :: "string \<Rightarrow> int \<Rightarrow> kservice" where
  "sandbox_service name port =
    \<lparr> ks_name = name, ks_labels = [(''app'', name)], ks_selector = [(''app'', name)],
      ks_ports = [\<lparr> sv_name = ''worker'', sv_port = port, sv_target = port \<rparr>] \<rparr>"

definition kube_launch_sandbox :: "'k kube_api \<Rightarrow> kube_client \<Rightarrow> sandbox_spec \<Rightarrow> ('k, sandbox_status) act" where
  "kube_launch_sandbox A c s =
    (let name = sp_name s; pod = sandbox_pod s in
     if \<not> list_all (\<lambda>(_, q). ka_quantity A q) (sandbox_devices s) then crash
     else with_egress A c name (sandbox_proxy (ka_render A) c s) (po_spec pod) (\<lambda>spec.
          after (delete_sandbox_wait A name) (\<lambda>_.
          wrapping OtherCode ''create pod: '' (api (ka_pod_create A (pod\<lparr> po_spec := spec \<rparr>))) (\<lambda>_.
          wrapping OtherCode ''create service: ''
            (if sp_no_service s then give () else api (ka_svc_create A (sandbox_service name (spec_port s)))) (\<lambda>_.
          kube_status A c name)))))"

definition host_port :: "string \<Rightarrow> int \<Rightarrow> string" where
  "host_port host port = host @ '':'' @ dec_int port"

definition sandbox_up :: "'k kube_api \<Rightarrow> kube_client \<Rightarrow> string \<Rightarrow> int \<Rightarrow> unit \<Rightarrow> 'k \<Rightarrow> unit + unit" where
  "sandbox_up A c name port s k =
    (case ka_pod A k name of
       Inl _ \<Rightarrow> Inl ()
     | Inr p \<Rightarrow>
         if pt_phase p = ''Running'' \<and> pt_ip p \<noteq> ''''
            \<and> ka_dial A k (host_port (pt_ip p) port) = None
            \<and> ka_dial A k (host_port (service_dns c name) port) = None
         then Inr () else Inl ())"

definition wait_sandbox_ready :: "'k kube_api \<Rightarrow> kube_client \<Rightarrow> string \<Rightarrow> int \<Rightarrow> int \<Rightarrow> ('k, unit) act" where
  "wait_sandbox_ready A c name port0 timeout =
    (let port = (if port0 = 0 then 48080 else port0) in
     polling (\<lambda>k. poll (ka_now A) (ka_pause A half_wait) (deadline_in A timeout k) (sandbox_up A c name port) () k)
       (\<lambda>r. case r of
          Found _ \<Rightarrow> give ()
        | Cancelled e \<Rightarrow> plain e
        | TimedOut _ \<Rightarrow> plain (''sandbox '' @ name @ '' not healthy in '' @ ka_show_duration A timeout)))"

definition kube_list_sandboxes :: "'k kube_api \<Rightarrow> kube_client \<Rightarrow> ('k, sandbox_status list) act" where
  "kube_list_sandboxes A c = after (ask (ka_pods A)) (\<lambda>ps. give (map (\<lambda>(n, p). pod_view c n p) ps))"

section \<open>Services\<close>

record service_spec =
  sc_name :: string
  sc_image :: string
  sc_command :: "string list"
  sc_env :: "env_var list"
  sc_ports :: "(int \<times> int) list"
  sc_replicas :: int
  sc_labels :: smap
  sc_proxy :: "proxy_spec option"
  sc_no_proxy :: bool

definition service_labels :: "service_spec \<Rightarrow> smap" where
  "service_labels s = AList.update ''easylab/service'' ''1'' (AList.update ''app'' (sc_name s) (sc_labels s))"

definition service_container :: "service_spec \<Rightarrow> container" where
  "service_container s = (blank_container ''svc'' (sc_image s))\<lparr>
     co_env := sc_env s, co_resources := default_resources, co_command := sc_command s,
     co_ports := map (\<lambda>(cp, _). \<lparr> cp_name = '''', cp_port = cp, cp_proto = '''' \<rparr>) (sc_ports s) \<rparr>"

definition service_deployment :: "service_spec \<Rightarrow> pod_spec \<Rightarrow> deployment" where
  "service_deployment s spec =
    \<lparr> de_name = sc_name s, de_version = '''', de_labels = service_labels s,
      de_selector = [(''app'', sc_name s)],
      de_replicas = (if sc_replicas s \<le> 0 then 1 else sc_replicas s), de_spec = spec, de_ready = 0 \<rparr>"

definition service_object :: "service_spec \<Rightarrow> kservice" where
  "service_object s =
    \<lparr> ks_name = sc_name s, ks_labels = service_labels s, ks_selector = [(''app'', sc_name s)],
      ks_ports = map (\<lambda>(cp, sp). \<lparr> sv_name = ''p'' @ dec_int cp, sv_port = (if sp = 0 then cp else sp), sv_target = cp \<rparr>)
                     (sc_ports s) \<rparr>"

definition label_of :: "smap \<Rightarrow> string \<Rightarrow> string" where
  "label_of m k = (case map_of m k of Some v \<Rightarrow> v | None \<Rightarrow> '''')"

definition deployment_status :: "kube_client \<Rightarrow> string \<Rightarrow> deployment \<Rightarrow> sandbox_status" where
  "deployment_status c name d =
    \<lparr> st_name = name, st_phase = ''Running'', st_ip = '''', st_ready = (de_ready d > 0),
      st_service = service_dns c name, st_owner = label_of (de_labels d) ''easylab/owner'',
      st_org = label_of (de_labels d) ''easylab/org'', st_repo = label_of (de_labels d) ''easylab/repo'',
      st_session = label_of (de_labels d) ''easylab/session'' \<rparr>"

definition service_status :: "'k kube_api \<Rightarrow> kube_client \<Rightarrow> string \<Rightarrow> ('k, sandbox_status) act" where
  "service_status A c name = after (ask (\<lambda>k. ka_dep A k name)) (\<lambda>d. give (deployment_status c name d))"

definition spoof_conflict :: "service_spec \<Rightarrow> string option" where
  "spoof_conflict s =
    map_option (\<lambda>(cp, _). ''service '' @ sc_name s @ '': container port '' @ dec_int cp
        @ '' cannot be exposed in spoof egress mode; use 8080/8443 and map at the Service layer, or deploy with egress disabled'')
      (find (\<lambda>(cp, _). cp = 80 \<or> cp = 443) (sc_ports s))"

definition put_deployment :: "'k kube_api \<Rightarrow> deployment \<Rightarrow> ('k, unit) act" where
  "put_deployment A d =
    attempt (api (ka_dep_create A d)) (\<lambda>r. case r of
      Inr _ \<Rightarrow> give ()
    | Inl e \<Rightarrow>
        if is_already_exists (conn_text e)
        then after (ask (\<lambda>k. ka_dep A k (de_name d))) (\<lambda>old.
             wrapping OtherCode ''update deployment: '' (api (ka_dep_replace A (d\<lparr> de_version := de_version old \<rparr>))) give)
        else plain (''create deployment: '' @ conn_text e))"

definition service_proxy :: "'k kube_api \<Rightarrow> kube_client \<Rightarrow> service_spec \<Rightarrow> proxy_spec option" where
  "service_proxy A c s =
    (if sc_proxy s = None \<and> \<not> sc_no_proxy s then egress_spec_for (ka_render A) c True else sc_proxy s)"

definition kube_launch_service :: "'k kube_api \<Rightarrow> kube_client \<Rightarrow> service_spec \<Rightarrow> ('k, sandbox_status) act" where
  "kube_launch_service A c s =
    (let proxy = service_proxy A c s in
     demand (\<lambda>_. if proxy = None then None else map_option (ConnErr OtherCode) (spoof_conflict s)) (
     with_egress A c (sc_name s) proxy (blank_spec\<lparr> ps_containers := [service_container s] \<rparr>) (\<lambda>spec.
     after (put_deployment A (service_deployment s spec)) (\<lambda>_.
     attempt (api (ka_svc_create A (service_object s))) (\<lambda>r. case r of
       Inl e \<Rightarrow> if is_already_exists (conn_text e) then service_status A c (sc_name s)
                else plain (''create service: '' @ conn_text e)
     | Inr _ \<Rightarrow> service_status A c (sc_name s))))))"

definition kube_delete_service :: "'k kube_api \<Rightarrow> string \<Rightarrow> ('k, unit) act" where
  "kube_delete_service A name =
    alter (\<lambda>k. snd (ka_svc_delete A name k)) (
    attempt (api (ka_dep_delete A name)) (\<lambda>r. case r of
      Inr _ \<Rightarrow> give ()
    | Inl e \<Rightarrow> if is_not_found (conn_text e) then give () else flunk e))"

definition kube_scale_service :: "'k kube_api \<Rightarrow> kube_client \<Rightarrow> string \<Rightarrow> int \<Rightarrow> ('k, sandbox_status) act" where
  "kube_scale_service A c name replicas =
    after (ask (\<lambda>k. ka_dep A k name)) (\<lambda>d.
    after (api (ka_dep_replace A (d\<lparr> de_replicas := replicas \<rparr>))) (\<lambda>_.
    service_status A c name))"

definition kube_list_services :: "'k kube_api \<Rightarrow> kube_client \<Rightarrow> ('k, sandbox_status list) act" where
  "kube_list_services A c = after (ask (ka_deps A)) (\<lambda>ds. give (map (\<lambda>d. deployment_status c (de_name d) d) ds))"

section \<open>Polling returns\<close>

text \<open>If every pause that does not end the wait lets the clock go on, a loop ends by its deadline.\<close>

definition clock_runs :: "('k \<Rightarrow> int) \<Rightarrow> ('k \<Rightarrow> string option \<times> 'k) \<Rightarrow> bool" where
  "clock_runs now pause \<longleftrightarrow> (\<forall>k k'. pause k = (None, k') \<longrightarrow> now k < now k')"

lemma poll_returns:
  assumes "clock_runs now pause"
  shows "\<exists>r k'. poll now pause deadline probe s k = Some (r, k')"
proof (induction "nat (deadline - now k)" arbitrary: s k rule: less_induct)
  case less
  show ?case
  proof (cases "now k < deadline \<and> (\<exists>s'. probe s k = Inl s') \<and> fst (pause k) = None")
    case True
    then obtain s' k' where p: "probe s k = Inl s'" "pause k = (None, k')" by (metis prod.collapse)
    then have "now k < now k'" using assms unfolding clock_runs_def by blast
    then have "nat (deadline - now k') < nat (deadline - now k)" using True by simp
    from less[OF this] show ?thesis using True p by (subst poll.simps) simp
  next
    case False
    then show ?thesis by (subst poll.simps) (auto split: sum.splits prod.splits option.splits)
  qed
qed

lemma returns_polling:
  assumes "clock_runs now pause" "\<And>r. returns (f r)"
  shows "returns (polling (\<lambda>k. poll now pause (d k) probe s k) f)"
  unfolding returns_def
proof
  fix k
  obtain r k' where "poll now pause (d k) probe s k = Some (r, k')" using poll_returns[OF assms(1)] by metis
  then show "fst (polling (\<lambda>k. poll now pause (d k) probe s k) f k) \<noteq> Diverge"
    using assms(2) by (simp add: polling_def returns_def)
qed

lemma returns_leaf [return_intros]: "returns (api g)" "returns (ask h)" "returns (plain m)"
  unfolding api_def ask_def plain_def by (intro return_intros)+

lemma returns_poll_end [return_intros]:
  "(\<And>b. returns (f b)) \<Longrightarrow> (\<And>e. returns (g e)) \<Longrightarrow> (\<And>s. returns (h s)) \<Longrightarrow>
    returns (case r of Found b \<Rightarrow> f b | Cancelled e \<Rightarrow> g e | TimedOut s \<Rightarrow> h s)"
  by (cases r) simp_all

text \<open>The two clocks of the client's loops, of a third and of half a second.\<close>

definition clocks_run :: "'k kube_api \<Rightarrow> bool" where
  "clocks_run A \<longleftrightarrow> clock_runs (ka_now A) (ka_pause A quarter_wait) \<and> clock_runs (ka_now A) (ka_pause A half_wait)"

lemma egress_returns [return_intros]: "(\<And>sp. returns (f sp)) \<Longrightarrow> returns (with_egress A c n px spec f)"
  unfolding with_egress_def create_proxy_config_map_def create_proxy_ca_secret_def create_or_update_def Let_def
  by (intro return_intros)

lemma launch_sandbox_returns [return_intros]:
  assumes "clocks_run A"
  shows "returns (kube_launch_sandbox A c s)"
proof -
  have w: "returns (delete_sandbox_wait A n)" for n
    unfolding delete_sandbox_wait_def delete_pod_def
    by (intro return_intros returns_polling) (use assms in \<open>simp add: clocks_run_def\<close>)
  show ?thesis
    unfolding kube_launch_sandbox_def Let_def kube_status_def by (intro return_intros w)
qed

lemma wait_ready_returns [return_intros]:
  assumes "clocks_run A"
  shows "returns (wait_sandbox_ready A c n port d)"
  unfolding wait_sandbox_ready_def Let_def
  by (intro returns_polling return_intros) (use assms in \<open>simp add: clocks_run_def\<close>)

lemma polling_returns:
  assumes "clock_runs now pause" "\<And>r k'. fst (f r k') \<noteq> Diverge"
  shows "fst (polling (\<lambda>k. poll now pause (d k) probe s k) f k) \<noteq> Diverge"
proof -
  obtain r k' where "poll now pause (d k) probe s k = Some (r, k')" using poll_returns[OF assms(1)] by metis
  then show ?thesis using assms(2) by (simp add: polling_def)
qed

end
