(* ===== verification/Authn.thy ===== *)
theory Authn
imports Rpc Naming
begin

text \<open>
  Authentication and authorization of the gateway: \<^verbatim>\<open>cmd/easylab/authn.go\<close>,
  \<^verbatim>\<open>authscheme.go\<close>, the REST side in \<^verbatim>\<open>lab.go\<close> and \<^verbatim>\<open>main.go\<close>, and the token adapter
  \<^verbatim>\<open>easyvcs_token_store.go\<close>.

  The credential and role store of the version control library is third-party code.  It is a
  parameter: a record of its answers, with the predicates of its role type \<^verbatim>\<open>'r\<close> and the
  quoted text of a role.  A request
  context carries the principal, if the interceptor has run.
\<close>

record principal =
  pl_user :: int
  pl_name :: string
  pl_anonymous :: bool
  pl_admin :: bool

record user =
  us_id :: int
  us_name :: string
  us_disabled :: bool

record 'r central =
  ce_token :: "string \<Rightarrow> int option"
  ce_user :: "int \<Rightarrow> user option"
  ce_by_name :: "string \<Rightarrow> user option"
  ce_by_tenant :: "string \<Rightarrow> user option"
  ce_role :: "string \<Rightarrow> string \<Rightarrow> int \<Rightarrow> string + 'r"
  ce_repo_exists :: "string \<Rightarrow> string \<Rightarrow> bool"
  ce_mirror :: "string \<Rightarrow> string \<Rightarrow> bool"
  ce_open :: bool
  ro_read :: "'r \<Rightarrow> bool"
  ro_propose :: "'r \<Rightarrow> bool"
  ro_merge :: "'r \<Rightarrow> bool"
  ro_push :: "'r \<Rightarrow> bool"
  ro_text :: "'r \<Rightarrow> string"

definition nobody :: principal where
  "nobody = \<lparr> pl_user = 0, pl_name = '''', pl_anonymous = False, pl_admin = False \<rparr>"

definition anonymous :: principal where
  "anonymous = nobody\<lparr> pl_anonymous := True \<rparr>"

definition principal_of :: "principal option \<Rightarrow> principal" where
  "principal_of ctx = (case ctx of Some p \<Rightarrow> p | None \<Rightarrow> anonymous)"

definition user_id_of :: "principal option \<Rightarrow> int" where
  "user_id_of ctx = pl_user (principal_of ctx)"

section \<open>Credentials\<close>

text \<open>A header map is a function from canonical names; an absent header is the empty text.\<close>

type_synonym header = "string \<Rightarrow> string"

definition schemes :: "string list" where
  "schemes = [''Bearer '', ''bearer '', ''token '', ''Token '']"

definition credential :: "header \<Rightarrow> string \<times> bool" where
  "credential h =
    (let raw = h ''Authorization'' in
     if raw = '''' then ('''', False)
     else case find (\<lambda>p. has_prefix p raw) schemes of
            Some p \<Rightarrow> (let v = trim_space (trim_prefix p raw) in (v, v \<noteq> ''''))
          | None \<Rightarrow>
              if list_ex (\<lambda>c. c = CHR '' '' \<or> c = CHR 0x09) raw then ('''', False)
              else (trim_space raw, True))"

definition authenticate_credential :: "'r central \<Rightarrow> string \<Rightarrow> string \<Rightarrow> principal option" where
  "authenticate_credential cs admin_token token =
    (if token = '''' then Some anonymous
     else if admin_token \<noteq> '''' \<and> token = admin_token
     then Some (nobody\<lparr> pl_admin := True, pl_name := ''admin'' \<rparr>)
     else case ce_token cs token of
            None \<Rightarrow> None
          | Some uid \<Rightarrow>
              (case ce_user cs uid of
                 None \<Rightarrow> None
               | Some u \<Rightarrow>
                   if us_disabled u then None
                   else Some (nobody\<lparr> pl_user := us_id u, pl_name := us_name u \<rparr>)))"

definition authenticate :: "'r central \<Rightarrow> string \<Rightarrow> header \<Rightarrow> principal option" where
  "authenticate cs admin_token h = authenticate_credential cs admin_token (fst (credential h))"

section \<open>The trusted loopback header\<close>

definition is_bracket :: "char \<Rightarrow> bool" where
  "is_bracket c \<longleftrightarrow> c = CHR ''['' \<or> c = CHR '']''"

definition trim_brackets :: "string \<Rightarrow> string" where
  "trim_brackets s = rev (dropWhile is_bracket (rev (dropWhile is_bracket s)))"

definition is_local_host :: "string \<Rightarrow> bool" where
  "is_local_host host \<longleftrightarrow> host \<in> {'''', ''127.0.0.1'', ''::1'', ''localhost''}"

definition is_loopback_peer :: "string \<Rightarrow> bool" where
  "is_loopback_peer addr =
    is_local_host (trim_brackets (case cut_last CHR '':'' addr of Some (host, _) \<Rightarrow> host | None \<Rightarrow> addr))"

definition enabled :: "user option \<Rightarrow> user option" where
  "enabled u = (case u of None \<Rightarrow> None | Some x \<Rightarrow> if us_disabled x then None else Some x)"

definition asserted_owner :: "'r central \<Rightarrow> string \<Rightarrow> user option" where
  "asserted_owner cs owner =
    (case enabled (ce_by_name cs owner) of
       Some u \<Rightarrow> Some u
     | None \<Rightarrow> enabled (ce_by_tenant cs owner))"

definition apply_loopback_override :: "'r central \<Rightarrow> principal \<Rightarrow> header \<Rightarrow> string \<Rightarrow> principal" where
  "apply_loopback_override cs p h peer =
    (if pl_admin p then p
     else let owner = trim_space (h ''X-Agent-Tenant'') in
          if owner = '''' \<or> \<not> is_loopback_peer peer then p
          else case asserted_owner cs owner of
                 Some u \<Rightarrow> p\<lparr> pl_user := us_id u, pl_name := us_name u \<rparr>
               | None \<Rightarrow> p)"

definition is_health_rpc :: "string \<Rightarrow> bool" where
  "is_health_rpc procedure = has_suffix ''/Health'' procedure"

definition invalid_credential :: conn_err where
  "invalid_credential = ConnErr Unauthenticated ''invalid or expired credential''"

text \<open>The context a handler is called with, or the error that ends the call.\<close>

definition wrap_unary :: "'r central \<Rightarrow> string \<Rightarrow> string \<Rightarrow> header \<Rightarrow> string \<Rightarrow> conn_err + principal option" where
  "wrap_unary cs admin_token procedure h peer =
    (if is_health_rpc procedure then Inr None
     else case authenticate cs admin_token h of
            None \<Rightarrow> Inl invalid_credential
          | Some p \<Rightarrow> Inr (Some (apply_loopback_override cs p h peer)))"

definition wrap_streaming :: "'r central \<Rightarrow> string \<Rightarrow> header \<Rightarrow> conn_err + principal option" where
  "wrap_streaming cs admin_token h =
    (case authenticate cs admin_token h of
       None \<Rightarrow> Inl invalid_credential
     | Some p \<Rightarrow> Inr (Some p))"

section \<open>Authorization of calls\<close>

definition repo_role :: "'r central \<Rightarrow> principal option \<Rightarrow> string \<Rightarrow> string \<Rightarrow> string + 'r" where
  "repo_role cs ctx ns name = ce_role cs ns name (user_id_of ctx)"

definition can_read_repo :: "'r central \<Rightarrow> principal option \<Rightarrow> string \<Rightarrow> string \<Rightarrow> bool" where
  "can_read_repo cs ctx ns name = (case repo_role cs ctx ns name of Inl _ \<Rightarrow> False | Inr r \<Rightarrow> ro_read cs r)"

definition stronger_role :: "'r central \<Rightarrow> string \<Rightarrow> string \<Rightarrow> string \<Rightarrow> 'r \<Rightarrow> string" where
  "stronger_role cs action ns name r =
    action @ '' requires a stronger role on '' @ ns @ ''/'' @ name @ '' (have '' @ ro_text cs r @ '')''"

definition require_repo_action :: "'r central \<Rightarrow> principal option \<Rightarrow> string \<Rightarrow> string \<Rightarrow> ('r \<Rightarrow> bool) \<Rightarrow> string
    \<Rightarrow> conn_err option" where
  "require_repo_action cs ctx ns name ok action =
    (case repo_role cs ctx ns name of
       Inl err \<Rightarrow> Some (ConnErr NotFound err)
     | Inr r \<Rightarrow> if ok r then None else Some (ConnErr PermissionDenied (stronger_role cs action ns name r)))"

definition open_repo_authorized :: "'r central \<Rightarrow> principal option \<Rightarrow> string \<Rightarrow> string \<Rightarrow> ('r \<Rightarrow> bool) \<Rightarrow> string
    \<Rightarrow> conn_err option" where
  "open_repo_authorized cs ctx ns name ok action =
    (case require_repo_action cs ctx ns name ok action of
       Some err \<Rightarrow> Some err
     | None \<Rightarrow> if ce_repo_exists cs ns name then None else Some (ConnErr NotFound ''not found''))"

definition require_authenticated :: "principal option \<Rightarrow> string \<Rightarrow> conn_err option" where
  "require_authenticated ctx action =
    (if pl_anonymous (principal_of ctx) then Some (ConnErr Unauthenticated (action @ '' requires authentication''))
     else None)"

definition require_admin :: "principal option \<Rightarrow> string \<Rightarrow> conn_err option" where
  "require_admin ctx action =
    (if \<not> pl_admin (principal_of ctx)
     then Some (ConnErr PermissionDenied (action @ '' requires the admin credential'')) else None)"

definition authorize_session :: "'r central \<Rightarrow> principal option \<Rightarrow> string \<Rightarrow> conn_err option" where
  "authorize_session cs ctx sid =
    (case require_authenticated ctx ''accessing a session'' of
       Some err \<Rightarrow> Some err
     | None \<Rightarrow>
         (case split_on CHR '':'' sid of
            [org, repo, _] \<Rightarrow> require_repo_action cs ctx org repo (ro_push cs) ''accessing a repository session''
          | _ \<Rightarrow> None))"

definition can_see_repo :: "'r central \<Rightarrow> principal option \<Rightarrow> string \<Rightarrow> string \<Rightarrow> bool" where
  "can_see_repo cs ctx org repo =
    (if pl_admin (principal_of ctx) then True
     else if org = '''' \<and> repo = '''' then \<not> pl_anonymous (principal_of ctx)
     else case repo_role cs ctx org repo of Inl _ \<Rightarrow> False | Inr r \<Rightarrow> ro_read cs r)"

definition user_id_str :: "principal option \<Rightarrow> string" where
  "user_id_str ctx = (if user_id_of ctx \<noteq> 0 then dec_int (user_id_of ctx) else '''')"

definition can_see_service :: "'r central \<Rightarrow> principal option \<Rightarrow> string \<Rightarrow> string \<Rightarrow> string \<Rightarrow> bool" where
  "can_see_service cs ctx owner org repo =
    (if pl_admin (principal_of ctx) then True
     else if pl_anonymous (principal_of ctx) then False
     else if (org \<noteq> '''' \<or> repo \<noteq> '''')
          \<and> (case repo_role cs ctx org repo of Inl _ \<Rightarrow> False | Inr r \<Rightarrow> ro_read cs r) then True
     else owner \<noteq> '''' \<and> owner = user_id_str ctx)"

definition can_operate_service :: "'r central \<Rightarrow> principal option \<Rightarrow> string \<Rightarrow> string \<Rightarrow> string \<Rightarrow> bool" where
  "can_operate_service cs ctx owner org repo =
    (if pl_admin (principal_of ctx) then True
     else if (org \<noteq> '''' \<or> repo \<noteq> '''')
          \<and> (case repo_role cs ctx org repo of Inl _ \<Rightarrow> False | Inr r \<Rightarrow> ro_merge cs r) then True
     else owner \<noteq> '''' \<and> owner = user_id_str ctx)"

section \<open>The REST surface\<close>

text \<open>
  \<^verbatim>\<open>net.SplitHostPort\<close>: the host of \<^verbatim>\<open>host:port\<close> or \<^verbatim>\<open>[host]:port\<close>, nothing for any other
  shape.
\<close>

definition split_host :: "string \<Rightarrow> string option" where
  "split_host hp =
    (case cut_last CHR '':'' hp of
       None \<Rightarrow> None
     | Some (before, port) \<Rightarrow>
         if has_prefix ''['' hp then
           (case cut_at CHR '']'' hp of
              None \<Rightarrow> None
            | Some (inner, rest) \<Rightarrow>
                if rest = CHR '':'' # port
                   \<and> CHR ''['' \<notin> set (tl inner) \<and> CHR ''['' \<notin> set rest \<and> CHR '']'' \<notin> set rest
                then Some (tl inner) else None)
         else if CHR '':'' \<in> set before \<or> CHR ''['' \<in> set hp \<or> CHR '']'' \<in> set hp then None
         else Some before)"

definition is_loopback :: "string \<Rightarrow> bool" where
  "is_loopback remote =
    is_local_host (trim_brackets (case split_host remote of Some host \<Rightarrow> host | None \<Rightarrow> remote))"

definition loopback_owner :: "'r central \<Rightarrow> header \<Rightarrow> string \<Rightarrow> user option" where
  "loopback_owner cs h remote =
    (let v = trim_space (h ''X-Agent-Tenant'') in
     if v = '''' \<or> \<not> is_loopback remote then None else asserted_owner cs v)"

definition lab_principal :: "'r central \<Rightarrow> header \<Rightarrow> string \<Rightarrow> user option \<times> string" where
  "lab_principal cs h remote =
    (case credential h of
       (token, ok) \<Rightarrow>
         (case (if ok then Option.bind (ce_token cs token) (\<lambda>uid. enabled (ce_user cs uid)) else None) of
            None \<Rightarrow> (None, ''read'')
          | Some u \<Rightarrow>
              (case loopback_owner cs h remote of
                 Some owner \<Rightarrow> (Some owner, ''write'')
               | None \<Rightarrow> (Some u, ''write''))))"

datatype capability = CapRead | CapPropose | CapMerge | CapPush

fun cap_of :: "'r central \<Rightarrow> capability \<Rightarrow> 'r \<Rightarrow> bool" where
  "cap_of cs CapRead = ro_read cs"
| "cap_of cs CapPropose = ro_propose cs"
| "cap_of cs CapMerge = ro_merge cs"
| "cap_of cs CapPush = ro_push cs"

record request =
  rq_method :: string
  rq_path :: string
  rq_vars :: "string \<Rightarrow> string"
  rq_header :: header
  rq_remote :: string

definition repo_cap_for_request :: "request \<Rightarrow> capability \<times> string" where
  "repo_cap_for_request r =
    (let p = rq_path r in
     if rq_method r = ''GET'' \<or> rq_method r = ''HEAD'' then (CapRead, ''reading'')
     else if contains_sub ''/merge_requests/'' p \<and> has_suffix ''/merge'' p
       then (CapMerge, ''merging a change request'')
     else if contains_sub ''/merge_requests/'' p \<and> (has_suffix ''/reviews'' p \<or> has_suffix ''/comments'' p)
       then (CapPropose, ''reviewing a change request'')
     else if contains_sub ''/merge_requests/'' p then (CapMerge, ''updating a change request'')
     else if contains_sub ''/merge_requests'' p then (CapPropose, ''opening a change request'')
     else if contains_sub ''/tags'' p then (CapMerge, ''managing tags'')
     else if contains_sub ''/releases'' p then (CapMerge, ''managing releases'')
     else (CapPush, ''writing''))"

definition authorize_repo :: "'r central \<Rightarrow> user option \<Rightarrow> string \<Rightarrow> string \<Rightarrow> capability \<Rightarrow> string \<Rightarrow> string option" where
  "authorize_repo cs u ns name cap action =
    (case u of
       None \<Rightarrow> Some (''unauthorized: '' @ action @ '' requires a token'')
     | Some x \<Rightarrow>
         (case ce_role cs ns name (us_id x) of
            Inl _ \<Rightarrow> Some (''repository '' @ ns @ ''/'' @ name @ '' not found'')
          | Inr r \<Rightarrow> if cap_of cs cap r then None else Some (stronger_role cs action ns name r)))"

definition request_repo :: "request \<Rightarrow> string \<times> string" where
  "request_repo r =
    (let ns = rq_vars r ''namespace''; name = rq_vars r ''repo'';
         name1 = (if name = '''' then rq_vars r ''name'' else name);
         ns1 = (if ns = '''' then rq_vars r ''ns'' else ns)
     in (ns1, name1))"

definition authorize_repo_request :: "'r central \<Rightarrow> request \<Rightarrow> user option \<Rightarrow> string option" where
  "authorize_repo_request cs r u =
    (case request_repo r of
       (ns, name) \<Rightarrow>
         if ns = '''' \<or> name = '''' then None
         else case repo_cap_for_request r of (cap, action) \<Rightarrow> authorize_repo cs u ns name cap action)"

definition require_write_auth :: "'r central \<Rightarrow> request \<Rightarrow> (int \<times> string) option" where
  "require_write_auth cs r =
    (case fst (lab_principal cs (rq_header r) (rq_remote r)) of
       None \<Rightarrow> Some (401, ''unauthorized: a valid token is required to write'')
     | Some u \<Rightarrow>
         (case authorize_repo_request cs r (Some u) of
            Some err \<Rightarrow> Some (403, err)
          | None \<Rightarrow> None))"

definition write_targets_mirror :: "'r central \<Rightarrow> request \<Rightarrow> bool" where
  "write_targets_mirror cs r =
    (case request_repo r of
       (ns, name) \<Rightarrow> ns \<noteq> '''' \<and> name \<noteq> '''' \<and> ce_repo_exists cs ns name \<and> ce_mirror cs ns name)"

end
