(* ===== verification/Services.thy ===== *)
theory Services
imports Kube_Client Authn
begin

text \<open>
  Services: the service API of the gateway (\<^verbatim>\<open>cmd/easylab/connops.go\<close>) over the service runner
  (\<^verbatim>\<open>internal/ops/k8s_service.go\<close>, \<^verbatim>\<open>service.go\<close>), and the registry of namespaces
  (\<^verbatim>\<open>internal/ops/namespace.go\<close>).  A handler runs on the cluster's world; without a cluster the
  client is missing.  The caller's roles do not change during a call.
\<close>

section \<open>Namespaces\<close>

record ns_registry =
  nr_names :: "string list"
  nr_default :: string

fun dedup_names :: "string list \<Rightarrow> string list \<Rightarrow> string list" where
  "dedup_names clean [] = clean"
| "dedup_names clean (n # ns) =
     (let t = trim_space n in
      if t = '''' \<or> t \<in> set clean then dedup_names clean ns else dedup_names (clean @ [t]) ns)"

text \<open>Nothing stands for the panic of taking the first of no names.\<close>

definition new_namespace_registry :: "string list \<Rightarrow> ns_registry option" where
  "new_namespace_registry names =
    (case dedup_names [] (if names = [] then [''default''] else names) of
       [] \<Rightarrow> None
     | n # ns \<Rightarrow> Some \<lparr> nr_names = n # ns, nr_default = n \<rparr>)"

definition namespaces_from_env :: "string \<Rightarrow> ns_registry option" where
  "namespaces_from_env raw =
    (if trim_space raw = '''' then new_namespace_registry []
     else new_namespace_registry (split_on CHR '','' raw))"

definition ns_approved :: "ns_registry \<Rightarrow> string \<Rightarrow> bool" where
  "ns_approved r ns \<longleftrightarrow> ns \<in> set (nr_names r)"

definition ns_resolve :: "ns_registry \<Rightarrow> string \<Rightarrow> string option" where
  "ns_resolve r ns =
    (if ns = '''' then Some (nr_default r) else if ns_approved r ns then Some ns else None)"

definition ns_list :: "ns_registry \<Rightarrow> string list" where
  "ns_list r = sort (nr_names r)"

section \<open>The service runner\<close>

record service_request =
  sq_name :: string
  sq_image :: string
  sq_command :: string
  sq_ports :: "(int \<times> int) list"
  sq_env :: "string list"
  sq_replicas :: int
  sq_network :: string
  sq_group :: string
  sq_labels :: smap

record service_state =
  sx_name :: string
  sx_kind :: string
  sx_replicas :: int
  sx_ready :: int
  sx_phase :: string
  sx_ip :: string
  sx_worker :: string
  sx_url :: string
  sx_owner :: string
  sx_org :: string
  sx_repo :: string
  sx_session :: string

definition network_name :: "service_request \<Rightarrow> string" where
  "network_name r =
    (if sq_network r \<noteq> '''' then sq_network r else if sq_group r \<noteq> '''' then sq_group r else sq_name r)"

definition command_args :: "string \<Rightarrow> string list" where
  "command_args command =
    (if command = '''' then []
     else if has_prefix ''sh -c '' command then [''sh'', ''-c'', trim_prefix ''sh -c '' command]
     else [''sh'', ''-c'', command])"

definition env_entry :: "string \<Rightarrow> env_var option" where
  "env_entry kv =
    (case cut_at CHR ''='' kv of
       Some (k, v) \<Rightarrow> if k = '''' then None else Some (EnvValue k v)
     | None \<Rightarrow> None)"

definition env_vars :: "string list \<Rightarrow> env_var list" where
  "env_vars env = List.map_filter env_entry env"

definition to_status :: "sandbox_status \<Rightarrow> string \<Rightarrow> int \<Rightarrow> service_state" where
  "to_status st name replicas =
    (let reps = (if replicas \<le> 0 then 1 else replicas) in
     \<lparr> sx_name = name, sx_kind = ''deployment'', sx_replicas = reps,
       sx_ready = (if st_ready st then reps else 0),
       sx_phase = (if st_phase st = '''' then ''Pending'' else st_phase st), sx_ip = st_ip st,
       sx_worker = ''http://'' @ st_service st, sx_url = st_service st, sx_owner = st_owner st,
       sx_org = st_org st, sx_repo = st_repo st, sx_session = st_session st \<rparr>)"

definition runner_spec :: "service_request \<Rightarrow> service_spec" where
  "runner_spec r =
    \<lparr> sc_name = sq_name r, sc_image = sq_image r, sc_command = command_args (sq_command r),
      sc_env = env_vars (sq_env r),
      sc_ports = map (\<lambda>(c, s). (int32_of c, int32_of s)) (sq_ports r),
      sc_replicas = int32_of (sq_replicas r), sc_labels = sq_labels r, sc_proxy = None, sc_no_proxy = False \<rparr>"

definition runner_launch :: "'k kube_api \<Rightarrow> kube_client \<Rightarrow> service_request \<Rightarrow> ('k, service_state) act" where
  "runner_launch A c r =
    (if sq_name r = '''' \<or> sq_image r = '''' then plain ''name and image required''
     else after (kube_launch_service A c (runner_spec r)) (\<lambda>st. give (to_status st (sq_name r) (sq_replicas r))))"

definition runner_status :: "'k kube_api \<Rightarrow> kube_client \<Rightarrow> string \<Rightarrow> ('k, service_state) act" where
  "runner_status A c name = after (service_status A c name) (\<lambda>st. give (to_status st name 0))"

definition runner_delete :: "'k kube_api \<Rightarrow> string \<Rightarrow> ('k, unit) act" where
  "runner_delete A name = kube_delete_service A name"

definition runner_scale :: "'k kube_api \<Rightarrow> kube_client \<Rightarrow> string \<Rightarrow> int \<Rightarrow> ('k, service_state) act" where
  "runner_scale A c name replicas =
    after (kube_scale_service A c name (int32_of replicas)) (\<lambda>st. give (to_status st name replicas))"

definition runner_list :: "'k kube_api \<Rightarrow> kube_client \<Rightarrow> ('k, service_state list) act" where
  "runner_list A c = after (kube_list_services A c) (\<lambda>sts. give (map (\<lambda>st. to_status st (st_name st) 0) sts))"

section \<open>The service API\<close>

definition no_backend :: "string" where
  "no_backend = ''services backend unavailable''"

definition with_backend :: "kube_client option \<Rightarrow> (kube_client \<Rightarrow> ('k, 'a) act) \<Rightarrow> ('k, 'a) act" where
  "with_backend oc k = (case oc of None \<Rightarrow> refuse Unimplemented no_backend | Some c \<Rightarrow> k c)"

definition sees :: "'r central \<Rightarrow> principal option \<Rightarrow> service_state \<Rightarrow> bool" where
  "sees cs ctx st = can_see_service cs ctx (sx_owner st) (sx_org st) (sx_repo st)"

definition operates :: "'r central \<Rightarrow> principal option \<Rightarrow> service_state \<Rightarrow> bool" where
  "operates cs ctx st = can_operate_service cs ctx (sx_owner st) (sx_org st) (sx_repo st)"

definition list_services :: "'k kube_api \<Rightarrow> kube_client option \<Rightarrow> 'r central \<Rightarrow> principal option
    \<Rightarrow> ('k, service_state list) act" where
  "list_services A oc cs ctx =
    with_backend oc (\<lambda>c. wrapping Internal '''' (runner_list A c) (\<lambda>sts. give (filter (sees cs ctx) sts)))"

definition get_service :: "'k kube_api \<Rightarrow> kube_client option \<Rightarrow> 'r central \<Rightarrow> principal option \<Rightarrow> string
    \<Rightarrow> ('k, service_state) act" where
  "get_service A oc cs ctx name =
    with_backend oc (\<lambda>c. wrapping NotFound '''' (runner_status A c name) (\<lambda>st.
      if sees cs ctx st then give st else refuse NotFound ''service not found''))"

record launch_request =
  lr_name :: string
  lr_image :: string
  lr_command :: string
  lr_ports :: "(int \<times> int) option list"
  lr_env :: smap
  lr_replicas :: int
  lr_group :: string
  lr_network :: string
  lr_org :: string
  lr_repo :: string
  lr_session :: string
  lr_kind :: string
  lr_annotations :: smap

definition may_deploy :: "'r central \<Rightarrow> principal option \<Rightarrow> launch_request \<Rightarrow> conn_err option" where
  "may_deploy cs ctx r =
    (if lr_org r \<noteq> '''' \<or> lr_repo r \<noteq> ''''
     then require_repo_action cs ctx (lr_org r) (lr_repo r) (ro_merge cs) ''deploying a service''
     else require_authenticated ctx ''deploying a service'')"

definition put_if :: "string \<Rightarrow> string \<Rightarrow> string \<Rightarrow> smap \<Rightarrow> smap" where
  "put_if guard k v m = (if guard \<noteq> '''' then AList.update k v m else m)"

definition sanitize_labels :: "(string \<Rightarrow> string) \<Rightarrow> smap \<Rightarrow> smap" where
  "sanitize_labels sha m = map (\<lambda>(k, v). (k, if k = ''easylab/owner'' then v else label_key sha v)) m"

definition launch_labels :: "(string \<Rightarrow> string) \<Rightarrow> principal option \<Rightarrow> launch_request \<Rightarrow> smap" where
  "launch_labels sha ctx r =
    put_if (lr_kind r) ''easylab/kind'' (label_key sha (lr_kind r))
      (AList.update ''easylab/owner'' (dec_int (pl_user (principal_of ctx)))
        (sanitize_labels sha
          (put_if (lr_repo r) ''easylab/repo'' (label_key sha (lr_repo r))
            (put_if (lr_org r) ''easylab/org'' (label_key sha (lr_org r))
              (put_if (lr_session r) ''easylab/session'' (label_key sha (lr_session r))
                (lr_annotations r))))))"

definition port_map :: "(int \<times> int) option list \<Rightarrow> (int \<times> int) list" where
  "port_map ps = fold (\<lambda>p m. case p of Some (c, s) \<Rightarrow> AList.update c s m | None \<Rightarrow> m) ps []"

definition launch_service_request :: "(string \<Rightarrow> string) \<Rightarrow> kube_client \<Rightarrow> principal option \<Rightarrow> launch_request
    \<Rightarrow> service_request" where
  "launch_service_request sha c ctx r =
    \<lparr> sq_name = lr_name r, sq_image = rewrite_image_ref c (lr_image r), sq_command = lr_command r,
      sq_ports = port_map (lr_ports r), sq_env = map (\<lambda>(k, v). k @ ''='' @ v) (lr_env r),
      sq_replicas = (if lr_replicas r = 0 then 1 else lr_replicas r),
      sq_network = lr_network r, sq_group = lr_group r, sq_labels = launch_labels sha ctx r \<rparr>"

definition launch_service :: "'k kube_api \<Rightarrow> kube_client option \<Rightarrow> (string \<Rightarrow> string) \<Rightarrow> 'r central
    \<Rightarrow> principal option \<Rightarrow> launch_request \<Rightarrow> ('k, string \<times> string) act" where
  "launch_service A oc sha cs ctx r =
    demand (\<lambda>_. may_deploy cs ctx r) (
    with_backend oc (\<lambda>c.
      wrapping InvalidArgument '''' (runner_launch A c (launch_service_request sha c ctx r)) (\<lambda>st.
      give (sx_name st, sx_worker st))))"

definition delete_service :: "'k kube_api \<Rightarrow> kube_client option \<Rightarrow> 'r central \<Rightarrow> principal option \<Rightarrow> string
    \<Rightarrow> ('k, unit) act" where
  "delete_service A oc cs ctx name =
    with_backend oc (\<lambda>c. wrapping NotFound '''' (runner_status A c name) (\<lambda>st.
      if \<not> operates cs ctx st then refuse PermissionDenied ''deleting a service requires maintainer''
      else wrapping Internal '''' (runner_delete A name) give))"

definition scale_service :: "'k kube_api \<Rightarrow> kube_client option \<Rightarrow> 'r central \<Rightarrow> principal option \<Rightarrow> string \<Rightarrow> int
    \<Rightarrow> ('k, unit) act" where
  "scale_service A oc cs ctx name replicas =
    with_backend oc (\<lambda>c. wrapping NotFound '''' (runner_status A c name) (\<lambda>st.
      if \<not> operates cs ctx st then refuse PermissionDenied ''scaling a service requires maintainer''
      else wrapping InvalidArgument '''' (runner_scale A c name replicas) (\<lambda>_. give ())))"

definition ops_sandbox_exec :: "('k, unit) act" where
  "ops_sandbox_exec = refuse Unimplemented ''use SandboxService.Execute''"

definition ops_sandbox_read :: "('k, unit) act" where
  "ops_sandbox_read = refuse Unimplemented ''use SandboxService.FileRead''"

definition ops_sandbox_write :: "('k, unit) act" where
  "ops_sandbox_write = refuse Unimplemented ''use SandboxService.FileWrite''"

definition ops_job_kill :: "('k, unit) act" where
  "ops_job_kill = give ()"

definition ops_sync :: "('k, unit) act" where
  "ops_sync = refuse Unimplemented ''Sync: use SandboxService.SyncWorkspace''"

end
