(* ===== verification/Gateway.thy ===== *)
theory Gateway
imports Authn
begin

text \<open>
  The gateway's plain HTTP surface (\<^verbatim>\<open>cmd/easylab/main.go\<close>): the routing table with its guards,
  the token check of the guards, the HTTP/2 rule, the OCI token endpoint, the list-valued
  settings, and the token adapter of the package registry (\<^verbatim>\<open>easyvcs_token_store.go\<close>).
\<close>

section \<open>Settings\<close>

definition env_or_str :: "string \<Rightarrow> string \<Rightarrow> string" where
  "env_or_str v def = (if v \<noteq> '''' then v else def)"

definition atoi :: "string \<Rightarrow> int option" where
  "atoi s = parse_int64 s"

definition parse_ints :: "string \<Rightarrow> int list" where
  "parse_ints s = List.map_filter (\<lambda>p. atoi (trim_space p)) (split_on CHR '','' s)"

definition split_list :: "string \<Rightarrow> string list" where
  "split_list s = filter (\<lambda>p. p \<noteq> '''') (map trim_space (split_on CHR '','' s))"

section \<open>Guards\<close>

definition is_connect_path :: "string \<Rightarrow> bool" where
  "is_connect_path path \<longleftrightarrow> has_prefix ''/easylab.v1.'' path \<or> has_prefix ''/agent.v1.'' path"

definition enforce_h2 :: "nat \<Rightarrow> string \<Rightarrow> int option" where
  "enforce_h2 proto_major path = (if proto_major = 1 \<and> is_connect_path path then Some 505 else None)"

text \<open>The registry's token check is third-party code: None when no check is configured.\<close>

definition auth_ok :: "(string \<Rightarrow> bool) option \<Rightarrow> 'r central \<Rightarrow> header \<Rightarrow> bool" where
  "auth_ok auth cs h =
    (case auth of
       None \<Rightarrow> True
     | Some check \<Rightarrow>
         if ce_open cs then True
         else case credential h of (token, ok) \<Rightarrow> if \<not> ok then False else check token)"

definition require_auth :: "(string \<Rightarrow> bool) option \<Rightarrow> 'r central \<Rightarrow> header \<Rightarrow> (int \<times> string) option" where
  "require_auth auth cs h =
    (if \<not> auth_ok auth cs h then Some (401, ''unauthorized: missing or invalid token'') else None)"

datatype guard = Unguarded | TokenGuard

record route =
  rt_method :: string
  rt_pattern :: string
  rt_guard :: guard
  rt_handler :: string

definition rt :: "string \<Rightarrow> string \<Rightarrow> guard \<Rightarrow> string \<Rightarrow> route" where
  "rt m p g h = \<lparr> rt_method = m, rt_pattern = p, rt_guard = g, rt_handler = h \<rparr>"

definition routes :: "route list" where
  "routes = [
     rt ''POST'' ''/repositories/{ns}/{name}'' TokenGuard ''handleCreateRepo'',
     rt ''GET'' ''/repositories'' Unguarded ''handleListRepos'',
     rt ''DELETE'' ''/repositories/{ns}/{name}'' TokenGuard ''handleDeleteRepo'',
     rt ''POST'' ''/repo/{ns}/{name}/advertise'' Unguarded ''handleAdvertise'',
     rt ''POST'' ''/repo/{ns}/{name}/fetch'' Unguarded ''handleFetch'',
     rt ''POST'' ''/repo/{ns}/{name}/push'' TokenGuard ''handlePush'',
     rt ''POST'' ''/repo/{ns}/{name}/commit'' TokenGuard ''handleCommit'',
     rt ''POST'' ''/repo/{ns}/{name}/rebase'' TokenGuard ''handleRebase'',
     rt ''POST'' ''/repo/{ns}/{name}/merge'' TokenGuard ''handleMerge'',
     rt ''POST'' ''/repo/{ns}/{name}/squash'' TokenGuard ''handleSquash'',
     rt ''POST'' ''/repo/{ns}/{name}/ref/{ref}'' TokenGuard ''handleSetRef'',
     rt ''DELETE'' ''/repo/{ns}/{name}/ref/{ref}'' TokenGuard ''handleDeleteRef'',
     rt ''GET'' ''/repo/{ns}/{name}/log'' Unguarded ''handleLog'',
     rt ''GET'' ''/repo/{ns}/{name}/refs'' Unguarded ''handleListRefs'',
     rt ''GET'' ''/repo/{ns}/{name}/diff/{a}/{b}'' Unguarded ''handleDiff'',
     rt ''GET'' ''/repo/{ns}/{name}/revision/{id}'' Unguarded ''handleChange'']"

text \<open>What stands between a request for a route and the route's handler.\<close>

definition admit :: "(string \<Rightarrow> bool) option \<Rightarrow> 'r central \<Rightarrow> route \<Rightarrow> header \<Rightarrow> (int \<times> string) option" where
  "admit auth cs r h = (case rt_guard r of Unguarded \<Rightarrow> None | TokenGuard \<Rightarrow> require_auth auth cs h)"

section \<open>The package registry's tokens\<close>

record artifact_principal =
  ap_name :: string
  ap_write :: bool
  ap_tenant :: int

definition store_lookup_token :: "'r central \<Rightarrow> string \<Rightarrow> artifact_principal option" where
  "store_lookup_token cs token =
    (case ce_token cs token of
       None \<Rightarrow> None
     | Some uid \<Rightarrow>
         (case ce_user cs uid of
            None \<Rightarrow> None
          | Some u \<Rightarrow> if us_disabled u then None
                      else Some \<lparr> ap_name = us_name u, ap_write = True, ap_tenant = us_id u \<rparr>))"

definition store_lookup_username :: "'r central \<Rightarrow> string \<Rightarrow> artifact_principal option" where
  "store_lookup_username cs name =
    (case ce_by_name cs name of
       None \<Rightarrow> None
     | Some u \<Rightarrow> if us_disabled u then None
                 else Some \<lparr> ap_name = name, ap_write = True, ap_tenant = us_id u \<rparr>)"

definition tenant_of_token :: "'r central \<Rightarrow> string \<Rightarrow> int" where
  "tenant_of_token cs token = (case ce_token cs token of None \<Rightarrow> 0 | Some uid \<Rightarrow> uid)"

definition tenant_of_username :: "'r central \<Rightarrow> string \<Rightarrow> int" where
  "tenant_of_username cs name = (case ce_by_name cs name of None \<Rightarrow> 0 | Some u \<Rightarrow> us_id u)"

section \<open>The OCI token endpoint\<close>

fun fields_from :: "string \<Rightarrow> string \<Rightarrow> string list" where
  "fields_from cur [] = (if cur = [] then [] else [rev cur])"
| "fields_from cur (c # cs) =
     (if is_space c then (if cur = [] then fields_from [] cs else rev cur # fields_from [] cs)
      else fields_from (c # cur) cs)"

definition fields :: "string \<Rightarrow> string list" where
  "fields s = fields_from [] s"

definition scope_requests_write :: "string list \<Rightarrow> bool" where
  "scope_requests_write scopes =
    list_ex (\<lambda>sc. case cut_last CHR '':'' sc of
        None \<Rightarrow> False
      | Some (_, actions) \<Rightarrow> list_ex (\<lambda>a. a \<in> {''push'', ''delete'', ''*''}) (split_on CHR '','' actions)) scopes"

datatype token_reply = TokenReply int string

text \<open>
  The registry's \<^verbatim>\<open>Auth\<close> is third-party code: the name it authenticates the request as, its
  check of a password, and the token it issues.
\<close>

definition serve_oci_token :: "string \<Rightarrow> (string \<Rightarrow> string option) \<Rightarrow> (string \<Rightarrow> string list \<Rightarrow> string)
    \<Rightarrow> string list \<Rightarrow> string list \<Rightarrow> string \<Rightarrow> string \<Rightarrow> token_reply" where
  "serve_oci_token auth_name check issue query_scopes form_scopes pass refresh =
    (let scopes = concat (map fields (query_scopes @ form_scopes));
         username = (if auth_name \<noteq> '''' then auth_name
                     else if pass \<noteq> '''' then (case check pass of Some u \<Rightarrow> u | None \<Rightarrow> '''')
                     else if refresh \<noteq> '''' then (case check refresh of Some u \<Rightarrow> u | None \<Rightarrow> '''')
                     else '''');
         can_write = scope_requests_write scopes
     in if username = '''' \<and> can_write then TokenReply 401 ''authentication required''
        else let tok = issue username scopes in
             if tok = '''' \<and> can_write then TokenReply 403 ''insufficient privilege for requested scope''
             else TokenReply 200 tok)"

end
