(* ===== verification/Access_Correct.thy ===== *)
theory Access_Correct
imports Gateway
begin

text \<open>
  What authentication and authorization guarantee: who a call acts as, who may reach a session
  or a service, which capability a REST request needs, and what the guards of the plain HTTP
  routes depend on.
\<close>

section \<open>Who a call acts as\<close>

lemma enabled_Some: "enabled u = Some x \<longleftrightarrow> u = Some x \<and> \<not> us_disabled x"
  by (auto simp: enabled_def split: option.splits)

lemma asserted_enabled: "asserted_owner cs owner = Some u \<Longrightarrow> \<not> us_disabled u"
  by (auto simp: asserted_owner_def enabled_Some split: option.splits)

lemma authenticate_Some:
  "authenticate cs at h = Some p \<longleftrightarrow>
    (let tok = fst (credential h) in
       tok = '''' \<and> p = anonymous
     \<or> tok \<noteq> '''' \<and> tok = at \<and> p = nobody\<lparr> pl_admin := True, pl_name := ''admin'' \<rparr>
     \<or> tok \<noteq> '''' \<and> tok \<noteq> at \<and> (\<exists>uid u. ce_token cs tok = Some uid \<and> ce_user cs uid = Some u
          \<and> \<not> us_disabled u \<and> p = nobody\<lparr> pl_user := us_id u, pl_name := us_name u \<rparr>))"
  by (auto simp: authenticate_def authenticate_credential_def Let_def split: option.splits)

lemma override_marks [simp]:
  "pl_anonymous (apply_loopback_override cs p h peer) = pl_anonymous p"
  "pl_admin (apply_loopback_override cs p h peer) = pl_admin p"
  by (simp_all add: apply_loopback_override_def Let_def split: option.splits)

lemma override_cases:
  "apply_loopback_override cs p h peer =
    (if pl_admin p \<or> \<not> is_loopback_peer peer \<or> trim_space (h ''X-Agent-Tenant'') = '''' then p
     else case asserted_owner cs (trim_space (h ''X-Agent-Tenant'')) of
            None \<Rightarrow> p
          | Some u \<Rightarrow> p\<lparr> pl_user := us_id u, pl_name := us_name u \<rparr>)"
  by (auto simp: apply_loopback_override_def Let_def split: option.splits)

text \<open>
  What a caller presents, and whom that makes him, without reference to the interceptor: a header
  of one of the four schemes presents the rest of the header, another header presents itself if it has
  no blank and nothing otherwise.
\<close>

definition schemed :: "string \<Rightarrow> string \<Rightarrow> bool" where
  "schemed raw rest \<longleftrightarrow> (\<exists>s \<in> {''Bearer'', ''bearer'', ''token'', ''Token''}. raw = s @ '' '' @ rest)"

definition presents :: "string \<Rightarrow> string \<Rightarrow> bool" where
  "presents raw tok \<longleftrightarrow>
    (\<exists>rest. schemed raw rest \<and> tok = trim_space rest)
    \<or> (\<nexists>rest. schemed raw rest) \<and> tok = (if CHR '' '' \<in> set raw \<or> CHR 0x09 \<in> set raw then '''' else trim_space raw)"

definition identifies :: "'r central \<Rightarrow> string \<Rightarrow> string \<Rightarrow> principal \<Rightarrow> bool" where
  "identifies cs at tok p \<longleftrightarrow>
    tok = '''' \<and> p = \<lparr> pl_user = 0, pl_name = '''', pl_anonymous = True, pl_admin = False \<rparr>
    \<or> tok \<noteq> '''' \<and> tok = at \<and> p = \<lparr> pl_user = 0, pl_name = ''admin'', pl_anonymous = False, pl_admin = True \<rparr>
    \<or> tok \<noteq> '''' \<and> tok \<noteq> at \<and> (\<exists>uid u. ce_token cs tok = Some uid \<and> ce_user cs uid = Some u \<and> \<not> us_disabled u
        \<and> p = \<lparr> pl_user = us_id u, pl_name = us_name u, pl_anonymous = False, pl_admin = False \<rparr>)"

definition names_owner :: "'r central \<Rightarrow> string \<Rightarrow> user \<Rightarrow> bool" where
  "names_owner cs n u \<longleftrightarrow> \<not> us_disabled u \<and>
    (ce_by_name cs n = Some u
     \<or> (\<forall>v. ce_by_name cs n = Some v \<longrightarrow> us_disabled v) \<and> ce_by_tenant cs n = Some u)"

lemma schemed_prefix: "schemed raw rest \<longleftrightarrow> (\<exists>p \<in> set schemes. raw = p @ rest)"
  by (auto simp: schemed_def schemes_def)

lemma scheme_unique:
  assumes "p \<in> set schemes" "q \<in> set schemes" "p @ rest = q @ rest'"
  shows "p = q"
  using assms by (auto simp: schemes_def)

lemma presents_iff: "presents (h ''Authorization'') tok \<longleftrightarrow> tok = fst (credential h)"
proof -
  let ?raw = "h ''Authorization''"
  show ?thesis
  proof (cases "find (\<lambda>p. has_prefix p ?raw) schemes")
    case None
    then have n: "\<nexists>rest. schemed ?raw rest"
      unfolding find_None_iff schemed_prefix by (auto simp: has_prefix_def)
    have t: "trim_space [] = []" by (simp add: trim_space_def)
    show ?thesis
      using None n t by (auto simp: presents_def credential_def Let_def list_ex_iff)
  next
    case (Some p)
    then have p: "p \<in> set schemes" "has_prefix p ?raw" by (auto simp: find_Some_iff)
    then obtain rest where r: "?raw = p @ rest" by (auto elim: has_prefixE)
    have u: "schemed ?raw rest' \<longleftrightarrow> rest' = rest" for rest'
    proof
      assume "schemed ?raw rest'"
      then obtain q where q: "q \<in> set schemes" "p @ rest = q @ rest'" unfolding schemed_prefix r by blast
      with scheme_unique[OF p(1) q(1) q(2)] show "rest' = rest" by simp
    qed (use p r in \<open>auto simp: schemed_prefix\<close>)
    have ne: "?raw \<noteq> []" using p(1) r by (auto simp: schemes_def)
    have "fst (credential h) = trim_space rest"
      using Some ne unfolding credential_def Let_def r by (simp add: trim_prefix_append trim_space_def)
    then show ?thesis by (auto simp: presents_def u)
  qed
qed

lemma identifies_iff: "presents (h ''Authorization'') tok \<Longrightarrow> authenticate cs at h = Some p \<longleftrightarrow> identifies cs at tok p"
  unfolding presents_iff authenticate_Some Let_def identifies_def by (auto simp: anonymous_def nobody_def)

lemma names_owner_iff: "asserted_owner cs n = Some u \<longleftrightarrow> names_owner cs n u"
  by (auto simp: asserted_owner_def enabled_Some names_owner_def enabled_def split: option.splits)

lemma trim_brackets_clean:
  assumes "CHR ''['' \<notin> set host" "CHR '']'' \<notin> set host"
  shows "trim_brackets host = host" "trim_brackets (CHR ''['' # host @ [CHR '']'']) = host"
proof -
  have d: "dropWhile is_bracket xs = xs" if "set xs \<subseteq> set host" for xs
    using that assms by (cases xs) (auto simp: is_bracket_def)
  show "trim_brackets host = host" by (simp add: trim_brackets_def d)
  have "dropWhile is_bracket (host @ [CHR '']'']) = (if host = [] then [] else host @ [CHR '']''])"
    using d[of host] using assms by (cases host) (auto simp: is_bracket_def)
  then show "trim_brackets (CHR ''['' # host @ [CHR '']'']) = host"
    by (auto simp: trim_brackets_def is_bracket_def d)
qed

lemma loopback_host:
  assumes "peer = host @ '':'' @ port \<or> peer = ''['' @ host @ '']:'' @ port"
    and "CHR ''['' \<notin> set host" "CHR '']'' \<notin> set host" "CHR '':'' \<notin> set port"
  shows "is_loopback_peer peer \<longleftrightarrow> host \<in> {'''', ''127.0.0.1'', ''::1'', ''localhost''}"
proof -
  have c: "cut_last CHR '':'' (x @ CHR '':'' # port) = Some (x, port)" for x
    by (rule cut_last_append[OF assms(4)])
  note t = trim_brackets_clean[OF assms(2,3)]
  have "trim_brackets (case cut_last CHR '':'' peer of Some (host, _) \<Rightarrow> host | None \<Rightarrow> peer) = host"
    using assms(1)
  proof
    assume "peer = host @ '':'' @ port"
    then show ?thesis using c[of host] t by simp
  next
    assume "peer = ''['' @ host @ '']:'' @ port"
    then show ?thesis using c[of "CHR ''['' # host @ [CHR '']'']"] t by simp
  qed
  then show ?thesis by (simp add: is_loopback_peer_def is_local_host_def)
qed

text \<open>
  C11: A call other than a health check is refused exactly when its token is neither the admin
  credential nor the token of an enabled user; otherwise it runs as whom the token says: nobody without a
  token, the admin, or the user of the token.  From a loopback address, and from there only, a tenant
  header that names an enabled user, by user name or else by agent tenant, makes any caller but the
  admin that user, even a caller without a token, who stays marked as anonymous.
\<close>
theorem caller_identity:
  assumes "\<not> has_suffix ''/Health'' procedure" and tok: "presents (h ''Authorization'') tok"
    and peer: "peer = host @ '':'' @ port \<or> peer = ''['' @ host @ '']:'' @ port"
      "CHR ''['' \<notin> set host" "CHR '']'' \<notin> set host" "CHR '':'' \<notin> set port"
  defines "owner \<equiv> trim_space (h ''X-Agent-Tenant'')"
  shows "(wrap_unary cs at procedure h peer = Inl err \<longleftrightarrow>
      err = ConnErr Unauthenticated ''invalid or expired credential'' \<and> (\<nexists>p. identifies cs at tok p))
    \<and> (wrap_unary cs at procedure h peer = Inr ctx \<longleftrightarrow>
      (\<exists>p. identifies cs at tok p \<and>
        (if \<not> pl_admin p \<and> owner \<noteq> '''' \<and> host \<in> {'''', ''127.0.0.1'', ''::1'', ''localhost''} \<and> (\<exists>u. names_owner cs owner u)
         then \<exists>u. names_owner cs owner u \<and> ctx = Some \<lparr> pl_user = us_id u, pl_name = us_name u,
                pl_anonymous = (tok = ''''), pl_admin = False \<rparr>
         else ctx = Some p)))"
proof -
  have a: "authenticate cs at h = Some p \<longleftrightarrow> identifies cs at tok p" for p by (rule identifies_iff[where h = h, OF tok])
  have unary: "wrap_unary cs at procedure h peer = (case authenticate cs at h of None \<Rightarrow> Inl invalid_credential
      | Some p \<Rightarrow> Inr (Some (apply_loopback_override cs p h peer)))"
    using assms(1) by (simp add: wrap_unary_def is_health_rpc_def)
  show ?thesis
  proof (cases "authenticate cs at h")
    case None
    then have "\<nexists>p. identifies cs at tok p" using a by auto
    then show ?thesis using unary None by (auto simp: invalid_credential_def)
  next
    case (Some p)
    then have i: "identifies cs at tok q \<longleftrightarrow> q = p" for q using a[of q] by auto
    have m: "pl_anonymous p = (tok = '''')" using i[of p] by (auto simp: identifies_def)
    note o = override_cases[of cs p h peer, unfolded loopback_host[OF peer]]
    have "wrap_unary cs at procedure h peer = Inr (Some (apply_loopback_override cs p h peer))" using unary Some by simp
    then show ?thesis
      by (cases "asserted_owner cs owner")
        (auto simp: i m o owner_def[symmetric] names_owner_iff[symmetric])
  qed
qed

section \<open>Sessions and services\<close>

definition has_role :: "'r central \<Rightarrow> principal option \<Rightarrow> ('r \<Rightarrow> bool) \<Rightarrow> string \<Rightarrow> string \<Rightarrow> bool" where
  "has_role cs ctx ok org repo \<longleftrightarrow> (\<exists>r. ce_role cs org repo (user_id_of ctx) = Inr r \<and> ok r)"

lemma require_repo_action_None:
  "require_repo_action cs ctx org repo ok action = None \<longleftrightarrow> has_role cs ctx ok org repo"
  by (auto simp: require_repo_action_def repo_role_def has_role_def split: sum.splits)

text \<open>
  C12: Access to a session needs authentication, and nothing more for a session whose name is not
  that of a workspace; the session of a workspace is open only to those who may push to its
  repository.  So no session that the repository extension binds is driven by anyone else.
\<close>
theorem session_access:
  "authorize_session cs ctx sid = None \<longleftrightarrow>
    \<not> pl_anonymous (principal_of ctx)
    \<and> (\<forall>org repo b. parse_session sid = Some (org, repo, b) \<longrightarrow> has_role cs ctx (ro_push cs) org repo)"
proof -
  have three: "parse_session sid = Some (a, b, c) \<longleftrightarrow> split_on CHR '':'' sid = [a, b, c]" for a b c
    by (simp only: parse_session_iff split_three)
  show ?thesis
    unfolding authorize_session_def require_authenticated_def three
    by (auto simp: require_repo_action_None split: list.splits)
qed

definition role_ladder :: "'r central \<Rightarrow> bool" where
  "role_ladder cs \<longleftrightarrow> (\<forall>r. (ro_push cs r \<longrightarrow> ro_merge cs r) \<and> (ro_merge cs r \<longrightarrow> ro_propose cs r)
      \<and> (ro_propose cs r \<longrightarrow> ro_read cs r))"

lemma see_service:
  "can_see_service cs ctx owner org repo \<longleftrightarrow> pl_admin (principal_of ctx)
    \<or> \<not> pl_anonymous (principal_of ctx)
      \<and> ((org \<noteq> '''' \<or> repo \<noteq> '''') \<and> has_role cs ctx (ro_read cs) org repo
         \<or> owner \<noteq> '''' \<and> owner = user_id_str ctx)"
  by (auto simp: can_see_service_def repo_role_def has_role_def split: sum.splits)

lemma operate_service:
  "can_operate_service cs ctx owner org repo \<longleftrightarrow> pl_admin (principal_of ctx)
    \<or> (org \<noteq> '''' \<or> repo \<noteq> '''') \<and> has_role cs ctx (ro_merge cs) org repo
    \<or> owner \<noteq> '''' \<and> owner = user_id_str ctx"
  by (auto simp: can_operate_service_def repo_role_def has_role_def split: sum.splits)

text \<open>
  Whoever may operate a service may see it, whenever the roles form a ladder, except an
  anonymous caller: the operation check does not look at the anonymous mark.  A caller who is
  neither admin, nor holds a role on the service's repository, nor is its recorded owner, can do
  neither; and the recorded owner text is that of exactly one user.
\<close>
lemma service_access:
  assumes "role_ladder cs"
  shows "(can_operate_service cs ctx owner org repo \<longrightarrow>
        can_see_service cs ctx owner org repo \<or> pl_anonymous (principal_of ctx) \<and> \<not> pl_admin (principal_of ctx))
    \<and> (\<not> pl_admin (principal_of ctx) \<longrightarrow> \<not> has_role cs ctx (ro_read cs) org repo \<longrightarrow>
         owner \<noteq> dec_int (user_id_of ctx) \<longrightarrow>
         \<not> can_see_service cs ctx owner org repo \<and> \<not> can_operate_service cs ctx owner org repo)
    \<and> (user_id_of ctx \<ge> 0 \<longrightarrow> user_id_of ctx' \<ge> 0 \<longrightarrow> user_id_str ctx = user_id_str ctx' \<longrightarrow>
         user_id_of ctx = user_id_of ctx')"
proof -
  have up: "has_role cs ctx (ro_merge cs) org repo \<Longrightarrow> has_role cs ctx (ro_read cs) org repo"
    using assms by (auto simp: has_role_def role_ladder_def)
  have own: "owner \<noteq> '''' \<Longrightarrow> owner = user_id_str ctx \<Longrightarrow> owner = dec_int (user_id_of ctx)"
    by (auto simp: user_id_str_def split: if_splits)
  have inj: "user_id_of ctx = user_id_of ctx'"
    if "user_id_of ctx \<ge> 0" "user_id_of ctx' \<ge> 0" "user_id_str ctx = user_id_str ctx'"
    using that by (auto simp: user_id_str_def dec_int_def dec_nat_inj eq_nat_nat_iff dec_nat_not_Nil[symmetric] split: if_splits)
  show ?thesis using up own inj unfolding see_service operate_service by blast
qed

section \<open>REST requests\<close>

definition named_segment :: "string \<Rightarrow> bool" where
  "named_segment p \<longleftrightarrow> contains_sub ''/merge_requests'' p \<or> contains_sub ''/tags'' p \<or> contains_sub ''/releases'' p"

lemma has_prefix_trans: "has_prefix (a @ b) s \<Longrightarrow> has_prefix a s"
  by (metis append_assoc has_prefixE has_prefix_append)

lemma contains_sub_prefix: "contains_sub (a @ b) s \<Longrightarrow> contains_sub a s"
proof (induction s)
  case (Cons x s)
  then show ?case using has_prefix_trans[of a b "x # s"] by auto
qed simp

lemma merge_requests_sub: "contains_sub ''/merge_requests/'' p \<Longrightarrow> contains_sub ''/merge_requests'' p"
  using contains_sub_prefix[of "''/merge_requests''" "''/''" p] by simp

text \<open>
  A REST request that reads needs the read capability; a request that writes needs the push
  capability unless its path has a merge request, tag or release segment anywhere, and then it
  needs the merge capability, or only the propose capability, never the read one alone.  The
  segment test looks at the whole path: a push to a repository named tags needs no more than the
  merge capability.
\<close>
lemma rest_capability:
  "fst (repo_cap_for_request r) =
     (if rq_method r = ''GET'' \<or> rq_method r = ''HEAD'' then CapRead
      else if \<not> named_segment (rq_path r) then CapPush
      else fst (repo_cap_for_request r))
   \<and> (rq_method r \<noteq> ''GET'' \<longrightarrow> rq_method r \<noteq> ''HEAD'' \<longrightarrow>
        fst (repo_cap_for_request r) \<in> {CapPropose, CapMerge, CapPush})
   \<and> fst (repo_cap_for_request (r\<lparr> rq_method := ''POST'', rq_path := ''/repo/acme/tags/push'' \<rparr>)) = CapMerge"
proof -
  have "fst (repo_cap_for_request (r\<lparr> rq_method := ''POST'', rq_path := ''/repo/acme/tags/push'' \<rparr>)) = CapMerge"
    by (simp add: repo_cap_for_request_def Let_def has_suffix_def)
  then show ?thesis
    using merge_requests_sub[of "rq_path r"]
    by (auto simp: repo_cap_for_request_def named_segment_def Let_def)
qed

definition reads_only :: "route \<Rightarrow> bool" where
  "reads_only r \<longleftrightarrow> rt_method r = ''GET'' \<or> rt_handler r = ''handleAdvertise'' \<or> rt_handler r = ''handleFetch''"

text \<open>
  Of the plain HTTP routes exactly the writing ones are guarded, and a guarded one admits a
  request exactly when no token check is configured, the instance is open, or the request carries
  a credential the check accepts.  The guard never asks for a role on the repository: changing
  every role changes no answer, so any valid token writes to any repository, and whoever reaches
  the gateway reads every repository.
\<close>
lemma rest_routes_ignore_roles:
  "list_all (\<lambda>r. (rt_guard r = Unguarded) = reads_only r
      \<and> admit auth (cs\<lparr> ce_role := role \<rparr>) r h = admit auth cs r h
      \<and> (admit auth cs r h = None \<longleftrightarrow> reads_only r \<or> auth = None \<or> ce_open cs
          \<or> snd (credential h) \<and> the auth (fst (credential h)))) routes"
proof -
  have a: "auth_ok auth (cs\<lparr> ce_role := role \<rparr>) h = auth_ok auth cs h"
    by (simp add: auth_ok_def split: option.split)
  have b: "auth_ok auth cs h \<longleftrightarrow> auth = None \<or> ce_open cs \<or> snd (credential h) \<and> the auth (fst (credential h))"
    by (auto simp: auth_ok_def split: option.splits prod.splits)
  show ?thesis
    by (simp add: routes_def rt_def reads_only_def admit_def require_auth_def a b)
qed

section \<open>Witnesses\<close>

text \<open>Two users; roles are levels, and the first user owns the repository acme/web.\<close>

definition demo_central :: "nat central" where
  "demo_central = \<lparr>
     ce_token = (\<lambda>t. if t = ''t1'' then Some 1 else if t = ''t2'' then Some 2 else None),
     ce_user = (\<lambda>i. if i = 1 then Some \<lparr> us_id = 1, us_name = ''ann'', us_disabled = False \<rparr>
                    else if i = 2 then Some \<lparr> us_id = 2, us_name = ''bob'', us_disabled = False \<rparr> else None),
     ce_by_name = (\<lambda>n. if n = ''ann'' then Some \<lparr> us_id = 1, us_name = ''ann'', us_disabled = False \<rparr> else None),
     ce_by_tenant = (\<lambda>n. None),
     ce_role = (\<lambda>ns n i. if i = 1 then Inr 4 else Inr 0),
     ce_repo_exists = (\<lambda>ns n. True), ce_mirror = (\<lambda>ns n. False), ce_open = False,
     ro_read = (\<lambda>r. r \<ge> 1), ro_propose = (\<lambda>r. r \<ge> 2), ro_merge = (\<lambda>r. r \<ge> 3), ro_push = (\<lambda>r. r \<ge> 4),
     ro_text = (\<lambda>r. dec_nat r) \<rparr>"

definition bob_header :: header where
  "bob_header k = (if k = ''Authorization'' then ''Bearer t2'' else if k = ''X-Agent-Tenant'' then ''ann'' else '''')"

lemma caller_identity_witness:
  "wrap_unary demo_central '''' ''/easylab.v1.LabService/Tree'' bob_header ''10.0.0.7:4000'' =
     Inr (Some \<lparr> pl_user = 2, pl_name = ''bob'', pl_anonymous = False, pl_admin = False \<rparr>)
   \<and> wrap_unary demo_central '''' ''/easylab.v1.LabService/Tree'' bob_header ''[::1]:4000'' =
     Inr (Some \<lparr> pl_user = 1, pl_name = ''ann'', pl_anonymous = False, pl_admin = False \<rparr>)"
proof -
  let ?bob = "\<lparr> pl_user = 2, pl_name = ''bob'', pl_anonymous = False, pl_admin = False \<rparr>"
  let ?ann = "\<lparr> us_id = 1, us_name = ''ann'', us_disabled = False \<rparr>"
  have h: "\<not> has_suffix ''/Health'' ''/easylab.v1.LabService/Tree''" by code_simp
  have "fst (credential bob_header) = ''t2''" by code_simp
  then have t: "presents (bob_header ''Authorization'') ''t2''" by (simp add: presents_iff)
  have u: "identifies demo_central '''' ''t2'' ?bob" by (simp add: identifies_def demo_central_def)
  have o: "trim_space (bob_header ''X-Agent-Tenant'') = ''ann''" by code_simp
  have n: "names_owner demo_central ''ann'' u \<longleftrightarrow> u = ?ann" for u
    by (auto simp: names_owner_def demo_central_def)
  have "wrap_unary demo_central '''' ''/easylab.v1.LabService/Tree'' bob_header ''10.0.0.7:4000'' =
      Inr (Some ?bob)"
    using caller_identity[where h = bob_header and cs = demo_central and at = "''''" and peer = "''10.0.0.7:4000''"
      and host = "''10.0.0.7''" and port = "''4000''", OF h t, THEN conjunct2, THEN iffD2, unfolded o n, OF _ _ _ _ exI[of _ ?bob]]
    by (simp add: u)
  moreover have "wrap_unary demo_central '''' ''/easylab.v1.LabService/Tree'' bob_header ''[::1]:4000'' =
      Inr (Some \<lparr> pl_user = 1, pl_name = ''ann'', pl_anonymous = False, pl_admin = False \<rparr>)"
    using caller_identity[where h = bob_header and cs = demo_central and at = "''''" and peer = "''[::1]:4000''"
      and host = "''::1''" and port = "''4000''", OF h t, THEN conjunct2, THEN iffD2, unfolded o n, OF _ _ _ _ exI[of _ ?bob]]
    by (simp add: u)
  ultimately show ?thesis by blast
qed

lemma session_access_witness:
  "authorize_session demo_central (Some (nobody\<lparr> pl_user := 1 \<rparr>)) ''acme:web:main'' = None
   \<and> authorize_session demo_central (Some (nobody\<lparr> pl_user := 2 \<rparr>)) ''acme:web:main'' \<noteq> None"
proof -
  have p: "parse_session ''acme:web:main'' = Some (''acme'', ''web'', ''main'')" by code_simp
  show ?thesis
    using session_access[of demo_central "Some (nobody\<lparr> pl_user := 1 \<rparr>)" "''acme:web:main''"]
      session_access[of demo_central "Some (nobody\<lparr> pl_user := 2 \<rparr>)" "''acme:web:main''"] p
    by (auto simp: principal_of_def nobody_def has_role_def user_id_of_def demo_central_def)
qed

lemma service_access_witness:
  "\<not> can_operate_service demo_central (Some (nobody\<lparr> pl_user := 2 \<rparr>)) ''1'' ''acme'' ''web''"
proof -
  have "role_ladder demo_central" by (auto simp: role_ladder_def demo_central_def)
  note s = service_access[OF this, of "Some (nobody\<lparr> pl_user := 2 \<rparr>)" "''1''" "''acme''" "''web''" None]
  have "''1'' \<noteq> dec_int 2" by code_simp
  then show ?thesis
    using s by (simp add: principal_of_def nobody_def has_role_def user_id_of_def demo_central_def)
qed

lemma rest_capability_witness:
  "fst (repo_cap_for_request \<lparr> rq_method = ''POST'', rq_path = ''/repo/acme/web/push'', rq_vars = (\<lambda>_. ''''),
     rq_header = (\<lambda>_. ''''), rq_remote = '''' \<rparr>) = CapPush"
proof -
  have "\<not> named_segment ''/repo/acme/web/push''" by code_simp
  then show ?thesis
    using rest_capability[of "\<lparr> rq_method = ''POST'', rq_path = ''/repo/acme/web/push'', rq_vars = (\<lambda>_. ''''),
     rq_header = (\<lambda>_. ''''), rq_remote = '''' \<rparr>"]
    by simp
qed

end
