(* ===== verification/Services_Correct.thy ===== *)
theory Services_Correct
imports Services Access_Correct
begin

text \<open>
  What the service API guarantees: who changes the cluster through it, what a successful launch
  leaves behind, and which label values it sends.

  A cluster is truthful about its deployments and services if the API answers from them and a call
  changes what it says and nothing else; the views \<^verbatim>\<open>deps\<close> and \<^verbatim>\<open>svcs\<close> read them off the world.
\<close>

section \<open>Who changes the cluster\<close>

lemma service_status_reads [keep_intros]: "keeps (\<lambda>v. v) (service_status A c name)"
  unfolding service_status_def ask_def by (intro keep_intros)

lemma runner_status_reads [keep_intros]: "keeps (\<lambda>v. v) (runner_status A c name)"
  unfolding runner_status_def by (intro keep_intros)

lemma runner_list_reads [keep_intros]: "keeps (\<lambda>v. v) (runner_list A c)"
  unfolding runner_list_def kube_list_services_def ask_def by (intro keep_intros)

lemma runner_status_Done:
  "runner_status A c name k = (Done st, k') \<longleftrightarrow>
    k' = k \<and> (\<exists>d. ka_dep A k name = Inr d \<and> st = to_status (deployment_status c name d) name 0)"
  unfolding runner_status_def service_status_def ask_def by (auto simp: done_cases)

datatype service_call =
    ListServices | GetService string | LaunchService launch_request | DeleteService string
  | ScaleService string int


fun run_service :: "'k kube_api \<Rightarrow> kube_client option \<Rightarrow> (string \<Rightarrow> string) \<Rightarrow> 'r central \<Rightarrow> principal option
    \<Rightarrow> service_call \<Rightarrow> ('k, unit) act" where
  "run_service A oc sha cs ctx ListServices = ignored (list_services A oc cs ctx)"
| "run_service A oc sha cs ctx (GetService n) = ignored (get_service A oc cs ctx n)"
| "run_service A oc sha cs ctx (LaunchService r) = ignored (launch_service A oc sha cs ctx r)"
| "run_service A oc sha cs ctx (DeleteService n) = delete_service A oc cs ctx n"
| "run_service A oc sha cs ctx (ScaleService n i) = scale_service A oc cs ctx n i"

text \<open>What the caller needs for a call that changes something, read off the deployment's labels.\<close>

definition operates_deployment :: "'k kube_api \<Rightarrow> 'r central \<Rightarrow> principal option \<Rightarrow> 'k \<Rightarrow> string \<Rightarrow> bool" where
  "operates_deployment A cs ctx k name =
    (case ka_dep A k name of
       Inl _ \<Rightarrow> False
     | Inr d \<Rightarrow> can_operate_service cs ctx (label_of (de_labels d) ''easylab/owner'')
                 (label_of (de_labels d) ''easylab/org'') (label_of (de_labels d) ''easylab/repo''))"

fun service_demand :: "'k kube_api \<Rightarrow> 'r central \<Rightarrow> principal option \<Rightarrow> 'k \<Rightarrow> service_call \<Rightarrow> bool" where
  "service_demand A cs ctx k (LaunchService r) = (may_deploy cs ctx r = None)"
| "service_demand A cs ctx k (DeleteService n) = operates_deployment A cs ctx k n"
| "service_demand A cs ctx k (ScaleService n i) = operates_deployment A cs ctx k n"
| "service_demand A cs ctx k _ = False"

lemma wrapping_reads:
  assumes "keeps (\<lambda>v. v) m" "snd (wrapping c p m f k) \<noteq> k"
  shows "\<exists>b. fst (m k) = Done b \<and> wrapping c p m f k = f b k"
  using assms(2) unfolding wrapping_def attempt_reads[OF assms(1)]
  by (cases "fst (m k)") (simp_all add: refuse_def)

lemma operated:
  assumes "snd (wrapping NotFound '''' (runner_status A c name) (\<lambda>st.
      if \<not> operates cs ctx st then refuse PermissionDenied msg else m st) k) \<noteq> k"
  shows "operates_deployment A cs ctx k name"
proof -
  from wrapping_reads[OF runner_status_reads assms] obtain st where
    st: "fst (runner_status A c name k) = Done st" and
    e: "wrapping NotFound '''' (runner_status A c name) (\<lambda>st.
      if \<not> operates cs ctx st then refuse PermissionDenied msg else m st) k =
      (if \<not> operates cs ctx st then refuse PermissionDenied msg else m st) k" by blast
  have "operates cs ctx st"
  proof (rule ccontr)
    assume "\<not> operates cs ctx st"
    then show False using e assms by (simp add: refuse_def)
  qed
  moreover obtain k' where "runner_status A c name k = (Done st, k')" using st by (metis prod.collapse)
  ultimately show ?thesis
    by (auto simp: operates_deployment_def runner_status_Done operates_def to_status_def deployment_status_def Let_def)
qed

lemma ignored_snd: "snd (ignored m v) = snd (m v)"
  by (auto simp: ignored_def act_defs split: prod.split reply.split)

text \<open>
  C20: A call of the service API that changes anything in the cluster was made by a caller who may:
  deleting and scaling need the right to operate the service that its labels give at that moment,
  launching needs the merge right on the named repository or, without one, authentication; listing
  and reading change nothing.
\<close>
theorem service_calls_authorized:
  assumes "run_service A oc sha cs ctx call k = (rep, k')" "k' \<noteq> k"
  shows "service_demand A cs ctx k call"
proof (cases oc)
  case None
  then show ?thesis using assms
    by (cases call) (auto simp: ignored_def list_services_def get_service_def launch_service_def delete_service_def
        scale_service_def with_backend_def act_defs split: option.splits)
next
  case (Some c)
  note S = Some
  have ch: "snd (run_service A oc sha cs ctx call k) \<noteq> k" using assms by simp
  show ?thesis
  proof (cases call)
    case ListServices
    have "keeps (\<lambda>v. v) (list_services A oc cs ctx)"
      unfolding list_services_def S with_backend_def option.simps by (intro keep_intros)
    then show ?thesis using ch unfolding ListServices by (simp add: ignored_snd keeps_def)
  next
    case (GetService n)
    have "keeps (\<lambda>v. v) (get_service A oc cs ctx n)"
      unfolding get_service_def S with_backend_def option.simps by (intro keep_intros)
    then show ?thesis using ch unfolding GetService by (simp add: ignored_snd keeps_def)
  next
    case (LaunchService r)
    then show ?thesis using ch
      by (auto simp: ignored_snd launch_service_def demand_def split: option.splits)
  next
    case (DeleteService n)
    then show ?thesis using ch operated
      by (simp add: delete_service_def with_backend_def S)
  next
    case (ScaleService n i)
    then show ?thesis using ch operated
      by (simp add: scale_service_def with_backend_def S)
  qed
qed

section \<open>What a launch leaves behind\<close>

definition same_object :: "deployment \<Rightarrow> deployment \<Rightarrow> bool" where
  "same_object d e \<longleftrightarrow> de_labels e = de_labels d \<and> de_replicas e = de_replicas d \<and> de_spec e = de_spec d"

definition truthful_cluster :: "'k kube_api \<Rightarrow> ('k \<Rightarrow> string \<Rightarrow> deployment option)
    \<Rightarrow> ('k \<Rightarrow> string \<Rightarrow> kservice option) \<Rightarrow> bool" where
  "truthful_cluster A deps svcs \<longleftrightarrow>
    (\<forall>k n. case deps k n of Some d \<Rightarrow> ka_dep A k n = Inr d | None \<Rightarrow> (\<exists>e. ka_dep A k n = Inl e \<and> is_not_found e))
    \<and> (\<forall>d k. case ka_dep_create A d k of
         (Inr _, k') \<Rightarrow> deps k (de_name d) = None \<and> svcs k' = svcs k
                      \<and> (\<exists>d'. same_object d d' \<and> deps k' = (deps k)(de_name d := Some d'))
       | (Inl e, k') \<Rightarrow> deps k' = deps k \<and> svcs k' = svcs k \<and> is_already_exists e = (deps k (de_name d) \<noteq> None))
    \<and> (\<forall>d k. case ka_dep_replace A d k of
         (Inr _, k') \<Rightarrow> svcs k' = svcs k \<and> (\<exists>d'. same_object d d' \<and> deps k' = (deps k)(de_name d := Some d'))
       | (Inl _, k') \<Rightarrow> deps k' = deps k \<and> svcs k' = svcs k)
    \<and> (\<forall>s k. case ka_svc_create A s k of
         (Inr _, k') \<Rightarrow> deps k' = deps k \<and> svcs k (ks_name s) = None \<and> svcs k' = (svcs k)(ks_name s := Some s)
       | (Inl e, k') \<Rightarrow> deps k' = deps k \<and> svcs k' = svcs k \<and> is_already_exists e = (svcs k (ks_name s) \<noteq> None))
    \<and> (\<forall>f \<in> {ka_cm_create A, ka_cm_update A, ka_secret_create A, ka_secret_update A}. \<forall>x k.
         deps (snd (f x k)) = deps k \<and> svcs (snd (f x k)) = svcs k)"

lemma keeps_api: "(\<And>v. V (snd (f v)) = V v) \<Longrightarrow> keeps V (api f)"
  unfolding api_def by (intro keeps_effect keep_intros)

lemma egress_frame:
  assumes "truthful_cluster A deps svcs" "with_egress A c name proxy spec f k = (Done x, k')"
  shows "\<exists>spec' k1. deps k1 = deps k \<and> svcs k1 = svcs k \<and> f spec' k1 = (Done x, k')
    \<and> (case proxy of None \<Rightarrow> spec' = spec | Some _ \<Rightarrow> with_proxy spec name (kc_namespace c) proxy = Inr spec')"
proof (cases proxy)
  case None
  then show ?thesis using assms(2) unfolding with_egress_def by auto
next
  case (Some p)
  let ?V = "\<lambda>k. (deps k, svcs k)"
  have fr: "keeps ?V (create_proxy_config_map A name r)" "keeps ?V (create_proxy_ca_secret A name cert key)" for r cert key
    using assms(1)
    unfolding create_proxy_config_map_def create_proxy_ca_secret_def create_or_update_def Let_def truthful_cluster_def
    by (intro keep_intros keeps_api; simp)+
  obtain k1 k2 where k1: "create_proxy_config_map A name (px_rules p) k = (Done (), k1)"
    and k2: "(if px_ca_cert p \<noteq> '''' \<and> px_ca_key p \<noteq> ''''
            then create_proxy_ca_secret A name (px_ca_cert p) (px_ca_key p) else give ()) k1 = (Done (), k2)"
    and r: "(case with_proxy spec name (kc_namespace c) proxy of Inl e \<Rightarrow> plain e | Inr spec' \<Rightarrow> f spec') k2 = (Done x, k')"
    using assms(2) unfolding with_egress_def Some option.simps wrapping_Done by auto
  have v1: "?V k1 = ?V k" by (rule keepsD[OF fr(1) k1])
  have "keeps ?V (if px_ca_cert p \<noteq> '''' \<and> px_ca_key p \<noteq> ''''
            then create_proxy_ca_secret A name (px_ca_cert p) (px_ca_key p) else give ())"
    by (intro keep_intros fr)
  from keepsD[OF this k2] have v2: "?V k2 = ?V k1" .
  show ?thesis
  proof (cases "with_proxy spec name (kc_namespace c) proxy")
    case (Inl e)
    then show ?thesis using r by (simp add: plain_def done_cases)
  next
    case (Inr spec')
    then show ?thesis using r v1 v2 Some by (intro exI[of _ spec'] exI[of _ k2]) simp
  qed
qed

lemma cluster_create:
  assumes "truthful_cluster A deps svcs"
  shows "case ka_dep_create A d k of
         (Inr _, k') \<Rightarrow> deps k (de_name d) = None \<and> svcs k' = svcs k
                      \<and> (\<exists>d'. same_object d d' \<and> deps k' = (deps k)(de_name d := Some d'))
       | (Inl e, k') \<Rightarrow> deps k' = deps k \<and> svcs k' = svcs k \<and> is_already_exists e = (deps k (de_name d) \<noteq> None)"
proof -
  have "\<forall>d k. case ka_dep_create A d k of
         (Inr _, k') \<Rightarrow> deps k (de_name d) = None \<and> svcs k' = svcs k
                      \<and> (\<exists>d'. same_object d d' \<and> deps k' = (deps k)(de_name d := Some d'))
       | (Inl e, k') \<Rightarrow> deps k' = deps k \<and> svcs k' = svcs k \<and> is_already_exists e = (deps k (de_name d) \<noteq> None)"
    using assms unfolding truthful_cluster_def by (elim conjE) assumption
  then show ?thesis by (elim allE)
qed

lemma cluster_replace:
  assumes "truthful_cluster A deps svcs"
  shows "case ka_dep_replace A d k of
         (Inr _, k') \<Rightarrow> svcs k' = svcs k \<and> (\<exists>d'. same_object d d' \<and> deps k' = (deps k)(de_name d := Some d'))
       | (Inl _, k') \<Rightarrow> deps k' = deps k \<and> svcs k' = svcs k"
proof -
  have "\<forall>d k. case ka_dep_replace A d k of
         (Inr _, k') \<Rightarrow> svcs k' = svcs k \<and> (\<exists>d'. same_object d d' \<and> deps k' = (deps k)(de_name d := Some d'))
       | (Inl _, k') \<Rightarrow> deps k' = deps k \<and> svcs k' = svcs k"
    using assms unfolding truthful_cluster_def by (elim conjE) assumption
  then show ?thesis by (elim allE)
qed

lemma cluster_expose:
  assumes "truthful_cluster A deps svcs"
  shows "case ka_svc_create A s k of
         (Inr _, k') \<Rightarrow> deps k' = deps k \<and> svcs k (ks_name s) = None \<and> svcs k' = (svcs k)(ks_name s := Some s)
       | (Inl e, k') \<Rightarrow> deps k' = deps k \<and> svcs k' = svcs k \<and> is_already_exists e = (svcs k (ks_name s) \<noteq> None)"
proof -
  have "\<forall>s k. case ka_svc_create A s k of
         (Inr _, k') \<Rightarrow> deps k' = deps k \<and> svcs k (ks_name s) = None \<and> svcs k' = (svcs k)(ks_name s := Some s)
       | (Inl e, k') \<Rightarrow> deps k' = deps k \<and> svcs k' = svcs k \<and> is_already_exists e = (svcs k (ks_name s) \<noteq> None)"
    using assms unfolding truthful_cluster_def by (elim conjE) assumption
  then show ?thesis by (elim allE)
qed

lemma put_deployment_effect:
  assumes "truthful_cluster A deps svcs" "put_deployment A d k = (Done (), k')"
  shows "svcs k' = svcs k \<and> (\<exists>d'. same_object d d' \<and> deps k' = (deps k)(de_name d := Some d'))"
proof -
  obtain r k1 where c: "ka_dep_create A d k = (r, k1)" by (metis prod.collapse)
  show ?thesis
  proof (cases r)
    case (Inr u)
    then have "k' = k1" using assms(2) c by (simp add: put_deployment_def api_def attempt_def effect_def give_def)
    then show ?thesis using cluster_create[OF assms(1), where d = d and k = k] unfolding c Inr by simp
  next
    case (Inl e)
    have k1: "deps k1 = deps k" "svcs k1 = svcs k"
      using cluster_create[OF assms(1), where d = d and k = k] unfolding c Inl by simp_all
    have "\<exists>(old :: deployment) k2. ka_dep_replace A (d\<lparr> de_version := de_version old \<rparr>) k1 = (Inr (), k2) \<and> k' = k2"
      using assms(2) c Inl
      by (auto simp: put_deployment_def api_def ask_def plain_def attempt_def effect_def flunk_def refuse_def
          after_def wrapping_def look_def give_def split: if_splits sum.splits prod.splits)
    then obtain old :: deployment and k2 where u: "ka_dep_replace A (d\<lparr> de_version := de_version old \<rparr>) k1 = (Inr (), k2)" "k' = k2"
      by blast
    show ?thesis
      using cluster_replace[OF assms(1), where d = "d\<lparr> de_version := de_version old \<rparr>" and k = k1] k1
      unfolding u(1) u(2) by (simp add: same_object_def)
  qed
qed

lemma label_update: "label_of (AList.update k v m) k' = (if k' = k then v else label_of m k')"
  by (simp add: label_of_def update_conv')

lemma launched_owner:
  "label_of (service_labels (runner_spec (launch_service_request sha c ctx r))) ''easylab/owner'' =
    dec_int (pl_user (principal_of ctx))"
  by (simp add: service_labels_def runner_spec_def launch_service_request_def launch_labels_def put_if_def label_update)

lemma expose_effect:
  assumes "truthful_cluster A deps svcs"
    "attempt (api (ka_svc_create A s)) (\<lambda>r. case r of
       Inl e \<Rightarrow> if is_already_exists (conn_text e) then service_status A c n
                else plain (''create service: '' @ conn_text e)
     | Inr _ \<Rightarrow> service_status A c n) k = (Done x, k')"
  shows "deps k' = deps k \<and> svcs k' = (if svcs k (ks_name s) = None then (svcs k)(ks_name s := Some s) else svcs k)"
proof -
  obtain r k1 where c: "ka_svc_create A s k = (r, k1)" by (metis prod.collapse)
  have st: "k2 = k1" if "service_status A c n k1 = (Done x, k2)" for k2
    using keepsD[OF service_status_reads that] .
  show ?thesis
  proof (cases r)
    case (Inr u)
    then have "k' = k1" using assms(2) c st by (simp add: attempt_def api_def effect_def give_def)
    then show ?thesis using cluster_expose[OF assms(1), where s = s and k = k] unfolding c Inr by simp
  next
    case (Inl e)
    then have "k' = k1" "is_already_exists e"
      using assms(2) c st
      by (auto simp: attempt_def api_def effect_def give_def plain_def refuse_def split: if_splits)
    then show ?thesis using cluster_expose[OF assms(1), where s = s and k = k] unfolding c Inl by auto
  qed
qed

text \<open>
  A successful launch leaves under its name exactly the requested deployment, owned by the
  caller, whether the name was free or belonged to a deployment of anyone else: the old deployment's
  owner is not looked at, and it is the caller who may operate the service from then on.  Every other
  deployment stays.  The service that exposes the ports is created when there was none and otherwise
  stays as it was, whatever ports the launch asks for.
\<close>
lemma launch_service_effect:
  assumes "truthful_cluster A deps svcs"
    "launch_service A (Some c) sha cs ctx r k = (Done x, k')"
  shows "may_deploy cs ctx r = None
    \<and> (\<exists>d. deps k' = (deps k)(lr_name r := Some d)
        \<and> co_image (hd (ps_containers (de_spec d))) = rewrite_image_ref c (lr_image r)
        \<and> label_of (de_labels d) ''easylab/owner'' = dec_int (pl_user (principal_of ctx))
        \<and> (pl_user (principal_of ctx) \<noteq> 0 \<longrightarrow>
            can_operate_service cs ctx (label_of (de_labels d) ''easylab/owner'')
              (label_of (de_labels d) ''easylab/org'') (label_of (de_labels d) ''easylab/repo'')))
    \<and> (if svcs k (lr_name r) = None
       then svcs k' = (svcs k)(lr_name r := Some (service_object (runner_spec (launch_service_request sha c ctx r))))
       else svcs k' = svcs k)"
proof -
  let ?s = "runner_spec (launch_service_request sha c ctx r)"
  let ?blank = "blank_spec\<lparr> ps_containers := [service_container ?s] \<rparr>"
  have n: "sc_name ?s = lr_name r" by (simp add: runner_spec_def launch_service_request_def)
  have m: "may_deploy cs ctx r = None"
    using assms(2) unfolding launch_service_def demand_Done by blast
  obtain st k0 where "kube_launch_service A c ?s k = (Done st, k0)" "k0 = k'"
    using assms(2)
    unfolding launch_service_def with_backend_def option.simps demand_Done wrapping_Done runner_launch_def
    by (auto simp: plain_def done_cases split: if_splits)
  then have l: "kube_launch_service A c ?s k = (Done st, k')" by simp
  obtain f where f: "with_egress A c (sc_name ?s) (service_proxy A c ?s) ?blank f k = (Done st, k')"
    and fd: "f = (\<lambda>spec. after (put_deployment A (service_deployment ?s spec)) (\<lambda>_.
        attempt (api (ka_svc_create A (service_object ?s))) (\<lambda>r. case r of
          Inl e \<Rightarrow> if is_already_exists (conn_text e) then service_status A c (sc_name ?s)
                   else plain (''create service: '' @ conn_text e)
        | Inr _ \<Rightarrow> service_status A c (sc_name ?s))))"
    using l unfolding kube_launch_service_def Let_def demand_Done by blast
  obtain spec' k1 where k1: "deps k1 = deps k" "svcs k1 = svcs k" "f spec' k1 = (Done st, k')"
    and px: "case service_proxy A c ?s of None \<Rightarrow> spec' = ?blank
             | Some _ \<Rightarrow> with_proxy ?blank (sc_name ?s) (kc_namespace c) (service_proxy A c ?s) = Inr spec'"
    using egress_frame[OF assms(1) f] by blast
  obtain u k2 where p: "put_deployment A (service_deployment ?s spec') k1 = (Done u, k2)"
    and e: "attempt (api (ka_svc_create A (service_object ?s))) (\<lambda>r. case r of
          Inl e \<Rightarrow> if is_already_exists (conn_text e) then service_status A c (sc_name ?s)
                   else plain (''create service: '' @ conn_text e)
        | Inr _ \<Rightarrow> service_status A c (sc_name ?s)) k2 = (Done st, k')"
    using k1(3) unfolding fd after_Done by blast
  obtain d where d: "svcs k2 = svcs k1" "same_object (service_deployment ?s spec') d"
      "deps k2 = (deps k1)(lr_name r := Some d)"
    using put_deployment_effect[OF assms(1), of "service_deployment ?s spec'" k1 k2] p n
    by (auto simp: service_deployment_def)
  have sv: "deps k' = deps k2" "svcs k' = (if svcs k2 (lr_name r) = None
      then (svcs k2)(lr_name r := Some (service_object ?s)) else svcs k2)"
    using expose_effect[OF assms(1) e] n by (simp_all add: service_object_def)
  have "co_image (hd (ps_containers spec')) = co_image (service_container ?s)"
    using px by (auto simp: with_proxy_Inr trust_ca_def split: option.splits)
  then have img: "co_image (hd (ps_containers (de_spec d))) = rewrite_image_ref c (lr_image r)"
    using d(2) by (simp add: same_object_def service_deployment_def service_container_def runner_spec_def
        launch_service_request_def blank_container_def)
  have own: "label_of (de_labels d) ''easylab/owner'' = dec_int (pl_user (principal_of ctx))"
    using d(2) launched_owner by (simp add: same_object_def service_deployment_def)
  then have "pl_user (principal_of ctx) \<noteq> 0 \<longrightarrow>
      can_operate_service cs ctx (label_of (de_labels d) ''easylab/owner'') o' r'" for o' r'
    by (simp add: can_operate_service_def user_id_str_def user_id_of_def)
  then show ?thesis using m img own d(3) sv k1 d(1) by auto
qed

section \<open>The labels of a launch\<close>

lemma dec_nat_length: "n < 10 ^ k \<Longrightarrow> 0 < k \<Longrightarrow> length (dec_nat n) \<le> k"
proof (induction n arbitrary: k rule: dec_nat.induct)
  case (1 n)
  show ?case
  proof (cases "n < 10")
    case False
    then obtain j where j: "k = Suc j" "0 < j" using 1(2,3) by (cases k; cases "k - 1") auto
    then have "n div 10 < 10 ^ j" using 1(2) by (simp add: less_mult_imp_div_less mult.commute)
    then show ?thesis using 1(1)[OF False _ j(2)] j False by (subst dec_nat.simps) simp
  qed (use 1(3) in \<open>subst dec_nat.simps, simp\<close>)
qed

lemma dec_label_char: "is_dec c \<Longrightarrow> is_label_char c"
  by (simp add: is_dec_def is_label_char_def is_alnum_def char_between_def)

lemma dec_int_label:
  assumes "0 \<le> i" "i < 2 ^ 63"
  shows "valid_label_value (dec_int i)"
proof -
  have "nat i < 10 ^ 20" using assms by simp
  then have "length (dec_nat (nat i)) \<le> 20" by (rule dec_nat_length) simp
  moreover have "list_all is_label_char (dec_nat (nat i))"
    using dec_nat_digits[of "nat i"] unfolding list_all_iff by (blast intro: dec_label_char)
  ultimately show ?thesis using assms by (simp add: valid_label_value_def dec_int_def)
qed

lemma set_update: "x \<in> set (AList.update k v m) \<Longrightarrow> x = (k, v) \<or> (x \<in> set m \<and> (distinct (map fst m) \<longrightarrow> fst x \<noteq> k))"
  by (induction m) (auto split: if_splits simp: image_iff)

lemma put_if_distinct: "distinct (map fst m) \<Longrightarrow> distinct (map fst (put_if g k v m))"
  by (simp add: put_if_def distinct_update)

lemma sanitize_keys: "map fst (sanitize_labels sha m) = map fst m"
  by (induction m) (auto simp: sanitize_labels_def)

text \<open>
  Every label value of a launched deployment is accepted by the code's check of label values,
  whatever the request says, except that of the name, which is passed on as it is.
\<close>
lemma service_label_values:
  assumes "hex_digest sha" "distinct (map fst (lr_annotations r))"
    "0 \<le> pl_user (principal_of ctx)" "pl_user (principal_of ctx) < 2 ^ 63"
    "(k, v) \<in> set (service_labels (runner_spec (launch_service_request sha c ctx r)))"
  shows "if k = ''app'' then v = lr_name r else valid_label_value v"
proof -
  let ?base = "put_if (lr_repo r) ''easylab/repo'' (label_key sha (lr_repo r))
            (put_if (lr_org r) ''easylab/org'' (label_key sha (lr_org r))
              (put_if (lr_session r) ''easylab/session'' (label_key sha (lr_session r)) (lr_annotations r)))"
  let ?owned = "AList.update ''easylab/owner'' (dec_int (pl_user (principal_of ctx))) (sanitize_labels sha ?base)"
  let ?m = "launch_labels sha ctx r"
  have d0: "distinct (map fst ?base)" by (intro put_if_distinct assms(2))
  then have d1: "distinct (map fst ?owned)" by (simp only: distinct_update sanitize_keys)
  have d: "distinct (map fst ?m)"
    using put_if_distinct[OF d1, of "lr_kind r" "''easylab/kind''" "label_key sha (lr_kind r)"]
    by (simp only: launch_labels_def)
  have one: "valid_label_value ''1''" by (simp add: valid_label_value_def is_label_char_def is_alnum_def char_between_def)
  have v1: "valid_label_value v'" if "(k', v') \<in> set ?owned" for k' v'
  proof -
    have "(k', v') = (''easylab/owner'', dec_int (pl_user (principal_of ctx)))
        \<or> ((k', v') \<in> set (sanitize_labels sha ?base) \<and> k' \<noteq> ''easylab/owner'')"
      using set_update[OF that] d0 by (simp only: sanitize_keys fst_conv) blast
    then show ?thesis
      using dec_int_label[OF assms(3,4)] label_key_valid[OF assms(1)] by (auto simp: sanitize_labels_def)
  qed
  have vm: "valid_label_value v'" if "(k', v') \<in> set ?m" for k' v'
    using that v1 label_key_valid[OF assms(1)] set_update[of "(k', v')" "''easylab/kind''" _ ?owned]
    unfolding launch_labels_def put_if_def by (auto split: if_splits)
  have "(k, v) \<in> set (AList.update ''easylab/service'' ''1'' (AList.update ''app'' (lr_name r) ?m))"
    using assms(5) by (simp add: service_labels_def runner_spec_def launch_service_request_def)
  from set_update[OF this]
  have "(k, v) = (''easylab/service'', ''1'') \<or> (k, v) \<in> set (AList.update ''app'' (lr_name r) ?m)" by blast
  then have "(k, v) = (''easylab/service'', ''1'') \<or> (k, v) = (''app'', lr_name r) \<or> ((k, v) \<in> set ?m \<and> k \<noteq> ''app'')"
    using set_update[of "(k, v)" "''app''" "lr_name r" ?m] d by auto
  then show ?thesis using one vm by auto
qed

text \<open>
  The values Kubernetes accepts also begin and end with a letter or digit: a value like a branch
  name that begins with an underscore passes the code's check and is refused by the API server.
\<close>

definition kubernetes_label_value :: "string \<Rightarrow> bool" where
  "kubernetes_label_value v \<longleftrightarrow>
    v = '''' \<or> (length v \<le> 63 \<and> list_all is_label_char v \<and> is_alnum (hd v) \<and> is_alnum (last v))"

lemma label_grammar_gap:
  "valid_label_value v \<and> \<not> kubernetes_label_value v \<longleftrightarrow>
    valid_label_value v \<and> (\<not> is_alnum (hd v) \<or> \<not> is_alnum (last v))"
  "valid_label_value ''_wip''" "\<not> kubernetes_label_value ''_wip''" "label_key sha ''_wip'' = ''_wip''"
  by (auto simp: valid_label_value_def kubernetes_label_value_def label_key_def is_label_char_def is_alnum_def
      char_between_def split: if_splits)

text \<open>An environment variable reaches the container if its name is not empty and has no equals sign.\<close>


lemma env_vars_text:
  "(\<And>k v. (k, v) \<in> set m \<Longrightarrow> k \<noteq> '''' \<and> CHR ''='' \<notin> set k) \<Longrightarrow>
    env_vars (map (\<lambda>(k, v). k @ ''='' @ v) m) = map (\<lambda>(k, v). EnvValue k v) m"
proof (induction m)
  case (Cons kv m)
  obtain k v where kv: "kv = (k, v)" by fastforce
  then have "env_entry (k @ CHR ''='' # v) = Some (EnvValue k v)"
    using Cons.prems[of k v] by (simp add: env_entry_def cut_at_append)
  moreover have "env_vars (map (\<lambda>(k, v). k @ ''='' @ v) m) = map (\<lambda>(k, v). EnvValue k v) m"
    using Cons.prems by (intro Cons.IH) (metis list.set_intros(2))
  ultimately show ?case using kv by (simp add: env_vars_def)
qed (simp add: env_vars_def)

section \<open>Namespaces\<close>

lemma dedup_names_set:
  "set (dedup_names clean ns) = set clean \<union> {t. t \<noteq> '''' \<and> (\<exists>n \<in> set ns. t = trim_space n)}"
  by (induction clean ns rule: dedup_names.induct) (auto simp: Let_def)

lemma dedup_names_distinct: "distinct clean \<Longrightarrow> distinct (dedup_names clean ns)"
  by (induction clean ns rule: dedup_names.induct) (auto simp: Let_def)

text \<open>A list of blank names, like the setting of a single comma, makes the start-up panic.\<close>

lemma namespaces_panic: "new_namespace_registry names = None \<longleftrightarrow> names \<noteq> [] \<and> (\<forall>n \<in> set names. trim_space n = '''')"
proof -
  have "dedup_names [] names = [] \<longleftrightarrow> set (dedup_names [] names) = {}" by simp
  also have "\<dots> \<longleftrightarrow> (\<forall>n \<in> set names. trim_space n = '''')" unfolding dedup_names_set by auto
  finally have e: "dedup_names [] names = [] \<longleftrightarrow> (\<forall>n \<in> set names. trim_space n = '''')" .
  have d: "dedup_names [] [''default''] \<noteq> []" by code_simp
  show ?thesis
  proof (cases "names = []")
    case True
    then show ?thesis using d by (simp only: new_namespace_registry_def if_True split: list.splits) simp
  next
    case False
    then show ?thesis using e by (cases "dedup_names [] names") (auto simp: new_namespace_registry_def)
  qed
qed

lemma namespaces_comma: "namespaces_from_env '','' = None"
  by code_simp

lemma ns_resolve_default: "new_namespace_registry names = Some r \<Longrightarrow> ns_resolve r '''' = Some (nr_default r)
    \<and> ns_approved r (nr_default r)"
  by (auto simp: ns_resolve_def ns_approved_def new_namespace_registry_def split: list.splits)

section \<open>A small cluster\<close>

type_synonym demo_cluster = "(string \<times> deployment) list \<times> (string \<times> kservice) list"

definition fails_with :: "string \<Rightarrow> 'x \<Rightarrow> 'k \<Rightarrow> (string + unit) \<times> 'k" where
  "fails_with e x k = (Inl e, k)"

definition demo_kube :: "demo_cluster kube_api" where
  "demo_kube = \<lparr>
    ka_pod_create = fails_with ''no pods here'', ka_pod_delete = fails_with ''not found'',
    ka_pod = (\<lambda>k n. Inl ''not found''), ka_pods = (\<lambda>k. Inr []),
    ka_svc_create = (\<lambda>s (ds, ss). case map_of ss (ks_name s) of
        None \<Rightarrow> (Inr (), ds, AList.update (ks_name s) s ss) | Some _ \<Rightarrow> (Inl ''already exists'', ds, ss)),
    ka_svc_delete = (\<lambda>n (ds, ss). (Inr (), ds, AList.delete n ss)),
    ka_cm_create = (\<lambda>x k. (Inr (), k)), ka_cm_update = (\<lambda>x k. (Inr (), k)),
    ka_secret_create = (\<lambda>x k. (Inr (), k)), ka_secret_update = (\<lambda>x k. (Inr (), k)),
    ka_dep_create = (\<lambda>d (ds, ss). case map_of ds (de_name d) of
        None \<Rightarrow> (Inr (), AList.update (de_name d) d ds, ss) | Some _ \<Rightarrow> (Inl ''already exists'', ds, ss)),
    ka_dep_replace = (\<lambda>d (ds, ss). (Inr (), AList.update (de_name d) d ds, ss)),
    ka_dep_delete = (\<lambda>n (ds, ss). (Inr (), AList.delete n ds, ss)),
    ka_dep = (\<lambda>(ds, ss) n. case map_of ds n of Some d \<Rightarrow> Inr d | None \<Rightarrow> Inl ''not found''),
    ka_deps = (\<lambda>k. Inr []), ka_dial = (\<lambda>k a. None), ka_now = (\<lambda>k. 0), ka_pause = (\<lambda>ms k. (Some ''over'', k)),
    ka_quantity = (\<lambda>q. True), ka_parse_duration = (\<lambda>s. None), ka_show_duration = (\<lambda>d. ''1m0s''),
    ka_render = (\<lambda>g m h. h) \<rparr>"

lemma demo_kube_truthful: "truthful_cluster demo_kube (\<lambda>k. map_of (fst k)) (\<lambda>k. map_of (snd k))"
  by (auto simp: truthful_cluster_def demo_kube_def same_object_def is_not_found_def is_already_exists_def
      update_conv' split: option.splits)

definition demo_client :: kube_client where
  "demo_client = new_client default_runtimes
    \<lparr> cf_namespace = ''lab'', cf_buildkit = '''', cf_registry = ''reg'', cf_token = '''', cf_proxy = '''',
      cf_disabled = True, cf_image = '''', cf_gateway = '''', cf_ca_cert = '''', cf_ca_key = '''', cf_mode = '''',
      cf_spoof_dns = '''', cf_upstream = '''', cf_domain = '''', cf_mitm = False, cf_udp_allow = [],
      cf_udp_mode = '''', cf_default_mode = '''', cf_exempt = [], cf_forward = False, cf_tcp_ports = [] \<rparr>"

definition demo_launch :: launch_request where
  "demo_launch = \<lparr> lr_name = ''web'', lr_image = ''reg/evil:1'', lr_command = '''', lr_ports = [Some (8080, 0)],
     lr_env = [], lr_replicas = 0, lr_group = '''', lr_network = '''', lr_org = '''', lr_repo = '''', lr_session = '''',
     lr_kind = '''', lr_annotations = [] \<rparr>"

definition demo_user :: "int \<Rightarrow> principal option" where
  "demo_user i = Some (nobody\<lparr> pl_user := i \<rparr>)"

text \<open>A cluster whose service \<^verbatim>\<open>web\<close> user 1 deployed.\<close>

definition demo_web :: demo_cluster where
  "demo_web = ([(''web'', \<lparr> de_name = ''web'', de_version = ''1'',
      de_labels = [(''app'', ''web''), (''easylab/owner'', ''1'')], de_selector = [(''app'', ''web'')],
      de_replicas = 1, de_spec = blank_spec, de_ready = 1 \<rparr>)], [])"

definition owner_in :: "demo_cluster \<Rightarrow> string \<Rightarrow> string option" where
  "owner_in k n = map_option (\<lambda>d. label_of (de_labels d) ''easylab/owner'') (map_of (fst k) n)"

lemma owner_differs: "owner_in k n \<noteq> owner_in k' n \<Longrightarrow> k \<noteq> k'"
  by auto

lemmas run_calls = attempt_def after_def wrapping_def prod.case reply.case sum.case option.case

lemma demo_put:
  assumes "de_name d = ''web''"
  shows "\<exists>ds. put_deployment demo_kube d demo_web = (Done (), (ds, [])) \<and> map_of ds ''web'' \<noteq> None"
proof -
  obtain w where w: "demo_web = ([(''web'', w)], [])" by (simp add: demo_web_def)
  have c: "api (ka_dep_create demo_kube d) demo_web = (Fail (ConnErr OtherCode ''already exists''), demo_web)"
    using assms by (simp add: api_def effect_def demo_kube_def w)
  have a: "ask (\<lambda>k. ka_dep demo_kube k (de_name d)) demo_web = (Done w, demo_web)"
    using assms by (simp add: ask_def look_def give_def demo_kube_def w)
  let ?d = "d\<lparr> de_version := de_version w \<rparr>"
  have r: "api (ka_dep_replace demo_kube ?d) demo_web = (Done (), ([(''web'', ?d)], []))"
    using assms by (simp add: api_def effect_def give_def demo_kube_def w)
  have "is_already_exists ''already exists''" by (simp add: is_already_exists_def)
  then show ?thesis
    by (simp only: put_deployment_def run_calls c a r give_def conn_text.simps if_True) simp
qed

lemma demo_redeploy:
  assumes "service_proxy demo_kube demo_client s = None" "sc_name s = ''web''"
  shows "\<exists>st k. kube_launch_service demo_kube demo_client s demo_web = (Done st, k)"
proof -
  let ?d = "service_deployment s (blank_spec\<lparr> ps_containers := [service_container s] \<rparr>)"
  obtain ds where p: "put_deployment demo_kube ?d demo_web = (Done (), (ds, []))" and ds: "map_of ds ''web'' \<noteq> None"
    using demo_put[of ?d] assms(2) by (auto simp: service_deployment_def)
  let ?k = "(ds, [(''web'', service_object s)])"
  have e: "api (ka_svc_create demo_kube (service_object s)) (ds, []) = (Done (), ?k)"
    using assms(2) by (simp add: api_def effect_def give_def demo_kube_def service_object_def)
  obtain d where "map_of ds ''web'' = Some d" using ds by blast
  then have st: "service_status demo_kube demo_client (sc_name s) ?k = (Done (deployment_status demo_client ''web'' d), ?k)"
    using assms(2) by (simp add: service_status_def ask_def after_def attempt_def look_def give_def demo_kube_def)
  show ?thesis
    by (simp only: kube_launch_service_def Let_def assms(1) with_egress_def demand_def run_calls p e st if_True simp_thms)
      blast
qed

lemma launch_service_effect_witness:
  "owner_in demo_web ''web'' = Some ''1''
   \<and> owner_in (snd (launch_service demo_kube (Some demo_client) zero_sha demo_central (demo_user 2) demo_launch demo_web))
        ''web'' = Some ''2''"
proof
  show "owner_in demo_web ''web'' = Some ''1''" by code_simp
next
  let ?l = "launch_service demo_kube (Some demo_client) zero_sha demo_central (demo_user 2) demo_launch demo_web"
  let ?q = "launch_service_request zero_sha demo_client (demo_user 2) demo_launch"
  have "service_proxy demo_kube demo_client (runner_spec ?q) = None" "sc_name (runner_spec ?q) = ''web''" by code_simp+
  then obtain st k where k: "kube_launch_service demo_kube demo_client (runner_spec ?q) demo_web = (Done st, k)"
    using demo_redeploy by blast
  have q: "may_deploy demo_central (demo_user 2) demo_launch = None" "sq_name ?q \<noteq> ''''" "sq_image ?q \<noteq> ''''" by code_simp+
  have "runner_launch demo_kube demo_client ?q demo_web = (Done (to_status st (sq_name ?q) (sq_replicas ?q)), k)"
    using q(2,3) by (simp only: runner_launch_def run_calls k give_def if_False simp_thms)
  then have l: "?l = (Done (sx_name (to_status st (sq_name ?q) (sq_replicas ?q)),
      sx_worker (to_status st (sq_name ?q) (sq_replicas ?q))), k)"
    by (simp only: launch_service_def demand_def q(1) with_backend_def run_calls give_def)
  have "dec_int (pl_user (principal_of (demo_user 2))) = ''2''" "lr_name demo_launch = ''web''" by code_simp+
  then show "owner_in (snd ?l) ''web'' = Some ''2''"
    using launch_service_effect[OF demo_kube_truthful l] unfolding l by (auto simp: owner_in_def)
qed

lemma service_calls_authorized_witness:
  "service_demand demo_kube demo_central (demo_user 1) demo_web (DeleteService ''web'')
   \<and> \<not> service_demand demo_kube demo_central (demo_user 2) demo_web (DeleteService ''web'')"
proof
  let ?r = "run_service demo_kube (Some demo_client) zero_sha demo_central (demo_user 1) (DeleteService ''web'') demo_web"
  have "owner_in (snd ?r) ''web'' = None" by code_simp
  moreover have "owner_in demo_web ''web'' = Some ''1''" by code_simp
  ultimately have "owner_in (snd ?r) ''web'' \<noteq> owner_in demo_web ''web''" by simp
  then have "snd ?r \<noteq> demo_web" by (rule owner_differs)
  then show "service_demand demo_kube demo_central (demo_user 1) demo_web (DeleteService ''web'')"
    by (rule service_calls_authorized[OF prod.collapse[symmetric]])
  show "\<not> service_demand demo_kube demo_central (demo_user 2) demo_web (DeleteService ''web'')"
    by code_simp
qed

lemma service_label_values_witness:
  "valid_label_value (label_key zero_sha ''acme/web:main'')"
proof -
  let ?r = "demo_launch\<lparr> lr_session := ''acme/web:main'' \<rparr>"
  have m: "(''easylab/session'', label_key zero_sha ''acme/web:main'')
      \<in> set (service_labels (runner_spec (launch_service_request zero_sha demo_client (demo_user 1) ?r)))"
    by code_simp
  have "distinct (map fst (lr_annotations ?r))" by (simp add: demo_launch_def)
  moreover have "0 \<le> pl_user (principal_of (demo_user 1))" "pl_user (principal_of (demo_user 1)) < 2 ^ 63"
    by (simp_all add: demo_user_def principal_of_def)
  ultimately show ?thesis
    using service_label_values[OF zero_sha_digest _ _ _ m] by simp
qed

end
