(* ===== verification/Kube_Job.thy ===== *)
theory Kube_Job
imports Kube_Client
begin

text \<open>
  Ephemeral jobs (\<^verbatim>\<open>internal/k8s/job.go\<close>) and image builds (\<^verbatim>\<open>build.go\<close>): a pod is launched, a
  workspace is unpacked in it, commands run one after the other through the worker inside, and the
  pod is removed whatever happened.

  The worker is a remote party: a record of its answers, by address and token.  Its stream of a job
  is the list of messages it sends and the error the stream ends with, if any.  The log callback of
  the code appends to \<^verbatim>\<open>jw_log\<close>.
\<close>

section \<open>Workers\<close>

datatype watch_event = Output string | JobDone string int

record 'k worker_api =
  wk_info :: "string \<Rightarrow> string \<Rightarrow> 'k \<Rightarrow> string + string"
  wk_jobs :: "string \<Rightarrow> string \<Rightarrow> 'k \<Rightarrow> string + string list"
  wk_sync :: "string \<Rightarrow> string \<Rightarrow> string \<Rightarrow> string \<Rightarrow> 'k \<Rightarrow> (string + unit) \<times> 'k"
  wk_execute :: "string \<Rightarrow> string \<Rightarrow> string \<Rightarrow> string \<Rightarrow> smap \<Rightarrow> 'k \<Rightarrow> (string + string) \<times> 'k"
  wk_watch :: "string \<Rightarrow> string \<Rightarrow> string \<Rightarrow> 'k \<Rightarrow> (string + watch_event list \<times> string option) \<times> 'k"
  wk_call :: "string \<Rightarrow> string \<Rightarrow> string \<Rightarrow> string \<Rightarrow> 'k \<Rightarrow> (conn_err + string) \<times> 'k"
  wk_claim :: "string \<Rightarrow> string \<Rightarrow> string \<Rightarrow> 'k \<Rightarrow> (conn_err + string) \<times> 'k"
  wk_release :: "string \<Rightarrow> string \<Rightarrow> string \<Rightarrow> 'k \<Rightarrow> (string + string) \<times> 'k"
  wk_random :: "'k \<Rightarrow> (string + string) \<times> 'k"

record job_command =
  jc_name :: string
  jc_run :: string
  jc_workdir :: string
  jc_env :: smap

record job_spec =
  js_name :: string
  js_image :: string
  js_workspace :: string
  js_env :: smap
  js_port :: int
  js_tarball :: "string option"
  js_commands :: "job_command list"
  js_profile :: "runtime_profile option"
  js_worker_dir :: string
  js_proxy :: "proxy_spec option"
  js_no_proxy :: bool

record kjob_result =
  jr_exit :: int
  jr_output :: string

record 'k job_world =
  jw_ext :: 'k
  jw_log :: "string list"

definition on_ext :: "('k, 'a) act \<Rightarrow> ('k job_world, 'a) act" where
  "on_ext = zoom jw_ext (\<lambda>k w. w\<lparr> jw_ext := k \<rparr>)"

definition emit :: "string list \<Rightarrow> ('k job_world, 'a) act \<Rightarrow> ('k job_world, 'a) act" where
  "emit ls = alter (\<lambda>w. w\<lparr> jw_log := jw_log w @ ls \<rparr>)"

section \<open>Running commands\<close>

text \<open>
  What following a job's stream amounts to: the text received, the log lines, and how it ended, by
  its exit code, an error, or without either.
\<close>

fun follow_stream :: "string \<Rightarrow> watch_event list \<Rightarrow> string option \<Rightarrow> string \<Rightarrow> string list \<Rightarrow> string \<times> string list \<times> (string + int)" where
  "follow_stream job [] err out ls =
    (out, ls, Inl (case err of Some e \<Rightarrow> e | None \<Rightarrow> ''job '' @ job @ '' stream ended without a Done event''))"
| "follow_stream job (Output o' # evs) err out ls = follow_stream job evs err (out @ o') (ls @ split_lines o')"
| "follow_stream job (JobDone stdout code # evs) err out ls = (out, ls @ split_lines stdout, Inr code)"

definition run_command :: "'k worker_api \<Rightarrow> string \<Rightarrow> string \<Rightarrow> job_command \<Rightarrow> ('k job_world, string \<times> int) act" where
  "run_command W addr token cmd =
    after (on_ext (api (wk_execute W addr token (jc_run cmd) (jc_workdir cmd) (jc_env cmd)))) (\<lambda>job.
    after (on_ext (api (wk_watch W addr token job))) (\<lambda>(evs, err).
    case follow_stream job evs err '''' [] of
      (out, ls, Inl e) \<Rightarrow> emit ls (plain e)
    | (out, ls, Inr code) \<Rightarrow> emit ls (give (out, code))))"

definition command_label :: "job_command \<Rightarrow> string" where
  "command_label cmd = (if jc_name cmd = '''' then jc_run cmd else jc_name cmd)"

fun run_commands :: "'k worker_api \<Rightarrow> string \<Rightarrow> string \<Rightarrow> job_command list \<Rightarrow> string \<Rightarrow> ('k job_world, kjob_result) act" where
  "run_commands W addr token [] acc = give \<lparr> jr_exit = 0, jr_output = acc \<rparr>"
| "run_commands W addr token (cmd # cmds) acc =
     emit [''$ '' @ command_label cmd] (
     after (run_command W addr token cmd) (\<lambda>(out, code).
     if code \<noteq> 0 then plain (''command exited '' @ dec_int code @ '': '' @ jc_run cmd)
     else run_commands W addr token cmds (acc @ out)))"

section \<open>Jobs\<close>

definition pod_answers :: "'k kube_api \<Rightarrow> string \<Rightarrow> int \<Rightarrow> string \<Rightarrow> 'k \<Rightarrow> string + string" where
  "pod_answers A name port seen k =
    (case ka_pod A k name of
       Inl _ \<Rightarrow> Inl seen
     | Inr p \<Rightarrow>
         if pt_phase p = ''Running'' \<and> pt_ip p \<noteq> ''''
         then (if ka_dial A k (host_port (pt_ip p) port) = None then Inr (pt_ip p) else Inl (pt_ip p))
         else Inl seen)"

definition wait_pod_ip :: "'k kube_api \<Rightarrow> string \<Rightarrow> int \<Rightarrow> int \<Rightarrow> ('k, string) act" where
  "wait_pod_ip A name port timeout0 =
    (let timeout = (if timeout0 \<le> 0 then one_minute else timeout0) in
     polling (\<lambda>k. poll (ka_now A) (ka_pause A half_wait) (deadline_in A timeout k) (pod_answers A name port) '''' k)
       (\<lambda>r. case r of
          Found ip \<Rightarrow> give ip
        | Cancelled e \<Rightarrow> plain e
        | TimedOut seen \<Rightarrow>
            if seen \<noteq> '''' then plain (''worker on '' @ host_port seen port @ '' not healthy in '' @ ka_show_duration A timeout)
            else plain (''job '' @ name @ '' not ready in '' @ ka_show_duration A timeout)))"

definition worker_url :: "string \<Rightarrow> int \<Rightarrow> string" where
  "worker_url ip port = ''http://'' @ host_port ip port"

definition job_sandbox :: "job_spec \<Rightarrow> string \<Rightarrow> sandbox_spec" where
  "job_sandbox s token =
    (let p = (case js_profile s of Some p \<Rightarrow> p | None \<Rightarrow> blank_profile) in
     \<lparr> sp_name = js_name s, sp_image = js_image s, sp_workspace = or_default (js_workspace s) ''/workspace'',
       sp_env = AList.update ''WORKER_TOKEN'' token (js_env s), sp_command = [],
       sp_devices = (case rt_devices p of Some d \<Rightarrow> d | None \<Rightarrow> []),
       sp_selector = (case rt_selector p of Some d \<Rightarrow> d | None \<Rightarrow> []),
       sp_tun = rt_tun p, sp_port = (if js_port s = 0 then 48080 else js_port s), sp_profile = Some p,
       sp_worker_dir = js_worker_dir s, sp_no_service = True, sp_proxy = js_proxy s, sp_no_proxy = js_no_proxy s \<rparr>)"

text \<open>What happens in the launched pod, and the job around it.\<close>

definition in_pod :: "'k kube_api \<Rightarrow> 'k worker_api \<Rightarrow> job_spec \<Rightarrow> string \<Rightarrow> ('k job_world, kjob_result) act" where
  "in_pod A W s token =
    (let port = (if js_port s = 0 then 48080 else js_port s);
         p = (case js_profile s of Some p \<Rightarrow> p | None \<Rightarrow> blank_profile) in
     after (on_ext (wait_pod_ip A (js_name s) port (ready_timeout (ka_parse_duration A) p))) (\<lambda>ip.
     wrapping OtherCode ''sync workspace: ''
       (case js_tarball s of
          None \<Rightarrow> give ()
        | Some tar \<Rightarrow> on_ext (api (wk_sync W (worker_url ip port) token tar ''''))) (\<lambda>_.
     run_commands W (worker_url ip port) token (js_commands s) '''')))"

definition kube_run_job :: "'k kube_api \<Rightarrow> 'k worker_api \<Rightarrow> kube_client \<Rightarrow> job_spec \<Rightarrow> string \<Rightarrow> ('k job_world, kjob_result) act" where
  "kube_run_job A W c s token0 =
    after (if token0 = '''' then on_ext (api (wk_random W)) else give token0) (\<lambda>token.
    if js_image s = '''' then plain (''job '' @ js_name s @ '': image required'')
    else after (on_ext (kube_launch_sandbox A c (job_sandbox s token))) (\<lambda>_.
         wind_up (in_pod A W s token)
           (\<lambda>w. w\<lparr> jw_ext := snd (kube_delete_sandbox A (js_name s) (jw_ext w)) \<rparr>)))"

section \<open>Image builds\<close>

record build_options =
  bo_context :: string
  bo_dockerfile :: string
  bo_image :: string
  bo_args :: smap
  bo_no_cache :: bool

definition buildctl_command :: "kube_client \<Rightarrow> build_options \<Rightarrow> string \<Rightarrow> string" where
  "buildctl_command c opt filename =
    (let ref = cache_ref_for c (bo_image opt) in
     join_with '' '' (
       [''buildctl --addr unix:///run/user/1000/buildkit/buildkitd.sock build'', ''--frontend dockerfile.v0'',
        ''--local context=/workspace'', ''--local dockerfile=/workspace'', ''--opt filename='' @ filename]
       @ map (\<lambda>(k, v). ''--opt build-arg:'' @ k @ ''='' @ v) (bo_args opt)
       @ (if bo_no_cache opt then [''--no-cache''] else [])
       @ (if ref \<noteq> '''' then [''--export-cache type=registry,ref='' @ ref @ '',mode=max'',
                            ''--import-cache type=registry,ref='' @ ref] else [])
       @ [''--output type=image,name='' @ bo_image opt @ '',push=true'', ''--progress plain''])
     @ '' 2>&1'')"

definition buildkit_profile :: runtime_profile where
  "buildkit_profile = blank_profile\<lparr> rt_name := ''buildkit'', rt_port := 48080, rt_timeout := ''2m'',
     rt_security := Some (no_security\<lparr> se_user := Some 1000, se_group := Some 1000, se_non_root := Some True,
       se_escalate := Some True, se_caps := [''SYS_ADMIN''], se_apparmor := ''Unconfined'', se_seccomp := ''Unconfined'' \<rparr>) \<rparr>"

text \<open>\<^verbatim>\<open>tar\<close> packs a directory; \<^verbatim>\<open>stamp\<close> is the clock's reading in the pod's name.\<close>

definition build_spec :: "kube_client \<Rightarrow> build_options \<Rightarrow> string \<Rightarrow> string \<Rightarrow> job_spec" where
  "build_spec c opt tarball stamp =
    \<lparr> js_name = ''easylab-build-'' @ stamp, js_image = qualify_runtime_image c (kc_buildkit c),
      js_workspace = ''/workspace'',
      js_env = [(''EASYLAB_REGISTRY_HOST'', kc_registry c), (''EASYLAB_REGISTRY_TOKEN'', kc_token c)],
      js_port = 0, js_tarball = Some tarball,
      js_commands = [\<lparr> jc_name = ''build'', jc_run = buildctl_command c opt (or_default (bo_dockerfile opt) ''Dockerfile''),
                       jc_workdir = ''/workspace'', jc_env = [] \<rparr>],
      js_profile = Some buildkit_profile, js_worker_dir = '''', js_proxy = None, js_no_proxy = False \<rparr>"

definition build_image :: "'k kube_api \<Rightarrow> 'k worker_api \<Rightarrow> (string \<Rightarrow> 'k \<Rightarrow> string + string) \<Rightarrow> ('k \<Rightarrow> string)
    \<Rightarrow> kube_client \<Rightarrow> build_options \<Rightarrow> ('k job_world, unit) act" where
  "build_image A W tar stamp c opt =
    (if bo_image opt = '''' then plain ''build image required''
     else if bo_context opt = '''' then plain ''build context required''
     else wrapping OtherCode ''tar build context: '' (on_ext (ask (tar (bo_context opt)))) (\<lambda>tarball.
          after (on_ext (api (wk_random W))) (\<lambda>token.
          peek (\<lambda>w. build_spec c opt tarball (stamp (jw_ext w))) (\<lambda>s.
          wrapping OtherCode ''buildkit build failed: '' (kube_run_job A W c s token) (\<lambda>res.
          if jr_exit res \<noteq> 0 then plain (''buildkit build failed (exit '' @ dec_int (jr_exit res) @ '')'') else give ())))))"

section \<open>What a job does\<close>

text \<open>Every job's pod is removed once it was launched, and nothing runs after a command that failed.\<close>

lemma run_commands_append:
  "run_commands W addr token (xs @ ys) acc =
    after (run_commands W addr token xs acc) (\<lambda>r. run_commands W addr token ys (jr_output r))"
proof (induction xs arbitrary: acc)
  case Nil
  then show ?case by (simp add: fun_eq_iff after_def attempt_def give_def)
next
  case (Cons x xs)
  show ?case
  proof
    fix w
    obtain r w1 where r: "run_command W addr token x (w\<lparr> jw_log := jw_log w @ [''$ '' @ command_label x] \<rparr>) = (r, w1)"
      by (metis prod.collapse)
    show "run_commands W addr token ((x # xs) @ ys) acc w =
        after (run_commands W addr token (x # xs) acc) (\<lambda>r. run_commands W addr token ys (jr_output r)) w"
      by (cases r) (auto simp: emit_def alter_def after_def attempt_def flunk_def plain_def refuse_def r Cons
          split: prod.splits reply.splits)
  qed
qed

lemma run_commands_extends: "extends (run_commands W addr token xs acc) (run_commands W addr token (xs @ ys) acc)"
  unfolding run_commands_append extends_def by (auto simp: after_def attempt_def flunk_def split: prod.splits reply.splits)

lemma run_commands_Done:
  "run_commands W addr token cmds acc w = (Done res, w') \<Longrightarrow> jr_exit res = 0 \<and> has_prefix acc (jr_output res)"
proof (induction cmds arbitrary: acc w)
  case Nil
  then show ?case by (auto simp: give_def has_prefix_def)
next
  case (Cons cmd cmds)
  then obtain out w1 where "run_commands W addr token cmds (acc @ out) w1 = (Done res, w')"
    by (auto simp: emit_def done_cases plain_def split: if_splits)
  with Cons.IH show ?case by (fastforce elim: has_prefixE)
qed

lemma run_commands_returns [return_intros]: "returns (run_commands W addr token cmds acc)"
proof (induction cmds arbitrary: acc)
  case (Cons cmd cmds)
  have "returns (run_command W addr token cmd)"
    unfolding run_command_def on_ext_def emit_def by (intro return_intros)
  then show ?case unfolding run_commands.simps emit_def by (intro return_intros Cons)
qed (simp only: run_commands.simps return_intros)

lemma wait_pod_ip_returns [return_intros]:
  assumes "clocks_run A"
  shows "returns (wait_pod_ip A n port d)"
  unfolding wait_pod_ip_def Let_def
  by (intro returns_polling return_intros) (use assms in \<open>simp add: clocks_run_def\<close>)

lemma kube_run_job_returns: "clocks_run A \<Longrightarrow> returns (kube_run_job A W c s tok)"
  unfolding kube_run_job_def in_pod_def on_ext_def Let_def by (intro return_intros) assumption+

lemma more_commands:
  "js_name (s\<lparr> js_commands := cs \<rparr>) = js_name s" "js_port (s\<lparr> js_commands := cs \<rparr>) = js_port s"
  "js_profile (s\<lparr> js_commands := cs \<rparr>) = js_profile s" "js_tarball (s\<lparr> js_commands := cs \<rparr>) = js_tarball s"
  "js_image (s\<lparr> js_commands := cs \<rparr>) = js_image s" "js_commands (s\<lparr> js_commands := cs \<rparr>) = cs"
  by simp_all

lemma in_pod_extends: "extends (in_pod A W s token) (in_pod A W (s\<lparr> js_commands := js_commands s @ ys \<rparr>) token)"
  unfolding in_pod_def Let_def
  by (simp only: more_commands) (intro extends_after extends_wrapping run_commands_extends)

lemma job_sandbox_commands: "job_sandbox (s\<lparr> js_commands := cmds \<rparr>) token = job_sandbox s token"
  by (simp add: job_sandbox_def)

lemma kube_run_job_extends: "extends (kube_run_job A W c s tok) (kube_run_job A W c (s\<lparr> js_commands := js_commands s @ ys \<rparr>) tok)"
  unfolding kube_run_job_def job_sandbox_commands more_commands
  by (intro extends_after extends_if extends_refl extends_wind_up in_pod_extends)

lemma kube_run_job_cleans:
  assumes "kube_run_job A W c s tok w = (r, w')" "r \<noteq> Diverge" "tok \<noteq> ''''" "js_image s \<noteq> ''''"
    "kube_launch_sandbox A c (job_sandbox s tok) (jw_ext w) = (Done st, k)"
  shows "\<exists>k'. jw_ext w' = snd (kube_delete_sandbox A (js_name s) k')"
proof -
  have "wind_up (in_pod A W s tok) (\<lambda>w. w\<lparr> jw_ext := snd (kube_delete_sandbox A (js_name s) (jw_ext w)) \<rparr>)
      (w\<lparr> jw_ext := k \<rparr>) = (r, w')"
    using assms unfolding kube_run_job_def
    by (simp add: after_def attempt_def give_def on_ext_def zoom_def)
  then show ?thesis using assms(2) unfolding wind_up_def by (auto split: prod.splits reply.splits)
qed

text \<open>
  C21: A job always ends when the clock goes on, and once its pod was launched its last step is to
  remove that pod, whether the commands succeeded, one of them failed or the worker was never
  reached.  It succeeds only with exit code zero, and when it fails, further commands after the
  ones it was given would have changed nothing: nothing runs after a failure.
\<close>
theorem kube_run_job_spec:
  assumes "clocks_run A" "kube_run_job A W c s tok w = (r, w')"
  shows "r \<noteq> Diverge
    \<and> (\<forall>st k. tok \<noteq> '''' \<and> js_image s \<noteq> ''''
        \<and> kube_launch_sandbox A c (job_sandbox s tok) (jw_ext w) = (Done st, k) \<longrightarrow>
        (\<exists>k'. jw_ext w' = snd (kube_delete_sandbox A (js_name s) k')))
    \<and> (case r of
        Done res \<Rightarrow> jr_exit res = 0
      | _ \<Rightarrow> (\<forall>ys. kube_run_job A W c (s\<lparr> js_commands := js_commands s @ ys \<rparr>) tok w = (r, w')))"
proof -
  have r: "r \<noteq> Diverge" by (rule returnsD[OF kube_run_job_returns[OF assms(1)] assms(2)])
  have "jr_exit res = 0" if rd: "r = Done res" for res
  proof -
    obtain token w1 w2 where "in_pod A W s token w1 = (Done res, w2)"
      using assms(2) unfolding rd kube_run_job_def after_Done by (auto simp: done_cases plain_def split: if_splits)
    then show ?thesis unfolding in_pod_def Let_def by (auto simp: done_cases dest: run_commands_Done)
  qed
  moreover have "\<forall>ys. kube_run_job A W c (s\<lparr> js_commands := js_commands s @ ys \<rparr>) tok w = (r, w')"
    if "\<not> (\<exists>res. r = Done res)"
    using extendsD[OF kube_run_job_extends assms(2) that] by blast
  ultimately show ?thesis using r kube_run_job_cleans[OF assms(2) r] by (auto split: reply.split)
qed

text \<open>
  A small cluster: a clock and the names of its pods, all running.  The worker's command \<^verbatim>\<open>make\<close>
  prints a line and fails, every other command succeeds.
\<close>

type_synonym demo_pods = "int \<times> string list"

definition pods_kube :: "demo_pods kube_api" where
  "pods_kube = \<lparr>
    ka_pod_create = (\<lambda>p (t, ps). (Inr (), t, po_name p # ps)),
    ka_pod_delete = (\<lambda>n (t, ps). (if n \<in> set ps then Inr () else Inl ''not found'', t, removeAll n ps)),
    ka_pod = (\<lambda>(t, ps) n. if n \<in> set ps then Inr \<lparr> pt_phase = ''Running'', pt_ip = ''10.0.0.7'', pt_ready = [True] \<rparr>
                           else Inl ''not found''),
    ka_pods = (\<lambda>k. Inr []), ka_svc_create = (\<lambda>x k. (Inr (), k)), ka_svc_delete = (\<lambda>x k. (Inr (), k)),
    ka_cm_create = (\<lambda>x k. (Inr (), k)), ka_cm_update = (\<lambda>x k. (Inr (), k)),
    ka_secret_create = (\<lambda>x k. (Inr (), k)), ka_secret_update = (\<lambda>x k. (Inr (), k)),
    ka_dep_create = (\<lambda>x k. (Inr (), k)), ka_dep_replace = (\<lambda>x k. (Inr (), k)), ka_dep_delete = (\<lambda>x k. (Inr (), k)),
    ka_dep = (\<lambda>k n. Inl ''not found''), ka_deps = (\<lambda>k. Inr []), ka_dial = (\<lambda>k a. None),
    ka_now = fst, ka_pause = (\<lambda>ms (t, ps). (None, t + ms, ps)),
    ka_quantity = (\<lambda>q. True), ka_parse_duration = (\<lambda>s. None), ka_show_duration = (\<lambda>d. ''1m0s''),
    ka_render = (\<lambda>g m h. h) \<rparr>"

definition pods_worker :: "demo_pods worker_api" where
  "pods_worker = \<lparr>
    wk_info = (\<lambda>a tok k. Inr ''boot-1''), wk_jobs = (\<lambda>a tok k. Inr []), wk_sync = (\<lambda>a tok tar rv k. (Inr (), k)),
    wk_execute = (\<lambda>a tok c d e k. (Inr c, k)),
    wk_watch = (\<lambda>a tok j k. (Inr ([Output (j @ newline), JobDone '''' (if j = ''make'' then 2 else 0)], None), k)),
    wk_call = (\<lambda>a tok m b k. (Inr b, k)), wk_claim = (\<lambda>a c o' k. (Inr ''token'', k)),
    wk_release = (\<lambda>a tok o' k. (Inr ''code'', k)), wk_random = (\<lambda>k. (Inr ''r'', k)) \<rparr>"

definition pods_client :: kube_client where
  "pods_client = \<lparr> kc_namespace = ''lab'', kc_buildkit = '''', kc_registry = ''reg'', kc_token = '''', kc_proxy = '''',
     kc_runtimes = [], kc_egress = \<lparr> eg_enabled = False, eg_image = '''', eg_gateway = '''', eg_ca_cert = '''',
       eg_ca_key = '''', eg_spoof_dns = '''', eg_upstream = '''', eg_domain = '''', eg_capture = False,
       eg_forward = False, eg_mitm = False, eg_udp_allow = [], eg_udp_mode = '''', eg_default_mode = '''',
       eg_exempt = [], eg_web_ports = [] \<rparr> \<rparr>"

definition simple_command :: "string \<Rightarrow> job_command" where
  "simple_command c = \<lparr> jc_name = '''', jc_run = c, jc_workdir = '''', jc_env = [] \<rparr>"

definition pods_job :: "string list \<Rightarrow> job_spec" where
  "pods_job cs = \<lparr> js_name = ''j'', js_image = ''i'', js_workspace = '''', js_env = [], js_port = 0,
     js_tarball = None, js_commands = map simple_command cs, js_profile = None, js_worker_dir = '''',
     js_proxy = None, js_no_proxy = False \<rparr>"

definition pods_empty :: "demo_pods job_world" where
  "pods_empty = \<lparr> jw_ext = (0, []), jw_log = [] \<rparr>"

lemma pods_clocks: "clocks_run pods_kube"
  by (auto simp: clocks_run_def clock_runs_def pods_kube_def quarter_wait_def half_wait_def)

lemma poll_found: "now k < deadline \<Longrightarrow> probe s k = Inr b \<Longrightarrow> poll now pause deadline probe s k = Some (Found b, k)"
  by (subst poll.simps) simp

lemma pods_answers:
  "ka_pod_create pods_kube p (t, ps) = (Inr (), t, po_name p # ps)"
  "ka_pod_delete pods_kube n (t, ps) = (if n \<in> set ps then Inr () else Inl ''not found'', t, removeAll n ps)"
  "ka_pod pods_kube (t, ps) n = (if n \<in> set ps then Inr \<lparr> pt_phase = ''Running'', pt_ip = ''10.0.0.7'', pt_ready = [True] \<rparr>
     else Inl ''not found'')"
  "ka_svc_create pods_kube s k = (Inr (), k)" "ka_svc_delete pods_kube n k = (Inr (), k)"
  "ka_dial pods_kube k a = None" "ka_now pods_kube k = fst k" "ka_quantity pods_kube q"
  "ka_parse_duration pods_kube d = None"
  by (simp_all add: pods_kube_def)

lemma pods_no_proxy: "sandbox_proxy (ka_render pods_kube) pods_client (job_sandbox (pods_job cs) t) = None"
  by (simp add: sandbox_proxy_def egress_spec_for_def pods_client_def job_sandbox_def pods_job_def Let_def)

lemma pods_delete: "delete_pod pods_kube n (t, ps) = (Done (), t, removeAll n ps)"
  by (simp add: delete_pod_def act_defs api_def pods_answers is_not_found_def)

lemma pods_wait: "n \<notin> set ps \<Longrightarrow> delete_sandbox_wait pods_kube n (t, ps) = (Done (), t, ps)"
  by (simp add: delete_sandbox_wait_def act_defs pods_delete polling_def deadline_in_def poll_found
      pods_answers pod_gone_def thirty_seconds_def is_not_found_def)

lemma pods_names:
  "po_name (sandbox_pod s) = sp_name s" "js_port (pods_job cs) = 0" "js_profile (pods_job cs) = None" "sp_name (job_sandbox j tok) = js_name j"
  "sp_no_service (job_sandbox j tok)" "js_name (pods_job cs) = ''j''"
  "js_commands (pods_job cs) = map simple_command cs" "js_tarball (pods_job cs) = None" "js_image (pods_job cs) = ''i''"
  by (simp_all add: sandbox_pod_def job_sandbox_def pods_job_def Let_def)

lemma pods_launch:
  "kube_launch_sandbox pods_kube pods_client (job_sandbox (pods_job cs) tok) (t, []) =
    (Done (pod_view pods_client ''j'' \<lparr> pt_phase = ''Running'', pt_ip = ''10.0.0.7'', pt_ready = [True] \<rparr>), t, [''j''])"
  by (simp add: kube_launch_sandbox_def Let_def pods_no_proxy with_egress_def act_defs pods_wait api_def ask_def
      kube_status_def pods_answers pods_names list_all_iff split_def)

lemma pods_ip: "wait_pod_ip pods_kube ''j'' p one_minute (t, [''j'']) = (Done ''10.0.0.7'', t, [''j''])"
  by (simp add: wait_pod_ip_def Let_def act_defs polling_def deadline_in_def poll_found pods_answers pod_answers_def one_minute_def)

lemma pods_timeout: "ready_timeout (ka_parse_duration pods_kube) blank_profile = one_minute"
  by (simp add: ready_timeout_def pods_answers blank_profile_def)

lemma pods_command: "run_command pods_worker a tok (simple_command c) w =
  (Done (c @ newline, if c = ''make'' then 2 else 0), w\<lparr> jw_log := jw_log w @ split_lines (c @ newline) \<rparr>)"
  by (simp add: run_command_def act_defs on_ext_def api_def emit_def simple_command_def pods_worker_def split_lines_def split_def)

lemma pods_in_pod:
  "in_pod pods_kube pods_worker (pods_job cs) tok \<lparr> jw_ext = (t, [''j'']), jw_log = ls \<rparr> =
    run_commands pods_worker (worker_url ''10.0.0.7'' 48080) tok (map simple_command cs) '''' \<lparr> jw_ext = (t, [''j'']), jw_log = ls \<rparr>"
  by (simp add: in_pod_def Let_def pods_names act_defs on_ext_def pods_timeout pods_ip)

lemma pods_run:
  assumes "run_commands pods_worker (worker_url ''10.0.0.7'' 48080) tok (map simple_command cs) ''''
     \<lparr> jw_ext = (t, [''j'']), jw_log = ls \<rparr> = (r, \<lparr> jw_ext = (t', [''j'']), jw_log = ls' \<rparr>)" "r \<noteq> Diverge" "tok \<noteq> ''''"
  shows "kube_run_job pods_kube pods_worker pods_client (pods_job cs) tok \<lparr> jw_ext = (t, []), jw_log = ls \<rparr> =
    (r, \<lparr> jw_ext = (t', []), jw_log = ls' \<rparr>)"
  using assms by (cases r) (simp_all add: kube_run_job_def act_defs on_ext_def pods_names pods_launch pods_in_pod kube_delete_sandbox_def pods_delete)

lemma kube_run_job_spec_witness:
  "\<exists>w. kube_run_job pods_kube pods_worker pods_client (pods_job [''ls'', ''make'']) ''t'' \<lparr> jw_ext = (0, []), jw_log = [] \<rparr>
      = (Fail (ConnErr OtherCode ''command exited 2: make''), w)
    \<and> snd (jw_ext w) = []
    \<and> (\<exists>k. jw_ext w = snd (kube_delete_sandbox pods_kube ''j'' k))
    \<and> kube_run_job pods_kube pods_worker pods_client
        (pods_job [''ls'', ''make'']\<lparr> js_commands := js_commands (pods_job [''ls'', ''make'']) @ [simple_command ''rm''] \<rparr>) ''t''
        \<lparr> jw_ext = (0, []), jw_log = [] \<rparr>
      = (Fail (ConnErr OtherCode ''command exited 2: make''), w)"
proof -
  let ?f = "Fail (ConnErr OtherCode ''command exited 2: make'')"
  have "\<exists>ls. run_commands pods_worker (worker_url ''10.0.0.7'' 48080) ''t'' (map simple_command [''ls'', ''make'']) ''''
     \<lparr> jw_ext = (0, [''j'']), jw_log = [] \<rparr> = (?f, \<lparr> jw_ext = (0, [''j'']), jw_log = ls \<rparr>)"
    by (simp add: act_defs emit_def pods_command plain_def) (simp add: simple_command_def, code_simp)
  then obtain ls where r: "kube_run_job pods_kube pods_worker pods_client (pods_job [''ls'', ''make'']) ''t''
      \<lparr> jw_ext = (0, []), jw_log = [] \<rparr> = (?f, \<lparr> jw_ext = (0, []), jw_log = ls \<rparr>)"
    using pods_run by fastforce
  from kube_run_job_spec[OF pods_clocks r] r show ?thesis by (auto simp: pods_launch pods_names)
qed
end
