(* ===== verification/Lab_Vcs.thy ===== *)
theory Lab_Vcs
imports Act Authn
begin

text \<open>
  The version control library under the lab service.  The library is third-party code: a record
  of its operations over an opaque stored state \<^verbatim>\<open>'v\<close>, with object ids \<^verbatim>\<open>'i\<close>; a write answers or
  fails and leaves a state.  What the program itself decides is how a revision expression is
  resolved (\<^verbatim>\<open>cmd/easylab/lab_helpers.go\<close>, \<^verbatim>\<open>conntree.go\<close>): a branch or tag is followed to its
  target until the text is no reference, so a cycle of references is followed for ever.
\<close>

type_synonym rkey = "string \<times> string"
type_synonym author = "string \<times> string"

datatype ref_kind = BranchRef | TagRef

record vref =
  rf_name :: string
  rf_kind :: ref_kind
  rf_target :: string

record 'i revision =
  rv_id :: string
  rv_hash :: 'i
  rv_created :: int

record 'i stored_snapshot =
  sn_hash :: 'i
  sn_rev :: string
  sn_tree :: 'i
  sn_parents :: "'i list"
  sn_desc :: string
  sn_author :: string
  sn_time :: int

record repo_meta =
  me_desc :: string
  me_visibility :: string
  me_default :: string
  me_kind :: string
  me_url :: string
  me_branch :: string
  me_token :: string

record file_spec =
  fs_path :: string
  fs_content :: string
  fs_delete :: bool

record file_diff =
  fd_path :: string
  fd_content :: string
  fd_added :: int
  fd_removed :: int

record ('r, 'v, 'i) vcs =
  vc_central :: "'v \<Rightarrow> 'r central"
  vc_accessible :: "'v \<Rightarrow> int \<Rightarrow> string + rkey list"
  vc_meta :: "'v \<Rightarrow> rkey \<Rightarrow> string + repo_meta"
  vc_log :: "'v \<Rightarrow> rkey \<Rightarrow> string + 'i revision list"
  vc_revisions :: "'v \<Rightarrow> rkey \<Rightarrow> string + 'i revision list"
  vc_rev :: "'v \<Rightarrow> rkey \<Rightarrow> string \<Rightarrow> string + 'i revision"
  vc_snap :: "'v \<Rightarrow> rkey \<Rightarrow> 'i \<Rightarrow> string + 'i stored_snapshot"
  vc_ref :: "'v \<Rightarrow> rkey \<Rightarrow> string \<Rightarrow> vref option"
  vc_refs :: "'v \<Rightarrow> rkey \<Rightarrow> string + vref list"
  vc_tree :: "'v \<Rightarrow> rkey \<Rightarrow> 'i \<Rightarrow> string + (string \<times> string) list"
  vc_entry :: "'v \<Rightarrow> rkey \<Rightarrow> 'i \<Rightarrow> string \<Rightarrow> string + 'i"
  vc_blob :: "'v \<Rightarrow> rkey \<Rightarrow> 'i \<Rightarrow> string + string"
  vc_paths :: "'v \<Rightarrow> rkey \<Rightarrow> 'i \<Rightarrow> string + string list"
  vc_diff :: "'v \<Rightarrow> rkey \<Rightarrow> 'i \<Rightarrow> 'i \<Rightarrow> string + file_diff list"
  vc_annotate :: "'v \<Rightarrow> rkey \<Rightarrow> string \<Rightarrow> string \<Rightarrow> string + string list"
  vc_zero :: 'i
  vc_hex :: "string \<Rightarrow> string + 'i"
  vc_text :: "'i \<Rightarrow> string"
  vc_create :: "int \<Rightarrow> rkey \<Rightarrow> 'v \<Rightarrow> (string + unit) \<times> 'v"
  vc_delete :: "rkey \<Rightarrow> 'v \<Rightarrow> (string + unit) \<times> 'v"
  vc_fork :: "rkey \<Rightarrow> int \<Rightarrow> rkey \<Rightarrow> 'v \<Rightarrow> (string + unit) \<times> 'v"
  vc_put_meta :: "rkey \<Rightarrow> repo_meta \<Rightarrow> 'v \<Rightarrow> (string + unit) \<times> 'v"
  vc_put_mirror :: "rkey \<Rightarrow> repo_meta \<Rightarrow> 'v \<Rightarrow> (string + unit) \<times> 'v"
  vc_set_ref :: "rkey \<Rightarrow> string \<Rightarrow> ref_kind \<Rightarrow> string \<Rightarrow> 'v \<Rightarrow> (string + unit) \<times> 'v"
  vc_del_ref :: "rkey \<Rightarrow> string \<Rightarrow> 'v \<Rightarrow> (string + unit) \<times> 'v"
  vc_commit_files :: "rkey \<Rightarrow> 'i \<Rightarrow> file_spec list \<Rightarrow> string \<Rightarrow> author \<Rightarrow> string \<Rightarrow> 'v
    \<Rightarrow> (string + ('i stored_snapshot \<times> 'i revision)) \<times> 'v"
  vc_commit_tree :: "rkey \<Rightarrow> 'i list \<Rightarrow> 'i \<Rightarrow> string \<Rightarrow> author \<Rightarrow> string \<Rightarrow> 'v
    \<Rightarrow> (string + ('i stored_snapshot \<times> 'i revision)) \<times> 'v"
  vc_merge :: "rkey \<Rightarrow> 'i \<Rightarrow> 'i \<Rightarrow> 'i \<Rightarrow> 'v \<Rightarrow> (string + ('i \<times> nat)) \<times> 'v"
  vc_drop :: "rkey \<Rightarrow> string \<Rightarrow> 'v \<Rightarrow> (string + unit) \<times> 'v"
  vc_revert :: "rkey \<Rightarrow> string \<Rightarrow> 'i \<Rightarrow> 'v \<Rightarrow> (string + ('i stored_snapshot \<times> 'i revision)) \<times> 'v"
  vc_squash :: "rkey \<Rightarrow> string \<Rightarrow> 'v \<Rightarrow> (string + ('i stored_snapshot \<times> 'i revision)) \<times> 'v"
  vc_rebase :: "rkey \<Rightarrow> string \<Rightarrow> 'i list \<Rightarrow> 'v \<Rightarrow> (string + ('i stored_snapshot \<times> 'i revision)) \<times> 'v"
  vc_rebase_many :: "rkey \<Rightarrow> string list \<Rightarrow> 'i \<Rightarrow> 'v \<Rightarrow> (string + unit) \<times> 'v"

section \<open>Revision expressions\<close>

definition latest :: "('r, 'v, 'i, 'z) vcs_scheme \<Rightarrow> 'v \<Rightarrow> rkey \<Rightarrow> string + 'i" where
  "latest L v w =
    (case vc_log L v w of Inr (r # _) \<Rightarrow> Inr (rv_hash r) | _ \<Rightarrow> Inl ''no revisions'')"

definition parent_of_latest :: "('r, 'v, 'i, 'z) vcs_scheme \<Rightarrow> 'v \<Rightarrow> rkey \<Rightarrow> rkey \<Rightarrow> string + 'i" where
  "parent_of_latest L v w rp =
    (case latest L v w of
       Inl e \<Rightarrow> Inl e
     | Inr h \<Rightarrow>
         (case vc_snap L v rp h of
            Inl e \<Rightarrow> Inl e
          | Inr sn \<Rightarrow> (case sn_parents sn of [] \<Rightarrow> Inl ''no parent'' | p # _ \<Rightarrow> Inr p)))"

definition by_revision :: "('r, 'v, 'i, 'z) vcs_scheme \<Rightarrow> 'v \<Rightarrow> rkey \<Rightarrow> string \<Rightarrow> string + 'i" where
  "by_revision L v w ref =
    (case vc_log L v w of
       Inl e \<Rightarrow> Inl e
     | Inr revs \<Rightarrow>
         (case find (\<lambda>r. rv_id r = ref) revs of
            Some r \<Rightarrow> Inr (rv_hash r)
          | None \<Rightarrow>
              (case find (\<lambda>r. has_prefix ref (rv_id r)) revs of
                 Some r \<Rightarrow> Inr (rv_hash r)
               | None \<Rightarrow> Inl (''unknown ref '' @ go_quote ref))))"

definition by_hash :: "('r, 'v, 'i, 'z) vcs_scheme \<Rightarrow> 'v \<Rightarrow> rkey \<Rightarrow> rkey \<Rightarrow> string \<Rightarrow> string + 'i" where
  "by_hash L v w rp ref =
    (case vc_hex L ref of
       Inr i \<Rightarrow> (case vc_snap L v rp i of Inr _ \<Rightarrow> Inr i | Inl _ \<Rightarrow> by_revision L v w ref)
     | Inl _ \<Rightarrow> by_revision L v w ref)"

partial_function (option) resolve_ref_any :: "('r, 'v, 'i, 'z) vcs_scheme \<Rightarrow> 'v \<Rightarrow> rkey \<Rightarrow> rkey \<Rightarrow> string
    \<Rightarrow> (string + 'i) option" where
  "resolve_ref_any L v w rp ref =
    (if ref = '''' \<or> ref = ''@'' then Some (latest L v w)
     else if ref = ''@-'' then Some (parent_of_latest L v w rp)
     else case vc_ref L v w ref of
            Some rf \<Rightarrow> resolve_ref_any L v w rp (rf_target rf)
          | None \<Rightarrow> Some (by_hash L v w rp ref))"

declare resolve_ref_any.simps [code]

definition resolve_rev_id :: "('r, 'v, 'i, 'z) vcs_scheme \<Rightarrow> 'v \<Rightarrow> rkey \<Rightarrow> rkey \<Rightarrow> string \<Rightarrow> (string + string) option" where
  "resolve_rev_id L v w rp ref =
    (case resolve_ref_any L v w rp ref of
       None \<Rightarrow> None
     | Some (Inl e) \<Rightarrow> Some (Inl e)
     | Some (Inr h) \<Rightarrow>
         (case vc_log L v w of
            Inl e \<Rightarrow> Some (Inl e)
          | Inr revs \<Rightarrow>
              (case find (\<lambda>r. rv_hash r = h) revs of
                 Some r \<Rightarrow> Some (Inr (rv_id r))
               | None \<Rightarrow> Some (Inr (vc_text L h)))))"

definition resolve_snapshot_of :: "('r, 'v, 'i, 'z) vcs_scheme \<Rightarrow> 'v \<Rightarrow> rkey \<Rightarrow> rkey \<Rightarrow> string
    \<Rightarrow> (string + 'i stored_snapshot) option" where
  "resolve_snapshot_of L v w rp ref =
    map_option (\<lambda>r. case r of Inl e \<Rightarrow> Inl e | Inr h \<Rightarrow> vc_snap L v rp h) (resolve_ref_any L v w rp ref)"

text \<open>\<^verbatim>\<open>tree_of_ref\<close> reads the empty expression as the latest revision, like \<^verbatim>\<open>resolve_ref_any\<close>.\<close>

definition tree_of_ref :: "('r, 'v, 'i, 'z) vcs_scheme \<Rightarrow> 'v \<Rightarrow> rkey \<Rightarrow> rkey \<Rightarrow> string \<Rightarrow> (string + 'i) option" where
  "tree_of_ref L v w rp ref =
    (if ref = '''' then
       Some (case latest L v w of
               Inl e \<Rightarrow> Inl e
             | Inr h \<Rightarrow> (case vc_snap L v rp h of Inl e \<Rightarrow> Inl e | Inr sn \<Rightarrow> Inr (sn_tree sn)))
     else case resolve_ref_any L v w rp ref of
            None \<Rightarrow> None
          | Some (Inl e) \<Rightarrow> Some (Inl e)
          | Some (Inr h) \<Rightarrow>
              Some (case vc_snap L v rp h of Inl e \<Rightarrow> Inl e | Inr sn \<Rightarrow> Inr (sn_tree sn)))"

section \<open>When resolving returns\<close>

definition next_ref :: "('r, 'v, 'i, 'z) vcs_scheme \<Rightarrow> 'v \<Rightarrow> rkey \<Rightarrow> string \<Rightarrow> string option" where
  "next_ref L v w ref =
    (if ref \<in> {'''', ''@'', ''@-''} then None else map_option rf_target (vc_ref L v w ref))"

definition resolve_last :: "('r, 'v, 'i, 'z) vcs_scheme \<Rightarrow> 'v \<Rightarrow> rkey \<Rightarrow> rkey \<Rightarrow> string \<Rightarrow> string + 'i" where
  "resolve_last L v w rp ref =
    (if ref = '''' \<or> ref = ''@'' then latest L v w
     else if ref = ''@-'' then parent_of_latest L v w rp
     else by_hash L v w rp ref)"

fun follow :: "('r, 'v, 'i, 'z) vcs_scheme \<Rightarrow> 'v \<Rightarrow> rkey \<Rightarrow> nat \<Rightarrow> string \<Rightarrow> string option" where
  "follow L v w 0 ref = Some ref"
| "follow L v w (Suc n) ref =
     (case next_ref L v w ref of None \<Rightarrow> None | Some t \<Rightarrow> follow L v w n t)"

lemma resolve_unfold:
  "resolve_ref_any L v w rp ref =
    (case next_ref L v w ref of
       Some t \<Rightarrow> resolve_ref_any L v w rp t
     | None \<Rightarrow> Some (resolve_last L v w rp ref))"
  by (subst resolve_ref_any.simps) (simp add: next_ref_def resolve_last_def split: option.split)

lemma resolve_end: "next_ref L v w ref = None \<Longrightarrow> resolve_ref_any L v w rp ref = Some (resolve_last L v w rp ref)"
  by (subst resolve_unfold) simp

lemma resolve_step: "next_ref L v w ref = Some t \<Longrightarrow> resolve_ref_any L v w rp ref = resolve_ref_any L v w rp t"
  by (subst resolve_unfold) simp

lemma resolve_follow:
  "follow L v w n ref = Some t \<Longrightarrow> resolve_ref_any L v w rp ref = resolve_ref_any L v w rp t"
  by (induction n arbitrary: ref) (auto simp: resolve_step split: option.splits)

lemma resolve_returns:
  assumes "resolve_ref_any L v w rp ref = Some r"
  shows "\<exists>n last. follow L v w n ref = Some last \<and> next_ref L v w last = None"
proof (rule resolve_ref_any.raw_induct[where P = "\<lambda>L v w rp ref r.
      \<exists>n last. follow L v w n ref = Some last \<and> next_ref L v w last = None", OF _ assms])
  fix res :: "('r, 'v, 'i, 'z) vcs_scheme \<Rightarrow> 'v \<Rightarrow> rkey \<Rightarrow> rkey \<Rightarrow> string \<Rightarrow> (string + 'i) option" and L v w rp ref r
  assume IH: "\<And>L v w rp ref r. res L v w rp ref = Some r \<Longrightarrow>
      \<exists>n last. follow L v w n ref = Some last \<and> next_ref L v w last = None"
    and e: "(if ref = '''' \<or> ref = ''@'' then Some (latest L v w)
      else if ref = ''@-'' then Some (parent_of_latest L v w rp)
      else case vc_ref L v w ref of None \<Rightarrow> Some (by_hash L v w rp ref)
           | Some rf \<Rightarrow> res L v w rp (rf_target rf)) = Some r"
  show "\<exists>n last. follow L v w n ref = Some last \<and> next_ref L v w last = None"
  proof (cases "next_ref L v w ref")
    case None
    then show ?thesis by (intro exI[of _ 0]) simp
  next
    case (Some t)
    then have "res L v w rp t = Some r" using e by (auto simp: next_ref_def split: if_splits)
    then obtain n last where "follow L v w n t = Some last" "next_ref L v w last = None" using IH by blast
    then show ?thesis using Some by (intro exI[of _ "Suc n"]) simp
  qed
qed

lemma resolve_some_iff:
  "resolve_ref_any L v w rp ref = Some r \<longleftrightarrow>
    (\<exists>n last. follow L v w n ref = Some last \<and> next_ref L v w last = None \<and> r = resolve_last L v w rp last)"
proof
  assume s: "resolve_ref_any L v w rp ref = Some r"
  obtain n last where n: "follow L v w n ref = Some last" "next_ref L v w last = None"
    using resolve_returns[OF s] by blast
  then have "resolve_ref_any L v w rp ref = Some (resolve_last L v w rp last)"
    by (simp add: resolve_follow resolve_end)
  then show "\<exists>n last. follow L v w n ref = Some last \<and> next_ref L v w last = None \<and> r = resolve_last L v w rp last"
    using s n by auto
next
  assume "\<exists>n last. follow L v w n ref = Some last \<and> next_ref L v w last = None \<and> r = resolve_last L v w rp last"
  then show "resolve_ref_any L v w rp ref = Some r" by (auto simp: resolve_follow resolve_end)
qed

lemma follow_add: "follow L v w (m + n) ref = Option.bind (follow L v w m ref) (follow L v w n)"
  by (induction m arbitrary: ref) (auto split: option.split)

lemma follow_snoc: "follow L v w (Suc n) ref = Option.bind (follow L v w n ref) (next_ref L v w)"
proof -
  have "follow L v w (Suc 0) = next_ref L v w" by (simp add: fun_eq_iff split: option.split)
  then show ?thesis using follow_add[of L v w n "Suc 0" ref] by (simp del: follow.simps)
qed

lemma follow_cycle: "follow L v w (Suc m) x = Some x \<Longrightarrow> follow L v w (k * Suc m) x = Some x"
  by (induction k) (simp_all only: follow_add[of L v w "Suc m"] mult_Suc mult_0 follow.simps(1) Option.bind.bind_lunit)

lemma follow_prefix: "follow L v w (m + n) ref \<noteq> None \<Longrightarrow> follow L v w m ref \<noteq> None"
  by (cases "follow L v w m ref") (simp_all add: follow_add)

lemma cycle_goes_on:
  assumes "follow L v w (Suc m) x = Some x"
  shows "follow L v w k x \<noteq> None"
proof -
  have "follow L v w (k * Suc m) x \<noteq> None" by (simp only: follow_cycle[OF assms] option.simps not_False_eq_True)
  then have "follow L v w (k + k * m) x \<noteq> None" by simp
  then show ?thesis by (rule follow_prefix)
qed

lemma resolve_none_iff: "resolve_ref_any L v w rp ref = None \<longleftrightarrow> (\<forall>n. follow L v w n ref \<noteq> None)"
proof
  assume r: "resolve_ref_any L v w rp ref = None"
  show "\<forall>n. follow L v w n ref \<noteq> None"
  proof
    fix n
    show "follow L v w n ref \<noteq> None"
    proof (induction n)
      case (Suc n)
      then obtain x where x: "follow L v w n ref = Some x" by blast
      then have "next_ref L v w x \<noteq> None" using r resolve_follow[OF x, of rp] resolve_end[of L v w x rp] by auto
      then show ?case unfolding follow_snoc x Option.bind.bind_lunit .
    qed simp
  qed
next
  assume a: "\<forall>n. follow L v w n ref \<noteq> None"
  show "resolve_ref_any L v w rp ref = None"
  proof (rule ccontr)
    assume "resolve_ref_any L v w rp ref \<noteq> None"
    then obtain r where "resolve_ref_any L v w rp ref = Some r" by blast
    from resolve_returns[OF this]
    obtain n last where n: "follow L v w n ref = Some last" "next_ref L v w last = None" by blast
    then have "follow L v w (Suc n) ref = None" by (simp only: follow_snoc Option.bind.bind_lunit)
    then show False using a by blast
  qed
qed

text \<open>
  C16: Resolving a revision expression in a repository of finitely many branches and tags fails to
  return exactly when following references from it reaches a cycle; and whenever it returns, its
  answer is that of the last text of the chain.
\<close>
theorem resolve_returns_iff:
  assumes "finite {n. vc_ref L v w n \<noteq> None}"
  shows "(resolve_ref_any L v w rp ref = None \<longleftrightarrow>
      (\<exists>n m x. follow L v w n ref = Some x \<and> follow L v w (Suc m) x = Some x))
    \<and> (resolve_ref_any L v w rp ref = Some r \<longleftrightarrow>
      (\<exists>n last. follow L v w n ref = Some last \<and> next_ref L v w last = None \<and> r = resolve_last L v w rp last))"
proof (intro conjI iffI)
  assume "resolve_ref_any L v w rp ref = None"
  then have a: "\<And>n. follow L v w n ref \<noteq> None" by (simp add: resolve_none_iff)
  define f where "f n = the (follow L v w n ref)" for n
  have f: "follow L v w n ref = Some (f n)" for n using a[of n] by (auto simp: f_def)
  have "f n \<in> {n. vc_ref L v w n \<noteq> None}" for n
  proof -
    have "follow L v w (Suc n) ref = next_ref L v w (f n)" by (simp only: follow_snoc f Option.bind.bind_lunit)
    then show ?thesis using a[of "Suc n"] by (auto simp: next_ref_def split: if_splits)
  qed
  then have "finite (range f)" using assms by (meson finite_subset image_subsetI)
  then have "\<not> inj f" using finite_imageD infinite_UNIV_nat by blast
  then obtain i j where ij: "f i = f j" "i < j" unfolding inj_def by (metis linorder_neqE_nat)
  then obtain m where m: "j = i + Suc m" using less_iff_Suc_add by auto
  then have "follow L v w (Suc m) (f i) = Some (f i)"
    using f[of j] f[of i] ij(1) by (simp only: m follow_add Option.bind.bind_lunit)
  then show "\<exists>n m x. follow L v w n ref = Some x \<and> follow L v w (Suc m) x = Some x" using f by blast
next
  assume "\<exists>n m x. follow L v w n ref = Some x \<and> follow L v w (Suc m) x = Some x"
  then obtain n m x where x: "follow L v w n ref = Some x" "follow L v w (Suc m) x = Some x" by blast
  have "resolve_ref_any L v w rp x = None"
    unfolding resolve_none_iff using cycle_goes_on[OF x(2)] by blast
  then show "resolve_ref_any L v w rp ref = None" using resolve_follow[OF x(1)] by simp
qed (simp_all only: resolve_some_iff)

lemma resolve_loop: "next_ref L v w ref = Some ref \<Longrightarrow> resolve_ref_any L v w rp ref = None"
  unfolding resolve_none_iff using cycle_goes_on[of L v w 0 ref] by simp

text \<open>Only the references and the log of the workspace's repository matter.\<close>

lemma resolve_agree:
  assumes "vc_ref L' v w = vc_ref L v w" "vc_log L' v w = vc_log L v w" "vc_snap L' v rp = vc_snap L v rp"
    "vc_hex L' = vc_hex L"
  shows "resolve_ref_any L' v w rp ref = resolve_ref_any L v w rp ref"
proof -
  have n: "next_ref L' v w = next_ref L v w" by (simp add: fun_eq_iff next_ref_def assms)
  have "follow L' v w k x = follow L v w k x" for k x
    by (induction k arbitrary: x) (simp_all add: n split: option.split)
  moreover have "resolve_last L' v w rp = resolve_last L v w rp"
    unfolding fun_eq_iff resolve_last_def latest_def parent_of_latest_def by_hash_def by_revision_def assms by simp
  ultimately have "\<And>r. resolve_ref_any L' v w rp ref = Some r \<longleftrightarrow> resolve_ref_any L v w rp ref = Some r"
    unfolding resolve_some_iff n by simp
  then show ?thesis by (metis option.exhaust)
qed

lemma resolve_rev_id_none: "resolve_rev_id L v w rp ref = None \<longleftrightarrow> resolve_ref_any L v w rp ref = None"
  by (auto simp: resolve_rev_id_def split: option.splits sum.splits)

lemma tree_of_ref_none: "tree_of_ref L v w rp ref = None \<longleftrightarrow> resolve_ref_any L v w rp ref = None"
proof (cases "ref = ''''")
  case True
  then show ?thesis by (simp add: tree_of_ref_def resolve_end next_ref_def)
next
  case False
  then show ?thesis by (simp add: tree_of_ref_def split: option.split sum.split)
qed

end
