(* ===== verification/Workspace.thy ===== *)
theory Workspace
imports Kube_Client Lab_Vcs
begin

text \<open>
  Repository trees as tar archives (\<^verbatim>\<open>internal/workspace/workspace.go\<close>): packing the snapshot tree
  of a revision and unpacking an archive below a directory.  An archive is the list of its entries
  and the error its reader ends with, if any; an entry's data may end in a read error of its own.
  The object store answers by id, the disk is a record of its operations.

  The path functions are those of \<^verbatim>\<open>path/filepath\<close> on Unix.
\<close>

section \<open>Paths\<close>

definition clean_step :: "bool \<Rightarrow> string list \<Rightarrow> string \<Rightarrow> string list" where
  "clean_step rooted st c =
    (if c = '''' \<or> c = ''.'' then st
     else if c = ''..'' then
       (if st \<noteq> [] \<and> last st \<noteq> ''..'' then butlast st else if rooted then st else st @ [c])
     else st @ [c])"

definition rooted_path :: "string \<Rightarrow> bool" where
  "rooted_path p = has_prefix ''/'' p"

definition path_parts :: "string \<Rightarrow> string list" where
  "path_parts p = foldl (clean_step (rooted_path p)) [] (split_on CHR ''/'' p)"

definition clean_path :: "string \<Rightarrow> string" where
  "clean_path p =
    (let body = join_with ''/'' (path_parts p) in
     if rooted_path p then CHR ''/'' # body else if body = '''' then ''.'' else body)"

definition path_join :: "string \<Rightarrow> string \<Rightarrow> string" where
  "path_join a b =
    (if a = '''' \<and> b = '''' then ''''
     else clean_path (join_with ''/'' (filter (\<lambda>s. s \<noteq> '''') [a, b])))"

definition path_dir :: "string \<Rightarrow> string" where
  "path_dir p = clean_path (case cut_last CHR ''/'' p of None \<Rightarrow> '''' | Some (d, _) \<Rightarrow> d @ ''/'')"

section \<open>Packing a tree\<close>

datatype entry_kind = TreeEntry | BlobEntry | OtherEntry

datatype tar_kind = TarDir | TarReg | TarOther

record tar_entry =
  te_name :: string
  te_kind :: tar_kind
  te_mode :: int
  te_data :: string
  te_error :: "string option"

text \<open>
  \<^verbatim>\<open>ob_header\<close> is the tar writer's refusal of a header; writing to a buffer does not fail otherwise.
\<close>

record 'i objects =
  ob_tree :: "'i \<Rightarrow> string + (string \<times> entry_kind \<times> 'i) list"
  ob_blob :: "'i \<Rightarrow> string + string"
  ob_header :: "string \<Rightarrow> string \<Rightarrow> string option"

definition in_prefix :: "string \<Rightarrow> string \<Rightarrow> string" where
  "in_prefix prefix name = (if prefix \<noteq> '''' then prefix @ ''/'' @ name else name)"

definition file_entry :: "string \<Rightarrow> string \<Rightarrow> tar_entry" where
  "file_entry name data = \<lparr> te_name = name, te_kind = TarReg, te_mode = 420, te_data = data, te_error = None \<rparr>"

definition tar_blob :: "'i objects \<Rightarrow> string \<Rightarrow> 'i \<Rightarrow> string + tar_entry" where
  "tar_blob Ob full i =
    (case ob_blob Ob i of
       Inl e \<Rightarrow> Inl e
     | Inr d \<Rightarrow> (case ob_header Ob full d of Some e \<Rightarrow> Inl e | None \<Rightarrow> Inr (file_entry full d)))"

partial_function (option) tar_walk :: "'i objects \<Rightarrow> string \<Rightarrow> (string \<times> entry_kind \<times> 'i) list \<Rightarrow> tar_entry list
    \<Rightarrow> (string + tar_entry list) option" where
  "tar_walk Ob prefix es out =
    (case es of
       [] \<Rightarrow> Some (Inr out)
     | (n, kind, i) # rest \<Rightarrow>
         (case kind of
            TreeEntry \<Rightarrow>
              (case ob_tree Ob i of
                 Inl e \<Rightarrow> Some (Inl e)
               | Inr sub \<Rightarrow>
                   Option.bind (tar_walk Ob (in_prefix prefix n) sub out) (\<lambda>r.
                   case r of Inl e \<Rightarrow> Some (Inl e) | Inr out' \<Rightarrow> tar_walk Ob prefix rest out'))
          | BlobEntry \<Rightarrow>
              (case tar_blob Ob (in_prefix prefix n) i of
                 Inl e \<Rightarrow> Some (Inl e)
               | Inr te \<Rightarrow> tar_walk Ob prefix rest (out @ [te]))
          | OtherEntry \<Rightarrow> tar_walk Ob prefix rest out))"

declare tar_walk.simps [code]

definition tar_tree :: "'i objects \<Rightarrow> 'i \<Rightarrow> (string + tar_entry list) option" where
  "tar_tree Ob root =
    (case ob_tree Ob root of Inl e \<Rightarrow> Some (Inl e) | Inr es \<Rightarrow> tar_walk Ob '''' es [])"

section \<open>Unpacking an archive\<close>

record 'k disk =
  dk_mkdir :: "string \<Rightarrow> 'k \<Rightarrow> (string + unit) \<times> 'k"
  dk_write :: "string \<Rightarrow> int \<Rightarrow> string \<Rightarrow> 'k \<Rightarrow> (string + unit) \<times> 'k"

unbundle bit_operations_syntax

definition file_mode :: "int \<Rightarrow> int" where
  "file_mode m = (m AND 511) OR 256"

definition extract_name :: "string \<Rightarrow> string" where
  "extract_name name = clean_path (CHR ''/'' # name)"

definition skipped :: "string \<Rightarrow> bool" where
  "skipped name \<longleftrightarrow> extract_name name = ''/'' \<or> contains_sub ''..'' (extract_name name)"

fun tar_extract :: "'k disk \<Rightarrow> string \<Rightarrow> tar_entry list \<Rightarrow> string option \<Rightarrow> ('k, unit) act" where
  "tar_extract D dir [] end_error = (case end_error of None \<Rightarrow> give () | Some e \<Rightarrow> plain e)"
| "tar_extract D dir (te # tes) end_error =
    (if skipped (te_name te) then tar_extract D dir tes end_error
     else let target = path_join dir (extract_name (te_name te)) in
       case te_kind te of
         TarDir \<Rightarrow> after (api (dk_mkdir D target)) (\<lambda>_. tar_extract D dir tes end_error)
       | TarReg \<Rightarrow>
           after (api (dk_mkdir D (path_dir target))) (\<lambda>_.
           after (api (dk_write D target (file_mode (te_mode te)) (te_data te))) (\<lambda>_.
           case te_error te of Some e \<Rightarrow> plain e | None \<Rightarrow> tar_extract D dir tes end_error))
       | TarOther \<Rightarrow> tar_extract D dir tes end_error)"

section \<open>Paths, part by part\<close>

definition ordinary :: "string \<Rightarrow> bool" where
  "ordinary c \<longleftrightarrow> c \<noteq> '''' \<and> c \<noteq> ''.'' \<and> c \<noteq> ''..'' \<and> CHR ''/'' \<notin> set c"

text \<open>The parts of a path: upward steps, only in a path that is not rooted, and then names.\<close>

definition normal_parts :: "bool \<Rightarrow> string list \<Rightarrow> bool" where
  "normal_parts rooted ps \<longleftrightarrow> (\<exists>n cs. ps = replicate n ''..'' @ cs \<and> list_all ordinary cs \<and> (rooted \<longrightarrow> n = 0))"

lemma step_ordinary: "ordinary c \<Longrightarrow> clean_step r st c = st @ [c]"
  by (simp add: clean_step_def ordinary_def)

lemma steps_ordinary: "list_all ordinary cs \<Longrightarrow> foldl (clean_step r) st cs = st @ cs"
  by (induction cs arbitrary: st) (simp_all add: step_ordinary)

lemma steps_up: "foldl (clean_step False) (replicate m ''..'') (replicate n ''..'') = replicate (m + n) ''..''"
proof (induction n arbitrary: m)
  case (Suc n)
  have "clean_step False (replicate m ''..'') ''..'' = replicate (Suc m) ''..''"
    by (cases m) (simp_all add: clean_step_def replicate_append_same last_replicate)
  then show ?case using Suc[of "Suc m"] by simp
qed simp

lemma steps_normal:
  assumes "normal_parts r ps"
  shows "foldl (clean_step r) [] ps = ps"
proof -
  obtain n cs where ps: "ps = replicate n ''..'' @ cs" and cs: "list_all ordinary cs" and r: "r \<Longrightarrow> n = 0"
    using assms unfolding normal_parts_def by blast
  have "foldl (clean_step r) [] (replicate n ''..'') = replicate n ''..''"
    using r steps_up[of 0 n] by (cases r) simp_all
  then show ?thesis using cs by (simp add: ps steps_ordinary)
qed

lemma step_normal:
  assumes "normal_parts r st" "CHR ''/'' \<notin> set c"
  shows "normal_parts r (clean_step r st c)"
proof -
  obtain n cs where st: "st = replicate n ''..'' @ cs" and cs: "list_all ordinary cs" and r: "r \<longrightarrow> n = 0"
    using assms unfolding normal_parts_def by blast
  consider "c = '''' \<or> c = ''.''" | "c = ''..''" "cs \<noteq> []" | "c = ''..''" "cs = []" | "ordinary c"
    using assms(2) by (auto simp: ordinary_def)
  then show ?thesis
  proof cases
    case 1
    then show ?thesis using assms(1) by (auto simp: clean_step_def)
  next
    case 2
    then have l: "ordinary (last cs)" using cs by (simp add: list_all_iff)
    have "list_all ordinary (butlast cs)" using cs by (auto simp: list_all_iff dest: in_set_butlastD)
    moreover have "clean_step r st c = replicate n ''..'' @ butlast cs"
      using 2 l by (simp add: st clean_step_def butlast_append ordinary_def)
    ultimately show ?thesis unfolding normal_parts_def using r by blast
  next
    case 3
    then show ?thesis unfolding normal_parts_def
      using r by (intro exI[of _ "if r then 0 else Suc n"] exI[of _ "[]"])
        (cases n; simp add: st clean_step_def replicate_append_same)
  next
    case 4
    then have "clean_step r st c = replicate n ''..'' @ (cs @ [c])" by (simp add: step_ordinary st)
    then show ?thesis unfolding normal_parts_def
      using cs 4 r by (intro exI[of _ n] exI[of _ "cs @ [c]"]) simp
  qed
qed

lemma path_parts_normal: "normal_parts (rooted_path p) (path_parts p)"
proof -
  have "normal_parts r (foldl (clean_step r) st xs)" if "normal_parts r st" "\<forall>x\<in>set xs. CHR ''/'' \<notin> set x" for r st xs
    using that by (induction xs arbitrary: st) (simp_all add: step_normal)
  moreover have "normal_parts r []" for r unfolding normal_parts_def by (intro exI[of _ 0] exI[of _ "[]"]) simp
  ultimately show ?thesis unfolding path_parts_def using split_on_parts by blast
qed

lemma split_on_general: "split_on c (a @ c # b) = split_on c a @ split_on c b"
proof (induction a)
  case (Cons x a)
  obtain y ys where s: "split_on c a = y # ys" by (cases "split_on c a") simp_all
  have "split_on c (a @ c # b) = y # (ys @ split_on c b)" using Cons s by simp
  then show ?case using s by (cases "x = c") (simp_all only: append_Cons split_on.simps if_True if_False list.case simp_thms)
qed simp

lemma split_join:
  assumes "ps \<noteq> []" "\<forall>x\<in>set ps. CHR ''/'' \<notin> set x"
  shows "split_on CHR ''/'' (join_with ''/'' ps) = ps"
  using assms
proof (induction ps)
  case (Cons x ps)
  then show ?case
    using split_on_append[of "CHR ''/''" x "join_with ''/'' ps"] by (cases ps) (simp_all add: split_on_no_sep)
qed simp

lemma normal_no_slash: "normal_parts r ps \<Longrightarrow> x \<in> set ps \<Longrightarrow> CHR ''/'' \<notin> set x \<and> x \<noteq> ''''"
proof -
  assume "normal_parts r ps" "x \<in> set ps"
  then have "x = ''..'' \<or> ordinary x" unfolding normal_parts_def list_all_iff by (auto split: if_splits)
  then show ?thesis by (auto simp: ordinary_def)
qed

lemma join_slash_Nil: "join_with ''/'' ps = '''' \<longleftrightarrow> ps = [] \<or> ps = ['''']"
  by (cases "(''/'', ps)" rule: join_with.cases) auto

lemma join_slash_head:
  assumes "ps \<noteq> []" "hd ps \<noteq> ''''" "\<forall>x\<in>set ps. CHR ''/'' \<notin> set x"
  shows "\<not> rooted_path (join_with ''/'' ps)"
proof -
  obtain c s qs where ps: "ps = (c # s) # qs" using assms by (cases ps) (auto simp: neq_Nil_conv)
  then have "c \<noteq> CHR ''/''" using assms(3) by auto
  then show ?thesis unfolding ps by (cases qs) (auto simp: rooted_path_def)
qed

text \<open>The parts of a path made of normal parts are these parts.\<close>

definition of_parts :: "bool \<Rightarrow> string list \<Rightarrow> string" where
  "of_parts r ps =
    (let body = join_with ''/'' ps in if r then CHR ''/'' # body else if body = '''' then ''.'' else body)"

lemma clean_path_parts: "clean_path p = of_parts (rooted_path p) (path_parts p)"
  by (simp add: clean_path_def of_parts_def Let_def)

lemma of_parts_normal:
  assumes "normal_parts r ps"
  shows "rooted_path (of_parts r ps) = r \<and> path_parts (of_parts r ps) = ps"
proof -
  note n = normal_no_slash[OF assms]
  have rt: "rooted_path (of_parts r ps) = r"
  proof (cases "r \<or> ps = []")
    case True
    then show ?thesis by (auto simp: of_parts_def rooted_path_def Let_def)
  next
    case False
    then have "\<not> rooted_path (join_with ''/'' ps)" using n by (intro join_slash_head) auto
    then show ?thesis using False by (auto simp: of_parts_def Let_def rooted_path_def)
  qed
  have "split_on CHR ''/'' (of_parts r ps) =
    (if ps = [] then (if r then ['''', ''''] else [''.'']) else if r then '''' # ps else ps)"
    using n split_join[of ps] by (cases "ps = []") (auto simp: of_parts_def Let_def join_slash_Nil)
  moreover have "foldl (clean_step r) [] ps = ps" by (rule steps_normal[OF assms])
  ultimately have "path_parts (of_parts r ps) = ps"
    unfolding path_parts_def rt by (auto simp: clean_step_def)
  with rt show ?thesis by simp
qed

lemma clean_path_idem: "rooted_path (clean_path p) = rooted_path p" "path_parts (clean_path p) = path_parts p"
  using of_parts_normal[OF path_parts_normal[of p]] by (simp_all add: clean_path_parts)

lemma rooted_parts: "list_all ordinary (path_parts (CHR ''/'' # p))"
  using path_parts_normal[of "CHR ''/'' # p"] by (auto simp: normal_parts_def rooted_path_def)

text \<open>Joining a directory and a rooted, clean path appends the parts.\<close>

lemma path_join_parts:
  assumes "list_all ordinary cs"
  shows "path_parts (path_join dir (CHR ''/'' # join_with ''/'' cs)) = path_parts dir @ cs"
    "rooted_path (path_join dir (CHR ''/'' # join_with ''/'' cs)) = (dir = '''' \<or> rooted_path dir)"
proof -
  let ?p = "CHR ''/'' # join_with ''/'' cs"
  have cs: "normal_parts True cs" using assms unfolding normal_parts_def by (intro exI[of _ 0] exI[of _ cs]) simp
  have p: "?p = of_parts True cs" by (simp add: of_parts_def Let_def)
  note o = of_parts_normal[OF cs, folded p]
  have "path_parts (path_join dir ?p) = path_parts dir @ cs \<and> rooted_path (path_join dir ?p) = (dir = '''' \<or> rooted_path dir)"
  proof (cases "dir = ''''")
    case True
    then have "path_join dir ?p = clean_path ?p" by (simp add: path_join_def)
    then show ?thesis using True o by (simp add: clean_path_idem) (simp add: path_parts_def rooted_path_def clean_step_def)
  next
    case False
    let ?j = "dir @ CHR ''/'' # ?p"
    have j: "path_join dir ?p = clean_path ?j" using False by (simp add: path_join_def)
    have rt: "rooted_path ?j = rooted_path dir" using False by (cases dir) (auto simp: rooted_path_def)
    have "split_on CHR ''/'' ?j = split_on CHR ''/'' dir @ ([''''] @ split_on CHR ''/'' (join_with ''/'' cs))"
      by (simp add: split_on_general)
    moreover have "foldl (clean_step r) st ([''''] @ split_on CHR ''/'' (join_with ''/'' cs)) = st @ cs" for r st
    proof (cases "cs = []")
      case False
      have "split_on CHR ''/'' (join_with ''/'' cs) = cs"
        using False assms by (intro split_join) (auto simp: list_all_iff ordinary_def)
      then show ?thesis using assms by (simp add: steps_ordinary) (simp add: clean_step_def)
    qed (simp add: clean_step_def)
    ultimately have "path_parts ?j = path_parts dir @ cs" unfolding path_parts_def rt by simp
    then show ?thesis using False rt by (simp add: j clean_path_idem)
  qed
  then show "path_parts (path_join dir ?p) = path_parts dir @ cs"
    "rooted_path (path_join dir ?p) = (dir = '''' \<or> rooted_path dir)" by simp_all
qed

text \<open>The directory of a clean path with a last name has the parts before it.\<close>

lemma path_dir_parts:
  assumes "path_parts p = ps @ [c]" "ordinary c" "p = clean_path q"
  shows "path_parts (path_dir p) = ps" "rooted_path (path_dir p) = rooted_path p"
proof -
  have p: "p = of_parts (rooted_path p) (ps @ [c])"
    using assms(1,3) clean_path_idem[of q] by (simp add: clean_path_parts)
  have nm: "normal_parts (rooted_path p) (ps @ [c])" using path_parts_normal[of p] assms(1) by simp
  then have noslash: "\<forall>x\<in>set (ps @ [c]). CHR ''/'' \<notin> set x" using normal_no_slash by blast
  have "path_parts (path_dir p) = ps \<and> rooted_path (path_dir p) = rooted_path p"
  proof (cases "cut_last CHR ''/'' p")
    case None
    then have ns: "CHR ''/'' \<notin> set p" by simp
    then have r: "\<not> rooted_path p" by (auto simp: rooted_path_def elim!: has_prefixE)
    have b: "join_with ''/'' (ps @ [c]) = p"
      using r p join_slash_Nil[of "ps @ [c]"] assms(2) by (auto simp: of_parts_def Let_def ordinary_def split: if_splits)
    have "ps @ [c] = [p]" using split_join[OF _ noslash] b split_on_no_sep[OF ns] by simp
    moreover have "path_dir p = clean_path ''''" by (simp only: path_dir_def None option.case)
    moreover have "path_parts '''' = []" "\<not> rooted_path ''''" by (simp_all add: path_parts_def clean_step_def rooted_path_def)
    ultimately show ?thesis using r by (simp add: clean_path_idem)
  next
    case (Some db)
    obtain d b where db: "db = (d, b)" by (cases db)
    then have pd: "p = d @ CHR ''/'' # b" and b: "CHR ''/'' \<notin> set b" using Some by (simp_all add: cut_last_Some)
    have rt: "rooted_path (d @ ''/'') = rooted_path p"
      unfolding pd by (cases d) (simp_all add: rooted_path_def)
    have "path_parts p = foldl (clean_step (rooted_path p)) [] (split_on CHR ''/'' d @ [b])"
      unfolding path_parts_def by (subst pd) (simp only: split_on_general split_on_no_sep[OF b] split: prod.splits)
    also have "\<dots> = clean_step (rooted_path p) (path_parts (d @ ''/'')) b"
      unfolding path_parts_def rt by (simp add: split_on_general clean_step_def)
    finally have e: "ps @ [c] = clean_step (rooted_path p) (path_parts (d @ ''/'')) b" using assms(1) by simp
    have "split_on CHR ''/'' p = split_on CHR ''/'' d @ [b]" by (simp add: pd split_on_general split_on_no_sep[OF b])
    moreover have "last (split_on CHR ''/'' p) = c"
    proof -
      have "split_on CHR ''/'' (join_with ''/'' (ps @ [c])) = ps @ [c]" by (rule split_join[OF _ noslash]) simp
      then show ?thesis
        using p assms(2) join_slash_Nil[of "ps @ [c]"]
        by (cases "rooted_path p") (auto simp: of_parts_def Let_def ordinary_def split: if_splits)
    qed
    ultimately have "b = c" by simp
    with e assms(2) have "path_parts (d @ ''/'') = ps" by (simp add: step_ordinary)
    then show ?thesis using rt by (simp add: path_dir_def Some db clean_path_idem)
  qed
  then show "path_parts (path_dir p) = ps" "rooted_path (path_dir p) = rooted_path p" by simp_all
qed

section \<open>Where an archive writes\<close>

text \<open>A path is inside a directory if it is the directory's parts and then ordinary names.\<close>

definition inside :: "string \<Rightarrow> string \<Rightarrow> bool" where
  "inside dir p \<longleftrightarrow> (\<exists>cs. path_parts p = path_parts dir @ cs \<and> list_all ordinary cs)
     \<and> rooted_path p = (dir = '''' \<or> rooted_path dir)"

lemma extract_name_parts: "extract_name n = CHR ''/'' # join_with ''/'' (path_parts (CHR ''/'' # n))"
  by (simp add: extract_name_def clean_path_def Let_def) (simp add: rooted_path_def)

lemma target_inside:
  assumes "extract_name n \<noteq> ''/''"
  shows "inside dir (path_join dir (extract_name n)) \<and> inside dir (path_dir (path_join dir (extract_name n)))"
proof -
  define cs where "cs = path_parts (CHR ''/'' # n)"
  have oc: "list_all ordinary cs" unfolding cs_def by (rule rooted_parts)
  have n: "extract_name n = CHR ''/'' # join_with ''/'' cs" by (simp add: extract_name_parts cs_def)
  let ?t = "path_join dir (extract_name n)"
  have t: "path_parts ?t = path_parts dir @ cs" "rooted_path ?t = (dir = '''' \<or> rooted_path dir)"
    unfolding n by (rule path_join_parts[OF oc])+
  have "cs \<noteq> []" using assms n by auto
  then obtain ds c where ds: "cs = ds @ [c]" by (metis rev_exhaust)
  have "?t = clean_path (join_with ''/'' (filter (\<lambda>s. s \<noteq> '''') [dir, extract_name n]))"
    by (simp add: path_join_def n)
  from path_dir_parts[OF _ _ this, of "path_parts dir @ ds" c] t oc ds
  have "path_parts (path_dir ?t) = path_parts dir @ ds" "rooted_path (path_dir ?t) = (dir = '''' \<or> rooted_path dir)"
    by simp_all
  then show ?thesis using t oc ds unfolding inside_def by auto
qed

lemma extract_keeps:
  assumes "\<And>p k. inside dir p \<Longrightarrow> I k \<Longrightarrow> I (snd (dk_mkdir D p k))"
    "\<And>p m d k. inside dir p \<Longrightarrow> I k \<Longrightarrow> I (snd (dk_write D p m d k))"
  shows "I k \<Longrightarrow> I (snd (tar_extract D dir tes e k))"
proof (induction tes arbitrary: k)
  case Nil
  then show ?case by (simp add: give_def plain_def refuse_def split: option.split)
next
  case (Cons te tes)
  have step: "I (snd (after (api f) g k))" if "I (snd (f k))" "\<And>u k'. I k' \<Longrightarrow> I (snd (g u k'))" for f :: "'a \<Rightarrow> (string + unit) \<times> 'a"
      and g :: "unit \<Rightarrow> ('a, unit) act" and k
    using that by (auto simp: act_defs api_def split: prod.split sum.split)
  show ?case
  proof (cases "skipped (te_name te)")
    case False
    then have "inside dir (path_join dir (extract_name (te_name te)))"
      "inside dir (path_dir (path_join dir (extract_name (te_name te))))"
      using target_inside unfolding skipped_def by auto
    with Cons assms show ?thesis using False
      by (cases "te_kind te")
        (auto simp: Let_def plain_def refuse_def split: option.split intro!: step)
  qed (use Cons in simp)
qed

section \<open>Packing and unpacking\<close>

datatype vtree = File string | Folder "(string \<times> vtree) list" | Link

fun stored :: "'i objects \<Rightarrow> entry_kind \<Rightarrow> 'i \<Rightarrow> vtree \<Rightarrow> bool"
  and stored_list :: "'i objects \<Rightarrow> (string \<times> entry_kind \<times> 'i) list \<Rightarrow> (string \<times> vtree) list \<Rightarrow> bool" where
  "stored Ob kind i (File d) = (kind = BlobEntry \<and> ob_blob Ob i = Inr d)"
| "stored Ob kind i (Folder ns) =
    (kind = TreeEntry \<and> (case ob_tree Ob i of Inl _ \<Rightarrow> False | Inr es \<Rightarrow> stored_list Ob es ns))"
| "stored Ob kind i Link = (kind = OtherEntry)"
| "stored_list Ob es [] = (es = [])"
| "stored_list Ob es ((n, t) # ns) =
    (case es of [] \<Rightarrow> False | (m, kind, i) # es' \<Rightarrow> m = n \<and> stored Ob kind i t \<and> stored_list Ob es' ns)"

fun tree_files :: "(string \<times> vtree) list \<Rightarrow> (string list \<times> string) list" where
  "tree_files [] = []"
| "tree_files ((n, File d) # ns) = ([n], d) # tree_files ns"
| "tree_files ((n, Folder ss) # ns) = map (\<lambda>(p, d). (n # p, d)) (tree_files ss) @ tree_files ns"
| "tree_files ((n, Link) # ns) = tree_files ns"

fun good_tree :: "(string \<times> vtree) list \<Rightarrow> bool" where
  "good_tree [] = True"
| "good_tree ((n, t) # ns) =
    (ordinary n \<and> n \<notin> fst ` set ns \<and> (case t of Folder ss \<Rightarrow> good_tree ss | _ \<Rightarrow> True) \<and> good_tree ns)"

lemma tree_files_ordinary:
  "good_tree ns \<Longrightarrow> (p, d) \<in> set (tree_files ns) \<Longrightarrow> p \<noteq> [] \<and> list_all ordinary p \<and> hd p \<in> fst ` set ns"
  by (induction ns arbitrary: p d rule: tree_files.induct) fastforce+

lemma tree_files_distinct: "good_tree ns \<Longrightarrow> distinct (map fst (tree_files ns))"
proof (induction ns rule: tree_files.induct)
  case (2 n d ns)
  then show ?case using tree_files_ordinary[of ns] by (fastforce simp: image_iff)
next
  case (3 n ss ns)
  have m: "map fst (map (\<lambda>(p, d). (n # p, d)) fs) = map (\<lambda>p. n # p) (map fst fs)" for fs :: "(string list \<times> string) list"
    by (induction fs) auto
  have "n # p \<notin> fst ` set (tree_files ns)" for p
  proof
    assume "n # p \<in> fst ` set (tree_files ns)"
    then obtain d where "(n # p, d) \<in> set (tree_files ns)" by auto
    with 3(3) tree_files_ordinary[of ns "n # p" d] show False by simp
  qed
  then show ?case using 3 by (simp only: tree_files.simps map_append distinct_append m) (auto simp: distinct_map intro: comp_inj_on)
qed simp_all

lemma join_Cons: "p \<noteq> [] \<Longrightarrow> join_with ''/'' (n # p) = n @ ''/'' @ join_with ''/'' p"
  by (cases p) auto

definition entries_of :: "string \<Rightarrow> (string list \<times> string) list \<Rightarrow> tar_entry list" where
  "entries_of prefix fs = map (\<lambda>(p, d). file_entry (in_prefix prefix (join_with ''/'' p)) d) fs"

lemma entries_below:
  assumes "n \<noteq> ''''" "\<forall>(p, d)\<in>set fs. p \<noteq> []"
  shows "entries_of (in_prefix prefix n) fs = entries_of prefix (map (\<lambda>(p, d). (n # p, d)) fs)"
  using assms by (auto simp: entries_of_def in_prefix_def join_Cons)

lemma tar_walk_stored:
  assumes "\<And>f d. ob_header Ob f d = None"
  shows "stored_list Ob es ns \<Longrightarrow> good_tree ns \<Longrightarrow>
    tar_walk Ob prefix es out = Some (Inr (out @ entries_of prefix (tree_files ns)))"
proof (induction ns arbitrary: es prefix out rule: tree_files.induct)
  case 1
  then show ?case by (subst tar_walk.simps) (simp add: entries_of_def)
next
  case (2 n d ns)
  then obtain i es' where es: "es = (n, BlobEntry, i) # es'" "ob_blob Ob i = Inr d" "stored_list Ob es' ns"
    by (auto split: list.splits)
  then show ?case using 2 assms
    by (subst tar_walk.simps) (simp add: tar_blob_def entries_of_def)
next
  case (3 n ss ns)
  then obtain i es' sub where es: "es = (n, TreeEntry, i) # es'" "ob_tree Ob i = Inr sub" "stored_list Ob sub ss"
    "stored_list Ob es' ns"
    by (auto split: list.splits) (auto split: sum.splits)
  have "entries_of (in_prefix prefix n) (tree_files ss) = entries_of prefix (map (\<lambda>(p, d). (n # p, d)) (tree_files ss))"
    using 3(4) tree_files_ordinary[of ss] by (intro entries_below) (auto simp: ordinary_def)
  then show ?case using 3 es by (subst tar_walk.simps) (simp add: entries_of_def)
next
  case (4 n ns)
  then show ?case by (subst tar_walk.simps) (auto split: list.splits)
qed

text \<open>
  A disk that takes everything below a directory; \<^verbatim>\<open>view\<close> reads the mode and content of a file.
\<close>

definition takes_all :: "'k disk \<Rightarrow> ('k \<Rightarrow> string \<Rightarrow> (int \<times> string) option) \<Rightarrow> string \<Rightarrow> bool" where
  "takes_all D view dir \<longleftrightarrow> (\<forall>p k. inside dir p \<longrightarrow>
     (case dk_mkdir D p k of (r, k') \<Rightarrow> r = Inr () \<and> view k' = view k)
     \<and> (\<forall>m d. case dk_write D p m d k of (r, k') \<Rightarrow> r = Inr () \<and> view k' = (view k)(p \<mapsto> (m, d))))"

lemma takes_allD:
  assumes "takes_all D view dir" "inside dir p"
  obtains k1 k2 where "dk_mkdir D p k = (Inr (), k1)" "view k1 = view k"
    "dk_write D p m d k = (Inr (), k2)" "view k2 = (view k)(p \<mapsto> (m, d))"
proof -
  obtain r1 k1 r2 k2 where e: "dk_mkdir D p k = (r1, k1)" "dk_write D p m d k = (r2, k2)" by (metis prod.collapse)
  have "(case dk_mkdir D p k of (r, k') \<Rightarrow> r = Inr () \<and> view k' = view k)
     \<and> (\<forall>m d. case dk_write D p m d k of (r, k') \<Rightarrow> r = Inr () \<and> view k' = (view k)(p \<mapsto> (m, d)))"
    using assms(1)[unfolded takes_all_def, THEN spec, THEN spec, THEN mp, OF assms(2), of k] .
  then have "r1 = Inr () \<and> view k1 = view k"
    "case dk_write D p m d k of (r, k') \<Rightarrow> r = Inr () \<and> view k' = (view k)(p \<mapsto> (m, d))"
    unfolding e(1) by (simp_all only: prod.case)
  then have "r1 = Inr ()" "view k1 = view k" "r2 = Inr ()" "view k2 = (view k)(p \<mapsto> (m, d))"
    unfolding e(2) by (simp_all only: prod.case)
  then show thesis using that e by (simp only:)
qed

definition placed :: "string \<Rightarrow> string list \<Rightarrow> string" where
  "placed dir p = path_join dir (CHR ''/'' # join_with ''/'' p)"

definition plain_name :: "string list \<Rightarrow> bool" where
  "plain_name p \<longleftrightarrow> \<not> contains_sub ''..'' (join_with ''/'' p)"

lemma name_of_parts:
  assumes "p \<noteq> []" "list_all ordinary p"
  shows "extract_name (join_with ''/'' p) = CHR ''/'' # join_with ''/'' p" "skipped (join_with ''/'' p) = (\<not> plain_name p)"
proof -
  have np: "normal_parts True p" using assms unfolding normal_parts_def by (intro exI[of _ 0] exI[of _ p]) simp
  have o: "CHR ''/'' # join_with ''/'' p = of_parts True p" by (simp add: of_parts_def Let_def)
  show e: "extract_name (join_with ''/'' p) = CHR ''/'' # join_with ''/'' p"
    unfolding extract_name_parts o of_parts_normal[OF np, THEN conjunct2] by (simp add: of_parts_def Let_def)
  have "join_with ''/'' p \<noteq> ''''" using assms by (auto simp: join_slash_Nil ordinary_def)
  then show "skipped (join_with ''/'' p) = (\<not> plain_name p)"
    unfolding skipped_def e plain_name_def by simp
qed

lemma placed_inj: "list_all ordinary p \<Longrightarrow> list_all ordinary q \<Longrightarrow> placed dir p = placed dir q \<longleftrightarrow> p = q"
  unfolding placed_def using path_join_parts(1) by (metis same_append_eq)

lemma extract_files:
  assumes "takes_all D view dir"
  shows "\<forall>(p, d)\<in>set fs. p \<noteq> [] \<and> list_all ordinary p \<Longrightarrow>
    \<exists>k'. tar_extract D dir (entries_of '''' fs) None k = (Done (), k')
      \<and> view k' = view k ++ map_of (List.rev (map (\<lambda>(p, d). (placed dir p, 420, d)) (filter (plain_name \<circ> fst) fs)))"
proof (induction fs arbitrary: k)
  case Nil
  then show ?case by (simp add: entries_of_def give_def)
next
  case (Cons pd fs)
  obtain p d where pd: "pd = (p, d)" by (cases pd)
  then have p: "p \<noteq> []" "list_all ordinary p" using Cons.prems by auto
  note n = name_of_parts[OF p]
  have es: "entries_of '''' (pd # fs) = file_entry (join_with ''/'' p) d # entries_of '''' fs"
    by (simp add: entries_of_def in_prefix_def pd)
  have IH: "\<exists>k'. tar_extract D dir (entries_of '''' fs) None k = (Done (), k')
      \<and> view k' = view k ++ map_of (List.rev (map (\<lambda>(p, d). (placed dir p, 420, d)) (filter (plain_name \<circ> fst) fs)))" for k
    by (intro Cons.IH) (use Cons.prems in auto)
  show ?case
  proof (cases "plain_name p")
    case False
    then show ?thesis using IH[of k] unfolding es by (simp add: file_entry_def n pd comp_def)
  next
    case True
    let ?t = "path_join dir (CHR ''/'' # join_with ''/'' p)"
    have "extract_name (join_with ''/'' p) \<noteq> ''/''" using True n(2) by (simp add: skipped_def)
    from target_inside[OF this] have i: "inside dir ?t" "inside dir (path_dir ?t)" by (simp_all add: n)
    obtain k1 where k1: "dk_mkdir D (path_dir ?t) k = (Inr (), k1)" "view k1 = view k"
      by (rule takes_allD[OF assms i(2)])
    obtain k2 where k2: "dk_write D ?t 420 d k1 = (Inr (), k2)" "view k2 = (view k1)(?t \<mapsto> (420, d))"
      by (rule takes_allD[OF assms i(1)])
    have m: "file_mode 420 = 420" by (simp add: file_mode_def)
    have "tar_extract D dir (entries_of '''' (pd # fs)) None k = tar_extract D dir (entries_of '''' fs) None k2"
      unfolding es tar_extract.simps using True k1(1) k2(1)
      by (simp add: n file_entry_def m Let_def act_defs api_def)
    moreover have v2: "view k2 = (view k)(placed dir p \<mapsto> (420, d))" using k1(2) k2(2) by (simp add: placed_def)
    ultimately show ?thesis using IH[of k2] True pd by (simp add: comp_def v2)
  qed
qed

text \<open>
  C22: Unpacking never leaves its directory: whatever an archive holds, every directory it creates
  and every file it writes has the parts of the target directory followed by ordinary names.  So
  what a disk keeps under such operations, it keeps under any archive.
\<close>
theorem extract_confined:
  assumes "I k"
    "\<And>p k. inside dir p \<Longrightarrow> I k \<Longrightarrow> I (snd (dk_mkdir D p k))"
    "\<And>p m d k. inside dir p \<Longrightarrow> I k \<Longrightarrow> I (snd (dk_write D p m d k))"
  shows "I (snd (tar_extract D dir archive end_error k))"
  using assms(1) extract_keeps[of dir I D, OF assms(2,3)] by blast

text \<open>
  C23: Packing a snapshot's tree and unpacking it below a directory writes every file of the tree at
  its own path, with its content and mode 0644, no two at one path, and changes no other file;
  except that a file whose path holds two dots in a row, as in a..b, is left out without an
  error.
\<close>
theorem tar_roundtrip:
  assumes "ob_tree Ob root = Inr es" "stored_list Ob es ns" "good_tree ns"
    "\<And>f d. ob_header Ob f d = None" "takes_all D view dir"
  shows "\<exists>archive k'. tar_tree Ob root = Some (Inr archive) \<and> tar_extract D dir archive None k = (Done (), k')
    \<and> view k' = view k ++ map_of (map (\<lambda>(p, d). (placed dir p, 420, d)) (filter (plain_name \<circ> fst) (tree_files ns)))
    \<and> distinct (map (placed dir \<circ> fst) (tree_files ns))"
proof -
  let ?fs = "tree_files ns" and ?g = "\<lambda>(p, d). (placed dir p, 420 :: int, d :: string)"
  have o: "\<forall>(p, d)\<in>set ?fs. p \<noteq> [] \<and> list_all ordinary p" using tree_files_ordinary[OF assms(3)] by blast
  have "inj_on (placed dir) (fst ` set ?fs)" using o placed_inj by (fastforce intro!: inj_onI)
  then have d: "distinct (map (placed dir \<circ> fst) ?fs)"
    using tree_files_distinct[OF assms(3)] by (simp add: distinct_map flip: map_map)
  have fk: "map fst (map ?g fs) = map (placed dir \<circ> fst) fs" for fs by (induction fs) auto
  have "distinct (map fst (map ?g (filter (plain_name \<circ> fst) ?fs)))"
    unfolding fk using d by (rule distinct_map_filter)
  then have "map_of (List.rev (map ?g (filter (plain_name \<circ> fst) ?fs))) = map_of (map ?g (filter (plain_name \<circ> fst) ?fs))"
    by (subst map_of_inject_set) (simp_all add: rev_map[symmetric])
  moreover have "tar_tree Ob root = Some (Inr (entries_of '''' ?fs))"
    using tar_walk_stored[OF assms(4,2,3), of "''''" "[]"] assms(1) by (simp add: tar_tree_def)
  ultimately show ?thesis using extract_files[OF assms(5) o, of k] d by auto
qed

text \<open>A disk of files by path, and a small tree with a name of two dots.\<close>

type_synonym file_map = "string \<Rightarrow> (int \<times> string) option"

definition map_disk :: "file_map disk" where
  "map_disk = \<lparr> dk_mkdir = (\<lambda>p k. (Inr (), k)), dk_write = (\<lambda>p m d k. (Inr (), k(p \<mapsto> (m, d)))) \<rparr>"

definition small_objects :: "nat objects" where
  "small_objects = \<lparr>
     ob_tree = (\<lambda>i. if i = 0 then Inr [(''docs'', TreeEntry, 1), (''a..b'', BlobEntry, 2)]
                    else if i = 1 then Inr [(''x.md'', BlobEntry, 3)] else Inl ''no tree''),
     ob_blob = (\<lambda>i. if i = 2 then Inr ''two'' else if i = 3 then Inr ''hi'' else Inl ''no blob''),
     ob_header = (\<lambda>f d. None) \<rparr>"

definition small_tree :: "(string \<times> vtree) list" where
  "small_tree = [(''docs'', Folder [(''x.md'', File ''hi'')]), (''a..b'', File ''two'')]"

lemma extract_confined_witness:
  "snd (tar_extract map_disk ''/tmp/w'' [file_entry ''../../etc/passwd'' ''root''] None Map.empty) ''/etc/passwd'' = None"
proof -
  have "path_parts ''/etc/passwd'' = [''etc'', ''passwd'']" "path_parts ''/tmp/w'' = [''tmp'', ''w'']" by code_simp+
  then have n: "inside ''/tmp/w'' p \<Longrightarrow> p \<noteq> ''/etc/passwd''" for p by (auto simp: inside_def)
  show ?thesis
    by (rule extract_confined[where I = "\<lambda>k. k ''/etc/passwd'' = None"]) (use n in \<open>auto simp: map_disk_def\<close>)
qed

lemma tar_roundtrip_witness:
  "\<exists>archive. tar_tree small_objects 0 = Some (Inr archive)
    \<and> tar_extract map_disk ''/tmp/w'' archive None Map.empty = (Done (), [''/tmp/w/docs/x.md'' \<mapsto> (420, ''hi'')])"
proof -
  have s: "ob_tree small_objects 0 = Inr [(''docs'', TreeEntry, 1), (''a..b'', BlobEntry, 2)]"
    "stored_list small_objects [(''docs'', TreeEntry, 1), (''a..b'', BlobEntry, 2)] small_tree"
    by (simp_all add: small_objects_def small_tree_def)
  have g: "good_tree small_tree" by code_simp
  have f: "map (\<lambda>(p, d). (placed ''/tmp/w'' p, 420 :: int, d)) (filter (plain_name \<circ> fst) (tree_files small_tree))
      = [(''/tmp/w/docs/x.md'', 420, ''hi'')]" by code_simp
  have t: "takes_all map_disk (\<lambda>k. k) ''/tmp/w''" by (simp add: takes_all_def map_disk_def)
  have h: "\<And>f d. ob_header small_objects f d = None" by (simp add: small_objects_def)
  from tar_roundtrip[OF s g h t, of Map.empty] show ?thesis unfolding f by auto
qed

end
