(* ===== verification/CI_Backend.thy ===== *)
theory CI_Backend
imports Kube_Job Workspace CI_Scheduler Publish Naming
begin

text \<open>
  The execution engine of the scheduler on Kubernetes (\<^verbatim>\<open>internal/ci/backend_k8s.go\<close>): images are
  built and steps are run by the jobs of \<^verbatim>\<open>Kube_Job\<close>.

  The host's disk and its callbacks are a record: errors that the code drops do not show, a missing
  callback is nothing.  A missing cluster client makes an image build panic when the client is read.
\<close>

record 'k build_host =
  bh_data :: string
  bh_mkdir :: "string \<Rightarrow> 'k \<Rightarrow> bool \<times> 'k"
  bh_mkdtemp :: "string \<Rightarrow> 'k \<Rightarrow> (string + string) \<times> 'k"
  bh_chmod :: "string \<Rightarrow> 'k \<Rightarrow> 'k"
  bh_write :: "string \<Rightarrow> string \<Rightarrow> 'k \<Rightarrow> 'k"
  bh_tar :: "string \<Rightarrow> 'k \<Rightarrow> string + string"
  bh_stamp :: "'k \<Rightarrow> string"
  bh_export :: "(string \<Rightarrow> string \<Rightarrow> string \<Rightarrow> string \<Rightarrow> 'k \<Rightarrow> 'k) option"
  bh_tree_tar :: "(string \<Rightarrow> string \<Rightarrow> string \<Rightarrow> 'k \<Rightarrow> string + string) option"
  bh_worker_dir :: string
  bh_pid :: int

record 'k ci_backend =
  cb_client :: "kube_client option"
  cb_url :: string
  cb_token :: string
  cb_host :: "'k build_host"

section \<open>Build contexts and arguments\<close>

definition build_tmp_dir :: "'k build_host \<Rightarrow> 'k \<Rightarrow> string \<times> 'k" where
  "build_tmp_dir H k =
    (let root = path_join (bh_data H) ''tmp'' in
     case bh_mkdir H root k of
       (False, k1) \<Rightarrow> (''.'', k1)
     | (True, k1) \<Rightarrow>
         (case bh_mkdtemp H root k1 of
            (Inl _, k2) \<Rightarrow> (''.'', k2)
          | (Inr dir, k2) \<Rightarrow> (dir, bh_chmod H dir k2)))"

definition prepare_context :: "'k build_host \<Rightarrow> job \<Rightarrow> 'k \<Rightarrow> string \<times> 'k" where
  "prepare_context H j k =
    (let ctx = pr_context (job_produce j) in
     if ctx \<noteq> '''' \<and> ctx \<noteq> ''.'' then (ctx, snd (bh_mkdir H ctx k))
     else let (dir, k1) = build_tmp_dir H k; k2 = snd (bh_mkdir H dir k1) in
       case bh_export H of
         Some export \<Rightarrow>
           if job_org j \<noteq> '''' \<and> job_repo j \<noteq> '''' then (dir, export (job_org j) (job_repo j) (job_branch j) dir k2)
           else (dir, k2)
       | None \<Rightarrow> (dir, k2))"

definition put_all :: "smap \<Rightarrow> smap \<Rightarrow> smap" where
  "put_all over m = fold (\<lambda>(k, v) m. AList.update k v m) over m"

definition map_to_args :: "produce \<Rightarrow> step_def list \<Rightarrow> smap" where
  "map_to_args p steps =
    fold (\<lambda>st m. put_all (step_env st) m) steps (if pr_tag p \<noteq> '''' then [(''TAG'', pr_tag p)] else [])"

definition npmrc_line :: "string \<Rightarrow> string \<Rightarrow> string" where
  "npmrc_line url token =
    (let host = trim_suffix ''/'' (trim_prefix ''http://'' (trim_prefix ''https://'' url)) in
     ''//'' @ trim_suffix (if has_prefix ''https://'' url then '':443'' else '':80'') host
       @ ''/artifacts/npm/:_authToken='' @ token)"

definition put_nonempty :: "string \<Rightarrow> string \<Rightarrow> smap \<Rightarrow> smap" where
  "put_nonempty k v m = (if v \<noteq> '''' then AList.update k v m else m)"

definition publish_build_args :: "job \<Rightarrow> string \<Rightarrow> string \<Rightarrow> smap" where
  "publish_build_args j url token =
    (let p = job_produce j;
         m = put_nonempty ''FILE'' (pr_file p) (put_nonempty ''VERSION'' (pr_version p) (put_nonempty ''NAME'' (pr_name p)
               [(''ARTIFACT_URL'', url), (''ARTIFACT_TOKEN'', token)]))
     in if pr_protocol p = ''npm'' \<and> url \<noteq> '''' then AList.update ''NPMRC_LINE'' (npmrc_line url token) m else m)"

definition host_of :: "string \<Rightarrow> string" where
  "host_of ref =
    (let r = trim_prefix ''http://'' (trim_prefix ''https://'' ref) in
     case cut_at CHR ''/'' r of Some (h, _) \<Rightarrow> if h \<noteq> '''' then h else r | None \<Rightarrow> r)"

definition publish_temp_tag :: "int \<Rightarrow> string \<Rightarrow> string \<Rightarrow> string" where
  "publish_temp_tag pid url protocol =
    (if url \<noteq> '''' then host_of url else ''easylab'') @ ''/easylab-publish/'' @ protocol @ '':'' @ dec_int pid"

section \<open>Running a job\<close>

definition job_runtime :: "job \<Rightarrow> string" where
  "job_runtime j = (case find (has_prefix ''os='') (job_runs_on j) of Some l \<Rightarrow> trim_prefix ''os='' l | None \<Rightarrow> '''')"

definition show_labels :: "string list \<Rightarrow> string" where
  "show_labels ls = ''['' @ join_with '' '' ls @ '']''"

definition job_image :: "kube_client \<Rightarrow> job \<Rightarrow> runtime_profile \<Rightarrow> string + string" where
  "job_image c j profile =
    (if rt_image profile \<noteq> '''' \<and> \<not> rt_derived profile then Inr (rt_image profile)
     else let img = image_for j None in
       if img = ''''
       then Inl (''job '' @ job_id j @ '': no container or toolchain image (runs_on='' @ show_labels (job_runs_on j) @ '')'')
       else Inr (rewrite_image_ref c img))"

definition step_command :: "step_def \<Rightarrow> job_command" where
  "step_command st = \<lparr> jc_name = step_name st, jc_run = step_run st, jc_workdir = step_dir st, jc_env = step_env st \<rparr>"

definition step_spec :: "'k build_host \<Rightarrow> job \<Rightarrow> runtime_profile \<Rightarrow> string \<Rightarrow> string option \<Rightarrow> string \<Rightarrow> job_spec" where
  "step_spec H j profile img tar now =
    \<lparr> js_name = ''easylab-ci-'' @ sanitize_name (job_id j) @ ''-'' @ now, js_image = img,
      js_workspace = ''/workspace'', js_env = [], js_port = profile_port profile, js_tarball = tar,
      js_commands = map step_command (job_steps j), js_profile = Some profile,
      js_worker_dir = (if \<not> rt_derived profile \<and> rt_image profile \<noteq> '''' then '''' else bh_worker_dir H),
      js_proxy = None, js_no_proxy = False \<rparr>"

definition tree_tarball :: "'k build_host \<Rightarrow> job \<Rightarrow> 'k \<Rightarrow> string + string option" where
  "tree_tarball H j k =
    (case bh_tree_tar H of
       None \<Rightarrow> Inr None
     | Some f \<Rightarrow>
         if job_org j \<noteq> '''' \<and> job_repo j \<noteq> ''''
         then (case f (job_org j) (job_repo j) (job_branch j) k of Inl e \<Rightarrow> Inl (''export workspace: '' @ e) | Inr t \<Rightarrow> Inr (Some t))
         else Inr None)"

definition run_steps :: "'k kube_api \<Rightarrow> 'k worker_api \<Rightarrow> 'k ci_backend \<Rightarrow> job \<Rightarrow> ('k job_world, string) act" where
  "run_steps A W B j =
    (if job_steps j = [] then give ''ok''
     else case cb_client B of
       None \<Rightarrow> plain ''k8s backend unavailable''
     | Some c \<Rightarrow>
         after (ask (\<lambda>_. resolve_runtime c (job_runtime j))) (\<lambda>profile.
         after (ask (\<lambda>_. job_image c j profile)) (\<lambda>img.
         after (on_ext (ask (tree_tarball (cb_host B) j))) (\<lambda>tar.
         if \<not> (\<not> rt_derived profile \<and> rt_image profile \<noteq> '''') \<and> bh_worker_dir (cb_host B) = ''''
         then plain ''worker binary hostPath unavailable for linux CI job''
         else peek (\<lambda>w. step_spec (cb_host B) j profile img tar (bh_stamp (cb_host B) (jw_ext w))) (\<lambda>s.
              after (kube_run_job A W c s '''') (\<lambda>_. give ''ok''))))))"

definition backend_build :: "'k kube_api \<Rightarrow> 'k worker_api \<Rightarrow> 'k ci_backend \<Rightarrow> build_options \<Rightarrow> ('k job_world, unit) act" where
  "backend_build A W B opt =
    (case cb_client B of
       Some c \<Rightarrow> build_image A W (bh_tar (cb_host B)) (bh_stamp (cb_host B)) c opt
     | None \<Rightarrow>
         if bo_image opt = '''' then plain ''build image required''
         else if bo_context opt = '''' then plain ''build context required''
         else wrapping OtherCode ''tar build context: '' (on_ext (ask (bh_tar (cb_host B) (bo_context opt)))) (\<lambda>_.
              after (on_ext (api (wk_random W))) (\<lambda>_. crash)))"

definition oci_build :: "'k kube_api \<Rightarrow> 'k worker_api \<Rightarrow> 'k ci_backend \<Rightarrow> job \<Rightarrow> ('k job_world, string) act" where
  "oci_build A W B j =
    after (on_ext (\<lambda>k. case prepare_context (cb_host B) j k of (dir, k') \<Rightarrow> (Done dir, k'))) (\<lambda>dir.
    let p = job_produce j; df = or_default (pr_dockerfile p) ''Dockerfile'' in
    alter (\<lambda>w. if pr_containerfile p \<noteq> ''''
               then w\<lparr> jw_ext := bh_write (cb_host B) (dir @ ''/'' @ df) (pr_containerfile p) (jw_ext w) \<rparr> else w) (
    after (backend_build A W B
      \<lparr> bo_context = dir, bo_dockerfile = df, bo_image = pr_tag p, bo_args = map_to_args p (job_steps j), bo_no_cache = False \<rparr>)
      (\<lambda>_. give ''ok'')))"

definition render_refusal :: "publish_error \<Rightarrow> string" where
  "render_refusal e =
    (case e of
       ErrProtocol p \<Rightarrow> ''unsupported protocol '' @ p
     | ErrArgs req p \<Rightarrow> ''publish '' @ p @ '' requires '' @ req)"

definition publish_options :: "'k ci_backend \<Rightarrow> job \<Rightarrow> string \<Rightarrow> build_options" where
  "publish_options B j dir =
    \<lparr> bo_context = dir, bo_dockerfile = ''Dockerfile'',
      bo_image = publish_temp_tag (bh_pid (cb_host B)) (cb_url B) (pr_protocol (job_produce j)),
      bo_args = publish_build_args j (cb_url B) (cb_token B), bo_no_cache = False \<rparr>"

definition publish_job :: "'k kube_api \<Rightarrow> 'k worker_api \<Rightarrow> 'k ci_backend \<Rightarrow> job \<Rightarrow> ('k job_world, string) act" where
  "publish_job A W B j =
    (let p = job_produce j in
     case render (pr_protocol p) (pr_name p) (pr_version p) (pr_file p) of
       Inl e \<Rightarrow> plain (render_refusal e)
     | Inr _ \<Rightarrow>
         after (on_ext (\<lambda>k. case prepare_context (cb_host B) j k of (dir, k') \<Rightarrow> (Done dir, k'))) (\<lambda>dir.
         after (backend_build A W B (publish_options B j dir)) (\<lambda>_. give ''ok'')))"

definition backend_run :: "'k kube_api \<Rightarrow> 'k worker_api \<Rightarrow> 'k ci_backend \<Rightarrow> job \<Rightarrow> ('k job_world, string) act" where
  "backend_run A W B j =
    (let action = pr_action (job_produce j) in
     if action = ActionOCIBuild then oci_build A W B j
     else if action = ActionPublishProtocol then publish_job A W B j
     else run_steps A W B j)"

section \<open>What a job's engine answers\<close>

lemma returns_on_host [return_intros]: "returns (on_ext (\<lambda>k. case f k of (x, k') \<Rightarrow> (Done x, k')))"
  unfolding on_ext_def by (intro return_intros) (simp add: returns_def split: prod.split)

lemma returns_build_image:
  assumes "clocks_run A"
  shows "returns (build_image A W tar st c opt)"
  unfolding build_image_def on_ext_def by (intro return_intros kube_run_job_returns assms)

lemma returns_backend_build [return_intros]:
  assumes "clocks_run A"
  shows "returns (backend_build A W B opt)"
  unfolding backend_build_def on_ext_def
  by (intro return_intros returns_build_image assms)

lemma backend_returns:
  assumes "clocks_run A"
  shows "returns (backend_run A W B j)"
proof -
  have s: "returns (run_steps A W B j)"
    unfolding run_steps_def on_ext_def by (intro return_intros kube_run_job_returns assms)
  have o': "returns (oci_build A W B j)" unfolding oci_build_def Let_def by (intro return_intros assms)
  have p: "returns (publish_job A W B j)" unfolding publish_job_def Let_def by (intro return_intros assms)
  show ?thesis unfolding backend_run_def Let_def by (intro return_intros s o' p)
qed

lemma backend_ok: "backend_run A W B j w = (Done s, w') \<Longrightarrow> s = ''ok''"
  unfolding backend_run_def run_steps_def oci_build_def publish_job_def Let_def
  by (auto simp: done_cases plain_def split: if_splits option.splits sum.splits)

text \<open>
  A publish job puts nothing of its template into the build: it writes no file into its context,
  and two protocols whose arguments are present, npm apart, build from the same context with the same
  arguments under another throwaway tag; so what is built is whatever Dockerfile the repository holds.
\<close>
lemma publish_template_unused:
  assumes "pr_action (job_produce j) = ActionPublishProtocol"
  shows "backend_run A W (B\<lparr> cb_host := (cb_host B)\<lparr> bh_write := write' \<rparr> \<rparr>) j = backend_run A W B j
    \<and> (let p = job_produce j in
       case (render (pr_protocol p) (pr_name p) (pr_version p) (pr_file p), render q (pr_name p) (pr_version p) (pr_file p)) of
         (Inr _, Inr _) \<Rightarrow>
           pr_protocol p = ''npm'' \<or> q = ''npm'' \<or>
           backend_run A W B (j\<lparr> job_produce := p\<lparr> pr_protocol := q \<rparr> \<rparr>) =
             after (on_ext (\<lambda>k. case prepare_context (cb_host B) j k of (dir, k') \<Rightarrow> (Done dir, k'))) (\<lambda>dir.
             after (backend_build A W B ((publish_options B j dir)\<lparr> bo_image := publish_temp_tag (bh_pid (cb_host B)) (cb_url B) q \<rparr>))
               (\<lambda>_. give ''ok''))
       | _ \<Rightarrow> True)"
proof -
  have neq: "ActionPublishProtocol \<noteq> ActionOCIBuild" by (simp add: ActionPublishProtocol_def ActionOCIBuild_def)
  let ?B = "B\<lparr> cb_host := (cb_host B)\<lparr> bh_write := write' \<rparr> \<rparr>"
  have host: "bh_data (cb_host ?B) = bh_data (cb_host B)" "bh_mkdir (cb_host ?B) = bh_mkdir (cb_host B)"
    "bh_mkdtemp (cb_host ?B) = bh_mkdtemp (cb_host B)" "bh_chmod (cb_host ?B) = bh_chmod (cb_host B)"
    "bh_export (cb_host ?B) = bh_export (cb_host B)"
    by simp_all
  have ctx: "prepare_context (cb_host ?B) j = prepare_context (cb_host B) j"
    unfolding fun_eq_iff prepare_context_def build_tmp_dir_def host by simp
  have build: "backend_build A W ?B = backend_build A W B" by (simp add: fun_eq_iff backend_build_def split: option.split)
  have opts: "publish_options ?B j = publish_options B j" by (simp add: fun_eq_iff publish_options_def)
  have 1: "backend_run A W ?B j = backend_run A W B j"
    unfolding backend_run_def publish_job_def Let_def ctx build opts using assms neq by simp
  let ?j = "j\<lparr> job_produce := (job_produce j)\<lparr> pr_protocol := q \<rparr> \<rparr>"
  have same: "job_org ?j = job_org j" "job_repo ?j = job_repo j" "job_branch ?j = job_branch j"
    "pr_context (job_produce ?j) = pr_context (job_produce j)"
    by simp_all
  have ctx': "prepare_context (cb_host B) ?j = prepare_context (cb_host B) j"
    unfolding fun_eq_iff prepare_context_def same by simp
  have opts': "publish_options B ?j dir = (publish_options B j dir)\<lparr> bo_image := publish_temp_tag (bh_pid (cb_host B)) (cb_url B) q \<rparr>"
    if "pr_protocol (job_produce j) \<noteq> ''npm''" "q \<noteq> ''npm''" for dir
    using that by (simp add: publish_options_def publish_build_args_def Let_def)
  show ?thesis
    using 1 assms neq by (auto simp: backend_run_def publish_job_def ctx' opts' Let_def split: sum.split)
qed

text \<open>
  Without a cluster an image build ends in a panic once its context is packed; the scheduler runs it
  in a goroutine of its own, so the process ends.
\<close>

lemma build_without_cluster_panics:
  assumes "cb_client B = None" "bo_image opt \<noteq> ''''" "bo_context opt \<noteq> ''''"
    "bh_tar (cb_host B) (bo_context opt) (jw_ext w) = Inr t" "wk_random W (jw_ext w) = (Inr tok, k)"
  shows "fst (backend_build A W B opt w) = Panic"
  using assms by (simp add: backend_build_def on_ext_def act_defs api_def ask_def)

definition pods_host :: "demo_pods build_host" where
  "pods_host = \<lparr> bh_data = ''/data'', bh_mkdir = (\<lambda>d k. (True, k)), bh_mkdtemp = (\<lambda>d k. (Inr (d @ ''/easyci-1''), k)),
     bh_chmod = (\<lambda>d k. k), bh_write = (\<lambda>p c k. k), bh_tar = (\<lambda>d k. Inr d), bh_stamp = (\<lambda>k. ''1''),
     bh_export = None, bh_tree_tar = None, bh_worker_dir = ''/w'', bh_pid = 7 \<rparr>"

definition pods_backend :: "demo_pods ci_backend" where
  "pods_backend = \<lparr> cb_client = Some pods_client, cb_url = ''http://lab/artifacts'', cb_token = ''secret'',
     cb_host = pods_host \<rparr>"

definition publish_pypi :: job where
  "publish_pypi = \<lparr> job_id = ''p'', job_needs = [], job_runs_on = [], job_org = ''o'', job_repo = ''r'', job_branch = '''',
     job_container = '''', job_dir = '''', job_steps = [],
     job_produce = no_produce\<lparr> pr_action := ActionPublishProtocol, pr_protocol := ''pypi'', pr_name := ''n'' \<rparr> \<rparr>"

lemma publish_template_unused_witness:
  "backend_run pods_kube pods_worker (pods_backend\<lparr> cb_host := (cb_host pods_backend)\<lparr> bh_write := (\<lambda>p c (t, ps). (t, p # ps)) \<rparr> \<rparr>)
      publish_pypi = backend_run pods_kube pods_worker pods_backend publish_pypi
   \<and> backend_run pods_kube pods_worker pods_backend
        (publish_pypi\<lparr> job_produce := (job_produce publish_pypi)\<lparr> pr_protocol := ''cargo'' \<rparr> \<rparr>) =
      after (on_ext (\<lambda>k. case prepare_context pods_host publish_pypi k of (dir, k') \<Rightarrow> (Done dir, k'))) (\<lambda>dir.
      after (backend_build pods_kube pods_worker pods_backend
          ((publish_options pods_backend publish_pypi dir)\<lparr> bo_image := publish_temp_tag 7 ''http://lab/artifacts'' ''cargo'' \<rparr>))
        (\<lambda>_. give ''ok''))"
proof -
  have a: "pr_action (job_produce publish_pypi) = ActionPublishProtocol"
    and f: "pr_protocol (job_produce publish_pypi) = ''pypi''" by (simp_all add: publish_pypi_def)
  have r: "\<exists>x. render p n v fl = Inr x" if "p \<in> {''pypi'', ''cargo''}" for p n v fl
  proof -
    have "map_of publish_specs ''pypi'' = Some spec_pypi" "map_of publish_specs ''cargo'' = Some spec_cargo"
      by (simp_all add: publish_specs_def)
    moreover have "ps_required spec_pypi = []" "ps_required spec_cargo = []" by (simp_all add: spec_pypi_def spec_cargo_def)
    ultimately show ?thesis using that by (auto simp: render_def)
  qed
  have h: "cb_host pods_backend = pods_host" "cb_url pods_backend = ''http://lab/artifacts''" "bh_pid pods_host = 7"
    by (simp_all add: pods_backend_def pods_host_def)
  from r obtain x y where x: "render ''pypi'' (pr_name (job_produce publish_pypi)) (pr_version (job_produce publish_pypi))
      (pr_file (job_produce publish_pypi)) = Inr x"
    and y: "render ''cargo'' (pr_name (job_produce publish_pypi)) (pr_version (job_produce publish_pypi))
      (pr_file (job_produce publish_pypi)) = Inr y" by (metis insertCI)
  from publish_template_unused[OF a, where A = pods_kube and W = pods_worker and B = pods_backend
      and write' = "\<lambda>p c (t, ps). (t, p # ps)" and q = "''cargo''"]
  show ?thesis unfolding Let_def f x y h by simp
qed

end
