(* ===== verification/Sbx_Registry.thy ===== *)
theory Sbx_Registry
imports Act
begin

text \<open>
  The table of sandboxes (\<^verbatim>\<open>internal/sbxreg/sbxreg.go\<close>): one row per sandbox name.  The database is
  a list of rows; an operation on it takes the time in milliseconds where it stamps a row, and the
  handlers run it as a transaction that may fail as a whole.

  An upsert keeps the synchronisation data, the token, the mode, the address and the owners of an
  existing row where the new row leaves them empty, and overwrites everything else.
\<close>

record sandbox_row =
  sb_name :: string
  sb_org :: string
  sb_repo :: string
  sb_branch :: string
  sb_base :: string
  sb_derived :: string
  sb_workspace :: string
  sb_runtime :: string
  sb_rev :: string
  sb_boot :: string
  sb_token :: string
  sb_mode :: string
  sb_addr :: string
  sb_owner_id :: string
  sb_owner :: int
  sb_created :: int
  sb_updated :: int

definition blank_row :: sandbox_row where
  "blank_row = \<lparr> sb_name = '''', sb_org = '''', sb_repo = '''', sb_branch = '''', sb_base = '''', sb_derived = '''',
     sb_workspace = '''', sb_runtime = '''', sb_rev = '''', sb_boot = '''', sb_token = '''', sb_mode = '''',
     sb_addr = '''', sb_owner_id = '''', sb_owner = 0, sb_created = 0, sb_updated = 0 \<rparr>"

definition keep_text :: "string \<Rightarrow> string \<Rightarrow> string" where
  "keep_text new old = (if new = '''' then old else new)"

definition merge_row :: "int \<Rightarrow> sandbox_row \<Rightarrow> sandbox_row \<Rightarrow> sandbox_row" where
  "merge_row now s old = s\<lparr>
     sb_rev := keep_text (sb_rev s) (sb_rev old),
     sb_boot := keep_text (sb_boot s) (sb_boot old),
     sb_token := keep_text (sb_token s) (sb_token old),
     sb_mode := keep_text (sb_mode s) (sb_mode old),
     sb_addr := keep_text (sb_addr s) (sb_addr old),
     sb_owner_id := keep_text (sb_owner_id s) (sb_owner_id old),
     sb_owner := (if sb_owner s = 0 then sb_owner old else sb_owner s),
     sb_created := sb_created old,
     sb_updated := now \<rparr>"

definition sbx_get :: "sandbox_row list \<Rightarrow> string \<Rightarrow> sandbox_row option" where
  "sbx_get rows name = find (\<lambda>r. sb_name r = name) rows"

definition sbx_upsert :: "int \<Rightarrow> sandbox_row \<Rightarrow> sandbox_row list \<Rightarrow> sandbox_row list" where
  "sbx_upsert now s rows =
    (case sbx_get rows (sb_name s) of
       Some old \<Rightarrow> map (\<lambda>r. if sb_name r = sb_name s then merge_row now s old else r) rows
     | None \<Rightarrow> rows @ [s\<lparr> sb_created := now, sb_updated := now \<rparr>])"

text \<open>Rows are listed by falling update time; rows of the same time stay in table order.\<close>

definition newest_first :: "sandbox_row list \<Rightarrow> sandbox_row list" where
  "newest_first rows = sort_key (\<lambda>r. - sb_updated r) rows"

definition sbx_list :: "sandbox_row list \<Rightarrow> sandbox_row list" where
  "sbx_list rows = newest_first rows"

definition sbx_list_by_owner :: "int \<Rightarrow> bool \<Rightarrow> sandbox_row list \<Rightarrow> sandbox_row list" where
  "sbx_list_by_owner owner unowned rows =
    newest_first (filter (\<lambda>r. sb_owner r = owner \<or> (unowned \<and> sb_owner r = 0)) rows)"

definition sbx_mark_synced :: "int \<Rightarrow> string \<Rightarrow> string \<Rightarrow> string \<Rightarrow> sandbox_row list \<Rightarrow> sandbox_row list" where
  "sbx_mark_synced now name rv boot rows =
    map (\<lambda>r. if sb_name r = name then r\<lparr> sb_rev := rv, sb_boot := boot, sb_updated := now \<rparr> else r) rows"

definition sbx_delete :: "string \<Rightarrow> sandbox_row list \<Rightarrow> sandbox_row list" where
  "sbx_delete name rows = filter (\<lambda>r. sb_name r \<noteq> name) rows"

section \<open>The table as a map\<close>

definition sbx_ok :: "sandbox_row list \<Rightarrow> bool" where
  "sbx_ok rows \<longleftrightarrow> distinct (map sb_name rows)"

named_theorems sbx_simps

lemma sbx_get_Some: "sbx_ok rows \<Longrightarrow> sbx_get rows n = Some r \<longleftrightarrow> r \<in> set rows \<and> sb_name r = n"
  unfolding sbx_get_def sbx_ok_def
  by (induction rows) (auto simp: image_iff)

lemma sbx_get_name: "sbx_get rows n = Some r \<Longrightarrow> sb_name r = n"
  by (simp add: sbx_get_def find_Some_iff) blast

lemma sbx_get_None: "sbx_get rows n = None \<longleftrightarrow> n \<notin> sb_name ` set rows"
  by (auto simp: sbx_get_def find_None_iff)

lemma find_map_names: "(\<And>r. sb_name (f r) = sb_name r) \<Longrightarrow> sbx_get (map f rows) n = map_option f (sbx_get rows n)"
  unfolding sbx_get_def by (induction rows) auto

lemma sbx_get_append: "sbx_get (rows @ [s]) n = (case sbx_get rows n of Some r \<Rightarrow> Some r | None \<Rightarrow> if sb_name s = n then Some s else None)"
  unfolding sbx_get_def by (induction rows) auto

lemma sbx_get_upsert [sbx_simps]:
  "sbx_get (sbx_upsert now s rows) n =
    (if n = sb_name s
     then Some (case sbx_get rows (sb_name s) of
                  Some old \<Rightarrow> merge_row now s old | None \<Rightarrow> s\<lparr> sb_created := now, sb_updated := now \<rparr>)
     else sbx_get rows n)"
proof (cases "sbx_get rows (sb_name s)")
  case None
  then show ?thesis by (auto simp: sbx_upsert_def sbx_get_append split: option.split)
next
  case (Some old)
  have "sbx_get (sbx_upsert now s rows) n =
      map_option (\<lambda>r. if sb_name r = sb_name s then merge_row now s old else r) (sbx_get rows n)"
    unfolding sbx_upsert_def Some option.case by (rule find_map_names) (simp add: merge_row_def)
  then show ?thesis using Some by (cases "sbx_get rows n") (auto dest: sbx_get_name)
qed

lemma sbx_get_mark [sbx_simps]:
  "sbx_get (sbx_mark_synced now m rv boot rows) n =
    map_option (\<lambda>r. if n = m then r\<lparr> sb_rev := rv, sb_boot := boot, sb_updated := now \<rparr> else r) (sbx_get rows n)"
proof -
  have "sbx_get (sbx_mark_synced now m rv boot rows) n =
      map_option (\<lambda>r. if sb_name r = m then r\<lparr> sb_rev := rv, sb_boot := boot, sb_updated := now \<rparr> else r) (sbx_get rows n)"
    unfolding sbx_mark_synced_def by (rule find_map_names) simp
  then show ?thesis by (cases "sbx_get rows n") (auto dest: sbx_get_name)
qed

lemma sbx_get_delete [sbx_simps]: "sbx_get (sbx_delete m rows) n = (if n = m then None else sbx_get rows n)"
  unfolding sbx_get_def sbx_delete_def by (induction rows) auto

lemma sbx_upsert_ok: "sbx_ok rows \<Longrightarrow> sbx_ok (sbx_upsert now s rows)"
proof (cases "sbx_get rows (sb_name s)")
  case None
  then have "sb_name s \<notin> sb_name ` set rows" by (simp add: sbx_get_None)
  then show "sbx_ok rows \<Longrightarrow> ?thesis" unfolding sbx_ok_def sbx_upsert_def None by auto
next
  case (Some old)
  have "map sb_name (sbx_upsert now s rows) = map sb_name rows"
    unfolding sbx_upsert_def Some option.case by (induction rows) (auto simp: merge_row_def)
  then show "sbx_ok rows \<Longrightarrow> ?thesis" by (simp add: sbx_ok_def)
qed

lemma sbx_mark_ok: "sbx_ok rows \<Longrightarrow> sbx_ok (sbx_mark_synced now n rv boot rows)"
proof -
  have "map sb_name (sbx_mark_synced now n rv boot rows) = map sb_name rows"
    unfolding sbx_mark_synced_def by (induction rows) auto
  then show "sbx_ok rows \<Longrightarrow> ?thesis" by (simp add: sbx_ok_def)
qed

lemma sbx_delete_ok: "sbx_ok rows \<Longrightarrow> sbx_ok (sbx_delete n rows)"
  unfolding sbx_ok_def sbx_delete_def by (induction rows) auto

lemma set_newest_first [simp]: "set (newest_first rows) = set rows"
  by (simp add: newest_first_def)

lemma newest_first_sorted: "sorted_wrt (\<lambda>a b. sb_updated a \<ge> sb_updated b) (newest_first rows)"
proof -
  have "sorted (map (\<lambda>r. - sb_updated r) (newest_first rows))" by (simp add: newest_first_def)
  then show ?thesis by (simp add: sorted_wrt_map)
qed

end
