(* ===== verification/Sandboxes.thy ===== *)
theory Sandboxes
imports CI_Backend Sbx_Registry Lab_Vcs
begin

text \<open>
  Sandboxes: the sandbox API of the gateway (\<^verbatim>\<open>cmd/easylab/connsandbox.go\<close>), workspace
  synchronisation (\<^verbatim>\<open>sandboxsync.go\<close>, \<^verbatim>\<open>workspace.go\<close>) and sandbox images (\<^verbatim>\<open>sbximage_k8s.go\<close>),
  over the sandbox table, the Kubernetes client and the workers.

  The state is the table, the world outside and the cache of listings.  Repositories, roles and the
  settings of the process do not change during a call and are part of the gateway record, like the
  parts of the host it asks: the database may refuse a statement, files may not be written.
\<close>

section \<open>The gateway's surroundings\<close>

record ('r, 'v, 'i) object_vcs = "('r, 'v, 'i) vcs" +
  ov_entries :: "'v \<Rightarrow> rkey \<Rightarrow> 'i \<Rightarrow> string + (string \<times> entry_kind \<times> 'i) list"
  ov_header :: "string \<Rightarrow> string \<Rightarrow> string option"
  ov_owner :: "'v \<Rightarrow> rkey \<Rightarrow> int"

datatype db_op = DbGet | DbUpsert | DbList | DbMark | DbDelete

record ('r, 'v, 'i, 'k) gateway =
  gw_kube :: "'k kube_api"
  gw_worker :: "'k worker_api"
  gw_client :: "kube_client option"
  gw_backend :: "'k ci_backend option"
  gw_vcs :: "('r, 'v, 'i) object_vcs"
  gw_v :: 'v
  gw_bytes :: "tar_entry list \<Rightarrow> string"
  gw_fails :: "db_op \<Rightarrow> 'k \<Rightarrow> string option"
  gw_now :: "'k \<Rightarrow> int"
  gw_sha :: "string \<Rightarrow> string"
  gw_binary :: "'k \<Rightarrow> string + string"
  gw_mkdir :: "string \<Rightarrow> 'k \<Rightarrow> (string + unit) \<times> 'k"
  gw_write :: "string \<Rightarrow> string \<Rightarrow> 'k \<Rightarrow> (string + unit) \<times> 'k"
  gw_head :: "string \<Rightarrow> string \<Rightarrow> 'k \<Rightarrow> int option"
  gw_data :: string
  gw_registry_host :: string
  gw_namespace :: string
  gw_artifacts :: string

record sandbox_info =
  si_name :: string
  si_org :: string
  si_repo :: string
  si_branch :: string
  si_base :: string
  si_derived :: string
  si_workspace :: string
  si_runtime :: string
  si_rev :: string
  si_synced_boot :: string
  si_owner :: string
  si_ip :: string
  si_phase :: string
  si_boot :: string
  si_total :: int
  si_running :: int
  si_error :: string

record 'k sbx_world =
  sw_rows :: "sandbox_row list"
  sw_ext :: 'k
  sw_cache :: "(string \<times> int \<times> sandbox_info list) list"

definition gw_central :: "('r, 'v, 'i, 'k) gateway \<Rightarrow> 'r central" where
  "gw_central G = vc_central (gw_vcs G) (gw_v G)"

definition on_k :: "('k, 'a) act \<Rightarrow> ('k sbx_world, 'a) act" where
  "on_k = zoom sw_ext (\<lambda>k w. w\<lparr> sw_ext := k \<rparr>)"

definition row_of :: "('r, 'v, 'i, 'k) gateway \<Rightarrow> string \<Rightarrow> 'k sbx_world \<Rightarrow> string + sandbox_row option" where
  "row_of G name w =
    (case gw_fails G DbGet (sw_ext w) of Some e \<Rightarrow> Inl e | None \<Rightarrow> Inr (sbx_get (sw_rows w) name))"

definition db_write :: "('r, 'v, 'i, 'k) gateway \<Rightarrow> db_op \<Rightarrow> (int \<Rightarrow> sandbox_row list \<Rightarrow> sandbox_row list)
    \<Rightarrow> ('k sbx_world, unit) act" where
  "db_write G op f =
    effect OtherCode (\<lambda>w. case gw_fails G op (sw_ext w) of
        Some e \<Rightarrow> (Inl e, w)
      | None \<Rightarrow> (Inr (), w\<lparr> sw_rows := f (gw_now G (sw_ext w)) (sw_rows w) \<rparr>)) give"

section \<open>Access\<close>

definition sandbox_refusal :: "'r central \<Rightarrow> principal option \<Rightarrow> sandbox_row \<Rightarrow> conn_err option" where
  "sandbox_refusal cs ctx row =
    (let p = principal_of ctx in
     if pl_admin p then None
     else if sb_owner row \<noteq> 0 then
       (if pl_user p \<noteq> sb_owner row
        then Some (ConnErr PermissionDenied (''sandbox '' @ go_quote (sb_name row) @ '' belongs to another user''))
        else None)
     else if (sb_org row \<noteq> '''' \<or> sb_repo row \<noteq> '''') \<and> can_read_repo cs ctx (sb_org row) (sb_repo row) then None
     else Some (ConnErr PermissionDenied (''sandbox '' @ go_quote (sb_name row) @ '' is owner-only'')))"

definition require_sandbox_access :: "('r, 'v, 'i, 'k) gateway \<Rightarrow> principal option \<Rightarrow> string \<Rightarrow> ('k sbx_world, sandbox_row) act" where
  "require_sandbox_access G ctx name =
    look Internal (row_of G name) (\<lambda>found. case found of
      None \<Rightarrow> refuse NotFound (''sandbox '' @ go_quote name @ '' not found'')
    | Some row \<Rightarrow> demand (\<lambda>_. sandbox_refusal (gw_central G) ctx row) (give row))"

definition worker_addr :: "('r, 'v, 'i, 'k) gateway \<Rightarrow> string \<Rightarrow> 'k sbx_world \<Rightarrow> string + string" where
  "worker_addr G name w =
    (let managed = (case gw_client G of
         None \<Rightarrow> Inl ''k8s backend unavailable''
       | Some c \<Rightarrow> Inr (''http://'' @ service_dns c name @ '':48080'')) in
     case row_of G name w of
       Inr (Some row) \<Rightarrow> if sb_mode row = ''external'' \<and> sb_addr row \<noteq> '''' then Inr (sb_addr row) else managed
     | _ \<Rightarrow> managed)"

definition worker_bearer :: "('r, 'v, 'i, 'k) gateway \<Rightarrow> string \<Rightarrow> 'k sbx_world \<Rightarrow> string" where
  "worker_bearer G name w = (case row_of G name w of Inr (Some row) \<Rightarrow> sb_token row | _ \<Rightarrow> '''')"

text \<open>A worker client is the worker's address and token.\<close>

definition worker_client :: "('r, 'v, 'i, 'k) gateway \<Rightarrow> string \<Rightarrow> 'k sbx_world \<Rightarrow> string + (string \<times> string)" where
  "worker_client G name w =
    (case worker_addr G name w of
       Inl e \<Rightarrow> Inl (''sandbox '' @ go_quote name @ '': '' @ e)
     | Inr base \<Rightarrow> Inr (base, worker_bearer G name w))"

section \<open>Workspaces\<close>

definition repo_objects :: "('r, 'v, 'i) object_vcs \<Rightarrow> 'v \<Rightarrow> rkey \<Rightarrow> 'i objects" where
  "repo_objects L v rp = \<lparr> ob_tree = ov_entries L v rp, ob_blob = vc_blob L v rp, ob_header = ov_header L \<rparr>"

definition export_workspace :: "('r, 'v, 'i) object_vcs \<Rightarrow> 'v \<Rightarrow> rkey \<Rightarrow> string
    \<Rightarrow> (string + (string \<times> tar_entry list)) option" where
  "export_workspace L v rp branch =
    (if \<not> ce_repo_exists (vc_central L v) (fst rp) (snd rp)
     then Some (Inl (''open '' @ fst rp @ ''/'' @ snd rp @ '': not found''))
     else case tree_of_ref L v rp rp branch of
       None \<Rightarrow> None
     | Some (Inl e) \<Rightarrow> Some (Inl (''ref '' @ branch @ '': '' @ e))
     | Some (Inr tree) \<Rightarrow>
         map_option (map_sum id (\<lambda>tar. (vc_text L tree, tar))) (tar_tree (repo_objects L v rp) tree))"

definition worker_boot_id :: "('r, 'v, 'i, 'k) gateway \<Rightarrow> string \<Rightarrow> 'k sbx_world \<Rightarrow> string" where
  "worker_boot_id G name w =
    (case worker_client G name w of
       Inl _ \<Rightarrow> ''''
     | Inr (base, tok) \<Rightarrow> (case wk_info (gw_worker G) base tok (sw_ext w) of Inl _ \<Rightarrow> '''' | Inr b \<Rightarrow> b))"

definition already_synced :: "('r, 'v, 'i, 'k) gateway \<Rightarrow> string \<Rightarrow> string \<Rightarrow> string \<Rightarrow> 'k sbx_world \<Rightarrow> bool" where
  "already_synced G name tree boot w =
    (case row_of G name w of
       Inr (Some row) \<Rightarrow> sb_rev row = tree \<and> sb_boot row \<noteq> '''' \<and> sb_boot row = boot
     | _ \<Rightarrow> False)"

definition sync_sandbox_workspace :: "('r, 'v, 'i, 'k) gateway \<Rightarrow> string \<Rightarrow> rkey \<Rightarrow> string \<Rightarrow> ('k sbx_world, unit) act" where
  "sync_sandbox_workspace G name rp branch =
    (if gw_client G = None then plain ''k8s backend unavailable''
     else chase OtherCode (\<lambda>_. export_workspace (gw_vcs G) (gw_v G) rp branch) (\<lambda>(tree, tar).
          peek (worker_boot_id G name) (\<lambda>boot.
          peek (already_synced G name tree boot) (\<lambda>synced.
          if synced then give ()
          else look Unavailable (worker_client G name) (\<lambda>(base, tok).
               wrapping OtherCode ''sync folder: '' (on_k (api (wk_sync (gw_worker G) base tok (gw_bytes G tar) tree))) (\<lambda>_.
               db_write G DbMark (\<lambda>now. sbx_mark_synced now name tree boot)))))))"

section \<open>Images\<close>

definition registry_host :: "('r, 'v, 'i, 'k) gateway \<Rightarrow> string" where
  "registry_host G =
    (if gw_registry_host G \<noteq> '''' then gw_registry_host G
     else case gw_client G of
       Some c \<Rightarrow> if kc_registry c \<noteq> '''' then kc_registry c
                 else ''easylab.'' @ or_default (gw_namespace G) ''temp'' @ ''.svc.cluster.local:80''
     | None \<Rightarrow> ''easylab.'' @ or_default (gw_namespace G) ''temp'' @ ''.svc.cluster.local:80'')"

definition sandbox_registry_ref :: "('r, 'v, 'i, 'k) gateway \<Rightarrow> string \<Rightarrow> string" where
  "sandbox_registry_ref G short = ref_join (registry_host G) (''easylab/sandbox:'' @ short)"

definition image_exists :: "('r, 'v, 'i, 'k) gateway \<Rightarrow> kube_client \<Rightarrow> string \<Rightarrow> 'k \<Rightarrow> bool" where
  "image_exists G c ref k =
    (case ref_split ref of (_, repo, tag) \<Rightarrow>
       if repo = '''' then False
       else let base = (if gw_artifacts G = '''' then ''http://'' @ kc_registry c else gw_artifacts G);
                u = trim_suffix ''/'' base @ ''/v2/'' @ repo @ ''/manifests/'' @ tag
            in gw_head G u (kc_token c) k = Some 200)"

definition sandbox_containerfile :: "string \<Rightarrow> string \<Rightarrow> string" where
  "sandbox_containerfile base workspace =
    ''FROM '' @ base @ newline
    @ ''COPY easyworker /usr/local/bin/easyworker'' @ newline
    @ ''ENV WORKER_PORT=48080'' @ newline
    @ ''WORKDIR '' @ workspace @ newline
    @ ''ENTRYPOINT ['' @ go_quote ''/usr/local/bin/easyworker'' @ '']'' @ newline"

definition quiet :: "('k job_world, 'a) act \<Rightarrow> ('k, 'a) act" where
  "quiet m k = (case m \<lparr> jw_ext = k, jw_log = [] \<rparr> of (r, w) \<Rightarrow> (r, jw_ext w))"

definition derive_job :: "string \<Rightarrow> string \<Rightarrow> job" where
  "derive_job dir tag =
    \<lparr> job_id = '''', job_needs = [], job_runs_on = [], job_org = '''', job_repo = '''', job_branch = '''',
      job_container = '''', job_dir = '''', job_steps = [],
      job_produce = no_produce\<lparr> pr_action := ActionOCIBuild, pr_context := dir, pr_dockerfile := ''Containerfile'',
                                pr_tag := tag \<rparr> \<rparr>"

definition derive_image :: "('r, 'v, 'i, 'k) gateway \<Rightarrow> string \<Rightarrow> string \<Rightarrow> ('k, unit) act" where
  "derive_image G dir tag =
    (case gw_backend G of
       None \<Rightarrow> plain ''build backend unavailable''
     | Some B \<Rightarrow> after (quiet (backend_run (gw_kube G) (gw_worker G) B (derive_job dir tag))) (\<lambda>_. give ()))"

definition ensure_sandbox_image :: "('r, 'v, 'i, 'k) gateway \<Rightarrow> runtime_profile \<Rightarrow> string \<Rightarrow> string
    \<Rightarrow> ('k, string \<times> bool) act" where
  "ensure_sandbox_image G profile base workspace =
    (case gw_client G of
       None \<Rightarrow> plain ''k8s backend unavailable''
     | Some c \<Rightarrow>
         if \<not> rt_derived profile then
           (if rt_image profile = '''' then plain (''runtime '' @ go_quote (rt_name profile) @ '' has no image configured'')
            else give (rt_image profile, False))
         else
           wrapping OtherCode ''worker binary: '' (ask (gw_binary G)) (\<lambda>bin.
           let short = take 16 (gw_sha G (base @ ''|'' @ bin));
               tag = sandbox_registry_ref G short;
               dir = path_join (path_join (gw_data G) ''buildctx'') (''sbx-'' @ short) in
           after (api (gw_mkdir G dir)) (\<lambda>_.
           after (api (gw_write G (path_join dir ''easyworker'') bin)) (\<lambda>_.
           after (api (gw_write G (path_join dir ''Containerfile'')
                   (sandbox_containerfile base (or_default workspace ''/workspace'')))) (\<lambda>_.
           peek (image_exists G c tag) (\<lambda>there.
           if there then give (tag, False)
           else wrapping OtherCode ''derive build: '' (derive_image G dir tag) (\<lambda>_. give (tag, True))))))))"

section \<open>Lifecycle\<close>

definition with_client :: "('r, 'v, 'i, 'k) gateway \<Rightarrow> (kube_client \<Rightarrow> ('k sbx_world, 'a) act) \<Rightarrow> ('k sbx_world, 'a) act" where
  "with_client G k = (case gw_client G of None \<Rightarrow> refuse Unimplemented ''k8s backend unavailable'' | Some c \<Rightarrow> k c)"

definition ensure_image_call :: "('r, 'v, 'i, 'k) gateway \<Rightarrow> string \<Rightarrow> string \<Rightarrow> ('k sbx_world, string \<times> bool) act" where
  "ensure_image_call G runtime base =
    with_client G (\<lambda>c.
    look InvalidArgument (\<lambda>_. resolve_runtime c runtime) (\<lambda>profile.
    if rt_derived profile \<and> base = '''' then refuse InvalidArgument ''base_image required''
    else wrapping Internal '''' (on_k (ensure_sandbox_image G profile base ''/workspace'')) give))"

record sandbox_request =
  sr_name :: string
  sr_org :: string
  sr_repo :: string
  sr_branch :: string
  sr_base :: string
  sr_workspace :: string
  sr_runtime :: string
  sr_env :: smap

definition may_launch :: "('r, 'v, 'i, 'k) gateway \<Rightarrow> principal option \<Rightarrow> sandbox_request \<Rightarrow> conn_err option" where
  "may_launch G ctx m =
    (if sr_name m = '''' then Some (ConnErr InvalidArgument ''name required'')
     else case require_authenticated ctx ''launching a sandbox'' of
       Some e \<Rightarrow> Some e
     | None \<Rightarrow>
         if sr_org m \<noteq> '''' \<or> sr_repo m \<noteq> ''''
         then require_repo_action (gw_central G) ctx (sr_org m) (sr_repo m) (ro_push (gw_central G))
                ''launching a repository sandbox''
         else None)"

definition launch_owner :: "('r, 'v, 'i, 'k) gateway \<Rightarrow> principal option \<Rightarrow> sandbox_request \<Rightarrow> int" where
  "launch_owner G ctx m =
    (if (sr_org m \<noteq> '''' \<or> sr_repo m \<noteq> '''') \<and> ce_repo_exists (gw_central G) (sr_org m) (sr_repo m)
     then ov_owner (gw_vcs G) (gw_v G) (sr_org m, sr_repo m) else user_id_of ctx)"

definition launch_spec :: "sandbox_request \<Rightarrow> runtime_profile \<Rightarrow> string \<Rightarrow> string \<Rightarrow> sandbox_spec" where
  "launch_spec m profile tag token =
    \<lparr> sp_name = sr_name m, sp_image = tag, sp_workspace = or_default (sr_workspace m) ''/workspace'',
      sp_env = AList.update ''WORKER_TOKEN'' token
                 (put_all (sr_env m) (put_all (case rt_env profile of Some e \<Rightarrow> e | None \<Rightarrow> []) [])),
      sp_command = [], sp_devices = (case rt_devices profile of Some d \<Rightarrow> d | None \<Rightarrow> []),
      sp_selector = (case rt_selector profile of Some d \<Rightarrow> d | None \<Rightarrow> []), sp_tun = rt_tun profile,
      sp_port = profile_port profile, sp_profile = Some profile, sp_worker_dir = '''', sp_no_service = False,
      sp_proxy = None, sp_no_proxy = False \<rparr>"

definition launch_row :: "sandbox_request \<Rightarrow> runtime_profile \<Rightarrow> string \<Rightarrow> string \<Rightarrow> int \<Rightarrow> sandbox_row" where
  "launch_row m profile tag token owner = blank_row\<lparr>
     sb_name := sr_name m, sb_org := sr_org m, sb_repo := sr_repo m, sb_branch := sr_branch m,
     sb_base := sr_base m, sb_derived := tag, sb_workspace := or_default (sr_workspace m) ''/workspace'',
     sb_runtime := rt_name profile, sb_token := token, sb_mode := ''managed'', sb_owner := owner \<rparr>"

definition row_to_info :: "sandbox_row \<Rightarrow> sandbox_info" where
  "row_to_info row = \<lparr> si_name = sb_name row, si_org = sb_org row, si_repo = sb_repo row, si_branch = sb_branch row,
     si_base = sb_base row, si_derived = sb_derived row, si_workspace = sb_workspace row, si_runtime = sb_runtime row,
     si_rev = sb_rev row, si_synced_boot = sb_boot row,
     si_owner = (if sb_owner row \<noteq> 0 then dec_int (sb_owner row) else ''''),
     si_ip = '''', si_phase = '''', si_boot = '''', si_total = 0, si_running = 0, si_error = '''' \<rparr>"

definition add_status :: "('r, 'v, 'i, 'k) gateway \<Rightarrow> 'k \<Rightarrow> sandbox_info \<Rightarrow> sandbox_info" where
  "add_status G k info =
    (case gw_client G of
       None \<Rightarrow> info
     | Some c \<Rightarrow>
         (case ka_pod (gw_kube G) k (si_name info) of
            Inl _ \<Rightarrow> info\<lparr> si_phase := ''stopped'' \<rparr>
          | Inr p \<Rightarrow> let st = pod_view c (si_name info) p in
              info\<lparr> si_ip := st_ip st, si_phase := (if st_ready st then ''Running'' else st_phase st) \<rparr>))"

definition add_worker :: "('r, 'v, 'i, 'k) gateway \<Rightarrow> 'k sbx_world \<Rightarrow> sandbox_info \<Rightarrow> sandbox_info" where
  "add_worker G w info =
    (case worker_client G (si_name info) w of
       Inl _ \<Rightarrow> info
     | Inr (base, tok) \<Rightarrow>
         if base = '''' then info
         else
           let booted = (case wk_info (gw_worker G) base tok (sw_ext w) of
                 Inl _ \<Rightarrow> info | Inr b \<Rightarrow> info\<lparr> si_boot := b \<rparr>) in
           case wk_jobs (gw_worker G) base tok (sw_ext w) of
             Inl _ \<Rightarrow> booted
           | Inr states \<Rightarrow> booted\<lparr> si_total := int32_of (int (length states)),
                                 si_running := int32_of (int (length (filter (\<lambda>s. s = ''running'') states))) \<rparr>)"

definition sandbox_info_of :: "('r, 'v, 'i, 'k) gateway \<Rightarrow> string \<Rightarrow> 'k sbx_world \<Rightarrow> string + sandbox_info" where
  "sandbox_info_of G name w =
    (case row_of G name w of
       Inl e \<Rightarrow> Inl e
     | Inr None \<Rightarrow> Inl (''sandbox '' @ go_quote name @ '' not registered'')
     | Inr (Some row) \<Rightarrow> Inr (add_worker G w (add_status G (sw_ext w) (row_to_info row))))"

definition launch_sandbox :: "('r, 'v, 'i, 'k) gateway \<Rightarrow> principal option \<Rightarrow> sandbox_request
    \<Rightarrow> ('k sbx_world, sandbox_info) act" where
  "launch_sandbox G ctx m =
    demand (\<lambda>_. may_launch G ctx m) (
    with_client G (\<lambda>c.
    look InvalidArgument (\<lambda>_. resolve_runtime c (sr_runtime m)) (\<lambda>profile.
    if rt_derived profile \<and> sr_base m = '''' then refuse InvalidArgument ''base_image required''
    else
      let workspace = or_default (sr_workspace m) ''/workspace'' in
      wrapping Internal ''ensure image: '' (on_k (ensure_sandbox_image G profile (sr_base m) workspace)) (\<lambda>(tag, _).
      wrapping Internal ''mint sandbox token: '' (on_k (api (wk_random (gw_worker G)))) (\<lambda>token.
      wrapping Internal ''launch: '' (on_k (kube_launch_sandbox (gw_kube G) c (launch_spec m profile tag token))) (\<lambda>_.
      attempt (on_k (wait_sandbox_ready (gw_kube G) c (sr_name m) (profile_port profile)
                 (ready_timeout (ka_parse_duration (gw_kube G)) profile))) (\<lambda>ready.
      case ready of
        Inl e \<Rightarrow> alter (\<lambda>w. w\<lparr> sw_ext := snd (kube_delete_sandbox (gw_kube G) (sr_name m) (sw_ext w)) \<rparr>)
                   (refuse Internal (''worker did not become healthy on '' @ sr_name m @ '': '' @ conn_text e))
      | Inr _ \<Rightarrow>
          wrapping Internal ''registry: ''
            (db_write G DbUpsert (\<lambda>now. sbx_upsert now (launch_row m profile tag token (launch_owner G ctx m)))) (\<lambda>_.
          wrapping Internal ''sync: ''
            (if sr_org m \<noteq> '''' \<and> sr_repo m \<noteq> '''' \<and> sr_branch m \<noteq> ''''
             then sync_sandbox_workspace G (sr_name m) (sr_org m, sr_repo m) (sr_branch m) else give ()) (\<lambda>_.
          look Internal (sandbox_info_of G (sr_name m)) give)))))))))"

definition sync_workspace :: "('r, 'v, 'i, 'k) gateway \<Rightarrow> principal option \<Rightarrow> string \<Rightarrow> string \<Rightarrow> string \<Rightarrow> string
    \<Rightarrow> string \<Rightarrow> ('k sbx_world, string) act" where
  "sync_workspace G ctx sandbox org repo branch rv =
    (if sandbox = '''' \<or> org = '''' \<or> repo = '''' \<or> rv = '''' then refuse InvalidArgument ''sandbox/org/repo/rev required''
     else after (require_sandbox_access G ctx sandbox) (\<lambda>_.
          wrapping Internal '''' (sync_sandbox_workspace G sandbox (org, repo) branch) (\<lambda>_.
          peek (row_of G sandbox) (\<lambda>found.
          give (case found of Inr (Some row) \<Rightarrow> sb_rev row | _ \<Rightarrow> '''')))))"

datatype delete_answer = Deleted | DeleteError string

definition delete_sandbox :: "('r, 'v, 'i, 'k) gateway \<Rightarrow> principal option \<Rightarrow> string \<Rightarrow> ('k sbx_world, delete_answer) act" where
  "delete_sandbox G ctx name =
    after (require_sandbox_access G ctx name) (\<lambda>_.
    attempt (if gw_client G = None then give () else on_k (kube_delete_sandbox (gw_kube G) name)) (\<lambda>r.
    case r of
      Inl e \<Rightarrow> give (DeleteError (conn_text e))
    | Inr _ \<Rightarrow> attempt (db_write G DbDelete (\<lambda>_. sbx_delete name)) (\<lambda>_. give Deleted)))"

section \<open>Observation\<close>

definition cache_ttl :: int where
  "cache_ttl = 5000"

definition cache_key :: "principal option \<Rightarrow> string" where
  "cache_key ctx = dec_int (pl_user (principal_of ctx)) @ '':'' @ (if pl_admin (principal_of ctx) then ''true'' else ''false'')"

definition cached_list :: "('r, 'v, 'i, 'k) gateway \<Rightarrow> principal option \<Rightarrow> 'k sbx_world \<Rightarrow> sandbox_info list option" where
  "cached_list G ctx w =
    (case map_of (sw_cache w) (cache_key ctx) of
       Some (at, infos) \<Rightarrow> if gw_now G (sw_ext w) - at < cache_ttl then Some infos else None
     | None \<Rightarrow> None)"

definition rows_for :: "('r, 'v, 'i, 'k) gateway \<Rightarrow> principal option \<Rightarrow> bool \<Rightarrow> 'k sbx_world \<Rightarrow> string + sandbox_row list" where
  "rows_for G ctx unowned w =
    (case gw_fails G DbList (sw_ext w) of
       Some e \<Rightarrow> Inl e
     | None \<Rightarrow>
         Inr (if pl_admin (principal_of ctx) then sbx_list (sw_rows w)
              else sbx_list_by_owner (pl_user (principal_of ctx)) unowned (sw_rows w)))"

definition row_visible :: "'r central \<Rightarrow> principal option \<Rightarrow> sandbox_row \<Rightarrow> bool" where
  "row_visible cs ctx row =
    (if sb_owner row = 0 \<and> \<not> pl_admin (principal_of ctx)
     then \<not> (sb_org row = '''' \<and> sb_repo row = '''') \<and> can_read_repo cs ctx (sb_org row) (sb_repo row)
     else True)"

definition listed_info :: "('r, 'v, 'i, 'k) gateway \<Rightarrow> 'k sbx_world \<Rightarrow> sandbox_row \<Rightarrow> sandbox_info" where
  "listed_info G w row =
    (case sandbox_info_of G (sb_name row) w of
       Inr info \<Rightarrow> info
     | Inl e \<Rightarrow> (row_to_info row)\<lparr> si_error := e \<rparr>)"

definition list_sandboxes :: "('r, 'v, 'i, 'k) gateway \<Rightarrow> principal option \<Rightarrow> ('k sbx_world, sandbox_info list) act" where
  "list_sandboxes G ctx =
    peek (cached_list G ctx) (\<lambda>hit. case hit of
      Some infos \<Rightarrow> give infos
    | None \<Rightarrow>
        look Internal (rows_for G ctx True) (\<lambda>rows.
        peek (\<lambda>w. map (listed_info G w) (filter (row_visible (gw_central G) ctx) rows)) (\<lambda>infos.
        alter (\<lambda>w. w\<lparr> sw_cache := AList.update (cache_key ctx) (gw_now G (sw_ext w), infos) (sw_cache w) \<rparr>)
          (give infos))))"

definition get_sandbox :: "('r, 'v, 'i, 'k) gateway \<Rightarrow> principal option \<Rightarrow> string \<Rightarrow> ('k sbx_world, sandbox_info) act" where
  "get_sandbox G ctx name =
    after (require_sandbox_access G ctx name) (\<lambda>_. look NotFound (sandbox_info_of G name) give)"

section \<open>Calls passed on to the worker\<close>

text \<open>
  Bodies of the worker's protocol are texts; the listing of jobs is a list of job texts, cut to the
  limit.  A watched job is the messages sent on and the error the stream ended with.
\<close>

definition worker_call :: "('r, 'v, 'i, 'k) gateway \<Rightarrow> string \<Rightarrow> string \<Rightarrow> string \<Rightarrow> string \<Rightarrow> ('k, string) act" where
  "worker_call G base tok method body k =
    (case wk_call (gw_worker G) base tok method body k of
       (Inl e, k') \<Rightarrow> (Fail e, k')
     | (Inr r, k') \<Rightarrow> (Done r, k'))"

definition with_worker :: "('r, 'v, 'i, 'k) gateway \<Rightarrow> principal option \<Rightarrow> string
    \<Rightarrow> (string \<Rightarrow> string \<Rightarrow> ('k sbx_world, 'a) act) \<Rightarrow> ('k sbx_world, 'a) act" where
  "with_worker G ctx name k =
    after (require_sandbox_access G ctx name) (\<lambda>_.
    look Unavailable (worker_client G name) (\<lambda>(base, tok). k base tok))"

definition pass_on :: "('r, 'v, 'i, 'k) gateway \<Rightarrow> string \<Rightarrow> principal option \<Rightarrow> string \<Rightarrow> string \<Rightarrow> ('k sbx_world, string) act" where
  "pass_on G method ctx name body = with_worker G ctx name (\<lambda>base tok. on_k (worker_call G base tok method body))"

definition sbx_execute :: "('r, 'v, 'i, 'k) gateway \<Rightarrow> principal option \<Rightarrow> string \<Rightarrow> string \<Rightarrow> ('k sbx_world, string) act" where
  "sbx_execute G = pass_on G ''Execute''"

definition sbx_job_output :: "('r, 'v, 'i, 'k) gateway \<Rightarrow> principal option \<Rightarrow> string \<Rightarrow> string \<Rightarrow> ('k sbx_world, string) act" where
  "sbx_job_output G = pass_on G ''JobOutput''"

definition sbx_job_wait :: "('r, 'v, 'i, 'k) gateway \<Rightarrow> principal option \<Rightarrow> string \<Rightarrow> string \<Rightarrow> ('k sbx_world, string) act" where
  "sbx_job_wait G = pass_on G ''JobWait''"

definition sbx_job_stdin :: "('r, 'v, 'i, 'k) gateway \<Rightarrow> principal option \<Rightarrow> string \<Rightarrow> string \<Rightarrow> ('k sbx_world, string) act" where
  "sbx_job_stdin G = pass_on G ''JobStdin''"

definition sbx_job_kill :: "('r, 'v, 'i, 'k) gateway \<Rightarrow> principal option \<Rightarrow> string \<Rightarrow> string \<Rightarrow> ('k sbx_world, string) act" where
  "sbx_job_kill G = pass_on G ''JobKill''"

definition sbx_file_read :: "('r, 'v, 'i, 'k) gateway \<Rightarrow> principal option \<Rightarrow> string \<Rightarrow> string \<Rightarrow> ('k sbx_world, string) act" where
  "sbx_file_read G = pass_on G ''FileRead''"

definition sbx_file_write :: "('r, 'v, 'i, 'k) gateway \<Rightarrow> principal option \<Rightarrow> string \<Rightarrow> string \<Rightarrow> ('k sbx_world, string) act" where
  "sbx_file_write G = pass_on G ''FileWrite''"

definition sbx_file_list :: "('r, 'v, 'i, 'k) gateway \<Rightarrow> principal option \<Rightarrow> string \<Rightarrow> string \<Rightarrow> ('k sbx_world, string) act" where
  "sbx_file_list G = pass_on G ''FileList''"

definition sbx_list_jobs :: "('r, 'v, 'i, 'k) gateway \<Rightarrow> principal option \<Rightarrow> string \<Rightarrow> int \<Rightarrow> ('k sbx_world, string list) act" where
  "sbx_list_jobs G ctx name limit =
    with_worker G ctx name (\<lambda>base tok.
    look OtherCode (\<lambda>w. wk_jobs (gw_worker G) base tok (sw_ext w)) (\<lambda>jobs.
    give (if limit > 0 \<and> limit < int (length jobs) then take (nat limit) jobs else jobs)))"

definition sbx_watch_job :: "('r, 'v, 'i, 'k) gateway \<Rightarrow> principal option \<Rightarrow> string \<Rightarrow> string
    \<Rightarrow> ('k sbx_world, watch_event list \<times> string option) act" where
  "sbx_watch_job G ctx name job =
    with_worker G ctx name (\<lambda>base tok. on_k (api (wk_watch (gw_worker G) base tok job)))"

section \<open>External workers\<close>

record external_request =
  er_name :: string
  er_addr :: string
  er_code :: string
  er_token :: string
  er_owner :: string
  er_org :: string
  er_repo :: string
  er_branch :: string

definition claim_worker :: "('r, 'v, 'i, 'k) gateway \<Rightarrow> external_request \<Rightarrow> string \<Rightarrow> ('k, string) act" where
  "claim_worker G m base =
    (if er_token m \<noteq> '''' then give (er_token m)
     else (\<lambda>k. case wk_claim (gw_worker G) base (er_code m) (er_owner m) k of
             (Inr tok, k') \<Rightarrow> (Done tok, k')
           | (Inl e, k') \<Rightarrow>
               (Fail (if code_of e = AlreadyExists
                      then ConnErr AlreadyExists (''worker '' @ er_name m @ '' already claimed by another caller'')
                      else ConnErr Unauthenticated (''enroll '' @ er_name m @ '': '' @ conn_text e)), k')))"

definition external_row :: "principal option \<Rightarrow> external_request \<Rightarrow> string \<Rightarrow> string \<Rightarrow> string \<Rightarrow> sandbox_row" where
  "external_row ctx m base token boot = blank_row\<lparr>
     sb_name := er_name m, sb_org := er_org m, sb_repo := er_repo m, sb_branch := er_branch m,
     sb_token := token, sb_mode := ''external'', sb_addr := base, sb_owner_id := er_owner m,
     sb_owner := user_id_of ctx, sb_boot := boot \<rparr>"

definition register_external :: "('r, 'v, 'i, 'k) gateway \<Rightarrow> principal option \<Rightarrow> external_request \<Rightarrow> ('k sbx_world, string) act" where
  "register_external G ctx m =
    (if er_name m = '''' \<or> er_addr m = '''' then refuse InvalidArgument ''name and addr required''
     else if er_code m = '''' \<and> er_token m = '''' then refuse InvalidArgument ''code or token required''
     else
       let base = trim_suffix ''/'' (er_addr m) in
       after (on_k (claim_worker G m base)) (\<lambda>token.
       if token = '''' then refuse Internal (''worker '' @ er_name m @ '' returned no token'')
       else wrapping Unauthenticated (''verify '' @ er_name m @ '': '') (on_k (ask (wk_info (gw_worker G) base token))) (\<lambda>boot.
            demand (\<lambda>_. require_authenticated ctx ''registering an external sandbox'') (
            wrapping Internal ''registry: ''
              (db_write G DbUpsert (\<lambda>now. sbx_upsert now (external_row ctx m base token boot))) (\<lambda>_.
            give token)))))"

record external_info =
  ei_name :: string
  ei_addr :: string
  ei_org :: string
  ei_repo :: string
  ei_branch :: string
  ei_owner :: string
  ei_rev :: string
  ei_boot :: string
  ei_reachable :: bool
  ei_error :: string

definition external_view :: "sandbox_row \<Rightarrow> external_info" where
  "external_view row = \<lparr> ei_name = sb_name row, ei_addr = sb_addr row, ei_org = sb_org row, ei_repo = sb_repo row,
     ei_branch = sb_branch row, ei_owner = sb_owner_id row, ei_rev = sb_rev row, ei_boot = sb_boot row,
     ei_reachable = False, ei_error = '''' \<rparr>"

definition probe_external :: "('r, 'v, 'i, 'k) gateway \<Rightarrow> 'k sbx_world \<Rightarrow> sandbox_row \<Rightarrow> external_info" where
  "probe_external G w row =
    (if sb_addr row \<noteq> '''' \<and> sb_token row \<noteq> '''' then
       (case wk_info (gw_worker G) (trim_suffix ''/'' (sb_addr row)) (sb_token row) (sw_ext w) of
          Inr _ \<Rightarrow> (external_view row)\<lparr> ei_reachable := True \<rparr>
        | Inl e \<Rightarrow> (external_view row)\<lparr> ei_error := e \<rparr>)
     else external_view row)"

definition list_external :: "('r, 'v, 'i, 'k) gateway \<Rightarrow> principal option \<Rightarrow> ('k sbx_world, external_info list) act" where
  "list_external G ctx =
    look Internal (rows_for G ctx False) (\<lambda>rows.
    peek (\<lambda>w. map (probe_external G w) (filter (\<lambda>r. sb_mode r = ''external'') rows)) give)"

datatype release_answer = UnknownSandbox | Released string

definition release_external :: "('r, 'v, 'i, 'k) gateway \<Rightarrow> principal option \<Rightarrow> string \<Rightarrow> ('k sbx_world, release_answer) act" where
  "release_external G ctx name =
    (if name = '''' then refuse InvalidArgument ''name required''
     else look Internal (row_of G name) (\<lambda>found. case found of
       None \<Rightarrow> give UnknownSandbox
     | Some row \<Rightarrow>
         if sb_mode row \<noteq> ''external'' then
           refuse FailedPrecondition (''sandbox '' @ name @ '' is managed (mode='' @ go_quote (sb_mode row)
             @ ''); only external sandboxes can be released'')
         else if sb_addr row = '''' \<or> sb_token row = '''' then
           refuse FailedPrecondition (''sandbox '' @ name @ '' has no addr/token'')
         else
           wrapping Internal (''release worker '' @ name @ '': '')
             (on_k (api (wk_release (gw_worker G) (trim_suffix ''/'' (sb_addr row)) (sb_token row) (sb_owner_id row)))) (\<lambda>code.
           wrapping Internal '''' (db_write G DbDelete (\<lambda>_. sbx_delete name)) (\<lambda>_.
           give (Released code)))))"

end
