(* ===== verification/Sandboxes_Correct.thy ===== *)
theory Sandboxes_Correct
imports Sandboxes
begin

text \<open>
  What the sandbox API guarantees: who reaches a sandbox, what a synchronisation leaves behind,
  which sandboxes a caller sees, and who owns a name after a launch or a registration.
\<close>


section \<open>Who reaches a sandbox\<close>

datatype sandbox_call =
    SbxExecute string string | SbxListJobs string int | SbxJobOutput string string | SbxWatchJob string string
  | SbxJobWait string string | SbxJobStdin string string | SbxJobKill string string | SbxFileRead string string
  | SbxFileWrite string string | SbxFileList string string | SbxGet string | SbxDelete string
  | SbxSync string string string string string

fun call_target :: "sandbox_call \<Rightarrow> string" where
  "call_target (SbxExecute n b) = n" | "call_target (SbxListJobs n i) = n" | "call_target (SbxJobOutput n b) = n"
| "call_target (SbxWatchJob n b) = n" | "call_target (SbxJobWait n b) = n" | "call_target (SbxJobStdin n b) = n"
| "call_target (SbxJobKill n b) = n" | "call_target (SbxFileRead n b) = n" | "call_target (SbxFileWrite n b) = n"
| "call_target (SbxFileList n b) = n" | "call_target (SbxGet n) = n" | "call_target (SbxDelete n) = n"
| "call_target (SbxSync n o' r b v) = n"

fun run_sandbox :: "('r, 'v, 'i, 'k) gateway \<Rightarrow> principal option \<Rightarrow> sandbox_call \<Rightarrow> ('k sbx_world, unit) act" where
  "run_sandbox G ctx (SbxExecute n b) = ignored (sbx_execute G ctx n b)"
| "run_sandbox G ctx (SbxListJobs n i) = ignored (sbx_list_jobs G ctx n i)"
| "run_sandbox G ctx (SbxJobOutput n b) = ignored (sbx_job_output G ctx n b)"
| "run_sandbox G ctx (SbxWatchJob n b) = ignored (sbx_watch_job G ctx n b)"
| "run_sandbox G ctx (SbxJobWait n b) = ignored (sbx_job_wait G ctx n b)"
| "run_sandbox G ctx (SbxJobStdin n b) = ignored (sbx_job_stdin G ctx n b)"
| "run_sandbox G ctx (SbxJobKill n b) = ignored (sbx_job_kill G ctx n b)"
| "run_sandbox G ctx (SbxFileRead n b) = ignored (sbx_file_read G ctx n b)"
| "run_sandbox G ctx (SbxFileWrite n b) = ignored (sbx_file_write G ctx n b)"
| "run_sandbox G ctx (SbxFileList n b) = ignored (sbx_file_list G ctx n b)"
| "run_sandbox G ctx (SbxGet n) = ignored (get_sandbox G ctx n)"
| "run_sandbox G ctx (SbxDelete n) = ignored (delete_sandbox G ctx n)"
| "run_sandbox G ctx (SbxSync n o' r b v) = ignored (sync_workspace G ctx n o' r b v)"

definition reaches :: "('r, 'v, 'i, 'k) gateway \<Rightarrow> principal option \<Rightarrow> string \<Rightarrow> 'k sbx_world \<Rightarrow> bool" where
  "reaches G ctx name w \<longleftrightarrow>
    (case sbx_get (sw_rows w) name of Some row \<Rightarrow> sandbox_refusal (gw_central G) ctx row = None | None \<Rightarrow> False)"

lemma access_cases:
  "(\<exists>row. sbx_get (sw_rows w) name = Some row \<and> sandbox_refusal (gw_central G) ctx row = None
      \<and> require_sandbox_access G ctx name w = (Done row, w))
    \<or> (\<exists>e. require_sandbox_access G ctx name w = (Fail e, w))"
  by (auto simp: require_sandbox_access_def row_of_def act_defs split: option.split)

definition stops_at_access :: "('r, 'v, 'i, 'k) gateway \<Rightarrow> principal option \<Rightarrow> string \<Rightarrow> ('k sbx_world, 'a) act \<Rightarrow> bool" where
  "stops_at_access G ctx name m \<longleftrightarrow> (\<forall>w. reaches G ctx name w \<or> (\<exists>e. m w = (Fail e, w)))"

lemma stops_after_access: "stops_at_access G ctx name (after (require_sandbox_access G ctx name) k)"
  unfolding stops_at_access_def reaches_def
proof
  fix w
  show "(case sbx_get (sw_rows w) name of Some row \<Rightarrow> sandbox_refusal (gw_central G) ctx row = None | None \<Rightarrow> False)
    \<or> (\<exists>e. after (require_sandbox_access G ctx name) k w = (Fail e, w))"
    using access_cases[of w name G ctx] by (auto simp: after_def attempt_def flunk_def)
qed

lemma stops_ignored: "stops_at_access G ctx name m \<Longrightarrow> stops_at_access G ctx name (ignored m)"
  unfolding stops_at_access_def ignored_def by (fastforce simp: after_def attempt_def flunk_def)

lemma stops_if: "stops_at_access G ctx name m \<Longrightarrow> stops_at_access G ctx name (if b then refuse c t else m)"
  unfolding stops_at_access_def by (simp add: refuse_def)

text \<open>
  C24: Whoever runs something in a sandbox, reads or writes its files, inspects, synchronises or
  deletes it, and gets an answer or changes anything, is an administrator or the sandbox's owner, or
  may read the repository of a sandbox without owner; every other call fails and changes nothing.
\<close>
theorem sandbox_calls_guarded:
  assumes "run_sandbox G ctx call w = (r, w')" "r = Done () \<or> w' \<noteq> w"
  shows "\<exists>row. sbx_get (sw_rows w) (call_target call) = Some row
    \<and> (pl_admin (principal_of ctx)
       \<or> (sb_owner row \<noteq> 0 \<and> pl_user (principal_of ctx) = sb_owner row)
       \<or> (sb_owner row = 0 \<and> (sb_org row \<noteq> '''' \<or> sb_repo row \<noteq> '''')
          \<and> can_read_repo (gw_central G) ctx (sb_org row) (sb_repo row)))"
proof -
  have "stops_at_access G ctx (call_target call) (run_sandbox G ctx call)"
    by (cases call)
      (simp_all only: run_sandbox.simps call_target.simps sbx_execute_def sbx_list_jobs_def sbx_job_output_def
        sbx_watch_job_def sbx_job_wait_def sbx_job_stdin_def sbx_job_kill_def sbx_file_read_def sbx_file_write_def
        sbx_file_list_def pass_on_def with_worker_def get_sandbox_def delete_sandbox_def sync_workspace_def
        stops_ignored stops_if stops_after_access)
  then have "reaches G ctx (call_target call) w" using assms unfolding stops_at_access_def by fastforce
  then show ?thesis
    by (auto simp: reaches_def sandbox_refusal_def Let_def split: option.splits if_splits)
qed

section \<open>Which sandboxes a caller sees\<close>

lemma info_name: "si_name (listed_info G w row) = sb_name row"
proof -
  have a: "si_name (add_status G k i) = si_name i" for k i
    by (simp add: add_status_def Let_def split: option.split sum.split)
  have b: "si_name (add_worker G w i) = si_name i" for i
    by (auto simp: add_worker_def Let_def split: sum.split prod.split)
  show ?thesis
    by (auto simp: listed_info_def sandbox_info_of_def row_of_def a b row_to_info_def dest: sbx_get_name split: sum.split option.split)
qed

lemma visible_rows:
  assumes "rows_for G ctx True w = Inr rows"
  shows "filter (row_visible (gw_central G) ctx) rows =
    filter (\<lambda>r. sandbox_refusal (gw_central G) ctx r = None) (newest_first (sw_rows w))"
proof (cases "pl_admin (principal_of ctx)")
  case True
  then show ?thesis using assms
    by (auto simp: rows_for_def sbx_list_def row_visible_def sandbox_refusal_def Let_def split: option.splits)
next
  case False
  let ?u = "pl_user (principal_of ctx)"
  have "rows = filter (\<lambda>r. sb_owner r = ?u \<or> sb_owner r = 0) (newest_first (sw_rows w))"
    using assms False
    by (auto simp: rows_for_def sbx_list_by_owner_def newest_first_def filter_sort split: option.splits)
  then show ?thesis using False
    by (auto simp: row_visible_def sandbox_refusal_def Let_def intro!: filter_cong)
qed

text \<open>
  A fresh listing holds exactly the sandboxes the caller may reach, newest first: the filter of
  the listing and the access check of every other call agree.  A repeated listing by the same user
  within five seconds is the earlier answer, whatever happened since.
\<close>
lemma listing_matches_access:
  shows "case cached_list G ctx w of
      Some infos \<Rightarrow> list_sandboxes G ctx w = (Done infos, w)
    | None \<Rightarrow>
        (case list_sandboxes G ctx w of
           (Done infos, w') \<Rightarrow>
             map si_name infos =
               map sb_name (filter (\<lambda>r. sandbox_refusal (gw_central G) ctx r = None) (newest_first (sw_rows w)))
             \<and> sw_rows w' = sw_rows w \<and> cached_list G ctx w' = Some infos
             \<and> list_sandboxes G ctx w' = (Done infos, w')
         | (Fail e, w') \<Rightarrow> w' = w \<and> gw_fails G DbList (sw_ext w) \<noteq> None
         | _ \<Rightarrow> False)"
proof (cases "cached_list G ctx w")
  case (Some infos)
  then show ?thesis by (simp add: list_sandboxes_def act_defs)
next
  case None
  note hit = this
  show ?thesis
  proof (cases "rows_for G ctx True w")
    case (Inl e)
    then have "gw_fails G DbList (sw_ext w) \<noteq> None" by (auto simp: rows_for_def split: option.splits)
    with Inl None show ?thesis by (simp add: list_sandboxes_def act_defs)
  next
    case (Inr rows)
    define infos where "infos = map (listed_info G w) (filter (row_visible (gw_central G) ctx) rows)"
    define w' where "w' = w\<lparr> sw_cache := AList.update (cache_key ctx) (gw_now G (sw_ext w), infos) (sw_cache w) \<rparr>"
    have l: "list_sandboxes G ctx w = (Done infos, w')"
      by (simp add: list_sandboxes_def act_defs hit Inr infos_def w'_def)
    have n: "map si_name infos = map sb_name (filter (row_visible (gw_central G) ctx) rows)"
      by (simp add: infos_def info_name comp_def)
    have c: "cached_list G ctx w' = Some infos"
      by (simp add: cached_list_def w'_def update_conv' cache_ttl_def)
    have "list_sandboxes G ctx w' = (Done infos, w')"
      using c by (simp add: list_sandboxes_def act_defs)
    moreover have "sw_rows w' = sw_rows w" by (simp add: w'_def)
    ultimately show ?thesis using hit l n c visible_rows[OF Inr] by simp
  qed
qed

section \<open>Synchronisation\<close>

lemma sync_cases:
  assumes "sync_sandbox_workspace G name rp branch w = (r, w')"
  shows "case r of
      Done _ \<Rightarrow> (\<exists>tree tar. export_workspace (gw_vcs G) (gw_v G) rp branch = Some (Inr (tree, tar))
        \<and> (if already_synced G name tree (worker_boot_id G name w) w then w' = w
           else \<exists>base tok k. worker_client G name w = Inr (base, tok)
             \<and> wk_sync (gw_worker G) base tok (gw_bytes G tar) tree (sw_ext w) = (Inr (), k)
             \<and> w' = w\<lparr> sw_ext := k,
                        sw_rows := sbx_mark_synced (gw_now G k) name tree (worker_boot_id G name w) (sw_rows w) \<rparr>))
    | _ \<Rightarrow> sw_rows w' = sw_rows w"
proof (cases "gw_client G = None")
  case True
  then show ?thesis using assms by (auto simp: sync_sandbox_workspace_def plain_def refuse_def)
next
  case False
  note c = this
  consider "export_workspace (gw_vcs G) (gw_v G) rp branch = None"
    | e where "export_workspace (gw_vcs G) (gw_v G) rp branch = Some (Inl e)"
    | tree tar where "export_workspace (gw_vcs G) (gw_v G) rp branch = Some (Inr (tree, tar))"
    by (metis option.exhaust old.sum.exhaust prod.exhaust)
  then show ?thesis
  proof cases
    case 3
    let ?boot = "worker_boot_id G name w"
    show ?thesis
    proof (cases "already_synced G name tree ?boot w")
      case True
      then have "r = Done () \<and> w' = w" using assms c 3 by (auto simp: sync_sandbox_workspace_def act_defs)
      with 3 True show ?thesis by auto
    next
      case False
      show ?thesis
      proof (cases "worker_client G name w")
        case (Inl e)
        then show ?thesis using assms c 3 False by (auto simp: sync_sandbox_workspace_def act_defs)
      next
        case (Inr bt)
        obtain base tok where bt: "bt = (base, tok)" by (cases bt)
        obtain s k where s: "wk_sync (gw_worker G) base tok (gw_bytes G tar) tree (sw_ext w) = (s, k)" by (metis prod.collapse)
        have "case r of
            Done _ \<Rightarrow> \<exists>base tok k. worker_client G name w = Inr (base, tok)
             \<and> wk_sync (gw_worker G) base tok (gw_bytes G tar) tree (sw_ext w) = (Inr (), k)
             \<and> w' = w\<lparr> sw_ext := k,
                        sw_rows := sbx_mark_synced (gw_now G k) name tree (worker_boot_id G name w) (sw_rows w) \<rparr>
          | _ \<Rightarrow> sw_rows w' = sw_rows w"
          using assms c 3 False Inr bt s
          by (cases s) (auto simp: sync_sandbox_workspace_def act_defs on_k_def api_def db_write_def split: option.splits)
        then show ?thesis using 3 False by (cases r) simp_all
      qed
    qed
  qed (use assms c in \<open>auto simp: sync_sandbox_workspace_def act_defs\<close>)
qed

lemma boot_after_mark:
  assumes "w' = w\<lparr> sw_ext := k, sw_rows := sbx_mark_synced t name tree b (sw_rows w) \<rparr>"
    "gw_fails G DbGet (sw_ext w) = None" "gw_fails G DbGet k = None"
  shows "worker_client G name w' = worker_client G name w"
  using assms by (auto simp: worker_client_def worker_addr_def worker_bearer_def row_of_def sbx_simps Let_def
      split: option.split sum.split)

text \<open>
  A successful synchronisation either found the branch's tree and the worker's boot already
  recorded and did nothing, or sent exactly the branch's tree and recorded it with the boot it had
  asked for before.  Repeating it while the branch and the worker stay changes nothing; but if the
  worker's boot could not be read, the next one always sends the tree again, which wipes the
  workspace.  A failed synchronisation records nothing.
\<close>
lemma sync_spec:
  assumes "sync_sandbox_workspace G name rp branch w = (r, w')" "sbx_get (sw_rows w) name \<noteq> None"
    "\<And>k. gw_fails G DbGet k = None"
  shows "case r of
      Done _ \<Rightarrow>
        (\<exists>tree tar. export_workspace (gw_vcs G) (gw_v G) rp branch = Some (Inr (tree, tar))
          \<and> (w' = w \<or> (\<exists>base tok k. worker_client G name w = Inr (base, tok)
               \<and> wk_sync (gw_worker G) base tok (gw_bytes G tar) tree (sw_ext w) = (Inr (), k) \<and> sw_ext w' = k
               \<and> map_option (\<lambda>row. (sb_rev row, sb_boot row)) (sbx_get (sw_rows w') name) = Some (tree, worker_boot_id G name w)))
          \<and> (\<forall>n. n \<noteq> name \<longrightarrow> sbx_get (sw_rows w') n = sbx_get (sw_rows w) n)
          \<and> (worker_boot_id G name w' = worker_boot_id G name w \<and> worker_boot_id G name w \<noteq> '''' \<longrightarrow>
               sync_sandbox_workspace G name rp branch w' = (Done (), w'))
          \<and> (worker_boot_id G name w = '''' \<longrightarrow> \<not> already_synced G name tree (worker_boot_id G name w') w'))
    | _ \<Rightarrow> sw_rows w' = sw_rows w"
proof (cases "\<exists>u. r = Done u")
  case False
  then show ?thesis using sync_cases[OF assms(1)] by (auto split: reply.splits)
next
  case True
  obtain tree tar where e: "export_workspace (gw_vcs G) (gw_v G) rp branch = Some (Inr (tree, tar))"
    and d: "if already_synced G name tree (worker_boot_id G name w) w then w' = w
           else \<exists>base tok k. worker_client G name w = Inr (base, tok)
             \<and> wk_sync (gw_worker G) base tok (gw_bytes G tar) tree (sw_ext w) = (Inr (), k)
             \<and> w' = w\<lparr> sw_ext := k,
                        sw_rows := sbx_mark_synced (gw_now G k) name tree (worker_boot_id G name w) (sw_rows w) \<rparr>"
    using sync_cases[OF assms(1)] True by auto
  have c: "gw_client G \<noteq> None"
    by (rule notI) (use assms(1) True in \<open>auto simp: sync_sandbox_workspace_def plain_def refuse_def\<close>)
  have again: "sync_sandbox_workspace G name rp branch v = (Done (), v)"
    if "already_synced G name tree (worker_boot_id G name v) v" for v
    using that e c by (auto simp: sync_sandbox_workspace_def act_defs)
  show ?thesis
  proof (cases "already_synced G name tree (worker_boot_id G name w) w")
    case yes: True
    then have "w' = w" using d by simp
    moreover have "worker_boot_id G name w \<noteq> ''''"
      using yes by (auto simp: already_synced_def split: sum.splits option.splits)
    ultimately show ?thesis using True e again yes by auto
  next
    case no: False
    then obtain base tok k where k: "worker_client G name w = Inr (base, tok)"
      "wk_sync (gw_worker G) base tok (gw_bytes G tar) tree (sw_ext w) = (Inr (), k)"
      and w': "w' = w\<lparr> sw_ext := k,
                        sw_rows := sbx_mark_synced (gw_now G k) name tree (worker_boot_id G name w) (sw_rows w) \<rparr>"
      using d by auto
    obtain row where row: "sbx_get (sw_rows w) name = Some row" using assms(2) by auto
    have m: "sbx_get (sw_rows w') name =
        Some (row\<lparr> sb_rev := tree, sb_boot := worker_boot_id G name w, sb_updated := gw_now G k \<rparr>)"
      by (simp add: w' sbx_simps row)
    have o': "n \<noteq> name \<Longrightarrow> sbx_get (sw_rows w') n = sbx_get (sw_rows w) n" for n
      by (simp add: w' sbx_simps option.map_ident)
    have a: "already_synced G name tree b w' = (worker_boot_id G name w \<noteq> '''' \<and> worker_boot_id G name w = b)" for b
      using m assms(3) by (simp add: already_synced_def row_of_def)
    have "sw_ext w' = k" by (simp add: w')
    then show ?thesis using True e k m o' a again by auto
  qed
qed

section \<open>Who owns a name\<close>

text \<open>
  Registering an external worker under a name takes that name, whoever held it: when it succeeds
  the row names the new worker, its token and the caller as owner, and the caller may reach the
  sandbox; no check looks at the row's former owner.  When it fails, the table is as it was.
\<close>
lemma registration_takes_over:
  assumes "register_external G ctx m w = (r, w')" "pl_user (principal_of ctx) \<noteq> 0"
  shows "case r of
      Done token \<Rightarrow> (\<exists>row. sbx_get (sw_rows w') (er_name m) = Some row \<and> sb_token row = token
        \<and> sb_addr row = keep_text (trim_suffix ''/'' (er_addr m)) (case sbx_get (sw_rows w) (er_name m) of Some old \<Rightarrow> sb_addr old | None \<Rightarrow> '''')
        \<and> sb_mode row = ''external'' \<and> sb_owner row = pl_user (principal_of ctx)
        \<and> sandbox_refusal (gw_central G) ctx row = None)
        \<and> (\<forall>n. n \<noteq> er_name m \<longrightarrow> sbx_get (sw_rows w') n = sbx_get (sw_rows w) n)
    | _ \<Rightarrow> sw_rows w' = sw_rows w"
proof -
  let ?base = "trim_suffix ''/'' (er_addr m)"
  obtain c k1 where claim: "claim_worker G m ?base (sw_ext w) = (c, k1)" by (metis prod.collapse)
  show ?thesis
  proof (cases "\<exists>token boot. c = Done token \<and> token \<noteq> '''' \<and> wk_info (gw_worker G) ?base token k1 = Inr boot
      \<and> require_authenticated ctx ''registering an external sandbox'' = None \<and> gw_fails G DbUpsert k1 = None
      \<and> er_name m \<noteq> '''' \<and> er_addr m \<noteq> '''' \<and> (er_code m \<noteq> '''' \<or> er_token m \<noteq> '''')")
    case True
    then obtain token boot where t: "c = Done token" "token \<noteq> ''''" "wk_info (gw_worker G) ?base token k1 = Inr boot"
      "require_authenticated ctx ''registering an external sandbox'' = None" "gw_fails G DbUpsert k1 = None"
      "er_name m \<noteq> ''''" "er_addr m \<noteq> ''''" "er_code m \<noteq> '''' \<or> er_token m \<noteq> ''''" by blast
    let ?s = "external_row ctx m ?base token boot"
    have "r = Done token" "w' = w\<lparr> sw_ext := k1, sw_rows := sbx_upsert (gw_now G k1) ?s (sw_rows w) \<rparr>"
      using assms(1) t claim
      by (auto simp: register_external_def act_defs on_k_def api_def ask_def db_write_def Let_def)
    then show ?thesis using assms(2) t(2)
      by (auto simp: sbx_simps external_row_def merge_row_def keep_text_def sandbox_refusal_def Let_def blank_row_def
          user_id_of_def split: option.split)
  next
    case False
    then have "sw_rows w' = sw_rows w \<and> \<not> (\<exists>token. r = Done token)"
      using assms(1) claim
      by (auto simp: register_external_def act_defs on_k_def api_def ask_def db_write_def Let_def
          split: if_splits reply.splits sum.splits option.splits prod.splits)
    then show ?thesis by (auto split: reply.split)
  qed
qed

text \<open>
  A launch takes its name the same way: the caller's right is checked for the repository the request
  names, never for the sandbox of that name.
\<close>

lemma sync_rows:
  assumes "sync_sandbox_workspace G name rp branch w = (Done u, w')"
  shows "\<exists>f. (\<forall>row. f row = row \<or> (\<exists>tree boot t. f row = row\<lparr> sb_rev := tree, sb_boot := boot, sb_updated := t \<rparr>))
    \<and> (\<forall>n. sbx_get (sw_rows w') n = (if n = name then map_option f (sbx_get (sw_rows w) n) else sbx_get (sw_rows w) n))"
proof -
  obtain tree tar where "if already_synced G name tree (worker_boot_id G name w) w then w' = w
      else \<exists>base tok k. worker_client G name w = Inr (base, tok)
             \<and> wk_sync (gw_worker G) base tok (gw_bytes G tar) tree (sw_ext w) = (Inr (), k)
             \<and> w' = w\<lparr> sw_ext := k,
                        sw_rows := sbx_mark_synced (gw_now G k) name tree (worker_boot_id G name w) (sw_rows w) \<rparr>"
    using sync_cases[OF assms] by (simp only: reply.case) blast
  then consider "w' = w" | k where "sw_rows w' = sbx_mark_synced (gw_now G k) name tree (worker_boot_id G name w) (sw_rows w)"
    by (auto split: if_splits)
  then show ?thesis
  proof cases
    case 1
    then show ?thesis by (intro exI[of _ "\<lambda>r. r"]) (simp add: option.map_ident)
  next
    case 2
    then show ?thesis
      by (intro exI[of _ "\<lambda>r. r\<lparr> sb_rev := tree, sb_boot := worker_boot_id G name w, sb_updated := gw_now G k \<rparr>"])
        (auto simp: sbx_simps option.map_ident)
  qed
qed


lemma launched_row:
  "\<exists>row. sbx_get (sbx_upsert now (launch_row m profile tag token owner) rows) (sr_name m) = Some row
    \<and> sb_mode row = ''managed'' \<and> sb_org row = sr_org m \<and> sb_repo row = sr_repo m
    \<and> sb_token row = keep_text token (case sbx_get rows (sr_name m) of Some old \<Rightarrow> sb_token old | None \<Rightarrow> '''')
    \<and> sb_owner row = (if owner \<noteq> 0 then owner else case sbx_get rows (sr_name m) of Some old \<Rightarrow> sb_owner old | None \<Rightarrow> 0)"
  by (auto simp: sbx_simps launch_row_def merge_row_def blank_row_def keep_text_def split: option.split)

lemma keeps_on_k: "keeps sw_rows (on_k m)"
  by (auto simp: keeps_def on_k_def zoom_def split: prod.split)

text \<open>
  C25: A successful launch was made by an authenticated caller who may push to the repository the
  request names, if it names one; afterwards the name belongs to that repository's owner or, without
  a repository, to the caller, with a new token, whoever held the name before, and no other row has
  changed.  The row of the name is not consulted.
\<close>
theorem launch_takes_over:
  assumes "launch_sandbox G ctx m w = (Done info, w')" "launch_owner G ctx m \<noteq> 0"
  shows "may_launch G ctx m = None
    \<and> (\<exists>row. sbx_get (sw_rows w') (sr_name m) = Some row \<and> sb_owner row = launch_owner G ctx m
         \<and> sb_mode row = ''managed'' \<and> sb_org row = sr_org m \<and> sb_repo row = sr_repo m
         \<and> (\<exists>token k k'. wk_random (gw_worker G) k = (Inr token, k') \<and> (token \<noteq> '''' \<longrightarrow> sb_token row = token)))
    \<and> (\<forall>n. n \<noteq> sr_name m \<longrightarrow> sbx_get (sw_rows w') n = sbx_get (sw_rows w) n)"
proof -
  obtain c profile where m: "may_launch G ctx m = None" and c: "gw_client G = Some c"
    and p: "resolve_runtime c (sr_runtime m) = Inr profile"
    using assms(1) unfolding launch_sandbox_def with_client_def
    by (auto simp: done_cases split: option.splits)
  let ?row = "\<lambda>tag token. launch_row m profile tag token (launch_owner G ctx m)"
  from assms(1) c p obtain tag built w1 token w2 w3 w4 w5 w6 ready where
    a: "on_k (ensure_sandbox_image G profile (sr_base m) (or_default (sr_workspace m) ''/workspace'')) w = (Done (tag, built), w1)"
    "on_k (api (wk_random (gw_worker G))) w1 = (Done token, w2)"
    "on_k (kube_launch_sandbox (gw_kube G) c (launch_spec m profile tag token)) w2 = (Done ready, w3)"
    "on_k (wait_sandbox_ready (gw_kube G) c (sr_name m) (profile_port profile)
                 (ready_timeout (ka_parse_duration (gw_kube G)) profile)) w3 = (Done (), w4)"
    "db_write G DbUpsert (\<lambda>now. sbx_upsert now (?row tag token)) w4 = (Done (), w5)"
    "(if sr_org m \<noteq> '''' \<and> sr_repo m \<noteq> '''' \<and> sr_branch m \<noteq> ''''
             then sync_sandbox_workspace G (sr_name m) (sr_org m, sr_repo m) (sr_branch m) else give ()) w5 = (Done (), w6)"
    "w' = w6"
    unfolding launch_sandbox_def with_client_def Let_def
    by (auto simp: done_cases attempt_Done split: if_splits)
  have "sw_rows w4 = sw_rows w"
    using keepsD[OF keeps_on_k a(1)] keepsD[OF keeps_on_k a(2)] keepsD[OF keeps_on_k a(3)] keepsD[OF keeps_on_k a(4)] by simp
  then obtain t where w5: "sw_rows w5 = sbx_upsert t (?row tag token) (sw_rows w)"
    using a(5) by (auto simp: db_write_def act_defs split: option.splits)
  obtain k k' where rand: "wk_random (gw_worker G) k = (Inr token, k')"
    using a(2) by (auto simp: on_k_def api_def done_cases)
  obtain row where row: "sbx_get (sw_rows w5) (sr_name m) = Some row" "sb_mode row = ''managed''" "sb_org row = sr_org m"
    "sb_repo row = sr_repo m" "sb_owner row = launch_owner G ctx m" "token \<noteq> '''' \<longrightarrow> sb_token row = token"
    using launched_row[of t m profile tag token "launch_owner G ctx m" "sw_rows w"] assms(2) unfolding w5
    by (auto simp: keep_text_def)
  have other: "sbx_get (sw_rows w5) n = sbx_get (sw_rows w) n" if "n \<noteq> sr_name m" for n
    using that by (simp add: w5 sbx_simps launch_row_def)
  have "\<exists>f. (\<forall>row. f row = row \<or> (\<exists>tree boot t. f row = row\<lparr> sb_rev := tree, sb_boot := boot, sb_updated := t \<rparr>))
    \<and> (\<forall>n. sbx_get (sw_rows w6) n = (if n = sr_name m then map_option f (sbx_get (sw_rows w5) n) else sbx_get (sw_rows w5) n))"
  proof (cases "sr_org m \<noteq> '''' \<and> sr_repo m \<noteq> '''' \<and> sr_branch m \<noteq> ''''")
    case True
    then have "sync_sandbox_workspace G (sr_name m) (sr_org m, sr_repo m) (sr_branch m) w5 = (Done (), w6)" using a(6) by simp
    then show ?thesis by (rule sync_rows)
  next
    case False
    then have "w6 = w5" using a(6) by (auto simp: give_def)
    then show ?thesis by (intro exI[of _ "\<lambda>r. r"]) (simp add: option.map_ident)
  qed
  then obtain f where f: "\<And>row. f row = row \<or> (\<exists>tree boot t. f row = row\<lparr> sb_rev := tree, sb_boot := boot, sb_updated := t \<rparr>)"
    "\<And>n. sbx_get (sw_rows w6) n = (if n = sr_name m then map_option f (sbx_get (sw_rows w5) n) else sbx_get (sw_rows w5) n)"
    by blast
  have "sbx_get (sw_rows w') (sr_name m) = Some (f row)" using f(2) row(1) a(7) by simp
  moreover have "sb_mode (f row) = sb_mode row \<and> sb_org (f row) = sb_org row \<and> sb_repo (f row) = sb_repo row
      \<and> sb_owner (f row) = sb_owner row \<and> sb_token (f row) = sb_token row"
    using f(1)[of row] by auto
  moreover have "sbx_get (sw_rows w') n = sbx_get (sw_rows w) n" if "n \<noteq> sr_name m" for n
    using f(2)[of n] other[OF that] that a(7) by simp
  ultimately show ?thesis using m row rand by auto
qed

end
