(* ===== verification/Lab_Server.thy ===== *)
theory Lab_Server
imports Lab_Vcs
begin

text \<open>
  The lab service: repositories, reading at a revision, writing to a branch, branches and tags,
  history editing (\<^verbatim>\<open>cmd/easylab/connlab.go\<close>, \<^verbatim>\<open>connlab_repo.go\<close>).  One definition per handler;
  a repository is its namespace and name, a time stamp is its number of milliseconds.
\<close>

section \<open>Checks\<close>

definition needs :: "('r, 'v, 'i, 'z) vcs_scheme \<Rightarrow> principal option \<Rightarrow> rkey \<Rightarrow> capability \<Rightarrow> string
    \<Rightarrow> 'v \<Rightarrow> conn_err option" where
  "needs L ctx rp cap action v =
    require_repo_action (vc_central L v) ctx (fst rp) (snd rp) (cap_of (vc_central L v) cap) action"

definition opened :: "('r, 'v, 'i, 'z) vcs_scheme \<Rightarrow> principal option \<Rightarrow> rkey \<Rightarrow> capability \<Rightarrow> string
    \<Rightarrow> 'v \<Rightarrow> conn_err option" where
  "opened L ctx rp cap action v =
    open_repo_authorized (vc_central L v) ctx (fst rp) (snd rp) (cap_of (vc_central L v) cap) action"

definition open_repo :: "('r, 'v, 'i, 'z) vcs_scheme \<Rightarrow> rkey \<Rightarrow> 'v \<Rightarrow> conn_err option" where
  "open_repo L rp v =
    (if ce_repo_exists (vc_central L v) (fst rp) (snd rp) then None else Some (ConnErr NotFound ''not found''))"

definition lab_author :: author where
  "lab_author = (''easyvcs'', ''easyvcs@example.com'')"

section \<open>Repositories\<close>

definition list_repos :: "('r, 'v, 'i, 'z) vcs_scheme \<Rightarrow> principal option
    \<Rightarrow> ('v, (rkey \<times> string) list) act" where
  "list_repos L ctx =
    look Internal (\<lambda>v. vc_accessible L v (user_id_of ctx)) (\<lambda>repos.
    peek (\<lambda>v. map (\<lambda>rp. (rp, case vc_meta L v rp of Inr me \<Rightarrow> me_default me | Inl _ \<Rightarrow> ''''))
                 (filter (\<lambda>rp. open_repo L rp v = None) repos)) give)"

definition create_if_new :: "('r, 'v, 'i, 'z) vcs_scheme \<Rightarrow> int \<Rightarrow> rkey \<Rightarrow> ('v, unit) act" where
  "create_if_new L uid rp v =
    (case vc_create L uid rp v of
       (Inl m, v') \<Rightarrow> (if contains_sub ''exists'' m then (Done (), v') else (Fail (ConnErr Internal m), v'))
     | (Inr _, v') \<Rightarrow> (Done (), v'))"

definition create_repo :: "('r, 'v, 'i, 'z) vcs_scheme \<Rightarrow> principal option \<Rightarrow> rkey \<Rightarrow> ('v, unit) act" where
  "create_repo L ctx rp =
    demand (\<lambda>_. require_authenticated ctx ''creating a repository'') (create_if_new L (user_id_of ctx) rp)"

definition lab_ensure_repo :: "('r, 'v, 'i, 'z) vcs_scheme \<Rightarrow> principal option \<Rightarrow> rkey \<Rightarrow> ('v, unit) act" where
  "lab_ensure_repo L ctx rp =
    demand (\<lambda>_. require_authenticated ctx ''creating a repository'') (create_if_new L (user_id_of ctx) rp)"

definition delete_repo :: "('r, 'v, 'i, 'z) vcs_scheme \<Rightarrow> principal option \<Rightarrow> rkey \<Rightarrow> ('v, string) act" where
  "delete_repo L ctx rp =
    demand (needs L ctx rp CapPush ''deleting a repository'') (
    effect NotFound (vc_delete L rp) (\<lambda>_.
    give (fst rp @ ''/'' @ snd rp)))"

definition ensure_org :: "string \<Rightarrow> ('v, unit) act" where
  "ensure_org org = (if org = '''' then refuse InvalidArgument ''org required'' else give ())"

definition fork_repo :: "('r, 'v, 'i, 'z) vcs_scheme \<Rightarrow> principal option \<Rightarrow> rkey \<Rightarrow> string \<Rightarrow> ('v, unit) act" where
  "fork_repo L ctx rp to =
    demand (\<lambda>_. require_authenticated ctx ''forking a repository'') (
    demand (needs L ctx rp CapPropose ''forking a repository'') (
    if to = '''' then refuse InvalidArgument ''to required''
    else effect AlreadyExists (vc_fork L rp (user_id_of ctx) (to, to)) (\<lambda>_. give ())))"

definition clone_repo :: "('v, unit) act" where
  "clone_repo = refuse Unimplemented ''CloneRepo: use mirror/pull''"

definition update_repo :: "('r, 'v, 'i, 'z) vcs_scheme \<Rightarrow> principal option \<Rightarrow> rkey
    \<Rightarrow> string option \<Rightarrow> string option \<Rightarrow> string option \<Rightarrow> ('v, unit) act" where
  "update_repo L ctx rp desc visibility dflt =
    demand (needs L ctx rp CapPush ''updating repository metadata'') (
    demand (open_repo L rp) (
    look Internal (\<lambda>v. vc_meta L v rp) (\<lambda>me.
    let me1 = (case desc of Some d \<Rightarrow> me\<lparr> me_desc := d \<rparr> | None \<Rightarrow> me) in
    if visibility \<notin> {None, Some ''public'', Some ''private''}
    then refuse InvalidArgument ''visibility must be public|private''
    else
      let me2 = (case visibility of Some vis \<Rightarrow> me1\<lparr> me_visibility := vis \<rparr> | None \<Rightarrow> me1);
          me3 = (case dflt of Some b \<Rightarrow> (if b \<noteq> '''' then me2\<lparr> me_default := b \<rparr> else me2) | None \<Rightarrow> me2)
      in effect Internal (vc_put_meta L rp me3) (\<lambda>_. give ()))))"

section \<open>Reading at a revision\<close>

definition lab_tree :: "('r, 'v, 'i, 'z) vcs_scheme \<Rightarrow> principal option \<Rightarrow> rkey \<Rightarrow> string \<Rightarrow> string
    \<Rightarrow> ('v, (string \<times> string) list) act" where
  "lab_tree L ctx rp ref path =
    demand (opened L ctx rp CapRead ''reading a repository'') (
    chase NotFound (\<lambda>v. tree_of_ref L v rp rp ref) (\<lambda>t.
    look Internal (\<lambda>v. vc_tree L v rp t) (\<lambda>es.
    give (filter (\<lambda>(name, kind). path = '''' \<or> path = name) es))))"

definition read_blob :: "('r, 'v, 'i, 'z) vcs_scheme \<Rightarrow> principal option \<Rightarrow> rkey \<Rightarrow> string \<Rightarrow> string
    \<Rightarrow> ('v, string) act" where
  "read_blob L ctx rp ref path =
    demand (opened L ctx rp CapRead ''reading a repository'') (
    chase NotFound (\<lambda>v. tree_of_ref L v rp rp ref) (\<lambda>t.
    look Internal (\<lambda>v. vc_tree L v rp t) (\<lambda>_.
    look NotFound (\<lambda>v. vc_entry L v rp t path) (\<lambda>e.
    look Internal (\<lambda>v. vc_blob L v rp e) give))))"

definition file_matches :: "('r, 'v, 'i, 'z) vcs_scheme \<Rightarrow> 'v \<Rightarrow> rkey \<Rightarrow> 'i \<Rightarrow> string \<Rightarrow> string \<Rightarrow> bool" where
  "file_matches L v rp t q path =
    (case vc_entry L v rp t path of
       Inl _ \<Rightarrow> False
     | Inr e \<Rightarrow> (case vc_blob L v rp e of Inl _ \<Rightarrow> False | Inr d \<Rightarrow> contains_sub q d))"

definition lab_search :: "('r, 'v, 'i, 'z) vcs_scheme \<Rightarrow> principal option \<Rightarrow> rkey \<Rightarrow> string \<Rightarrow> string
    \<Rightarrow> ('v, string list) act" where
  "lab_search L ctx rp ref q =
    (if q = '''' then refuse InvalidArgument ''q required''
     else demand (opened L ctx rp CapRead ''reading a repository'') (
          chase NotFound (\<lambda>v. tree_of_ref L v rp rp ref) (\<lambda>t.
          look Internal (\<lambda>v. vc_paths L v rp t) (\<lambda>paths.
          peek (\<lambda>v. filter (file_matches L v rp t q) paths) give))))"

definition diff_view :: "file_diff list \<Rightarrow> file_diff list" where
  "diff_view = map (\<lambda>d. d\<lparr> fd_added := int32_of (fd_added d), fd_removed := int32_of (fd_removed d) \<rparr>)"

definition lab_diff :: "('r, 'v, 'i, 'z) vcs_scheme \<Rightarrow> principal option \<Rightarrow> rkey \<Rightarrow> string
    \<Rightarrow> ('v, file_diff list) act" where
  "lab_diff L ctx rp change =
    demand (opened L ctx rp CapRead ''reading a repository'') (
    chase NotFound (\<lambda>v. resolve_rev_id L v rp rp change) (\<lambda>rid.
    look NotFound (\<lambda>v. vc_rev L v rp rid) (\<lambda>cr.
    look NotFound (\<lambda>v. vc_snap L v rp (rv_hash cr)) (\<lambda>sn.
    let parent = (case sn_parents sn of [] \<Rightarrow> vc_zero L | p # _ \<Rightarrow> p) in
    if parent = vc_zero L
    then look InvalidArgument (\<lambda>v. vc_diff L v rp (vc_zero L) (sn_tree sn)) (\<lambda>ds. give (diff_view ds))
    else look Internal (\<lambda>v. vc_snap L v rp parent) (\<lambda>psn.
         look InvalidArgument (\<lambda>v. vc_diff L v rp (sn_tree psn) (sn_tree sn)) (\<lambda>ds. give (diff_view ds)))))))"

definition compare_refs :: "('r, 'v, 'i, 'z) vcs_scheme \<Rightarrow> principal option \<Rightarrow> rkey \<Rightarrow> string \<Rightarrow> string
    \<Rightarrow> ('v, file_diff list) act" where
  "compare_refs L ctx rp a b =
    demand (opened L ctx rp CapRead ''reading a repository'') (
    chase NotFound (\<lambda>v. tree_of_ref L v rp rp a) (\<lambda>ta.
    chase NotFound (\<lambda>v. tree_of_ref L v rp rp b) (\<lambda>tb.
    look InvalidArgument (\<lambda>v. vc_diff L v rp ta tb) (\<lambda>ds. give (diff_view ds)))))"

definition lab_blame :: "('r, 'v, 'i, 'z) vcs_scheme \<Rightarrow> principal option \<Rightarrow> rkey \<Rightarrow> string \<Rightarrow> string
    \<Rightarrow> ('v, string list) act" where
  "lab_blame L ctx rp ref path =
    demand (opened L ctx rp CapRead ''reading a repository'') (
    if ref \<noteq> ''''
    then chase NotFound (\<lambda>v. resolve_rev_id L v rp rp ref) (\<lambda>start.
         look Internal (\<lambda>v. vc_annotate L v rp start path) give)
    else look Internal (\<lambda>v. vc_annotate L v rp '''' path) give)"

text \<open>A listed revision whose snapshot is missing makes the handler dereference nil.\<close>

definition rev_limit :: "int \<Rightarrow> int \<Rightarrow> nat" where
  "rev_limit limit dflt = nat (if limit \<le> 0 then dflt else limit)"

definition snapshots_of :: "('r, 'v, 'i, 'z) vcs_scheme \<Rightarrow> 'v \<Rightarrow> rkey \<Rightarrow> 'i revision list
    \<Rightarrow> ('i revision \<times> 'i stored_snapshot option) list" where
  "snapshots_of L v rp revs =
    map (\<lambda>r. (r, case vc_snap L v rp (rv_hash r) of Inr sn \<Rightarrow> Some sn | Inl _ \<Rightarrow> None)) revs"

record rev_info =
  ri_rev :: string
  ri_sha :: string
  ri_message :: string
  ri_author :: string
  ri_time :: int

definition revisions :: "('r, 'v, 'i, 'z) vcs_scheme \<Rightarrow> principal option \<Rightarrow> rkey \<Rightarrow> int
    \<Rightarrow> ('v, rev_info list) act" where
  "revisions L ctx rp limit =
    demand (opened L ctx rp CapRead ''reading a repository'') (
    look Internal (\<lambda>v. vc_log L v rp) (\<lambda>revs.
    peek (\<lambda>v. snapshots_of L v rp (take (rev_limit limit 30) revs)) (\<lambda>rs.
    if None \<in> snd ` set rs then crash
    else give (map (\<lambda>(r, sn). \<lparr> ri_rev = rv_id r, ri_sha = vc_text L (sn_hash (the sn)),
                ri_message = sn_desc (the sn), ri_author = sn_author (the sn), ri_time = sn_time (the sn) \<rparr>) rs))))"

definition lab_log :: "('r, 'v, 'i, 'z) vcs_scheme \<Rightarrow> principal option \<Rightarrow> rkey \<Rightarrow> int
    \<Rightarrow> ('v, rev_info list) act" where
  "lab_log L ctx rp limit =
    demand (opened L ctx rp CapRead ''reading a repository'') (
    look Internal (\<lambda>v. vc_log L v rp) (\<lambda>revs.
    peek (\<lambda>v. snapshots_of L v rp (take (rev_limit limit 30) revs)) (\<lambda>rs.
    if None \<in> snd ` set rs then crash
    else give (map (\<lambda>(r, sn). \<lparr> ri_rev = rv_id r, ri_sha = vc_text L (rv_hash r),
                ri_message = sn_desc (the sn), ri_author = sn_author (the sn), ri_time = sn_time (the sn) \<rparr>) rs))))"

section \<open>Branches and tags\<close>

definition list_by_kind :: "('r, 'v, 'i, 'z) vcs_scheme \<Rightarrow> rkey \<Rightarrow> ref_kind \<Rightarrow> ('v, (string \<times> string) list) act" where
  "list_by_kind L rp kind =
    demand (open_repo L rp) (
    look Internal (\<lambda>v. vc_refs L v rp) (\<lambda>found.
    give (map (\<lambda>rf. (rf_name rf, rf_target rf)) (filter (\<lambda>rf. rf_kind rf = kind) found))))"

definition tags :: "('r, 'v, 'i, 'z) vcs_scheme \<Rightarrow> principal option \<Rightarrow> rkey \<Rightarrow> ('v, (string \<times> string) list) act" where
  "tags L ctx rp = list_by_kind L rp TagRef"

definition branches :: "('r, 'v, 'i, 'z) vcs_scheme \<Rightarrow> principal option \<Rightarrow> rkey
    \<Rightarrow> ('v, (string \<times> string) list) act" where
  "branches L ctx rp = list_by_kind L rp BranchRef"

definition lab_delete_branch :: "('r, 'v, 'i, 'z) vcs_scheme \<Rightarrow> principal option \<Rightarrow> rkey \<Rightarrow> string \<Rightarrow> ('v, unit) act" where
  "lab_delete_branch L ctx rp branch =
    demand (needs L ctx rp CapPush ''deleting a branch'') (
    demand (opened L ctx rp CapRead ''reading a repository'') (
    effect NotFound (vc_del_ref L rp branch) (\<lambda>_. give ())))"

definition create_branch :: "('r, 'v, 'i, 'z) vcs_scheme \<Rightarrow> principal option \<Rightarrow> rkey \<Rightarrow> string \<Rightarrow> string
    \<Rightarrow> ('v, unit) act" where
  "create_branch L ctx rp branch from =
    demand (needs L ctx rp CapPush ''creating a branch'') (
    demand (opened L ctx rp CapRead ''reading a repository'') (
    chase InvalidArgument (\<lambda>v. resolve_ref_any L v rp rp from) (\<lambda>h.
    effect Internal (vc_set_ref L rp branch BranchRef (vc_text L h)) (\<lambda>_. give ()))))"

definition set_tag :: "('r, 'v, 'i, 'z) vcs_scheme \<Rightarrow> principal option \<Rightarrow> rkey \<Rightarrow> string \<Rightarrow> string
    \<Rightarrow> ('v, unit) act" where
  "set_tag L ctx rp name target =
    demand (needs L ctx rp CapMerge ''setting a tag'') (
    demand (opened L ctx rp CapRead ''reading a repository'') (
    if name = '''' then refuse InvalidArgument ''name required''
    else if target = '''' \<or> target = ''@''
    then chase InvalidArgument (\<lambda>v. resolve_rev_id L v rp rp ''@'') (\<lambda>rid.
         effect InvalidArgument (vc_set_ref L rp name TagRef rid) (\<lambda>_. give ()))
    else effect InvalidArgument (vc_set_ref L rp name TagRef target) (\<lambda>_. give ())))"

definition delete_tag :: "('r, 'v, 'i, 'z) vcs_scheme \<Rightarrow> principal option \<Rightarrow> rkey \<Rightarrow> string \<Rightarrow> ('v, unit) act" where
  "delete_tag L ctx rp name =
    demand (needs L ctx rp CapMerge ''deleting a tag'') (
    demand (opened L ctx rp CapRead ''reading a repository'') (
    effect NotFound (vc_del_ref L rp name) (\<lambda>_. give ())))"

section \<open>Writing to a branch\<close>

definition file_content :: "string \<Rightarrow> string \<Rightarrow> string" where
  "file_content content raw = (if raw \<noteq> '''' then raw else content)"

definition write_blob :: "('r, 'v, 'i, 'z) vcs_scheme \<Rightarrow> principal option \<Rightarrow> rkey \<Rightarrow> string \<Rightarrow> string
    \<Rightarrow> string \<Rightarrow> string \<Rightarrow> ('v, unit) act" where
  "write_blob L ctx rp ref0 path content raw =
    demand (needs L ctx rp CapPush ''writing to a branch'') (
    demand (opened L ctx rp CapRead ''reading a repository'') (
    peek (\<lambda>v. if ref0 = '''' then (case vc_meta L v rp of Inr me \<Rightarrow> me_default me | Inl _ \<Rightarrow> '''') else ref0) (\<lambda>ref.
    demand (\<lambda>v. if vc_ref L v rp ref = None
                then Some (ConnErr InvalidArgument (''branch '' @ go_quote ref @ '' not found'')) else None) (
    chase InvalidArgument (\<lambda>v. resolve_ref_any L v rp rp ref) (\<lambda>parent.
    effect Internal (vc_commit_files L rp parent
        [\<lparr> fs_path = path, fs_content = file_content content raw, fs_delete = False \<rparr>]
        (''write '' @ path) lab_author '''') (\<lambda>(sn, _).
    effect Internal (vc_set_ref L rp ref BranchRef (vc_text L (sn_hash sn))) (\<lambda>_. give ())))))))"

record change_item =
  ch_path :: string
  ch_content :: string
  ch_raw :: string
  ch_delete :: bool

definition spec_of :: "change_item \<Rightarrow> file_spec" where
  "spec_of c = \<lparr> fs_path = ch_path c, fs_content = file_content (ch_content c) (ch_raw c), fs_delete = ch_delete c \<rparr>"

text \<open>The branch a write lands on: its name and its target, empty when it has no tip yet.\<close>

definition write_target :: "('r, 'v, 'i, 'z) vcs_scheme \<Rightarrow> rkey \<Rightarrow> string \<Rightarrow> 'v \<Rightarrow> string + (string \<times> string)" where
  "write_target L rp ref0 v =
    (if ref0 = '''' then
       (case vc_meta L v rp of
          Inl e \<Rightarrow> Inl e
        | Inr me \<Rightarrow>
            (case vc_ref L v rp (me_default me) of
               Some rf \<Rightarrow> if rf_kind rf = BranchRef then Inr (rf_name rf, rf_target rf) else Inr (me_default me, '''')
             | None \<Rightarrow> Inr (me_default me, '''')))
     else
       (case vc_ref L v rp ref0 of
          Some rf \<Rightarrow> if rf_kind rf = BranchRef then Inr (rf_name rf, rf_target rf)
                     else Inl (''branch '' @ go_quote ref0 @ '' not found; every write must target a branch'')
        | None \<Rightarrow> Inl (''branch '' @ go_quote ref0 @ '' not found; every write must target a branch'')))"

definition apply_file_changes :: "('r, 'v, 'i, 'z) vcs_scheme \<Rightarrow> rkey \<Rightarrow> string \<Rightarrow> string \<Rightarrow> bool
    \<Rightarrow> change_item list \<Rightarrow> ('v, string) act" where
  "apply_file_changes L rp ref0 message new_commit changes =
    look InvalidArgument (write_target L rp ref0) (\<lambda>(name, target).
    let finish = (\<lambda>parent override.
          effect InvalidArgument (vc_commit_files L rp parent (map spec_of changes) message lab_author override)
            (\<lambda>(_, rev).
          effect InvalidArgument (vc_set_ref L rp name BranchRef (rv_id rev)) (\<lambda>_. give (rv_id rev))))
    in if target = '''' then finish (vc_zero L) ''''
       else if new_commit
       then chase InvalidArgument (\<lambda>v. resolve_ref_any L v rp rp name) (\<lambda>parent. finish parent '''')
       else finish (vc_zero L) target)"

definition write_files :: "('r, 'v, 'i, 'z) vcs_scheme \<Rightarrow> principal option \<Rightarrow> rkey \<Rightarrow> string \<Rightarrow> string
    \<Rightarrow> bool \<Rightarrow> change_item list \<Rightarrow> ('v, string) act" where
  "write_files L ctx rp ref message new_commit changes =
    demand (needs L ctx rp CapPush ''writing files'') (
    demand (opened L ctx rp CapRead ''reading a repository'') (
    if changes = [] then refuse InvalidArgument ''at least one change required''
    else apply_file_changes L rp ref message new_commit changes))"

section \<open>History editing\<close>

definition history_edit :: "('r, 'v, 'i, 'z) vcs_scheme \<Rightarrow> principal option \<Rightarrow> rkey \<Rightarrow> string
    \<Rightarrow> ('v, 'a) act \<Rightarrow> ('v, 'a) act" where
  "history_edit L ctx rp action m =
    demand (needs L ctx rp CapPush action) (
    demand (opened L ctx rp CapRead ''reading a repository'') m)"

definition drop_rev :: "('r, 'v, 'i, 'z) vcs_scheme \<Rightarrow> principal option \<Rightarrow> rkey \<Rightarrow> string \<Rightarrow> ('v, string) act" where
  "drop_rev L ctx rp expr =
    history_edit L ctx rp ''dropping a revision'' (
    chase NotFound (\<lambda>v. resolve_rev_id L v rp rp expr) (\<lambda>rid.
    effect InvalidArgument (vc_drop L rp rid) (\<lambda>_. give rid)))"

definition revert_rev :: "('r, 'v, 'i, 'z) vcs_scheme \<Rightarrow> principal option \<Rightarrow> rkey \<Rightarrow> string \<Rightarrow> string
    \<Rightarrow> ('v, string \<times> string) act" where
  "revert_rev L ctx rp expr target =
    history_edit L ctx rp ''reverting a revision'' (
    chase NotFound (\<lambda>v. resolve_rev_id L v rp rp expr) (\<lambda>rid.
    let finish = (\<lambda>onto. effect InvalidArgument (vc_revert L rp rid onto) (\<lambda>(sn, ch). give (rv_id ch, sn_rev sn)))
    in if target \<noteq> '''' then chase InvalidArgument (\<lambda>v. resolve_ref_any L v rp rp target) finish
       else finish (vc_zero L)))"

definition resolve_conflict :: "('r, 'v, 'i, 'z) vcs_scheme \<Rightarrow> principal option \<Rightarrow> rkey \<Rightarrow> string \<Rightarrow> string
    \<Rightarrow> ('v, string) act" where
  "resolve_conflict L ctx rp path content =
    demand (opened L ctx rp CapPush ''resolving a conflict'') (
    if path = '''' then refuse InvalidArgument ''path required''
    else apply_file_changes L rp '''' (''resolve '' @ path) True
           [\<lparr> ch_path = path, ch_content = content, ch_raw = '''', ch_delete = False \<rparr>])"

definition squash_rev :: "('r, 'v, 'i, 'z) vcs_scheme \<Rightarrow> principal option \<Rightarrow> rkey \<Rightarrow> string
    \<Rightarrow> ('v, string \<times> string) act" where
  "squash_rev L ctx rp expr =
    history_edit L ctx rp ''squashing a revision'' (
    chase NotFound (\<lambda>v. resolve_rev_id L v rp rp expr) (\<lambda>rid.
    effect InvalidArgument (vc_squash L rp rid) (\<lambda>(sn, ch). give (rv_id ch, sn_rev sn))))"

fun all_hex :: "('r, 'v, 'i, 'z) vcs_scheme \<Rightarrow> string list \<Rightarrow> string + 'i list" where
  "all_hex L [] = Inr []"
| "all_hex L (p # ps) =
     (case vc_hex L p of
        Inl e \<Rightarrow> Inl e
      | Inr i \<Rightarrow> (case all_hex L ps of Inl e \<Rightarrow> Inl e | Inr is \<Rightarrow> Inr (i # is)))"

definition rebase_rev :: "('r, 'v, 'i, 'z) vcs_scheme \<Rightarrow> principal option \<Rightarrow> rkey \<Rightarrow> string \<Rightarrow> string list
    \<Rightarrow> ('v, string \<times> string) act" where
  "rebase_rev L ctx rp expr new_parents =
    history_edit L ctx rp ''rebasing a branch'' (
    chase NotFound (\<lambda>v. resolve_rev_id L v rp rp expr) (\<lambda>rid.
    look InvalidArgument (\<lambda>_. all_hex L new_parents) (\<lambda>parents.
    effect InvalidArgument (vc_rebase L rp rid parents) (\<lambda>(sn, ch). give (rv_id ch, vc_text L (sn_hash sn))))))"

fun resolve_all :: "('r, 'v, 'i, 'z) vcs_scheme \<Rightarrow> 'v \<Rightarrow> rkey \<Rightarrow> string list \<Rightarrow> (string + string list) option" where
  "resolve_all L v rp [] = Some (Inr [])"
| "resolve_all L v rp (r # rs) =
     (case resolve_rev_id L v rp rp r of
        None \<Rightarrow> None
      | Some (Inl e) \<Rightarrow> Some (Inl e)
      | Some (Inr i) \<Rightarrow>
          (case resolve_all L v rp rs of
             None \<Rightarrow> None
           | Some (Inl e) \<Rightarrow> Some (Inl e)
           | Some (Inr is) \<Rightarrow> Some (Inr (i # is))))"

definition rebase_many :: "('r, 'v, 'i, 'z) vcs_scheme \<Rightarrow> principal option \<Rightarrow> rkey \<Rightarrow> string list \<Rightarrow> string
    \<Rightarrow> ('v, unit) act" where
  "rebase_many L ctx rp revs onto =
    history_edit L ctx rp ''rebasing revisions'' (
    if revs = [] \<or> onto = '''' then refuse InvalidArgument ''revs and onto required''
    else chase InvalidArgument (\<lambda>v. resolve_ref_any L v rp rp onto) (\<lambda>o_id.
         chase InvalidArgument (\<lambda>v. resolve_all L v rp revs) (\<lambda>rids.
         effect InvalidArgument (vc_rebase_many L rp rids o_id) (\<lambda>_. give ()))))"

end
