(* ===== verification/Lab_Hosting.thy ===== *)
theory Lab_Hosting
imports Lab_Server
begin

text \<open>
  The hosting side of the lab service: merge requests with reviews and comments, collaborators,
  mirrors, releases and organizations (\<^verbatim>\<open>cmd/easylab/connlab_mr.go\<close>, \<^verbatim>\<open>merge_core.go\<close>,
  \<^verbatim>\<open>connlab_extra.go\<close>, \<^verbatim>\<open>connlab_repo.go\<close>).  The parameter record grows by the operations of the
  central store, of the mirror package and of the artifact registry that these handlers call.
\<close>

record merge_request =
  mr_id :: int
  mr_iid :: int
  mr_title :: string
  mr_desc :: string
  mr_source :: string
  mr_target :: string
  mr_state :: string
  mr_author :: "int option"
  mr_created :: int
  mr_updated :: int
  mr_source_repo :: int

record note_row =
  nr_user :: "int option"
  nr_state :: string
  nr_body :: string
  nr_path :: string
  nr_created :: int

record push_mirror =
  pm_name :: string
  pm_url :: string
  pm_branch :: string
  pm_token :: string
  pm_last :: string

record release_meta =
  rm_name :: string
  rm_desc :: string
  rm_revision :: string
  rm_draft :: bool
  rm_prerelease :: bool
  rm_created :: int

record blob_ref =
  bl_name :: string
  bl_digest :: string
  bl_size :: nat
  bl_type :: string

record artifact =
  ar_format :: string
  ar_repo :: string
  ar_version :: string
  ar_meta :: "release_meta option"
  ar_blobs :: "blob_ref list"

record ('r, 'v, 'i) hosting = "('r, 'v, 'i) vcs" +
  hs_repo_id :: "'v \<Rightarrow> rkey \<Rightarrow> int"
  hs_by_id :: "'v \<Rightarrow> int \<Rightarrow> string + rkey"
  hs_owner :: "'v \<Rightarrow> rkey \<Rightarrow> int"
  hs_mrs :: "'v \<Rightarrow> rkey \<Rightarrow> string \<Rightarrow> string + merge_request list"
  hs_mr :: "'v \<Rightarrow> rkey \<Rightarrow> int \<Rightarrow> string + merge_request"
  hs_new_mr :: "rkey \<Rightarrow> merge_request \<Rightarrow> 'v \<Rightarrow> (string + merge_request) \<times> 'v"
  hs_mr_state :: "rkey \<Rightarrow> int \<Rightarrow> string \<Rightarrow> 'v \<Rightarrow> (string + unit) \<times> 'v"
  hs_reviews :: "'v \<Rightarrow> int \<Rightarrow> string + note_row list"
  hs_comments :: "'v \<Rightarrow> int \<Rightarrow> string + note_row list"
  hs_add_review :: "int \<Rightarrow> int \<Rightarrow> string \<Rightarrow> string \<Rightarrow> 'v \<Rightarrow> (string + unit) \<times> 'v"
  hs_add_comment :: "int \<Rightarrow> int \<Rightarrow> string \<Rightarrow> string \<Rightarrow> 'v \<Rightarrow> (string + unit) \<times> 'v"
  hs_members :: "'v \<Rightarrow> rkey \<Rightarrow> string + (int \<times> string) list"
  hs_set_member :: "rkey \<Rightarrow> int \<Rightarrow> string \<Rightarrow> int \<Rightarrow> 'v \<Rightarrow> (string + unit) \<times> 'v"
  hs_del_member :: "rkey \<Rightarrow> int \<Rightarrow> 'v \<Rightarrow> (string + unit) \<times> 'v"
  hs_pushes :: "'v \<Rightarrow> rkey \<Rightarrow> string + push_mirror list"
  hs_push_of :: "'v \<Rightarrow> rkey \<Rightarrow> string \<Rightarrow> string + push_mirror"
  hs_put_push :: "rkey \<Rightarrow> push_mirror \<Rightarrow> 'v \<Rightarrow> (string + unit) \<times> 'v"
  hs_del_push :: "rkey \<Rightarrow> string \<Rightarrow> 'v \<Rightarrow> 'v"
  hs_pull :: "rkey \<Rightarrow> string \<Rightarrow> string \<Rightarrow> string \<Rightarrow> 'v \<Rightarrow> (string + string) \<times> 'v"
  hs_push :: "rkey \<Rightarrow> push_mirror \<Rightarrow> 'v \<Rightarrow> (string + string) \<times> 'v"
  hs_touch :: "rkey \<Rightarrow> string \<Rightarrow> int \<Rightarrow> string \<Rightarrow> 'v \<Rightarrow> 'v"
  hs_push_sync :: "rkey \<Rightarrow> string \<Rightarrow> string \<Rightarrow> string \<Rightarrow> 'v \<Rightarrow> 'v"
  hs_art :: "'v \<Rightarrow> string \<Rightarrow> string \<Rightarrow> string + artifact"
  hs_versions :: "'v \<Rightarrow> string \<Rightarrow> string + string list"
  hs_put_art :: "artifact \<Rightarrow> 'v \<Rightarrow> (string + unit) \<times> 'v"
  hs_del_art :: "string \<Rightarrow> string \<Rightarrow> 'v \<Rightarrow> (string + unit) \<times> 'v"
  hs_blob :: "'v \<Rightarrow> string \<Rightarrow> string + string"
  hs_put_blob :: "string \<Rightarrow> string \<Rightarrow> 'v \<Rightarrow> (string + unit) \<times> 'v"
  hs_del_blob :: "string \<Rightarrow> 'v \<Rightarrow> 'v"
  hs_digest :: "string \<Rightarrow> string"
  hs_no_blob :: "blob_ref \<Rightarrow> bool"

section \<open>Merge requests\<close>

definition user_name :: "('r, 'v, 'i, 'z) hosting_scheme \<Rightarrow> 'v \<Rightarrow> int option \<Rightarrow> string" where
  "user_name L v u =
    (case u of None \<Rightarrow> '''' | Some i \<Rightarrow> (case ce_user (vc_central L v) i of Some x \<Rightarrow> us_name x | None \<Rightarrow> ''''))"

record mr_view =
  mv_iid :: string
  mv_title :: string
  mv_desc :: string
  mv_source :: string
  mv_target :: string
  mv_state :: string
  mv_created :: int
  mv_updated :: int
  mv_author :: string

definition mr_view_of :: "('r, 'v, 'i, 'z) hosting_scheme \<Rightarrow> 'v \<Rightarrow> merge_request \<Rightarrow> mr_view" where
  "mr_view_of L v m =
    \<lparr> mv_iid = dec_int (mr_iid m), mv_title = mr_title m, mv_desc = mr_desc m, mv_source = mr_source m,
      mv_target = mr_target m, mv_state = mr_state m, mv_created = mr_created m, mv_updated = mr_updated m,
      mv_author = user_name L v (mr_author m) \<rparr>"

definition parse_iid :: "string \<Rightarrow> string + int" where
  "parse_iid s = (case parse_int64 s of Some i \<Rightarrow> Inr i | None \<Rightarrow> Inl ''invalid iid'')"

definition list_mrs :: "('r, 'v, 'i, 'z) hosting_scheme \<Rightarrow> principal option \<Rightarrow> rkey \<Rightarrow> string
    \<Rightarrow> ('v, mr_view list) act" where
  "list_mrs L ctx rp state =
    demand (opened L ctx rp CapRead ''reading change requests'') (
    look Internal (\<lambda>v. hs_mrs L v rp state) (\<lambda>ms. peek (\<lambda>v. map (mr_view_of L v) ms) give))"

definition get_mr :: "('r, 'v, 'i, 'z) hosting_scheme \<Rightarrow> principal option \<Rightarrow> rkey \<Rightarrow> string \<Rightarrow> ('v, mr_view) act" where
  "get_mr L ctx rp iid_text =
    demand (opened L ctx rp CapRead ''reading a change request'') (
    look InvalidArgument (\<lambda>_. parse_iid iid_text) (\<lambda>iid.
    look NotFound (\<lambda>v. hs_mr L v rp iid) (\<lambda>m. peek (\<lambda>v. mr_view_of L v m) give)))"

definition create_mr :: "('r, 'v, 'i, 'z) hosting_scheme \<Rightarrow> principal option \<Rightarrow> rkey \<Rightarrow> string \<Rightarrow> string
    \<Rightarrow> string \<Rightarrow> string \<Rightarrow> ('v, mr_view) act" where
  "create_mr L ctx rp title desc source target =
    demand (needs L ctx rp CapPropose ''opening a change request'') (
    demand (\<lambda>_. require_authenticated ctx ''opening a change request'') (
    demand (opened L ctx rp CapRead ''reading a repository'') (
    if title = '''' \<or> source = '''' \<or> target = '''' then refuse InvalidArgument ''title, source, target required''
    else effect Internal (hs_new_mr L rp
           \<lparr> mr_id = 0, mr_iid = 0, mr_title = title, mr_desc = desc, mr_source = source, mr_target = target,
             mr_state = ''open'', mr_author = Some (user_id_of ctx), mr_created = 0, mr_updated = 0, mr_source_repo = 0 \<rparr>)
         (\<lambda>m. peek (\<lambda>v. mr_view_of L v m) give))))"

definition mr_state_of :: "string \<Rightarrow> string + string" where
  "mr_state_of s =
    (if s = ''close'' \<or> s = ''closed'' then Inr ''closed''
     else if s = ''reopen'' \<or> s = ''open'' then Inr ''open''
     else if s = ''merge'' \<or> s = ''merged'' then Inr ''merged''
     else Inl (''invalid state '' @ go_quote s))"

definition update_mr :: "('r, 'v, 'i, 'z) hosting_scheme \<Rightarrow> principal option \<Rightarrow> rkey \<Rightarrow> string \<Rightarrow> string
    \<Rightarrow> ('v, unit) act" where
  "update_mr L ctx rp iid_text state =
    demand (needs L ctx rp CapMerge ''updating a change request'') (
    demand (opened L ctx rp CapRead ''reading a repository'') (
    look InvalidArgument (\<lambda>_. parse_iid iid_text) (\<lambda>iid.
    look InvalidArgument (\<lambda>_. mr_state_of state) (\<lambda>st.
    effect NotFound (hs_mr_state L rp iid st) (\<lambda>_. give ())))))"

definition source_repo :: "('r, 'v, 'i, 'z) hosting_scheme \<Rightarrow> 'v \<Rightarrow> rkey \<Rightarrow> merge_request \<Rightarrow> string + rkey" where
  "source_repo L v rp m =
    (if mr_source_repo m \<noteq> 0 \<and> mr_source_repo m \<noteq> hs_repo_id L v rp
     then (case hs_by_id L v (mr_source_repo m) of
             Inl e \<Rightarrow> Inl (''source repository missing: '' @ e)
           | Inr src \<Rightarrow> if open_repo L src v = None then Inr src else Inl ''source repository missing: not found'')
     else Inr rp)"

definition prefixed :: "string \<Rightarrow> (string + 'b) option \<Rightarrow> (string + 'b) option" where
  "prefixed p r = map_option (map_sum (\<lambda>e. p @ '': '' @ e) id) r"

definition merge_merge_request :: "('r, 'v, 'i, 'z) hosting_scheme \<Rightarrow> rkey \<Rightarrow> merge_request
    \<Rightarrow> (string \<times> string \<times> nat \<Rightarrow> ('v, 'a) act) \<Rightarrow> ('v, 'a) act" where
  "merge_merge_request L rp m k =
    look InvalidArgument (\<lambda>v. source_repo L v rp m) (\<lambda>src.
    chase InvalidArgument (\<lambda>v. prefixed (''source '' @ mr_source m) (tree_of_ref L v rp src (mr_source m))) (\<lambda>src_tree.
    chase InvalidArgument (\<lambda>v. prefixed (''target '' @ mr_target m) (resolve_snapshot_of L v rp rp (mr_target m))) (\<lambda>tgt.
    let base = (case sn_parents tgt of [] \<Rightarrow> vc_zero L | p # _ \<Rightarrow> p) in
    effect InvalidArgument (vc_merge L rp base src_tree (sn_tree tgt)) (\<lambda>(merged, conflicts).
    effect InvalidArgument (vc_commit_tree L rp [sn_hash tgt] merged
        (''Merge '' @ mr_source m @ '' into '' @ mr_target m) lab_author '''') (\<lambda>(sn, _).
    k (sn_rev sn, vc_text L (sn_hash sn), conflicts))))))"

definition merge_mr :: "('r, 'v, 'i, 'z) hosting_scheme \<Rightarrow> principal option \<Rightarrow> rkey \<Rightarrow> string
    \<Rightarrow> ('v, string \<times> string \<times> int) act" where
  "merge_mr L ctx rp iid_text =
    demand (needs L ctx rp CapMerge ''merging a change request'') (
    demand (opened L ctx rp CapRead ''reading a repository'') (
    look InvalidArgument (\<lambda>_. parse_iid iid_text) (\<lambda>iid.
    look NotFound (\<lambda>v. hs_mr L v rp iid) (\<lambda>m.
    merge_merge_request L rp m (\<lambda>(rid, snap, conflicts).
    effect Internal (hs_mr_state L rp iid ''merged'') (\<lambda>_.
    give (rid, snap, int32_of (int conflicts))))))))"

definition note_view :: "('r, 'v, 'i, 'z) hosting_scheme \<Rightarrow> 'v \<Rightarrow> note_row \<Rightarrow> string \<times> note_row" where
  "note_view L v n = (user_name L v (nr_user n), n)"

definition list_reviews :: "('r, 'v, 'i, 'z) hosting_scheme \<Rightarrow> principal option \<Rightarrow> rkey \<Rightarrow> string
    \<Rightarrow> ('v, (string \<times> note_row) list) act" where
  "list_reviews L ctx rp iid_text =
    demand (opened L ctx rp CapRead ''reading reviews'') (
    look InvalidArgument (\<lambda>_. parse_iid iid_text) (\<lambda>iid.
    look NotFound (\<lambda>v. hs_mr L v rp iid) (\<lambda>m.
    look Internal (\<lambda>v. hs_reviews L v (mr_id m)) (\<lambda>rs. peek (\<lambda>v. map (note_view L v) rs) give))))"

definition add_review :: "('r, 'v, 'i, 'z) hosting_scheme \<Rightarrow> principal option \<Rightarrow> rkey \<Rightarrow> string \<Rightarrow> string
    \<Rightarrow> string \<Rightarrow> ('v, unit) act" where
  "add_review L ctx rp iid_text state body =
    demand (needs L ctx rp CapPropose ''reviewing a change request'') (
    demand (\<lambda>_. require_authenticated ctx ''reviewing a change request'') (
    demand (opened L ctx rp CapRead ''reading a repository'') (
    look InvalidArgument (\<lambda>_. parse_iid iid_text) (\<lambda>iid.
    look NotFound (\<lambda>v. hs_mr L v rp iid) (\<lambda>m.
    effect Internal (hs_add_review L (mr_id m) (user_id_of ctx) state body) (\<lambda>_. give ()))))))"

definition list_comments :: "('r, 'v, 'i, 'z) hosting_scheme \<Rightarrow> principal option \<Rightarrow> rkey \<Rightarrow> string
    \<Rightarrow> ('v, (string \<times> note_row) list) act" where
  "list_comments L ctx rp iid_text =
    demand (opened L ctx rp CapRead ''reading comments'') (
    look InvalidArgument (\<lambda>_. parse_iid iid_text) (\<lambda>iid.
    look NotFound (\<lambda>v. hs_mr L v rp iid) (\<lambda>m.
    look Internal (\<lambda>v. hs_comments L v (mr_id m)) (\<lambda>cs. peek (\<lambda>v. map (note_view L v) cs) give))))"

definition add_comment :: "('r, 'v, 'i, 'z) hosting_scheme \<Rightarrow> principal option \<Rightarrow> rkey \<Rightarrow> string \<Rightarrow> string
    \<Rightarrow> string \<Rightarrow> ('v, unit) act" where
  "add_comment L ctx rp iid_text body path =
    demand (needs L ctx rp CapPropose ''commenting on a change request'') (
    demand (\<lambda>_. require_authenticated ctx ''commenting on a change request'') (
    demand (opened L ctx rp CapRead ''reading a repository'') (
    look InvalidArgument (\<lambda>_. parse_iid iid_text) (\<lambda>iid.
    look NotFound (\<lambda>v. hs_mr L v rp iid) (\<lambda>m.
    effect Internal (hs_add_comment L (mr_id m) (user_id_of ctx) body path) (\<lambda>_. give ()))))))"

section \<open>Collaborators\<close>

definition list_members :: "('r, 'v, 'i, 'z) hosting_scheme \<Rightarrow> principal option \<Rightarrow> rkey
    \<Rightarrow> ('v, (string \<times> string) list) act" where
  "list_members L ctx rp =
    demand (opened L ctx rp CapRead ''reading collaborators'') (
    look Internal (\<lambda>v. hs_members L v rp) (\<lambda>ms.
    peek (\<lambda>v. (case ce_user (vc_central L v) (hs_owner L v rp) of Some o' \<Rightarrow> [(us_name o', ''owner'')] | None \<Rightarrow> [])
               @ map (\<lambda>(i, role). (user_name L v (Some i), role)) ms) give))"

definition user_named :: "('r, 'v, 'i, 'z) hosting_scheme \<Rightarrow> 'v \<Rightarrow> string \<Rightarrow> string + user" where
  "user_named L v name =
    (case ce_by_name (vc_central L v) name of
       Some u \<Rightarrow> Inr u
     | None \<Rightarrow> Inl (''user '' @ go_quote name @ '' not found''))"

definition set_member :: "('r, 'v, 'i, 'z) hosting_scheme \<Rightarrow> principal option \<Rightarrow> rkey \<Rightarrow> string \<Rightarrow> string
    \<Rightarrow> ('v, unit) act" where
  "set_member L ctx rp name role =
    demand (needs L ctx rp CapPush ''managing collaborators'') (
    demand (opened L ctx rp CapRead ''reading a repository'') (
    look NotFound (\<lambda>v. user_named L v name) (\<lambda>u.
    effect InvalidArgument (hs_set_member L rp (us_id u) (if role = '''' then ''developer'' else role) (user_id_of ctx))
      (\<lambda>_. give ()))))"

definition remove_member :: "('r, 'v, 'i, 'z) hosting_scheme \<Rightarrow> principal option \<Rightarrow> rkey \<Rightarrow> string \<Rightarrow> ('v, unit) act" where
  "remove_member L ctx rp name =
    demand (needs L ctx rp CapPush ''managing collaborators'') (
    demand (opened L ctx rp CapRead ''reading a repository'') (
    look NotFound (\<lambda>v. user_named L v name) (\<lambda>u.
    effect Internal (hs_del_member L rp (us_id u)) (\<lambda>_. give ()))))"

section \<open>Organizations and mirrors\<close>

fun delete_each :: "('r, 'v, 'i, 'z) hosting_scheme \<Rightarrow> string \<Rightarrow> rkey list \<Rightarrow> ('v, unit) act" where
  "delete_each L ns [] = give ()"
| "delete_each L ns (rp # rps) =
     (if fst rp \<noteq> ns then delete_each L ns rps
      else effect Internal (vc_delete L rp) (\<lambda>_. delete_each L ns rps))"

definition delete_org :: "('r, 'v, 'i, 'z) hosting_scheme \<Rightarrow> principal option \<Rightarrow> string \<Rightarrow> ('v, unit) act" where
  "delete_org L ctx ns =
    look Internal (\<lambda>v. vc_accessible L v (user_id_of ctx)) (delete_each L ns)"

definition get_mirror :: "('r, 'v, 'i, 'z) hosting_scheme \<Rightarrow> principal option \<Rightarrow> rkey \<Rightarrow> ('v, string \<times> string) act" where
  "get_mirror L ctx rp =
    demand (opened L ctx rp CapRead ''reading a repository'') (
    look Internal (\<lambda>v. vc_meta L v rp) (\<lambda>me.
    peek (\<lambda>v. (if me_kind me = ''mirror'' then me_url me else '''',
               case hs_pushes L v rp of Inr (p # _) \<Rightarrow> pm_url p | _ \<Rightarrow> '''')) give))"

definition set_mirror :: "('r, 'v, 'i, 'z) hosting_scheme \<Rightarrow> principal option \<Rightarrow> rkey \<Rightarrow> string \<Rightarrow> string
    \<Rightarrow> string \<Rightarrow> ('v, unit) act" where
  "set_mirror L ctx rp pull_url push_url push_secret =
    demand (opened L ctx rp CapRead ''reading a repository'') (
    look Internal (\<lambda>v. vc_meta L v rp) (\<lambda>me.
    let push = (if push_url \<noteq> '''' \<or> push_secret \<noteq> ''''
                then effect Internal (hs_put_push L rp \<lparr> pm_name = ''default'', pm_url = push_url,
                       pm_branch = me_default me, pm_token = push_secret, pm_last = '''' \<rparr>) (\<lambda>_. give ())
                else give ())
    in if pull_url \<noteq> ''''
       then effect Internal (vc_put_mirror L rp (me\<lparr> me_kind := ''mirror'', me_url := pull_url \<rparr>)) (\<lambda>_. push)
       else push))"

definition drop_pushes :: "('r, 'v, 'i, 'z) hosting_scheme \<Rightarrow> rkey \<Rightarrow> 'v \<Rightarrow> 'v" where
  "drop_pushes L rp v =
    (case hs_pushes L v rp of
       Inl _ \<Rightarrow> v
     | Inr ps \<Rightarrow> fold (\<lambda>p. hs_del_push L rp (pm_name p)) ps v)"

definition delete_mirror :: "('r, 'v, 'i, 'z) hosting_scheme \<Rightarrow> principal option \<Rightarrow> rkey \<Rightarrow> ('v, unit) act" where
  "delete_mirror L ctx rp =
    demand (opened L ctx rp CapRead ''reading a repository'') (
    look Internal (\<lambda>v. vc_meta L v rp) (\<lambda>me.
    let pushes = effect Internal (\<lambda>v. (Inr (), drop_pushes L rp v)) (\<lambda>_. give ())
    in if me_kind me = ''mirror''
       then effect Internal (vc_put_mirror L rp
              (me\<lparr> me_kind := ''normal'', me_url := '''', me_branch := '''', me_token := '''' \<rparr>)) (\<lambda>_. pushes)
       else pushes))"

text \<open>A failed pull or push is recorded before the error is returned.\<close>

definition sync_pull :: "('r, 'v, 'i, 'z) hosting_scheme \<Rightarrow> int \<Rightarrow> rkey \<Rightarrow> repo_meta \<Rightarrow> ('v, string) act" where
  "sync_pull L now rp me v =
    (case hs_pull L rp (me_url me) (me_branch me) (me_token me) v of
       (Inl e, v') \<Rightarrow> (Fail (ConnErr InvalidArgument e), hs_touch L rp '''' now e v')
     | (Inr rid, v') \<Rightarrow> (Done '''', hs_touch L rp rid now '''' v'))"

definition sync_push :: "('r, 'v, 'i, 'z) hosting_scheme \<Rightarrow> rkey \<Rightarrow> push_mirror \<Rightarrow> ('v, string) act" where
  "sync_push L rp m v =
    (case hs_push L rp m v of
       (Inl e, v') \<Rightarrow> (Fail (ConnErr InvalidArgument e), hs_push_sync L rp (pm_name m) (pm_last m) e v')
     | (Inr rid, v') \<Rightarrow> (Done rid, hs_push_sync L rp (pm_name m) rid '''' v'))"

definition sync_mirror :: "('r, 'v, 'i, 'z) hosting_scheme \<Rightarrow> int \<Rightarrow> principal option \<Rightarrow> rkey \<Rightarrow> string
    \<Rightarrow> ('v, string) act" where
  "sync_mirror L now ctx rp name =
    demand (opened L ctx rp CapRead ''reading a repository'') (
    peek (\<lambda>v. ce_mirror (vc_central L v) (fst rp) (snd rp)) (\<lambda>is_mirror.
    if is_mirror then look Internal (\<lambda>v. vc_meta L v rp) (sync_pull L now rp)
    else look NotFound (\<lambda>v. hs_push_of L v rp (if name = '''' then ''default'' else name)) (sync_push L rp)))"

section \<open>Releases\<close>

definition release_repository :: "rkey \<Rightarrow> string" where
  "release_repository rp = fst rp @ '':'' @ snd rp"

record release_view =
  rl_tag :: string
  rl_meta :: release_meta
  rl_assets :: "blob_ref list"

definition no_meta :: release_meta where
  "no_meta = \<lparr> rm_name = '''', rm_desc = '''', rm_revision = '''', rm_draft = False, rm_prerelease = False, rm_created = 0 \<rparr>"

definition release_view_of :: "artifact \<Rightarrow> release_view" where
  "release_view_of a =
    \<lparr> rl_tag = ar_version a, rl_meta = (case ar_meta a of Some m \<Rightarrow> m | None \<Rightarrow> no_meta), rl_assets = ar_blobs a \<rparr>"

definition list_releases :: "('r, 'v, 'i, 'z) hosting_scheme \<Rightarrow> principal option \<Rightarrow> rkey
    \<Rightarrow> ('v, release_view list) act" where
  "list_releases L ctx rp =
    demand (opened L ctx rp CapRead ''reading a repository'') (
    look Internal (\<lambda>v. hs_versions L v (release_repository rp)) (\<lambda>vs.
    peek (\<lambda>v. List.map_filter (\<lambda>t. case hs_art L v (release_repository rp) t of
             Inr a \<Rightarrow> Some (release_view_of a) | Inl _ \<Rightarrow> None) vs) give))"

definition create_release :: "('r, 'v, 'i, 'z) hosting_scheme \<Rightarrow> int \<Rightarrow> principal option \<Rightarrow> rkey \<Rightarrow> string
    \<Rightarrow> release_meta \<Rightarrow> ('v, string) act" where
  "create_release L now ctx rp tag meta =
    demand (needs L ctx rp CapMerge ''creating a release'') (
    demand (opened L ctx rp CapRead ''reading a repository'') (
    if tag = '''' then refuse InvalidArgument ''tag required''
    else effect Internal (hs_put_art L \<lparr> ar_format = ''generic'', ar_repo = release_repository rp,
           ar_version = tag, ar_meta = Some (meta\<lparr> rm_created := now \<rparr>), ar_blobs = [] \<rparr>) (\<lambda>_. give tag)))"

definition delete_release :: "('r, 'v, 'i, 'z) hosting_scheme \<Rightarrow> principal option \<Rightarrow> rkey \<Rightarrow> string \<Rightarrow> ('v, unit) act" where
  "delete_release L ctx rp tag =
    demand (needs L ctx rp CapMerge ''deleting a release'') (
    demand (opened L ctx rp CapRead ''reading a repository'') (
    look NotFound (\<lambda>v. hs_art L v (release_repository rp) tag) (\<lambda>a.
    effect Internal (\<lambda>v. (Inr (), fold (\<lambda>b. hs_del_blob L (bl_digest b)) (ar_blobs a) v)) (\<lambda>_.
    effect Internal (hs_del_art L (release_repository rp) tag) (\<lambda>_. give ())))))"

definition no_artifact :: artifact where
  "no_artifact = \<lparr> ar_format = '''', ar_repo = '''', ar_version = '''', ar_meta = None, ar_blobs = [] \<rparr>"

definition upload_release_asset :: "('r, 'v, 'i, 'z) hosting_scheme \<Rightarrow> principal option \<Rightarrow> rkey \<Rightarrow> string
    \<Rightarrow> string \<Rightarrow> string \<Rightarrow> ('v, string) act" where
  "upload_release_asset L ctx rp tag name data =
    demand (needs L ctx rp CapMerge ''uploading a release asset'') (
    demand (opened L ctx rp CapRead ''reading a repository'') (
    look NotFound (\<lambda>v. hs_art L v (release_repository rp) tag) (\<lambda>_.
    if name = '''' then refuse InvalidArgument ''name required''
    else effect Internal (hs_put_blob L (hs_digest L data) data) (\<lambda>_.
         peek (\<lambda>v. case hs_art L v (release_repository rp) tag of Inr a \<Rightarrow> a | Inl _ \<Rightarrow> no_artifact) (\<lambda>a.
         effect Internal (hs_put_art L (a\<lparr> ar_blobs := filter (\<lambda>b. bl_name b \<noteq> name) (ar_blobs a)
             @ [\<lparr> bl_name = name, bl_digest = hs_digest L data, bl_size = length data, bl_type = '''' \<rparr>] \<rparr>))
           (\<lambda>_. give name))))))"

definition no_blob_ref :: blob_ref where
  "no_blob_ref = \<lparr> bl_name = '''', bl_digest = '''', bl_size = 0, bl_type = '''' \<rparr>"

definition download_release_asset :: "('r, 'v, 'i, 'z) hosting_scheme \<Rightarrow> principal option \<Rightarrow> rkey \<Rightarrow> string
    \<Rightarrow> string \<Rightarrow> ('v, string \<times> string \<times> string) act" where
  "download_release_asset L ctx rp tag name =
    demand (opened L ctx rp CapRead ''reading a repository'') (
    look NotFound (\<lambda>v. hs_art L v (release_repository rp) tag) (\<lambda>a.
    let b = (case find (\<lambda>b. bl_name b = name) (ar_blobs a) of Some b \<Rightarrow> b | None \<Rightarrow> no_blob_ref) in
    if hs_no_blob L b then refuse NotFound ''''
    else look NotFound (\<lambda>v. hs_blob L v (bl_digest b)) (\<lambda>d. give (d, bl_name b, bl_type b))))"

end
