(* ===== verification/Lab_Access.thy ===== *)
theory Lab_Access
imports Lab_Hosting Access_Correct
begin

text \<open>
  What the lab service lets a caller change.  The calls that write are one type, with the role
  each of them demands; the theorem is that a call that changes anything was made by a caller who
  holds that role, and its proof follows the shape of the handlers.
\<close>

datatype lab_call =
    CallCreateRepo rkey | CallEnsureRepo rkey | CallDeleteRepo rkey | CallForkRepo rkey string
  | CallUpdateRepo rkey "string option" "string option" "string option"
  | CallWriteBlob rkey string string string string
  | CallWriteFiles rkey string string bool "change_item list"
  | CallCreateBranch rkey string string | CallDeleteBranch rkey string
  | CallSetTag rkey string string | CallDeleteTag rkey string
  | CallDrop rkey string | CallRevert rkey string string | CallResolve rkey string string
  | CallSquash rkey string | CallRebase rkey string "string list" | CallRebaseMany rkey "string list" string
  | CallCreateMr rkey string string string string | CallUpdateMr rkey string string | CallMergeMr rkey string
  | CallAddReview rkey string string string | CallAddComment rkey string string string
  | CallSetMember rkey string string | CallRemoveMember rkey string
  | CallCreateRelease rkey string release_meta | CallDeleteRelease rkey string
  | CallUploadAsset rkey string string string
  | CallSetMirror rkey string string string | CallDeleteMirror rkey | CallSyncMirror rkey string
  | CallDeleteOrg string

definition quiet :: "('v, 'a) act \<Rightarrow> ('v, unit) act" where
  "quiet m v = (case m v of (Done _, v') \<Rightarrow> (Done (), v') | (Fail e, v') \<Rightarrow> (Fail e, v')
     | (Panic, v') \<Rightarrow> (Panic, v') | (Diverge, v') \<Rightarrow> (Diverge, v'))"

fun run_call :: "('r, 'v, 'i, 'z) hosting_scheme \<Rightarrow> int \<Rightarrow> principal option \<Rightarrow> lab_call \<Rightarrow> ('v, unit) act" where
  "run_call L now ctx (CallCreateRepo rp) = create_repo L ctx rp"
| "run_call L now ctx (CallEnsureRepo rp) = lab_ensure_repo L ctx rp"
| "run_call L now ctx (CallDeleteRepo rp) = quiet (delete_repo L ctx rp)"
| "run_call L now ctx (CallForkRepo rp to) = fork_repo L ctx rp to"
| "run_call L now ctx (CallUpdateRepo rp d vis b) = update_repo L ctx rp d vis b"
| "run_call L now ctx (CallWriteBlob rp ref path c raw) = write_blob L ctx rp ref path c raw"
| "run_call L now ctx (CallWriteFiles rp ref m new cs) = quiet (write_files L ctx rp ref m new cs)"
| "run_call L now ctx (CallCreateBranch rp b f) = create_branch L ctx rp b f"
| "run_call L now ctx (CallDeleteBranch rp b) = lab_delete_branch L ctx rp b"
| "run_call L now ctx (CallSetTag rp n t) = set_tag L ctx rp n t"
| "run_call L now ctx (CallDeleteTag rp n) = delete_tag L ctx rp n"
| "run_call L now ctx (CallDrop rp x) = quiet (drop_rev L ctx rp x)"
| "run_call L now ctx (CallRevert rp x t) = quiet (revert_rev L ctx rp x t)"
| "run_call L now ctx (CallResolve rp path c) = quiet (resolve_conflict L ctx rp path c)"
| "run_call L now ctx (CallSquash rp x) = quiet (squash_rev L ctx rp x)"
| "run_call L now ctx (CallRebase rp x ps) = quiet (rebase_rev L ctx rp x ps)"
| "run_call L now ctx (CallRebaseMany rp xs o') = rebase_many L ctx rp xs o'"
| "run_call L now ctx (CallCreateMr rp t d s g) = quiet (create_mr L ctx rp t d s g)"
| "run_call L now ctx (CallUpdateMr rp i s) = update_mr L ctx rp i s"
| "run_call L now ctx (CallMergeMr rp i) = quiet (merge_mr L ctx rp i)"
| "run_call L now ctx (CallAddReview rp i s b) = add_review L ctx rp i s b"
| "run_call L now ctx (CallAddComment rp i b p) = add_comment L ctx rp i b p"
| "run_call L now ctx (CallSetMember rp n r) = set_member L ctx rp n r"
| "run_call L now ctx (CallRemoveMember rp n) = remove_member L ctx rp n"
| "run_call L now ctx (CallCreateRelease rp t m) = quiet (create_release L now ctx rp t m)"
| "run_call L now ctx (CallDeleteRelease rp t) = delete_release L ctx rp t"
| "run_call L now ctx (CallUploadAsset rp t n d) = quiet (upload_release_asset L ctx rp t n d)"
| "run_call L now ctx (CallSetMirror rp pl ps sec) = set_mirror L ctx rp pl ps sec"
| "run_call L now ctx (CallDeleteMirror rp) = delete_mirror L ctx rp"
| "run_call L now ctx (CallSyncMirror rp n) = quiet (sync_mirror L now ctx rp n)"
| "run_call L now ctx (CallDeleteOrg ns) = delete_org L ctx ns"

datatype demand = Nothing | SignedIn | HasRole capability rkey | SignedInWithRole capability rkey

fun call_demand :: "lab_call \<Rightarrow> demand" where
  "call_demand (CallCreateRepo rp) = SignedIn"
| "call_demand (CallEnsureRepo rp) = SignedIn"
| "call_demand (CallForkRepo rp to) = SignedInWithRole CapPropose rp"
| "call_demand (CallCreateMr rp t d s g) = SignedInWithRole CapPropose rp"
| "call_demand (CallAddReview rp i s b) = SignedInWithRole CapPropose rp"
| "call_demand (CallAddComment rp i b p) = SignedInWithRole CapPropose rp"
| "call_demand (CallSetTag rp n t) = HasRole CapMerge rp"
| "call_demand (CallDeleteTag rp n) = HasRole CapMerge rp"
| "call_demand (CallUpdateMr rp i s) = HasRole CapMerge rp"
| "call_demand (CallMergeMr rp i) = HasRole CapMerge rp"
| "call_demand (CallCreateRelease rp t m) = HasRole CapMerge rp"
| "call_demand (CallDeleteRelease rp t) = HasRole CapMerge rp"
| "call_demand (CallUploadAsset rp t n d) = HasRole CapMerge rp"
| "call_demand (CallDeleteRepo rp) = HasRole CapPush rp"
| "call_demand (CallUpdateRepo rp d vis b) = HasRole CapPush rp"
| "call_demand (CallWriteBlob rp ref path c raw) = HasRole CapPush rp"
| "call_demand (CallWriteFiles rp ref m new cs) = HasRole CapPush rp"
| "call_demand (CallCreateBranch rp b f) = HasRole CapPush rp"
| "call_demand (CallDeleteBranch rp b) = HasRole CapPush rp"
| "call_demand (CallDrop rp x) = HasRole CapPush rp"
| "call_demand (CallRevert rp x t) = HasRole CapPush rp"
| "call_demand (CallResolve rp path c) = HasRole CapPush rp"
| "call_demand (CallSquash rp x) = HasRole CapPush rp"
| "call_demand (CallRebase rp x ps) = HasRole CapPush rp"
| "call_demand (CallRebaseMany rp xs o') = HasRole CapPush rp"
| "call_demand (CallSetMember rp n r) = HasRole CapPush rp"
| "call_demand (CallRemoveMember rp n) = HasRole CapPush rp"
| "call_demand (CallSetMirror rp pl ps sec) = HasRole CapRead rp"
| "call_demand (CallDeleteMirror rp) = HasRole CapRead rp"
| "call_demand (CallSyncMirror rp n) = HasRole CapRead rp"
| "call_demand (CallDeleteOrg ns) = Nothing"

definition may :: "('r, 'v, 'i, 'z) vcs_scheme \<Rightarrow> principal option \<Rightarrow> capability \<Rightarrow> rkey \<Rightarrow> 'v \<Rightarrow> bool" where
  "may L ctx cap rp v = has_role (vc_central L v) ctx (cap_of (vc_central L v) cap) (fst rp) (snd rp)"

fun demand_met :: "('r, 'v, 'i, 'z) vcs_scheme \<Rightarrow> principal option \<Rightarrow> demand \<Rightarrow> 'v \<Rightarrow> bool" where
  "demand_met L ctx Nothing v = True"
| "demand_met L ctx SignedIn v = (\<not> pl_anonymous (principal_of ctx))"
| "demand_met L ctx (HasRole cap rp) v = may L ctx cap rp v"
| "demand_met L ctx (SignedInWithRole cap rp) v = (\<not> pl_anonymous (principal_of ctx) \<and> may L ctx cap rp v)"

section \<open>The checks guard what follows them\<close>

lemma guarded_needs: "guarded_by (may L ctx cap rp) (demand (needs L ctx rp cap action) m)"
  by (intro guarded_demand) (simp add: may_def needs_def require_repo_action_None)

lemma opened_None: "opened L ctx rp cap action v = None \<Longrightarrow> may L ctx cap rp v"
  by (simp add: may_def opened_def open_repo_authorized_def require_repo_action_None[symmetric, where action = action]
      split: option.splits)

lemma guarded_opened: "guarded_by (may L ctx cap rp) (demand (opened L ctx rp cap action) m)"
  by (intro guarded_demand opened_None)

lemma guarded_signed: "guarded_by (\<lambda>_. \<not> pl_anonymous (principal_of ctx))
    (demand (\<lambda>_. require_authenticated ctx action) m)"
  by (intro guarded_demand) (simp add: require_authenticated_def split: if_splits)

lemma guarded_true: "guarded_by (\<lambda>_. True) m"
  by (simp add: guarded_by_def)

lemma guarded_both: "guarded_by P m \<Longrightarrow> guarded_by Q m \<Longrightarrow> guarded_by (\<lambda>v. P v \<and> Q v) m"
  by (auto simp: guarded_by_def)

lemma guarded_signed_needs: "guarded_by (\<lambda>v. \<not> pl_anonymous (principal_of ctx) \<and> may L ctx cap rp v)
    (demand (\<lambda>_. require_authenticated ctx a) (demand (needs L ctx rp cap b) m))"
  by (intro guarded_both guarded_signed guarded_demand_later guarded_needs)

lemma guarded_needs_signed: "guarded_by (\<lambda>v. \<not> pl_anonymous (principal_of ctx) \<and> may L ctx cap rp v)
    (demand (needs L ctx rp cap b) (demand (\<lambda>_. require_authenticated ctx a) m))"
  by (intro guarded_both guarded_needs guarded_demand_later guarded_signed)

lemma guarded_quiet: "guarded_by P m \<Longrightarrow> guarded_by P (quiet m)"
proof -
  have "snd (quiet m v) = snd (m v)" for v
    by (cases "m v"; cases "fst (m v)") (simp_all add: quiet_def)
  then show "guarded_by P m \<Longrightarrow> guarded_by P (quiet m)" by (simp add: guarded_by_def)
qed

lemmas handler_defs =
  create_repo_def lab_ensure_repo_def delete_repo_def fork_repo_def update_repo_def write_blob_def write_files_def
  create_branch_def lab_delete_branch_def set_tag_def delete_tag_def history_edit_def drop_rev_def revert_rev_def
  resolve_conflict_def squash_rev_def rebase_rev_def rebase_many_def create_mr_def update_mr_def merge_mr_def
  add_review_def add_comment_def set_member_def remove_member_def create_release_def delete_release_def
  upload_release_asset_def set_mirror_def delete_mirror_def sync_mirror_def

lemma demand_met_fun:
  "demand_met L ctx Nothing = (\<lambda>_. True)"
  "demand_met L ctx SignedIn = (\<lambda>_. \<not> pl_anonymous (principal_of ctx))"
  "demand_met L ctx (HasRole cap rp) = may L ctx cap rp"
  "demand_met L ctx (SignedInWithRole cap rp) = (\<lambda>v. \<not> pl_anonymous (principal_of ctx) \<and> may L ctx cap rp v)"
  by (simp_all add: fun_eq_iff)

lemmas check_guards =
  guarded_quiet guarded_true guarded_signed guarded_signed_needs guarded_needs_signed guarded_needs guarded_opened

lemma run_call_guarded: "guarded_by (demand_met L ctx (call_demand c)) (run_call L now ctx c)"
  by (cases c; simp only: run_call.simps call_demand.simps demand_met_fun handler_defs; rule check_guards;
      (rule check_guards)?)

text \<open>
  C13: A call of the lab service that changes anything was made by a caller who meets the demand
  of the call: signed in to create a repository; signed in and allowed to propose, to fork, open a
  merge request, review or comment; allowed to merge, to tag, release or merge; allowed to push,
  to write, to edit branches, history, settings or collaborators.  For the mirror calls the demand
  is only to read, and for the deletion of an organization there is none.
\<close>
theorem lab_writes_authorized:
  assumes "run_call L now ctx c v = (r, v')" "v' \<noteq> v"
  shows "demand_met L ctx (call_demand c) v"
  by (rule guarded_byD[OF run_call_guarded assms])

end
