(* ===== verification/Dfs.thy ===== *)
theory Dfs
imports Main
begin

text \<open>
  The depth-first walk the program writes as a local recursive function: mark a node when it is
  entered, walk its successors, emit the node when it is left.  \<^verbatim>\<open>stop\<close> is the test at the head
  of the function, beside the test for a marked node.

  The recursion follows paths of marked nodes, so it is bounded by fuel.  The locale \<^verbatim>\<open>dfs_graph\<close>
  states the client's side (only the nodes of a finite set have successors) and gives what every
  client needs: the fuel that is enough, the nodes that are marked, and the order of the output.
\<close>

fun dfs :: "nat \<Rightarrow> ('a \<Rightarrow> bool) \<Rightarrow> ('a \<Rightarrow> 'a list) \<Rightarrow> 'a \<Rightarrow> 'a list \<times> 'a list \<Rightarrow> ('a list \<times> 'a list) option"
  and dfs_list :: "nat \<Rightarrow> ('a \<Rightarrow> bool) \<Rightarrow> ('a \<Rightarrow> 'a list) \<Rightarrow> 'a list \<Rightarrow> 'a list \<times> 'a list \<Rightarrow> ('a list \<times> 'a list) option"
  where
  "dfs n stop nexts x (vis, out) =
     (if stop x \<or> x \<in> set vis then Some (vis, out)
      else case n of
             0 \<Rightarrow> None
           | Suc m \<Rightarrow>
               (case dfs_list m stop nexts (nexts x) (x # vis, out) of
                  None \<Rightarrow> None
                | Some (vis', out') \<Rightarrow> Some (vis', out' @ [x])))"
| "dfs_list n stop nexts [] s = Some s"
| "dfs_list n stop nexts (x # xs) s =
     (case dfs n stop nexts x s of None \<Rightarrow> None | Some s' \<Rightarrow> dfs_list n stop nexts xs s')"

lemmas dfs_unfold = dfs.simps(1)

declare dfs.simps(1) [simp del]

inductive past :: "('a \<Rightarrow> bool) \<Rightarrow> ('a \<Rightarrow> 'a list) \<Rightarrow> 'a \<Rightarrow> 'a \<Rightarrow> bool" for stop nexts where
  past_here: "\<not> stop x \<Longrightarrow> past stop nexts x x"
| past_step: "\<not> stop x \<Longrightarrow> y \<in> set (nexts x) \<Longrightarrow> past stop nexts y z \<Longrightarrow> past stop nexts x z"

lemma past_stop: "past stop nexts x y \<Longrightarrow> \<not> stop x \<and> \<not> stop y"
  by (induction rule: past.induct) auto

lemma past_trans: "past stop nexts x y \<Longrightarrow> past stop nexts y z \<Longrightarrow> past stop nexts x z"
  by (induction rule: past.induct) (auto intro: past_step)

lemma past_edge: "\<not> stop x \<Longrightarrow> y \<in> set (nexts x) \<Longrightarrow> \<not> stop y \<Longrightarrow> past stop nexts x y"
  by (auto intro: past_step past_here)

lemma past_snoc: "past stop nexts x y \<Longrightarrow> z \<in> set (nexts y) \<Longrightarrow> \<not> stop z \<Longrightarrow> past stop nexts x z"
  using past_trans[of stop nexts x y z] past_edge[of stop y z nexts] past_stop[of stop nexts x y] by blast

section \<open>What a walk adds\<close>

definition grown :: "('a \<Rightarrow> bool) \<Rightarrow> ('a \<Rightarrow> 'a list) \<Rightarrow> 'a list \<Rightarrow> 'a list \<times> 'a list \<Rightarrow> 'a list \<times> 'a list \<Rightarrow> bool" where
  "grown stop nexts xs s s' \<longleftrightarrow>
    set (fst s) \<subseteq> set (fst s')
    \<and> (distinct (fst s) \<longrightarrow> distinct (fst s'))
    \<and> (\<exists>more. snd s' = snd s @ more \<and> distinct more \<and> set more = set (fst s') - set (fst s))
    \<and> (\<forall>y\<in>set (fst s') - set (fst s). \<exists>x\<in>set xs. past stop nexts x y)
    \<and> (\<forall>y\<in>set (fst s') - set (fst s). \<forall>z\<in>set (nexts y). stop z \<or> z \<in> set (fst s'))
    \<and> (\<forall>x\<in>set xs. stop x \<or> x \<in> set (fst s'))"

lemma grown_Nil: "grown stop nexts [] s s"
  by (simp add: grown_def)

lemma grown_Cons:
  assumes 1: "grown stop nexts [x] s s1" and 2: "grown stop nexts xs s1 s2"
  shows "grown stop nexts (x # xs) s s2"
proof -
  obtain m1 where m1: "snd s1 = snd s @ m1" "distinct m1" "set m1 = set (fst s1) - set (fst s)"
    using 1 by (auto simp: grown_def)
  obtain m2 where m2: "snd s2 = snd s1 @ m2" "distinct m2" "set m2 = set (fst s2) - set (fst s1)"
    using 2 by (auto simp: grown_def)
  have sub: "set (fst s) \<subseteq> set (fst s1)" "set (fst s1) \<subseteq> set (fst s2)"
    using 1 2 by (simp_all add: grown_def)
  have "\<exists>more. snd s2 = snd s @ more \<and> distinct more \<and> set more = set (fst s2) - set (fst s)"
  proof (intro exI conjI)
    show "snd s2 = snd s @ m1 @ m2" using m1 m2 by simp
    show "distinct (m1 @ m2)" using m1 m2 by auto
    show "set (m1 @ m2) = set (fst s2) - set (fst s)" using m1 m2 sub by auto
  qed
  moreover have "\<exists>u\<in>set (x # xs). past stop nexts u y" if "y \<in> set (fst s2) - set (fst s)" for y
  proof (cases "y \<in> set (fst s1)")
    case True
    then show ?thesis using that 1 unfolding grown_def by force
  next
    case False
    then have "y \<in> set (fst s2) - set (fst s1)" using that by blast
    then have "\<exists>u\<in>set xs. past stop nexts u y" using 2 unfolding grown_def by blast
    then show ?thesis by auto
  qed
  moreover have "stop z \<or> z \<in> set (fst s2)" if y: "y \<in> set (fst s2) - set (fst s)" "z \<in> set (nexts y)" for y z
  proof (cases "y \<in> set (fst s1)")
    case True
    then have "stop z \<or> z \<in> set (fst s1)" using y 1 unfolding grown_def by blast
    then show ?thesis using sub by blast
  next
    case False
    then show ?thesis using y 2 unfolding grown_def by blast
  qed
  moreover have "stop u \<or> u \<in> set (fst s2)" if "u \<in> set (x # xs)" for u
  proof (cases "u = x")
    case True
    then have "stop u \<or> u \<in> set (fst s1)" using 1 unfolding grown_def by simp
    then show ?thesis using sub by blast
  next
    case False
    then show ?thesis using that 2 unfolding grown_def by simp
  qed
  moreover have "distinct (fst s) \<longrightarrow> distinct (fst s2)" using 1 2 by (simp add: grown_def)
  ultimately show ?thesis using sub unfolding grown_def by blast
qed

lemma grown_enter:
  assumes x: "\<not> stop x" "x \<notin> set vis" and 1: "grown stop nexts (nexts x) (x # vis, out) (vis', out')"
  shows "grown stop nexts [x] (vis, out) (vis', out' @ [x])"
proof -
  obtain m where m: "out' = out @ m" "distinct m" "set m = set vis' - insert x (set vis)"
    using 1 by (auto simp: grown_def)
  have sub: "insert x (set vis) \<subseteq> set vis'" using 1 by (simp add: grown_def)
  have "distinct (m @ [x]) \<and> set (m @ [x]) = set vis' - set vis"
    using m sub x by auto
  moreover have "past stop nexts x y" if "y \<in> set vis' - set vis" for y
  proof (cases "y = x")
    case True
    then show ?thesis using x by (auto intro: past_here)
  next
    case False
    then have "y \<in> set vis' - insert x (set vis)" using that by blast
    moreover have "\<forall>y\<in>set vis' - insert x (set vis). \<exists>u\<in>set (nexts x). past stop nexts u y"
      using 1 by (simp add: grown_def)
    ultimately obtain u where "u \<in> set (nexts x)" "past stop nexts u y" by blast
    then show ?thesis using x by (auto intro: past_step)
  qed
  moreover have "stop z \<or> z \<in> set vis'" if "y \<in> set vis' - set vis" "z \<in> set (nexts y)" for y z
    using that 1 by (cases "y = x") (auto simp: grown_def)
  moreover have "distinct vis \<longrightarrow> distinct vis'" using 1 x by (simp add: grown_def)
  ultimately show ?thesis
    unfolding grown_def using sub m(1) by (auto intro!: exI[of _ "m @ [x]"])
qed

lemma dfs_grown:
  "dfs n stop nexts x s = Some s' \<Longrightarrow> grown stop nexts [x] s s'"
  "dfs_list n stop nexts xs s = Some s' \<Longrightarrow> grown stop nexts xs s s'"
proof (induction n stop nexts x s and n stop nexts xs s arbitrary: s' and s' rule: dfs_dfs_list.induct)
  case (1 n stop nexts x vis out)
  show ?case
  proof (cases "stop x \<or> x \<in> set vis")
    case True
    then show ?thesis using "1.prems" by (auto simp: dfs_unfold grown_def)
  next
    case False
    then obtain m vis' out' where m: "n = Suc m"
        "dfs_list m stop nexts (nexts x) (x # vis, out) = Some (vis', out')" "s' = (vis', out' @ [x])"
      using "1.prems" by (auto simp: dfs_unfold split: nat.splits option.splits)
    have "grown stop nexts (nexts x) (x # vis, out) (vis', out')" by (rule "1.IH"[OF False m(1,2)])
    then show ?thesis using False m(3) by (auto intro: grown_enter)
  qed
next
  case (2 n stop nexts s)
  then show ?case by (simp add: grown_Nil)
next
  case (3 n stop nexts x xs s)
  then obtain s1 where s1: "dfs n stop nexts x s = Some s1" "dfs_list n stop nexts xs s1 = Some s'"
    by (auto split: option.splits)
  show ?case by (rule grown_Cons[OF "3.IH"(1)[OF s1(1)] "3.IH"(2)[OF s1]])
qed

section \<open>The order of the output\<close>

definition later :: "('a \<Rightarrow> bool) \<Rightarrow> ('a \<Rightarrow> 'a list) \<Rightarrow> 'a \<Rightarrow> 'a \<Rightarrow> bool" where
  "later stop nexts x z \<longleftrightarrow> (\<exists>y\<in>set (nexts x). past stop nexts y z)"

definition no_cycle :: "('a \<Rightarrow> bool) \<Rightarrow> ('a \<Rightarrow> 'a list) \<Rightarrow> bool" where
  "no_cycle stop nexts \<longleftrightarrow> (\<forall>x. \<not> later stop nexts x x)"

definition ordered :: "('a \<Rightarrow> bool) \<Rightarrow> ('a \<Rightarrow> 'a list) \<Rightarrow> 'a list \<Rightarrow> bool" where
  "ordered stop nexts out \<longleftrightarrow>
    (\<forall>a y b. out = a @ y # b \<longrightarrow> (\<forall>z\<in>set (nexts y). stop z \<or> z \<in> set a))"

lemma ordered_Nil [simp]: "ordered stop nexts []"
  by (simp add: ordered_def)

lemma ordered_snoc:
  "ordered stop nexts (out @ [x]) \<longleftrightarrow>
    ordered stop nexts out \<and> (\<forall>z\<in>set (nexts x). stop z \<or> z \<in> set out)"
proof
  assume o: "ordered stop nexts (out @ [x])"
  have "\<forall>z\<in>set (nexts y). stop z \<or> z \<in> set a" if "out = a @ y # b" for a y b
    using o that unfolding ordered_def by (metis append.assoc append_Cons)
  moreover have "\<forall>z\<in>set (nexts x). stop z \<or> z \<in> set out"
    using o unfolding ordered_def by metis
  ultimately show "ordered stop nexts out \<and> (\<forall>z\<in>set (nexts x). stop z \<or> z \<in> set out)"
    unfolding ordered_def by metis
next
  assume o: "ordered stop nexts out \<and> (\<forall>z\<in>set (nexts x). stop z \<or> z \<in> set out)"
  show "ordered stop nexts (out @ [x])"
    unfolding ordered_def
  proof (intro allI impI)
    fix a y b
    assume e: "out @ [x] = a @ y # b"
    show "\<forall>z\<in>set (nexts y). stop z \<or> z \<in> set a"
    proof (cases b rule: rev_cases)
      case Nil
      then show ?thesis using e o by simp
    next
      case (snoc c d)
      then have "out = a @ y # c" using e by simp
      then show ?thesis using o unfolding ordered_def by metis
    qed
  qed
qed

lemma later_snoc: "later stop nexts x y \<Longrightarrow> z \<in> set (nexts y) \<Longrightarrow> \<not> stop z \<Longrightarrow> later stop nexts x z"
  unfolding later_def by (meson past_snoc)

definition on_stack :: "('a \<Rightarrow> bool) \<Rightarrow> ('a \<Rightarrow> 'a list) \<Rightarrow> 'a list \<Rightarrow> 'a list \<times> 'a list \<Rightarrow> bool" where
  "on_stack stop nexts xs s \<longleftrightarrow> set (snd s) \<subseteq> set (fst s) \<and> ordered stop nexts (snd s)
    \<and> (\<forall>v\<in>set (fst s) - set (snd s). \<forall>x\<in>set xs. stop x \<or> later stop nexts v x)"

lemma grown_stack: "grown stop nexts xs s s' \<Longrightarrow> set (snd s) \<subseteq> set (fst s) \<Longrightarrow>
    set (snd s') \<subseteq> set (fst s') \<and> set (fst s') - set (snd s') = set (fst s) - set (snd s)"
  unfolding grown_def by auto

lemma dfs_ordered:
  "dfs n stop nexts x s = Some s' \<Longrightarrow> no_cycle stop nexts \<Longrightarrow> on_stack stop nexts [x] s \<Longrightarrow>
    ordered stop nexts (snd s')"
  "dfs_list n stop nexts xs s = Some s' \<Longrightarrow> no_cycle stop nexts \<Longrightarrow> on_stack stop nexts xs s \<Longrightarrow>
    ordered stop nexts (snd s')"
proof (induction n stop nexts x s and n stop nexts xs s arbitrary: s' and s' rule: dfs_dfs_list.induct)
  case (1 n stop nexts x vis out)
  show ?case
  proof (cases "stop x \<or> x \<in> set vis")
    case True
    then show ?thesis using "1.prems" by (auto simp: dfs_unfold on_stack_def)
  next
    case False
    then obtain m vis' out' where m: "n = Suc m"
        "dfs_list m stop nexts (nexts x) (x # vis, out) = Some (vis', out')" "s' = (vis', out' @ [x])"
      using "1.prems" by (auto simp: dfs_unfold split: nat.splits option.splits)
    have sub: "set out \<subseteq> set vis" and st: "\<And>v. v \<in> set vis - set out \<Longrightarrow> later stop nexts v x"
      using "1.prems"(3) False by (auto simp: on_stack_def)
    have here: "later stop nexts x z" if "z \<in> set (nexts x)" "\<not> stop z" for z
      using that unfolding later_def by (auto intro: past_here)
    have "on_stack stop nexts (nexts x) (x # vis, out)"
      unfolding on_stack_def fst_conv snd_conv
    proof (intro conjI ballI)
      show "set out \<subseteq> set (x # vis)" using sub by auto
      show "ordered stop nexts out" using "1.prems"(3) by (simp add: on_stack_def)
      fix v z assume v: "v \<in> set (x # vis) - set out" and z: "z \<in> set (nexts x)"
      show "stop z \<or> later stop nexts v z"
      proof (cases "v = x")
        case True
        then show ?thesis using here z by blast
      next
        case False
        then have "later stop nexts v x" using v st by auto
        then show ?thesis using later_snoc z by metis
      qed
    qed
    then have o: "ordered stop nexts out'"
      using "1.IH"[OF False m(1,2)] "1.prems"(2) by simp
    have g: "grown stop nexts (nexts x) (x # vis, out) (vis', out')" by (rule dfs_grown(2)[OF m(2)])
    have S: "set vis' - set out' = insert x (set vis) - set out"
      using grown_stack[OF g] sub by auto
    have "z \<in> set out'" if z: "z \<in> set (nexts x)" "\<not> stop z" for z
    proof (rule ccontr)
      assume "z \<notin> set out'"
      moreover have "z \<in> set vis'" using g z by (auto simp: grown_def)
      ultimately have "z \<in> insert x (set vis) - set out" using S by blast
      then have "z = x \<or> later stop nexts z x" using st by auto
      then have "later stop nexts z z" using here[OF z] later_snoc[of stop nexts z x z] z by auto
      then show False using "1.prems"(2) by (simp add: no_cycle_def)
    qed
    then show ?thesis using o m(3) by (auto simp: ordered_snoc)
  qed
next
  case (2 n stop nexts s)
  then show ?case by (simp add: on_stack_def)
next
  case (3 n stop nexts x xs s)
  then obtain s1 where s1: "dfs n stop nexts x s = Some s1" "dfs_list n stop nexts xs s1 = Some s'"
    by (auto split: option.splits)
  have "on_stack stop nexts [x] s" using "3.prems"(3) by (simp add: on_stack_def)
  then have o1: "ordered stop nexts (snd s1)" by (rule "3.IH"(1)[OF s1(1) "3.prems"(2)])
  have "on_stack stop nexts xs s1"
    using "3.prems"(3) grown_stack[OF dfs_grown(1)[OF s1(1)]] o1 by (auto simp: on_stack_def)
  then show ?case by (rule "3.IH"(2)[OF s1 "3.prems"(2)])
qed

section \<open>Clients\<close>

locale dfs_graph =
  fixes stop :: "'a \<Rightarrow> bool" and nexts :: "'a \<Rightarrow> 'a list" and nodes :: "'a set"
  assumes finite_nodes: "finite nodes" and only_nodes: "nexts x \<noteq> [] \<Longrightarrow> x \<in> nodes"
begin

lemma fuel_step:
  assumes "x \<in> nodes" "x \<notin> set vis" "card (nodes - set vis) < Suc m"
  shows "card (nodes - set (x # vis)) < m"
proof -
  have "nodes - set (x # vis) = (nodes - set vis) - {x}" by auto
  moreover have "card ((nodes - set vis) - {x}) < card (nodes - set vis)"
    using assms finite_nodes by (intro psubset_card_mono) auto
  ultimately show ?thesis using assms(3) by simp
qed

lemma enough_fuel:
  "card (nodes - set (fst s)) < n \<Longrightarrow> dfs n stop nexts x s \<noteq> None"
  "card (nodes - set (fst s)) < n \<Longrightarrow> dfs_list n stop nexts xs s \<noteq> None"
proof (induction n arbitrary: x xs s)
  case (Suc m)
  have one: "dfs (Suc m) stop nexts x s \<noteq> None" if "card (nodes - set (fst s)) < Suc m" for x s
  proof -
    obtain vis out where s: "s = (vis, out)" by (cases s)
    show ?thesis
    proof (cases "nexts x = []")
      case True
      then show ?thesis by (simp add: s dfs_unfold)
    next
      case False
      then have "x \<notin> set vis \<Longrightarrow> card (nodes - set (x # vis)) < m"
        using fuel_step[of x vis m] only_nodes that by (simp add: s)
      then have "x \<notin> set vis \<Longrightarrow> dfs_list m stop nexts (nexts x) (x # vis, out) \<noteq> None"
        using Suc.IH(2)[of "(x # vis, out)" "nexts x"] by simp
      then show ?thesis by (auto simp: s dfs_unfold split: option.split)
    qed
  qed
  have many: "dfs_list (Suc m) stop nexts xs s \<noteq> None" if "card (nodes - set (fst s)) < Suc m" for xs s
    using that
  proof (induction xs arbitrary: s)
    case (Cons x xs)
    then obtain s1 where s1: "dfs (Suc m) stop nexts x s = Some s1" using one by fastforce
    have "card (nodes - set (fst s1)) \<le> card (nodes - set (fst s))"
      using dfs_grown(1)[OF s1] finite_nodes by (intro card_mono) (auto simp: grown_def)
    then show ?case using Cons s1 by simp
  qed simp
  { case 1 then show ?case by (rule one) next case 2 then show ?case by (rule many) }
qed simp_all

text \<open>A walk from nothing with enough fuel: what it marks and what it emits.\<close>

lemma walk_from_start:
  assumes "card nodes < n"
  obtains vis out where "dfs_list n stop nexts xs ([], []) = Some (vis, out)"
    "distinct vis" "distinct out" "set out = set vis"
    "set vis = {y. \<exists>x\<in>set xs. past stop nexts x y}"
    "no_cycle stop nexts \<Longrightarrow> ordered stop nexts out"
proof -
  have "dfs_list n stop nexts xs ([], []) \<noteq> None" using assms by (intro enough_fuel) simp
  then obtain vis out where r: "dfs_list n stop nexts xs ([], []) = Some (vis, out)" by fastforce
  have g: "grown stop nexts xs ([], []) (vis, out)" by (rule dfs_grown(2)[OF r])
  have closed: "y \<in> set vis" if "past stop nexts x y" "x \<in> set vis" for x y
    using that
  proof (induction rule: past.induct)
    case (past_step x y z)
    have "\<not> stop y" using past_stop[OF past_step.hyps(3)] by simp
    then have "y \<in> set vis" using g past_step.prems past_step.hyps(2) by (auto simp: grown_def)
    then show ?case by (rule past_step.IH)
  qed
  have "set vis = {y. \<exists>x\<in>set xs. past stop nexts x y}"
  proof (intro equalityI subsetI)
    fix y assume "y \<in> set vis"
    then show "y \<in> {y. \<exists>x\<in>set xs. past stop nexts x y}" using g by (auto simp: grown_def)
  next
    fix y assume "y \<in> {y. \<exists>x\<in>set xs. past stop nexts x y}"
    then obtain x where x: "x \<in> set xs" "past stop nexts x y" by auto
    then have "x \<in> set vis" using g by (auto simp: grown_def dest: past_stop)
    then show "y \<in> set vis" using closed x(2) by blast
  qed
  moreover have "distinct vis" "distinct out" "set out = set vis" using g by (auto simp: grown_def)
  moreover have "ordered stop nexts out" if "no_cycle stop nexts"
    using dfs_ordered(2)[OF r that] by (simp add: on_stack_def)
  ultimately show thesis using that r by blast
qed

end

end
