(* ===== verification/Lab_Rest.thy ===== *)
theory Lab_Rest
imports Lab_Server Gateway Dfs
begin

text \<open>
  The plain HTTP handlers of a repository and the smart protocol (\<^verbatim>\<open>cmd/easylab/main.go\<close>), behind
  the guards of \<^verbatim>\<open>Gateway\<close>.  A handler gets its decoded body, or the error of decoding it; it
  writes the status \<^verbatim>\<open>http_status\<close> gives for the error of the model.  Collecting and applying
  bundles is third-party code, a parameter of the two handlers that call it.

  A selective fetch asks for revisions and everything they descend from:
  \<^verbatim>\<open>change_set_with_ancestors\<close> is the depth-first walk of \<^verbatim>\<open>Dfs\<close> over the parents, with the number
  of revisions as fuel; the interpretation of \<^verbatim>\<open>dfs_graph\<close> shows the fuel is enough.
\<close>

fun http_status :: "conn_code \<Rightarrow> int" where
  "http_status InvalidArgument = 400"
| "http_status Unauthenticated = 401"
| "http_status PermissionDenied = 403"
| "http_status NotFound = 404"
| "http_status AlreadyExists = 409"
| "http_status _ = 500"

section \<open>Repositories and references\<close>

definition handle_create_repo :: "('r, 'v, 'i, 'z) vcs_scheme \<Rightarrow> rkey \<Rightarrow> ('v, string) act" where
  "handle_create_repo L rp =
    effect AlreadyExists (vc_create L 0 rp) (\<lambda>_. give (fst rp @ ''/'' @ snd rp))"

definition handle_list_repos :: "('r, 'v, 'i, 'z) vcs_scheme \<Rightarrow> header \<Rightarrow> string \<Rightarrow> ('v, rkey list) act" where
  "handle_list_repos L h remote =
    peek (\<lambda>v. case fst (lab_principal (vc_central L v) h remote) of Some u \<Rightarrow> us_id u | None \<Rightarrow> 0) (\<lambda>uid.
    look Internal (\<lambda>v. vc_accessible L v uid) give)"

definition handle_delete_repo :: "('r, 'v, 'i, 'z) vcs_scheme \<Rightarrow> rkey \<Rightarrow> ('v, string) act" where
  "handle_delete_repo L rp = effect NotFound (vc_delete L rp) (\<lambda>_. give (fst rp @ ''/'' @ snd rp))"

definition ref_kind_of :: "string \<Rightarrow> ref_kind" where
  "ref_kind_of k = (if k = ''tag'' then TagRef else BranchRef)"

definition handle_set_ref :: "('r, 'v, 'i, 'z) vcs_scheme \<Rightarrow> rkey \<Rightarrow> string \<Rightarrow> (string + string \<times> string)
    \<Rightarrow> ('v, vref) act" where
  "handle_set_ref L rp name body =
    demand (open_repo L rp) (
    look InvalidArgument (\<lambda>_. body) (\<lambda>(kind, target).
    effect InvalidArgument (vc_set_ref L rp name (ref_kind_of kind) target) (\<lambda>_.
    give \<lparr> rf_name = name, rf_kind = ref_kind_of kind, rf_target = target \<rparr>)))"

definition handle_delete_ref :: "('r, 'v, 'i, 'z) vcs_scheme \<Rightarrow> rkey \<Rightarrow> string \<Rightarrow> ('v, string) act" where
  "handle_delete_ref L rp name =
    demand (open_repo L rp) (effect NotFound (vc_del_ref L rp name) (\<lambda>_. give name))"

definition handle_list_refs :: "('r, 'v, 'i, 'z) vcs_scheme \<Rightarrow> rkey \<Rightarrow> ('v, vref list) act" where
  "handle_list_refs L rp = demand (open_repo L rp) (look Internal (\<lambda>v. vc_refs L v rp) give)"

section \<open>Commits and history\<close>

record log_entry =
  le_rev :: string
  le_snapshot :: string
  le_tree :: string
  le_desc :: string

definition entry_of :: "('r, 'v, 'i, 'z) vcs_scheme \<Rightarrow> 'i revision \<Rightarrow> 'i stored_snapshot \<Rightarrow> log_entry" where
  "entry_of L r sn = \<lparr> le_rev = rv_id r, le_snapshot = vc_text L (sn_hash sn), le_tree = vc_text L (sn_tree sn),
     le_desc = sn_desc sn \<rparr>"

definition handle_log :: "('r, 'v, 'i, 'z) vcs_scheme \<Rightarrow> rkey \<Rightarrow> ('v, log_entry list) act" where
  "handle_log L rp =
    demand (open_repo L rp) (
    look Internal (\<lambda>v. vc_log L v rp) (\<lambda>revs.
    peek (\<lambda>v. List.map_filter (\<lambda>r. case vc_snap L v rp (rv_hash r) of
              Inr sn \<Rightarrow> Some (entry_of L r sn) | Inl _ \<Rightarrow> None) revs) give))"

definition handle_change :: "('r, 'v, 'i, 'z) vcs_scheme \<Rightarrow> rkey \<Rightarrow> string \<Rightarrow> ('v, log_entry) act" where
  "handle_change L rp rid =
    demand (open_repo L rp) (
    look NotFound (\<lambda>v. vc_rev L v rp rid) (\<lambda>r.
    look NotFound (\<lambda>v. vc_snap L v rp (rv_hash r)) (\<lambda>sn. give (entry_of L r sn))))"

definition snapshot_or_tree :: "('r, 'v, 'i, 'z) vcs_scheme \<Rightarrow> 'v \<Rightarrow> rkey \<Rightarrow> 'i \<Rightarrow> 'i" where
  "snapshot_or_tree L v rp i = (case vc_snap L v rp i of Inr sn \<Rightarrow> sn_tree sn | Inl _ \<Rightarrow> i)"

definition handle_diff :: "('r, 'v, 'i, 'z) vcs_scheme \<Rightarrow> rkey \<Rightarrow> string \<Rightarrow> string \<Rightarrow> ('v, file_diff list) act" where
  "handle_diff L rp a_text b_text =
    demand (open_repo L rp) (
    look InvalidArgument (\<lambda>_. vc_hex L a_text) (\<lambda>a.
    look InvalidArgument (\<lambda>_. vc_hex L b_text) (\<lambda>b.
    look InvalidArgument (\<lambda>v. vc_diff L v rp (snapshot_or_tree L v rp a) (snapshot_or_tree L v rp b)) give)))"

record commit_req =
  cr_revision :: string
  cr_parents :: "string list"
  cr_tree :: string
  cr_parent_hash :: string
  cr_changes :: "change_item list"
  cr_desc :: string
  cr_author :: "author option"
  cr_ref :: string

definition rest_spec :: "change_item \<Rightarrow> file_spec" where
  "rest_spec c = \<lparr> fs_path = ch_path c, fs_content = ch_content c, fs_delete = ch_delete c \<rparr>"

text \<open>The parent of a file commit; a branch that does not resolve gives none.\<close>

definition commit_parent :: "('r, 'v, 'i, 'z) vcs_scheme \<Rightarrow> rkey \<Rightarrow> commit_req \<Rightarrow> string \<Rightarrow> 'v \<Rightarrow> (string + 'i) option" where
  "commit_parent L rp q branch v =
    (if cr_parent_hash q \<noteq> '''' then Some (vc_hex L (cr_parent_hash q))
     else if branch \<noteq> '''' \<and> vc_ref L v rp branch \<noteq> None
     then map_option (\<lambda>r. case r of Inr h \<Rightarrow> Inr h | Inl _ \<Rightarrow> Inr (vc_zero L)) (resolve_ref_any L v rp rp branch)
     else Some (Inr (vc_zero L)))"

definition handle_commit :: "('r, 'v, 'i, 'z) vcs_scheme \<Rightarrow> rkey \<Rightarrow> (string + commit_req) \<Rightarrow> ('v, log_entry) act" where
  "handle_commit L rp body =
    demand (open_repo L rp) (
    look InvalidArgument (\<lambda>_. body) (\<lambda>q.
    let who = (case cr_author q of Some a \<Rightarrow> a | None \<Rightarrow> lab_author) in
    if cr_changes q \<noteq> [] then
      peek (\<lambda>v. if cr_ref q \<noteq> '''' then cr_ref q
                else (case vc_meta L v rp of Inr me \<Rightarrow> me_default me | Inl _ \<Rightarrow> '''')) (\<lambda>branch.
      chase InvalidArgument (commit_parent L rp q branch) (\<lambda>parent.
      effect InvalidArgument (vc_commit_files L rp parent (map rest_spec (cr_changes q)) (cr_desc q) who (cr_revision q))
        (\<lambda>(sn, ch).
      if branch \<noteq> ''''
      then effect Internal (vc_set_ref L rp branch BranchRef (vc_text L (sn_hash sn))) (\<lambda>_. give (entry_of L ch sn))
      else give (entry_of L ch sn))))
    else
      look InvalidArgument (\<lambda>_. vc_hex L (cr_tree q)) (\<lambda>t.
      look InvalidArgument (\<lambda>_. all_hex L (cr_parents q)) (\<lambda>ps.
      effect InvalidArgument (vc_commit_tree L rp ps t (cr_desc q) who (cr_revision q)) (\<lambda>(sn, ch).
      give (entry_of L ch sn))))))"

definition handle_rebase :: "('r, 'v, 'i, 'z) vcs_scheme \<Rightarrow> rkey \<Rightarrow> (string + string \<times> string list)
    \<Rightarrow> ('v, string \<times> string) act" where
  "handle_rebase L rp body =
    demand (open_repo L rp) (
    look InvalidArgument (\<lambda>_. body) (\<lambda>(rid, ps).
    look InvalidArgument (\<lambda>_. all_hex L ps) (\<lambda>parents.
    effect InvalidArgument (vc_rebase L rp rid parents) (\<lambda>(sn, ch). give (rv_id ch, vc_text L (sn_hash sn))))))"

text \<open>A text that is no object id is the zero id: the error is dropped.\<close>

definition hex_or_zero :: "('r, 'v, 'i, 'z) vcs_scheme \<Rightarrow> string \<Rightarrow> 'i" where
  "hex_or_zero L s = (case vc_hex L s of Inr i \<Rightarrow> i | Inl _ \<Rightarrow> vc_zero L)"

definition handle_merge :: "('r, 'v, 'i, 'z) vcs_scheme \<Rightarrow> rkey \<Rightarrow> (string + string \<times> string \<times> string)
    \<Rightarrow> ('v, string \<times> nat) act" where
  "handle_merge L rp body =
    demand (open_repo L rp) (
    look InvalidArgument (\<lambda>_. body) (\<lambda>(base, ours, theirs).
    effect InvalidArgument (vc_merge L rp (hex_or_zero L base) (hex_or_zero L ours) (hex_or_zero L theirs))
      (\<lambda>(t, conflicts). give (vc_text L t, conflicts))))"

definition handle_squash :: "('r, 'v, 'i, 'z) vcs_scheme \<Rightarrow> rkey \<Rightarrow> (string + string) \<Rightarrow> ('v, string \<times> string) act" where
  "handle_squash L rp body =
    demand (open_repo L rp) (
    look InvalidArgument (\<lambda>_. body) (\<lambda>rid.
    effect InvalidArgument (vc_squash L rp rid) (\<lambda>(sn, ch). give (rv_id ch, vc_text L (sn_hash sn)))))"

section \<open>The smart protocol\<close>

record 'i bundle_of =
  bu_version :: int
  bu_repo :: string
  bu_revisions :: "'i revision list"
  bu_snapshots :: "'i stored_snapshot list"
  bu_refs :: "vref list"
  bu_objects :: "string list"

record advertise_resp =
  av_repo :: string
  av_changes :: "string list"
  av_refs :: "vref list"

definition handle_advertise :: "('r, 'v, 'i, 'z) vcs_scheme \<Rightarrow> rkey \<Rightarrow> ('v, advertise_resp) act" where
  "handle_advertise L rp =
    demand (open_repo L rp) (
    look Internal (\<lambda>v. vc_revisions L v rp) (\<lambda>cs.
    look Internal (\<lambda>v. vc_refs L v rp) (\<lambda>refs.
    give \<lparr> av_repo = fst rp @ ''/'' @ snd rp, av_changes = map rv_id cs, av_refs = refs \<rparr>)))"

definition change_by_id :: "'i revision list \<Rightarrow> string \<Rightarrow> 'i revision option" where
  "change_by_id cs = map_of (rev (map (\<lambda>c. (rv_id c, c)) cs))"

definition snap_owner :: "('r, 'v, 'i, 'z) vcs_scheme \<Rightarrow> 'i revision list \<Rightarrow> string \<Rightarrow> string option" where
  "snap_owner L cs = map_of (rev (map (\<lambda>c. (vc_text L (rv_hash c), rv_id c)) cs))"

definition change_parents :: "('r, 'v, 'i, 'z) vcs_scheme \<Rightarrow> 'v \<Rightarrow> rkey \<Rightarrow> 'i revision list \<Rightarrow> string \<Rightarrow> string list" where
  "change_parents L v rp cs x =
    (case change_by_id cs x of
       None \<Rightarrow> []
     | Some c \<Rightarrow>
         (case vc_snap L v rp (rv_hash c) of
            Inl _ \<Rightarrow> []
          | Inr sn \<Rightarrow> List.map_filter (\<lambda>p. snap_owner L cs (vc_text L p)) (sn_parents sn)))"

definition change_set_with_ancestors :: "('r, 'v, 'i, 'z) vcs_scheme \<Rightarrow> 'v \<Rightarrow> rkey \<Rightarrow> string list \<Rightarrow> string list
    \<Rightarrow> string list option" where
  "change_set_with_ancestors L v rp wants have_ids =
    (case vc_revisions L v rp of
       Inl _ \<Rightarrow> Some []
     | Inr cs \<Rightarrow>
         map_option fst (dfs_list (Suc (length cs)) (\<lambda>x. x \<in> set have_ids) (change_parents L v rp cs) wants ([], [])))"

text \<open>The snapshot of a revision is the last of the bundle that names it.\<close>

definition filter_bundle :: "'i bundle_of \<Rightarrow> string list \<Rightarrow> 'i bundle_of" where
  "filter_bundle b wanted =
    (if wanted = [] then b
     else let kept = filter (\<lambda>c. rv_id c \<in> set wanted) (bu_revisions b);
              by_change = map_of (rev (map (\<lambda>sn. (sn_rev sn, sn)) (bu_snapshots b)))
          in b\<lparr> bu_revisions := kept, bu_snapshots := List.map_filter (\<lambda>c. by_change (rv_id c)) kept \<rparr>)"

record fetch_req =
  fr_have :: "string list"
  fr_objects :: "string list"
  fr_want :: "string list"

text \<open>The answer is the bundle as a compressed frame; \<^verbatim>\<open>compress\<close> is the library's.\<close>

definition write_bundle :: "('i bundle_of \<Rightarrow> string + 'p) \<Rightarrow> 'i bundle_of \<Rightarrow> ('v, 'p) act" where
  "write_bundle compress b = look Internal (\<lambda>_. compress b) give"

definition handle_fetch :: "('r, 'v, 'i, 'z) vcs_scheme
    \<Rightarrow> ('v \<Rightarrow> rkey \<Rightarrow> string list \<Rightarrow> ('i \<Rightarrow> bool) \<Rightarrow> string + 'i bundle_of)
    \<Rightarrow> ('i bundle_of \<Rightarrow> string + 'p) \<Rightarrow> rkey \<Rightarrow> (string + fetch_req) \<Rightarrow> ('v, 'p) act" where
  "handle_fetch L collect compress rp body =
    demand (open_repo L rp) (
    look InvalidArgument (\<lambda>_. body) (\<lambda>q.
    look Internal (\<lambda>v. collect v rp (fr_have q) (\<lambda>i. vc_text L i \<in> set (fr_objects q))) (\<lambda>b.
    if fr_want q \<noteq> []
    then chase Internal (\<lambda>v. map_option Inr (change_set_with_ancestors L v rp (fr_want q) (fr_have q))) (\<lambda>wanted.
         write_bundle compress (filter_bundle b wanted))
    else write_bundle compress b)))"

definition handle_push :: "('r, 'v, 'i, 'z) vcs_scheme \<Rightarrow> (rkey \<Rightarrow> 'i bundle_of \<Rightarrow> 'v \<Rightarrow> (string + nat) \<times> 'v)
    \<Rightarrow> rkey \<Rightarrow> (string + 'i bundle_of) \<Rightarrow> ('v, nat \<times> string) act" where
  "handle_push L apply_bundle rp body =
    demand (open_repo L rp) (
    look InvalidArgument (\<lambda>_. body) (\<lambda>b.
    effect InvalidArgument (apply_bundle rp b) (\<lambda>n. give (n, fst rp @ ''/'' @ snd rp))))"

section \<open>What a selective fetch sends\<close>

lemma change_by_id_mem: "change_by_id cs x = Some c \<Longrightarrow> c \<in> set cs \<and> rv_id c = x"
  by (auto simp: change_by_id_def dest!: map_of_SomeD)

lemma change_parents_node: "change_parents L v rp cs x \<noteq> [] \<Longrightarrow> x \<in> rv_id ` set cs"
  by (auto simp: change_parents_def dest: change_by_id_mem split: option.splits)

interpretation ancestors: dfs_graph "\<lambda>x. x \<in> set have_ids" "change_parents L v rp cs" "rv_id ` set cs"
  for have_ids L v rp cs
  by unfold_locales (simp, rule change_parents_node)

definition ancestor_of :: "('r, 'v, 'i, 'z) vcs_scheme \<Rightarrow> 'v \<Rightarrow> rkey \<Rightarrow> 'i revision list \<Rightarrow> string list
    \<Rightarrow> string \<Rightarrow> string \<Rightarrow> bool" where
  "ancestor_of L v rp cs have_ids = past (\<lambda>x. x \<in> set have_ids) (change_parents L v rp cs)"

lemma change_set_spec:
  assumes "vc_revisions L v rp = Inr cs"
  obtains out where "change_set_with_ancestors L v rp wants have_ids = Some out" "distinct out"
    "set out = {y. \<exists>x\<in>set wants. ancestor_of L v rp cs have_ids x y}"
proof -
  have "card (rv_id ` set cs) < Suc (length cs)"
    by (meson card_image_le card_length finite_set le_imp_less_Suc le_trans)
  then show thesis
  proof (rule ancestors.walk_from_start[where xs = wants and have_ids = have_ids and L = L and v = v and rp = rp])
    fix vis out
    assume r: "dfs_list (Suc (length cs)) (\<lambda>x. x \<in> set have_ids) (change_parents L v rp cs) wants ([], []) = Some (vis, out)"
      and d: "distinct vis"
      and p: "set vis = {y. \<exists>x\<in>set wants. past (\<lambda>x. x \<in> set have_ids) (change_parents L v rp cs) x y}"
    show thesis
      by (rule that[of vis]) (simp_all only: change_set_with_ancestors_def assms sum.case r option.map fst_conv
        ancestor_of_def d p)
  qed
qed

lemma filter_bundle_parts:
  "wanted \<noteq> [] \<Longrightarrow> bu_revisions (filter_bundle b wanted) = filter (\<lambda>c. rv_id c \<in> set wanted) (bu_revisions b)"
  "bu_refs (filter_bundle b wanted) = bu_refs b" "bu_objects (filter_bundle b wanted) = bu_objects b"
  by (simp_all add: filter_bundle_def Let_def)

text \<open>
  C18: The walk over the parents always ends, and the revisions it collects are exactly those a
  wanted revision descends from, itself included, by a path on which the client has nothing.  A
  selective fetch answers with the revisions of the collected bundle that are among them, and
  with all references and objects; but when the client already has every wanted revision, it
  answers with the whole bundle.  The answer is the bundle's frame, or the error of its compression.
\<close>
theorem fetch_sends_ancestors:
  assumes "ce_repo_exists (vc_central L v) (fst rp) (snd rp)"
    "collect v rp (fr_have q) (\<lambda>i. vc_text L i \<in> set (fr_objects q)) = Inr b"
    "vc_revisions L v rp = Inr cs" "fr_want q \<noteq> []"
  shows "\<exists>sent. handle_fetch L collect compress rp (Inr q) v
        = ((case compress sent of Inl m \<Rightarrow> Fail (ConnErr Internal m) | Inr frame \<Rightarrow> Done frame), v)
    \<and> bu_refs sent = bu_refs b \<and> bu_objects sent = bu_objects b
    \<and> (if set (fr_want q) \<subseteq> set (fr_have q) then sent = b
       else bu_revisions sent = filter (\<lambda>c. \<exists>x\<in>set (fr_want q). ancestor_of L v rp cs (fr_have q) x (rv_id c)) (bu_revisions b))"
proof -
  obtain out where o: "change_set_with_ancestors L v rp (fr_want q) (fr_have q) = Some out"
    "set out = {y. \<exists>x\<in>set (fr_want q). ancestor_of L v rp cs (fr_have q) x y}"
    using change_set_spec[OF assms(3), of "fr_want q" "fr_have q"] by metis
  have e: "out = [] \<longleftrightarrow> set (fr_want q) \<subseteq> set (fr_have q)"
  proof
    assume "out = []"
    then have none: "\<not> ancestor_of L v rp cs (fr_have q) x y" if "x \<in> set (fr_want q)" for x y using o(2) that by auto
    show "set (fr_want q) \<subseteq> set (fr_have q)"
    proof
      fix x assume "x \<in> set (fr_want q)"
      then show "x \<in> set (fr_have q)"
        using none[of x x] past_here[of "\<lambda>x. x \<in> set (fr_have q)" x] by (auto simp: ancestor_of_def)
    qed
  next
    assume s: "set (fr_want q) \<subseteq> set (fr_have q)"
    have "set out = {}"
      unfolding o(2) ancestor_of_def using s by (auto dest: past_stop)
    then show "out = []" by simp
  qed
  have h: "handle_fetch L collect compress rp (Inr q) v
      = ((case compress (filter_bundle b out) of Inl m \<Rightarrow> Fail (ConnErr Internal m) | Inr frame \<Rightarrow> Done frame), v)"
    using assms o(1) by (simp add: handle_fetch_def write_bundle_def open_repo_def act_defs split: sum.split)
  show ?thesis
  proof (intro exI[of _ "filter_bundle b out"] conjI h filter_bundle_parts(2,3))
    show "if set (fr_want q) \<subseteq> set (fr_have q) then filter_bundle b out = b
      else bu_revisions (filter_bundle b out) =
        filter (\<lambda>c. \<exists>x\<in>set (fr_want q). ancestor_of L v rp cs (fr_have q) x (rv_id c)) (bu_revisions b)"
      using e o(2) filter_bundle_parts(1)[of out b] by (auto simp: filter_bundle_def)
  qed
qed

end
