(* ===== verification/Lab_Graph.thy ===== *)
theory Lab_Graph
imports Lab_Server Dfs
begin

text \<open>
  The revision graph of a repository (\<^verbatim>\<open>connLab.Graph\<close> in \<^verbatim>\<open>cmd/easylab/connlab.go\<close>): the
  revisions of the log in an order where parents come before children, by the depth-first walk of
  \<^verbatim>\<open>Dfs\<close> from the newest revision on, with the number of revisions as fuel.

  The handler skips a revision without a snapshot when it builds its tables, and later reads the
  table of that revision all the same: it dereferences nil, here \<^verbatim>\<open>Panic\<close>.
\<close>

record graph_node =
  gn_rev :: string
  gn_snapshot :: string
  gn_message :: string
  gn_author :: string
  gn_parents :: "string list"
  gn_head :: bool
  gn_created :: int

definition snapped :: "('r, 'v, 'i, 'z) vcs_scheme \<Rightarrow> 'v \<Rightarrow> rkey \<Rightarrow> 'i revision list
    \<Rightarrow> (string \<times> 'i revision \<times> 'i stored_snapshot) list" where
  "snapped L v rp revs =
    List.map_filter (\<lambda>r. case vc_snap L v rp (rv_hash r) of
       Inr sn \<Rightarrow> Some (rv_id r, r, sn) | Inl _ \<Rightarrow> None) revs"

definition node_of :: "('r, 'v, 'i, 'z) vcs_scheme \<Rightarrow> 'v \<Rightarrow> rkey \<Rightarrow> 'i revision list
    \<Rightarrow> string \<Rightarrow> ('i revision \<times> 'i stored_snapshot) option" where
  "node_of L v rp revs = map_of (rev (snapped L v rp revs))"

definition owner_of :: "('r, 'v, 'i, 'z) vcs_scheme \<Rightarrow> 'v \<Rightarrow> rkey \<Rightarrow> 'i revision list \<Rightarrow> string \<Rightarrow> string option" where
  "owner_of L v rp revs = map_of (rev (map (\<lambda>(x, r, sn). (vc_text L (sn_hash sn), x)) (snapped L v rp revs)))"

text \<open>The listed revisions that own a parent of a revision.\<close>

definition owners :: "('r, 'v, 'i, 'z) vcs_scheme \<Rightarrow> 'v \<Rightarrow> rkey \<Rightarrow> 'i revision list \<Rightarrow> string \<Rightarrow> string list" where
  "owners L v rp revs x =
    (case node_of L v rp revs x of
       None \<Rightarrow> []
     | Some (r, sn) \<Rightarrow> List.map_filter (\<lambda>p. owner_of L v rp revs (vc_text L p)) (sn_parents sn))"

definition graph_starts :: "('r, 'v, 'i, 'z) vcs_scheme \<Rightarrow> 'v \<Rightarrow> rkey \<Rightarrow> 'i revision list \<Rightarrow> string list" where
  "graph_starts L v rp revs =
    sort_key (\<lambda>x. case node_of L v rp revs x of Some (r, sn) \<Rightarrow> - rv_created r | None \<Rightarrow> 0) (map rv_id revs)"

definition graph_order :: "('r, 'v, 'i, 'z) vcs_scheme \<Rightarrow> 'v \<Rightarrow> rkey \<Rightarrow> 'i revision list \<Rightarrow> string list option" where
  "graph_order L v rp revs =
    map_option snd (dfs_list (Suc (length revs)) (\<lambda>x. node_of L v rp revs x = None) (owners L v rp revs)
      (graph_starts L v rp revs) ([], []))"

definition is_head :: "('r, 'v, 'i, 'z) vcs_scheme \<Rightarrow> 'v \<Rightarrow> rkey \<Rightarrow> 'i revision list \<Rightarrow> string \<Rightarrow> bool" where
  "is_head L v rp revs x \<longleftrightarrow> x \<in> rv_id ` set revs \<and> list_all (\<lambda>r. x \<notin> set (owners L v rp revs (rv_id r))) revs"

definition graph_node_of :: "('r, 'v, 'i, 'z) vcs_scheme \<Rightarrow> 'v \<Rightarrow> rkey \<Rightarrow> 'i revision list \<Rightarrow> string \<Rightarrow> graph_node option" where
  "graph_node_of L v rp revs x =
    (case node_of L v rp revs x of
       None \<Rightarrow> None
     | Some (r, sn) \<Rightarrow> Some
         \<lparr> gn_rev = rv_id r, gn_snapshot = vc_text L (rv_hash r), gn_message = sn_desc sn, gn_author = sn_author sn,
           gn_parents = map (\<lambda>p. case owner_of L v rp revs (vc_text L p) of Some o' \<Rightarrow> o' | None \<Rightarrow> vc_text L p)
             (sn_parents sn),
           gn_head = is_head L v rp revs (rv_id r), gn_created = sn_time sn \<rparr>)"

definition graph :: "('r, 'v, 'i, 'z) vcs_scheme \<Rightarrow> principal option \<Rightarrow> rkey \<Rightarrow> int \<Rightarrow> ('v, graph_node list) act" where
  "graph L ctx rp limit =
    demand (opened L ctx rp CapRead ''reading a repository'') (
    look Internal (\<lambda>v. vc_log L v rp) (\<lambda>revs.
    peek (\<lambda>v. list_all (\<lambda>r. node_of L v rp revs (rv_id r) \<noteq> None) revs) (\<lambda>complete.
    if \<not> complete then crash
    else chase Internal (\<lambda>v. map_option Inr (graph_order L v rp revs)) (\<lambda>order.
         peek (\<lambda>v. List.map_filter (graph_node_of L v rp revs) order) (\<lambda>nodes.
         give (take (rev_limit limit 100) nodes))))))"

section \<open>The tables\<close>

lemma case_Inr_Some: "(case s of Inr y \<Rightarrow> Some (f y) | Inl _ \<Rightarrow> None) = Some z \<longleftrightarrow> (\<exists>y. s = Inr y \<and> z = f y)"
  by (cases s) auto

lemma snapped_mem: "(x, r, sn) \<in> set (snapped L v rp revs) \<longleftrightarrow>
    r \<in> set revs \<and> x = rv_id r \<and> vc_snap L v rp (rv_hash r) = Inr sn"
  unfolding snapped_def in_map_filter case_Inr_Some by auto

lemma node_of_mem: "node_of L v rp revs x = Some (r, sn) \<Longrightarrow> r \<in> set revs \<and> rv_id r = x"
  by (auto simp: node_of_def snapped_mem dest!: map_of_SomeD)

lemma node_of_ids: "node_of L v rp revs x \<noteq> None \<longleftrightarrow> (\<exists>r\<in>set revs. rv_id r = x \<and> (\<exists>sn. vc_snap L v rp (rv_hash r) = Inr sn))"
proof -
  have "node_of L v rp revs x \<noteq> None \<longleftrightarrow> x \<in> fst ` set (snapped L v rp revs)"
    by (simp add: node_of_def map_of_eq_None_iff)
  also have "\<dots> \<longleftrightarrow> (\<exists>r sn. (x, r, sn) \<in> set (snapped L v rp revs))" by force
  also have "\<dots> \<longleftrightarrow> (\<exists>r\<in>set revs. rv_id r = x \<and> (\<exists>sn. vc_snap L v rp (rv_hash r) = Inr sn))"
    by (auto simp: snapped_mem)
  finally show ?thesis .
qed

lemma owner_of_node: "owner_of L v rp revs t = Some y \<Longrightarrow> node_of L v rp revs y \<noteq> None"
proof -
  assume "owner_of L v rp revs t = Some y"
  then have "(t, y) \<in> set (rev (map (\<lambda>(x, r, sn). (vc_text L (sn_hash sn), x)) (snapped L v rp revs)))"
    unfolding owner_of_def by (rule map_of_SomeD)
  then obtain r sn where "(y, r, sn) \<in> set (snapped L v rp revs)" by auto
  then have "y \<in> fst ` set (snapped L v rp revs)" by force
  then show ?thesis by (simp add: node_of_def map_of_eq_None_iff)
qed

lemma owners_node: "y \<in> set (owners L v rp revs x) \<Longrightarrow> node_of L v rp revs y \<noteq> None"
  by (cases "node_of L v rp revs x") (auto simp: owners_def in_map_filter dest: owner_of_node)

lemma owners_source: "owners L v rp revs x \<noteq> [] \<Longrightarrow> x \<in> rv_id ` set revs"
  using node_of_mem[of L v rp revs x] by (cases "node_of L v rp revs x") (auto simp: owners_def)

interpretation history: dfs_graph "\<lambda>x. node_of L v rp revs x = None" "owners L v rp revs" "rv_id ` set revs"
  for L v rp revs
  by unfold_locales (simp, rule owners_source)

definition acyclic_history :: "('r, 'v, 'i, 'z) vcs_scheme \<Rightarrow> 'v \<Rightarrow> rkey \<Rightarrow> 'i revision list \<Rightarrow> bool" where
  "acyclic_history L v rp revs \<longleftrightarrow> no_cycle (\<lambda>x. node_of L v rp revs x = None) (owners L v rp revs)"

lemma graph_order_spec:
  assumes "list_all (\<lambda>r. node_of L v rp revs (rv_id r) \<noteq> None) revs"
  obtains order where "graph_order L v rp revs = Some order" "distinct order" "set order = rv_id ` set revs"
    "acyclic_history L v rp revs \<Longrightarrow> ordered (\<lambda>x. node_of L v rp revs x = None) (owners L v rp revs) order"
proof -
  let ?stop = "\<lambda>x. node_of L v rp revs x = None"
  have "card (rv_id ` set revs) < Suc (length revs)"
    by (meson card_image_le card_length finite_set le_imp_less_Suc le_trans)
  then show thesis
  proof (rule history.walk_from_start[where xs = "graph_starts L v rp revs" and L = L and v = v and rp = rp])
    fix vis out
    assume r: "dfs_list (Suc (length revs)) ?stop (owners L v rp revs) (graph_starts L v rp revs) ([], []) = Some (vis, out)"
      and d: "distinct out" and e: "set out = set vis"
      and p: "set vis = {y. \<exists>x\<in>set (graph_starts L v rp revs). past ?stop (owners L v rp revs) x y}"
      and o: "no_cycle ?stop (owners L v rp revs) \<Longrightarrow> ordered ?stop (owners L v rp revs) out"
    have s: "set (graph_starts L v rp revs) = rv_id ` set revs" by (simp add: graph_starts_def)
    have "set out = rv_id ` set revs"
    proof (intro equalityI subsetI)
      fix y assume "y \<in> set out"
      then obtain x where "past ?stop (owners L v rp revs) x y" using e p by auto
      then have "node_of L v rp revs y \<noteq> None" by (auto dest: past_stop)
      then show "y \<in> rv_id ` set revs" unfolding node_of_ids by blast
    next
      fix y assume y: "y \<in> rv_id ` set revs"
      then have "node_of L v rp revs y \<noteq> None" using assms by (auto simp: list_all_iff)
      then have "past ?stop (owners L v rp revs) y y" by (intro past_here) simp
      then show "y \<in> set out" using e p s y by auto
    qed
    then show thesis
      using that[of out] d o by (simp add: graph_order_def r acyclic_history_def)
  qed
qed

lemma graph_nodes_ids:
  assumes "\<forall>x\<in>set order. node_of L v rp revs x \<noteq> None"
  shows "map gn_rev (List.map_filter (graph_node_of L v rp revs) order) = order"
  using assms
proof (induction order)
  case (Cons x order)
  then obtain r sn where n: "node_of L v rp revs x = Some (r, sn)" by auto
  then have "rv_id r = x" using node_of_mem by metis
  then show ?case using Cons n by (simp add: graph_node_of_def)
qed simp

lemma ordered_take: "ordered stop nexts xs \<Longrightarrow> ordered stop nexts (take n xs)"
  unfolding ordered_def by (metis append.assoc append_Cons append_take_drop_id)

text \<open>
  C17: When every revision of the log has its snapshot, the graph is the first nodes, up to the
  limit, of an order that holds every revision exactly once; if the history has no cycle, every
  node comes after the listed revisions that own its parents, also in what the limit leaves; and a
  node is a head exactly when it owns no parent of a revision.  When a snapshot is missing the
  handler panics.
\<close>
theorem graph_spec:
  assumes "opened L ctx rp CapRead ''reading a repository'' v = None" "vc_log L v rp = Inr revs"
  shows "if list_all (\<lambda>r. node_of L v rp revs (rv_id r) \<noteq> None) revs
    then \<exists>nodes. graph L ctx rp limit v = (Done (take (rev_limit limit 100) nodes), v)
      \<and> distinct (map gn_rev nodes) \<and> gn_rev ` set nodes = rv_id ` set revs
      \<and> (acyclic_history L v rp revs \<longrightarrow>
           (\<forall>a n b. take (rev_limit limit 100) nodes = a @ n # b \<longrightarrow> set (owners L v rp revs (gn_rev n)) \<subseteq> gn_rev ` set a))
      \<and> (\<forall>n\<in>set nodes. gn_head n \<longleftrightarrow> (\<forall>r\<in>set revs. gn_rev n \<notin> set (owners L v rp revs (rv_id r))))
    else graph L ctx rp limit v = (Panic, v)"
proof (cases "list_all (\<lambda>r. node_of L v rp revs (rv_id r) \<noteq> None) revs")
  case False
  then show ?thesis using assms by (simp add: graph_def act_defs)
next
  case True
  obtain order where o: "graph_order L v rp revs = Some order" "distinct order" "set order = rv_id ` set revs"
    "acyclic_history L v rp revs \<Longrightarrow> ordered (\<lambda>x. node_of L v rp revs x = None) (owners L v rp revs) order"
    using graph_order_spec[OF True] by blast
  define nodes where "nodes = List.map_filter (graph_node_of L v rp revs) order"
  have ids: "map gn_rev nodes = order"
    unfolding nodes_def using True o(3) by (intro graph_nodes_ids) (auto simp: list_all_iff)
  have g: "graph L ctx rp limit v = (Done (take (rev_limit limit 100) nodes), v)"
    using assms True o(1) by (simp add: graph_def act_defs nodes_def)
  have first: "set (owners L v rp revs (gn_rev n)) \<subseteq> gn_rev ` set a"
    if "acyclic_history L v rp revs" "take (rev_limit limit 100) nodes = a @ n # b" for a n b
  proof
    fix z assume z: "z \<in> set (owners L v rp revs (gn_rev n))"
    have "take (rev_limit limit 100) order = map gn_rev a @ gn_rev n # map gn_rev b"
      using that(2) ids take_map[of "rev_limit limit 100" gn_rev nodes] by simp
    then have "node_of L v rp revs z = None \<or> z \<in> set (map gn_rev a)"
      using ordered_take[OF o(4)[OF that(1)], of "rev_limit limit 100"] z unfolding ordered_def by metis
    then show "z \<in> gn_rev ` set a" using owners_node[OF z] by simp
  qed
  have head: "gn_head n \<longleftrightarrow> (\<forall>r\<in>set revs. gn_rev n \<notin> set (owners L v rp revs (rv_id r)))" if n: "n \<in> set nodes" for n
  proof -
    obtain x where "graph_node_of L v rp revs x = Some n"
      using n by (auto simp: nodes_def in_map_filter)
    then have "gn_head n = is_head L v rp revs (gn_rev n)" by (auto simp: graph_node_of_def split: option.splits)
    moreover have "gn_rev n \<in> rv_id ` set revs" using n ids o(3) by (metis image_eqI list.set_map)
    ultimately show ?thesis by (simp add: is_head_def list_all_iff)
  qed
  have "gn_rev ` set nodes = rv_id ` set revs" using ids o(3) by (metis list.set_map)
  then have all: "distinct (map gn_rev nodes) \<and> gn_rev ` set nodes = rv_id ` set revs"
    using ids o(2) by simp
  show ?thesis
    unfolding if_P[OF True]
    by (rule exI[of _ nodes]) (intro conjI g all[THEN conjunct1] all[THEN conjunct2] impI allI ballI first head)
qed

end
