(* ===== verification/Lab_Correct.thy ===== *)
theory Lab_Correct
imports Lab_Access Lab_Rest Lab_Graph
begin

text \<open>
  What the writing calls of the lab service achieve, for a library that does what its operations
  say: setting a reference sets that one, a commit stores a new snapshot and moves no reference, a
  merge only stores a tree.  At the end a small library of this kind and the witnesses.
\<close>

section \<open>A library that does what it says\<close>

definition special :: "string \<Rightarrow> bool" where
  "special ref \<longleftrightarrow> ref \<in> {'''', ''@'', ''@-''}"

definition only_adds :: "('r, 'v, 'i, 'z) vcs_scheme \<Rightarrow> 'v \<Rightarrow> 'v \<Rightarrow> bool" where
  "only_adds L v v' \<longleftrightarrow> vc_ref L v' = vc_ref L v
    \<and> (\<forall>rp h sn. vc_snap L v rp h = Inr sn \<longrightarrow> vc_snap L v' rp h = Inr sn)"

definition truthful_vcs :: "('r, 'v, 'i, 'z) vcs_scheme \<Rightarrow> bool" where
  "truthful_vcs L \<longleftrightarrow>
    (\<forall>i. vc_hex L (vc_text L i) = Inr i)
    \<and> (\<forall>v rp h sn. vc_snap L v rp h = Inr sn \<longrightarrow> sn_hash sn = h)
    \<and> (\<forall>rp name k t v u v'. vc_set_ref L rp name k t v = (Inr u, v') \<longrightarrow>
         vc_snap L v' = vc_snap L v
         \<and> vc_ref L v' = (\<lambda>rq n. if rq = rp \<and> n = name
              then Some \<lparr> rf_name = name, rf_kind = k, rf_target = t \<rparr> else vc_ref L v rq n))
    \<and> (\<forall>rp p fs m a r v sn rv v'. vc_commit_files L rp p fs m a r v = (Inr (sn, rv), v') \<longrightarrow>
         only_adds L v v' \<and> vc_snap L v' rp (sn_hash sn) = Inr sn)
    \<and> (\<forall>rp ps t m a r v sn rv v'. vc_commit_tree L rp ps t m a r v = (Inr (sn, rv), v') \<longrightarrow>
         only_adds L v v' \<and> vc_snap L v' rp (sn_hash sn) = Inr sn \<and> sn_parents sn = ps \<and> sn_tree sn = t)
    \<and> (\<forall>rp b x y v r v'. vc_merge L rp b x y v = (Inr r, v') \<longrightarrow> only_adds L v v')"

definition truthful_hosting :: "('r, 'v, 'i, 'z) hosting_scheme \<Rightarrow> bool" where
  "truthful_hosting L \<longleftrightarrow> truthful_vcs L
    \<and> (\<forall>rp iid st v u v'. hs_mr_state L rp iid st v = (Inr u, v') \<longrightarrow> only_adds L v v')"

text \<open>No branch or tag has the text of an object id for its name.\<close>

definition plain_ids :: "('r, 'v, 'i, 'z) vcs_scheme \<Rightarrow> 'v \<Rightarrow> rkey \<Rightarrow> bool" where
  "plain_ids L v rp \<longleftrightarrow> (\<forall>i. \<not> special (vc_text L i) \<and> vc_ref L v rp (vc_text L i) = None)"

lemma only_adds_trans: "only_adds L v v1 \<Longrightarrow> only_adds L v1 v2 \<Longrightarrow> only_adds L v v2"
  by (simp add: only_adds_def)

lemma only_adds_ref: "only_adds L v v' \<Longrightarrow> vc_ref L v' = vc_ref L v"
  by (simp add: only_adds_def)

lemma only_adds_snap: "only_adds L v v' \<Longrightarrow> vc_snap L v rp h = Inr sn \<Longrightarrow> vc_snap L v' rp h = Inr sn"
  unfolding only_adds_def by blast

lemma truthfulD:
  assumes "truthful_vcs L"
  shows "vc_hex L (vc_text L i) = Inr i"
    and "vc_snap L v rp h = Inr sn \<Longrightarrow> sn_hash sn = h"
    and "vc_set_ref L rp name k t v = (Inr u, v') \<Longrightarrow> vc_snap L v' = vc_snap L v"
    and "vc_set_ref L rp name k t v = (Inr u, v') \<Longrightarrow> vc_ref L v' = (\<lambda>rq n. if rq = rp \<and> n = name
            then Some \<lparr> rf_name = name, rf_kind = k, rf_target = t \<rparr> else vc_ref L v rq n)"
    and "vc_commit_files L rp p fs m a r v = (Inr (sn, rv), v') \<Longrightarrow> only_adds L v v' \<and> vc_snap L v' rp (sn_hash sn) = Inr sn"
    and "vc_commit_tree L rp ps tr m a r v = (Inr (sn, rv), v') \<Longrightarrow>
           only_adds L v v' \<and> vc_snap L v' rp (sn_hash sn) = Inr sn \<and> sn_parents sn = ps \<and> sn_tree sn = tr"
    and "vc_merge L rp b x y v = (Inr q, v') \<Longrightarrow> only_adds L v v'"
  subgoal using assms unfolding truthful_vcs_def by (elim conjE) (rule spec)
  subgoal using assms unfolding truthful_vcs_def by (elim conjE) metis
  subgoal using assms unfolding truthful_vcs_def by (elim conjE) metis
  subgoal using assms unfolding truthful_vcs_def by (elim conjE) metis
  subgoal using assms unfolding truthful_vcs_def by (elim conjE) metis
  subgoal using assms unfolding truthful_vcs_def by (elim conjE) metis
  subgoal using assms unfolding truthful_vcs_def by (elim conjE) metis
  done

lemma resolve_branch:
  assumes t: "truthful_vcs L" and s: "\<not> special name" "\<not> special (vc_text L h)"
    and r: "vc_ref L v rp name = Some rf" "rf_target rf = vc_text L h" "vc_ref L v rp (vc_text L h) = None"
    and n: "vc_snap L v rp h = Inr sn"
  shows "resolve_ref_any L v rp rp name = Some (Inr h)" "tree_of_ref L v rp rp name = Some (Inr (sn_tree sn))"
proof -
  have 1: "next_ref L v rp name = Some (vc_text L h)" using s r by (simp add: next_ref_def special_def)
  have 2: "next_ref L v rp (vc_text L h) = None" using r by (simp add: next_ref_def)
  have "resolve_last L v rp rp (vc_text L h) = Inr h"
    using s(2) truthfulD(1)[OF t] n by (simp add: resolve_last_def by_hash_def special_def)
  then show a: "resolve_ref_any L v rp rp name = Some (Inr h)"
    by (simp add: resolve_step[OF 1] resolve_end[OF 2])
  show "tree_of_ref L v rp rp name = Some (Inr (sn_tree sn))"
    using a n s(1) by (simp add: tree_of_ref_def special_def)
qed

section \<open>Branches\<close>

lemma set_ref_resolves:
  assumes t: "truthful_vcs L" and p: "plain_ids L v rp" and b: "\<not> special name" "name \<notin> range (vc_text L)"
    and s: "vc_set_ref L rp name k (vc_text L h) v = (Inr u, v')" and n: "vc_snap L v rp h = Inr sn"
  shows "resolve_ref_any L v' rp rp name = Some (Inr h)" "tree_of_ref L v' rp rp name = Some (Inr (sn_tree sn))"
proof -
  note r = truthfulD(4)[OF t s] and sn = truthfulD(3)[OF t s]
  have "vc_ref L v' rp name = Some \<lparr> rf_name = name, rf_kind = k, rf_target = vc_text L h \<rparr>" by (simp add: r)
  moreover have "vc_ref L v' rp (vc_text L h) = None" "\<not> special (vc_text L h)"
    using p b(2) by (auto simp: r plain_ids_def)
  ultimately show "resolve_ref_any L v' rp rp name = Some (Inr h)" "tree_of_ref L v' rp rp name = Some (Inr (sn_tree sn))"
    using resolve_branch[OF t b(1)] n sn by simp_all
qed

text \<open>
  A branch that CreateBranch reports as created reads like its source: resolving it gives the
  revision the source resolved to, and reading at it the source's tree, also when a branch of that
  name stood elsewhere before.  Every other branch and tag of every repository is as it was.
\<close>
lemma create_branch_resolves:
  assumes "truthful_vcs L" "plain_ids L v rp" "\<not> special branch" "branch \<notin> range (vc_text L)"
    "create_branch L ctx rp branch from v = (Done (), v')"
    "tree_of_ref L v rp rp from = Some (Inr t)"
  shows "resolve_ref_any L v' rp rp branch = resolve_ref_any L v rp rp from
    \<and> tree_of_ref L v' rp rp branch = Some (Inr t)
    \<and> (\<forall>rq n. (rq, n) \<noteq> (rp, branch) \<longrightarrow> vc_ref L v' rq n = vc_ref L v rq n)"
proof -
  obtain h u where h: "resolve_ref_any L v rp rp from = Some (Inr h)"
    and s: "vc_set_ref L rp branch BranchRef (vc_text L h) v = (Inr u, v')"
    using assms(5) by (auto simp: create_branch_def done_cases)
  have "\<exists>sn. vc_snap L v rp h = Inr sn \<and> t = sn_tree sn"
  proof (cases "from = ''''")
    case True
    then have "latest L v rp = Inr h" using h by (simp add: resolve_end next_ref_def resolve_last_def)
    then show ?thesis using assms(6) True by (simp add: tree_of_ref_def split: sum.splits)
  next
    case False
    then show ?thesis using assms(6) h by (simp add: tree_of_ref_def split: sum.splits)
  qed
  then obtain sn where n: "vc_snap L v rp h = Inr sn" "t = sn_tree sn" by blast
  note r = set_ref_resolves[OF assms(1-4) s n(1)]
  have "\<forall>rq n. (rq, n) \<noteq> (rp, branch) \<longrightarrow> vc_ref L v' rq n = vc_ref L v rq n"
    by (auto simp: truthfulD(4)[OF assms(1) s])
  then show ?thesis using r h n(2) by simp
qed

text \<open>
  A file write that reports success committed on top of the branch's head, and afterwards
  reading at the branch shows the committed tree; no other branch or tag has moved.
\<close>
lemma write_blob_visible:
  assumes "truthful_vcs L" "plain_ids L v rp" "\<not> special ref"
    "write_blob L ctx rp ref path content raw v = (Done (), v')"
  shows "\<exists>parent sn rv v1. resolve_ref_any L v rp rp ref = Some (Inr parent)
    \<and> vc_commit_files L rp parent [\<lparr> fs_path = path, fs_content = file_content content raw, fs_delete = False \<rparr>]
        (''write '' @ path) lab_author '''' v = (Inr (sn, rv), v1)
    \<and> resolve_ref_any L v' rp rp ref = Some (Inr (sn_hash sn))
    \<and> tree_of_ref L v' rp rp ref = Some (Inr (sn_tree sn))
    \<and> (\<forall>rq n. (rq, n) \<noteq> (rp, ref) \<longrightarrow> vc_ref L v' rq n = vc_ref L v rq n)"
proof -
  have ne: "ref \<noteq> ''''" using assms(3) by (simp add: special_def)
  obtain parent sn rv v1 u where h: "vc_ref L v rp ref \<noteq> None" "resolve_ref_any L v rp rp ref = Some (Inr parent)"
    and c: "vc_commit_files L rp parent [\<lparr> fs_path = path, fs_content = file_content content raw, fs_delete = False \<rparr>]
        (''write '' @ path) lab_author '''' v = (Inr (sn, rv), v1)"
    and s: "vc_set_ref L rp ref BranchRef (vc_text L (sn_hash sn)) v1 = (Inr u, v')"
    using assms(4) ne by (auto simp: write_blob_def done_cases split: prod.splits if_splits)
  have o: "only_adds L v v1" "vc_snap L v1 rp (sn_hash sn) = Inr sn" using truthfulD(5)[OF assms(1) c] by simp_all
  then have p: "plain_ids L v1 rp" using assms(2) by (simp add: plain_ids_def only_adds_def)
  have "ref \<notin> range (vc_text L)" using h(1) assms(2) by (auto simp: plain_ids_def)
  note r = set_ref_resolves[OF assms(1) p assms(3) this s o(2)]
  have "\<forall>rq n. (rq, n) \<noteq> (rp, ref) \<longrightarrow> vc_ref L v' rq n = vc_ref L v rq n"
    using o(1) by (auto simp: truthfulD(4)[OF assms(1) s] only_adds_def)
  then show ?thesis using h(2) c r by blast
qed

section \<open>References that never resolve\<close>

text \<open>
  SetTag and the plain route for references store the target they are given.  A reference
  accepted with its own name as target never resolves again: every read at it by anyone who may
  read the repository recurses without end.
\<close>
lemma self_reference_diverges:
  assumes "truthful_vcs L" "\<not> special name"
    "set_tag L ctx rp name name v = (Done (), v') \<or> handle_set_ref L rp name (Inr (kind, name)) v = (Done rf, v')"
    "opened L ctx' rp CapRead ''reading a repository'' v' = None"
  shows "resolve_ref_any L v' rp rp name = None \<and> lab_tree L ctx' rp name path v' = (Diverge, v')
    \<and> read_blob L ctx' rp name path v' = (Diverge, v')"
proof -
  obtain k u where s: "vc_set_ref L rp name k name v = (Inr u, v')"
    using assms(2,3) by (auto simp: set_tag_def handle_set_ref_def done_cases special_def split: if_splits)
  have "next_ref L v' rp name = Some name"
    using assms(2) by (simp add: next_ref_def special_def truthfulD(4)[OF assms(1) s])
  then have r: "resolve_ref_any L v' rp rp name = None" by (rule resolve_loop)
  then have "tree_of_ref L v' rp rp name = None" by (simp add: tree_of_ref_none)
  then show ?thesis using r assms(4) by (simp add: lab_tree_def read_blob_def act_defs)
qed

section \<open>Merge requests\<close>

lemma prefixed_Some: "prefixed p r = Some (Inr x) \<longleftrightarrow> r = Some (Inr x)"
  by (cases r) (auto simp: prefixed_def map_sum_def split: sum.splits)

text \<open>
  C15: Merging a merge request stores a snapshot on top of the target's head and marks the request
  as merged, but moves no reference: the target branch still resolves to its old head, and reading
  at it still shows the tree from before the merge.
\<close>
theorem merge_leaves_target:
  assumes "truthful_hosting L" "merge_mr L ctx rp iid_text v = (Done (rid, hash, conflicts), v')"
    "parse_iid iid_text = Inr iid" "hs_mr L v rp iid = Inr m"
    "\<not> special (mr_target m)" "vc_ref L v rp (mr_target m) = Some rf" "rf_target rf = vc_text L h"
    "\<not> special (vc_text L h)" "vc_ref L v rp (vc_text L h) = None" "vc_snap L v rp h = Inr sn"
  shows "vc_ref L v' = vc_ref L v
    \<and> resolve_ref_any L v' rp rp (mr_target m) = Some (Inr h)
    \<and> tree_of_ref L v' rp rp (mr_target m) = Some (Inr (sn_tree sn))
    \<and> (\<exists>new. hash = vc_text L (sn_hash new) \<and> sn_parents new = [h] \<and> vc_snap L v' rp (sn_hash new) = Inr new)"
proof -
  have t: "truthful_vcs L" using assms(1) by (simp add: truthful_hosting_def)
  have tgt: "resolve_snapshot_of L v rp rp (mr_target m) = Some (Inr sn)"
    using resolve_branch(1)[OF t assms(5,8,6,7,9,10)] assms(10) by (simp add: resolve_snapshot_of_def)
  obtain src_tree base merged n v1 new rv v2 u where
    m: "vc_merge L rp base src_tree (sn_tree sn) v = (Inr (merged, n), v1)"
    and c: "vc_commit_tree L rp [sn_hash sn] merged (''Merge '' @ mr_source m @ '' into '' @ mr_target m) lab_author '''' v1
        = (Inr (new, rv), v2)"
    and st: "hs_mr_state L rp iid ''merged'' v2 = (Inr u, v')"
    and hash: "hash = vc_text L (sn_hash new)"
    using assms(2,3,4) tgt
    by (auto simp: merge_mr_def merge_merge_request_def done_cases prefixed_Some Let_def split: prod.splits)
  note a1 = truthfulD(7)[OF t m] and a2 = truthfulD(6)[OF t c]
  have a3: "only_adds L v2 v'" using assms(1) st unfolding truthful_hosting_def by blast
  have a: "only_adds L v v'" by (rule only_adds_trans[OF only_adds_trans[OF a1 conjunct1[OF a2]] a3])
  have "vc_snap L v' rp (sn_hash new) = Inr new" using a2 only_adds_snap[OF a3] by blast
  moreover have "sn_parents new = [h]" using a2 truthfulD(2)[OF t assms(10)] by simp
  moreover have "vc_ref L v' = vc_ref L v" "vc_snap L v' rp h = Inr sn"
    using only_adds_ref[OF a] only_adds_snap[OF a assms(10)] by simp_all
  ultimately show ?thesis
    using resolve_branch[OF t assms(5,8), of v' rp rf sn] assms(6,7,9) hash by auto
qed

text \<open>
  The source branch of a merge request from a fork is looked up in the target repository: the
  merge does the same whatever the fork's branches and log are.
\<close>
lemma merge_ignores_fork:
  assumes "source_repo L v rp m = Inr src" "src \<noteq> rp"
  shows "merge_merge_request (L\<lparr> vc_ref := (\<lambda>v r. if r = src then refs v else vc_ref L v r),
      vc_log := (\<lambda>v r. if r = src then revs v else vc_log L v r) \<rparr>) rp m k v = merge_merge_request L rp m k v"
proof -
  let ?L = "L\<lparr> vc_ref := (\<lambda>v r. if r = src then refs v else vc_ref L v r),
      vc_log := (\<lambda>v r. if r = src then revs v else vc_log L v r) \<rparr>"
  have g: "vc_snap ?L = vc_snap L" "vc_text ?L = vc_text L" "vc_zero ?L = vc_zero L" "vc_merge ?L = vc_merge L"
    "vc_commit_tree ?L = vc_commit_tree L" "vc_central ?L = vc_central L" "hs_repo_id ?L = hs_repo_id L"
    "hs_by_id ?L = hs_by_id L"
    by simp_all
  have r: "resolve_ref_any ?L v rp sp x = resolve_ref_any L v rp sp x" for v sp x
    using assms(2) by (intro resolve_agree) auto
  have l: "latest ?L v rp = latest L v rp" for v using assms(2) by (simp add: latest_def)
  have t: "tree_of_ref ?L v rp sp x = tree_of_ref L v rp sp x" for v sp x
    unfolding tree_of_ref_def r l g by (rule refl)
  have s: "resolve_snapshot_of ?L v rp sp x = resolve_snapshot_of L v rp sp x" for v sp x
    unfolding resolve_snapshot_of_def r g by (rule refl)
  have o: "source_repo ?L v rp m = source_repo L v rp m" for v
    unfolding source_repo_def open_repo_def g by (rule refl)
  show ?thesis unfolding merge_merge_request_def o t s g by (rule refl)
qed

section \<open>Calls without a write role\<close>

text \<open>
  C14: Whoever may read a repository turns it into a mirror of any address, or has it pushed to any
  address; and deleting an organization deletes every repository of that name the caller can see,
  without asking for a role or for a credential.
\<close>
theorem readers_rewire_and_delete:
  assumes "ce_repo_exists (vc_central L v) (fst rp) (snd rp)" "may L ctx CapRead rp v" "vc_meta L v rp = Inr me"
    "url \<noteq> ''''" "vc_accessible L v (user_id_of ctx') = Inr rps" "\<And>rq v. fst (vc_delete L rq v) = Inr ()"
  shows "snd (set_mirror L ctx rp url '''' '''' v) = snd (vc_put_mirror L rp (me\<lparr> me_kind := ''mirror'', me_url := url \<rparr>) v)
    \<and> snd (set_mirror L ctx rp '''' url token v) = snd (hs_put_push L rp \<lparr> pm_name = ''default'', pm_url = url,
         pm_branch = me_default me, pm_token = token, pm_last = '''' \<rparr> v)
    \<and> delete_org L ctx' ns v = (Done (), fold (\<lambda>rq. snd \<circ> vc_delete L rq) (filter (\<lambda>rq. fst rq = ns) rps) v)"
proof -
  have o: "opened L ctx rp CapRead ''reading a repository'' v = None"
    using assms(1) assms(2)[unfolded may_def, folded require_repo_action_None[where action = "''reading a repository''"]]
    by (simp add: opened_def open_repo_authorized_def)
  have d: "delete_each L ns rqs w = (Done (), fold (\<lambda>rq. snd \<circ> vc_delete L rq) (filter (\<lambda>rq. fst rq = ns) rqs) w)" for rqs w
  proof (induction rqs arbitrary: w)
    case (Cons rq rqs)
    have "vc_delete L rq w = (Inr (), snd (vc_delete L rq w))" using assms(6) by (metis prod.collapse)
    then show ?case using Cons by (auto simp: act_defs split: prod.splits)
  qed (simp add: act_defs)
  show ?thesis
    using o assms(3,4,5) d
    by (auto simp: set_mirror_def delete_org_def act_defs Let_def split: prod.splits sum.splits)
qed

end
