(* ===== verification/Lab_Demo.thy ===== *)
theory Lab_Demo
imports Lab_Correct
begin

text \<open>
  A small library that satisfies the laws of \<^verbatim>\<open>Lab_Correct\<close>, with numbers for object ids, and the
  witnesses of the lab's theorems: a repository with a branch \<^verbatim>\<open>main\<close>, a branch \<^verbatim>\<open>dev\<close> one
  revision ahead of it, and an open merge request from the second to the first.
\<close>

record demo_lab =
  dl_refs :: "(rkey \<times> vref) list"
  dl_snaps :: "(nat \<times> nat stored_snapshot) list"
  dl_revs :: "nat revision list"
  dl_metas :: "(rkey \<times> repo_meta) list"
  dl_pushes :: "(rkey \<times> push_mirror) list"
  dl_gone :: "rkey list"
  dl_merged :: "int list"

definition demo_ref :: "demo_lab \<Rightarrow> rkey \<Rightarrow> string \<Rightarrow> vref option" where
  "demo_ref v rp n = map_of (map (\<lambda>(q, rf). ((q, rf_name rf), rf)) (dl_refs v)) (rp, n)"

definition demo_snap :: "demo_lab \<Rightarrow> rkey \<Rightarrow> nat \<Rightarrow> string + nat stored_snapshot" where
  "demo_snap v rp h = (case map_of (dl_snaps v) h of Some sn \<Rightarrow> Inr (sn\<lparr> sn_hash := h \<rparr>) | None \<Rightarrow> Inl ''no snapshot'')"

definition demo_meta :: "demo_lab \<Rightarrow> rkey \<Rightarrow> string + repo_meta" where
  "demo_meta v rp = (case map_of (dl_metas v) rp of Some m \<Rightarrow> Inr m | None \<Rightarrow> Inl ''no repository'')"

definition demo_fresh :: "demo_lab \<Rightarrow> nat" where
  "demo_fresh v = sum_list (map fst (dl_snaps v)) + 1"

definition demo_commit :: "nat list \<Rightarrow> nat \<Rightarrow> string \<Rightarrow> demo_lab
    \<Rightarrow> (string + (nat stored_snapshot \<times> nat revision)) \<times> demo_lab" where
  "demo_commit ps t m v =
    (let h = demo_fresh v; rid = CHR ''r'' # dec_nat h;
         sn = \<lparr> sn_hash = h, sn_rev = rid, sn_tree = t, sn_parents = ps, sn_desc = m, sn_author = '''', sn_time = int h \<rparr>;
         rv = \<lparr> rv_id = rid, rv_hash = h, rv_created = int h \<rparr>
     in (Inr (sn, rv), v\<lparr> dl_snaps := (h, sn) # dl_snaps v, dl_revs := rv # dl_revs v \<rparr>))"

definition demo_mr :: merge_request where
  "demo_mr = \<lparr> mr_id = 7, mr_iid = 1, mr_title = ''add'', mr_desc = '''', mr_source = ''dev'', mr_target = ''main'',
     mr_state = ''open'', mr_author = Some 1, mr_created = 0, mr_updated = 0, mr_source_repo = 0 \<rparr>"

definition demo_hosting :: "(nat, demo_lab, nat) hosting" where
  "demo_hosting = \<lparr>
     vc_central = (\<lambda>v. demo_central\<lparr> ce_role := (\<lambda>ns n i. if i = 1 then Inr 4 else if i = 2 then Inr 1 else Inr 0) \<rparr>),
     vc_accessible = (\<lambda>v i. Inr (map fst (dl_metas v))), vc_meta = demo_meta,
     vc_log = (\<lambda>v rp. Inr (dl_revs v)), vc_revisions = (\<lambda>v rp. Inr (dl_revs v)),
     vc_rev = (\<lambda>v rp x. case find (\<lambda>r. rv_id r = x) (dl_revs v) of Some r \<Rightarrow> Inr r | None \<Rightarrow> Inl ''no revision''),
     vc_snap = demo_snap, vc_ref = demo_ref, vc_refs = (\<lambda>v rp. Inr (map snd (filter (\<lambda>(q, _). q = rp) (dl_refs v)))),
     vc_tree = (\<lambda>v rp t. Inr []), vc_entry = (\<lambda>v rp t p. Inl ''''), vc_blob = (\<lambda>v rp i. Inl ''''),
     vc_paths = (\<lambda>v rp t. Inr []), vc_diff = (\<lambda>v rp a b. Inr []), vc_annotate = (\<lambda>v rp a b. Inr []),
     vc_zero = 0,
     vc_hex = (\<lambda>s. case parse_digits s of Some n \<Rightarrow> Inr n | None \<Rightarrow> Inl ''invalid object id''), vc_text = dec_nat,
     vc_create = (\<lambda>i rp v. (Inl ''repository exists'', v)),
     vc_delete = (\<lambda>rp v. (Inr (), v\<lparr> dl_gone := rp # dl_gone v \<rparr>)),
     vc_fork = (\<lambda>rp i q v. (Inl ''exists'', v)), vc_put_meta = (\<lambda>rp m v. (Inr (), v\<lparr> dl_metas := (rp, m) # dl_metas v \<rparr>)),
     vc_put_mirror = (\<lambda>rp m v. (Inr (), v\<lparr> dl_metas := (rp, m) # dl_metas v \<rparr>)),
     vc_set_ref = (\<lambda>rp n k t v. (Inr (), v\<lparr> dl_refs := (rp, \<lparr> rf_name = n, rf_kind = k, rf_target = t \<rparr>) # dl_refs v \<rparr>)),
     vc_del_ref = (\<lambda>rp n v. (Inl ''not found'', v)),
     vc_commit_files = (\<lambda>rp p fs m a r v. demo_commit [p] (5 + demo_fresh v) m v),
     vc_commit_tree = (\<lambda>rp ps t m a r v. demo_commit ps t m v),
     vc_merge = (\<lambda>rp b x y v. (Inr (x, 0), v)),
     vc_drop = (\<lambda>rp x v. (Inl '''', v)), vc_revert = (\<lambda>rp x i v. (Inl '''', v)), vc_squash = (\<lambda>rp x v. (Inl '''', v)),
     vc_rebase = (\<lambda>rp x ps v. (Inl '''', v)), vc_rebase_many = (\<lambda>rp xs i v. (Inl '''', v)),
     hs_repo_id = (\<lambda>v rp. 1), hs_by_id = (\<lambda>v i. if i = 2 then Inr (''bob'', ''web'') else Inl ''not found''),
     hs_owner = (\<lambda>v rp. 1), hs_mrs = (\<lambda>v rp s. Inr [demo_mr]),
     hs_mr = (\<lambda>v rp i. if i = 1 then Inr demo_mr else Inl ''not found''),
     hs_new_mr = (\<lambda>rp m v. (Inr m, v)),
     hs_mr_state = (\<lambda>rp i s v. (Inr (), v\<lparr> dl_merged := i # dl_merged v \<rparr>)),
     hs_reviews = (\<lambda>v i. Inr []), hs_comments = (\<lambda>v i. Inr []),
     hs_add_review = (\<lambda>i u s b v. (Inr (), v)), hs_add_comment = (\<lambda>i u b p v. (Inr (), v)),
     hs_members = (\<lambda>v rp. Inr []), hs_set_member = (\<lambda>rp i r u v. (Inr (), v)), hs_del_member = (\<lambda>rp i v. (Inr (), v)),
     hs_pushes = (\<lambda>v rp. Inr (map snd (dl_pushes v))), hs_push_of = (\<lambda>v rp n. Inl ''not found''),
     hs_put_push = (\<lambda>rp m v. (Inr (), v\<lparr> dl_pushes := (rp, m) # dl_pushes v \<rparr>)), hs_del_push = (\<lambda>rp n v. v),
     hs_pull = (\<lambda>rp a b c v. (Inl '''', v)), hs_push = (\<lambda>rp m v. (Inl '''', v)),
     hs_touch = (\<lambda>rp r i e v. v), hs_push_sync = (\<lambda>rp n r e v. v),
     hs_art = (\<lambda>v r t. Inl ''not found''), hs_versions = (\<lambda>v r. Inr []), hs_put_art = (\<lambda>a v. (Inr (), v)),
     hs_del_art = (\<lambda>r t v. (Inr (), v)), hs_blob = (\<lambda>v d. Inl ''''), hs_put_blob = (\<lambda>d x v. (Inr (), v)),
     hs_del_blob = (\<lambda>d v. v), hs_digest = (\<lambda>d. d), hs_no_blob = (\<lambda>b. bl_digest b = '''') \<rparr>"

lemma demo_hosting_sel [simp]:
  "vc_ref demo_hosting = demo_ref" "vc_snap demo_hosting = demo_snap" "vc_text demo_hosting = dec_nat"
  "vc_zero demo_hosting = 0" "vc_meta demo_hosting = demo_meta" "vc_log demo_hosting v rp = Inr (dl_revs v)"
  "vc_revisions demo_hosting v rp = Inr (dl_revs v)"
  "vc_hex demo_hosting s = (case parse_digits s of Some n \<Rightarrow> Inr n | None \<Rightarrow> Inl ''invalid object id'')"
  "vc_set_ref demo_hosting rp n k t v =
    (Inr (), v\<lparr> dl_refs := (rp, \<lparr> rf_name = n, rf_kind = k, rf_target = t \<rparr>) # dl_refs v \<rparr>)"
  "vc_commit_files demo_hosting rp p fs m a r v = demo_commit [p] (5 + demo_fresh v) m v"
  "vc_commit_tree demo_hosting rp ps tr m a r v = demo_commit ps tr m v"
  "vc_merge demo_hosting rp b x y v = (Inr (x, 0), v)"
  "hs_mr_state demo_hosting rp i s v = (Inr (), v\<lparr> dl_merged := i # dl_merged v \<rparr>)"
  "hs_mr demo_hosting v rp i = (if i = 1 then Inr demo_mr else Inl ''not found'')"
  "vc_delete demo_hosting rp v = (Inr (), v\<lparr> dl_gone := rp # dl_gone v \<rparr>)"
  by (simp_all add: demo_hosting_def)

lemma le_sum_list: "h \<in> set hs \<Longrightarrow> h \<le> sum_list (hs :: nat list)"
  by (simp add: member_le_sum_list)

lemma demo_fresh_new: "map_of (dl_snaps v) h = Some sn \<Longrightarrow> h \<noteq> demo_fresh v"
  using le_sum_list[of h "map fst (dl_snaps v)"] by (force simp: demo_fresh_def dest!: map_of_SomeD)

lemma demo_commit_adds:
  assumes "demo_commit ps t m v = (Inr (sn, rv), v')"
  shows "only_adds demo_hosting v v' \<and> demo_snap v' rp (sn_hash sn) = Inr sn \<and> sn_parents sn = ps \<and> sn_tree sn = t"
proof -
  have "demo_snap v' rp h = Inr x" if x: "demo_snap v rp h = Inr x" for rp h x
  proof -
    obtain y where "map_of (dl_snaps v) h = Some y"
      using x by (cases "map_of (dl_snaps v) h") (simp_all add: demo_snap_def)
    then have "map_of (dl_snaps v') h = map_of (dl_snaps v) h"
      using demo_fresh_new[of v h] assms by (auto simp: demo_commit_def Let_def)
    then show ?thesis using x by (simp add: demo_snap_def)
  qed
  moreover have "demo_ref v' = demo_ref v" using assms by (auto simp: fun_eq_iff demo_ref_def demo_commit_def Let_def)
  moreover have "demo_snap v' rp (sn_hash sn) = Inr sn \<and> sn_parents sn = ps \<and> sn_tree sn = t"
    using assms by (auto simp: demo_snap_def demo_commit_def Let_def)
  ultimately show ?thesis by (simp add: only_adds_def)
qed

lemma demo_lab_truthful: "truthful_hosting demo_hosting"
proof -
  have h: "sn_hash sn = h" if "demo_snap v rp h = Inr sn" for v rp h sn
    using that by (auto simp: demo_snap_def split: option.splits)
  have s: "demo_snap (v\<lparr> dl_refs := x \<rparr>) = demo_snap v" for v x by (simp add: fun_eq_iff demo_snap_def)
  have r: "demo_ref (v\<lparr> dl_refs := (rp, \<lparr> rf_name = n, rf_kind = k, rf_target = t \<rparr>) # dl_refs v \<rparr>) =
      (\<lambda>rq m. if rq = rp \<and> m = n then Some \<lparr> rf_name = n, rf_kind = k, rf_target = t \<rparr> else demo_ref v rq m)" for v rp n k t
    by (auto simp: fun_eq_iff demo_ref_def)
  have m: "only_adds demo_hosting v (v\<lparr> dl_merged := x \<rparr>)" for v x
    by (simp add: only_adds_def fun_eq_iff demo_ref_def demo_snap_def)
  have a: "only_adds demo_hosting v v" for v by (simp add: only_adds_def)
  show ?thesis
    unfolding truthful_hosting_def truthful_vcs_def
    using h s r m a demo_commit_adds by (simp add: parse_dec_nat) (simp add: fun_eq_iff)
qed

definition demo_rp :: rkey where
  "demo_rp = (''acme'', ''web'')"

definition demo_repo :: demo_lab where
  "demo_repo = \<lparr>
     dl_refs = [(demo_rp, \<lparr> rf_name = ''main'', rf_kind = BranchRef, rf_target = ''1'' \<rparr>),
                (demo_rp, \<lparr> rf_name = ''dev'', rf_kind = BranchRef, rf_target = ''2'' \<rparr>)],
     dl_snaps = [(2, \<lparr> sn_hash = 2, sn_rev = ''r2'', sn_tree = 20, sn_parents = [1], sn_desc = ''more'', sn_author = '''', sn_time = 2 \<rparr>),
                 (1, \<lparr> sn_hash = 1, sn_rev = ''r1'', sn_tree = 10, sn_parents = [], sn_desc = ''start'', sn_author = '''', sn_time = 1 \<rparr>)],
     dl_revs = [\<lparr> rv_id = ''r2'', rv_hash = 2, rv_created = 2 \<rparr>, \<lparr> rv_id = ''r1'', rv_hash = 1, rv_created = 1 \<rparr>],
     dl_metas = [(demo_rp, \<lparr> me_desc = '''', me_visibility = ''private'', me_default = ''main'', me_kind = ''normal'',
                             me_url = '''', me_branch = '''', me_token = '''' \<rparr>)],
     dl_pushes = [], dl_gone = [], dl_merged = [] \<rparr>"

definition ann :: "principal option" where
  "ann = Some (nobody\<lparr> pl_user := 1, pl_name := ''ann'' \<rparr>)"

definition bob :: "principal option" where
  "bob = Some (nobody\<lparr> pl_user := 2, pl_name := ''bob'' \<rparr>)"

section \<open>Witnesses\<close>

lemma done_state: "fst r = Done a \<Longrightarrow> r = (Done a, snd r)"
  by (metis prod.collapse)

lemma digit_text: "c \<in> set (dec_nat n) \<Longrightarrow> is_dec c"
  using dec_nat_digits[of n] by (simp add: list_all_iff)

lemma text_not_special: "\<not> special (dec_nat n)"
proof -
  have "CHR ''@'' \<notin> set (dec_nat n)" using digit_text[of "CHR ''@''" n] by (auto simp: is_dec_def)
  then show ?thesis by (auto simp: special_def)
qed

lemma not_text: "list_ex (\<lambda>c. \<not> is_dec c) s \<Longrightarrow> s \<noteq> dec_nat n"
  using digit_text[of _ n] by (auto simp: list_ex_iff)

lemma demo_plain_ids: "plain_ids demo_hosting demo_repo demo_rp"
  using not_text[of "''main''", symmetric] not_text[of "''dev''", symmetric]
  by (auto simp: plain_ids_def text_not_special demo_ref_def demo_repo_def is_dec_def)

lemma demo_refs_finite: "finite {n. vc_ref demo_hosting v rp n \<noteq> None}"
proof -
  have "{n. vc_ref demo_hosting v rp n \<noteq> None} \<subseteq> (\<lambda>(q, rf). rf_name rf) ` set (dl_refs v)"
    by (force simp: demo_ref_def dest!: map_of_SomeD)
  then show ?thesis by (rule finite_subset) simp
qed

lemma resolve_returns_iff_witness: "resolve_ref_any demo_hosting demo_repo demo_rp demo_rp ''dev'' = Some (Inr 2)"
proof -
  have "follow demo_hosting demo_repo demo_rp 1 ''dev'' = Some ''2'' \<and> next_ref demo_hosting demo_repo demo_rp ''2'' = None
    \<and> Inr 2 = resolve_last demo_hosting demo_repo demo_rp demo_rp ''2''"
    by code_simp
  then show ?thesis
    using resolve_returns_iff[OF demo_refs_finite, where v = demo_repo and w = demo_rp and rp = demo_rp and ref = "''dev''" and r = "Inr 2"]
    by blast
qed

lemma lab_writes_authorized_witness: "may demo_hosting ann CapPush demo_rp demo_repo"
proof -
  have r: "run_call demo_hosting 0 ann (CallCreateBranch demo_rp ''fix'' ''dev'') demo_repo =
      (Done (), demo_repo\<lparr> dl_refs := (demo_rp, \<lparr> rf_name = ''fix'', rf_kind = BranchRef, rf_target = ''2'' \<rparr>) # dl_refs demo_repo \<rparr>)"
    by code_simp
  have "demo_repo\<lparr> dl_refs := (demo_rp, \<lparr> rf_name = ''fix'', rf_kind = BranchRef, rf_target = ''2'' \<rparr>) # dl_refs demo_repo \<rparr> \<noteq> demo_repo"
    by (simp add: demo_repo_def)
  from lab_writes_authorized[OF r this] show ?thesis by simp
qed

lemma create_branch_resolves_witness:
  "tree_of_ref demo_hosting (snd (create_branch demo_hosting ann demo_rp ''fix'' ''dev'' demo_repo)) demo_rp demo_rp ''fix'' = Some (Inr 20)"
proof -
  have t: "truthful_vcs demo_hosting" using demo_lab_truthful by (simp add: truthful_hosting_def)
  have "fst (create_branch demo_hosting ann demo_rp ''fix'' ''dev'' demo_repo) = Done ()" by code_simp
  note b = done_state[OF this]
  have f: "tree_of_ref demo_hosting demo_repo demo_rp demo_rp ''dev'' = Some (Inr 20)" by code_simp
  have n: "\<not> special ''fix''" "''fix'' \<notin> range (vc_text demo_hosting)"
    using not_text[of "''fix''"] by (auto simp: special_def is_dec_def)
  show ?thesis using create_branch_resolves[OF t demo_plain_ids n b f] by simp
qed

lemma write_blob_visible_witness:
  "\<exists>sn :: nat stored_snapshot. tree_of_ref demo_hosting (snd (write_blob demo_hosting ann demo_rp ''dev'' ''f'' ''x'' '''' demo_repo))
     demo_rp demo_rp ''dev'' = Some (Inr (sn_tree sn))"
proof -
  have t: "truthful_vcs demo_hosting" using demo_lab_truthful by (simp add: truthful_hosting_def)
  have "needs demo_hosting ann demo_rp CapPush ''writing to a branch'' demo_repo = None"
    "opened demo_hosting ann demo_rp CapRead ''reading a repository'' demo_repo = None"
    "resolve_ref_any demo_hosting demo_repo demo_rp demo_rp ''dev'' = Some (Inr 2)"
    "demo_ref demo_repo demo_rp ''dev'' = Some \<lparr> rf_name = ''dev'', rf_kind = BranchRef, rf_target = ''2'' \<rparr>"
    by code_simp+
  then have "fst (write_blob demo_hosting ann demo_rp ''dev'' ''f'' ''x'' '''' demo_repo) = Done ()"
    by (simp add: write_blob_def act_defs demo_commit_def Let_def)
  note b = done_state[OF this]
  have n: "\<not> special ''dev''" by (simp add: special_def)
  from write_blob_visible[OF t demo_plain_ids n b] show ?thesis
  proof (elim exE conjE)
    fix sn :: "nat stored_snapshot"
    assume "tree_of_ref demo_hosting (snd (write_blob demo_hosting ann demo_rp ''dev'' ''f'' ''x'' '''' demo_repo))
      demo_rp demo_rp ''dev'' = Some (Inr (sn_tree sn))"
    then show ?thesis by (rule exI[where x = sn])
  qed
qed

lemma self_reference_diverges_witness:
  "lab_tree demo_hosting bob demo_rp ''v1'' '''' (snd (set_tag demo_hosting ann demo_rp ''v1'' ''v1'' demo_repo)) =
     (Diverge, snd (set_tag demo_hosting ann demo_rp ''v1'' ''v1'' demo_repo))"
proof -
  have t: "truthful_vcs demo_hosting" using demo_lab_truthful by (simp add: truthful_hosting_def)
  have "fst (set_tag demo_hosting ann demo_rp ''v1'' ''v1'' demo_repo) = Done ()" by code_simp
  note s = done_state[OF this]
  have n: "\<not> special ''v1''" by (simp add: special_def)
  have o: "opened demo_hosting bob demo_rp CapRead ''reading a repository''
      (snd (set_tag demo_hosting ann demo_rp ''v1'' ''v1'' demo_repo)) = None" by code_simp
  show ?thesis using self_reference_diverges[OF t n disjI1[OF s] o] by blast
qed

lemma demo_iid: "parse_iid ''1'' = Inr 1"
proof -
  have "parse_digits ''1'' = Some 1" by code_simp
  then show ?thesis by (simp add: parse_iid_def parse_int64_def)
qed

lemma merge_leaves_target_witness:
  "tree_of_ref demo_hosting (snd (merge_mr demo_hosting ann demo_rp ''1'' demo_repo)) demo_rp demo_rp ''main'' = Some (Inr 10)"
proof -
  have f: "demo_fresh demo_repo = 4" "dec_nat 4 = ''4''" by code_simp+
  have "needs demo_hosting ann demo_rp CapMerge ''merging a change request'' demo_repo = None"
    "opened demo_hosting ann demo_rp CapRead ''reading a repository'' demo_repo = None"
    "source_repo demo_hosting demo_repo demo_rp demo_mr = Inr demo_rp"
    "tree_of_ref demo_hosting demo_repo demo_rp demo_rp ''dev'' = Some (Inr 20)"
    "resolve_snapshot_of demo_hosting demo_repo demo_rp demo_rp ''main'' = Some (Inr
      \<lparr> sn_hash = 1, sn_rev = ''r1'', sn_tree = 10, sn_parents = [], sn_desc = ''start'', sn_author = '''', sn_time = 1 \<rparr>)"
    "mr_source demo_mr = ''dev''" "mr_target demo_mr = ''main''"
    by code_simp+
  then have "fst (merge_mr demo_hosting ann demo_rp ''1'' demo_repo) = Done (''r4'', ''4'', 0)"
    using f demo_iid by (simp add: merge_mr_def merge_merge_request_def act_defs prefixed_def demo_commit_def Let_def int32_of_def)
  note m = done_state[OF this]
  have h: "hs_mr demo_hosting demo_repo demo_rp 1 = Inr demo_mr" by simp
  have s: "\<not> special (mr_target demo_mr)" by (simp add: demo_mr_def special_def)
  have r: "vc_ref demo_hosting demo_repo demo_rp (mr_target demo_mr) =
      Some \<lparr> rf_name = ''main'', rf_kind = BranchRef, rf_target = ''1'' \<rparr>" by code_simp
  have e: "rf_target \<lparr> rf_name = ''main'', rf_kind = BranchRef, rf_target = ''1'' \<rparr> = vc_text demo_hosting 1" by code_simp
  have p: "\<not> special (vc_text demo_hosting 1)" "vc_ref demo_hosting demo_repo demo_rp (vc_text demo_hosting 1) = None"
    using demo_plain_ids unfolding plain_ids_def by blast+
  have n: "vc_snap demo_hosting demo_repo demo_rp 1 = Inr
      \<lparr> sn_hash = 1, sn_rev = ''r1'', sn_tree = 10, sn_parents = [], sn_desc = ''start'', sn_author = '''', sn_time = 1 \<rparr>"
    by code_simp
  show ?thesis using merge_leaves_target[OF demo_lab_truthful m demo_iid h s r e p n] by (simp add: demo_mr_def)
qed

definition fork_mr :: merge_request where
  "fork_mr = demo_mr\<lparr> mr_source_repo := 2 \<rparr>"

lemma merge_ignores_fork_witness:
  "merge_merge_request (demo_hosting\<lparr>
      vc_ref := (\<lambda>v r. if r = (''bob'', ''web'') then (\<lambda>_. None) else vc_ref demo_hosting v r),
      vc_log := (\<lambda>v r. if r = (''bob'', ''web'') then Inl ''gone'' else vc_log demo_hosting v r) \<rparr>)
    demo_rp fork_mr give demo_repo = merge_merge_request demo_hosting demo_rp fork_mr give demo_repo"
proof -
  have s: "source_repo demo_hosting demo_repo demo_rp fork_mr = Inr (''bob'', ''web'')" by code_simp
  have n: "(''bob'', ''web'') \<noteq> demo_rp" by (simp add: demo_rp_def)
  show ?thesis
    by (rule merge_ignores_fork[OF s n, where refs = "\<lambda>_ _. None" and revs = "\<lambda>_. Inl ''gone''" and k = give])
qed

lemma readers_rewire_and_delete_witness:
  "dl_gone (snd (delete_org demo_hosting None ''acme'' demo_repo)) = [demo_rp]"
proof -
  have e: "ce_repo_exists (vc_central demo_hosting demo_repo) (fst demo_rp) (snd demo_rp)" by code_simp
  have m: "may demo_hosting bob CapRead demo_rp demo_repo"
    by (simp add: may_def has_role_def demo_hosting_def demo_central_def bob_def nobody_def user_id_of_def principal_of_def)
  obtain me where me: "vc_meta demo_hosting demo_repo demo_rp = Inr me"
    by (simp add: demo_meta_def demo_repo_def)
  have a: "vc_accessible demo_hosting demo_repo (user_id_of None) = Inr [demo_rp]" by code_simp
  have u: "''http://x'' \<noteq> ''''" by simp
  have d: "fst (vc_delete demo_hosting rq v) = Inr ()" for rq v by simp
  note r = readers_rewire_and_delete[OF e m me u a d, where ns = "''acme''" and token = "''t''"]
  have f: "filter (\<lambda>rq. fst rq = ''acme'') [demo_rp] = [demo_rp]" by code_simp
  show ?thesis unfolding conjunct2[OF conjunct2[OF r]] f by (simp add: demo_repo_def)
qed

lemma fetch_sends_ancestors_witness:
  "\<exists>sent. handle_fetch demo_hosting (\<lambda>v rp have_ids own. Inr \<lparr> bu_version = 1, bu_repo = '''', bu_revisions = dl_revs v,
        bu_snapshots = [], bu_refs = [], bu_objects = [] \<rparr>) Inr demo_rp
      (Inr \<lparr> fr_have = [''r2''], fr_objects = [], fr_want = [''r2''] \<rparr>) demo_repo = (Done sent, demo_repo)
    \<and> bu_revisions sent = dl_revs demo_repo"
proof -
  let ?b = "\<lparr> bu_version = 1, bu_repo = '''', bu_revisions = dl_revs demo_repo, bu_snapshots = [], bu_refs = [], bu_objects = [] \<rparr>"
  let ?q = "\<lparr> fr_have = [''r2''], fr_objects = [], fr_want = [''r2''] \<rparr>"
  have e: "ce_repo_exists (vc_central demo_hosting demo_repo) (fst demo_rp) (snd demo_rp)" by code_simp
  have l: "vc_revisions demo_hosting demo_repo demo_rp = Inr (dl_revs demo_repo)" by simp
  show ?thesis
    using fetch_sends_ancestors[OF e, where q = ?q and b = ?b and cs = "dl_revs demo_repo"
        and collect = "\<lambda>v rp have_ids own. Inr \<lparr> bu_version = 1, bu_repo = '''', bu_revisions = dl_revs v,
          bu_snapshots = [], bu_refs = [], bu_objects = [] \<rparr>" and compress = Inr] l
    by auto
qed

lemma graph_spec_witness:
  "\<exists>nodes. graph demo_hosting ann demo_rp 1 demo_repo = (Done (take 1 nodes), demo_repo) \<and> distinct (map gn_rev nodes)"
proof -
  have o: "opened demo_hosting ann demo_rp CapRead ''reading a repository'' demo_repo = None" by code_simp
  have l: "vc_log demo_hosting demo_repo demo_rp = Inr (dl_revs demo_repo)" by simp
  have c: "list_all (\<lambda>r. node_of demo_hosting demo_repo demo_rp (dl_revs demo_repo) (rv_id r) \<noteq> None) (dl_revs demo_repo)"
    by code_simp
  have t: "rev_limit 1 100 = 1" by (simp add: rev_limit_def)
  show ?thesis using graph_spec[OF o l, of 1] unfolding if_P[OF c] t by blast
qed

end
