(* ===== verification/Sandboxes_Demo.thy ===== *)
theory Sandboxes_Demo
imports Sandboxes_Correct Lab_Demo
begin

text \<open>
  A gateway over the small cluster of \<^verbatim>\<open>Kube_Job\<close> and the small lab of \<^verbatim>\<open>Lab_Demo\<close>, with one sandbox
  of user 1, and the witnesses of the sandbox theorems.
\<close>

definition box_client :: kube_client where
  "box_client = pods_client\<lparr> kc_runtimes := [(''linux'', blank_profile\<lparr> rt_name := ''linux'', rt_derived := True \<rparr>)] \<rparr>"

definition box_vcs :: "(nat, demo_lab, nat) object_vcs" where
  "box_vcs = vcs.extend (vcs.truncate demo_hosting)
     (object_vcs.fields (\<lambda>v rp t. Inr []) (\<lambda>f d. None) (\<lambda>v rp. 1))"

definition box_gateway :: "(nat, demo_lab, nat, demo_pods) gateway" where
  "box_gateway = \<lparr> gw_kube = pods_kube, gw_worker = pods_worker, gw_client = Some box_client, gw_backend = None,
     gw_vcs = box_vcs, gw_v = demo_repo, gw_bytes = (\<lambda>tes. ''''), gw_fails = (\<lambda>op k. None), gw_now = fst,
     gw_sha = (\<lambda>s. s), gw_binary = (\<lambda>k. Inr ''bin''), gw_mkdir = (\<lambda>d k. (Inr (), k)),
     gw_write = (\<lambda>p c k. (Inr (), k)), gw_head = (\<lambda>u tok k. Some 200), gw_data = ''/data'',
     gw_registry_host = ''reg'', gw_namespace = '''', gw_artifacts = '''' \<rparr>"

definition box_row :: sandbox_row where
  "box_row = blank_row\<lparr> sb_name := ''box'', sb_mode := ''managed'', sb_token := ''old'', sb_owner := 1 \<rparr>"

definition box_world :: "demo_pods sbx_world" where
  "box_world = \<lparr> sw_rows = [box_row], sw_ext = (0, [''box'']), sw_cache = [] \<rparr>"

definition box_user :: "int \<Rightarrow> principal option" where
  "box_user i = Some (nobody\<lparr> pl_user := i \<rparr>)"

definition box_owner :: "demo_pods sbx_world \<Rightarrow> int option" where
  "box_owner w = map_option sb_owner (sbx_get (sw_rows w) ''box'')"

lemma box_gateway_sel [simp]:
  "gw_kube box_gateway = pods_kube" "gw_worker box_gateway = pods_worker" "gw_client box_gateway = Some box_client"
  "gw_fails box_gateway op k = None" "gw_now box_gateway k = fst k" "gw_vcs box_gateway = box_vcs"
  "gw_v box_gateway = demo_repo" "gw_binary box_gateway k = Inr ''bin''" "gw_mkdir box_gateway d k = (Inr (), k)"
  "gw_write box_gateway p c k = (Inr (), k)" "gw_head box_gateway u tok k = Some 200"
  by (simp_all add: box_gateway_def)

lemma box_vcs_sel:
  "vc_central box_vcs = vc_central demo_hosting" "vc_ref box_vcs = vc_ref demo_hosting"
  "vc_snap box_vcs = vc_snap demo_hosting" "vc_text box_vcs = vc_text demo_hosting"
  "vc_hex box_vcs = vc_hex demo_hosting" "vc_log box_vcs = vc_log demo_hosting"
  "ov_entries box_vcs v rp t = Inr []" "ov_owner box_vcs v rp = 1"
  by (simp_all add: box_vcs_def vcs.defs object_vcs.defs)

lemma sandbox_calls_guarded_witness:
  "\<exists>row. sbx_get (sw_rows box_world) ''box'' = Some row
    \<and> (pl_admin (principal_of (box_user 1)) \<or> (sb_owner row \<noteq> 0 \<and> pl_user (principal_of (box_user 1)) = sb_owner row)
       \<or> (sb_owner row = 0 \<and> (sb_org row \<noteq> '''' \<or> sb_repo row \<noteq> '''')
          \<and> can_read_repo (gw_central box_gateway) (box_user 1) (sb_org row) (sb_repo row)))"
proof -
  have r: "run_sandbox box_gateway (box_user 1) (SbxDelete ''box'') box_world =
      (Done (), \<lparr> sw_rows = [], sw_ext = (0, []), sw_cache = [] \<rparr>)"
    by (simp add: ignored_def delete_sandbox_def require_sandbox_access_def row_of_def sandbox_refusal_def act_defs
        on_k_def kube_delete_sandbox_def pods_delete db_write_def box_world_def box_row_def blank_row_def sbx_get_def
        sbx_delete_def box_user_def nobody_def principal_of_def Let_def)
  show ?thesis using sandbox_calls_guarded[OF r] by simp
qed

lemma registration_takes_over_witness:
  "\<exists>w'. register_external box_gateway (box_user 2)
      \<lparr> er_name = ''box'', er_addr = ''http://evil:1/'', er_code = '''', er_token = ''t'', er_owner = '''', er_org = '''',
        er_repo = '''', er_branch = '''' \<rparr> box_world = (Done ''t'', w')
    \<and> box_owner box_world = Some 1 \<and> box_owner w' = Some 2"
proof -
  let ?m = "\<lparr> er_name = ''box'', er_addr = ''http://evil:1/'', er_code = '''', er_token = ''t'', er_owner = '''', er_org = '''',
        er_repo = '''', er_branch = '''' \<rparr>"
  have "fst (register_external box_gateway (box_user 2) ?m box_world) = Done ''t''"
    by (simp add: register_external_def claim_worker_def act_defs on_k_def ask_def db_write_def pods_worker_def
        require_authenticated_def box_user_def nobody_def principal_of_def Let_def)
  then obtain w' where r: "register_external box_gateway (box_user 2) ?m box_world = (Done ''t'', w')" by (metis prod.collapse)
  have u: "pl_user (principal_of (box_user 2)) = 2" by (simp add: box_user_def principal_of_def)
  have o': "box_owner box_world = Some 1" by (simp add: box_owner_def box_world_def box_row_def sbx_get_def)
  from registration_takes_over[OF r] u show ?thesis
    using r o' by (auto simp: box_owner_def)
qed

definition box_request :: sandbox_request where
  "box_request = \<lparr> sr_name = ''box'', sr_org = '''', sr_repo = '''', sr_branch = '''', sr_base = ''alpine'',
     sr_workspace = '''', sr_runtime = '''', sr_env = [] \<rparr>"

lemma box_no_proxy: "sandbox_proxy r box_client (launch_spec box_request p tag tok) = None"
  by (simp add: sandbox_proxy_def egress_spec_for_def box_client_def pods_client_def launch_spec_def Let_def)

lemma box_delete: "delete_sandbox_wait pods_kube n (t, ps) = (Done (), t, removeAll n ps)"
  by (simp add: delete_sandbox_wait_def act_defs pods_delete polling_def deadline_in_def poll_found
      pods_answers pod_gone_def thirty_seconds_def is_not_found_def)

lemma box_spec:
  "sp_name (launch_spec box_request p tag tok) = ''box''" "sp_no_service (launch_spec box_request p tag tok) = False"
  by (simp_all add: launch_spec_def box_request_def)

lemma box_launch:
  "\<exists>st. kube_launch_sandbox pods_kube box_client (launch_spec box_request p tag tok) (t, ps) =
    (Done st, t, ''box'' # removeAll ''box'' ps)"
  by (simp add: kube_launch_sandbox_def Let_def box_no_proxy with_egress_def act_defs box_delete api_def ask_def
      kube_status_def pods_answers box_spec pods_names(1) list_all_iff split_def)

lemma box_ready: "wait_sandbox_ready pods_kube c ''box'' p one_minute (t, ''box'' # ps) = (Done (), t, ''box'' # ps)"
  by (simp add: wait_sandbox_ready_def Let_def act_defs polling_def deadline_in_def poll_found pods_answers
      sandbox_up_def one_minute_def)

lemma box_profile: "resolve_runtime box_client '''' = Inr (blank_profile\<lparr> rt_name := ''linux'', rt_derived := True \<rparr>)"
  by (simp add: resolve_runtime_def or_default_def box_client_def)

lemma launch_takes_over_witness:
  "\<exists>info w'. launch_sandbox box_gateway (box_user 2) box_request box_world = (Done info, w')
    \<and> box_owner box_world = Some 1 \<and> box_owner w' = Some 2"
proof -
  let ?p = "blank_profile\<lparr> rt_name := ''linux'', rt_derived := True \<rparr>"
  have may: "may_launch box_gateway (box_user 2) box_request = None"
    by (simp add: may_launch_def box_request_def require_authenticated_def box_user_def principal_of_def nobody_def)
  have ow: "launch_owner box_gateway (box_user 2) box_request = 2"
    by (simp add: launch_owner_def box_request_def box_user_def principal_of_def user_id_of_def)
  have rs: "fst (snd (ref_split (sandbox_registry_ref box_gateway ''alpine|bin''))) = ''easylab/sandbox''" by code_simp
  have ex: "image_exists box_gateway box_client (sandbox_registry_ref box_gateway ''alpine|bin'') k" for k
    using rs by (auto simp: image_exists_def Let_def split: prod.split)
  have sha: "take 16 (gw_sha box_gateway ''alpine|bin'') = ''alpine|bin''" by (simp add: box_gateway_def)
  let ?tag = "sandbox_registry_ref box_gateway ''alpine|bin''"
  have img: "ensure_sandbox_image box_gateway ?p ''alpine'' ''/workspace'' (0, [''box'']) = (Done (?tag, False), 0, [''box''])"
    by (simp add: ensure_sandbox_image_def act_defs ask_def api_def Let_def ex sha)
  obtain st where l: "kube_launch_sandbox pods_kube box_client (launch_spec box_request ?p ?tag ''r'') (0, [''box'']) =
    (Done st, 0, [''box''])" using box_launch[of ?p ?tag "''r''" 0 "[''box'']"] by auto
  have rand: "wk_random pods_worker k = (Inr ''r'', k)" for k by (simp add: pods_worker_def)
  have q: "sr_name box_request = ''box''" "sr_org box_request = ''''" "sr_runtime box_request = ''''"
    "sr_base box_request = ''alpine''" "or_default (sr_workspace box_request) ''/workspace'' = ''/workspace''"
    by (simp_all add: box_request_def or_default_def)
  have t: "ready_timeout (ka_parse_duration pods_kube) ?p = one_minute" by (simp add: ready_timeout_def blank_profile_def)
  have info: "\<exists>i. sandbox_info_of box_gateway ''box'' w = Inr i" if "sbx_get (sw_rows w) ''box'' \<noteq> None" for w
    using that by (auto simp: sandbox_info_of_def row_of_def)
  let ?rows = "sbx_upsert 0 (launch_row box_request ?p ?tag ''r'' 2) [box_row]"
  obtain i where i: "sandbox_info_of box_gateway ''box'' \<lparr> sw_rows = ?rows, sw_ext = (0, [''box'']), sw_cache = [] \<rparr> = Inr i"
    using info[of "\<lparr> sw_rows = ?rows, sw_ext = (0, [''box'']), sw_cache = [] \<rparr>"]
    by (auto simp: sbx_simps launch_row_def q)
  have r: "launch_sandbox box_gateway (box_user 2) box_request box_world =
      (Done i, \<lparr> sw_rows = ?rows, sw_ext = (0, [''box'']), sw_cache = [] \<rparr>)"
    by (simp add: launch_sandbox_def may with_client_def q box_profile act_defs on_k_def api_def box_world_def img rand l t
        box_ready db_write_def ow i Let_def)
  from launch_takes_over[OF r] ow have "box_owner \<lparr> sw_rows = ?rows, sw_ext = (0, [''box'']), sw_cache = [] \<rparr> = Some 2"
    by (auto simp: box_owner_def q)
  moreover have "box_owner box_world = Some 1" by (simp add: box_owner_def box_world_def box_row_def sbx_get_def)
  ultimately show ?thesis using r by blast
qed

lemma sync_spec_witness:
  "\<exists>w'. sync_sandbox_workspace box_gateway ''box'' demo_rp ''dev'' box_world = (Done (), w')
    \<and> sync_sandbox_workspace box_gateway ''box'' demo_rp ''dev'' w' = (Done (), w')"
proof -
  have boot: "worker_boot_id box_gateway ''box'' w = ''boot-1''" if "\<And>row. sbx_get (sw_rows w) ''box'' = Some row \<Longrightarrow> sb_mode row = ''managed''" for w
    using that by (auto simp: worker_boot_id_def worker_client_def worker_addr_def row_of_def pods_worker_def Let_def split: option.split)
  have d: "demo_ref demo_repo demo_rp ''dev'' = Some \<lparr> rf_name = ''dev'', rf_kind = BranchRef, rf_target = ''2'' \<rparr>"
    "demo_ref demo_repo demo_rp ''2'' = None" "parse_digits ''2'' = Some 2"
    "\<exists>sn. demo_snap demo_repo demo_rp 2 = Inr sn"
    by (simp_all add: demo_ref_def demo_repo_def demo_snap_def) code_simp+
  then obtain sn where sn: "demo_snap demo_repo demo_rp 2 = Inr sn" by blast
  have "resolve_ref_any box_vcs demo_repo demo_rp demo_rp ''dev'' = resolve_ref_any box_vcs demo_repo demo_rp demo_rp ''2''"
    by (subst resolve_ref_any.simps) (simp add: box_vcs_sel d)
  moreover have "resolve_ref_any box_vcs demo_repo demo_rp demo_rp ''2'' = Some (Inr 2)"
    by (subst resolve_ref_any.simps) (simp add: box_vcs_sel d sn by_hash_def)
  ultimately have "tree_of_ref box_vcs demo_repo demo_rp demo_rp ''dev'' = Some (Inr (sn_tree sn))"
    by (simp add: tree_of_ref_def box_vcs_sel sn)
  moreover have "tar_tree (repo_objects box_vcs demo_repo demo_rp) i = Some (Inr [])" for i
    unfolding tar_tree_def by (simp add: repo_objects_def box_vcs_sel) (subst tar_walk.simps, simp)
  moreover have "ce_repo_exists (vc_central demo_hosting demo_repo) a b" for a b
    by (simp add: demo_hosting_def demo_central_def)
  ultimately obtain tree tar where e: "export_workspace box_vcs demo_repo demo_rp ''dev'' = Some (Inr (tree, tar))"
    by (auto simp: export_workspace_def box_vcs_sel)
  have g: "sbx_get (sw_rows box_world) ''box'' = Some box_row" by (simp add: box_world_def box_row_def sbx_get_def)
  have b0: "worker_boot_id box_gateway ''box'' box_world = ''boot-1''"
    by (rule boot) (simp add: g, simp add: box_row_def)
  have no: "\<not> already_synced box_gateway ''box'' tree ''boot-1'' box_world"
    using g by (simp add: already_synced_def row_of_def box_row_def blank_row_def)
  have "fst (sync_sandbox_workspace box_gateway ''box'' demo_rp ''dev'' box_world) = Done ()"
    using e b0 no g
    by (simp add: sync_sandbox_workspace_def act_defs on_k_def api_def db_write_def worker_client_def worker_addr_def
        row_of_def pods_worker_def box_row_def Let_def)
  then obtain w' where r: "sync_sandbox_workspace box_gateway ''box'' demo_rp ''dev'' box_world = (Done (), w')"
    by (metis prod.collapse)
  have "sb_mode row = ''managed''" if "sbx_get (sw_rows w') ''box'' = Some row" for row
  proof -
    from sync_rows[OF r] obtain f where
      f: "\<forall>row. f row = row \<or> (\<exists>tree boot t. f row = row\<lparr> sb_rev := tree, sb_boot := boot, sb_updated := t \<rparr>)"
      "\<forall>n. sbx_get (sw_rows w') n = (if n = ''box'' then map_option f (sbx_get (sw_rows box_world) n)
             else sbx_get (sw_rows box_world) n)" by blast
    have "row = f box_row" using f(2)[THEN spec, of "''box''"] that g by simp
    moreover have "sb_mode (f box_row) = sb_mode box_row" using f(1)[THEN spec, of box_row] by auto
    ultimately show ?thesis by (simp add: box_row_def)
  qed
  then have b1: "worker_boot_id box_gateway ''box'' w' = ''boot-1''" by (rule boot)
  have "sync_sandbox_workspace box_gateway ''box'' demo_rp ''dev'' w' = (Done (), w')"
    using sync_spec[OF r] g b0 b1 by auto
  with r show ?thesis by blast
qed

end
