(* ===== verification/CI_Service.thy ===== *)
theory CI_Service
imports CI_LogHub CI_Workflow Sandboxes
begin

text \<open>
  The workflow service of the gateway (\<^verbatim>\<open>cmd/easylab/connworkflow.go\<close>): workflows, runs, the
  pool of runners and the logs of jobs, over the packages of \<^verbatim>\<open>internal/ci\<close>.

  A handler is one step.  A run is executed by a goroutine of its own, which is a task of the state:
  it advances by the steps between which other calls can be served, that is, around every call of
  the execution engine and every lock of the run.  The tables of workflows and runs are lists of
  pairs in the order in which they happen to be iterated.
\<close>

section \<open>Times\<close>

text \<open>A time in UTC as \<^verbatim>\<open>time.RFC3339\<close> text; days are counted from the first of March of year 0.\<close>

definition pad_to :: "nat \<Rightarrow> string \<Rightarrow> string" where
  "pad_to n s = replicate (n - length s) CHR ''0'' @ s"

definition civil_date :: "int \<Rightarrow> int \<times> int \<times> int" where
  "civil_date days =
    (let z = days + 719468;
         era = z div 146097;
         doe = z mod 146097;
         yoe = (doe - doe div 1460 + doe div 36524 - doe div 146096) div 365;
         doy = doe - (365 * yoe + yoe div 4 - yoe div 100);
         mp = (5 * doy + 2) div 153;
         m = (if mp < 10 then mp + 3 else mp - 9)
     in (yoe + era * 400 + (if m \<le> 2 then 1 else 0), m, doy - (153 * mp + 2) div 5 + 1))"

definition rfc3339 :: "int \<Rightarrow> string" where
  "rfc3339 ns =
    (let secs = ns div 1000000000;
         tod = secs mod 86400;
         two = (\<lambda>i. pad_to 2 (dec_int i))
     in case civil_date (secs div 86400) of (y, m, d) \<Rightarrow>
       pad_to 4 (dec_int y) @ ''-'' @ two m @ ''-'' @ two d @ ''T'' @ two (tod div 3600) @ '':''
       @ two (tod mod 3600 div 60) @ '':'' @ two (tod mod 60) @ ''Z'')"

definition time_text :: "gotime \<Rightarrow> string" where
  "time_text t = (case t of None \<Rightarrow> '''' | Some ns \<Rightarrow> rfc3339 ns)"

definition unix_milli :: "gotime \<Rightarrow> int" where
  "unix_milli t = (case t of None \<Rightarrow> -62135596800000 | Some ns \<Rightarrow> ns div 1000000)"

section \<open>Messages\<close>

text \<open>A message's pointer fields may be missing; a missing produce part reads as an empty one.\<close>

record wire_job =
  wj_id :: string
  wj_needs :: "string list"
  wj_runs_on :: "string list"
  wj_container :: string
  wj_dir :: string
  wj_steps :: "step_def option list"
  wj_produce :: "produce option"

record wire_workflow =
  ww_id :: string
  ww_name :: string
  ww_org :: string
  ww_repo :: string
  ww_branch :: string
  ww_on :: "string list option"
  ww_jobs :: "wire_job option list"

record wire_instance =
  wi_id :: string
  wi_def :: string
  wi_status :: string
  wi_result :: string

record wire_run =
  wr_id :: string
  wr_workflow :: string
  wr_status :: string
  wr_jobs :: "wire_instance list"
  wr_started :: string
  wr_finished :: string

record wire_runner =
  wn_id :: string
  wn_labels :: "string list"
  wn_backend :: string
  wn_addr :: string
  wn_last_seen :: int
  wn_session_bound :: bool

definition from_proto_job :: "wire_job \<Rightarrow> job" where
  "from_proto_job m =
    \<lparr> job_id = wj_id m, job_needs = wj_needs m, job_runs_on = wj_runs_on m, job_org = '''', job_repo = '''',
      job_branch = '''', job_container = wj_container m, job_dir = wj_dir m,
      job_steps = List.map_filter (\<lambda>s. s) (wj_steps m),
      job_produce = (case wj_produce m of Some p \<Rightarrow> p | None \<Rightarrow> no_produce) \<rparr>"

definition blank_workflow :: workflow where
  "blank_workflow = \<lparr> wf_id = '''', wf_name = '''', wf_org = '''', wf_repo = '''', wf_branch = '''', wf_on = [], wf_jobs = [] \<rparr>"

definition from_proto_workflow :: "wire_workflow option \<Rightarrow> workflow" where
  "from_proto_workflow msg =
    (case msg of
       None \<Rightarrow> blank_workflow
     | Some m \<Rightarrow>
         \<lparr> wf_id = ww_id m, wf_name = ww_name m, wf_org = ww_org m, wf_repo = ww_repo m, wf_branch = ww_branch m,
           wf_on = (case ww_on m of Some es \<Rightarrow> es | None \<Rightarrow> []),
           wf_jobs = List.map_filter (map_option from_proto_job) (ww_jobs m) \<rparr>)"

definition proto_job :: "job \<Rightarrow> wire_job" where
  "proto_job j =
    \<lparr> wj_id = job_id j, wj_needs = job_needs j, wj_runs_on = job_runs_on j, wj_container = job_container j,
      wj_dir = job_dir j, wj_steps = map Some (job_steps j), wj_produce = Some (job_produce j) \<rparr>"

definition proto_workflow :: "workflow \<Rightarrow> wire_workflow" where
  "proto_workflow w =
    \<lparr> ww_id = wf_id w, ww_name = wf_name w, ww_org = wf_org w, ww_repo = wf_repo w, ww_branch = wf_branch w,
      ww_on = Some (wf_on w), ww_jobs = map (\<lambda>j. Some (proto_job j)) (wf_jobs w) \<rparr>"

definition proto_run :: "run_rec \<Rightarrow> wire_run" where
  "proto_run r =
    \<lparr> wr_id = run_id r, wr_workflow = run_workflow_id r, wr_status = state_text (run_state r),
      wr_jobs = map (\<lambda>i. \<lparr> wi_id = ji_job_id i, wi_def = ji_def_id i, wi_status = state_text (ji_state i),
                          wi_result = ji_result i \<rparr>) (run_jobs r),
      wr_started = time_text (run_started r), wr_finished = time_text (run_finished r) \<rparr>"

definition proto_runner :: "runner \<Rightarrow> wire_runner" where
  "proto_runner r = \<lparr> wn_id = rn_id r, wn_labels = rn_labels r, wn_backend = rn_backend r, wn_addr = rn_addr r,
     wn_last_seen = unix_milli (rn_last_seen r), wn_session_bound = rn_session_bound r \<rparr>"

section \<open>State\<close>

datatype phase =
    Queued
  | Passing "string list" bool
  | Working nat string "runner option" "string list"
  | Ending "sched_error option"
  | Stamping
  | Closing "job_instance list"
  | Over
  | Stuck

record task =
  tk_wf :: workflow
  tk_run :: string
  tk_done :: "string list"
  tk_phase :: phase

record 'k ci_world =
  cw_workflows :: "(string \<times> workflow) list"
  cw_runs :: "(string \<times> run_rec) list"
  cw_reg :: runner_registry
  cw_hub :: hub
  cw_ext :: 'k
  cw_tasks :: "task list"

record ('r, 'v, 'i, 'k) ci_service =
  sv_gw :: "('r, 'v, 'i, 'k) gateway"
  sv_back :: "job \<Rightarrow> runner option \<Rightarrow> 'k \<Rightarrow> back_result \<times> 'k"
  sv_yaml :: "string \<Rightarrow> string + workflow_file"
  sv_short :: "'k \<Rightarrow> string \<times> 'k"
  sv_long :: "'k \<Rightarrow> string \<times> 'k"

text \<open>\<^verbatim>\<open>NewWorkflowService\<close> starts with an empty pool and no logs; the tables are the server's.\<close>

definition new_ci_world :: "'k \<Rightarrow> 'k ci_world" where
  "new_ci_world k = \<lparr> cw_workflows = [], cw_runs = [], cw_reg = new_registry, cw_hub = new_hub, cw_ext = k, cw_tasks = [] \<rparr>"

definition sv_central :: "('r, 'v, 'i, 'k) ci_service \<Rightarrow> 'r central" where
  "sv_central S = gw_central (sv_gw S)"

definition sv_now :: "('r, 'v, 'i, 'k) ci_service \<Rightarrow> 'k \<Rightarrow> int" where
  "sv_now S = gw_now (sv_gw S)"

fun draw :: "('k \<Rightarrow> string \<times> 'k) \<Rightarrow> nat \<Rightarrow> 'k \<Rightarrow> string list \<times> 'k" where
  "draw f 0 k = ([], k)"
| "draw f (Suc n) k = (case f k of (i, k1) \<Rightarrow> (case draw f n k1 of (is, k2) \<Rightarrow> (i # is, k2)))"

definition on_run :: "string \<Rightarrow> (run_rec \<Rightarrow> run_rec) \<Rightarrow> 'k ci_world \<Rightarrow> 'k ci_world" where
  "on_run i f w =
    (case map_of (cw_runs w) i of None \<Rightarrow> w | Some r \<Rightarrow> w\<lparr> cw_runs := AList.update i (f r) (cw_runs w) \<rparr>)"

section \<open>Running\<close>

text \<open>The run is stored and a task is started; the caller sees the run before the task's first step.\<close>

definition run_async :: "('r, 'v, 'i, 'k) ci_service \<Rightarrow> workflow \<Rightarrow> ('k ci_world, run_rec) act" where
  "run_async S wk w =
    (let (i, k1) = sv_long S (cw_ext w);
         (js, k2) = draw (sv_long S) (length (wf_jobs wk)) k1;
         run = new_run ((!) (i # js)) (sv_now S k1) wk
     in (Done run, w\<lparr> cw_runs := AList.update (run_id run) run (cw_runs w), cw_ext := k2,
                      cw_tasks := cw_tasks w @ [\<lparr> tk_wf = wk, tk_run = run_id run, tk_done = [], tk_phase = Queued \<rparr>] \<rparr>))"

fun log_out :: "string \<Rightarrow> string list \<Rightarrow> hub \<Rightarrow> bool \<times> hub" where
  "log_out d [] h = (True, h)"
| "log_out d (l # ls) h =
     (case hub_log d l h of
        Returns _ h' \<Rightarrow> log_out d ls h'
      | Blocks h' \<Rightarrow> (False, h')
      | Panics \<Rightarrow> (False, h))"

definition next_pass :: "task \<Rightarrow> phase" where
  "next_pass t =
    (if length (tk_done t) < length (wf_jobs (tk_wf t)) then Passing (job_ids (tk_wf t)) False else Ending None)"

definition pool_runner :: "('r, 'v, 'i, 'k) ci_service \<Rightarrow> job \<Rightarrow> 'k ci_world \<Rightarrow> runner option" where
  "pool_runner S j w =
    (case resolve_runner (sv_now S (cw_ext w)) (cw_reg w) j of Inl _ \<Rightarrow> None | Inr rn \<Rightarrow> Some rn)"

definition instances :: "string \<Rightarrow> 'k ci_world \<Rightarrow> job_instance list" where
  "instances i w = (case map_of (cw_runs w) i of None \<Rightarrow> [] | Some r \<Rightarrow> run_jobs r)"

definition begin_job :: "('r, 'v, 'i, 'k) ci_service \<Rightarrow> nat \<Rightarrow> string list \<Rightarrow> task \<Rightarrow> 'k ci_world \<Rightarrow> task \<times> 'k ci_world" where
  "begin_job S n ds t w =
    (let wk = stamp_at n (tk_wf t);
         j = wf_jobs wk ! n;
         jid = ji_job_id (find_instance (instances (tk_run t) w) (job_id j))
     in (t\<lparr> tk_wf := wk, tk_phase := Working n jid (pool_runner S j w) ds \<rparr>,
         on_run (tk_run t) (set_job_state (job_id j) StateRunning '''') w))"

definition end_job :: "('r, 'v, 'i, 'k) ci_service \<Rightarrow> nat \<Rightarrow> string \<Rightarrow> runner option \<Rightarrow> string list \<Rightarrow> task
    \<Rightarrow> 'k ci_world \<Rightarrow> task \<times> 'k ci_world" where
  "end_job S n jid rn ds t w =
    (let j = wf_jobs (tk_wf t) ! n;
         (res, k) = sv_back S j rn (cw_ext w);
         (went, h) = log_out jid (br_lines res) (cw_hub w);
         w1 = w\<lparr> cw_ext := k, cw_hub := h \<rparr>
     in if \<not> went then (t\<lparr> tk_phase := Stuck \<rparr>, w1)
        else if \<not> back_ok res
          then (t\<lparr> tk_phase := Ending (Some (JobFailed (job_id j) (back_text res))) \<rparr>,
                on_run (tk_run t) (set_job_state (job_id j) StateFailure (back_text res)) w1)
        else (t\<lparr> tk_done := tk_done t @ [job_id j], tk_phase := Passing ds True \<rparr>,
              on_run (tk_run t) (set_job_state (job_id j) StateSuccess '''') w1))"

definition task_step :: "('r, 'v, 'i, 'k) ci_service \<Rightarrow> task \<Rightarrow> 'k ci_world \<Rightarrow> task \<times> 'k ci_world" where
  "task_step S t w =
    (case tk_phase t of
       Queued \<Rightarrow> (t\<lparr> tk_phase := next_pass t \<rparr>, on_run (tk_run t) (set_state StateRunning) w)
     | Passing [] progress \<Rightarrow>
         (t\<lparr> tk_phase := (if \<not> progress then Ending (Some Unresolved) else next_pass t) \<rparr>, w)
     | Passing (d # ds) progress \<Rightarrow>
         (case by_def (wf_jobs (tk_wf t)) d of
            None \<Rightarrow> (t\<lparr> tk_phase := Passing ds progress \<rparr>, w)
          | Some n \<Rightarrow>
              if d \<in> set (tk_done t) \<or> \<not> all_done (job_needs (wf_jobs (tk_wf t) ! n)) (tk_done t)
              then (t\<lparr> tk_phase := Passing ds progress \<rparr>, w)
              else begin_job S n ds t w)
     | Working n jid rn ds \<Rightarrow> end_job S n jid rn ds t w
     | Ending e \<Rightarrow>
         (t\<lparr> tk_phase := Stamping \<rparr>,
          on_run (tk_run t) (set_state (case e of None \<Rightarrow> StateSuccess | Some _ \<Rightarrow> StateFailure)) w)
     | Stamping \<Rightarrow>
         (t\<lparr> tk_phase := Closing (instances (tk_run t) w) \<rparr>,
          on_run (tk_run t) (\<lambda>r. r\<lparr> run_finished := Some (sv_now S (cw_ext w)) \<rparr>) w)
     | Closing [] \<Rightarrow> (t\<lparr> tk_phase := Over \<rparr>, w)
     | Closing (i # is) \<Rightarrow>
         (case hub_finish (ji_job_id i) (state_text (ji_state i)) (cw_hub w) of
            Returns _ h \<Rightarrow> (t\<lparr> tk_phase := Closing is \<rparr>, w\<lparr> cw_hub := h \<rparr>)
          | Blocks h \<Rightarrow> (t\<lparr> tk_phase := Stuck \<rparr>, w\<lparr> cw_hub := h \<rparr>)
          | Panics \<Rightarrow> (t\<lparr> tk_phase := Stuck \<rparr>, w))
     | Over \<Rightarrow> (t, w)
     | Stuck \<Rightarrow> (t, w))"

definition tick :: "('r, 'v, 'i, 'k) ci_service \<Rightarrow> nat \<Rightarrow> 'k ci_world \<Rightarrow> 'k ci_world" where
  "tick S n w =
    (if n < length (cw_tasks w) then
       (case task_step S (cw_tasks w ! n) w of (t, w1) \<Rightarrow> w1\<lparr> cw_tasks := (cw_tasks w)[n := t] \<rparr>)
     else w)"

section \<open>Handlers\<close>

definition may_define :: "'r central \<Rightarrow> principal option \<Rightarrow> string \<Rightarrow> string \<Rightarrow> string \<Rightarrow> conn_err option" where
  "may_define cs ctx org repo action =
    (if org \<noteq> '''' \<or> repo \<noteq> '''' then require_repo_action cs ctx org repo (ro_merge cs) action
     else require_authenticated ctx action)"

text \<open>\<^verbatim>\<open>newID\<close> of the gateway names a workflow that has no id.\<close>

definition naming :: "('r, 'v, 'i, 'k) ci_service \<Rightarrow> workflow \<Rightarrow> (workflow \<Rightarrow> ('k ci_world, 'a) act) \<Rightarrow> ('k ci_world, 'a) act" where
  "naming S wk k w =
    (if wf_id wk = '''' then
       (case sv_short S (cw_ext w) of (i, x) \<Rightarrow> k (wk\<lparr> wf_id := ''wk-'' @ i \<rparr>) (w\<lparr> cw_ext := x \<rparr>))
     else k wk w)"

definition store_workflow :: "workflow \<Rightarrow> 'k ci_world \<Rightarrow> 'k ci_world" where
  "store_workflow wk w = w\<lparr> cw_workflows := AList.update (wf_id wk) wk (cw_workflows w) \<rparr>"

definition create_workflow :: "('r, 'v, 'i, 'k) ci_service \<Rightarrow> principal option \<Rightarrow> wire_workflow option
    \<Rightarrow> ('k ci_world, wire_workflow) act" where
  "create_workflow S ctx msg =
    (let wk = from_proto_workflow msg in
     demand (\<lambda>_. may_define (sv_central S) ctx (wf_org wk) (wf_repo wk) ''defining a workflow'')
       (naming S wk (\<lambda>wk'. alter (store_workflow wk') (give (proto_workflow wk')))))"

definition find_workflow :: "string \<Rightarrow> (workflow \<Rightarrow> ('k ci_world, 'a) act) \<Rightarrow> ('k ci_world, 'a) act" where
  "find_workflow i k =
    look NotFound (\<lambda>w. case map_of (cw_workflows w) i of
        None \<Rightarrow> Inl ''not_found: workflow not found'' | Some wk \<Rightarrow> Inr wk) k"

definition get_workflow :: "('r, 'v, 'i, 'k) ci_service \<Rightarrow> principal option \<Rightarrow> string \<Rightarrow> ('k ci_world, wire_workflow) act" where
  "get_workflow S ctx i =
    find_workflow i (\<lambda>wk.
      if \<not> can_see_repo (sv_central S) ctx (wf_org wk) (wf_repo wk)
      then refuse NotFound ''not_found: workflow not found'' else give (proto_workflow wk))"

definition list_workflows :: "('r, 'v, 'i, 'k) ci_service \<Rightarrow> principal option \<Rightarrow> string \<Rightarrow> string
    \<Rightarrow> ('k ci_world, wire_workflow list) act" where
  "list_workflows S ctx org repo =
    peek (\<lambda>w. map proto_workflow (filter (\<lambda>wk. (org = '''' \<or> wf_org wk = org) \<and> (repo = '''' \<or> wf_repo wk = repo)
            \<and> can_see_repo (sv_central S) ctx (wf_org wk) (wf_repo wk)) (map snd (cw_workflows w)))) give"

definition trigger_run :: "('r, 'v, 'i, 'k) ci_service \<Rightarrow> principal option \<Rightarrow> string \<Rightarrow> ('k ci_world, wire_run) act" where
  "trigger_run S ctx i =
    find_workflow i (\<lambda>wk.
      demand (\<lambda>_. may_define (sv_central S) ctx (wf_org wk) (wf_repo wk) ''running a workflow'')
        (after (run_async S wk) (\<lambda>run. give (proto_run (snapshot run)))))"

definition get_run :: "string \<Rightarrow> ('k ci_world, wire_run) act" where
  "get_run i =
    look NotFound (\<lambda>w. case map_of (cw_runs w) i of
        None \<Rightarrow> Inl ''not_found: run not found'' | Some r \<Rightarrow> Inr (proto_run (snapshot r))) give"

definition list_runs :: "string \<Rightarrow> ('k ci_world, wire_run list) act" where
  "list_runs wk =
    peek (\<lambda>w. map (\<lambda>r. proto_run (snapshot r))
            (filter (\<lambda>r. wk = '''' \<or> run_workflow_id r = wk) (map snd (cw_runs w)))) give"

definition cancel_run :: "string \<Rightarrow> ('k ci_world, bool) act" where
  "cancel_run i =
    peek (\<lambda>w. map_of (cw_runs w) i) (\<lambda>found.
      case found of None \<Rightarrow> give False | Some _ \<Rightarrow> alter (on_run i (set_state StateCancelled)) (give True))"

definition register_runner :: "('r, 'v, 'i, 'k) ci_service \<Rightarrow> wire_runner option \<Rightarrow> ('k ci_world, unit) act" where
  "register_runner S msg =
    (case msg of
       None \<Rightarrow> refuse InvalidArgument ''invalid_argument: runner required''
     | Some m \<Rightarrow>
         effect InvalidArgument (\<lambda>w.
           case register (sv_now S (cw_ext w))
                  \<lparr> rn_id = wn_id m, rn_labels = wn_labels m, rn_backend = wn_backend m, rn_addr = wn_addr m,
                    rn_last_seen = None, rn_session_bound = wn_session_bound m, rn_toolchains = [] \<rparr> (cw_reg w) of
             Inl RunnerIdRequired \<Rightarrow> (Inl ''runner id required'', w)
           | Inr reg \<Rightarrow> (Inr (), w\<lparr> cw_reg := reg \<rparr>)) give)"

definition list_pool :: "('k ci_world, wire_runner list) act" where
  "list_pool = peek (\<lambda>w. map proto_runner (list_runners (cw_reg w))) give"

section \<open>Logs of jobs\<close>

record log_reply =
  lr_stream :: string
  lr_line :: string

definition log_reply_of :: "log_event \<Rightarrow> log_reply" where
  "log_reply_of ev =
    (if ev_state ev \<noteq> ''''
     then \<lparr> lr_stream = ''state'', lr_line = (if ev_line ev = '''' then ev_state ev else ev_line ev) \<rparr>
     else \<lparr> lr_stream = ''build'', lr_line = ev_line ev \<rparr>)"

definition on_hub :: "(hub \<Rightarrow> 'a outcome) \<Rightarrow> ('k ci_world, 'a) act" where
  "on_hub f w =
    (case f (cw_hub w) of
       Returns a h \<Rightarrow> (Done a, w\<lparr> cw_hub := h \<rparr>)
     | Blocks h \<Rightarrow> (Diverge, w\<lparr> cw_hub := h \<rparr>)
     | Panics \<Rightarrow> (Panic, w))"

text \<open>
  A log stream is opened by a subscription; each step of the loop takes an event off the channel and
  sends it, waits while the channel is open and empty, and ends, the subscription cancelled, when the
  channel is closed and empty or a message cannot be sent.
\<close>

datatype stream_status = Streaming | Waiting | StreamEnded "string option"

definition open_job_log :: "string \<Rightarrow> ('k ci_world, nat) act" where
  "open_job_log d = on_hub (hub_subscribe d)"

definition stream_job_log :: "(log_reply \<Rightarrow> 'k \<Rightarrow> string option \<times> 'k) \<Rightarrow> string \<Rightarrow> nat \<Rightarrow> ('k ci_world, stream_status) act" where
  "stream_job_log send d n w =
    (case hub_recv n (cw_hub w) of
       (None, _) \<Rightarrow>
         if ch_closed (hub_chans (cw_hub w) ! n)
         then after (on_hub (hub_cancel d n)) (\<lambda>_. give (StreamEnded None)) w
         else give Waiting w
     | (Some ev, h) \<Rightarrow>
         (case send (log_reply_of ev) (cw_ext w) of
            (None, k) \<Rightarrow> give Streaming (w\<lparr> cw_hub := h, cw_ext := k \<rparr>)
          | (Some e, k) \<Rightarrow>
              after (on_hub (hub_cancel d n)) (\<lambda>_. give (StreamEnded (Some e))) (w\<lparr> cw_hub := h, cw_ext := k \<rparr>)))"

section \<open>Workflow files\<close>

definition read_repo_file :: "('r, 'v, 'i) object_vcs \<Rightarrow> 'v \<Rightarrow> rkey \<Rightarrow> string \<Rightarrow> string \<Rightarrow> (string + string) option" where
  "read_repo_file L v rp ref path =
    (if \<not> ce_repo_exists (vc_central L v) (fst rp) (snd rp) then Some (Inl ''not found'')
     else case tree_of_ref L v rp rp ref of
       None \<Rightarrow> None
     | Some (Inl e) \<Rightarrow> Some (Inl e)
     | Some (Inr tree) \<Rightarrow>
         Some (case vc_entry L v rp tree path of Inl e \<Rightarrow> Inl e | Inr b \<Rightarrow> vc_blob L v rp b))"

definition export_repo_tree :: "'d disk \<Rightarrow> ('r, 'v, 'i) object_vcs \<Rightarrow> 'v \<Rightarrow> rkey \<Rightarrow> string \<Rightarrow> string \<Rightarrow> ('d, unit) act" where
  "export_repo_tree D L v rp branch dir =
    chase OtherCode (\<lambda>_. export_workspace L v rp branch) (\<lambda>(_, tar). tar_extract D dir tar None)"

definition export_repo_tar :: "('r, 'v, 'i) object_vcs \<Rightarrow> 'v \<Rightarrow> rkey \<Rightarrow> string \<Rightarrow> (string + tar_entry list) option" where
  "export_repo_tar L v rp branch = map_option (map_sum id snd) (export_workspace L v rp branch)"

fun preset_error_text :: "preset_error \<Rightarrow> string" where
  "preset_error_text (UnknownPreset n names) =
     ''unknown preset '' @ go_quote n @ '' (supported: '' @ join_with '', '' names @ '')''"
| "preset_error_text (PresetRequires p req) = ''preset '' @ p @ ''-publish requires args.'' @ req"
| "preset_error_text TagRequired = ''preset container-build requires args.tag''"

fun workflow_error_text :: "workflow_error \<Rightarrow> string" where
  "workflow_error_text (YamlError e) = ''parse workflows.yaml: '' @ e"
| "workflow_error_text (UnsupportedVersion n) = ''unsupported workflows.yaml version '' @ dec_int n"
| "workflow_error_text NoWorkflows = ''workflows.yaml declares no workflows''"
| "workflow_error_text (NameRequired i) = ''workflows['' @ dec_nat i @ '']: name required''"
| "workflow_error_text (DuplicateName n) = ''duplicate workflow name '' @ go_quote n"
| "workflow_error_text (PresetAndJobs n) = ''workflow '' @ go_quote n @ '': preset and jobs are mutually exclusive''"
| "workflow_error_text (PresetFailed n e) = ''workflow '' @ go_quote n @ '': '' @ preset_error_text e"
| "workflow_error_text (JobIdRequired n i) =
     ''workflow '' @ go_quote n @ '': jobs['' @ dec_nat i @ ''].id required''"
| "workflow_error_text (NothingDeclared n) = ''workflow '' @ go_quote n @ '': preset or jobs required''"

definition fill_arg :: "smap \<Rightarrow> string \<Rightarrow> string \<Rightarrow> string" where
  "fill_arg args key old = (if old = '''' then (case map_of args key of Some v \<Rightarrow> v | None \<Rightarrow> old) else old)"

definition fill_job :: "smap \<Rightarrow> job \<Rightarrow> job" where
  "fill_job args j = j\<lparr> job_produce := (job_produce j)\<lparr>
     pr_name := fill_arg args ''name'' (pr_name (job_produce j)),
     pr_version := fill_arg args ''version'' (pr_version (job_produce j)),
     pr_file := fill_arg args ''file'' (pr_file (job_produce j)) \<rparr> \<rparr>"

definition bind_workflow :: "string \<Rightarrow> string \<Rightarrow> string \<Rightarrow> smap \<Rightarrow> workflow \<Rightarrow> workflow" where
  "bind_workflow org repo branch args wk =
    wk\<lparr> wf_org := org, wf_repo := repo, wf_branch := branch, wf_jobs := map (fill_job args) (wf_jobs wk) \<rparr>"

fun start_all :: "('r, 'v, 'i, 'k) ci_service \<Rightarrow> workflow list \<Rightarrow> ('k ci_world, wire_run list) act" where
  "start_all S [] = give []"
| "start_all S (wk # wfs) =
     naming S wk (\<lambda>wk'. alter (store_workflow wk') (
       after (run_async S wk') (\<lambda>run.
       after (start_all S wfs) (\<lambda>runs. give (proto_run (snapshot run) # runs)))))"

record file_answer =
  fa_runs :: "wire_run list"
  fa_skipped :: "string list"
  fa_error :: string

definition run_workflow_file :: "('r, 'v, 'i, 'k) ci_service \<Rightarrow> principal option \<Rightarrow> string \<Rightarrow> string \<Rightarrow> string \<Rightarrow> string
    \<Rightarrow> smap \<Rightarrow> ('k ci_world, file_answer) act" where
  "run_workflow_file S ctx org repo branch name args =
    (if org = '''' \<or> repo = '''' then refuse InvalidArgument ''org and repo required''
     else demand (\<lambda>_. require_repo_action (sv_central S) ctx org repo (ro_merge (sv_central S)) ''running a workflow file'') (
       chase OtherCode (\<lambda>_. map_option Inr (read_repo_file (gw_vcs (sv_gw S)) (gw_v (sv_gw S)) (org, repo) branch ''.easylab/workflows.yaml'')) (\<lambda>data.
       case data of
         Inl e \<Rightarrow> give \<lparr> fa_runs = [], fa_skipped = [],
             fa_error = ''read .easylab/workflows.yaml at '' @ org @ ''/'' @ repo @ ''@'' @ branch @ '': '' @ e \<rparr>
       | Inr text \<Rightarrow>
           look InvalidArgument (\<lambda>_. map_sum workflow_error_text id (parse_workflow_file (sv_yaml S text) name)) (\<lambda>(wfs, missing).
           after (start_all S (map (bind_workflow org repo branch args) wfs)) (\<lambda>runs.
           give \<lparr> fa_runs = runs, fa_skipped = missing, fa_error = '''' \<rparr>)))))"

end
