(* ===== verification/CI_Service_Correct.thy ===== *)
theory CI_Service_Correct
imports CI_Service CI_Scheduler_Correct
begin

text \<open>
  The workflow service: who may change what, how one definition displaces another, what cancelling a
  run does, and that the task of a triggered run computes what the scheduler is specified to do.
\<close>

section \<open>Messages and workflows\<close>

definition unplaced :: "job \<Rightarrow> job" where
  "unplaced j = j\<lparr> job_org := '''', job_repo := '''', job_branch := '''' \<rparr>"

lemma map_filter_Some [simp]: "List.map_filter (\<lambda>s. s) (map Some xs) = xs"
  by (induction xs) simp_all

lemma from_proto_job [simp]: "from_proto_job (proto_job j) = unplaced j"
  by (simp add: from_proto_job_def proto_job_def unplaced_def)

lemma workflow_roundtrip:
  "from_proto_workflow (Some (proto_workflow wk)) = wk\<lparr> wf_jobs := map unplaced (wf_jobs wk) \<rparr>"
proof -
  have "List.map_filter (map_option from_proto_job) (map (\<lambda>j. Some (proto_job j)) js) = map unplaced js" for js
    by (induction js) simp_all
  then show ?thesis by (simp add: from_proto_workflow_def proto_workflow_def)
qed

section \<open>Cancelling\<close>

definition erase :: "run_rec \<Rightarrow> run_rec" where
  "erase r = set_state StatePending r"

definition erased :: "(string \<times> run_rec) list \<Rightarrow> (string \<times> run_rec) list" where
  "erased xs = map (\<lambda>(i, r). (i, erase r)) xs"

definition strip :: "'k ci_world \<Rightarrow> 'k ci_world" where
  "strip w = w\<lparr> cw_runs := erased (cw_runs w) \<rparr>"

datatype 'k ci_event =
    Tick nat
  | CancelCall string
  | CreateCall "principal option" "wire_workflow option"
  | TriggerCall "principal option" string
  | FileCall "principal option" string string string string smap
  | RegisterCall "wire_runner option"
  | SubscribeCall string
  | Elapse 'k

fun serve :: "('r, 'v, 'i, 'k) ci_service \<Rightarrow> 'k ci_event \<Rightarrow> 'k ci_world \<Rightarrow> 'k ci_world" where
  "serve S (Tick n) w = tick S n w"
| "serve S (CancelCall i) w = snd (cancel_run i w)"
| "serve S (CreateCall ctx m) w = snd (create_workflow S ctx m w)"
| "serve S (TriggerCall ctx i) w = snd (trigger_run S ctx i w)"
| "serve S (FileCall ctx org repo branch name args) w = snd (run_workflow_file S ctx org repo branch name args w)"
| "serve S (RegisterCall m) w = snd (register_runner S m w)"
| "serve S (SubscribeCall d) w = snd (open_job_log d w)"
| "serve S (Elapse k) w = w\<lparr> cw_ext := k \<rparr>"

definition serve_all :: "('r, 'v, 'i, 'k) ci_service \<Rightarrow> 'k ci_event list \<Rightarrow> 'k ci_world \<Rightarrow> 'k ci_world" where
  "serve_all S evs w = fold (serve S) evs w"

fun is_cancel :: "'k ci_event \<Rightarrow> bool" where
  "is_cancel (CancelCall i) = True"
| "is_cancel _ = False"

lemma map_of_erased [simp]: "map_of (erased xs) i = map_option erase (map_of xs i)"
  by (induction xs) (auto simp: erased_def)

lemma erased_update [simp]: "erased (AList.update i r xs) = AList.update i (erase r) (erased xs)"
  by (induction xs) (auto simp: erased_def)

lemma erase_simps [simp]:
  "erase (erase r) = erase r" "run_jobs (erase r) = run_jobs r" "run_id (erase r) = run_id r"
  "erase (set_state s r) = erase r" "erase (set_job_state d s x (erase r)) = erase (set_job_state d s x r)"
  "erase (run_finished_update f (erase r)) = erase (run_finished_update f r)"
  by (simp_all add: erase_def set_state_def set_job_state_def)

lemma erased_idem [simp]: "erased (erased xs) = erased xs"
  by (induction xs) (auto simp: erased_def)

lemma strip_fields [simp]:
  "cw_workflows (strip w) = cw_workflows w" "cw_reg (strip w) = cw_reg w" "cw_hub (strip w) = cw_hub w"
  "cw_ext (strip w) = cw_ext w" "cw_tasks (strip w) = cw_tasks w"
  "map_of (cw_runs (strip w)) i = map_option erase (map_of (cw_runs w) i)"
  "cw_runs (strip w) = erased (cw_runs w)"
  by (simp_all add: strip_def)

lemma strip_updates [simp]:
  "strip (cw_workflows_update f w) = cw_workflows_update f (strip w)"
  "strip (cw_reg_update g w) = cw_reg_update g (strip w)"
  "strip (cw_hub_update h w) = cw_hub_update h (strip w)"
  "strip (cw_ext_update e w) = cw_ext_update e (strip w)"
  "strip (cw_tasks_update t w) = cw_tasks_update t (strip w)"
  by (simp_all add: strip_def)

lemma strip_idem [simp]: "strip (strip w) = strip w"
  by (simp add: strip_def)

lemma strip_store [simp]:
  "strip (w\<lparr> cw_runs := AList.update i r (cw_runs w) \<rparr>) = (strip w)\<lparr> cw_runs := AList.update i (erase r) (cw_runs (strip w)) \<rparr>"
  by (simp add: strip_def)

lemma on_run_fields [simp]:
  "cw_workflows (on_run i f w) = cw_workflows w" "cw_reg (on_run i f w) = cw_reg w"
  "cw_hub (on_run i f w) = cw_hub w" "cw_ext (on_run i f w) = cw_ext w" "cw_tasks (on_run i f w) = cw_tasks w"
  by (simp_all add: on_run_def split: option.split)

lemma update_same: "map_of xs i = Some r \<Longrightarrow> AList.update i r xs = xs"
  by (induction xs) auto

lemma strip_cancel [simp]: "strip (on_run i (set_state s) w) = strip w"
proof (cases "map_of (cw_runs w) i")
  case (Some r)
  then have "AList.update i (erase r) (erased (cw_runs w)) = erased (cw_runs w)"
    by (intro update_same) simp
  then show ?thesis by (simp add: on_run_def Some)
qed (simp add: on_run_def)

lemma strip_on_run:
  assumes "\<And>r. erase (f (erase r)) = erase (f r)"
  shows "strip (on_run i f (strip w)) = strip (on_run i f w)"
  by (simp add: on_run_def strip_def assms split: option.split)

lemma instances_strip [simp]: "instances i (strip w) = instances i w"
  by (simp add: instances_def split: option.split)

lemma pool_runner_strip [simp]: "pool_runner S j (strip w) = pool_runner S j w"
  by (simp add: pool_runner_def)

lemma strip_rules:
  "strip (on_run i (set_state s) (strip w)) = strip w"
  "strip (on_run i (set_job_state d s x) (strip w)) = strip (on_run i (set_job_state d s x) w)"
  "strip (on_run i (run_finished_update f) (strip w)) = strip (on_run i (run_finished_update f) w)"
  by (simp, (rule strip_on_run; simp)+)

text \<open>Two states that differ in the state of runs only are served alike.\<close>

definition alike :: "'a \<times> 'k ci_world \<Rightarrow> 'a \<times> 'k ci_world \<Rightarrow> bool" where
  "alike x y \<longleftrightarrow> fst x = fst y \<and> strip (snd x) = strip (snd y)"

lemma task_step_strip: "alike (task_step S t (strip w)) (task_step S t w)"
proof (cases "tk_phase t")
  case (Passing ds p)
  then show ?thesis
    by (cases ds) (auto simp: alike_def task_step_def begin_job_def Let_def strip_rules split: option.split)
next
  case (Working n jid rn ds)
  have "on_run i f (strip w\<lparr> cw_ext := k, cw_hub := h \<rparr>) = on_run i f (strip (w\<lparr> cw_ext := k, cw_hub := h \<rparr>))" for i f k h
    by simp
  then show ?thesis using Working
    by (simp add: alike_def task_step_def end_job_def Let_def strip_rules case_prod_unfold
        del: strip_updates)
next
  case (Closing js)
  then show ?thesis
    by (cases js) (auto simp: alike_def task_step_def split: outcome.split)
qed (simp_all add: alike_def task_step_def strip_rules)

lemma tick_strip: "strip (tick S n (strip w)) = strip (tick S n w)"
proof (cases "n < length (cw_tasks w)")
  case True
  obtain t1 w1 where 1: "task_step S (cw_tasks w ! n) (strip w) = (t1, w1)" by fastforce
  obtain t2 w2 where 2: "task_step S (cw_tasks w ! n) w = (t2, w2)" by fastforce
  show ?thesis using task_step_strip[of S "cw_tasks w ! n" w] True by (simp add: tick_def 1 2 alike_def)
qed (simp add: tick_def)

lemma run_async_strip: "alike (run_async S wk (strip w)) (run_async S wk w)"
  by (simp add: alike_def run_async_def Let_def case_prod_unfold)

lemma alike_same: "alike x y \<Longrightarrow> f (fst x) = f (fst y)"
  by (simp add: alike_def)

named_theorems strip_intros

text \<open>A handler that never reads the state of a run serves stripped states like any others.\<close>

definition blind :: "('k ci_world, 'a) act \<Rightarrow> bool" where
  "blind m \<longleftrightarrow> (\<forall>w w'. strip w = strip w' \<longrightarrow> alike (m w) (m w'))"

lemma blindI2: "(\<And>w w'. strip w = strip w' \<Longrightarrow> alike (m w) (m w')) \<Longrightarrow> blind m"
  unfolding blind_def by blast

lemma blind_use: "blind m \<Longrightarrow> strip w = strip w' \<Longrightarrow> alike (m w) (m w')"
  unfolding blind_def by blast

lemma alike_refl: "strip w = strip w' \<Longrightarrow> alike (r, w) (r, w')"
  by (simp add: alike_def)

lemma blindI: "(\<And>w. alike (m (strip w)) (m w)) \<Longrightarrow> blind m"
  unfolding blind_def alike_def by metis

lemma blindD: "blind m \<Longrightarrow> strip (snd (m (strip w))) = strip (snd (m w))"
  unfolding blind_def alike_def by (metis strip_idem)

lemma blind_give [strip_intros]: "blind (give a)"
  by (rule blindI2) (simp only: give_def alike_refl)

lemma blind_refuse [strip_intros]: "blind (refuse c m)"
  by (rule blindI2) (simp only: refuse_def alike_refl)

lemma blind_flunk [strip_intros]: "blind (flunk e)"
  by (rule blindI2) (simp only: flunk_def alike_refl)

lemma blind_attempt:
  assumes "blind m" "\<And>r. blind (k r)"
  shows "blind (attempt m k)"
proof (rule blindI2)
  fix w w' :: "'a ci_world"
  assume e: "strip w = strip w'"
  obtain r v where 1: "m w = (r, v)" by (cases "m w")
  obtain r' v' where 2: "m w' = (r', v')" by (cases "m w'")
  have r: "r' = r" "strip v = strip v'" using blind_use[OF assms(1) e] by (simp_all add: 1 2 alike_def)
  show "alike (attempt m k w) (attempt m k w')"
    by (cases r) (simp_all add: attempt_def 1 2 r(1) blind_use[OF assms(2) r(2)] alike_refl[OF r(2)])
qed

lemma blind_after [strip_intros]: "blind m \<Longrightarrow> (\<And>b. blind (k b)) \<Longrightarrow> blind (after m k)"
  unfolding after_def by (rule blind_attempt) (auto intro: strip_intros split: sum.split)

lemma blind_demand [strip_intros]:
  assumes "blind m"
  shows "blind (demand (\<lambda>_. e) m)"
proof (rule blindI2)
  fix w w' :: "'a ci_world"
  assume s: "strip w = strip w'"
  show "alike (demand (\<lambda>_. e) m w) (demand (\<lambda>_. e) m w')"
    by (cases e) (simp_all only: demand_def option.case blind_use[OF assms s] alike_refl[OF s])
qed

lemma blind_alter [strip_intros]:
  assumes "blind m" "\<And>w w'. strip w = strip w' \<Longrightarrow> strip (f w) = strip (f w')"
  shows "blind (alter f m)"
proof (rule blindI2)
  fix w w' :: "'a ci_world"
  assume "strip w = strip w'"
  from blind_use[OF assms(1) assms(2)[OF this]] show "alike (alter f m w) (alter f m w')" by (simp only: alter_def)
qed

lemma blind_chase [strip_intros]:
  assumes "\<And>b. blind (k b)"
  shows "blind (chase c (\<lambda>_. x) k)"
proof (rule blindI2)
  fix w w' :: "'b ci_world"
  assume e: "strip w = strip w'"
  show "alike (chase c (\<lambda>_. x) k w) (chase c (\<lambda>_. x) k w')"
  proof (cases x)
    case (Some r)
    then show ?thesis by (cases r) (simp_all only: chase_def option.case sum.case blind_use[OF assms e] alike_refl[OF e])
  qed (simp only: chase_def option.case alike_refl[OF e])
qed

lemma blind_look [strip_intros]:
  assumes "\<And>b. blind (k b)"
  shows "blind (look c (\<lambda>_. x) k)"
proof (rule blindI2)
  fix w w' :: "'b ci_world"
  assume s: "strip w = strip w'"
  show "alike (look c (\<lambda>_. x) k w) (look c (\<lambda>_. x) k w')"
    by (cases x) (simp_all only: look_def sum.case blind_use[OF assms s] alike_refl[OF s])
qed

lemma blind_if [strip_intros]: "blind m \<Longrightarrow> blind n \<Longrightarrow> blind (if b then m else n)"
  by simp

lemma blind_case_sum [strip_intros]:
  "(\<And>e. blind (f e)) \<Longrightarrow> (\<And>b. blind (g b)) \<Longrightarrow> blind (case r of Inl e \<Rightarrow> f e | Inr b \<Rightarrow> g b)"
  by (cases r) simp_all

lemma blind_case_prod [strip_intros]: "(\<And>a b. blind (f a b)) \<Longrightarrow> blind (case p of (a, b) \<Rightarrow> f a b)"
  by (cases p) simp

lemma strip_same:
  assumes "strip w = strip w'"
  shows "cw_workflows w = cw_workflows w'" "cw_reg w = cw_reg w'" "cw_hub w = cw_hub w'" "cw_ext w = cw_ext w'"
    "cw_tasks w = cw_tasks w'"
  using assms by (metis strip_fields)+

lemma blind_find_workflow [strip_intros]:
  assumes "\<And>wk. blind (k wk)"
  shows "blind (find_workflow i k)"
proof (rule blindI2)
  fix w w' :: "'a ci_world"
  assume s: "strip w = strip w'"
  show "alike (find_workflow i k w) (find_workflow i k w')"
    by (cases "map_of (cw_workflows w') i")
      (simp_all add: find_workflow_def look_def strip_same(1)[OF s] blind_use[OF assms s] alike_refl[OF s])
qed

lemma blind_naming [strip_intros]:
  assumes "\<And>wk. blind (k wk)"
  shows "blind (naming S wk k)"
proof (rule blindI2)
  fix w w' :: "'a ci_world"
  assume s: "strip w = strip w'"
  have "strip (w\<lparr> cw_ext := x \<rparr>) = strip (w'\<lparr> cw_ext := x \<rparr>)" for x using s by simp
  then show "alike (naming S wk k w) (naming S wk k w')"
    by (simp add: naming_def strip_same(4)[OF s] blind_use[OF assms] s case_prod_unfold)
qed

lemma blind_run_async [strip_intros]: "blind (run_async S wk)"
  by (rule blindI) (rule run_async_strip)

lemma blind_store_workflow: "strip w = strip w' \<Longrightarrow> strip (store_workflow wk w) = strip (store_workflow wk w')"
  using strip_same(1)[of w w'] by (simp add: store_workflow_def)

lemma blind_create: "blind (create_workflow S ctx msg)"
  unfolding create_workflow_def Let_def by (intro strip_intros blind_store_workflow)

lemma blind_trigger: "blind (trigger_run S ctx i)"
  unfolding trigger_run_def by (intro strip_intros)

lemma blind_start_all [strip_intros]: "blind (start_all S wks)"
  by (induction wks) (auto intro!: strip_intros blind_store_workflow)

lemma blind_file: "blind (run_workflow_file S ctx org repo branch name args)"
  unfolding run_workflow_file_def by (intro strip_intros)

lemma blind_register: "blind (register_runner S m)"
  by (rule blindI)
    (auto simp: register_runner_def effect_def refuse_def give_def alike_def split: option.split sum.split registry_error.split)

lemma blind_subscribe: "blind (open_job_log d)"
  by (rule blindI) (auto simp: open_job_log_def on_hub_def alike_def split: outcome.split)

lemma serve_strip: "strip (serve S ev (strip w)) = strip (serve S ev w)"
proof (cases ev)
  case (CancelCall i)
  then show ?thesis by (simp add: cancel_run_def peek_def alter_def give_def split: option.split)
qed (simp_all add: tick_strip blindD blind_create blind_trigger blind_file blind_register blind_subscribe)

lemma serve_cancel: "is_cancel ev \<Longrightarrow> strip (serve S ev w) = strip w"
  by (cases ev) (auto simp: cancel_run_def peek_def alter_def give_def split: option.split)

lemma serve_alike: "strip w = strip w' \<Longrightarrow> strip (serve S ev w) = strip (serve S ev w')"
  by (metis serve_strip)

text \<open>
  C27: Cancelling a run is cosmetic.  Take any history of the service: steps of the runs' tasks,
  cancellations by anybody, definitions, triggers, workflow files, registrations of runners,
  subscriptions and whatever happens outside, in any order.  Leaving all cancellations out changes
  nothing but the recorded state of runs: the same jobs are executed on the same runners with the
  same outcomes, the same lines are logged, and the same tasks are left.
\<close>
theorem cancel_is_cosmetic:
  "strip (serve_all S evs w) = strip (serve_all S (filter (\<lambda>ev. \<not> is_cancel ev) evs) w)"
proof -
  have "strip (fold (serve S) evs v) = strip (fold (serve S) (filter (\<lambda>ev. \<not> is_cancel ev) evs) v')"
    if "strip v = strip v'" for v v'
    using that
  proof (induction evs arbitrary: v v')
    case (Cons ev evs)
    show ?case
    proof (cases "is_cancel ev")
      case True
      then show ?thesis using Cons.IH[of "serve S ev v" v'] Cons.prems serve_cancel[OF True, of S v] by simp
    next
      case False
      then show ?thesis using Cons.IH[OF serve_alike[OF Cons.prems, of S ev]] by simp
    qed
  qed simp
  then show ?thesis by (simp add: serve_all_def)
qed

section \<open>Who may do what\<close>

lemma guarded_byI: "(\<And>v r v'. m v = (r, v') \<Longrightarrow> v' \<noteq> v \<Longrightarrow> P v) \<Longrightarrow> guarded_by P m"
  unfolding guarded_by_def by (metis surjective_pairing)

lemma guarded_trigger:
  "guarded_by (\<lambda>w. \<exists>wk. map_of (cw_workflows w) i = Some wk
      \<and> may_define (sv_central S) ctx (wf_org wk) (wf_repo wk) ''running a workflow'' = None) (trigger_run S ctx i)"
  by (rule guarded_byI)
    (auto simp: trigger_run_def find_workflow_def look_def demand_def split: option.splits)

text \<open>
  C28: Who may change what through the workflow service.  A workflow is defined or run only by a caller
  who may merge into the repository it names, or, if it names none, by an authenticated one; a
  workflow file is run only by a caller who may merge into its repository.  Nothing is asked of
  anybody else: every run of every repository is listed, and cancelled, for any caller, who need not
  be authenticated, and a runner is registered for any caller who names one.
\<close>
theorem ci_calls_guarded:
  "guarded_by (\<lambda>_. may_define (sv_central S) ctx (wf_org (from_proto_workflow msg)) (wf_repo (from_proto_workflow msg))
       ''defining a workflow'' = None) (create_workflow S ctx msg)
   \<and> guarded_by (\<lambda>w. \<exists>wk. map_of (cw_workflows w) i = Some wk
       \<and> may_define (sv_central S) ctx (wf_org wk) (wf_repo wk) ''running a workflow'' = None) (trigger_run S ctx i)
   \<and> guarded_by (\<lambda>_. require_repo_action (sv_central S) ctx org repo (ro_merge (sv_central S)) ''running a workflow file'' = None)
       (run_workflow_file S ctx org repo branch name args)
   \<and> fst (list_runs '''' w) = Done (map (\<lambda>(_, r). proto_run r) (cw_runs w))
   \<and> fst (cancel_run i w) = Done (map_of (cw_runs w) i \<noteq> None)
   \<and> fst (register_runner S (Some rn) w) =
       (if wn_id rn = '''' then Fail (ConnErr InvalidArgument ''runner id required'') else Done ())"
proof (intro conjI)
  show "guarded_by (\<lambda>_. may_define (sv_central S) ctx (wf_org (from_proto_workflow msg)) (wf_repo (from_proto_workflow msg))
       ''defining a workflow'' = None) (create_workflow S ctx msg)"
    unfolding create_workflow_def Let_def by (rule guarded_demand)
  show "guarded_by (\<lambda>_. require_repo_action (sv_central S) ctx org repo (ro_merge (sv_central S)) ''running a workflow file'' = None)
       (run_workflow_file S ctx org repo branch name args)"
    unfolding run_workflow_file_def by (intro guarded_if guarded_refuse guarded_demand)
  show "fst (list_runs '''' w) = Done (map (\<lambda>(_, r). proto_run r) (cw_runs w))"
    by (simp add: list_runs_def peek_def give_def case_prod_unfold comp_def)
  show "fst (cancel_run i w) = Done (map_of (cw_runs w) i \<noteq> None)"
    by (simp add: cancel_run_def peek_def give_def alter_def split: option.split)
  show "fst (register_runner S (Some rn) w) =
       (if wn_id rn = '''' then Fail (ConnErr InvalidArgument ''runner id required'') else Done ())"
    by (simp add: register_runner_def effect_def register_def give_def Let_def)
qed (rule guarded_trigger)

text \<open>
  A definition displaces whatever has its id.  The check is on the repository the new definition
  names, never on the one an existing workflow of that id belongs to: whoever may define it gets it
  stored under that id, the other workflows stay, and from then on the id is shown to, and run for,
  those only whom the new definition's repository admits; the runs already made keep the id.
\<close>
lemma definition_displaces:
  assumes "wk = from_proto_workflow msg" "wf_id wk \<noteq> ''''"
    "may_define (sv_central S) ctx (wf_org wk) (wf_repo wk) ''defining a workflow'' = None"
  shows "\<exists>w'. create_workflow S ctx msg w = (Done (proto_workflow wk), w')
    \<and> map_of (cw_workflows w') = (map_of (cw_workflows w))(wf_id wk \<mapsto> wk)
    \<and> cw_runs w' = cw_runs w \<and> cw_tasks w' = cw_tasks w
    \<and> (\<forall>ctx'. get_workflow S ctx' (wf_id wk) w' =
         (if can_see_repo (sv_central S) ctx' (wf_org wk) (wf_repo wk) then (Done (proto_workflow wk), w')
          else (Fail (ConnErr NotFound ''not_found: workflow not found''), w')))
    \<and> (\<forall>ctx'. trigger_run S ctx' (wf_id wk) w' =
         (case may_define (sv_central S) ctx' (wf_org wk) (wf_repo wk) ''running a workflow'' of
            Some e \<Rightarrow> (Fail e, w')
          | None \<Rightarrow> after (run_async S wk) (\<lambda>run. give (proto_run run)) w'))"
proof (intro exI conjI allI)
  let ?w = "store_workflow wk w"
  show "create_workflow S ctx msg w = (Done (proto_workflow wk), ?w)"
    using assms by (simp add: create_workflow_def Let_def demand_def naming_def alter_def give_def)
  show m: "map_of (cw_workflows ?w) = (map_of (cw_workflows w))(wf_id wk \<mapsto> wk)"
    by (simp add: store_workflow_def update_conv')
  show "get_workflow S ctx' (wf_id wk) ?w =
         (if can_see_repo (sv_central S) ctx' (wf_org wk) (wf_repo wk) then (Done (proto_workflow wk), ?w)
          else (Fail (ConnErr NotFound ''not_found: workflow not found''), ?w))" for ctx'
    by (simp add: get_workflow_def find_workflow_def look_def m refuse_def give_def)
  show "trigger_run S ctx' (wf_id wk) ?w =
         (case may_define (sv_central S) ctx' (wf_org wk) (wf_repo wk) ''running a workflow'' of
            Some e \<Rightarrow> (Fail e, ?w)
          | None \<Rightarrow> after (run_async S wk) (\<lambda>run. give (proto_run run)) ?w)" for ctx'
    by (simp add: trigger_run_def find_workflow_def look_def m demand_def split: option.split)
qed (simp_all add: store_workflow_def)

section \<open>A task computes what the scheduler is specified to do\<close>

definition task_env :: "('r, 'v, 'i, 'k) ci_service \<Rightarrow> runner_registry \<Rightarrow> 'k sched_env" where
  "task_env S reg = \<lparr> se_view = (\<lambda>k. (sv_now S k, reg)), se_back = sv_back S, se_onlog = True \<rparr>"

fun one_step :: "('r, 'v, 'i, 'k) ci_service \<Rightarrow> task \<times> 'k ci_world \<Rightarrow> task \<times> 'k ci_world" where
  "one_step S (t, w) = task_step S t w"

definition reaches :: "('r, 'v, 'i, 'k) ci_service \<Rightarrow> task \<times> 'k ci_world \<Rightarrow> task \<times> 'k ci_world \<Rightarrow> bool" where
  "reaches S x y \<longleftrightarrow> (\<exists>n. (one_step S ^^ n) x = y)"

lemma reaches_refl: "reaches S x x"
  unfolding reaches_def by (intro exI[of _ 0]) simp

lemma reaches_first: "reaches S (task_step S t w) y \<Longrightarrow> reaches S (t, w) y"
  unfolding reaches_def
proof (elim exE)
  fix n
  assume "(one_step S ^^ n) (task_step S t w) = y"
  then show "\<exists>n. (one_step S ^^ n) (t, w) = y" by (intro exI[of _ "Suc n"]) (simp add: funpow_swap1)
qed

lemma reaches_trans: "reaches S x y \<Longrightarrow> reaches S y z \<Longrightarrow> reaches S x z"
  unfolding reaches_def
proof (elim exE)
  fix m n
  assume "(one_step S ^^ m) x = y" "(one_step S ^^ n) y = z"
  then show "\<exists>n. (one_step S ^^ n) x = z" by (intro exI[of _ "n + m"]) (simp add: funpow_add)
qed

lemma reaches_step: "task_step S t w = y \<Longrightarrow> reaches S (t, w) y"
  using reaches_first[of S t w y] reaches_refl[of S y] by simp

text \<open>The logs of some jobs can be written: none of them is locked.\<close>

definition writable :: "string set \<Rightarrow> hub \<Rightarrow> bool" where
  "writable ids h \<longleftrightarrow> hub_ok h \<and> (\<forall>d\<in>ids. \<not> jl_locked (hub_get d h))"

lemma writable_log:
  assumes "writable ids h" "d \<in> ids"
  shows "\<exists>h'. hub_log d l h = Returns () h' \<and> writable ids h'"
proof -
  have "hub_ok h" "\<not> jl_locked (hub_get d h)" using assms by (simp_all add: writable_def)
  from this(1) show ?thesis
  proof (rule hub_log_cases[of h d l])
    fix cs tail
    let ?h = "hub_set d ((hub_get d h)\<lparr> jl_lines := tail \<rparr>) (h\<lparr> hub_chans := cs \<rparr>)"
    assume "hub_log d l h = Returns () ?h" "hub_ok ?h"
    moreover have "\<not> jl_locked (hub_get d' ?h)" if "d' \<in> ids" for d'
      using assms that unfolding writable_def hub_get_set by auto
    ultimately show ?thesis unfolding writable_def by blast
  qed (use \<open>\<not> jl_locked (hub_get d h)\<close> in auto)
qed

lemma writable_log_out:
  "writable ids h \<Longrightarrow> d \<in> ids \<Longrightarrow> \<exists>h'. log_out d ls h = (True, h') \<and> writable ids h'"
proof (induction ls arbitrary: h)
  case (Cons l ls)
  obtain h1 where "hub_log d l h = Returns () h1" "writable ids h1" using writable_log[OF Cons.prems] by blast
  then show ?case using Cons.IH[OF _ Cons.prems(2)] by simp
qed simp

lemma writable_finish:
  assumes "writable ids h" "d \<in> ids"
  shows "\<exists>h'. hub_finish d s h = Returns () h' \<and> writable ids h' \<and> jl_closed (hub_get d h')
    \<and> (\<forall>d'. jl_closed (hub_get d' h) \<longrightarrow> jl_closed (hub_get d' h'))"
proof -
  have "hub_ok h" "\<not> jl_locked (hub_get d h)" using assms by (simp_all add: writable_def)
  from this(1) show ?thesis
  proof (rule hub_finish_cases[of h d s])
    fix cs
    let ?h = "hub_set d ((hub_get d h)\<lparr> jl_state := s, jl_closed := True, jl_subs := [] \<rparr>) (h\<lparr> hub_chans := cs \<rparr>)"
    assume "hub_finish d s h = Returns () ?h" "hub_ok ?h"
    moreover have "\<not> jl_locked (hub_get d' ?h)" if "d' \<in> ids" for d'
      using assms that unfolding writable_def hub_get_set by auto
    moreover have "jl_closed (hub_get d ?h)" "\<forall>d'. jl_closed (hub_get d' h) \<longrightarrow> jl_closed (hub_get d' ?h)"
      unfolding hub_get_set by auto
    ultimately show ?thesis unfolding writable_def by blast
  qed (use \<open>\<not> jl_locked (hub_get d h)\<close> in auto)
qed

text \<open>The task and the stored state agree with a state of the walk.\<close>

definition simulates :: "runner_registry \<Rightarrow> string set \<Rightarrow> task \<Rightarrow> 'k ci_world \<Rightarrow> 'k sched \<Rightarrow> bool" where
  "simulates reg ids t w st \<longleftrightarrow> tk_wf t = sc_wf st \<and> tk_done t = sc_done st
     \<and> map_of (cw_runs w) (tk_run t) = Some (sc_run st) \<and> cw_ext w = sc_world st \<and> cw_reg w = reg
     \<and> writable ids (cw_hub w) \<and> ji_job_id ` set (run_jobs (sc_run st)) \<subseteq> ids
     \<and> set (job_ids (sc_wf st)) \<subseteq> ji_def_id ` set (run_jobs (sc_run st))"

lemma find_instance_in: "d \<in> ji_def_id ` set js \<Longrightarrow> find_instance js d \<in> set js"
  by (auto simp: find_instance_def find_Some_iff find_None_iff split: option.split)

lemma map_of_on_run: "map_of (cw_runs w) i = Some r \<Longrightarrow> map_of (cw_runs (on_run i f w)) i = Some (f r)"
  by (simp add: on_run_def update_conv')

lemma job_id_set [simp]:
  "ji_job_id ` set (run_jobs (set_job_state d s x r)) = ji_job_id ` set (run_jobs r)"
  "ji_def_id ` set (run_jobs (set_job_state d s x r)) = ji_def_id ` set (run_jobs r)"
proof -
  have "map ji_job_id (run_jobs (set_job_state d s x r)) = map ji_job_id (run_jobs r)"
    by (simp add: set_job_state_def)
  from arg_cong[OF this, of set] show "ji_job_id ` set (run_jobs (set_job_state d s x r)) = ji_job_id ` set (run_jobs r)" by simp
  have "map ji_def_id (run_jobs (set_job_state d s x r)) = map ji_def_id (run_jobs r)" by (rule run_jobs_defs_set_job_state)
  from arg_cong[OF this, of set] show "ji_def_id ` set (run_jobs (set_job_state d s x r)) = ji_def_id ` set (run_jobs r)"
    by (simp only: set_map)
qed

lemma instances_at: "map_of (cw_runs w) i = Some r \<Longrightarrow> instances i w = run_jobs r"
  by (simp add: instances_def)

lemma job_simulated:
  assumes sim: "simulates reg ids t w st" and ph: "tk_phase t = Passing (d # ds) p"
    and n: "by_def (wf_jobs (sc_wf st)) d = Some n"
    and ready: "\<not> (d \<in> set (sc_done st) \<or> \<not> all_done (job_needs (wf_jobs (sc_wf st) ! n)) (sc_done st))"
  shows "\<exists>t' w'. reaches S (t, w) (t', w') \<and> simulates reg ids t' w' (snd (run_job (task_env S reg) n st))
    \<and> tk_run t' = tk_run t
    \<and> tk_phase t' = (case fst (run_job (task_env S reg) n st) of Inl e \<Rightarrow> Ending (Some e) | Inr _ \<Rightarrow> Passing ds True)"
proof -
  define wk where "wk = stamp_at n (sc_wf st)"
  define j where "j = wf_jobs wk ! n"
  define jid where "jid = ji_job_id (find_instance (run_jobs (sc_run st)) (job_id j))"
  define rn where "rn = pick_runner (task_env S reg) j (sc_world st)"
  define t1 where "t1 = t\<lparr> tk_wf := wk, tk_phase := Working n jid rn ds \<rparr>"
  define w1 where "w1 = on_run (tk_run t) (set_job_state (job_id j) StateRunning '''') w"
  obtain res k where out: "sv_back S j rn (sc_world st) = (res, k)" by fastforce
  have s: "tk_wf t = sc_wf st" "tk_done t = sc_done st" "map_of (cw_runs w) (tk_run t) = Some (sc_run st)"
    "cw_ext w = sc_world st" "cw_reg w = reg" "writable ids (cw_hub w)"
    "ji_job_id ` set (run_jobs (sc_run st)) \<subseteq> ids" "set (job_ids (sc_wf st)) \<subseteq> ji_def_id ` set (run_jobs (sc_run st))"
    using sim by (simp_all add: simulates_def)
  have pr: "pool_runner S j w = rn" by (simp add: s pool_runner_def rn_def pick_runner_def task_env_def)
  have nl: "n < length (wf_jobs (sc_wf st))" "job_id (wf_jobs (sc_wf st) ! n) = d" using by_def_Some[OF n] by auto
  have jd: "job_id j = d" using nl by (simp add: j_def wk_def stamp_at_def)
  have "d \<in> set (job_ids (sc_wf st))" using nl by (auto simp: job_ids_def)
  then have "jid \<in> ids" using find_instance_in[of d "run_jobs (sc_run st)"] s jd by (auto simp: jid_def)
  then obtain h where h: "log_out jid (br_lines res) (cw_hub w) = (True, h)" "writable ids h"
    using writable_log_out s by blast
  have 1: "task_step S t w = (t1, w1)"
    using ready pr
    by (simp add: task_step_def ph s(1,2) n begin_job_def Let_def instances_at[OF s(3)] t1_def w1_def
        wk_def[symmetric] j_def[symmetric] jid_def)
  let ?w = "w1\<lparr> cw_ext := k, cw_hub := h \<rparr>"
  have m1: "map_of (cw_runs ?w) (tk_run t) = Some (set_job_state (job_id j) StateRunning '''' (sc_run st))"
    using s map_of_on_run[of w "tk_run t"] by (simp add: w1_def)
  have f1: "cw_ext w1 = sc_world st" "cw_hub w1 = cw_hub w" "cw_reg w1 = reg" using s by (simp_all add: w1_def)
  have tf: "tk_wf t1 = wk" "tk_done t1 = sc_done st" "tk_run t1 = tk_run t" "tk_phase t1 = Working n jid rn ds"
    using s by (simp_all add: t1_def)
  have jobs: "set (job_ids wk) \<subseteq> ji_def_id ` set (run_jobs (sc_run st))" using s by (simp add: wk_def)
  let ?log = "map (\<lambda>l. (jid, l)) (br_lines res)"
  let ?st = "st\<lparr> sc_wf := wk, sc_log := sc_log st @ ?log, sc_world := k \<rparr>"
  let ?run = "set_job_state (job_id j) StateRunning '''' (sc_run st)"
  have rj: "run_job (task_env S reg) n st =
      (if \<not> back_ok res
       then (Inl (JobFailed (job_id j) (back_text res)),
             ?st\<lparr> sc_run := set_job_state (job_id j) StateFailure (back_text res) ?run \<rparr>)
       else (Inr (), ?st\<lparr> sc_run := set_job_state (job_id j) StateSuccess '''' ?run, sc_done := sc_done st @ [job_id j] \<rparr>))"
    unfolding run_job_def Let_def wk_def[symmetric] j_def[symmetric] rn_def[symmetric] jid_def[symmetric]
    by (simp add: task_env_def out)
  show ?thesis
  proof (cases "back_ok res")
    case True
    let ?t = "t1\<lparr> tk_done := sc_done st @ [job_id j], tk_phase := Passing ds True \<rparr>"
    let ?v = "on_run (tk_run t) (set_job_state (job_id j) StateSuccess '''') ?w"
    have 2: "task_step S t1 w1 = (?t, ?v)"
      using True h(1) out f1 tf by (simp add: task_step_def end_job_def Let_def j_def)
    have "simulates reg ids ?t ?v (snd (run_job (task_env S reg) n st))"
      using s(7) h(2) f1 tf jobs map_of_on_run[OF m1] by (simp add: simulates_def rj True)
    then show ?thesis
      using reaches_first[of S t w, unfolded 1] reaches_step[OF 2] tf
      by (intro exI[of _ ?t] exI[of _ ?v]) (simp add: rj True)
  next
    case False
    let ?t = "t1\<lparr> tk_phase := Ending (Some (JobFailed (job_id j) (back_text res))) \<rparr>"
    let ?v = "on_run (tk_run t) (set_job_state (job_id j) StateFailure (back_text res)) ?w"
    have 2: "task_step S t1 w1 = (?t, ?v)"
      using False h(1) out f1 tf by (simp add: task_step_def end_job_def Let_def j_def)
    have "simulates reg ids ?t ?v (snd (run_job (task_env S reg) n st))"
      using s(7) h(2) f1 tf jobs map_of_on_run[OF m1] by (simp add: simulates_def rj False)
    then show ?thesis
      using reaches_first[of S t w, unfolded 1] reaches_step[OF 2] tf
      by (intro exI[of _ ?t] exI[of _ ?v]) (simp add: rj False)
  qed
qed

lemma simulates_phase [simp]: "simulates reg ids (t\<lparr> tk_phase := ph \<rparr>) w st = simulates reg ids t w st"
  by (simp add: simulates_def)

lemma pass_simulated:
  "simulates reg ids t w st \<Longrightarrow> tk_phase t = Passing ds p \<Longrightarrow>
    \<exists>t' w'. reaches S (t, w) (t', w') \<and> simulates reg ids t' w' (snd (walk_pass (task_env S reg) ds p st))
      \<and> tk_run t' = tk_run t
      \<and> tk_phase t' = (case fst (walk_pass (task_env S reg) ds p st) of Inl e \<Rightarrow> Ending (Some e) | Inr q \<Rightarrow> Passing [] q)"
proof (induction "task_env S reg" ds p st arbitrary: t w rule: walk_pass.induct)
  case (1 p st)
  then show ?case using reaches_refl[of S "(t, w)"] by (intro exI[of _ t] exI[of _ w]) simp
next
  case (2 d ds p st)
  have wf: "tk_wf t = sc_wf st" "tk_done t = sc_done st" using 2(5) by (simp_all add: simulates_def)
  let ?t = "t\<lparr> tk_phase := Passing ds p \<rparr>"
  show ?case
  proof (cases "by_def (wf_jobs (sc_wf st)) d")
    case None
    have "task_step S t w = (?t, w)" using 2(6) None wf by (simp add: task_step_def)
    with 2(1)[OF None, of ?t w] 2(5) None reaches_first[of S t w] show ?thesis by auto
  next
    case (Some n)
    show ?thesis
    proof (cases "d \<in> set (sc_done st) \<or> \<not> all_done (job_needs (wf_jobs (sc_wf st) ! n)) (sc_done st)")
      case True
      have "task_step S t w = (?t, w)" using 2(6) Some wf True by (simp add: task_step_def)
      moreover have "walk_pass (task_env S reg) (d # ds) p st = walk_pass (task_env S reg) ds p st"
        using True Some by auto
      moreover have "\<exists>t' w'. reaches S (?t, w) (t', w') \<and> simulates reg ids t' w' (snd (walk_pass (task_env S reg) ds p st))
          \<and> tk_run t' = tk_run ?t
          \<and> tk_phase t' = (case fst (walk_pass (task_env S reg) ds p st) of Inl e \<Rightarrow> Ending (Some e) | Inr q \<Rightarrow> Passing [] q)"
        using 2(2)[OF Some, of ?t w] 2(3)[OF Some, of ?t w] 2(5) True by auto
      ultimately show ?thesis using reaches_first[of S t w] by auto
    next
      case False
      obtain r st1 where rj: "run_job (task_env S reg) n st = (r, st1)" by fastforce
      obtain t1 w1 where 1: "reaches S (t, w) (t1, w1)" "simulates reg ids t1 w1 st1" "tk_run t1 = tk_run t"
        "tk_phase t1 = (case r of Inl e \<Rightarrow> Ending (Some e) | Inr _ \<Rightarrow> Passing ds True)"
        using job_simulated[OF 2(5,6) Some False, of S] rj by auto
      show ?thesis
      proof (cases r)
        case (Inl e)
        then show ?thesis using 1 Some False rj by (intro exI[of _ t1] exI[of _ w1]) simp
      next
        case (Inr u)
        have e: "walk_pass (task_env S reg) (d # ds) p st = walk_pass (task_env S reg) ds True st1"
          using Some False rj Inr by simp
        have "\<exists>t' w'. reaches S (t1, w1) (t', w') \<and> simulates reg ids t' w' (snd (walk_pass (task_env S reg) ds True st1))
          \<and> tk_run t' = tk_run t1
          \<and> tk_phase t' = (case fst (walk_pass (task_env S reg) ds True st1) of Inl e \<Rightarrow> Ending (Some e) | Inr q \<Rightarrow> Passing [] q)"
          using 2(4)[OF Some _ _ rj[symmetric] Inr, of t1 w1] False 1 Inr by auto
        then show ?thesis using reaches_trans[OF 1(1)] 1(3) unfolding e by metis
      qed
    qed
  qed
qed

lemma loop_simulated:
  "simulates reg ids t w st \<Longrightarrow> tk_phase t = next_pass t \<Longrightarrow>
    \<exists>t' w'. reaches S (t, w) (t', w') \<and> simulates reg ids t' w' (snd (walk_loop (task_env S reg) st))
      \<and> tk_run t' = tk_run t
      \<and> tk_phase t' = Ending (case fst (walk_loop (task_env S reg) st) of Inl e \<Rightarrow> Some e | Inr _ \<Rightarrow> None)"
proof (induction "task_env S reg" st arbitrary: t w rule: walk_loop.induct)
  case (1 st)
  let ?pass = "walk_pass (task_env S reg) (job_ids (sc_wf st)) False st"
  have wf: "tk_wf t = sc_wf st" "tk_done t = sc_done st" using 1(2) by (simp_all add: simulates_def)
  show ?case
  proof (cases "length (sc_done st) < length (wf_jobs (sc_wf st))")
    case False
    then have "walk_loop (task_env S reg) st = (Inr (), st)" by (subst walk_loop.simps) simp
    then show ?thesis using 1(2,3) False wf reaches_refl[of S "(t, w)"]
      by (intro exI[of _ t] exI[of _ w]) (simp add: next_pass_def)
  next
    case True
    then have "tk_phase t = Passing (job_ids (sc_wf st)) False" using 1(3) wf by (simp add: next_pass_def)
    from pass_simulated[OF 1(2) this, of S]
    obtain t1 w1 where p: "reaches S (t, w) (t1, w1)" "simulates reg ids t1 w1 (snd ?pass)" "tk_run t1 = tk_run t"
      "tk_phase t1 = (case fst ?pass of Inl e \<Rightarrow> Ending (Some e) | Inr q \<Rightarrow> Passing [] q)" by blast
    obtain r st1 where r: "?pass = (r, st1)" by fastforce
    have unfolded: "walk_loop (task_env S reg) st =
        (case r of Inl e \<Rightarrow> (Inl e, st1)
         | Inr q \<Rightarrow> if \<not> q then (Inl Unresolved, st1) else walk_loop (task_env S reg) st1)"
      using True r by (subst walk_loop.simps) simp
    show ?thesis
    proof (cases r)
      case (Inl e)
      then show ?thesis using p r unfolded by auto
    next
      case (Inr q)
      let ?ph = "if \<not> q then Ending (Some Unresolved) else next_pass t1"
      have s1: "task_step S t1 w1 = (t1\<lparr> tk_phase := ?ph \<rparr>, w1)"
        using p(4) r Inr by (simp add: task_step_def)
      have go: "reaches S (t, w) (t1\<lparr> tk_phase := ?ph \<rparr>, w1)" by (rule reaches_trans[OF p(1) reaches_step[OF s1]])
      show ?thesis
      proof (cases q)
        case True
        have "next_pass (t1\<lparr> tk_phase := ?ph \<rparr>) = next_pass t1" by (simp add: next_pass_def)
        then have "\<exists>t' w'. reaches S (t1\<lparr> tk_phase := ?ph \<rparr>, w1) (t', w')
            \<and> simulates reg ids t' w' (snd (walk_loop (task_env S reg) st1)) \<and> tk_run t' = tk_run t1
            \<and> tk_phase t' = Ending (case fst (walk_loop (task_env S reg) st1) of Inl e \<Rightarrow> Some e | Inr _ \<Rightarrow> None)"
          using 1(1)[OF \<open>length (sc_done st) < length (wf_jobs (sc_wf st))\<close> r[symmetric] Inr, of "t1\<lparr> tk_phase := ?ph \<rparr>" w1]
            p(2) r True by simp
        then show ?thesis using reaches_trans[OF go] p(3) unfolded Inr True by (simp del: one_step.simps) blast
      next
        case False
        then show ?thesis using go p(2,3) r unfolded Inr
          by (intro exI[of _ "t1\<lparr> tk_phase := ?ph \<rparr>"] exI[of _ w1]) simp
      qed
    qed
  qed
qed

lemma closing_simulated:
  "tk_phase t = Closing js \<Longrightarrow> writable ids (cw_hub w) \<Longrightarrow> ji_job_id ` set js \<subseteq> ids \<Longrightarrow>
    \<exists>t' h. reaches S (t, w) (t', w\<lparr> cw_hub := h \<rparr>) \<and> tk_phase t' = Over
      \<and> (\<forall>d \<in> ji_job_id ` set js. jl_closed (hub_get d h))
      \<and> (\<forall>d. jl_closed (hub_get d (cw_hub w)) \<longrightarrow> jl_closed (hub_get d h))"
proof (induction js arbitrary: t w)
  case Nil
  then have "task_step S t w = (t\<lparr> tk_phase := Over \<rparr>, w\<lparr> cw_hub := cw_hub w \<rparr>)" by (simp add: task_step_def)
  from reaches_step[OF this] show ?case by (intro exI[of _ "t\<lparr> tk_phase := Over \<rparr>"] exI[of _ "cw_hub w"]) simp
next
  case (Cons i js)
  have "ji_job_id i \<in> ids" using Cons.prems(3) by simp
  then obtain h1 where h1: "hub_finish (ji_job_id i) (state_text (ji_state i)) (cw_hub w) = Returns () h1" "writable ids h1"
    "jl_closed (hub_get (ji_job_id i) h1)" "\<forall>d'. jl_closed (hub_get d' (cw_hub w)) \<longrightarrow> jl_closed (hub_get d' h1)"
    using writable_finish[OF Cons.prems(2)] by blast
  have s: "task_step S t w = (t\<lparr> tk_phase := Closing js \<rparr>, w\<lparr> cw_hub := h1 \<rparr>)"
    using Cons.prems(1) h1(1) by (simp add: task_step_def)
  obtain t' h where h: "reaches S (t\<lparr> tk_phase := Closing js \<rparr>, w\<lparr> cw_hub := h1 \<rparr>) (t', w\<lparr> cw_hub := h \<rparr>)" "tk_phase t' = Over"
    "\<forall>d \<in> ji_job_id ` set js. jl_closed (hub_get d h)" "\<forall>d. jl_closed (hub_get d h1) \<longrightarrow> jl_closed (hub_get d h)"
    using Cons.IH[of "t\<lparr> tk_phase := Closing js \<rparr>" "w\<lparr> cw_hub := h1 \<rparr>"] Cons.prems(3) h1(2) by auto
  have "reaches S (t, w) (t', w\<lparr> cw_hub := h \<rparr>)" using reaches_first[of S t w] h(1) unfolding s by blast
  then show ?case using h h1 by (intro exI[of _ t'] exI[of _ h]) auto
qed

lemma run_job_run_ids: "map ji_job_id (run_jobs (sc_run (snd (run_job env k st)))) = map ji_job_id (run_jobs (sc_run st))"
  by (simp add: run_job_def Let_def set_job_state_def)

lemma walk_pass_run_ids:
  "map ji_job_id (run_jobs (sc_run (snd (walk_pass env ds p st)))) = map ji_job_id (run_jobs (sc_run st))"
proof (induction env ds p st rule: walk_pass.induct)
  case (2 env d ds p st)
  show ?case
  proof (cases "by_def (wf_jobs (sc_wf st)) d")
    case None
    then show ?thesis using 2(1) by simp
  next
    case (Some k)
    then show ?thesis using 2(2-)[OF Some] run_job_run_ids[of env k st]
      by (auto split: sum.splits prod.splits)
  qed
qed simp

lemma walk_loop_run_ids:
  "map ji_job_id (run_jobs (sc_run (snd (walk_loop env st)))) = map ji_job_id (run_jobs (sc_run st))"
proof (induction env st rule: walk_loop.induct)
  case (1 env st)
  obtain r st1 where r: "walk_pass env (job_ids (sc_wf st)) False st = (r, st1)" by fastforce
  have ids: "map ji_job_id (run_jobs (sc_run st1)) = map ji_job_id (run_jobs (sc_run st))"
    using walk_pass_run_ids[of env "job_ids (sc_wf st)" False st] r by simp
  show ?case
  proof (cases "length (sc_done st) < length (wf_jobs (sc_wf st))")
    case True
    then show ?thesis using 1[OF True r[symmetric]] r ids
      by (subst walk_loop.simps) (auto split: sum.split)
  next
    case False
    then show ?thesis by (subst walk_loop.simps) simp
  qed
qed

section \<open>A triggered run completes\<close>

lemma run_scheduler_restart: "run_scheduler env wk (set_state s r) k = run_scheduler env wk r k"
  by (simp add: run_scheduler_def set_state_def)

lemma step_keeps_tasks:
  "one_step S (t, w\<lparr> cw_tasks := x \<rparr>) = (case one_step S (t, w) of (t', w') \<Rightarrow> (t', w'\<lparr> cw_tasks := x \<rparr>))"
proof -
  have on: "on_run i f (w\<lparr> cw_tasks := x \<rparr>) = (on_run i f w)\<lparr> cw_tasks := x \<rparr>" for i f w
    by (simp add: on_run_def split: option.split)
  have sel: "instances i (w\<lparr> cw_tasks := x \<rparr>) = instances i w" "pool_runner S j (w\<lparr> cw_tasks := x \<rparr>) = pool_runner S j w" for i j
    by (simp_all add: instances_def pool_runner_def)
  have up: "w\<lparr> cw_tasks := x, cw_ext := k, cw_hub := h \<rparr> = (w\<lparr> cw_ext := k, cw_hub := h \<rparr>)\<lparr> cw_tasks := x \<rparr>" for k h
    by simp
  show ?thesis
  proof (cases "tk_phase t")
    case (Passing ds p)
    then show ?thesis by (cases ds) (simp_all add: task_step_def begin_job_def Let_def on sel split: option.split)
  next
    case (Working n jid rn ds)
    then show ?thesis by (simp add: task_step_def end_job_def Let_def case_prod_unfold up on)
  next
    case (Closing js)
    then show ?thesis by (cases js) (simp_all add: task_step_def split: outcome.split)
  qed (simp_all add: task_step_def on sel)
qed

lemma step_leaves_tasks: "cw_tasks (snd (one_step S (t, w))) = cw_tasks w"
  using arg_cong[OF step_keeps_tasks[of S t "cw_tasks w" w], of "\<lambda>y. cw_tasks (snd y)"]
  by (simp add: case_prod_unfold)

lemma ticks:
  assumes "m < length (cw_tasks w)" "cw_tasks w ! m = t"
  shows "(tick S m ^^ n) w = (case (one_step S ^^ n) (t, w) of (t', w') \<Rightarrow> w'\<lparr> cw_tasks := (cw_tasks w)[m := t'] \<rparr>)"
proof (induction n)
  case 0
  have "(cw_tasks w)[m := t] = cw_tasks w" using assms(2) by (metis list_update_id)
  then show ?case by simp
next
  case (Suc n)
  obtain t' w' where tw: "(one_step S ^^ n) (t, w) = (t', w')" by fastforce
  then show ?case
    using Suc assms(1) step_keeps_tasks[of S t' "(cw_tasks w)[m := t']" w']
    by (simp add: tick_def case_prod_unfold)
qed

lemma task_completes:
  fixes S :: "('r, 'v, 'i, 'k) ci_service"
  assumes "tk_phase t = Queued" "tk_done t = []" "map_of (cw_runs w) (tk_run t) = Some r"
    "writable (ji_job_id ` set (run_jobs r)) (cw_hub w)" "map ji_def_id (run_jobs r) = job_ids (tk_wf t)"
  shows "\<exists>t' w'. reaches S (t, w) (t', w') \<and> tk_phase t' = Over
    \<and> (let st = snd (run_scheduler (task_env S (cw_reg w)) (tk_wf t) r (cw_ext w)) in
        map_of (cw_runs w') (tk_run t) = Some (sc_run st) \<and> cw_ext w' = sc_world st)
    \<and> (\<forall>x\<in>set (run_jobs r). jl_closed (hub_get (ji_job_id x) (cw_hub w')))"
proof -
  let ?env = "task_env S (cw_reg w)" and ?ids = "ji_job_id ` set (run_jobs r)"
  let ?st = "\<lparr> sc_wf = tk_wf t, sc_run = set_state StateRunning r, sc_done = [], sc_log = [], sc_world = cw_ext w \<rparr>"
  let ?t = "t\<lparr> tk_phase := next_pass t \<rparr>" and ?w = "on_run (tk_run t) (set_state StateRunning) w"
  have 1: "task_step S t w = (?t, ?w)" using assms(1) by (simp add: task_step_def)
  have defs: "set (job_ids (tk_wf t)) = ji_def_id ` set (run_jobs r)"
    using arg_cong[OF assms(5), of set] by simp
  have jobs: "run_jobs (set_state s q) = run_jobs q" for s q by (simp add: set_state_def)
  have sim: "simulates (cw_reg w) ?ids ?t ?w ?st"
    using assms(2,4) map_of_on_run[OF assms(3)] defs by (simp add: simulates_def jobs)
  obtain u st where u: "walk_loop ?env ?st = (u, st)" by fastforce
  define e where "e = (case u of Inl e \<Rightarrow> Some e | Inr _ \<Rightarrow> None)"
  have "next_pass ?t = next_pass t" by (simp add: next_pass_def)
  with loop_simulated[OF sim, of S] u obtain t1 w1 where l: "reaches S (?t, ?w) (t1, w1)"
    "simulates (cw_reg w) ?ids t1 w1 st" "tk_run t1 = tk_run t" "tk_phase t1 = Ending e"
    unfolding e_def by auto
  define fin where "fin = (case e of None \<Rightarrow> StateSuccess | Some _ \<Rightarrow> StateFailure)"
  let ?w2 = "on_run (tk_run t) (set_state fin) w1"
  let ?w3 = "on_run (tk_run t) (\<lambda>q. q\<lparr> run_finished := Some (sv_now S (cw_ext ?w2)) \<rparr>) ?w2"
  let ?t2 = "t1\<lparr> tk_phase := Stamping \<rparr>" and ?t3 = "t1\<lparr> tk_phase := Closing (instances (tk_run t) ?w2) \<rparr>"
  have 2: "task_step S t1 w1 = (?t2, ?w2)" using l(3,4) by (simp add: task_step_def fin_def)
  have 3: "task_step S ?t2 ?w2 = (?t3, ?w3)" using l(3) by (simp add: task_step_def)
  have st: "map_of (cw_runs w1) (tk_run t) = Some (sc_run st)" "cw_ext w1 = sc_world st" "writable ?ids (cw_hub w1)"
    "ji_job_id ` set (run_jobs (sc_run st)) \<subseteq> ?ids"
    using l(2,3) by (simp_all add: simulates_def)
  have kept: "map ji_job_id (run_jobs (sc_run st)) = map ji_job_id (run_jobs r)"
    using walk_loop_run_ids[of ?env ?st] u by (simp add: jobs)
  have m2: "map_of (cw_runs ?w2) (tk_run t) = Some (set_state fin (sc_run st))" by (rule map_of_on_run[OF st(1)])
  have inst: "instances (tk_run t) ?w2 = run_jobs (sc_run st)" by (simp add: instances_at[OF m2] jobs)
  obtain t4 h where 4: "reaches S (?t3, ?w3) (t4, ?w3\<lparr> cw_hub := h \<rparr>)" "tk_phase t4 = Over"
    "\<forall>d \<in> ji_job_id ` set (run_jobs (sc_run st)). jl_closed (hub_get d h)"
    using closing_simulated[of ?t3 "run_jobs (sc_run st)" ?ids ?w3 S] st inst by auto
  have "reaches S (t, w) (t4, ?w3\<lparr> cw_hub := h \<rparr>)"
    using reaches_trans[OF reaches_step[OF 1] reaches_trans[OF l(1) reaches_trans[OF reaches_step[OF 2]
          reaches_trans[OF reaches_step[OF 3] 4(1)]]]] .
  moreover have "snd (run_scheduler ?env (tk_wf t) r (cw_ext w)) =
      st\<lparr> sc_run := (set_state fin (sc_run st))\<lparr> run_finished := Some (sv_now S (sc_world st)) \<rparr> \<rparr>"
    using u by (simp add: run_scheduler_def walk_def fin_def e_def task_env_def split: sum.split)
  moreover have "map_of (cw_runs ?w3) (tk_run t) =
      Some ((set_state fin (sc_run st))\<lparr> run_finished := Some (sv_now S (sc_world st)) \<rparr>)"
    using map_of_on_run[OF m2] st(2) by simp
  moreover have "ji_job_id ` set (run_jobs (sc_run st)) = ?ids" using arg_cong[OF kept, of set] by (simp only: set_map)
  ultimately show ?thesis using 4(2,3) st(2)
    by (intro exI[of _ t4] exI[of _ "?w3\<lparr> cw_hub := h \<rparr>"]) (simp add: Let_def)
qed

text \<open>
  C26: A triggered run completes and does what the scheduler is specified to do.  The call answers with
  the run as it was stored, pending, and starts a task; from then on a number of steps of that task,
  cancelled before the first one or not, leads to the state in which the stored run and the outside
  are those of the scheduler's run over the stored workflow, and the log of every job is closed.  The
  run's own job logs must not be locked, which fresh ids ensure.
\<close>
theorem triggered_run_completes:
  assumes "trigger_run S ctx i w = (Done run, w1)" "hub_ok (cw_hub w)"
    "list_all (\<lambda>x. \<not> jl_locked (hub_get (wi_id x) (cw_hub w))) (wr_jobs run)"
    "w2 \<in> {w1, snd (cancel_run (wr_id run) w1)}"
  shows "\<exists>wk r n. map_of (cw_workflows w) i = Some wk
    \<and> may_define (sv_central S) ctx (wf_org wk) (wf_repo wk) ''running a workflow'' = None
    \<and> map_of (cw_runs w1) (wr_id run) = Some r \<and> run = proto_run r \<and> run_state r = StatePending
    \<and> (let st = snd (run_scheduler (task_env S (cw_reg w)) wk r (cw_ext w1));
           w3 = (tick S (length (cw_tasks w)) ^^ n) w2 in
        map_of (cw_runs w3) (wr_id run) = Some (sc_run st) \<and> cw_ext w3 = sc_world st
        \<and> tk_phase (cw_tasks w3 ! length (cw_tasks w)) = Over
        \<and> list_all (\<lambda>x. jl_closed (hub_get (wi_id x) (cw_hub w3))) (wr_jobs run))"
proof -
  obtain wk where wk: "map_of (cw_workflows w) i = Some wk"
    "may_define (sv_central S) ctx (wf_org wk) (wf_repo wk) ''running a workflow'' = None"
    and go: "after (run_async S wk) (\<lambda>run. give (proto_run (snapshot run))) w = (Done run, w1)"
    using assms(1) by (auto simp: trigger_run_def find_workflow_def done_cases split: option.splits)
  obtain r where r: "run_async S wk w = (Done r, w1)" "run = proto_run r" using go by (auto simp: done_cases)
  let ?t = "\<lparr> tk_wf = wk, tk_run = run_id r, tk_done = [], tk_phase = Queued \<rparr>"
  obtain fresh now where n: "r = new_run fresh now wk" and w1: "cw_tasks w1 = cw_tasks w @ [?t]"
    "map_of (cw_runs w1) (run_id r) = Some r" "cw_reg w1 = cw_reg w" "cw_hub w1 = cw_hub w"
    using r(1) by (auto simp: run_async_def Let_def case_prod_unfold update_conv')
  have id: "wr_id run = run_id r" "run_state r = StatePending" by (simp_all add: r(2) proto_run_def n new_run_def)
  have wi: "wi_id ` set (wr_jobs run) = ji_job_id ` set (run_jobs r)"
    by (simp add: r(2) proto_run_def image_image)
  obtain s where w2: "cw_tasks w2 = cw_tasks w @ [?t]" "map_of (cw_runs w2) (run_id r) = Some (set_state s r)"
    "cw_reg w2 = cw_reg w" "cw_hub w2 = cw_hub w" "cw_ext w2 = cw_ext w1"
  proof -
    have "w2 = w1 \<or> w2 = on_run (run_id r) (set_state StateCancelled) w1"
      using assms(4) w1(2) by (auto simp: cancel_run_def peek_def alter_def give_def id)
    moreover have "set_state StatePending r = r" using id(2) by (cases r) (simp add: set_state_def)
    ultimately show thesis using that[of StatePending] that[of StateCancelled] w1 map_of_on_run[OF w1(2)] by auto
  qed
  have writable: "writable (ji_job_id ` set (run_jobs (set_state s r))) (cw_hub w2)"
  proof -
    have "\<forall>d \<in> wi_id ` set (wr_jobs run). \<not> jl_locked (hub_get d (cw_hub w))"
      using assms(3) by (simp add: list_all_iff)
    then show ?thesis using assms(2) w2(4) unfolding wi writable_def by (simp add: set_state_def)
  qed
  have "map ji_def_id (run_jobs (set_state s r)) = job_ids wk" by (simp add: set_state_def n new_run_defs)
  then obtain t' w' where ends: "reaches S (?t, w2) (t', w')" "tk_phase t' = Over"
    "let st = snd (run_scheduler (task_env S (cw_reg w2)) wk (set_state s r) (cw_ext w2)) in
        map_of (cw_runs w') (run_id r) = Some (sc_run st) \<and> cw_ext w' = sc_world st"
    "\<forall>x\<in>set (run_jobs (set_state s r)). jl_closed (hub_get (ji_job_id x) (cw_hub w'))"
    using task_completes[of ?t w2 "set_state s r" S] w2(2) writable by auto
  obtain n where n: "(one_step S ^^ n) (?t, w2) = (t', w')" using ends(1) unfolding reaches_def by blast
  have "(tick S (length (cw_tasks w)) ^^ n) w2 = w'\<lparr> cw_tasks := (cw_tasks w2)[length (cw_tasks w) := t'] \<rparr>"
    using ticks[where S = S and n = n, of "length (cw_tasks w)" w2 ?t] w2(1) n by simp

  moreover have "\<forall>d \<in> wi_id ` set (wr_jobs run). jl_closed (hub_get d (cw_hub w'))"
    using ends(4) unfolding wi by (simp add: set_state_def)
  ultimately show ?thesis using wk w1(2) id r(2) ends(2,3) w2
    by (intro exI[of _ wk] exI[of _ r] exI[of _ n]) (simp add: list_all_iff Let_def run_scheduler_restart)
qed

end
