(* ===== verification/CI_Service_Demo.thy ===== *)
theory CI_Service_Demo
imports CI_Service_Correct Sandboxes_Demo
begin

text \<open>
  A workflow service over the small gateway of \<^verbatim>\<open>Sandboxes_Demo\<close> whose engine runs every job at once,
  with one workflow of one job, and the witnesses of the service's theorems.
\<close>

definition easy_service :: "(nat, demo_lab, nat, demo_pods) ci_service" where
  "easy_service = \<lparr> sv_gw = box_gateway,
     sv_back = (\<lambda>j rn k. (\<lparr> br_out = ''ok'', br_err = None, br_lines = [''hello''] \<rparr>, k)),
     sv_yaml = (\<lambda>text. Inl text), sv_short = (\<lambda>k. (''s'', k)), sv_long = (\<lambda>k. (''a'', k)) \<rparr>"

definition easy_flow :: workflow where
  "easy_flow = blank_workflow\<lparr> wf_id := ''w1'', wf_jobs := [demo_job ''build'' []] \<rparr>"

definition easy_world :: "demo_pods ci_world" where
  "easy_world = (new_ci_world (0, []))\<lparr> cw_workflows := [(''w1'', easy_flow)] \<rparr>"

lemma easy_world_sel:
  "cw_workflows easy_world = [(''w1'', easy_flow)]" "cw_runs easy_world = []" "cw_hub easy_world = new_hub"
  "cw_ext easy_world = (0, [])" "cw_tasks easy_world = []"
  by (simp_all add: easy_world_def new_ci_world_def)

definition hijack :: wire_workflow where
  "hijack = (proto_workflow blank_workflow)\<lparr> ww_id := ''w1'', ww_name := ''mine'' \<rparr>"

lemma definition_displaces_witness:
  "\<exists>w'. create_workflow easy_service (box_user 2) (Some hijack) easy_world = (Done hijack, w')
     \<and> map_option wf_name (map_of (cw_workflows easy_world) ''w1'') = Some ''''
     \<and> map_option wf_name (map_of (cw_workflows w') ''w1'') = Some ''mine''"
proof -
  let ?wk = "from_proto_workflow (Some hijack)"
  have f: "wf_id ?wk = ''w1''" "wf_name ?wk = ''mine''" "wf_org ?wk = ''''" "wf_repo ?wk = ''''" "proto_workflow ?wk = hijack"
    by (simp_all add: from_proto_workflow_def hijack_def proto_workflow_def blank_workflow_def)
  have "may_define (sv_central easy_service) (box_user 2) (wf_org ?wk) (wf_repo ?wk) ''defining a workflow'' = None"
    by (simp add: f may_define_def require_authenticated_def box_user_def nobody_def principal_of_def)
  from definition_displaces[OF refl _ this, of easy_world] f
  obtain w' where "create_workflow easy_service (box_user 2) (Some hijack) easy_world = (Done hijack, w')"
    "map_of (cw_workflows w') = (map_of (cw_workflows easy_world))(''w1'' \<mapsto> ?wk)" by auto
  then show ?thesis using f by (simp add: easy_world_sel easy_flow_def blank_workflow_def)
qed

lemma triggered_run_completes_witness:
  "\<exists>run w1 n. trigger_run easy_service (box_user 2) ''w1'' easy_world = (Done run, w1)
     \<and> wr_status run = ''pending''
     \<and> tk_phase (cw_tasks ((tick easy_service 0 ^^ n) (snd (cancel_run (wr_id run) w1))) ! 0) = Over"
proof -
  have "\<exists>run w1. trigger_run easy_service (box_user 2) ''w1'' easy_world = (Done run, w1)"
    by (simp add: trigger_run_def find_workflow_def act_defs easy_world_sel easy_flow_def blank_workflow_def may_define_def
        require_authenticated_def box_user_def nobody_def principal_of_def run_async_def Let_def case_prod_unfold)
  then obtain run w1 where r: "trigger_run easy_service (box_user 2) ''w1'' easy_world = (Done run, w1)" by blast
  have "hub_ok (cw_hub easy_world)" using hub_reach_ok[OF reach_new] by (simp add: easy_world_sel)
  moreover have "list_all (\<lambda>x. \<not> jl_locked (hub_get (wi_id x) (cw_hub easy_world))) (wr_jobs run)"
    by (simp add: easy_world_sel hub_get_def new_hub_def empty_log_def list_all_iff)
  ultimately obtain wk q n where "run = proto_run q" "run_state q = StatePending"
    "let st = snd (run_scheduler (task_env easy_service (cw_reg easy_world)) wk q (cw_ext w1));
         w3 = (tick easy_service (length (cw_tasks easy_world)) ^^ n) (snd (cancel_run (wr_id run) w1)) in
      map_of (cw_runs w3) (wr_id run) = Some (sc_run st) \<and> cw_ext w3 = sc_world st
      \<and> tk_phase (cw_tasks w3 ! length (cw_tasks easy_world)) = Over
      \<and> list_all (\<lambda>x. jl_closed (hub_get (wi_id x) (cw_hub w3))) (wr_jobs run)"
    using triggered_run_completes[OF r, of "snd (cancel_run (wr_id run) w1)"] by auto
  then show ?thesis using r
    by (intro exI[of _ run] exI[of _ w1] exI[of _ n]) (simp add: Let_def proto_run_def easy_world_sel)
qed

end
