(* ===== verification/Text_Edit.thy ===== *)
theory Text_Edit
imports Rpc
begin

text \<open>
  The texts the agent's tools read and edit: the line editors of the repository tools
  (\<^verbatim>\<open>applyLineEdit\<close>, \<^verbatim>\<open>internal/ext/repo/tools.go\<close>) and of the sandbox tools (\<^verbatim>\<open>sandboxEdit\<close>,
  \<^verbatim>\<open>internal/ext/ops/helpers_domain.go\<close>), the pages of the read tool, the patch an edit returns, and
  the filters of patches and search results.

  Go panics when a slice runs past its bounds; such a branch is the value \<^verbatim>\<open>EditPanic\<close>.  Line
  numbers are 64-bit integers: the sums the code computes are taken modulo two to the 64th where
  no guard bounds them.
\<close>

section \<open>Lines\<close>

definition nl :: char where
  "nl = CHR 0x0A"

definition text_lines :: "string \<Rightarrow> string list" where
  "text_lines current =
    (let body = trim_suffix newline current in if body = '''' then [] else split_on nl body)"

definition added_lines :: "string \<Rightarrow> string list" where
  "added_lines content = (if content = '''' then [] else split_on nl content)"

definition count_lines :: "string \<Rightarrow> nat" where
  "count_lines s = (if s = '''' then 0 else length (split_on nl s))"

definition short_id :: "string \<Rightarrow> string" where
  "short_id s = (if length s > 8 then take 8 s else s)"

section \<open>The line editors\<close>

datatype edit_result = Edited string | EditError string | EditPanic

definition slice_from :: "nat \<Rightarrow> 'a list \<Rightarrow> 'a list option" where
  "slice_from n xs = (if n \<le> length xs then Some (drop n xs) else None)"

definition rejoin :: "bool \<Rightarrow> string list \<Rightarrow> string" where
  "rejoin ends ls = join_with newline ls @ (if ends then newline else '''')"

definition out_of_range :: "string \<Rightarrow> int \<Rightarrow> nat \<Rightarrow> string" where
  "out_of_range what n tot =
    what @ ''='' @ dec_int n @ '' out of range (file has '' @ dec_nat tot @ '' lines)''"

definition apply_line_edit :: "string \<Rightarrow> int \<Rightarrow> int \<Rightarrow> string \<Rightarrow> edit_result" where
  "apply_line_edit current start_line end_line content =
    (let ends = has_suffix newline current;
         lines = text_lines current;
         total = length lines in
     if start_line \<le> 0 then EditError ''start_line must be >= 1''
     else if start_line > int total + 1 then EditError (out_of_range ''start_line'' start_line total)
     else if end_line < start_line then
       (let at = min (nat (start_line - 1)) total in
        Edited (rejoin ends (take at lines @ added_lines content @ drop at lines)))
     else if end_line > int total + 1 then EditError (out_of_range ''end_line'' end_line total)
     else (case slice_from (nat end_line) lines of
             None \<Rightarrow> EditPanic
           | Some rest \<Rightarrow>
               Edited (rejoin ends (take (nat (start_line - 1)) lines @ added_lines content @ rest))))"

definition sandbox_edit_text :: "string \<Rightarrow> int \<Rightarrow> int \<Rightarrow> string \<Rightarrow> edit_result" where
  "sandbox_edit_text current start_line end_line content =
    (let lines = split_on nl current;
         total = int (length lines);
         s = min (int64_of (start_line - 1)) total;
         e = (if end_line < start_line then s else min end_line total) in
     if s < 0 \<or> e < 0 then EditPanic
     else Edited (join_with newline (take (nat s) lines @ added_lines content @ drop (nat e) lines)))"

section \<open>The pages of the read tool\<close>

datatype read_result =
    PastEnd int int
  | Page int int bool int

definition read_lines :: "string \<Rightarrow> string list" where
  "read_lines text = (let ls = split_on nl text in if last ls = '''' then butlast ls else ls)"

definition read_page :: "string \<Rightarrow> int \<Rightarrow> int \<Rightarrow> read_result" where
  "read_page text offset limit =
    (let first = (if offset < 1 then 1 else offset);
         total = int (length (read_lines text));
         start = first - 1 in
     if start > total then PastEnd total first
     else let want = int64_of (start + limit);
              truncated = (limit > 0 \<and> want < total);
              stop = (if truncated then want else total)
          in Page start stop truncated total)"

definition numbered :: "string list \<Rightarrow> int \<Rightarrow> int \<Rightarrow> string" where
  "numbered ls start stop =
    concat (map (\<lambda>i. dec_int (i + 1) @ '': '' @ ls ! nat i @ newline) [start..stop - 1])"

definition read_text :: "string list \<Rightarrow> int \<Rightarrow> int \<Rightarrow> bool \<Rightarrow> int \<Rightarrow> string" where
  "read_text ls start stop truncated tot =
    numbered ls start stop
      @ (if truncated
         then newline @ ''(file not fully read: showing lines '' @ dec_int (start + 1) @ ''-'' @ dec_int stop
           @ '' of '' @ dec_int tot @ ''; continue with offset='' @ dec_int (stop + 1) @ '')'' @ newline
         else '''')"

section \<open>Patches\<close>

fun common_prefix :: "'a list \<Rightarrow> 'a list \<Rightarrow> nat" where
  "common_prefix (x # xs) (y # ys) = (if x = y then Suc (common_prefix xs ys) else 0)"
| "common_prefix xs ys = 0"

definition diff_side :: "string \<Rightarrow> string list" where
  "diff_side text =
    (let ls = split_on nl (trim_suffix newline text) in if ls = [''''] then [] else ls)"

definition diff_hunk :: "'a list \<Rightarrow> 'a list \<Rightarrow> nat \<times> 'a list \<times> 'a list" where
  "diff_hunk old_lines new_lines =
    (let i = common_prefix old_lines new_lines;
         j = common_prefix (rev (drop i old_lines)) (rev (drop i new_lines))
     in (i, drop i (take (length old_lines - j) old_lines), drop i (take (length new_lines - j) new_lines)))"

definition diff_lines :: "string \<Rightarrow> string \<Rightarrow> string" where
  "diff_lines old_text new_text =
    (if old_text = new_text then ''''
     else case diff_hunk (diff_side old_text) (diff_side new_text) of
       (i, del, add) \<Rightarrow>
         ''--- a/file'' @ newline @ ''+++ b/file'' @ newline
         @ ''@@ -'' @ dec_nat i @ '','' @ dec_nat (length del) @ '' +'' @ dec_nat i @ '',''
         @ dec_nat (length add) @ '' @@'' @ newline
         @ concat (map (\<lambda>l. ''-'' @ l @ newline) del) @ concat (map (\<lambda>l. ''+'' @ l @ newline) add))"

fun split_sub :: "string \<Rightarrow> string \<Rightarrow> string list" where
  "split_sub sep [] = [[]]"
| "split_sub sep (x # xs) =
     (if sep \<noteq> [] \<and> has_prefix sep (x # xs) then [] # split_sub sep (drop (length sep - 1) xs)
      else case split_sub sep xs of [] \<Rightarrow> [[x]] | y # ys \<Rightarrow> (x # y) # ys)"

definition diff_header :: "string \<Rightarrow> string" where
  "diff_header path = ''a/'' @ path @ '' b/'' @ path"

definition diff_for_path :: "string \<Rightarrow> string \<Rightarrow> string" where
  "diff_for_path diff path =
    join_with newline (map (\<lambda>b. ''diff --git '' @ b)
      (filter (\<lambda>b. case cut_at nl b of None \<Rightarrow> False | Some (h, r) \<Rightarrow> h = diff_header path)
        (split_sub (newline @ ''diff --git '') diff)))"

definition split_match :: "string \<Rightarrow> string \<times> string \<times> string" where
  "split_match m =
    (case cut_at CHR '':'' m of
       None \<Rightarrow> (m, '''', '''')
     | Some (path, rest) \<Rightarrow>
         (case cut_at CHR '':'' rest of
            None \<Rightarrow> (path, '''', rest)
          | Some (line, text) \<Rightarrow> (path, line, text)))"

section \<open>Splitting and joining\<close>

lemma newline_nl: "newline = [nl]"
  by (simp add: newline_def nl_def)

lemma join_Nil_iff: "join_with sep xs = [] \<longleftrightarrow> xs = [] \<or> xs = [[]] \<or> (sep = [] \<and> list_all (\<lambda>x. x = []) xs)"
  by (induction sep xs rule: join_with.induct) auto

lemma split_joined:
  assumes "\<And>x. x \<in> set xs \<Longrightarrow> c \<notin> set x" and "xs \<noteq> []"
  shows "split_on c (join_with [c] xs) = xs"
  using assms
proof (induction "[c]" xs rule: join_with.induct)
  case (2 x)
  then show ?case by (simp add: split_on_no_sep)
next
  case (3 x y ys)
  then show ?case by (simp add: split_on_append)
qed simp

lemma split_on_snoc: "split_on c (s @ [c]) = split_on c s @ [[]]"
  by (induction s) (auto split: list.splits)

lemma join_snoc_Nil: "xs \<noteq> [] \<Longrightarrow> join_with sep (xs @ [[]]) = join_with sep xs @ sep"
  by (induction sep xs rule: join_with.induct) auto

lemma has_suffix_nl: "has_suffix newline s \<longleftrightarrow> s \<noteq> [] \<and> last s = nl"
  by (cases s rule: rev_cases) (auto simp: has_suffix_def newline_nl)

lemma trim_nl_id: "\<not> has_suffix newline s \<Longrightarrow> trim_suffix newline s = s"
  by (simp add: trim_suffix_def)

lemma has_suffix_nlE:
  assumes "has_suffix newline s"
  obtains b where "s = b @ [nl]" "trim_suffix newline s = b"
  using assms by (metis has_suffixE newline_nl trim_suffix_append)

lemma text_lines_clean: "x \<in> set (text_lines s) \<Longrightarrow> nl \<notin> set x"
  by (auto simp: text_lines_def Let_def dest: split_on_parts split: if_splits)

lemma added_lines_clean: "x \<in> set (added_lines s) \<Longrightarrow> nl \<notin> set x"
  by (auto simp: added_lines_def dest: split_on_parts split: if_splits)

lemma last_join: "xs \<noteq> [] \<Longrightarrow> last xs \<noteq> [] \<Longrightarrow> last (join_with sep xs) = last (last xs)"
proof (induction sep xs rule: join_with.induct)
  case (3 sep x y ys)
  have "join_with sep (y # ys) \<noteq> []"
    using 3 by (auto simp: join_Nil_iff list_all_iff split: if_splits)
  then show ?case using 3 by simp
qed auto

lemma text_lines_rejoin:
  assumes clean: "\<And>x. x \<in> set ls \<Longrightarrow> nl \<notin> set x"
    and shape: "ls \<noteq> ['''']" "ends \<or> ls = [] \<or> last ls \<noteq> ''''"
  shows "text_lines (rejoin ends ls) = ls"
proof (cases ends)
  case True
  then show ?thesis
    using shape(1) split_joined[of ls nl] clean
    by (auto simp: text_lines_def rejoin_def newline_nl[symmetric] Let_def join_Nil_iff)
      (simp_all add: newline_nl join_Nil_iff)
next
  case False
  have "\<not> has_suffix newline (join_with newline ls)"
  proof (cases "ls = []")
    case False2: False
    then have "last (join_with newline ls) = last (last ls)"
      using shape(2) False by (simp add: last_join)
    moreover have "nl \<notin> set (last ls)" using clean False2 by simp
    ultimately show ?thesis
      using shape(2) False False2 by (metis has_suffix_nl last_in_set)
  qed (simp add: has_suffix_nl)
  then have trim: "trim_suffix newline (join_with newline ls) = join_with newline ls"
    by (rule trim_nl_id)
  show ?thesis
    using False shape(1) split_joined[of ls nl] clean trim
    by (auto simp: text_lines_def rejoin_def Let_def join_Nil_iff newline_nl)
qed

section \<open>The line editor of the repository\<close>

definition spliced :: "string list \<Rightarrow> int \<Rightarrow> int \<Rightarrow> string \<Rightarrow> string list" where
  "spliced ls start_line end_line content =
    take (nat (start_line - 1)) ls @ added_lines content @ drop (nat (max (start_line - 1) end_line)) ls"

lemma apply_line_edit_cases:
  "apply_line_edit current s e content =
    (let ls = text_lines current; n = int (length ls) in
     if s < 1 then EditError ''start_line must be >= 1''
     else if s > n + 1 then EditError (out_of_range ''start_line'' s (length ls))
     else if e > n + 1 then EditError (out_of_range ''end_line'' e (length ls))
     else if e = n + 1 then EditPanic
     else Edited (rejoin (has_suffix newline current) (spliced ls s e content)))"
proof (cases "e < s")
  case True
  then have "max (s - 1) e = s - 1" by simp
  then show ?thesis
    using True by (auto simp: apply_line_edit_def spliced_def Let_def min_def)
next
  case False
  then have "max (s - 1) e = e" by simp
  then show ?thesis
    using False by (auto simp: apply_line_edit_def spliced_def slice_from_def Let_def)
qed

lemma spliced_clean: "x \<in> set (spliced (text_lines current) s e content) \<Longrightarrow> nl \<notin> set x"
  by (auto simp: spliced_def dest: in_set_takeD in_set_dropD text_lines_clean added_lines_clean)

text \<open>
  C29: The line editor of the repository tools (applyLineEdit).  It panics exactly when the
  start line is in the range 1 to one past the file's lines and the end line is one past them; it
  refuses exactly when the start line is below 1 or either line is further out; otherwise it
  answers a text, and the lines of that text are the file's lines before the start line, the lines
  of the content, and the file's lines after the end line (with an end line before the start
  line nothing is removed) - unless that would leave one empty line, or an empty last line in a
  file without a final newline, which no file text can hold.
\<close>

theorem line_edit_spec:
  assumes "n = int (length (text_lines current))"
  shows "(apply_line_edit current s e content = EditPanic \<longleftrightarrow> 1 \<le> s \<and> s \<le> n + 1 \<and> e = n + 1)
    \<and> ((\<exists>m. apply_line_edit current s e content = EditError m) \<longleftrightarrow> s < 1 \<or> s > n + 1 \<or> e > n + 1)
    \<and> (\<forall>t. apply_line_edit current s e content = Edited t \<longrightarrow>
          (let ls = spliced (text_lines current) s e content in
           (ls \<noteq> [''''] \<and> (has_suffix newline current \<or> ls = [] \<or> last ls \<noteq> '''') \<longrightarrow> text_lines t = ls)))"
proof (intro conjI)
  show "apply_line_edit current s e content = EditPanic \<longleftrightarrow> 1 \<le> s \<and> s \<le> n + 1 \<and> e = n + 1"
    unfolding apply_line_edit_cases assms Let_def by auto
  show "(\<exists>m. apply_line_edit current s e content = EditError m) \<longleftrightarrow> s < 1 \<or> s > n + 1 \<or> e > n + 1"
    unfolding apply_line_edit_cases assms Let_def by auto
  show "\<forall>t. apply_line_edit current s e content = Edited t \<longrightarrow>
          (let ls = spliced (text_lines current) s e content in
           (ls \<noteq> [''''] \<and> (has_suffix newline current \<or> ls = [] \<or> last ls \<noteq> '''') \<longrightarrow> text_lines t = ls))"
  proof (intro allI impI)
    fix t assume "apply_line_edit current s e content = Edited t"
    then have "t = rejoin (has_suffix newline current) (spliced (text_lines current) s e content)"
      unfolding apply_line_edit_cases Let_def by (auto split: if_splits)
    then show "let ls = spliced (text_lines current) s e content in
           (ls \<noteq> [''''] \<and> (has_suffix newline current \<or> ls = [] \<or> last ls \<noteq> '''') \<longrightarrow> text_lines t = ls)"
      using text_lines_rejoin[of "spliced (text_lines current) s e content" "has_suffix newline current"]
        spliced_clean[of _ current s e content] by (auto simp: Let_def)
  qed
qed

lemma line_edit_spec_witness:
  "apply_line_edit ''ab'' 1 2 ''x'' = EditPanic
    \<and> (\<exists>t. apply_line_edit ''ab'' 1 1 ''x'' = Edited t \<and> text_lines t = [''x''])"
proof -
  have n: "(1::int) = int (length (text_lines ''ab''))" by code_simp
  have "apply_line_edit ''ab'' 1 1 ''x'' = Edited ''x''" by code_simp
  moreover have "spliced (text_lines ''ab'') 1 1 ''x'' = [''x'']" by code_simp
  ultimately show ?thesis
    using line_edit_spec[OF n, of 1 2 "''x''"] line_edit_spec[OF n, of 1 1 "''x''"] by auto
qed

section \<open>The two editors agree\<close>

lemma split_text_lines:
  "text_lines current \<noteq> [] \<Longrightarrow>
    split_on nl current = text_lines current @ (if has_suffix newline current then [[]] else [])"
  by (cases "has_suffix newline current")
    (auto elim!: has_suffix_nlE simp: text_lines_def Let_def split_on_snoc trim_nl_id split: if_splits)

text \<open>
  C30: The editor of sandbox files and the editor of repository files agree: on a file with lines, for
  a start line from 1 to one past the last line and an end line within the file, and unless the edit
  removes every line, they answer the same text.  Outside that range they differ: the sandbox
  editor panics for every start line below 1 except the smallest 64-bit integers, in particular
  for the values 0 and 0 its tool reads when the call names no lines, where the repository
  editor answers an error.
\<close>

theorem line_editors_agree:
  assumes "text_lines current \<noteq> []" "spliced (text_lines current) s e content \<noteq> []"
    and "1 \<le> s" "s \<le> int (length (text_lines current)) + 1" "e \<le> int (length (text_lines current))"
    and "s < 2 ^ 63"
    and "- (2 ^ 63) < s'" "s' < 1"
  shows "sandbox_edit_text current s e content = apply_line_edit current s e content
    \<and> sandbox_edit_text current s' e content = EditPanic
    \<and> apply_line_edit current s' e content = EditError ''start_line must be >= 1''"
proof (intro conjI)
  let ?ls = "text_lines current"
  let ?R = "spliced ?ls s e content"
  let ?tl = "if has_suffix newline current then [[]] else [] :: string list"
  have split: "split_on nl current = ?ls @ ?tl" using assms(1) by (rule split_text_lines)
  have small: "int64_of (s - 1) = s - 1" using assms(3,6) by (intro int64_of_small) auto

  have cut: "take (nat (s - 1)) (?ls @ ?tl) = take (nat (s - 1)) ?ls"
    "drop (nat (max (s - 1) e)) (?ls @ ?tl) = drop (nat (max (s - 1) e)) ?ls @ ?tl"
    using assms(3,4,5) by (auto simp: max_def)
  have "sandbox_edit_text current s e content
      = Edited (join_with newline (take (nat (s - 1)) (?ls @ ?tl) @ added_lines content
          @ drop (nat (max (s - 1) e)) (?ls @ ?tl)))"
    using assms(3,4,5) unfolding sandbox_edit_text_def split small Let_def
    by (cases "e < s") (simp_all add: min_def)
  also have "\<dots> = Edited (join_with newline (?R @ ?tl))"
    unfolding cut spliced_def by simp
  also have "join_with newline (?R @ ?tl) = rejoin (has_suffix newline current) ?R"
    using assms(2) by (simp add: rejoin_def join_snoc_Nil)
  also have "Edited (rejoin (has_suffix newline current) ?R) = apply_line_edit current s e content"
    using assms(3,4,5) unfolding apply_line_edit_cases Let_def by simp
  finally show "sandbox_edit_text current s e content = apply_line_edit current s e content" .
  have "int64_of (s' - 1) = s' - 1" using assms(7,8) by (intro int64_of_small) auto
  then show "sandbox_edit_text current s' e content = EditPanic"
    using assms(8) by (simp add: sandbox_edit_text_def Let_def)
  show "apply_line_edit current s' e content = EditError ''start_line must be >= 1''"
    using assms(8) by (simp add: apply_line_edit_cases)
qed

lemma line_editors_agree_witness:
  "sandbox_edit_text ''ab'' 1 1 ''x'' = apply_line_edit ''ab'' 1 1 ''x''
    \<and> sandbox_edit_text ''ab'' 0 1 ''x'' = EditPanic"
proof -
  have "text_lines ''ab'' \<noteq> []" "spliced (text_lines ''ab'') 1 1 ''x'' \<noteq> []"
    "(1::int) \<le> int (length (text_lines ''ab''))" by code_simp+
  then show ?thesis using line_editors_agree[of "''ab''" 1 1 "''x''" 0] by simp
qed

lemma sandbox_edit_default_panics: "sandbox_edit_text current 0 0 content = EditPanic"
  by (simp add: sandbox_edit_text_def int64_of_def Let_def)

section \<open>Reading page by page\<close>

text \<open>
  A reader that starts at a line and follows the offset each answer names; it collects the lines it is
  shown.  It has at most \<^verbatim>\<open>fuel\<close> calls: if they are used up before an answer says that the file is
  at its end, the result is None.
\<close>

definition shown :: "string \<Rightarrow> int \<Rightarrow> int \<Rightarrow> string list" where
  "shown text start stop = map (\<lambda>i. read_lines text ! nat i) [start..stop - 1]"

fun read_walk :: "nat \<Rightarrow> string \<Rightarrow> int \<Rightarrow> int \<Rightarrow> string list option" where
  "read_walk 0 text offset limit = None"
| "read_walk (Suc fuel) text offset limit =
     (case read_page text offset limit of
        PastEnd tot offset' \<Rightarrow> Some []
      | Page start stop truncated tot \<Rightarrow>
          if truncated then map_option (append (shown text start stop)) (read_walk fuel text (stop + 1) limit)
          else Some (shown text start stop))"

lemma shown_slice:
  assumes "a \<le> b" "b \<le> length (read_lines text)"
  shows "shown text (int a) (int b) = take (b - a) (drop a (read_lines text))"
proof (rule nth_equalityI)
  show "length (shown text (int a) (int b)) = length (take (b - a) (drop a (read_lines text)))"
    using assms by (simp add: shown_def)
  fix i assume "i < length (shown text (int a) (int b))"
  then have "i < b - a" by (simp add: shown_def)
  then show "shown text (int a) (int b) ! i = take (b - a) (drop a (read_lines text)) ! i"
    using assms nth_upto[of "int a" i "int b - 1"] by (simp add: shown_def nat_int_add)
qed

lemma read_page_cases:
  assumes "int k + limit < 2 ^ 63" "- (2 ^ 63) \<le> limit" "k \<le> length (read_lines text)"
  shows "read_page text (int k + 1) limit =
    (let n = int (length (read_lines text)) in
     if 0 < limit \<and> int k + limit < n then Page (int k) (int k + limit) True n else Page (int k) n False n)"
proof -
  have "int64_of (int k + limit) = int k + limit"
    using assms by (intro int64_of_small) auto
  then show ?thesis using assms by (simp add: read_page_def Let_def)
qed

lemma read_walk_rest:
  assumes "- (2 ^ 63) \<le> limit" "int (length (read_lines text)) < 2 ^ 62"
  shows "int k + limit < 2 ^ 63 \<Longrightarrow> k \<le> length (read_lines text) \<Longrightarrow> length (read_lines text) - k < fuel
    \<Longrightarrow> read_walk fuel text (int k + 1) limit = Some (drop k (read_lines text))"
proof (induction fuel arbitrary: k)
  case (Suc fuel)
  let ?n = "length (read_lines text)"
  note page = read_page_cases[OF Suc.prems(1) assms(1) Suc.prems(2)]
  show ?case
  proof (cases "0 < limit \<and> int k + limit < int ?n")
    case True
    let ?m = "k + nat limit"
    have m: "int k + limit = int ?m" "k < ?m" "?m \<le> ?n" using True by auto
    have "(2::int) ^ 63 = 2 ^ 62 + 2 ^ 62" by simp
    then have sum: "int ?m + limit < 2 ^ 63" using True m(1) assms(2) by linarith
    have "?n - ?m < fuel" using Suc.prems(3) m(2,3) by arith
    then have "read_walk fuel text (int ?m + 1) limit = Some (drop ?m (read_lines text))"
      by (rule Suc.IH[OF sum m(3)])
    moreover have "shown text (int k) (int ?m) = take (?m - k) (drop k (read_lines text))"
      using m by (intro shown_slice) auto
    moreover have "take (?m - k) (drop k (read_lines text)) @ drop ?m (read_lines text)
        = drop k (read_lines text)"
      using append_take_drop_id[of "?m - k" "drop k (read_lines text)"] m(2)
      by (simp add: add.commute)
    moreover have "read_page text (int k + 1) limit = Page (int k) (int ?m) True (int ?n)"
      unfolding page Let_def m(1)[symmetric] using True by (rule if_P)
    ultimately show ?thesis by (simp only: read_walk.simps read_result.case if_True option.map)
  next
    case False
    then have "read_page text (int k + 1) limit = Page (int k) (int ?n) False (int ?n)"
      unfolding page Let_def by (rule if_not_P)
    then show ?thesis
      using shown_slice[of k ?n "text"] Suc.prems(2) by simp
  qed
qed simp

text \<open>
  C31: Reading a file in pages ends and shows it once.  A reader who starts at the first line and follows the
  offsets of the answers, with any limit - none, negative or as large as 64 bits hold -, is told the
  end after at most one call per line and one more, and has seen every line once and in order.  A reader who
  starts at a later line sees the rest of the file, unless the sum of the line and the limit overflows
  64 bits: then the first answer shows nothing and names a line before the first, and the reader gets
  the whole file instead of the rest.  (Files have fewer than 2 to the power of 62 lines.)
\<close>

theorem read_pages_cover:
  assumes "- (2 ^ 63) \<le> limit" "limit < 2 ^ 63"
    and "length (read_lines text) < fuel" "int (length (read_lines text)) < 2 ^ 62"
    and "k \<le> length (read_lines text)"
  shows "read_walk fuel text 1 limit = Some (read_lines text)
    \<and> read_walk (Suc fuel) text (int k + 1) limit
        = Some (if int k + limit < 2 ^ 63 then drop k (read_lines text) else read_lines text)"
proof (intro conjI)
  let ?n = "length (read_lines text)"
  show whole: "read_walk fuel text 1 limit = Some (read_lines text)"
    using read_walk_rest[OF assms(1,4), of 0 fuel] assms(2,3) by simp
  show "read_walk (Suc fuel) text (int k + 1) limit
        = Some (if int k + limit < 2 ^ 63 then drop k (read_lines text) else read_lines text)"
  proof (cases "int k + limit < 2 ^ 63")
    case True
    then show ?thesis using read_walk_rest[OF assms(1,4) True assms(5), of "Suc fuel"] assms(3) by simp
  next
    case False
    have k: "int k < 2 ^ 62" using assms(4,5) by linarith
    have "(int k + limit + 2 ^ 63) mod 2 ^ 64 = ((int k + limit - 2 ^ 63) + 2 ^ 64) mod 2 ^ 64"
      by (simp add: algebra_simps)
    also have "\<dots> = int k + limit - 2 ^ 63"
      unfolding mod_add_self2 using False k assms(2) by (intro mod_pos_pos_trivial) auto
    finally have w: "int64_of (int k + limit) = int k + limit - 2 ^ 64" by (simp add: int64_of_def)
    have "read_page text (int k + 1) limit = Page (int k) (int k + limit - 2 ^ 64) True (int ?n)"
      using w False k assms(2,5) by (simp add: read_page_def Let_def)
    moreover have "shown text (int k) (int k + limit - 2 ^ 64) = []"
      using assms(2) by (simp add: shown_def)
    moreover have "read_page text (int k + limit - 2 ^ 64 + 1) limit = read_page text 1 limit"
      using k assms(2) by (simp add: read_page_def)
    then have "read_walk fuel text (int k + limit - 2 ^ 64 + 1) limit = read_walk fuel text 1 limit"
      using assms(3) by (cases fuel) simp_all
    ultimately show ?thesis using whole False by simp
  qed
qed

lemma read_pages_cover_witness:
  "read_walk 4 [CHR ''a'', CHR 0x0A, CHR ''b'', CHR 0x0A, CHR ''c''] 1 1 = Some [''a'', ''b'', ''c'']
   \<and> read_walk 5 [CHR ''a'', CHR 0x0A, CHR ''b'', CHR 0x0A, CHR ''c''] 2 (2 ^ 63 - 1) = Some [''a'', ''b'', ''c'']"
proof -
  have ls: "read_lines [CHR ''a'', CHR 0x0A, CHR ''b'', CHR 0x0A, CHR ''c''] = [''a'', ''b'', ''c'']"
    by code_simp
  show ?thesis
    using read_pages_cover[of 1 "[CHR ''a'', CHR 0x0A, CHR ''b'', CHR 0x0A, CHR ''c'']" 4 0]
      read_pages_cover[of "2 ^ 63 - 1" "[CHR ''a'', CHR 0x0A, CHR ''b'', CHR 0x0A, CHR ''c'']" 4 1]
    by (simp add: ls)
qed

text \<open>
  The reader and the editor count the same lines, except in a file that is one newline: the
  reader sees one empty line, the editor none.
\<close>

lemma read_lines_text_lines:
  "read_lines text = (if text = newline then [''''] else text_lines text)"
proof (cases "has_suffix newline text")
  case True
  then obtain b where b: "text = b @ [nl]" "trim_suffix newline text = b" by (rule has_suffix_nlE)
  then show ?thesis by (auto simp: read_lines_def text_lines_def split_on_snoc newline_nl Let_def)
next
  case False
  have "last (split_on nl text) = '''' \<longleftrightarrow> text = ''''"
  proof
    assume *: "last (split_on nl text) = ''''"
    show "text = ''''"
    proof (rule ccontr)
      assume "text \<noteq> ''''"
      let ?ps = "butlast (split_on nl text)"
      have parts: "split_on nl text = ?ps @ [[]]"
        using * append_butlast_last_id[of "split_on nl text"] by simp
      have "?ps \<noteq> []"
      proof
        assume "?ps = []"
        then have "split_on nl text = [[]]" using parts by simp
        then show False using join_split_on[of nl "text"] \<open>text \<noteq> ''''\<close> by simp
      qed
      then have "join_with [nl] (split_on nl text) = join_with [nl] ?ps @ [nl]"
        using join_snoc_Nil[of ?ps "[nl]"] parts by metis
      then have "text = join_with [nl] ?ps @ [nl]" by (simp add: join_split_on)
      then show False using False by (metis has_suffix_append newline_nl)
    qed
  qed simp
  moreover have "text \<noteq> newline" using False has_suffix_append[of newline "[]"] by auto
  ultimately show ?thesis
    using trim_nl_id[OF False] by (simp add: read_lines_def text_lines_def Let_def)
qed

section \<open>Patches and search results\<close>

lemma common_prefix_le: "common_prefix xs ys \<le> length xs \<and> common_prefix xs ys \<le> length ys"
  by (induction xs ys rule: common_prefix.induct) auto

lemma common_prefix_take: "take (common_prefix xs ys) xs = take (common_prefix xs ys) ys"
  by (induction xs ys rule: common_prefix.induct) auto

lemma common_prefix_stops:
  "drop (common_prefix xs ys) xs \<noteq> [] \<Longrightarrow> drop (common_prefix xs ys) ys \<noteq> []
    \<Longrightarrow> hd (drop (common_prefix xs ys) xs) \<noteq> hd (drop (common_prefix xs ys) ys)"
  by (induction xs ys rule: common_prefix.induct) auto

lemma common_suffix_split:
  fixes xs ys :: "'a list"
  defines "j \<equiv> common_prefix (rev xs) (rev ys)"
  shows "j \<le> length xs \<and> j \<le> length ys \<and> drop (length xs - j) xs = drop (length ys - j) ys"
proof -
  have "rev (take j (rev xs)) = rev (take j (rev ys))"
    unfolding j_def by (rule arg_cong[OF common_prefix_take])
  then show ?thesis
    using common_prefix_le[of "rev xs" "rev ys"] by (simp add: j_def take_rev)
qed

lemma common_suffix_stops:
  fixes xs ys :: "'a list"
  defines "j \<equiv> common_prefix (rev xs) (rev ys)"
  assumes "take (length xs - j) xs \<noteq> []" "take (length ys - j) ys \<noteq> []"
  shows "last (take (length xs - j) xs) \<noteq> last (take (length ys - j) ys)"
proof -
  have "drop j (rev xs) = rev (take (length xs - j) xs)" "drop j (rev ys) = rev (take (length ys - j) ys)"
    by (simp_all add: drop_rev)
  then show ?thesis
    using common_prefix_stops[of "rev xs" "rev ys"] assms(2,3)
    unfolding j_def by (metis hd_rev rev_is_Nil_conv)
qed

lemma diff_hunk_parts:
  assumes "diff_hunk old_lines new_lines = (i, del, add)"
  shows "i \<le> length old_lines \<and> old_lines = take i old_lines @ del @ drop (i + length del) old_lines
    \<and> new_lines = take i old_lines @ add @ drop (i + length del) old_lines
    \<and> (del \<noteq> [] \<and> add \<noteq> [] \<longrightarrow> hd del \<noteq> hd add \<and> last del \<noteq> last add)"
proof -
  define xs ys where "xs = drop i old_lines" and "ys = drop i new_lines"
  define j where "j = common_prefix (rev xs) (rev ys)"
  have i: "i = common_prefix old_lines new_lines" and del: "del = take (length xs - j) xs"
    and add: "add = take (length ys - j) ys"
    using assms unfolding diff_hunk_def Let_def xs_def ys_def j_def
    by (auto simp: drop_take) (simp_all add: algebra_simps)
  note suf = common_suffix_split[of xs ys, folded j_def]
  have len: "length del = length xs - j" using del by simp
  have "xs = del @ drop (length del) xs" unfolding len del by simp
  moreover have "ys = add @ drop (length del) xs" unfolding len add using suf by (metis append_take_drop_id)
  moreover have "drop (length del) xs = drop (i + length del) old_lines"
    unfolding xs_def by (simp add: add.commute)
  moreover have "take i old_lines = take i new_lines" unfolding i by (rule common_prefix_take)
  ultimately have "old_lines = take i old_lines @ del @ drop (i + length del) old_lines"
    "new_lines = take i old_lines @ add @ drop (i + length del) old_lines"
    unfolding xs_def ys_def by (metis append_take_drop_id)+
  moreover have "hd del \<noteq> hd add \<and> last del \<noteq> last add" if ne: "del \<noteq> []" "add \<noteq> []"
  proof
    have "xs \<noteq> []" "ys \<noteq> []" using ne unfolding del add by auto
    then have "hd xs \<noteq> hd ys"
      using common_prefix_stops[of old_lines new_lines, folded i, folded xs_def ys_def] by blast
    moreover have "hd del = hd xs" "hd add = hd ys" using ne unfolding del add by (auto simp: hd_take)
    ultimately show "hd del \<noteq> hd add" by simp
    show "last del \<noteq> last add"
      using common_suffix_stops[of xs ys, folded j_def] ne unfolding del add by blast
  qed
  moreover have "i \<le> length old_lines" unfolding i using common_prefix_le by blast
  ultimately show ?thesis by blast
qed

lemma diff_hunk_same: "diff_hunk xs xs = (length xs, [], [])"
proof -
  have "common_prefix ys ys = length ys" for ys :: "'a list" by (induction ys) auto
  then show ?thesis by (simp add: diff_hunk_def)
qed

text \<open>
  What a patch says, read back from its text: below the three lines of the head, the lines that begin
  with a minus are to be found from the position in the head on and give way to those that begin with a
  plus.  The position of an edit is written from zero.
\<close>

definition patch_lines :: "char \<Rightarrow> string list \<Rightarrow> string list" where
  "patch_lines c ls = map tl (filter (\<lambda>l. l \<noteq> [] \<and> hd l = c) ls)"

definition apply_patch :: "string \<Rightarrow> string list \<Rightarrow> string list option" where
  "apply_patch p ls =
    (if p = '''' then Some ls
     else case split_on nl p of
       h1 # h2 # h3 # body \<Rightarrow>
         (case cut_at CHR '','' (drop 4 h3) of
            Some (num, rest) \<Rightarrow>
              (case parse_digits num of
                 Some i \<Rightarrow>
                   (let del = patch_lines CHR ''-'' body; add = patch_lines CHR ''+'' body
                    in if take (length del) (drop i ls) = del
                       then Some (take i ls @ add @ drop (i + length del) ls) else None)
               | None \<Rightarrow> None)
          | None \<Rightarrow> None)
     | _ \<Rightarrow> None)"

lemma split_on_lines:
  "\<forall>l \<in> set ls. nl \<notin> set l \<Longrightarrow> split_on nl (concat (map (\<lambda>l. l @ newline) ls) @ rest) = ls @ split_on nl rest"
  by (induction ls) (auto simp: newline_nl split_on_append)

lemma diff_side_clean: "l \<in> set (diff_side text) \<Longrightarrow> nl \<notin> set l"
  using split_on_parts by (auto simp: diff_side_def Let_def split: if_splits)

lemma diff_text:
  assumes "old_text \<noteq> new_text" "diff_hunk (diff_side old_text) (diff_side new_text) = (i, del, add)"
  shows "split_on nl (diff_lines old_text new_text) =
    [''--- a/file'', ''+++ b/file'',
     ''@@ -'' @ dec_nat i @ '','' @ dec_nat (length del) @ '' +'' @ dec_nat i @ '','' @ dec_nat (length add) @ '' @@'']
    @ map (Cons CHR ''-'') del @ map (Cons CHR ''+'') add @ ['''']"
proof -
  have sub: "set del \<subseteq> set (diff_side old_text)" "set add \<subseteq> set (diff_side new_text)"
    using diff_hunk_parts[OF assms(2)] by (metis Un_subset_iff set_append subset_refl)+
  let ?head = "''@@ -'' @ dec_nat i @ '','' @ dec_nat (length del) @ '' +'' @ dec_nat i @ '','' @ dec_nat (length add) @ '' @@''"
  let ?ls = "[''--- a/file'', ''+++ b/file'', ?head] @ map (Cons CHR ''-'') del @ map (Cons CHR ''+'') add"
  have digits: "nl \<notin> set (dec_nat n)" for n
    using dec_nat_digits[of n] by (auto simp: list_all_iff is_dec_def nl_def)
  have "\<forall>l \<in> set del \<union> set add. nl \<notin> set l" using sub diff_side_clean by blast
  then have "\<forall>l \<in> set ?ls. nl \<notin> set l"
    using digits by (simp add: ball_Un) (simp add: nl_def)
  from split_on_lines[OF this, of "[]"]
  have "split_on nl (concat (map (\<lambda>l. l @ newline) ?ls)) = ?ls @ ['''']" by simp
  moreover have "diff_lines old_text new_text = concat (map (\<lambda>l. l @ newline) ?ls)"
    using assms by (simp add: diff_lines_def comp_def)
  ultimately show ?thesis by simp
qed

text \<open>
  C32: The patch an edit returns is the edit.  It is empty exactly when the contents are equal; otherwise its
  lines are a head and one hunk, of the removed lines after a minus and the added lines after a plus, at the
  position where the contents part, which cannot be shortened at either end.  Reading the patch back
  and applying it to the lines of the old content gives those of the new content.
\<close>

theorem diff_describes_change:
  shows "(diff_lines old_text new_text = '''' \<longleftrightarrow> old_text = new_text)
    \<and> apply_patch (diff_lines old_text new_text) (diff_side old_text) = Some (diff_side new_text)
    \<and> (old_text \<noteq> new_text \<longrightarrow>
        (\<exists>pre del add post. diff_side old_text = pre @ del @ post \<and> diff_side new_text = pre @ add @ post
          \<and> (del \<noteq> [] \<and> add \<noteq> [] \<longrightarrow> hd del \<noteq> hd add \<and> last del \<noteq> last add)
          \<and> split_on nl (diff_lines old_text new_text) =
              [''--- a/file'', ''+++ b/file'', ''@@ -'' @ dec_nat (length pre) @ '','' @ dec_nat (length del) @ '' +''
                @ dec_nat (length pre) @ '','' @ dec_nat (length add) @ '' @@'']
              @ map (Cons CHR ''-'') del @ map (Cons CHR ''+'') add @ ['''']))"
proof -
  obtain i del add where h: "diff_hunk (diff_side old_text) (diff_side new_text) = (i, del, add)"
    by (cases "diff_hunk (diff_side old_text) (diff_side new_text)") auto
  note parts = diff_hunk_parts[OF h]
  have empty: "diff_lines old_text new_text = '''' \<longleftrightarrow> old_text = new_text"
    by (auto simp: diff_lines_def newline_nl split: prod.splits)
  show ?thesis
  proof (cases "old_text = new_text")
    case True
    then show ?thesis using empty by (simp add: apply_patch_def)
  next
    case False
    note lines = diff_text[OF False h]
    have num: "cut_at CHR '','' (dec_nat i @ CHR '','' # x) = Some (dec_nat i, x)" for x
      using dec_nat_digits[of i] by (intro cut_at_append) (auto simp: list_all_iff is_dec_def)
    have minus: "patch_lines CHR ''-'' (map (Cons CHR ''-'') del @ map (Cons CHR ''+'') add @ ['''']) = del"
      "patch_lines CHR ''+'' (map (Cons CHR ''-'') del @ map (Cons CHR ''+'') add @ ['''']) = add"
      by (simp_all add: patch_lines_def filter_map comp_def)
    have at: "take (length del) (drop i (diff_side old_text)) = del"
      using parts by (metis append_eq_conv_conj append_take_drop_id same_append_eq)
    have "apply_patch (diff_lines old_text new_text) (diff_side old_text)
        = Some (take i (diff_side old_text) @ add @ drop (i + length del) (diff_side old_text))"
      using empty False at unfolding apply_patch_def lines
      by (simp add: num parse_dec_nat minus Let_def)
    then have applied: "apply_patch (diff_lines old_text new_text) (diff_side old_text) = Some (diff_side new_text)"
      using parts by simp
    have len: "length (take i (diff_side old_text)) = i" using parts by simp
    show ?thesis
    proof (intro conjI impI, rule empty, rule applied, intro exI conjI)
      show "diff_side old_text = take i (diff_side old_text) @ del @ drop (i + length del) (diff_side old_text)"
        "diff_side new_text = take i (diff_side old_text) @ add @ drop (i + length del) (diff_side old_text)"
        "del \<noteq> [] \<and> add \<noteq> [] \<longrightarrow> hd del \<noteq> hd add \<and> last del \<noteq> last add"
        using parts by blast+
    qed (simp only: len lines)
  qed
qed

lemma diff_describes_change_witness:
  "apply_patch (diff_lines ''a'' ''b'') [''a''] = Some [''b'']"
proof -
  have "diff_side ''a'' = [''a'']" "diff_side ''b'' = [''b'']" by code_simp+
  then show ?thesis using diff_describes_change[of "''a''" "''b''"] by simp
qed

text \<open>Narrowing a patch to one path finds no block but the ones after the first.\<close>

lemma has_prefix_straddle:
  assumes "has_prefix (c # r) (x # xs @ c # ys)" "c \<notin> set r"
  shows "has_prefix (c # r) (x # xs)"
proof -
  have "length r \<le> length xs"
  proof (rule ccontr)
    assume "\<not> length r \<le> length xs"
    then have "length xs < length r" by simp
    moreover have "r = take (length r) (xs @ c # ys)" using assms(1) by (simp add: has_prefix_def)
    then have "r ! length xs = take (length r) (xs @ c # ys) ! length xs" by (rule arg_cong)
    ultimately have "r ! length xs = c" "length xs < length r"
      by (simp_all only: nth_take nth_append_length)
    then show False using assms(2) nth_mem[of "length xs" r] by simp
  qed
  then show ?thesis using assms(1) by (simp add: has_prefix_def)
qed

lemma split_sub_append:
  assumes "c \<notin> set r" "\<not> contains_sub (c # r) b"
  shows "split_sub (c # r) (b @ (c # r) @ rest) = b # split_sub (c # r) rest"
  using assms(2)
proof (induction b)
  case Nil
  then show ?case by simp
next
  case (Cons x xs)
  have "\<not> has_prefix (c # r) (x # xs @ c # r @ rest)"
    using Cons.prems has_prefix_straddle[OF _ assms(1)] by auto
  then show ?case using Cons by simp
qed

lemma split_sub_none: "\<not> contains_sub sep b \<Longrightarrow> split_sub sep b = [b]"
  by (induction b) auto

lemma split_sub_join:
  assumes "c \<notin> set r" "\<And>b. b \<in> set bs \<Longrightarrow> \<not> contains_sub (c # r) b" "bs \<noteq> []"
  shows "split_sub (c # r) (join_with (c # r) bs) = bs"
  using assms(2,3)
proof (induction "c # r" bs rule: join_with.induct)
  case (2 x)
  then show ?case by (simp add: split_sub_none)
next
  case (3 x y ys)
  then show ?case using split_sub_append[OF assms(1), of x] by simp
qed simp

lemma diff_for_path_blocks:
  assumes "\<And>b. b \<in> set (b0 # bs) \<Longrightarrow> \<not> contains_sub (newline @ ''diff --git '') b"
    and "\<not> contains_sub (newline @ ''diff --git '') (''diff --git '' @ b0)"
  shows "diff_for_path (join_with (newline @ ''diff --git '') ((''diff --git '' @ b0) # bs)) path
    = join_with newline (map (\<lambda>b. ''diff --git '' @ b)
        (filter (\<lambda>b. case cut_at nl b of None \<Rightarrow> False | Some (h, r) \<Rightarrow> h = diff_header path) bs))"
proof -
  have split: "split_sub (newline @ ''diff --git '')
      (join_with (newline @ ''diff --git '') ((''diff --git '' @ b0) # bs)) = (''diff --git '' @ b0) # bs"
  proof -
    have sep: "newline @ ''diff --git '' = CHR 0x0A # ''diff --git ''" by (simp add: newline_def)
    have "\<not> contains_sub (CHR 0x0A # ''diff --git '') b" if "b \<in> set ((''diff --git '' @ b0) # bs)" for b
      using assms that unfolding sep set_ConsD by (metis list.set_intros(2) set_ConsD)
    then show ?thesis unfolding sep by (intro split_sub_join) simp_all
  qed
  have "h \<noteq> diff_header path" if "cut_at nl (''diff --git '' @ b0) = Some (h, r)" for h r
  proof
    assume "h = diff_header path"
    moreover have "''diff --git '' @ b0 = h @ nl # r" using that by (simp only: cut_at_Some)
    ultimately show False by (simp add: diff_header_def)
  qed
  moreover have "\<not> (case x of None \<Rightarrow> False | Some (h, r) \<Rightarrow> h = hd')"
    if "\<And>h r. x = Some (h, r) \<Longrightarrow> h \<noteq> hd'" for x :: "(string \<times> string) option" and hd'
    using that by (cases x) auto
  ultimately have "\<not> (case cut_at nl (''diff --git '' @ b0) of None \<Rightarrow> False
      | Some (h, r) \<Rightarrow> h = diff_header path)"
    by blast
  with split show ?thesis
    unfolding diff_for_path_def by (simp only: filter.simps if_False)
qed

text \<open>A search result reads back unless its path or line holds a colon.\<close>

lemma split_match_roundtrip:
  "CHR '':'' \<notin> set path \<Longrightarrow> CHR '':'' \<notin> set line
    \<Longrightarrow> split_match (path @ '':'' @ line @ '':'' @ text) = (path, line, text)"
  by (simp add: split_match_def cut_at_append)

end
