(* ===== verification/Repo_Tools.thy ===== *)
theory Repo_Tools
imports Lifecycle Text_Edit
begin

text \<open>
  The tools the repository extension gives an agent (\<^verbatim>\<open>internal/ext/repo/tools.go\<close> and
  \<^verbatim>\<open>tools_vcs.go\<close>): reading, searching and editing files of a branch, looking at the history, and
  the change-request flow.  Every tool is a function of the call's arguments, the session's name
  and the tenant, over the world of the lifecycle handlers.

  The lab and the agent are other processes: their calls are the fields of \<^verbatim>\<open>toolset\<close>, next to the
  calls of \<^verbatim>\<open>env\<close>.  A text for the model is a key of the message catalog with its arguments, or a
  plain text; the arguments of a call are what the extension library reads from it, as a string
  or as a 64-bit integer with a default.  Non-ASCII punctuation of the texts is written in ASCII.
\<close>

section \<open>Calls and answers\<close>

datatype tool_text = Localized string "string list" | Plain string

datatype tool_data =
    DNull
  | DStr string
  | DInt int
  | DBool bool
  | DList "tool_data list"
  | DObj "(string \<times> tool_data) list"

datatype tool_out =
    ToolOk tool_text "(string \<times> tool_data) list"
  | ToolErr tool_text
  | ToolPanic

record tool_args =
  ta_str :: "string \<Rightarrow> string"
  ta_int :: "string \<Rightarrow> int \<Rightarrow> int"

record lab_node =
  ln_revision :: string
  ln_snapshot :: string
  ln_message :: string
  ln_author :: string
  ln_parents :: "string list"
  ln_head :: bool

record 'e toolset =
  ts_env :: "'e env"
  ts_encode :: "string \<Rightarrow> string"
  ts_decode :: "string \<Rightarrow> string option"
  ts_order :: "repo_tree \<Rightarrow> (string \<times> string list) list"
  ts_read_blob :: "string \<Rightarrow> string \<Rightarrow> string \<Rightarrow> string \<Rightarrow> string \<Rightarrow> 'e \<Rightarrow> (conn_err + string \<times> string) \<times> 'e"
  ts_tree :: "string \<Rightarrow> string \<Rightarrow> string \<Rightarrow> string \<Rightarrow> string \<Rightarrow> 'e
      \<Rightarrow> (conn_err + (string \<times> string) list) \<times> 'e"
  ts_search :: "string \<Rightarrow> string \<Rightarrow> string \<Rightarrow> string \<Rightarrow> string \<Rightarrow> 'e \<Rightarrow> (conn_err + string list) \<times> 'e"
  ts_graph :: "string \<Rightarrow> string \<Rightarrow> string \<Rightarrow> int \<Rightarrow> 'e \<Rightarrow> (conn_err + lab_node list) \<times> 'e"
  ts_compare :: "string \<Rightarrow> string \<Rightarrow> string \<Rightarrow> string \<Rightarrow> string \<Rightarrow> 'e \<Rightarrow> (conn_err + string list) \<times> 'e"
  ts_diff :: "string \<Rightarrow> string \<Rightarrow> string \<Rightarrow> string \<Rightarrow> string \<Rightarrow> 'e \<Rightarrow> (conn_err + string list) \<times> 'e"
  ts_rebase :: "string \<Rightarrow> string \<Rightarrow> string \<Rightarrow> string \<Rightarrow> string list \<Rightarrow> 'e
      \<Rightarrow> (conn_err + string \<times> string) \<times> 'e"
  ts_blame :: "string \<Rightarrow> string \<Rightarrow> string \<Rightarrow> string \<Rightarrow> string \<Rightarrow> 'e \<Rightarrow> (conn_err + string list) \<times> 'e"
  ts_log :: "string \<Rightarrow> string \<Rightarrow> string \<Rightarrow> string \<Rightarrow> int \<Rightarrow> 'e
      \<Rightarrow> (conn_err + (string \<times> string \<times> string) list) \<times> 'e"
  ts_tags :: "string \<Rightarrow> string \<Rightarrow> string \<Rightarrow> 'e \<Rightarrow> (conn_err + (string \<times> string) list) \<times> 'e"
  ts_set_tag :: "string \<Rightarrow> string \<Rightarrow> string \<Rightarrow> string \<Rightarrow> string \<Rightarrow> 'e \<Rightarrow> conn_err option \<times> 'e"
  ts_create_mr :: "string \<Rightarrow> string \<Rightarrow> string \<Rightarrow> string \<Rightarrow> string \<Rightarrow> string \<Rightarrow> string \<Rightarrow> 'e
      \<Rightarrow> (conn_err + string) \<times> 'e"
  ts_list_mrs :: "string \<Rightarrow> string \<Rightarrow> string \<Rightarrow> string \<Rightarrow> 'e
      \<Rightarrow> (conn_err + (string \<times> string \<times> string \<times> string \<times> string) list) \<times> 'e"
  ts_add_comment :: "string \<Rightarrow> string \<Rightarrow> string \<Rightarrow> string \<Rightarrow> string \<Rightarrow> string \<Rightarrow> 'e \<Rightarrow> conn_err option \<times> 'e"
  ts_merge_mr :: "string \<Rightarrow> string \<Rightarrow> string \<Rightarrow> string \<Rightarrow> 'e \<Rightarrow> (conn_err + string \<times> int) \<times> 'e"
  ts_list_repos :: "string \<Rightarrow> 'e \<Rightarrow> (conn_err + (string \<times> string \<times> string) list) \<times> 'e"
  ts_prompt :: "string \<Rightarrow> string \<Rightarrow> 'e \<Rightarrow> (conn_err + (string \<times> string) list \<times> conn_err option) \<times> 'e"

type_synonym 'e tool =
  "'e toolset \<Rightarrow> string \<Rightarrow> string \<Rightarrow> tool_args \<Rightarrow> 'e world \<Rightarrow> tool_out \<times> 'e world"

definition on_env :: "('e \<Rightarrow> 'r \<times> 'e) \<Rightarrow> 'e world \<Rightarrow> 'r \<times> 'e world" where
  "on_env f w = (case f (w_env w) of (r, e) \<Rightarrow> (r, w\<lparr> w_env := e \<rparr>))"

fun op_text :: "op_error \<Rightarrow> string" where
  "op_text (OpError s m) = m"

definition downstream :: "string \<Rightarrow> conn_err \<Rightarrow> string" where
  "downstream what err = op_text (err_downstream what (conn_text err))"

section \<open>The target of a call\<close>

definition session_base :: "'e toolset \<Rightarrow> string \<Rightarrow> string \<Rightarrow> 'e world
    \<Rightarrow> (string + string \<times> string \<times> string) \<times> 'e world" where
  "session_base ts tenant sess w =
    (if sess = '''' then (Inl ''missing session context (session_name)'', w)
     else case resolve_in (ts_env ts) tenant sess w of
            (Inl err, w1) \<Rightarrow> (Inl (op_text err), w1)
          | (Inr t, w1) \<Rightarrow> (Inr t, w1))"

definition bad_ref :: "string \<Rightarrow> string" where
  "bad_ref ref = ''ref must be a full '' @ quoted ''org:repo:<rev>'' @ '' path (got '' @ go_quote ref @ '')''"

definition ref_base :: "'e toolset \<Rightarrow> string \<Rightarrow> string \<Rightarrow> tool_args \<Rightarrow> 'e world
    \<Rightarrow> (string + string \<times> string \<times> string) \<times> 'e world" where
  "ref_base ts tenant sess args w =
    (let ref = ta_str args ''ref'' in
     if ref = '''' then session_base ts tenant sess w
     else case cut_at CHR '':'' ref of
            None \<Rightarrow> (Inl (bad_ref ref), w)
          | Some (org, rest) \<Rightarrow>
              (case cut_at CHR '':'' rest of
                 None \<Rightarrow> (Inl (bad_ref ref), w)
               | Some (repo, rv) \<Rightarrow>
                   if org = '''' \<or> repo = '''' \<or> rv = '''' then (Inl (bad_ref ref), w)
                   else (Inr (org, repo, rv), w)))"

definition session_base_xo :: "'e toolset \<Rightarrow> string \<Rightarrow> string \<Rightarrow> tool_args \<Rightarrow> 'e world
    \<Rightarrow> (string + string \<times> string \<times> string) \<times> 'e world" where
  "session_base_xo ts tenant sess args w =
    (case session_base ts tenant sess w of
       (Inl err, w1) \<Rightarrow> (Inl err, w1)
     | (Inr (o1, r, b), w1) \<Rightarrow>
         (Inr (if ta_str args ''org'' \<noteq> '''' then ta_str args ''org'' else o1,
               if ta_str args ''repo'' \<noteq> '''' then ta_str args ''repo'' else r,
               if ta_str args ''branch'' \<noteq> '''' then ta_str args ''branch'' else b), w1))"

text \<open>
  What follows the resolution of the target: an error is the call's, otherwise the rest runs.
\<close>

definition with_base :: "(string + string \<times> string \<times> string) \<times> 'e world
    \<Rightarrow> (string \<Rightarrow> string \<Rightarrow> string \<Rightarrow> 'e world \<Rightarrow> tool_out \<times> 'e world) \<Rightarrow> tool_out \<times> 'e world" where
  "with_base base k =
    (case base of
       (Inl err, w1) \<Rightarrow> (ToolErr (Plain err), w1)
     | (Inr (o1, r, b), w1) \<Rightarrow> k o1 r b w1)"

section \<open>Files\<close>

definition read_file_raw :: "'e toolset \<Rightarrow> string \<Rightarrow> string \<Rightarrow> string \<Rightarrow> string \<Rightarrow> string \<Rightarrow> 'e world
    \<Rightarrow> (conn_err + string \<times> string \<times> int) \<times> 'e world" where
  "read_file_raw ts tn o1 r b path w =
    (case on_env (ts_read_blob ts tn o1 r path b) w of
       (Inl err, w1) \<Rightarrow> (Inl err, w1)
     | (Inr (raw, content), w1) \<Rightarrow>
         (let body = (if raw = '''' then content else raw)
          in (Inr (body, '''', int (length body)), w1)))"

text \<open>
  The marker \<^verbatim>\<open>errNotFoundForHTTP\<close> is created in \<^verbatim>\<open>helpers.go\<close> and tested for, but no error of the
  program wraps it.
\<close>

definition wraps_not_found :: "conn_err \<Rightarrow> bool" where
  "wraps_not_found err = False"

definition tool_read :: "'e tool" where
  "tool_read ts tenant sess args w =
    with_base (ref_base ts tenant sess args w) (\<lambda>o1 r b w1.
      let path = ta_str args ''path'' in
      if path = '''' then (ToolErr (Localized ''missing_path_argument'' []), w1)
      else case read_file_raw ts tenant o1 r b path w1 of
        (Inl err, w2) \<Rightarrow>
          (if wraps_not_found err
           then (ToolOk (Localized ''failed_to_read_file_arg_not_found_or_inaccessi'' [path]) [], w2)
           else (ToolErr (Localized ''read_arg_arg'' [path, conn_text err]), w2))
      | (Inr (body, sha, sz), w2) \<Rightarrow>
          (let meta = [(''path'', DStr path), (''sha'', DStr sha), (''size'', DInt sz),
                       (''total_lines'', DInt (int (length (read_lines body))))] in
           case read_page body (ta_int args ''offset'' 1) (ta_int args ''limit'' 0) of
             PastEnd tot first \<Rightarrow>
               (ToolOk (Localized ''file_arg_has_arg_lines_offset_arg_is_past_the_''
                   [path, dec_int tot, dec_int first]) (meta @ [(''truncated'', DBool False)]), w2)
           | Page start stop truncated tot \<Rightarrow>
               (ToolOk (Plain (read_text (read_lines body) start stop truncated tot))
                  (meta @ [(''truncated'', DBool truncated)]
                    @ (if truncated then [(''next_offset'', DInt (stop + 1))] else [])), w2)))"

definition file_action :: "'e toolset \<Rightarrow> string \<Rightarrow> string \<Rightarrow> string \<Rightarrow> commit_action" where
  "file_action ts action path content =
    \<lparr> ca_path = path, ca_delete = False, ca_action = action,
      ca_content = (if action = ''delete'' then '''' else ts_encode ts content) \<rparr>"

definition commit_in :: "'e toolset \<Rightarrow> string \<Rightarrow> string \<Rightarrow> string \<Rightarrow> string \<Rightarrow> string \<Rightarrow> commit_action \<Rightarrow> 'e world
    \<Rightarrow> (op_error + string \<times> string \<times> string) \<times> 'e world" where
  "commit_in ts tn o1 r b message a w =
    on_env (commit (ts_env ts) (ts_decode ts) tn o1 r b message [a]) w"

definition base_sha :: "'e toolset \<Rightarrow> string \<Rightarrow> string \<Rightarrow> string \<Rightarrow> string \<Rightarrow> string \<Rightarrow> 'e world
    \<Rightarrow> string \<times> 'e world" where
  "base_sha ts tn o1 r b path w =
    (case read_file_raw ts tn o1 r b path w of
       (Inl err, w1) \<Rightarrow> ('''', w1)
     | (Inr (body, sha, sz), w1) \<Rightarrow> (sha, w1))"

definition tool_write :: "'e tool" where
  "tool_write ts tenant sess args w =
    with_base (session_base ts tenant sess w) (\<lambda>o1 r b w1.
      let path = ta_str args ''path'';
          message = (if ta_str args ''message'' = '''' then ''write '' @ path else ta_str args ''message'') in
      if path = '''' then (ToolErr (Localized ''missing_path_argument'' []), w1)
      else case base_sha ts tenant o1 r b path w1 of (sha, w2) \<Rightarrow>
        (case commit_in ts tenant o1 r b message (file_action ts ''update'' path (ta_str args ''content'')) w2 of
           (Inl err, w3) \<Rightarrow> (ToolErr (Localized ''failed_to_write_file_arg'' [op_text err]), w3)
         | (Inr (rv, change, s), w3) \<Rightarrow>
             (ToolOk (Localized ''wrote_file_arg_change_arg'' [path, short_id change])
                [(''path'', DStr path), (''change_id'', DStr change), (''base_sha'', DStr sha)], w3)))"

definition tool_delete :: "'e tool" where
  "tool_delete ts tenant sess args w =
    with_base (session_base ts tenant sess w) (\<lambda>o1 r b w1.
      let path = ta_str args ''path'';
          message = (if ta_str args ''message'' = '''' then ''delete '' @ path else ta_str args ''message'') in
      if path = '''' then (ToolErr (Localized ''missing_path_argument'' []), w1)
      else case base_sha ts tenant o1 r b path w1 of (sha, w2) \<Rightarrow>
        (case commit_in ts tenant o1 r b message (file_action ts ''delete'' path '''') w2 of
           (Inl err, w3) \<Rightarrow> (ToolErr (Localized ''failed_to_delete_file_arg'' [op_text err]), w3)
         | (Inr (rv, change, s), w3) \<Rightarrow>
             (ToolOk (Localized ''deleted_file_arg_change_arg'' [path, short_id change])
                [(''path'', DStr path), (''change_id'', DStr change), (''base_sha'', DStr sha)], w3)))"

definition edit_description :: "int \<Rightarrow> int \<Rightarrow> string \<Rightarrow> string" where
  "edit_description start_line end_line content =
    (if end_line < start_line
     then ''inserted '' @ dec_int start_line @ '' line(s) before line '' @ dec_nat (count_lines content)
     else ''replaced lines '' @ dec_int start_line @ ''-'' @ dec_int end_line)"

definition tool_edit :: "'e tool" where
  "tool_edit ts tenant sess args w =
    with_base (session_base ts tenant sess w) (\<lambda>o1 r b w1.
      let path = ta_str args ''path''; s = ta_int args ''start-line'' 0; e = ta_int args ''end-line'' 0;
          content = ta_str args ''content'';
          message = (if ta_str args ''message'' = '''' then ''edit '' @ path else ta_str args ''message'') in
      if path = '''' then (ToolErr (Localized ''missing_path_argument'' []), w1)
      else case read_file_raw ts tenant o1 r b path w1 of
        (Inl err, w2) \<Rightarrow>
          (if wraps_not_found err
           then (ToolErr (Localized ''failed_to_read_file_arg_not_found_or_inaccessi'' [path]), w2)
           else (ToolErr (Localized ''read_arg_before_edit_arg'' [path, conn_text err]), w2))
      | (Inr (body, sha, sz), w2) \<Rightarrow>
          (case apply_line_edit body s e content of
             EditPanic \<Rightarrow> (ToolPanic, w2)
           | EditError m \<Rightarrow> (ToolErr (Plain m), w2)
           | Edited body' \<Rightarrow>
               (case commit_in ts tenant o1 r b message (file_action ts ''update'' path body') w2 of
                  (Inl err, w3) \<Rightarrow> (ToolErr (Localized ''failed_to_write_edited_result_arg'' [op_text err]), w3)
                | (Inr (rv, change, s1), w3) \<Rightarrow>
                    (ToolOk (Localized ''edited_file_arg_arg_change_arg''
                        [path, edit_description s e content, short_id change])
                      [(''path'', DStr path), (''start-line'', DInt s), (''end-line'', DInt e),
                       (''old_sha'', DStr sha), (''change_id'', DStr change),
                       (''diff'', DStr (diff_lines body body'))], w3))))"

definition tool_resolve :: "'e tool" where
  "tool_resolve ts tenant sess args w =
    with_base (session_base ts tenant sess w) (\<lambda>o1 r b w1.
      let path = ta_str args ''path'' in
      if path = '''' then (ToolErr (Localized ''missing_path_argument'' []), w1)
      else case base_sha ts tenant o1 r b path w1 of (sha, w2) \<Rightarrow>
        (case commit_in ts tenant o1 r b (''resolve '' @ path)
                (file_action ts ''update'' path (ta_str args ''content'')) w2 of
           (Inl err, w3) \<Rightarrow> (ToolErr (Localized ''resolve_failed_arg'' [op_text err]), w3)
         | (Inr (rv, change, s), w3) \<Rightarrow>
             (ToolOk (Localized ''resolved_arg_tip_arg_change_arg'' [path, short_id s, short_id change])
                [(''commit_id'', DStr s), (''change_id'', DStr change), (''conflicts'', DList [])], w3)))"

section \<open>Listing and searching\<close>

record tree_entry =
  te_path :: string
  te_dir :: bool

definition tree_entries :: "(string \<times> string) list \<Rightarrow> tree_entry list" where
  "tree_entries files =
    map (\<lambda>(path, kind). \<lparr> te_path = path, te_dir = (kind = ''dir'' \<or> kind = ''tree'') \<rparr>) files"

definition entries_slice :: "tree_entry list \<Rightarrow> tool_data list" where
  "entries_slice es =
    map (\<lambda>x. DObj [(''path'', DStr (te_path x)), (''type'', DStr (if te_dir x then ''tree'' else ''blob'')),
                   (''size'', DInt 0)]) es"

definition cut_list :: "int \<Rightarrow> 'a list \<Rightarrow> 'a list \<times> bool" where
  "cut_list mx xs = (if mx > 0 \<and> int (length xs) > mx then (take (nat mx) xs, True) else (xs, False))"

definition ls_line :: "tree_entry \<Rightarrow> string" where
  "ls_line x = (if te_dir x then ''  [dir] '' @ te_path x @ ''/'' else ''  '' @ te_path x) @ newline"

definition tool_ls :: "'e tool" where
  "tool_ls ts tenant sess args w =
    with_base (ref_base ts tenant sess args w) (\<lambda>o1 r b w1.
      let path = ta_str args ''path'' in
      case on_env (ts_tree ts tenant o1 r b path) w1 of
        (Inl err, w2) \<Rightarrow> (ToolErr (Localized ''failed_to_list_directory_arg'' [conn_text err]), w2)
      | (Inr files, w2) \<Rightarrow>
          (let es = tree_entries files;
               dirs = length (filter te_dir es); nfiles = length (filter (\<lambda>x. \<not> te_dir x) es) in
           case cut_list (ta_int args ''max'' 0) es of (kept, truncated) \<Rightarrow>
             (ToolOk (Plain (''rev '' @ quoted b @ (if path = '''' then '''' else '' path '' @ quoted path)
                 @ '' has '' @ dec_nat (length kept) @ '' entries ('' @ dec_nat dirs @ '' dirs, ''
                 @ dec_nat nfiles @ '' files):'' @ newline @ concat (map ls_line kept)
                 @ (if truncated
                    then newline @ ''(entries truncated; specify a smaller path or higher max)'' @ newline
                    else '''')))
                [(''entries'', DList (entries_slice kept)), (''truncated'', DBool truncated)], w2)))"

definition match_data :: "string \<Rightarrow> tool_data" where
  "match_data m =
    (case split_match m of (path, line, body) \<Rightarrow>
       DObj [(''path'', DStr path), (''line'', DStr line), (''text'', DStr body)])"

definition tool_grep :: "'e tool" where
  "tool_grep ts tenant sess args w =
    with_base (ref_base ts tenant sess args w) (\<lambda>o1 r b w1.
      let pattern = ta_str args ''pattern'' in
      if pattern = '''' then (ToolErr (Localized ''missing_pattern_argument'' []), w1)
      else case on_env (ts_search ts tenant o1 r b pattern) w1 of
        (Inl err, w2) \<Rightarrow> (ToolErr (Localized ''search_failed_arg'' [conn_text err]), w2)
      | (Inr matches, w2) \<Rightarrow>
          (if matches = []
           then (ToolOk (Localized ''no_matches_for_arg_in_rev_arg'' [pattern, b])
                   [(''matches'', DList []), (''count'', DInt 0)], w2)
           else case cut_list (ta_int args ''max'' 0) matches of (kept, truncated) \<Rightarrow>
             (ToolOk (Plain (''found '' @ dec_nat (length kept) @ '' match(es):'' @ newline
                 @ concat (map (\<lambda>m. ''  '' @ m @ newline) kept)
                 @ (if truncated then newline @ ''(results truncated; narrow the pattern or path)'' @ newline
                    else '''')))
                [(''matches'', DList (map match_data kept)), (''count'', DInt (int (length kept))),
                 (''truncated'', DBool truncated)], w2)))"

definition branch_targets :: "branch_info list \<Rightarrow> string" where
  "branch_targets bs = join_with '', '' (map (\<lambda>b. br_name b @ ''('' @ short_id (br_sha b) @ '')'') bs)"

definition branch_meta :: "branch_info list \<Rightarrow> tool_data" where
  "branch_meta bs = DList (map (\<lambda>b. DObj [(''branch'', DStr (br_name b)), (''sha'', DStr (br_sha b))]) bs)"

definition wanted :: "string \<Rightarrow> string \<Rightarrow> string \<Rightarrow> bool" where
  "wanted arg keyword name = ((arg = '''' \<or> name = arg) \<and> (keyword = '''' \<or> contains_sub keyword name))"

definition explore_org :: "repo_tree \<Rightarrow> string \<Rightarrow> string \<Rightarrow> string \<times> string list \<Rightarrow> string \<times> tool_data" where
  "explore_org tree repo_arg keyword entry =
    (case entry of (org, repos) \<Rightarrow>
      let kept = filter (wanted repo_arg keyword) repos in
      (''organization '' @ quoted org @ '' ('' @ dec_nat (length repos) @ '' repo(s)):'' @ newline
         @ concat (map (\<lambda>r. ''  - '' @ r @ '' (branches: '' @ branch_targets (tree_branches tree org r) @ '')''
                           @ newline) kept),
       DObj [(''org'', DStr org),
             (''repos'', DList (map (\<lambda>r. DObj [(''repo'', DStr r),
                                (''branches'', branch_meta (tree_branches tree org r))]) kept))]))"

definition tool_explore :: "'e tool" where
  "tool_explore ts tenant sess args w =
    (case on_env (get_repo_tree (ts_env ts) tenant) w of
       (Inl err, w1) \<Rightarrow> (ToolErr (Localized ''failed_to_browse_structure_arg'' [op_text err]), w1)
     | (Inr tree, w1) \<Rightarrow>
         (let keyword = ta_str args ''keyword'';
              parts = map (explore_org tree (ta_str args ''repo'') keyword)
                        (filter (\<lambda>(org, repos). wanted (ta_str args ''org'') keyword org) (ts_order ts tree)) in
          if parts = []
          then (ToolOk (Localized ''no_organizations_or_repositories'' []) [(''orgs'', DList [])], w1)
          else (ToolOk (Plain (concat (map fst parts))) [(''orgs'', DList (map snd parts))], w1)))"

section \<open>History\<close>

definition head_label :: "bool \<Rightarrow> string" where
  "head_label is_hd = (if is_hd then '' [HEAD]'' else '''')"

definition branch_labels :: "tool_data \<Rightarrow> string" where
  "branch_labels v =
    (case v of
       DList xs \<Rightarrow>
         (let names = filter (\<lambda>s. s \<noteq> '''') (map (\<lambda>x. case x of DStr s \<Rightarrow> s | _ \<Rightarrow> '''') xs) in
          if names = [] then '''' else '' ('' @ join_with '', '' names @ '')'')
     | _ \<Rightarrow> '''')"

text \<open>
  \<^verbatim>\<open>graphNodeMaps\<close> builds a map without the member \<^verbatim>\<open>branches\<close> which the tool reads back, so that
  member is null.
\<close>

definition graph_field :: "lab_node \<Rightarrow> string \<Rightarrow> tool_data" where
  "graph_field n k =
    (if k = ''revision_id'' \<or> k = ''change_id'' then DStr (ln_revision n)
     else if k = ''commit_id'' then DStr (ln_snapshot n)
     else if k = ''message'' then DStr (ln_message n)
     else if k = ''author'' then DStr (ln_author n)
     else if k = ''parents'' then DList (map DStr (ln_parents n))
     else if k = ''is_head'' then DBool (ln_head n)
     else DNull)"

definition graph_line :: "lab_node \<Rightarrow> string" where
  "graph_line n = ''  '' @ short_id (ln_snapshot n) @ '' '' @ ln_message n
    @ branch_labels (graph_field n ''branches'') @ head_label (ln_head n) @ newline"

definition tool_graph :: "'e tool" where
  "tool_graph ts tenant sess args w =
    with_base (ref_base ts tenant sess args w) (\<lambda>o1 r b w1.
      case on_env (ts_graph ts tenant o1 r (int32_of (ta_int args ''limit'' 0))) w1 of
        (Inl err, w2) \<Rightarrow> (ToolErr (Localized ''failed_to_get_graph_arg'' [conn_text err]), w2)
      | (Inr nodes, w2) \<Rightarrow>
          (if nodes = [] then (ToolOk (Localized ''no_commits_in_graph'' []) [(''graph'', DList [])], w2)
           else (ToolOk (Plain (''commit graph ('' @ dec_nat (length nodes) @ '' nodes):'' @ newline
                   @ concat (map graph_line nodes)))
                  [(''graph'', DList (map (\<lambda>n. DObj (map (\<lambda>k. (k, graph_field n k))
                     [''commit_id'', ''change_id'', ''message'', ''author'', ''parents'', ''is_head'',
                      ''branches''])) nodes))], w2)))"

definition tool_diff :: "'e tool" where
  "tool_diff ts tenant sess args w =
    with_base (session_base_xo ts tenant sess args w) (\<lambda>o1 r b w1.
      let a = ta_str args ''rev-a''; z = ta_str args ''rev-b''; path = ta_str args ''path'' in
      if a = '''' \<or> z = '''' then (ToolErr (Localized ''rev_a_and_rev_b_are_required'' []), w1)
      else case on_env (ts_compare ts tenant o1 r a z) w1 of
        (Inl err, w2) \<Rightarrow> (ToolErr (Localized ''failed_to_get_diff_arg'' [conn_text err]), w2)
      | (Inr files, w2) \<Rightarrow>
          (let diff = (if path = '''' then concat files else diff_for_path (concat files) path);
               scope = (if path = '''' then ''tree'' else ''file '' @ quoted path);
               meta = [(''path'', DStr path), (''rev-a'', DStr a), (''rev-b'', DStr z)] in
           if trim_space diff = ''''
           then (ToolOk (Localized ''no_diff_between_arg_and_arg_arg'' [a, z, scope]) meta, w2)
           else (ToolOk (Localized ''diff_arg_between_arg_arg_n_arg'' [scope, a, z, diff]) meta, w2)))"

definition lab_rebase :: "'e toolset \<Rightarrow> string \<Rightarrow> string \<Rightarrow> string \<Rightarrow> string \<Rightarrow> string list \<Rightarrow> 'e world
    \<Rightarrow> (string + string \<times> string) \<times> 'e world" where
  "lab_rebase ts tn o1 r rv parents w =
    (case on_env (ts_rebase ts tn o1 r rv parents) w of
       (Inl err, w1) \<Rightarrow> (Inl (downstream ''easylab'' err), w1)
     | (Inr x, w1) \<Rightarrow> (Inr x, w1))"

definition tool_rebase :: "'e tool" where
  "tool_rebase ts tenant sess args w =
    with_base (session_base ts tenant sess w) (\<lambda>o1 r b w1.
      let source = ta_str args ''source'' in
      if source = '''' then (ToolErr (Localized ''missing_source_argument'' []), w1)
      else case on_env (get_branch_head (ts_env ts) tenant o1 r b) w1 of
        (Inl err, w2) \<Rightarrow> (ToolErr (Localized ''rebase_failed_arg'' [op_text err]), w2)
      | (Inr sha, w2) \<Rightarrow>
          (case lab_rebase ts tenant o1 r source [sha] w2 of
             (Inl err, w3) \<Rightarrow> (ToolErr (Localized ''rebase_failed_arg'' [err]), w3)
           | (Inr (change, tip), w3) \<Rightarrow>
               (ToolOk (Localized ''rebased_arg_onto_arg_tip_arg_change_arg''
                   [source, b, short_id tip, short_id change])
                  [(''commit_id'', DStr tip), (''change_id'', DStr change), (''conflicts'', DList [])], w3)))"

text \<open>
  The client of the lab's blame call keeps the owner of every line and drops its text.
\<close>

definition client_blame :: "'e toolset \<Rightarrow> string \<Rightarrow> string \<Rightarrow> string \<Rightarrow> string \<Rightarrow> string \<Rightarrow> 'e world
    \<Rightarrow> (conn_err + (string \<times> int \<times> string) list) \<times> 'e world" where
  "client_blame ts tn o1 r path ref w =
    (case on_env (ts_blame ts tn o1 r path ref) w of
       (Inl err, w1) \<Rightarrow> (Inl err, w1)
     | (Inr owners, w1) \<Rightarrow> (Inr (map (\<lambda>(i, l). (l, int i + 1, '''')) (List.enumerate 0 owners)), w1))"

definition blame_line :: "string \<times> int \<times> string \<Rightarrow> string" where
  "blame_line x =
    (case x of (owner, n, content) \<Rightarrow>
      ''  '' @ short_id owner @ '': '' @ content @ (if has_suffix newline content then '''' else newline))"

definition tool_blame :: "'e tool" where
  "tool_blame ts tenant sess args w =
    with_base (ref_base ts tenant sess args w) (\<lambda>o1 r b w1.
      let rv = (if ta_str args ''rev'' = '''' then ''main'' else ta_str args ''rev''); path = ta_str args ''path'' in
      if path = '''' then (ToolErr (Localized ''missing_path_argument'' []), w1)
      else case client_blame ts tenant o1 r path rv w1 of
        (Inl err, w2) \<Rightarrow> (ToolErr (Localized ''failed_to_get_blame_arg'' [conn_text err]), w2)
      | (Inr anns, w2) \<Rightarrow>
          (ToolOk (Plain (''per-line origin of file '' @ quoted path @ '':'' @ newline
               @ concat (map blame_line anns)))
             [(''lines'', DList (map (\<lambda>(owner, n, content).
                 DObj [(''commit_id'', DStr owner), (''change_id'', DStr owner), (''content'', DStr content)])
               anns))], w2))"

definition tool_log :: "'e tool" where
  "tool_log ts tenant sess args w =
    with_base (ref_base ts tenant sess args w) (\<lambda>o1 r b w1.
      case on_env (ts_log ts tenant o1 r b (int32_of (ta_int args ''limit'' 50))) w1 of
        (Inl err, w2) \<Rightarrow> (ToolErr (Localized ''failed_to_get_commit_history_arg'' [conn_text err]), w2)
      | (Inr revs, w2) \<Rightarrow>
          (if revs = [] then (ToolOk (Localized ''no_commits'' []) [(''commits'', DList [])], w2)
           else (ToolOk (Plain (''latest '' @ dec_nat (length revs) @ '' commit(s):'' @ newline
                   @ concat (map (\<lambda>(c, author, message). ''  '' @ short_id c @ '' ''
                       @ (if message = '''' then ''(no description)'' else message) @ ''('' @ author @ '')''
                       @ newline) revs)))
                  [(''commits'', DList (map (\<lambda>(c, author, message).
                      DObj [(''change_id'', DStr c), (''message'', DStr message), (''author'', DStr author)])
                    revs))], w2)))"

definition client_diff :: "'e toolset \<Rightarrow> string \<Rightarrow> string \<Rightarrow> string \<Rightarrow> string \<Rightarrow> string \<Rightarrow> 'e world
    \<Rightarrow> (string + string list) \<times> 'e world" where
  "client_diff ts tn o1 r change path w =
    (case on_env (ts_diff ts tn o1 r change path) w of
       (Inl err, w1) \<Rightarrow> (Inl (downstream ''easylab'' err), w1)
     | (Inr files, w1) \<Rightarrow> (Inr files, w1))"

definition tool_show :: "'e tool" where
  "tool_show ts tenant sess args w =
    with_base (ref_base ts tenant sess args w) (\<lambda>o1 r b w1.
      let rv = ta_str args ''rev'' in
      if rv = '''' then (ToolErr (Localized ''missing_rev_argument'' []), w1)
      else case client_diff ts tenant o1 r rv '''' w1 of
        (Inl err, w2) \<Rightarrow> (ToolErr (Localized ''failed_to_view_change_arg'' [err]), w2)
      | (Inr files, w2) \<Rightarrow>
          (if trim_space (concat files) = ''''
           then (ToolOk (Localized ''change_arg_has_no_content_diff'' [rv]) [(''rev'', DStr rv)], w2)
           else (ToolOk (Localized ''changes_of_arg_n_arg'' [rv, concat files])
                   [(''rev'', DStr rv), (''patch'', DStr (concat files))], w2)))"

section \<open>Tags and merge requests\<close>

definition tool_tag_list :: "'e tool" where
  "tool_tag_list ts tenant sess args w =
    with_base (session_base ts tenant sess w) (\<lambda>o1 r b w1.
      case on_env (ts_tags ts tenant o1 r) w1 of
        (Inl err, w2) \<Rightarrow> (ToolErr (Plain (downstream ''easylab'' err)), w2)
      | (Inr tags, w2) \<Rightarrow>
          (ToolOk (Plain (trim_space (concat (map (\<lambda>(target, name). short_id target @ '' '' @ name @ newline) tags))))
             [], w2))"

definition tool_tag_set :: "'e tool" where
  "tool_tag_set ts tenant sess args w =
    with_base (session_base ts tenant sess w) (\<lambda>o1 r b w1.
      let name = ta_str args ''name'' in
      if name = '''' then (ToolErr (Localized ''missing_name'' []), w1)
      else case on_env (ts_set_tag ts tenant o1 r name (ta_str args ''target'')) w1 of
        (Some err, w2) \<Rightarrow> (ToolErr (Plain (downstream ''easylab'' err)), w2)
      | (None, w2) \<Rightarrow> (ToolOk (Localized ''set_tag_arg'' [name]) [], w2))"

text \<open>The client sends a prompt and reads the stream up to its first accepting event.\<close>

definition agent_prompt :: "'e toolset \<Rightarrow> string \<Rightarrow> string \<Rightarrow> 'e world \<Rightarrow> (conn_err + string) \<times> 'e world" where
  "agent_prompt ts sess prompt w =
    (case on_env (ts_prompt ts sess prompt) w of
       (Inl err, w1) \<Rightarrow> (Inl err, w1)
     | (Inr (events, broken), w1) \<Rightarrow>
         (case find (\<lambda>(ev, mid). ev = ''accepted'') events of
            Some (ev, mid) \<Rightarrow> (Inr mid, w1)
          | None \<Rightarrow> (case broken of Some err \<Rightarrow> (Inl err, w1) | None \<Rightarrow> (Inr '''', w1))))"

definition notify_text :: "string \<Rightarrow> string \<Rightarrow> string \<Rightarrow> string" where
  "notify_text source_branch iid target =
    ''Subsession '' @ quoted source_branch @ '' opened change request #'' @ iid @ '' ('' @ source_branch
      @ '' -> '' @ target @ ''). Review and merge it with the '' @ quoted ''vcs-mr-merge'' @ '' tool.''"

definition notify_target_session :: "'e toolset \<Rightarrow> string \<Rightarrow> string \<Rightarrow> string \<Rightarrow> string \<Rightarrow> string \<Rightarrow> 'e world
    \<Rightarrow> 'e world" where
  "notify_target_session ts o1 r target iid source_branch w =
    (if target = '''' \<or> target = source_branch then w
     else snd (agent_prompt ts (naming_session o1 r target) (notify_text source_branch iid target) w))"

definition tool_mr_create :: "'e tool" where
  "tool_mr_create ts tenant sess args w =
    with_base (session_base ts tenant sess w) (\<lambda>o1 r b w1.
      let title = ta_str args ''title''; target = ta_str args ''target'';
          source = (if ta_str args ''source'' = '''' then b else ta_str args ''source'') in
      if title = '''' \<or> target = '''' then (ToolErr (Localized ''title_and_target_are_required'' []), w1)
      else case on_env (ts_create_mr ts tenant o1 r title (ta_str args ''description'') source target) w1 of
        (Inl err, w2) \<Rightarrow> (ToolErr (Plain (downstream ''easylab'' err)), w2)
      | (Inr iid, w2) \<Rightarrow>
          (ToolOk (Localized ''opened_change_request_arg_arg_arg'' [iid, source, target]) [(''iid'', DStr iid)],
           notify_target_session ts o1 r target iid source w2))"

definition tool_mr_list :: "'e tool" where
  "tool_mr_list ts tenant sess args w =
    with_base (session_base ts tenant sess w) (\<lambda>o1 r b w1.
      case on_env (ts_list_mrs ts tenant o1 r (ta_str args ''state'')) w1 of
        (Inl err, w2) \<Rightarrow> (ToolErr (Plain (downstream ''easylab'' err)), w2)
      | (Inr mrs, w2) \<Rightarrow>
          (ToolOk (Plain (trim_space (concat (map (\<lambda>(iid, state, title, source, target).
               ''#'' @ iid @ '' ['' @ state @ ''] '' @ title @ '' ('' @ source @ '' -> '' @ target @ '')''
               @ newline) mrs)))) [], w2))"

definition tool_mr_comment :: "'e tool" where
  "tool_mr_comment ts tenant sess args w =
    with_base (session_base ts tenant sess w) (\<lambda>o1 r b w1.
      let iid = ta_str args ''iid''; body = ta_str args ''body'' in
      if iid = '''' \<or> body = '''' then (ToolErr (Localized ''iid_and_body_are_required'' []), w1)
      else case on_env (ts_add_comment ts tenant o1 r iid body (ta_str args ''path'')) w1 of
        (Some err, w2) \<Rightarrow> (ToolErr (Plain (downstream ''easylab'' err)), w2)
      | (None, w2) \<Rightarrow> (ToolOk (Localized ''commented_on_arg'' [iid]) [], w2))"

text \<open>The default branch of a repository, or the empty text when the listing does not name one.\<close>

definition repo_default_branch :: "'e toolset \<Rightarrow> string \<Rightarrow> string \<Rightarrow> string \<Rightarrow> 'e world
    \<Rightarrow> (conn_err + string) \<times> 'e world" where
  "repo_default_branch ts tn o1 r w =
    (case on_env (ts_list_repos ts tn) w of
       (Inl err, w1) \<Rightarrow> (Inl err, w1)
     | (Inr repos, w1) \<Rightarrow>
         (case find (\<lambda>(ns, name, def). ns = o1 \<and> name = r \<and> def \<noteq> '''') repos of
            Some (ns, name, def) \<Rightarrow> (Inr def, w1)
          | None \<Rightarrow> (Inr '''', w1)))"

definition main_branch :: "string \<Rightarrow> string" where
  "main_branch def = (if def = '''' then ''main'' else def)"

definition tool_mr_merge :: "'e tool" where
  "tool_mr_merge ts tenant sess args w =
    with_base (session_base ts tenant sess w) (\<lambda>o1 r b w1.
      case repo_default_branch ts tenant o1 r w1 of
        (Inl err, w2) \<Rightarrow> (ToolErr (Plain (downstream ''easylab'' err)), w2)
      | (Inr def, w2) \<Rightarrow>
          (let iid = ta_str args ''iid'' in
           if b \<noteq> main_branch def
           then (ToolErr (Localized ''merge_is_only_allowed_from_the_arg_default_bra'' [main_branch def, b]), w2)
           else if iid = '''' then (ToolErr (Localized ''missing_iid'' []), w2)
           else case on_env (ts_merge_mr ts tenant o1 r iid) w2 of
             (Inl err, w3) \<Rightarrow> (ToolErr (Plain (downstream ''easylab'' err)), w3)
           | (Inr (rv, conflicts), w3) \<Rightarrow>
               (ToolOk (Localized ''merged_arg_revision_arg_arg_conflict_s'' [iid, short_id rv, dec_int conflicts])
                  [(''revision_id'', DStr rv), (''conflicts'', DInt conflicts)], w3)))"

section \<open>Subsessions\<close>

definition handoff :: "string \<Rightarrow> string \<Rightarrow> string \<Rightarrow> string" where
  "handoff prompt def branch =
    prompt @ newline @ newline
      @ ''[subsession] When the work is done, open a change request (MR) from ''
      @ ''this branch into '' @ quoted def @ '' with the '' @ quoted ''vcs-mr-create'' @ '' tool ''
      @ ''(source='' @ quoted branch @ '', target='' @ quoted def @ ''), then stop. That MR is ''
      @ ''how the result is delivered.''"

text \<open>
  The steps after every check has passed: the branch, the session, the mapping, the prompt.
\<close>

definition start_subsession :: "'e toolset \<Rightarrow> string \<Rightarrow> string \<Rightarrow> string \<Rightarrow> string \<Rightarrow> string \<Rightarrow> string \<Rightarrow> string
    \<Rightarrow> 'e world \<Rightarrow> tool_out \<times> 'e world" where
  "start_subsession ts tenant o1 r b branch prompt def w =
    (let child = naming_session o1 r branch in
     case on_env (ensure_branch (ts_env ts) tenant o1 r b branch) w of
       (Some err, w1) \<Rightarrow> (ToolErr (Plain (op_text err)), w1)
     | (None, w1) \<Rightarrow>
       (case on_env (create_repo_session (ts_env ts) o1 r branch ''build'') w1 of
          (Some err, w2) \<Rightarrow> (ToolErr (Plain (downstream ''agent'' err)), w2)
        | (None, w2) \<Rightarrow>
          (case bind_row tenant o1 r branch child (w_store w2) of
             (Some err, st) \<Rightarrow>
               (ToolErr (Plain (op_text (err_downstream ''postgres'' (op_text err)))), w2\<lparr> w_store := st \<rparr>)
           | (None, st) \<Rightarrow>
             (case agent_prompt ts child (handoff prompt def branch) (w2\<lparr> w_store := st \<rparr>) of
                (Inl err, w3) \<Rightarrow> (ToolErr (Plain (downstream ''agent'' err)), w3)
              | (Inr mid, w3) \<Rightarrow>
                  (ToolOk (Localized ''started_branch_arg_with_subsession_arg_it_is_w'' [branch, child, def])
                     [(''branch'', DStr branch), (''session'', DStr child)], w3)))))"

definition tool_subsession_create :: "'e tool" where
  "tool_subsession_create ts tenant sess args w =
    with_base (session_base ts tenant sess w) (\<lambda>o1 r b w1.
      let branch = ta_str args ''branch''; prompt = ta_str args ''prompt'' in
      if branch = '''' then (ToolErr (Localized ''missing_branch_the_new_branch_name_chosen_by_y'' []), w1)
      else if prompt = '''' then (ToolErr (Localized ''missing_prompt_the_self_contained_task'' []), w1)
      else if \<not> valid_session_component branch
      then (ToolErr (Localized ''invalid_branch_name_arg_letters_digits_only_no'' [branch]), w1)
      else case repo_default_branch ts tenant o1 r w1 of
        (Inl err, w2) \<Rightarrow> (ToolErr (Plain (downstream ''easylab'' err)), w2)
      | (Inr def, w2) \<Rightarrow>
          (if b \<noteq> main_branch def
           then (ToolErr (Localized ''subsessions_may_only_be_started_from_the_arg_d'' [main_branch def, b]), w2)
           else case on_env (get_repo_tree (ts_env ts) tenant) w2 of
             (Inl err, w3) \<Rightarrow> (ToolErr (Plain (op_text (err_downstream ''easylab'' (op_text err)))), w3)
           | (Inr tree, w3) \<Rightarrow>
               (if branch_exists tree o1 r branch
                then (ToolErr (Localized ''branch_arg_already_exists'' [branch]), w3)
                else case on_env (list_sessions (ts_env ts)) w3 of (listed, w4) \<Rightarrow>
                  (if (case listed of Inl err \<Rightarrow> False | Inr names \<Rightarrow> naming_session o1 r branch \<in> set names)
                   then (ToolErr (Localized ''a_session_for_branch_arg_already_exists'' [branch]), w4)
                   else start_subsession ts tenant o1 r b branch prompt (main_branch def) w4))))"

section \<open>The table of tools\<close>

definition repo_tool :: "string \<Rightarrow> 'e tool option" where
  "repo_tool = map_of
    [(''read'', tool_read), (''write'', tool_write), (''delete'', tool_delete), (''edit'', tool_edit),
     (''ls'', tool_ls), (''grep'', tool_grep), (''explore'', tool_explore), (''vcs-graph'', tool_graph),
     (''vcs-diff'', tool_diff), (''vcs-rebase'', tool_rebase), (''vcs-resolve'', tool_resolve),
     (''vcs-blame'', tool_blame), (''vcs-log'', tool_log), (''vcs-show'', tool_show),
     (''vcs-tag-list'', tool_tag_list), (''vcs-tag-set'', tool_tag_set), (''vcs-mr-create'', tool_mr_create),
     (''vcs-mr-list'', tool_mr_list), (''vcs-mr-comment'', tool_mr_comment),
     (''subsession-create'', tool_subsession_create), (''vcs-mr-merge'', tool_mr_merge)]"

end
