(* ===== verification/Ops_Tools.thy ===== *)
theory Ops_Tools
imports Repo_Tools Registry_Ref
begin

text \<open>
  The tools the operations extension gives an agent (\<^verbatim>\<open>internal/ext/ops\<close>): the sandbox of the
  session with its files and jobs, porting files into the repository, running workflows, searching
  images and packages, importing a repository, and deploying services.

  The gateway's services are a parameter, the record \<^verbatim>\<open>ops_env\<close>; the first argument of a call is
  the tenant stamped on it.  The extension's own state is the cache of resolved workspaces.  A
  reply that a tool prints as JSON is the text the library prints, and so is the text of an
  error; the content of an answer is a list of texts, printed one after the other.
\<close>

section \<open>Calls\<close>

datatype ops_out =
    OpsOk "tool_text list" "(string \<times> tool_data) list"
  | OpsErr tool_text
  | OpsPanic

record ops_args =
  oa_str :: "string \<Rightarrow> string"
  oa_int :: "string \<Rightarrow> int \<Rightarrow> int"
  oa_bool :: "string \<Rightarrow> bool"

record ops_ws =
  ow_org :: string
  ow_repo :: string
  ow_branch :: string
  ow_rev :: string

record container_info =
  ct_id :: string
  ct_status :: string

datatype ops_job =
    OciJob string string string
  | PublishJob string string string string

record svc_entry =
  sv_name :: string
  sv_kind :: string
  sv_session :: string
  sv_org :: string
  sv_repo :: string
  sv_ann :: "string \<Rightarrow> string"

record 'e ops_env =
  oe_now :: "'e \<Rightarrow> int"
  oe_sha :: "string \<Rightarrow> string"
  oe_timed_out :: "conn_err \<Rightarrow> bool"
  oe_branches :: "string \<Rightarrow> string \<Rightarrow> string \<Rightarrow> 'e \<Rightarrow> (conn_err + (string \<times> string) list) \<times> 'e"
  oe_write_files :: "string \<Rightarrow> string \<Rightarrow> string \<Rightarrow> string \<Rightarrow> string \<Rightarrow> (string \<times> string) list \<Rightarrow> 'e
      \<Rightarrow> (conn_err + string) \<times> 'e"
  oe_ensure_repo :: "string \<Rightarrow> string \<Rightarrow> string \<Rightarrow> 'e \<Rightarrow> conn_err option \<times> 'e"
  oe_set_mirror :: "string \<Rightarrow> string \<Rightarrow> string \<Rightarrow> string \<Rightarrow> 'e \<Rightarrow> conn_err option \<times> 'e"
  oe_get_sandbox :: "string \<Rightarrow> string \<Rightarrow> 'e \<Rightarrow> (conn_err + (string \<times> string) option) \<times> 'e"
  oe_launch :: "string \<Rightarrow> string \<Rightarrow> string \<Rightarrow> string \<Rightarrow> string \<Rightarrow> string \<Rightarrow> string \<Rightarrow> 'e
      \<Rightarrow> (conn_err + (string \<times> string) option) \<times> 'e"
  oe_sync :: "string \<Rightarrow> string \<Rightarrow> string \<Rightarrow> string \<Rightarrow> string \<Rightarrow> string \<Rightarrow> 'e \<Rightarrow> conn_err option \<times> 'e"
  oe_execute :: "string \<Rightarrow> string \<Rightarrow> string \<Rightarrow> 'e \<Rightarrow> (conn_err + string) \<times> 'e"
  oe_job_wait :: "string \<Rightarrow> string \<Rightarrow> string \<Rightarrow> int \<Rightarrow> int \<Rightarrow> 'e \<Rightarrow> (conn_err + string \<times> int) \<times> 'e"
  oe_job_output :: "string \<Rightarrow> string \<Rightarrow> string \<Rightarrow> int \<Rightarrow> int \<Rightarrow> 'e \<Rightarrow> (conn_err + string list) \<times> 'e"
  oe_list_jobs_json :: "string \<Rightarrow> string \<Rightarrow> 'e \<Rightarrow> (conn_err + string) \<times> 'e"
  oe_output_json :: "string \<Rightarrow> string \<Rightarrow> string \<Rightarrow> int \<Rightarrow> int \<Rightarrow> string \<Rightarrow> 'e \<Rightarrow> (conn_err + string) \<times> 'e"
  oe_wait_json :: "string \<Rightarrow> string \<Rightarrow> string \<Rightarrow> int \<Rightarrow> 'e \<Rightarrow> (conn_err + string) \<times> 'e"
  oe_stdin :: "string \<Rightarrow> string \<Rightarrow> string \<Rightarrow> string \<Rightarrow> bool \<Rightarrow> 'e \<Rightarrow> conn_err option \<times> 'e"
  oe_kill :: "string \<Rightarrow> string \<Rightarrow> string \<Rightarrow> 'e \<Rightarrow> conn_err option \<times> 'e"
  oe_file_read :: "string \<Rightarrow> string \<Rightarrow> string \<Rightarrow> 'e \<Rightarrow> (conn_err + string) \<times> 'e"
  oe_file_write :: "string \<Rightarrow> string \<Rightarrow> string \<Rightarrow> string \<Rightarrow> 'e \<Rightarrow> conn_err option \<times> 'e"
  oe_file_list :: "string \<Rightarrow> string \<Rightarrow> string \<Rightarrow> 'e \<Rightarrow> (conn_err + bool \<times> (string \<times> bool) list) \<times> 'e"
  oe_agent_file :: "string \<Rightarrow> string \<Rightarrow> 'e \<Rightarrow> (conn_err + string option) \<times> 'e"
  oe_create_workflow :: "string \<Rightarrow> string \<Rightarrow> string \<Rightarrow> string \<Rightarrow> string \<Rightarrow> ops_job \<Rightarrow> 'e \<Rightarrow> (conn_err + string) \<times> 'e"
  oe_trigger_run :: "string \<Rightarrow> string \<Rightarrow> 'e \<Rightarrow> (conn_err + string) \<times> 'e"
  oe_run_file :: "string \<Rightarrow> string \<Rightarrow> string \<Rightarrow> string \<Rightarrow> string \<Rightarrow> (string \<times> string) list \<Rightarrow> 'e
      \<Rightarrow> (conn_err + string \<times> string list \<times> string list) \<times> 'e"
  oe_artifact_get :: "string \<Rightarrow> string \<Rightarrow> 'e \<Rightarrow> (string + string) \<times> 'e"
  oe_query_escape :: "string \<Rightarrow> string"
  oe_package_types :: "string \<Rightarrow> 'e \<Rightarrow> (conn_err + (string \<times> int) list) \<times> 'e"
  oe_get_service :: "string \<Rightarrow> string \<Rightarrow> 'e \<Rightarrow> (conn_err + string option) \<times> 'e"
  oe_launch_service :: "string \<Rightarrow> string \<Rightarrow> string \<Rightarrow> string \<Rightarrow> (string \<times> string) list \<Rightarrow> 'e
      \<Rightarrow> conn_err option \<times> 'e"
  oe_list_services :: "string \<Rightarrow> string \<Rightarrow> 'e \<Rightarrow> (conn_err + svc_entry list) \<times> 'e"
  oe_has_vars :: bool
  oe_set_var :: "string \<Rightarrow> string \<Rightarrow> string \<Rightarrow> string \<Rightarrow> 'e \<Rightarrow> 'e"
  oe_clear_vars :: "string \<Rightarrow> string \<Rightarrow> 'e \<Rightarrow> 'e"

record 'e ops_world =
  ow_cache :: "string \<Rightarrow> (ops_ws \<times> int) option"
  ow_env :: 'e

type_synonym 'e ops_tool =
  "'e ops_env \<Rightarrow> string \<Rightarrow> string \<Rightarrow> ops_args \<Rightarrow> 'e ops_world \<Rightarrow> ops_out \<times> 'e ops_world"

definition ops_call :: "('e \<Rightarrow> 'r \<times> 'e) \<Rightarrow> 'e ops_world \<Rightarrow> 'r \<times> 'e ops_world" where
  "ops_call f w = (case f (ow_env w) of (r, e) \<Rightarrow> (r, w\<lparr> ow_env := e \<rparr>))"

section \<open>The workspace of a session\<close>

definition easylab_branch_head :: "'e ops_env \<Rightarrow> string \<Rightarrow> string \<Rightarrow> string \<Rightarrow> string \<Rightarrow> 'e ops_world
    \<Rightarrow> (string + string) \<times> 'e ops_world" where
  "easylab_branch_head ev tn org repo bm w =
    (case ops_call (oe_branches ev tn org repo) w of
       (Inl err, w1) \<Rightarrow> (Inl (''easylab branchs '' @ org @ ''/'' @ repo @ '': '' @ conn_text err), w1)
     | (Inr bs, w1) \<Rightarrow>
         (case find (\<lambda>(n, sha). n = bm) bs of
            Some (n, sha) \<Rightarrow> (Inr sha, w1)
          | None \<Rightarrow> (Inl (''branch '' @ go_quote bm @ '' not found in '' @ org @ ''/'' @ repo), w1)))"

definition cache_window :: int where
  "cache_window = 30000000000"

definition sweep_expired :: "int \<Rightarrow> (string \<Rightarrow> (ops_ws \<times> int) option) \<Rightarrow> string \<Rightarrow> (ops_ws \<times> int) option" where
  "sweep_expired now c = (\<lambda>k. case c k of None \<Rightarrow> None | Some (ws, t) \<Rightarrow> if now < t then Some (ws, t) else None)"

definition lookup_workspace :: "'e ops_env \<Rightarrow> string \<Rightarrow> string \<Rightarrow> string \<Rightarrow> string \<Rightarrow> string \<Rightarrow> 'e ops_world
    \<Rightarrow> (string + ops_ws) \<times> 'e ops_world" where
  "lookup_workspace ev tn sid org repo bm w =
    (case sweep_expired (oe_now ev (ow_env w)) (ow_cache w) sid of
       Some (ws, t) \<Rightarrow> (Inr ws, w)
     | None \<Rightarrow>
         (case easylab_branch_head ev tn org repo bm
                 (w\<lparr> ow_cache := sweep_expired (oe_now ev (ow_env w)) (ow_cache w) \<rparr>) of
            (Inl err, w1) \<Rightarrow> (Inl err, w1)
          | (Inr sha, w1) \<Rightarrow>
              (let ws = \<lparr> ow_org = org, ow_repo = repo, ow_branch = bm, ow_rev = sha \<rparr>
               in (Inr ws, w1\<lparr> ow_cache := (ow_cache w1)(sid \<mapsto> (ws, oe_now ev (ow_env w1) + cache_window)) \<rparr>))))"

definition invalidate_workspace :: "string \<Rightarrow> 'e ops_world \<Rightarrow> 'e ops_world" where
  "invalidate_workspace sid w = w\<lparr> ow_cache := (ow_cache w)(sid := None) \<rparr>"

definition resolve_workspace :: "'e ops_env \<Rightarrow> string \<Rightarrow> string \<Rightarrow> 'e ops_world
    \<Rightarrow> (string + ops_ws) \<times> 'e ops_world" where
  "resolve_workspace ev tn sess w =
    (if sess = '''' then (Inl ''missing session context (pass session_name)'', w)
     else case parse_session_name sess of
            None \<Rightarrow> (Inl (''session '' @ go_quote sess
                @ '' is not named org:repo:branch - cannot resolve its workspace (rename the session)''), w)
          | Some (org, repo, bm) \<Rightarrow> lookup_workspace ev tn sess org repo bm w)"

definition branch_or_latest :: "ops_ws \<Rightarrow> string" where
  "branch_or_latest ws = (if ow_branch ws = '''' then ''latest'' else ow_branch ws)"

section \<open>The sandbox of a session\<close>

definition worker_info :: "'e ops_env \<Rightarrow> string \<Rightarrow> string \<Rightarrow> 'e ops_world
    \<Rightarrow> (string + container_info) \<times> 'e ops_world" where
  "worker_info ev tn key w =
    (case ops_call (oe_get_sandbox ev tn key) w of
       (Inl err, w1) \<Rightarrow> (Inl (conn_text err), w1)
     | (Inr None, w1) \<Rightarrow> (Inl (''sandbox '' @ go_quote key @ '' not registered''), w1)
     | (Inr (Some (name, phase)), w1) \<Rightarrow> (Inr \<lparr> ct_id = name, ct_status = phase \<rparr>, w1))"

definition ensure_synced :: "'e ops_env \<Rightarrow> string \<Rightarrow> string \<Rightarrow> ops_ws \<Rightarrow> 'e ops_world
    \<Rightarrow> string option \<times> 'e ops_world" where
  "ensure_synced ev tn cid ws w =
    (case ops_call (oe_sync ev tn cid (ow_org ws) (ow_repo ws) (ow_rev ws) (branch_or_latest ws)) w of
       (None, w1) \<Rightarrow> (None, w1)
     | (Some err, w1) \<Rightarrow>
         if contains_sub ''not found'' (conn_text err) then (None, w1)
         else (Some (''sync: '' @ conn_text err), w1))"

definition publish_sandbox_vars :: "'e ops_env \<Rightarrow> string \<Rightarrow> string \<Rightarrow> container_info \<Rightarrow> 'e ops_world \<Rightarrow> 'e ops_world"
where
  "publish_sandbox_vars ev tenant sid info w =
    (if \<not> oe_has_vars ev then w
     else w\<lparr> ow_env := oe_set_var ev tenant sid ''sandbox-status'' (ct_status info)
                (oe_set_var ev tenant sid ''sandbox-id'' (ct_id info) (ow_env w)) \<rparr>)"

definition equal_fold :: "string \<Rightarrow> string \<Rightarrow> bool" where
  "equal_fold a b = (map lower_char a = map lower_char b)"

definition ensure_sandbox :: "'e ops_env \<Rightarrow> string \<Rightarrow> string \<Rightarrow> bool \<Rightarrow> 'e ops_world
    \<Rightarrow> (string + string \<times> ops_ws) \<times> 'e ops_world" where
  "ensure_sandbox ev tenant sess need_sync w =
    (case resolve_workspace ev tenant sess w of
       (Inl err, w1) \<Rightarrow> (Inl err, w1)
     | (Inr ws, w1) \<Rightarrow>
         (let key = session_key (oe_sha ev) tenant sess in
          case worker_info ev tenant key w1 of
            (Inl err, w2) \<Rightarrow> (Inl ''sandbox not created - call sandbox-create with an image first'', w2)
          | (Inr info, w2) \<Rightarrow>
              (if \<not> equal_fold (ct_status info) ''running''
               then (Inl (''sandbox '' @ key @ '' is '' @ ct_status info @ '' (not running)''), w2)
               else let w3 = publish_sandbox_vars ev tenant sess info w2 in
                    if \<not> need_sync then (Inr (ct_id info, ws), w3)
                    else case ensure_synced ev tenant (ct_id info) ws w3 of
                           (Some err, w4) \<Rightarrow> (Inl err, w4)
                         | (None, w4) \<Rightarrow> (Inr (ct_id info, ws), w4))))"

text \<open>What follows: an error is the call's, otherwise the rest runs on the sandbox.\<close>

definition with_sandbox :: "'e ops_env \<Rightarrow> string \<Rightarrow> string \<Rightarrow> bool \<Rightarrow> 'e ops_world
    \<Rightarrow> (string \<Rightarrow> ops_ws \<Rightarrow> 'e ops_world \<Rightarrow> ops_out \<times> 'e ops_world) \<Rightarrow> ops_out \<times> 'e ops_world" where
  "with_sandbox ev tenant sess need_sync w k =
    (case ensure_sandbox ev tenant sess need_sync w of
       (Inl err, w1) \<Rightarrow> (OpsErr (Plain err), w1)
     | (Inr (cid, ws), w1) \<Rightarrow> k cid ws w1)"

definition launch_workspace_sandbox :: "'e ops_env \<Rightarrow> string \<Rightarrow> ops_ws \<Rightarrow> string \<Rightarrow> string \<Rightarrow> string \<Rightarrow> 'e ops_world
    \<Rightarrow> (string + container_info) \<times> 'e ops_world" where
  "launch_workspace_sandbox ev tenant ws sid base_image runtime w =
    (case ops_call (oe_launch ev tenant (session_key (oe_sha ev) tenant sid) base_image runtime (ow_org ws)
            (ow_repo ws) (branch_or_latest ws)) w of
       (Inl err, w1) \<Rightarrow> (Inl (conn_text err), w1)
     | (Inr None, w1) \<Rightarrow> (Inl ''launch returned no sandbox'', w1)
     | (Inr (Some (name, phase)), w1) \<Rightarrow>
         (Inr \<lparr> ct_id = name, ct_status = phase \<rparr>, snd (ensure_synced ev tenant name ws w1)))"

definition tool_sandbox_create :: "'e ops_tool" where
  "tool_sandbox_create ev tenant sess args w =
    (let image = oa_str args ''image'';
         runtime = (if oa_str args ''runtime'' = '''' then ''linux'' else oa_str args ''runtime'') in
     if image = '''' \<and> runtime = ''linux''
     then (OpsErr (Localized ''sandbox_create_missing_image_base_image_easyla'' []), w)
     else case resolve_workspace ev tenant sess w of
       (Inl err, w1) \<Rightarrow> (OpsErr (Plain err), w1)
     | (Inr ws, w1) \<Rightarrow>
         (case launch_workspace_sandbox ev tenant ws sess image runtime w1 of
            (Inl err, w2) \<Rightarrow> (OpsErr (Localized ''sandbox_create_failed_arg'' [err]), w2)
          | (Inr info, w2) \<Rightarrow>
              (OpsOk [Localized ''created_arg_sandbox_from_arg_container_arg_sta''
                  [runtime, if image = '''' then runtime else image, ct_id info, ct_status info]] [],
               publish_sandbox_vars ev tenant sess info w2)))"

section \<open>Running commands\<close>

record job_done =
  jd_exit :: int
  jd_stdout :: string
  jd_bg :: bool

definition job_reply :: "'e ops_env \<Rightarrow> string \<Rightarrow> string \<Rightarrow> string \<Rightarrow> int \<Rightarrow> bool \<Rightarrow> 'e ops_world
    \<Rightarrow> (string + string \<times> job_done) \<times> 'e ops_world" where
  "job_reply ev tn cid job code bg w =
    (case ops_call (oe_job_output ev tn cid job (- 200) 0) w of
       (out, w1) \<Rightarrow>
         (Inr (job, \<lparr> jd_exit = code, jd_stdout = (case out of Inl _ \<Rightarrow> '''' | Inr ls \<Rightarrow> join_with newline ls),
                      jd_bg = bg \<rparr>), w1))"

definition run_via_gateway :: "'e ops_env \<Rightarrow> string \<Rightarrow> string \<Rightarrow> string \<Rightarrow> int \<Rightarrow> 'e ops_world
    \<Rightarrow> (string + string \<times> job_done) \<times> 'e ops_world" where
  "run_via_gateway ev tn cid command timeout w =
    (case ops_call (oe_execute ev tn cid command) w of
       (Inl err, w1) \<Rightarrow> (Inl (conn_text err), w1)
     | (Inr job, w1) \<Rightarrow>
         (case ops_call (oe_job_wait ev tn cid job (int32_of timeout) (int64_of (timeout * 1000000))) w1 of
            (Inl err, w2) \<Rightarrow>
              (if \<not> oe_timed_out ev err then (Inl (conn_text err), w2)
               else job_reply ev tn cid job 0 True w2)
          | (Inr (state, code), w2) \<Rightarrow> job_reply ev tn cid job code False w2))"

definition run_timeout :: "ops_args \<Rightarrow> int" where
  "run_timeout args = (let t = oa_int args ''timeout-ms'' 10000 in if t \<le> 0 then 10000 else t)"

definition tool_sandbox_run :: "'e ops_tool" where
  "tool_sandbox_run ev tenant sess args w =
    (let command = oa_str args ''command''; timeout = run_timeout args in
     if command = '''' then (OpsErr (Localized ''sandbox_run_missing_command'' []), w)
     else with_sandbox ev tenant sess True w (\<lambda>cid ws w1.
       case ensure_synced ev tenant cid ws w1 of
         (Some err, w2) \<Rightarrow> (OpsErr (Localized ''sandbox_run_sync_failed_arg'' [err]), w2)
       | (None, w2) \<Rightarrow>
           (case run_via_gateway ev tenant cid command timeout w2 of
              (Inl err, w3) \<Rightarrow> (OpsErr (Localized ''sandbox_run_failed_arg'' [err]), w3)
            | (Inr (job, d), w3) \<Rightarrow>
                (OpsOk
                   ((if jd_bg d
                     then Localized ''job_arg_still_running_in_background_wait_window_argms_elapsed_drive_it_via_job_id''
                            [job, dec_int timeout]
                     else Localized ''command_completed_job_arg_exit_arg'' [job, dec_int (jd_exit d)])
                    # (if jd_stdout d = '''' then [] else [Plain (newline @ jd_stdout d)]))
                   [(''job-id'', DStr job), (''exit_code'', DInt (jd_exit d)), (''backgrounded'', DBool (jd_bg d))],
                 w3))))"

section \<open>Files and jobs of the sandbox\<close>

definition tool_sandbox_read :: "'e ops_tool" where
  "tool_sandbox_read ev tenant sess args w =
    with_sandbox ev tenant sess True w (\<lambda>cid ws w1.
      case ops_call (oe_file_read ev tenant cid (oa_str args ''path'')) w1 of
        (Inl err, w2) \<Rightarrow> (OpsErr (Localized ''sandbox_read_failed_arg'' [conn_text err]), w2)
      | (Inr data, w2) \<Rightarrow> (OpsOk [Plain data] [], w2))"

definition fetch_agent_file :: "'e ops_env \<Rightarrow> string \<Rightarrow> string \<Rightarrow> 'e ops_world
    \<Rightarrow> (string + string) \<times> 'e ops_world" where
  "fetch_agent_file ev tn code w =
    (case ops_call (oe_agent_file ev tn code) w of
       (Inl err, w1) \<Rightarrow> (Inl (''agent GetFile '' @ go_quote code @ '': '' @ conn_text err), w1)
     | (Inr None, w1) \<Rightarrow> (Inl (''file not found: '' @ code), w1)
     | (Inr (Some data), w1) \<Rightarrow> (Inr data, w1))"

definition tool_sandbox_download :: "'e ops_tool" where
  "tool_sandbox_download ev tenant sess args w =
    (let code = oa_str args ''code''; path = oa_str args ''path'' in
     if code = '''' \<or> path = '''' then (OpsErr (Localized ''sandbox_download_code_and_path_are_required'' []), w)
     else with_sandbox ev tenant sess False w (\<lambda>cid ws w1.
       case fetch_agent_file ev tenant code w1 of
         (Inl err, w2) \<Rightarrow> (OpsErr (Localized ''sandbox_download_download_arg_arg'' [code, err]), w2)
       | (Inr data, w2) \<Rightarrow>
           (case ops_call (oe_file_write ev tenant cid path data) w2 of
              (Some err, w3) \<Rightarrow> (OpsErr (Localized ''sandbox_download_failed_arg'' [conn_text err]), w3)
            | (None, w3) \<Rightarrow>
                (OpsOk [Localized ''downloaded_file_arg_sandbox_path_arg_arg_bytes''
                   [code, path, dec_nat (length data)]] [], w3))))"

definition tool_sandbox_write :: "'e ops_tool" where
  "tool_sandbox_write ev tenant sess args w =
    with_sandbox ev tenant sess False w (\<lambda>cid ws w1.
      let path = oa_str args ''path'' in
      case ops_call (oe_file_write ev tenant cid path (oa_str args ''content'')) w1 of
        (Some err, w2) \<Rightarrow> (OpsErr (Localized ''sandbox_write_failed_arg'' [conn_text err]), w2)
      | (None, w2) \<Rightarrow> (OpsOk [Localized ''wrote_sandbox_file_arg'' [path]] [], w2))"

definition sandbox_edit :: "'e ops_env \<Rightarrow> string \<Rightarrow> string \<Rightarrow> string \<Rightarrow> int \<Rightarrow> int \<Rightarrow> string \<Rightarrow> 'e ops_world
    \<Rightarrow> ops_out \<times> 'e ops_world" where
  "sandbox_edit ev tn cid path start_line end_line content w =
    (case ops_call (oe_file_read ev tn cid path) w of
       (Inl err, w1) \<Rightarrow> (OpsErr (Localized ''sandbox_edit_read_failed_arg'' [conn_text err]), w1)
     | (Inr data, w1) \<Rightarrow>
         (case sandbox_edit_text data start_line end_line content of
            Edited body \<Rightarrow>
              (case ops_call (oe_file_write ev tn cid path body) w1 of
                 (Some err, w2) \<Rightarrow> (OpsErr (Localized ''sandbox_edit_write_failed_arg'' [conn_text err]), w2)
               | (None, w2) \<Rightarrow> (OpsOk [Localized ''edited_sandbox_file_arg'' [path]] [], w2))
          | EditError m \<Rightarrow> (OpsErr (Plain m), w1)
          | EditPanic \<Rightarrow> (OpsPanic, w1)))"

definition tool_sandbox_edit :: "'e ops_tool" where
  "tool_sandbox_edit ev tenant sess args w =
    with_sandbox ev tenant sess True w (\<lambda>cid ws w1.
      sandbox_edit ev tenant cid (oa_str args ''path'') (oa_int args ''start-line'' 0) (oa_int args ''end-line'' 0)
        (oa_str args ''content'') w1)"

definition tool_job_list :: "'e ops_tool" where
  "tool_job_list ev tenant sess args w =
    with_sandbox ev tenant sess False w (\<lambda>cid ws w1.
      case ops_call (oe_list_jobs_json ev tenant cid) w1 of
        (Inl err, w2) \<Rightarrow> (OpsErr (Localized ''sandbox_job_list_failed_arg'' [conn_text err]), w2)
      | (Inr json, w2) \<Rightarrow> (OpsOk [Plain json] [], w2))"

definition tool_job_output :: "'e ops_tool" where
  "tool_job_output ev tenant sess args w =
    with_sandbox ev tenant sess False w (\<lambda>cid ws w1.
      case ops_call (oe_output_json ev tenant cid (oa_str args ''job-id'') (oa_int args ''start'' 0)
              (oa_int args ''end'' 0) (oa_str args ''stream'')) w1 of
        (Inl err, w2) \<Rightarrow> (OpsErr (Localized ''sandbox_job_output_failed_arg'' [conn_text err]), w2)
      | (Inr json, w2) \<Rightarrow> (OpsOk [Plain json] [], w2))"

definition tool_job_wait :: "'e ops_tool" where
  "tool_job_wait ev tenant sess args w =
    with_sandbox ev tenant sess False w (\<lambda>cid ws w1.
      case ops_call (oe_wait_json ev tenant cid (oa_str args ''job-id'') (oa_int args ''timeout-ms'' 0)) w1 of
        (Inl err, w2) \<Rightarrow> (OpsErr (Localized ''sandbox_job_wait_failed_arg'' [conn_text err]), w2)
      | (Inr json, w2) \<Rightarrow> (OpsOk [Plain json] [], w2))"

definition json_ok :: string where
  "json_ok = ''{'' @ [CHR 0x22] @ ''ok'' @ [CHR 0x22] @ '':true}''"

definition tool_job_stdin :: "'e ops_tool" where
  "tool_job_stdin ev tenant sess args w =
    with_sandbox ev tenant sess False w (\<lambda>cid ws w1.
      case ops_call (oe_stdin ev tenant cid (oa_str args ''job-id'') (oa_str args ''data'') (oa_bool args ''close'')) w1 of
        (Some err, w2) \<Rightarrow> (OpsErr (Localized ''sandbox_job_stdin_failed_arg'' [conn_text err]), w2)
      | (None, w2) \<Rightarrow> (OpsOk [Plain json_ok] [], w2))"

definition tool_job_kill :: "'e ops_tool" where
  "tool_job_kill ev tenant sess args w =
    with_sandbox ev tenant sess False w (\<lambda>cid ws w1.
      case ops_call (oe_kill ev tenant cid (oa_str args ''job-id'')) w1 of
        (Some err, w2) \<Rightarrow> (OpsErr (Localized ''sandbox_job_kill_failed_arg'' [conn_text err]), w2)
      | (None, w2) \<Rightarrow> (OpsOk [Plain json_ok] [], w2))"

section \<open>Porting files into the repository\<close>

text \<open>
  The files under a path of the sandbox, as the port tool sees them: a path, and the base64 text of
  the content.  The listing carries no content, so there is none in any of them.
\<close>

record ported_file =
  pf_path :: string
  pf_content :: "string option"

definition sandbox_files :: "(string \<times> bool) list \<Rightarrow> ported_file list" where
  "sandbox_files entries = map (\<lambda>(path, is_dir). \<lparr> pf_path = path, pf_content = None \<rparr>) entries"

definition trim_slashes_right :: "string \<Rightarrow> string" where
  "trim_slashes_right s = rev (dropWhile (\<lambda>c. c = CHR ''/'') (rev s))"

definition port_target :: "string \<Rightarrow> string \<Rightarrow> string" where
  "port_target repo_path rel =
    (if repo_path = '''' \<or> has_suffix ''/'' repo_path then trim_slashes_right repo_path @ ''/'' @ rel
     else repo_path @ ''/'' @ rel)"

definition port_change :: "(string \<Rightarrow> string) \<Rightarrow> string \<Rightarrow> ported_file \<Rightarrow> string \<times> string" where
  "port_change decode repo_path f =
    (port_target repo_path (pf_path f), case pf_content f of None \<Rightarrow> decode '''' | Some b \<Rightarrow> decode b)"

definition port_write :: "'e ops_env \<Rightarrow> string \<Rightarrow> ops_ws \<Rightarrow> string \<Rightarrow> (string \<times> string) list \<Rightarrow> 'e ops_world
    \<Rightarrow> (conn_err + string) \<times> 'e ops_world" where
  "port_write ev tn ws message changes w =
    ops_call (oe_write_files ev tn (ow_org ws) (ow_repo ws) (branch_or_latest ws) message changes) w"

text \<open>The decoder of base64 text reads the empty text as empty and so does the code on bad text.\<close>

definition port_file :: "'e ops_env \<Rightarrow> (string \<Rightarrow> string) \<Rightarrow> string \<Rightarrow> string \<Rightarrow> ops_ws \<Rightarrow> ops_args \<Rightarrow> 'e ops_world
    \<Rightarrow> ops_out \<times> 'e ops_world" where
  "port_file ev decode tn cid ws args w =
    (let src = oa_str args ''sandbox-path''; dst = oa_str args ''repo-path'';
         message = (if oa_str args ''message'' = '''' then ''port '' @ src else oa_str args ''message'') in
     case ops_call (oe_file_list ev tn cid src) w of
       (Inl err, w1) \<Rightarrow> (OpsErr (Localized ''port_sandbox_stat_failed_arg'' [conn_text err]), w1)
     | (Inr (is_dir, entries), w1) \<Rightarrow>
         (if \<not> is_dir then
            (case ops_call (oe_file_read ev tn cid src) w1 of
               (Inl err, w2) \<Rightarrow> (OpsErr (Localized ''port_sandbox_read_failed_arg'' [conn_text err]), w2)
             | (Inr data, w2) \<Rightarrow>
                 (case port_write ev tn ws message [(dst, data)] w2 of
                    (Inl err, w3) \<Rightarrow> (OpsErr (Localized ''port_write_failed_arg'' [conn_text err]), w3)
                  | (Inr change, w3) \<Rightarrow>
                      (OpsOk [Localized ''ported_arg_to_repo_arg_change_arg'' [src, dst, short_id change]] [], w3)))
          else
            (case ops_call (oe_file_list ev tn cid src) w1 of
               (Inl err, w2) \<Rightarrow> (OpsErr (Localized ''port_sandbox_list_failed_arg'' [conn_text err]), w2)
             | (Inr (_, listed), w2) \<Rightarrow>
                 (let files = sandbox_files listed in
                  if files = [] then (OpsErr (Localized ''port_sandbox_directory_arg_is_empty'' [src]), w2)
                  else case port_write ev tn ws message (map (port_change decode dst) files) w2 of
                    (Inl err, w3) \<Rightarrow> (OpsErr (Localized ''port_commit_write_failed_arg'' [conn_text err]), w3)
                  | (Inr change, w3) \<Rightarrow>
                      (OpsOk [Localized ''ported_directory_arg_to_repo_arg_arg_file_s_change_arg''
                         [src, dst, dec_nat (length files), short_id change]] [], w3)))))"

definition tool_sandbox_port :: "(string \<Rightarrow> string) \<Rightarrow> 'e ops_tool" where
  "tool_sandbox_port decode ev tenant sess args w =
    with_sandbox ev tenant sess False w (\<lambda>cid ws w1.
      case port_file ev decode tenant cid ws args w1 of
        (OpsOk c d, w2) \<Rightarrow> (OpsOk c d, invalidate_workspace sess w2)
      | (other, w2) \<Rightarrow> (other, w2))"

section \<open>Variables\<close>

text \<open>
  The resolvers of the two variables are given no tagged context, so their calls carry no tenant,
  though the key is the tenant's.
\<close>

definition resolve_sandbox_status :: "'e ops_env \<Rightarrow> string \<Rightarrow> string \<Rightarrow> 'e ops_world
    \<Rightarrow> (string + string) \<times> 'e ops_world" where
  "resolve_sandbox_status ev tenant sess w =
    (case worker_info ev '''' (session_key (oe_sha ev) tenant sess) w of
       (Inl err, w1) \<Rightarrow> (Inl err, w1)
     | (Inr info, w1) \<Rightarrow> (Inr (if ct_status info = '''' then ''not-created'' else ct_status info), w1))"

definition resolve_sandbox_id :: "'e ops_env \<Rightarrow> string \<Rightarrow> string \<Rightarrow> 'e ops_world
    \<Rightarrow> (string + string) \<times> 'e ops_world" where
  "resolve_sandbox_id ev tenant sess w =
    (case worker_info ev '''' (session_key (oe_sha ev) tenant sess) w of
       (Inl err, w1) \<Rightarrow> (Inl err, w1)
     | (Inr info, w1) \<Rightarrow> (Inr (if ct_id info = '''' then ''not-created'' else ct_id info), w1))"

definition on_deleted :: "'e ops_env \<Rightarrow> string \<Rightarrow> string \<Rightarrow> string \<Rightarrow> 'e ops_world \<Rightarrow> 'e ops_world" where
  "on_deleted ev kind tenant sess w =
    (if kind = ''deleted'' \<and> oe_has_vars ev then w\<lparr> ow_env := oe_clear_vars ev tenant sess (ow_env w) \<rparr> else w)"

section \<open>Workflows, images, packages and repositories\<close>


text \<open>
  The configuration of the process: the address of the artifact registry, the host of images, and
  the namespace of deployments.
\<close>

record ops_config =
  oc_artifact :: string
  oc_host :: string
  oc_namespace :: string

definition preset_job :: "ops_config \<Rightarrow> ops_args \<Rightarrow> string \<Rightarrow> string \<Rightarrow> tool_text + ops_job" where
  "preset_job cf args preset branch =
    (if preset = ''container-build'' then
       (let img = oa_str args ''tag''; tag = oa_str args ''image-tag'' in
        if img = '''' then Inl (Localized ''ci_run_preset_container_build_requires_tag'' [])
        else Inr (OciJob (ref_join (oc_host cf) (img @ '':'' @ (if tag = '''' then branch else tag)))
                    (oa_str args ''dockerfile-path'') (oa_str args ''context'')))
     else if has_suffix ''-publish'' preset then
       (let protocol = oa_str args ''protocol'' in
        Inr (PublishJob (if protocol = '''' then trim_suffix ''-publish'' preset else protocol)
               (oa_str args ''name'') (oa_str args ''version'') (oa_str args ''file'')))
     else Inl (Localized ''ci_run_unknown_preset_arg_container_build_prot'' [preset]))"

definition job_tag :: "ops_job \<Rightarrow> string" where
  "job_tag j = (case j of OciJob tag d c \<Rightarrow> tag | PublishJob p n v f \<Rightarrow> '''')"

definition run_preset :: "ops_config \<Rightarrow> 'e ops_env \<Rightarrow> string \<Rightarrow> ops_args \<Rightarrow> string \<Rightarrow> string \<Rightarrow> string \<Rightarrow> string
    \<Rightarrow> 'e ops_world \<Rightarrow> ops_out \<times> 'e ops_world" where
  "run_preset cf ev tn args preset org repo branch w =
    (case preset_job cf args preset branch of
       Inl m \<Rightarrow> (OpsErr m, w)
     | Inr job \<Rightarrow>
         (case ops_call (oe_create_workflow ev tn (preset @ ''-'' @ short_id (dec_int (oe_now ev (ow_env w))))
                 org repo branch job) w of
            (Inl err, w1) \<Rightarrow> (OpsErr (Localized ''ci_run_workflow_failed_arg'' [conn_text err]), w1)
          | (Inr wid, w1) \<Rightarrow>
              (case ops_call (oe_trigger_run ev tn wid) w1 of
                 (Inl err, w2) \<Rightarrow> (OpsErr (Localized ''ci_run_trigger_failed_arg'' [conn_text err]), w2)
               | (Inr rid, w2) \<Rightarrow>
                   (OpsOk [Localized ''ci_launched_preset_arg_run_arg_arg''
                      [preset, rid, if job_tag job = '''' then '''' else '', image '' @ job_tag job]]
                      [(''run_id'', DStr rid), (''workflow_id'', DStr wid), (''preset'', DStr preset)], w2))))"

definition preset_args :: "ops_args \<Rightarrow> (string \<times> string) list" where
  "preset_args args =
    filter (\<lambda>(k, v). v \<noteq> '''')
      [(''name'', oa_str args ''name_arg''), (''version'', oa_str args ''version_arg''),
       (''file'', oa_str args ''file_arg'')]"

definition run_workflow_named :: "'e ops_env \<Rightarrow> string \<Rightarrow> ops_args \<Rightarrow> string \<Rightarrow> string \<Rightarrow> string \<Rightarrow> string
    \<Rightarrow> 'e ops_world \<Rightarrow> ops_out \<times> 'e ops_world" where
  "run_workflow_named ev tn args name org repo branch w =
    (case ops_call (oe_run_file ev tn org repo branch name (preset_args args)) w of
       (Inl err, w1) \<Rightarrow> (OpsErr (Localized ''ci_run_failed_arg'' [conn_text err]), w1)
     | (Inr (problem, ids, skipped), w1) \<Rightarrow>
         (if problem \<noteq> '''' then (OpsErr (Localized ''ci_run_arg'' [problem]), w1)
          else (OpsOk (Localized ''launched_arg_run_s_from_easylab_workflows_yaml_arg''
                    [dec_nat (length ids), join_with '', '' ids]
                  # (if skipped = [] then [] else [Localized ''skipped_arg'' [join_with '', '' skipped]]))
                  [(''run_ids'', DList (map DStr ids))], w1)))"

definition ci_target :: "'e ops_env \<Rightarrow> string \<Rightarrow> string \<Rightarrow> ops_args \<Rightarrow> 'e ops_world
    \<Rightarrow> (string + string \<times> string \<times> string) \<times> 'e ops_world" where
  "ci_target ev tenant sess args w =
    (let org = oa_str args ''org''; repo = oa_str args ''repo''; branch = oa_str args ''branch'' in
     if org = '''' \<or> repo = '''' \<or> branch = '''' then
       (case resolve_workspace ev tenant sess w of
          (Inl err, w1) \<Rightarrow> (Inl err, w1)
        | (Inr ws, w1) \<Rightarrow>
            (Inr (if org = '''' then ow_org ws else org, if repo = '''' then ow_repo ws else repo,
                  branch_or_main (if branch = '''' then ow_branch ws else branch)), w1))
     else (Inr (org, repo, branch_or_main branch), w))"

definition tool_ci_run :: "ops_config \<Rightarrow> 'e ops_tool" where
  "tool_ci_run cf ev tenant sess args w =
    (case ci_target ev tenant sess args w of
       (Inl err, w1) \<Rightarrow> (OpsErr (Plain err), w1)
     | (Inr (org, repo, branch), w1) \<Rightarrow>
         (if oa_str args ''preset'' \<noteq> ''''
          then run_preset cf ev tenant args (oa_str args ''preset'') org repo branch w1
          else run_workflow_named ev tenant args (oa_str args ''workflow'') org repo branch w1))"

definition tool_container_search :: "ops_config \<Rightarrow> 'e ops_tool" where
  "tool_container_search cf ev tenant sess args w =
    (let repo = oa_str args ''repo'';
         url = oc_artifact cf @ ''/v2/_catalog'' @ (if repo = '''' then '''' else ''?repo='' @ oe_query_escape ev repo) in
     case ops_call (oe_artifact_get ev tenant url) w of
       (Inl err, w1) \<Rightarrow> (OpsErr (Localized ''container_search_failed_arg'' [err]), w1)
     | (Inr json, w1) \<Rightarrow> (OpsOk [Plain json] [], w1))"

definition tool_package_search :: "'e ops_tool" where
  "tool_package_search ev tenant sess args w =
    (case ops_call (oe_package_types ev tenant) w of
       (Inl err, w1) \<Rightarrow> (OpsErr (Localized ''package_search_failed_arg'' [conn_text err]), w1)
     | (Inr types, w1) \<Rightarrow>
         (let proto = oa_str args ''protocol'';
              v = join_with newline (map (\<lambda>(t, n). t @ '': '' @ dec_int n @ '' packages'')
                    (filter (\<lambda>(t, n). proto = '''' \<or> t = proto) types))
          in (OpsOk [Plain (if v = '''' then ''no packages found'' else v)] [], w1)))"

definition infer_repo :: "string \<Rightarrow> string" where
  "infer_repo u =
    (let s = trim_suffix ''.git'' (trim_slashes_right (trim_space u))
     in case cut_last CHR ''/'' s of None \<Rightarrow> s | Some (a, b) \<Rightarrow> b)"

definition tool_pull_git_repo :: "'e ops_tool" where
  "tool_pull_git_repo ev tenant sess args w =
    (let url = oa_str args ''git-url''; repo = infer_repo url;
         org = (if oa_str args ''org'' = '''' then ''external'' else oa_str args ''org'') in
     if url = '''' then (OpsErr (Localized ''pull_git_repo_missing_git_url'' []), w)
     else if repo = '''' then (OpsErr (Localized ''cannot_infer_repo_name_from_arg'' [url]), w)
     else case ops_call (oe_ensure_repo ev tenant org repo) w of (made, w1) \<Rightarrow>
       (if made \<noteq> None \<and> code_of (the made) \<noteq> AlreadyExists \<and> code_of (the made) \<noteq> InvalidArgument
        then (OpsErr (Localized ''create_repo_failed_arg'' [conn_text (the made)]), w1)
        else case ops_call (oe_set_mirror ev tenant org repo url) w1 of
               (Some err, w2) \<Rightarrow> (OpsErr (Localized ''set_mirror_failed_arg'' [conn_text err]), w2)
             | (None, w2) \<Rightarrow>
                 (OpsOk [Localized ''mirroring_arg_arg_from_arg_pull_scheduled'' [org, repo, url]] [], w2)))"

section \<open>Services\<close>

text \<open>
  The texts between the filters: none, a listing whose list is null, or a listing.  A filter
  that keeps nothing writes null, which the next filter does not take for a listing.
\<close>

datatype svc_body = NoText | NullList | Listed "svc_entry list"

definition relist :: "svc_entry list \<Rightarrow> svc_body" where
  "relist xs = (if xs = [] then NullList else Listed xs)"

definition session_matches :: "(string \<Rightarrow> string) \<Rightarrow> string \<Rightarrow> svc_entry \<Rightarrow> bool" where
  "session_matches sha sess x =
    (let l = (if sv_session x \<noteq> '''' then sv_session x else sv_ann x ''easylab/session'')
     in l = sess \<or> l = label_key sha sess)"

definition filter_by_session :: "(string \<Rightarrow> string) \<Rightarrow> svc_body \<Rightarrow> string \<Rightarrow> svc_body" where
  "filter_by_session sha body sess =
    (case body of Listed xs \<Rightarrow> relist (filter (session_matches sha sess) xs) | _ \<Rightarrow> NoText)"

definition extra_matches :: "(string \<Rightarrow> string) \<Rightarrow> string \<Rightarrow> string \<Rightarrow> string \<Rightarrow> svc_entry \<Rightarrow> bool" where
  "extra_matches sha org repo kind x =
    (let g_org = (if sv_org x = '''' then sv_ann x ''easylab/org'' else sv_org x);
         g_repo = (if sv_repo x = '''' then sv_ann x ''easylab/repo'' else sv_repo x) in
     (kind = '''' \<or> sv_kind x = kind)
       \<and> (org = '''' \<or> g_org = org \<or> g_org = label_key sha org)
       \<and> (repo = '''' \<or> g_repo = repo \<or> g_repo = label_key sha repo))"

definition filter_by_extra :: "(string \<Rightarrow> string) \<Rightarrow> svc_body \<Rightarrow> string \<Rightarrow> string \<Rightarrow> string \<Rightarrow> svc_body" where
  "filter_by_extra sha body org repo kind =
    (case body of Listed xs \<Rightarrow> relist (filter (extra_matches sha org repo kind) xs) | _ \<Rightarrow> NoText)"

definition tool_service_list :: "'e ops_env \<Rightarrow> string \<Rightarrow> string \<Rightarrow> ops_args \<Rightarrow> 'e ops_world
    \<Rightarrow> (tool_text + svc_body) \<times> 'e ops_world" where
  "tool_service_list ev tenant sess args w =
    (case ops_call (oe_list_services ev tenant (oa_str args ''namespace'')) w of
       (Inl err, w1) \<Rightarrow> (Inl (Localized ''service_list_failed_arg'' [conn_text err]), w1)
     | (Inr xs, w1) \<Rightarrow>
         (let org = oa_str args ''org''; repo = oa_str args ''repo''; kind = oa_str args ''kind'';
              body = Listed (map (\<lambda>x. x\<lparr> sv_ann := (\<lambda>_. '''') \<rparr>) xs);
              own = (if \<not> oa_bool args ''all'' \<and> sess \<noteq> '''' \<and> parse_session_name sess \<noteq> None
                        \<and> filter_by_session (oe_sha ev) body sess \<noteq> NoText
                     then filter_by_session (oe_sha ev) body sess else body)
          in (Inr (if org \<noteq> '''' \<or> repo \<noteq> '''' \<or> kind \<noteq> ''''
                   then filter_by_extra (oe_sha ev) own org repo kind else own), w1)))"

definition fetch_service :: "'e ops_env \<Rightarrow> string \<Rightarrow> string \<Rightarrow> 'e ops_world
    \<Rightarrow> (conn_err + string option) \<times> 'e ops_world" where
  "fetch_service ev tn name w =
    (case ops_call (oe_get_service ev tn name) w of
       (Inl err, w1) \<Rightarrow> (if code_of err = NotFound then (Inr None, w1) else (Inl err, w1))
     | (Inr found, w1) \<Rightarrow> (Inr found, w1))"

definition deploy_name :: "(string \<Rightarrow> string) \<Rightarrow> ops_args \<Rightarrow> string \<times> string \<times> string \<Rightarrow> string" where
  "deploy_name sha args t =
    (case t of (org, repo, bm) \<Rightarrow>
      let asked = oa_str args ''name'';
          name = (if asked = '''' \<and> org \<noteq> '''' \<and> repo \<noteq> '''' \<and> bm \<noteq> ''''
                  then k8s_service_name sha org repo bm else asked)
      in if name = '''' then ''app'' else name)"

definition deploy_annotations :: "string \<Rightarrow> string \<Rightarrow> string \<Rightarrow> (string \<times> string) list" where
  "deploy_annotations sess org repo =
    filter (\<lambda>(k, v). v \<noteq> '''') [(''easylab/session'', sess), (''easylab/org'', org), (''easylab/repo'', repo)]"

text \<open>
  The environment and the resources of the call are put into a map that is not sent, so they do not
  appear.
\<close>

definition deploy_launch :: "ops_config \<Rightarrow> 'e ops_env \<Rightarrow> string \<Rightarrow> string \<Rightarrow> ops_args \<Rightarrow> string \<Rightarrow> string \<Rightarrow> string
    \<Rightarrow> string \<Rightarrow> 'e ops_world \<Rightarrow> ops_out \<times> 'e ops_world" where
  "deploy_launch cf ev tn sess args org repo bm name w =
    (let img = ref_local (oa_str args ''image'') (oc_host cf) bm;
         host = name @ ''.'' @ oc_namespace cf @ ''.svc.cluster.local'' in
     case ops_call (oe_launch_service ev tn name img (oc_namespace cf) (deploy_annotations sess org repo)) w of
       (Some err, w1) \<Rightarrow> (OpsErr (Localized ''service_deploy_failed_arg'' [conn_text err]), w1)
     | (None, w1) \<Rightarrow>
         (OpsOk [Localized ''deployed_arg_from_arg_in_cluster_address_http_'' [name, img, host, ''unknown'']]
            [(''name'', DStr name), (''image'', DStr img), (''svc'', DStr host),
             (''url'', DStr (''http://'' @ host @ '':80'')), (''ready'', DStr ''unknown'')], w1))"

definition tool_service_deploy :: "ops_config \<Rightarrow> 'e ops_tool" where
  "tool_service_deploy cf ev tenant sess args w =
    (let (org, repo, bm) = (case parse_session_name sess of Some t \<Rightarrow> t | None \<Rightarrow> ('''', '''', ''''));
         name = deploy_name (oe_sha ev) args (org, repo, bm) in
     case fetch_service ev tenant name w of (existing, w1) \<Rightarrow>
       (case existing of
          Inr (Some owner) \<Rightarrow>
            if owner \<noteq> '''' \<and> owner \<noteq> sess
            then (OpsErr (Localized ''service_arg_belongs_to_a_different_session_arg'' [name, owner]), w1)
            else deploy_launch cf ev tenant sess args org repo bm name w1
        | _ \<Rightarrow> deploy_launch cf ev tenant sess args org repo bm name w1))"

section \<open>The table of tools\<close>

definition ops_tools :: "ops_config \<Rightarrow> (string \<Rightarrow> string) \<Rightarrow> (string \<times> 'e ops_tool) list" where
  "ops_tools cf decode =
    [(''sandbox-create'', tool_sandbox_create), (''sandbox-run'', tool_sandbox_run),
     (''sandbox-read'', tool_sandbox_read), (''sandbox-download'', tool_sandbox_download),
     (''sandbox-write'', tool_sandbox_write), (''sandbox-edit'', tool_sandbox_edit),
     (''sandbox-job-list'', tool_job_list), (''sandbox-job-output'', tool_job_output),
     (''sandbox-job-wait'', tool_job_wait), (''sandbox-job-stdin'', tool_job_stdin),
     (''sandbox-job-kill'', tool_job_kill), (''sandbox-port'', tool_sandbox_port decode),
     (''ci-run'', tool_ci_run cf), (''container-search'', tool_container_search cf),
     (''package-search'', tool_package_search), (''pull-git-repo'', tool_pull_git_repo),
     (''service-deploy'', tool_service_deploy cf)]"

end
