(* ===== verification/Ops_Tools_Correct.thy ===== *)
theory Ops_Tools_Correct
imports Ops_Tools
begin

text \<open>
  What the operations tools promise: the sandbox tools reach no sandbox but the session's own and no
  repository but the session's; what porting a directory commits; how long and to whom a resolved
  workspace is answered from the cache; and what guards a deployment.
\<close>

lemmas sandbox_tool_defs = tool_sandbox_create_def tool_sandbox_run_def tool_sandbox_read_def
  tool_sandbox_download_def tool_sandbox_write_def tool_sandbox_edit_def tool_job_list_def
  tool_job_output_def tool_job_wait_def tool_job_stdin_def tool_job_kill_def tool_sandbox_port_def

section \<open>The cache of workspaces\<close>

definition cache_ok :: "'e ops_world \<Rightarrow> bool" where
  "cache_ok w \<longleftrightarrow> (\<forall>sid ws t. ow_cache w sid = Some (ws, t) \<longrightarrow>
    parse_session_name sid = Some (ow_org ws, ow_repo ws, ow_branch ws))"

lemma ops_call_cache: "ops_call f w = (x, w') \<Longrightarrow> ow_cache w' = ow_cache w"
  by (auto simp: ops_call_def split: prod.splits)

lemma ops_call_ok: "ops_call f w = (x, w') \<Longrightarrow> cache_ok w' = cache_ok w"
  by (simp add: cache_ok_def ops_call_cache)

lemma sweep_Some: "sweep_expired now c k = Some (ws, t) \<longleftrightarrow> c k = Some (ws, t) \<and> now < t"
  by (auto simp: sweep_expired_def split: option.splits if_splits)

lemma branch_head_cache:
  "easylab_branch_head ev tn org repo bm w = (x, w') \<Longrightarrow> ow_cache w' = ow_cache w"
  by (auto simp: easylab_branch_head_def split: prod.splits sum.splits option.splits dest: ops_call_cache)

text \<open>A lookup answers a workspace of the named triple and keeps the cache well formed.\<close>

lemma lookup_workspace_ok:
  assumes "cache_ok w" "parse_session_name sid = Some (org, repo, bm)"
    and "lookup_workspace ev tn sid org repo bm w = (x, w')"
  shows "cache_ok w' \<and> (\<forall>ws. x = Inr ws \<longrightarrow> ow_org ws = org \<and> ow_repo ws = repo \<and> ow_branch ws = bm)"
proof (cases "sweep_expired (oe_now ev (ow_env w)) (ow_cache w) sid")
  case (Some e)
  obtain ws t where "e = (ws, t)" by (cases e)
  with Some have hit: "sweep_expired (oe_now ev (ow_env w)) (ow_cache w) sid = Some (ws, t)" by simp
  then have "x = Inr ws" "w' = w" using assms(3) by (simp_all add: lookup_workspace_def)
  moreover have "ow_cache w sid = Some (ws, t)" using hit by (simp add: sweep_Some)
  ultimately show ?thesis using assms(1,2) unfolding cache_ok_def by fastforce
next
  case None
  let ?w0 = "w\<lparr> ow_cache := sweep_expired (oe_now ev (ow_env w)) (ow_cache w) \<rparr>"
  have swept: "cache_ok ?w0"
    using assms(1) unfolding cache_ok_def by (simp add: sweep_Some)
  obtain y w1 where y: "easylab_branch_head ev tn org repo bm ?w0 = (y, w1)"
    by (cases "easylab_branch_head ev tn org repo bm ?w0")
  have w1: "cache_ok w1" using swept branch_head_cache[OF y] by (simp add: cache_ok_def)
  show ?thesis
    using assms(2,3) None y w1 unfolding lookup_workspace_def
    by (auto simp: Let_def cache_ok_def split: sum.splits if_splits)
qed

lemma resolve_workspace_ok:
  assumes "cache_ok w" "resolve_workspace ev tn sess w = (x, w')"
  shows "cache_ok w' \<and> (\<forall>ws. x = Inr ws \<longrightarrow> parse_session_name sess = Some (ow_org ws, ow_repo ws, ow_branch ws))"
  using assms lookup_workspace_ok[OF assms(1), of sess _ _ _ ev tn]
  by (auto simp: resolve_workspace_def split: if_splits option.splits)

lemma worker_info_ok: "worker_info ev tn key w = (x, w') \<Longrightarrow> cache_ok w' = cache_ok w"
  by (auto simp: worker_info_def split: prod.splits sum.splits option.splits dest: ops_call_ok)

lemma ensure_synced_ok: "ensure_synced ev tn cid ws w = (x, w') \<Longrightarrow> cache_ok w' = cache_ok w"
  by (auto simp: ensure_synced_def split: prod.splits option.splits if_splits dest: ops_call_ok)

lemma publish_ok [simp]: "cache_ok (publish_sandbox_vars ev tn sid info w) = cache_ok w"
  by (simp add: publish_sandbox_vars_def cache_ok_def)

text \<open>
  The documented behaviour of the gateway: it answers a sandbox of the name it was asked for.
\<close>

definition answers_by_name :: "'e ops_env \<Rightarrow> bool" where
  "answers_by_name ev \<longleftrightarrow>
    (\<forall>tn key e n p e'. oe_get_sandbox ev tn key e = (Inr (Some (n, p)), e') \<longrightarrow> n = key)
    \<and> (\<forall>tn key i r p q b e n s e'. oe_launch ev tn key i r p q b e = (Inr (Some (n, s)), e') \<longrightarrow> n = key)"

lemma worker_info_name:
  assumes "answers_by_name ev" "worker_info ev tn key w = (Inr info, w')"
  shows "ct_id info = key"
proof -
  obtain p e' where "oe_get_sandbox ev tn key (ow_env w) = (Inr (Some (ct_id info, p)), e')"
    using assms(2) by (auto simp: worker_info_def ops_call_def split: prod.splits sum.splits option.splits)
  then show ?thesis using assms(1) unfolding answers_by_name_def by blast
qed

lemma ensure_sandbox_target:
  assumes "cache_ok w" "answers_by_name ev" "ensure_sandbox ev tenant sess sync w = (x, w')"
  shows "cache_ok w' \<and> (\<forall>cid ws. x = Inr (cid, ws) \<longrightarrow> cid = session_key (oe_sha ev) tenant sess
    \<and> parse_session_name sess = Some (ow_org ws, ow_repo ws, ow_branch ws))"
proof -
  obtain y w1 where y: "resolve_workspace ev tenant sess w = (y, w1)" by (cases "resolve_workspace ev tenant sess w")
  note ok1 = resolve_workspace_ok[OF assms(1) y]
  let ?key = "session_key (oe_sha ev) tenant sess"
  obtain z w2 where z: "worker_info ev tenant ?key w1 = (z, w2)" by (cases "worker_info ev tenant ?key w1")
  note ok2 = worker_info_ok[OF z] and name = worker_info_name[OF assms(2), of tenant ?key w1 _ w2]
  show ?thesis
    using assms(3) y z ok1 ok2 name ensure_synced_ok[of ev tenant]
    by (auto simp: ensure_sandbox_def Let_def split: sum.splits if_splits prod.splits option.splits)
qed

section \<open>Reachable states\<close>

lemma ensure_sandbox_ok:
  assumes "cache_ok w" "ensure_sandbox ev tenant sess sync w = (x, w')"
  shows "cache_ok w'"
proof -
  obtain y w1 where y: "resolve_workspace ev tenant sess w = (y, w1)" by (cases "resolve_workspace ev tenant sess w")
  show ?thesis
    using assms(2) y resolve_workspace_ok[OF assms(1) y]
    by (auto simp: ensure_sandbox_def Let_def split: sum.splits if_splits prod.splits option.splits
        dest!: worker_info_ok ensure_synced_ok)
qed

lemma with_sandbox_ok:
  assumes "cache_ok w" "\<And>cid ws w1. cache_ok w1 \<Longrightarrow> cache_ok (snd (k cid ws w1))"
  shows "cache_ok (snd (with_sandbox ev tenant sess sync w k))"
  using assms ensure_sandbox_ok[OF assms(1), of ev tenant sess sync]
  by (auto simp: with_sandbox_def split: prod.splits sum.splits)

lemma steps_ok:
  "run_via_gateway ev tn cid c t w = (x1, w') \<Longrightarrow> cache_ok w' = cache_ok w"
  "fetch_agent_file ev tn c w = (x2, w') \<Longrightarrow> cache_ok w' = cache_ok w"
  "sandbox_edit ev tn cid p s e c w = (x3, w') \<Longrightarrow> cache_ok w' = cache_ok w"
  "port_file ev decode tn cid ws args w = (x4, w') \<Longrightarrow> cache_ok w' = cache_ok w"
  "launch_workspace_sandbox ev tn ws sess i r w = (x5, w') \<Longrightarrow> cache_ok w' = cache_ok w"
  "run_preset cf ev tn args preset org repo branch w = (x6, w') \<Longrightarrow> cache_ok w' = cache_ok w"
  "run_workflow_named ev tn args n org repo branch w = (x6, w') \<Longrightarrow> cache_ok w' = cache_ok w"
  "deploy_launch cf ev tn sess args org repo bm n w = (x6, w') \<Longrightarrow> cache_ok w' = cache_ok w"
  "fetch_service ev tn n w = (x7, w') \<Longrightarrow> cache_ok w' = cache_ok w"
proof -
  have synced: "cache_ok (snd (ensure_synced ev tn n ws v)) = cache_ok v" for n v
    using ensure_synced_ok[of ev tn n ws v] by (metis prod.collapse)
  show "launch_workspace_sandbox ev tn ws sess i r w = (x5, w') \<Longrightarrow> cache_ok w' = cache_ok w"
    by (auto simp: launch_workspace_sandbox_def synced split: prod.splits sum.splits option.splits dest: ops_call_ok)
  show "port_file ev decode tn cid ws args w = (x4, w') \<Longrightarrow> cache_ok w' = cache_ok w"
    by (auto simp: port_file_def port_write_def Let_def split: prod.splits sum.splits if_splits dest!: ops_call_ok)
qed (auto simp: run_via_gateway_def job_reply_def fetch_agent_file_def sandbox_edit_def run_preset_def
      run_workflow_named_def deploy_launch_def fetch_service_def Let_def
      split: prod.splits sum.splits option.splits if_splits edit_result.splits dest!: ops_call_ok)

lemma ops_tool_ok:
  assumes "cache_ok w" "(name, f) \<in> set (ops_tools cf decode)"
  shows "cache_ok (snd (f ev tenant sess args w))"
proof -
  note ok = ops_call_ok steps_ok ensure_synced_ok
  note splits = prod.splits sum.splits option.splits if_splits ops_out.splits
  have "cache_ok (snd (sandbox_edit ev tenant cid p s e c v)) = cache_ok v" for cid p s e c v
    using steps_ok(3)[of ev tenant cid p s e c v] by (metis prod.collapse)
  then have "cache_ok (snd (tool_sandbox_edit ev tenant sess args w))"
    unfolding tool_sandbox_edit_def using assms(1) by (intro with_sandbox_ok) simp_all
  moreover have own: "cache_ok (snd (f ev tenant sess args w))"
    if "f \<in> {tool_sandbox_run, tool_sandbox_read, tool_sandbox_download, tool_sandbox_write,
      tool_job_list, tool_job_output, tool_job_wait, tool_job_stdin, tool_job_kill}"
    using that assms(1)
    by (elim insertE emptyE; hypsubst; unfold sandbox_tool_defs)
      (auto simp: Let_def intro!: with_sandbox_ok dest!: ok split: splits)
  moreover have "cache_ok (snd (tool_sandbox_port decode ev tenant sess args w))"
    unfolding tool_sandbox_port_def using assms(1)
    by (intro with_sandbox_ok) (auto split: splits dest!: ok simp: invalidate_workspace_def cache_ok_def)
  moreover have "cache_ok (snd (tool_sandbox_create ev tenant sess args w))"
    using assms(1) by (auto simp: tool_sandbox_create_def Let_def split: splits dest!: ok dest: resolve_workspace_ok)
  moreover have "cache_ok (snd (tool_ci_run cf ev tenant sess args w))"
    using assms(1)
    by (auto simp: tool_ci_run_def ci_target_def Let_def split: splits dest: resolve_workspace_ok)
      (metis steps_ok(6,7) prod.collapse resolve_workspace_ok)+
  moreover have "cache_ok (snd (tool_service_deploy cf ev tenant sess args w))"
    using assms(1) by (auto simp: tool_service_deploy_def Let_def split: splits dest!: ok)
      (metis steps_ok(8) prod.collapse)+
  moreover have "cache_ok (snd (tool_container_search cf ev tenant sess args w))"
      "cache_ok (snd (tool_package_search ev tenant sess args w))"
      "cache_ok (snd (tool_pull_git_repo ev tenant sess args w))"
    using assms(1) by (auto simp: tool_container_search_def tool_package_search_def tool_pull_git_repo_def Let_def
        split: splits dest!: ok)
  ultimately show ?thesis using assms(2) by (auto simp: ops_tools_def)
qed

text \<open>
  The states of the extension: from an empty cache, by tool calls of any tenant and session in any order,
  while the world outside changes as it likes.
\<close>

inductive ops_reach :: "'e ops_env \<Rightarrow> 'e ops_world \<Rightarrow> bool" for ev where
  or_start: "ops_reach ev \<lparr> ow_cache = (\<lambda>_. None), ow_env = e \<rparr>"
| or_tool: "ops_reach ev w \<Longrightarrow> (name, f) \<in> set (ops_tools cf decode) \<Longrightarrow>
    ops_reach ev (snd (f ev tenant sess args w))"
| or_outside: "ops_reach ev w \<Longrightarrow> ops_reach ev (w\<lparr> ow_env := e \<rparr>)"

lemma ops_reach_ok: "ops_reach ev w \<Longrightarrow> cache_ok w"
proof (induction rule: ops_reach.induct)
  case (or_tool w name f cf decode tenant sess args)
  then show ?case using ops_tool_ok by blast
qed (simp_all add: cache_ok_def)

section \<open>Nothing but the session's own sandbox and repository\<close>

text \<open>
  The calls that reach a sandbox or write a repository, kept for one sandbox and one branch and
  replaced by those of another environment everywhere else.
\<close>

definition ops_confine :: "'e ops_env \<Rightarrow> 'e ops_env \<Rightarrow> string \<Rightarrow> string \<times> string \<times> string \<Rightarrow> 'e ops_env" where
  "ops_confine ev other key t =
    ev\<lparr> oe_write_files := (\<lambda>tn p q b. if (p, q, b) = t then oe_write_files ev tn p q b else oe_write_files other tn p q b),
        oe_ensure_repo := oe_ensure_repo other, oe_set_mirror := oe_set_mirror other,
        oe_get_sandbox := (\<lambda>tn k. if k = key then oe_get_sandbox ev tn k else oe_get_sandbox other tn k),
        oe_launch := (\<lambda>tn k. if k = key then oe_launch ev tn k else oe_launch other tn k),
        oe_sync := (\<lambda>tn k. if k = key then oe_sync ev tn k else oe_sync other tn k),
        oe_execute := (\<lambda>tn k. if k = key then oe_execute ev tn k else oe_execute other tn k),
        oe_job_wait := (\<lambda>tn k. if k = key then oe_job_wait ev tn k else oe_job_wait other tn k),
        oe_job_output := (\<lambda>tn k. if k = key then oe_job_output ev tn k else oe_job_output other tn k),
        oe_list_jobs_json := (\<lambda>tn k. if k = key then oe_list_jobs_json ev tn k else oe_list_jobs_json other tn k),
        oe_output_json := (\<lambda>tn k. if k = key then oe_output_json ev tn k else oe_output_json other tn k),
        oe_wait_json := (\<lambda>tn k. if k = key then oe_wait_json ev tn k else oe_wait_json other tn k),
        oe_stdin := (\<lambda>tn k. if k = key then oe_stdin ev tn k else oe_stdin other tn k),
        oe_kill := (\<lambda>tn k. if k = key then oe_kill ev tn k else oe_kill other tn k),
        oe_file_read := (\<lambda>tn k. if k = key then oe_file_read ev tn k else oe_file_read other tn k),
        oe_file_write := (\<lambda>tn k. if k = key then oe_file_write ev tn k else oe_file_write other tn k),
        oe_file_list := (\<lambda>tn k. if k = key then oe_file_list ev tn k else oe_file_list other tn k),
        oe_create_workflow := oe_create_workflow other, oe_trigger_run := oe_trigger_run other,
        oe_run_file := oe_run_file other, oe_launch_service := oe_launch_service other,
        oe_clear_vars := oe_clear_vars other \<rparr>"

lemma ops_confine_same:
  "oe_now (ops_confine ev other key t) = oe_now ev" "oe_sha (ops_confine ev other key t) = oe_sha ev"
  "oe_timed_out (ops_confine ev other key t) = oe_timed_out ev"
  "oe_branches (ops_confine ev other key t) = oe_branches ev"
  "oe_agent_file (ops_confine ev other key t) = oe_agent_file ev"
  "oe_has_vars (ops_confine ev other key t) = oe_has_vars ev"
  "oe_set_var (ops_confine ev other key t) = oe_set_var ev"
  by (simp_all add: ops_confine_def)

lemma ops_confine_own:
  "oe_get_sandbox (ops_confine ev other key t) tn key = oe_get_sandbox ev tn key"
  "oe_launch (ops_confine ev other key t) tn key = oe_launch ev tn key"
  "oe_sync (ops_confine ev other key t) tn key = oe_sync ev tn key"
  "oe_execute (ops_confine ev other key t) tn key = oe_execute ev tn key"
  "oe_job_wait (ops_confine ev other key t) tn key = oe_job_wait ev tn key"
  "oe_job_output (ops_confine ev other key t) tn key = oe_job_output ev tn key"
  "oe_list_jobs_json (ops_confine ev other key t) tn key = oe_list_jobs_json ev tn key"
  "oe_output_json (ops_confine ev other key t) tn key = oe_output_json ev tn key"
  "oe_wait_json (ops_confine ev other key t) tn key = oe_wait_json ev tn key"
  "oe_stdin (ops_confine ev other key t) tn key = oe_stdin ev tn key"
  "oe_kill (ops_confine ev other key t) tn key = oe_kill ev tn key"
  "oe_file_read (ops_confine ev other key t) tn key = oe_file_read ev tn key"
  "oe_file_write (ops_confine ev other key t) tn key = oe_file_write ev tn key"
  "oe_file_list (ops_confine ev other key t) tn key = oe_file_list ev tn key"
  by (simp_all add: ops_confine_def)

lemma ops_confine_write:
  "oe_write_files (ops_confine ev other key (p, q, b)) tn p q b = oe_write_files ev tn p q b"
  by (simp add: ops_confine_def)

lemma lookups_confine:
  "resolve_workspace (ops_confine ev other key t) = resolve_workspace ev"
  "worker_info (ops_confine ev other key t) tn key = worker_info ev tn key"
  "ensure_synced (ops_confine ev other key t) tn key = ensure_synced ev tn key"
  "publish_sandbox_vars (ops_confine ev other key t) = publish_sandbox_vars ev"
  "fetch_agent_file (ops_confine ev other key t) = fetch_agent_file ev"
  "job_reply (ops_confine ev other key t) tn key = job_reply ev tn key"
proof -
  have head: "easylab_branch_head (ops_confine ev other key t) = easylab_branch_head ev"
    by (unfold easylab_branch_head_def, unfold ops_confine_same) (rule refl)
  have look: "lookup_workspace (ops_confine ev other key t) = lookup_workspace ev"
    by (unfold lookup_workspace_def, unfold ops_confine_same head) (rule refl)
  show "resolve_workspace (ops_confine ev other key t) = resolve_workspace ev"
    by (unfold resolve_workspace_def, unfold look) (rule refl)
qed (unfold worker_info_def ensure_synced_def publish_sandbox_vars_def fetch_agent_file_def job_reply_def,
    unfold ops_confine_same ops_confine_own, (rule refl)+)

lemma run_confine:
  "run_via_gateway (ops_confine ev other key t) tn key = run_via_gateway ev tn key"
  "sandbox_edit (ops_confine ev other key t) tn key = sandbox_edit ev tn key"
  by (unfold run_via_gateway_def sandbox_edit_def,
      unfold ops_confine_same ops_confine_own lookups_confine, (rule refl)+)

lemma ensure_sandbox_confine:
  assumes "answers_by_name ev" "key = session_key (oe_sha ev) tenant sess"
  shows "ensure_sandbox (ops_confine ev other key t) tenant sess sync w = ensure_sandbox ev tenant sess sync w"
proof -
  have name: "ct_id info = key" if "worker_info ev tenant key w1 = (Inr info, w2)" for w1 w2 info
    using worker_info_name[OF assms(1) that] .
  show ?thesis
    unfolding ensure_sandbox_def lookups_confine ops_confine_same assms(2)[symmetric] Let_def
    by (auto split: prod.splits sum.splits dest: name simp: lookups_confine)
qed

lemma with_sandbox_confine:
  assumes "cache_ok w" "answers_by_name ev" "key = session_key (oe_sha ev) tenant sess"
    and "\<And>ws w1. parse_session_name sess = Some (ow_org ws, ow_repo ws, ow_branch ws) \<Longrightarrow> k' key ws w1 = k key ws w1"
  shows "with_sandbox (ops_confine ev other key t) tenant sess sync w k' = with_sandbox ev tenant sess sync w k"
proof -
  obtain x w1 where x: "ensure_sandbox ev tenant sess sync w = (x, w1)" by (cases "ensure_sandbox ev tenant sess sync w")
  show ?thesis
    unfolding with_sandbox_def ensure_sandbox_confine[OF assms(2,3)] x
    using ensure_sandbox_target[OF assms(1,2) x] assms(3,4) by (auto split: sum.splits)
qed

lemma run_tool_confine:
  assumes "cache_ok w" "answers_by_name ev" "key = session_key (oe_sha ev) tenant sess"
  shows "tool_sandbox_run (ops_confine ev other key t) tenant sess args w = tool_sandbox_run ev tenant sess args w"
    "tool_sandbox_read (ops_confine ev other key t) tenant sess args w = tool_sandbox_read ev tenant sess args w"
    "tool_sandbox_download (ops_confine ev other key t) tenant sess args w = tool_sandbox_download ev tenant sess args w"
    "tool_sandbox_write (ops_confine ev other key t) tenant sess args w = tool_sandbox_write ev tenant sess args w"
    "tool_sandbox_edit (ops_confine ev other key t) tenant sess args w = tool_sandbox_edit ev tenant sess args w"
    "tool_job_list (ops_confine ev other key t) tenant sess args w = tool_job_list ev tenant sess args w"
    "tool_job_output (ops_confine ev other key t) tenant sess args w = tool_job_output ev tenant sess args w"
    "tool_job_wait (ops_confine ev other key t) tenant sess args w = tool_job_wait ev tenant sess args w"
    "tool_job_stdin (ops_confine ev other key t) tenant sess args w = tool_job_stdin ev tenant sess args w"
    "tool_job_kill (ops_confine ev other key t) tenant sess args w = tool_job_kill ev tenant sess args w"
  unfolding sandbox_tool_defs Let_def ops_confine_own lookups_confine run_confine
  by ((rule if_cong[OF refl refl])?, rule with_sandbox_confine[OF assms],
      unfold ops_confine_own lookups_confine run_confine, rule refl)+

lemma port_confine:
  assumes "parse_session_name sess = Some (ow_org ws, ow_repo ws, ow_branch ws)" "parse_session_name sess = Some t"
  shows "port_file (ops_confine ev other key t) decode tn key ws args = port_file ev decode tn key ws args"
proof -
  have t: "t = (ow_org ws, ow_repo ws, ow_branch ws)" using assms by simp
  have "ow_branch ws \<noteq> ''''"
    using assms(1) by (auto simp: parse_session_name_def valid_component_def component_re_def split: list.splits if_splits)
  then have l: "branch_or_latest ws = ow_branch ws" by (simp add: branch_or_latest_def)
  have "port_write (ops_confine ev other key t) tn ws = port_write ev tn ws"
    by (unfold port_write_def l t, unfold ops_confine_write) (rule refl)
  then show ?thesis by (unfold port_file_def, unfold ops_confine_own) (simp only:)
qed

lemma port_tool_confine:
  assumes "cache_ok w" "answers_by_name ev" "key = session_key (oe_sha ev) tenant sess"
    and "parse_session_name sess = Some t"
  shows "tool_sandbox_port decode (ops_confine ev other key t) tenant sess args w
    = tool_sandbox_port decode ev tenant sess args w"
  unfolding tool_sandbox_port_def
  by (rule with_sandbox_confine[OF assms(1-3)]) (simp only: port_confine[OF _ assms(4)])

lemma create_tool_confine:
  assumes "answers_by_name ev" "key = session_key (oe_sha ev) tenant sess"
  shows "tool_sandbox_create (ops_confine ev other key t) tenant sess args w = tool_sandbox_create ev tenant sess args w"
proof -
  have name: "n = key" if a: "ops_call (oe_launch ev tenant key i r p q b) w1 = (Inr (Some (n, s)), w2)"
    for i r p q b w1 n s w2
  proof -
    obtain e' where "oe_launch ev tenant key i r p q b (ow_env w1) = (Inr (Some (n, s)), e')"
      using a by (auto simp: ops_call_def split: prod.splits)
    then show ?thesis using assms(1) unfolding answers_by_name_def by blast
  qed
  have "launch_workspace_sandbox (ops_confine ev other key t) tenant ws sess i r w1
      = launch_workspace_sandbox ev tenant ws sess i r w1" for ws i r w1
    unfolding launch_workspace_sandbox_def ops_confine_same assms(2)[symmetric] ops_confine_own
    by (auto split: prod.splits sum.splits option.splits dest!: name simp: lookups_confine)
  then show ?thesis
    unfolding tool_sandbox_create_def lookups_confine Let_def by (auto split: sum.splits prod.splits)
qed

text \<open>
  C36: The sandbox tools of a session reach no other sandbox and write no other branch: in every state
  the extension can reach and for a gateway that answers the sandbox it
  is asked for, every one of the twelve tools computes the same answer and the same state
  when all calls on other sandboxes, all writes to other repositories or branches, and the
  creation of repositories, mirrors, workflows and services are replaced by arbitrary others.
  The sandbox is the one of the tenant and the session's name; the branch is the one the name
  spells.
\<close>

theorem sandbox_tools_confined:
  assumes "ops_reach ev w" "answers_by_name ev" "parse_session_name sess = Some t"
    and "(name, f) \<in> set (take 12 (ops_tools cf decode))"
  shows "f (ops_confine ev other (session_key (oe_sha ev) tenant sess) t) tenant sess args w = f ev tenant sess args w"
proof -
  have w: "cache_ok w" using assms(1) by (rule ops_reach_ok)
  have "f \<in> {tool_sandbox_create, tool_sandbox_run, tool_sandbox_read, tool_sandbox_download,
    tool_sandbox_write, tool_sandbox_edit, tool_job_list, tool_job_output, tool_job_wait, tool_job_stdin,
    tool_job_kill, tool_sandbox_port decode}"
    using assms(4) by (auto simp: ops_tools_def)
  then show ?thesis
    by (elim insertE emptyE; hypsubst)
      (simp_all only: run_tool_confine[OF w assms(2) refl] port_tool_confine[OF w assms(2) refl assms(3)]
        create_tool_confine[OF assms(2) refl])
qed

section \<open>Porting a directory\<close>

lemma port_change_empty: "decode '''' = '''' \<Longrightarrow>
    map (port_change decode dst) (sandbox_files listed) = map (\<lambda>(p, d). (port_target dst p, '''')) listed"
  by (auto simp: port_change_def sandbox_files_def)

text \<open>
  Porting a directory of the sandbox empties its files in the repository: whatever the files hold,
  the one commit sets every listed path, the directories among them too, to an empty file, and
  the tool reports their number as ported.
\<close>

lemma port_directory_empties:
  assumes "ensure_sandbox ev tenant sess False w = (Inr (cid, ws), w1)"
    and "oe_file_list ev tenant cid (oa_str args ''sandbox-path'') (ow_env w1) = (Inr (True, entries), e1)"
    and "oe_file_list ev tenant cid (oa_str args ''sandbox-path'') e1 = (Inr (d, listed), e2)" "listed \<noteq> []"
    and "oa_str args ''message'' = message" "message \<noteq> ''''"
    and "decode '''' = ''''"
    and "oe_write_files ev tenant (ow_org ws) (ow_repo ws) (branch_or_latest ws) message
      (map (\<lambda>(p, d). (port_target (oa_str args ''repo-path'') p, '''')) listed) e2 = (Inr change, e3)"
  shows "\<exists>w'. tool_sandbox_port decode ev tenant sess args w =
      (OpsOk [Localized ''ported_directory_arg_to_repo_arg_arg_file_s_change_arg''
         [oa_str args ''sandbox-path'', oa_str args ''repo-path'', dec_nat (length listed), short_id change]] [], w')
    \<and> ow_env w' = e3 \<and> ow_cache w' sess = None"
proof -
  have files: "sandbox_files listed \<noteq> []" "length (sandbox_files listed) = length listed"
    using assms(4) by (simp_all add: sandbox_files_def)
  show ?thesis
    using assms files
    by (simp add: tool_sandbox_port_def with_sandbox_def port_file_def port_write_def ops_call_def Let_def
        port_change_empty invalidate_workspace_def)
qed

section \<open>The window of the cache\<close>

text \<open>
  For thirty seconds after the lab was asked for a session's workspace every tenant is
  answered from the cache: the same workspace with the same revision, without asking the lab, even
  if the branch has moved or the lab would refuse that tenant.  Afterwards the lab is asked again.
\<close>

lemma workspace_cache_shared:
  assumes "parse_session_name sess = Some (org, repo, bm)"
    and "\<not> (\<exists>ws t. ow_cache w sess = Some (ws, t) \<and> oe_now ev (ow_env w) < t)"
    and "resolve_workspace ev tenant sess w = (Inr ws, w1)"
  shows "(oe_now ev e < oe_now ev (ow_env w1) + cache_window \<longrightarrow>
      resolve_workspace ev other sess (w1\<lparr> ow_env := e \<rparr>) = (Inr ws, w1\<lparr> ow_env := e \<rparr>))
    \<and> (oe_now ev e \<ge> oe_now ev (ow_env w1) + cache_window \<longrightarrow>
      fst (resolve_workspace ev other sess (w1\<lparr> ow_env := e \<rparr>)) =
        (case fst (easylab_branch_head ev other org repo bm (w1\<lparr> ow_env := e \<rparr>)) of
           Inl err \<Rightarrow> Inl err
         | Inr sha \<Rightarrow> Inr \<lparr> ow_org = org, ow_repo = repo, ow_branch = bm, ow_rev = sha \<rparr>))"
proof -
  have n: "sess \<noteq> ''''" using assms(1) by (auto simp: parse_session_name_def)
  have swept: "sweep_expired (oe_now ev (ow_env w)) (ow_cache w) sess = None"
    using assms(2) sweep_Some[of "oe_now ev (ow_env w)" "ow_cache w" sess]
    by (cases "sweep_expired (oe_now ev (ow_env w)) (ow_cache w) sess") auto
  have hit: "ow_cache w1 sess = Some (ws, oe_now ev (ow_env w1) + cache_window)"
    using assms(1,3) n swept
    by (auto simp: resolve_workspace_def lookup_workspace_def Let_def split: prod.splits sum.splits)
  have call: "fst (easylab_branch_head ev other org repo bm v) = fst (easylab_branch_head ev other org repo bm v')"
    if "ow_env v = ow_env v'" for v v'
    using that by (auto simp: easylab_branch_head_def ops_call_def split: prod.splits sum.splits option.splits)
  have "resolve_workspace ev other sess (w1\<lparr> ow_env := e \<rparr>) = (Inr ws, w1\<lparr> ow_env := e \<rparr>)"
    if "oe_now ev e < oe_now ev (ow_env w1) + cache_window"
    using that hit n assms(1) by (simp add: resolve_workspace_def lookup_workspace_def sweep_expired_def)
  moreover have "fst (resolve_workspace ev other sess (w1\<lparr> ow_env := e \<rparr>)) =
        (case fst (easylab_branch_head ev other org repo bm (w1\<lparr> ow_env := e \<rparr>)) of
           Inl err \<Rightarrow> Inl err
         | Inr sha \<Rightarrow> Inr \<lparr> ow_org = org, ow_repo = repo, ow_branch = bm, ow_rev = sha \<rparr>)"
    if late: "oe_now ev e \<ge> oe_now ev (ow_env w1) + cache_window"
  proof -
    let ?c = "sweep_expired (oe_now ev e) (ow_cache w1)"
    have "?c sess = None" using late hit by (simp add: sweep_expired_def)
    then show ?thesis
      using n assms(1) call[of "w1\<lparr> ow_env := e, ow_cache := ?c \<rparr>" "w1\<lparr> ow_env := e \<rparr>"]
      by (auto simp: resolve_workspace_def lookup_workspace_def Let_def split: prod.splits sum.splits)
  qed
  ultimately show ?thesis by blast
qed

section \<open>Deploying\<close>

text \<open>
  What guards a deployment: a service whose lookup names another session as its owner is
  left alone, and nothing but the lookup has been called; in every other case - no owner,
  the session's own, no such service, or a lookup that fails - the service of that name is launched,
  in the configured namespace though the lookup names none, with the session as its owner.
\<close>

lemma deploy_guard:
  assumes "parse_session_name sess = Some (org, repo, bm)"
    and "fetch_service ev tenant (deploy_name (oe_sha ev) args (org, repo, bm)) w = (found, w1)"
  shows "tool_service_deploy cf ev tenant sess args w =
    (if \<exists>owner. found = Inr (Some owner) \<and> owner \<noteq> '''' \<and> owner \<noteq> sess
     then (OpsErr (Localized ''service_arg_belongs_to_a_different_session_arg''
             [deploy_name (oe_sha ev) args (org, repo, bm), the (projr found)]), w1)
     else deploy_launch cf ev tenant sess args org repo bm (deploy_name (oe_sha ev) args (org, repo, bm)) w1)
    \<and> (''easylab/session'', sess) \<in> set (deploy_annotations sess org repo)"
proof -
  have "sess \<noteq> ''''" using assms(1) by (auto simp: parse_session_name_def)
  then show ?thesis
    using assms by (auto simp: tool_service_deploy_def Let_def deploy_annotations_def split: sum.splits option.splits)
qed

section \<open>Two answers that are not what happened\<close>

text \<open>The state in the reply of a wait is not looked at: a job still running is reported as completed.\<close>

lemma running_job_completed:
  assumes "oe_execute ev tn cid command (ow_env w) = (Inr job, e1)"
    and "oe_job_wait ev tn cid job (int32_of timeout) (int64_of (timeout * 1000000)) e1 = (Inr (''running'', code), e2)"
  shows "\<exists>d w'. run_via_gateway ev tn cid command timeout w = (Inr (job, d), w') \<and> \<not> jd_bg d \<and> jd_exit d = code"
  using assms by (auto simp: run_via_gateway_def job_reply_def ops_call_def split: prod.splits)

text \<open>A synchronisation whose error mentions that anything was not found counts as done.\<close>

lemma sync_error_ignored:
  assumes "oe_sync ev tn cid (ow_org ws) (ow_repo ws) (ow_rev ws) (branch_or_latest ws) (ow_env w)
      = (Some (ConnErr c (before @ ''not found'' @ after)), e1)"
  shows "ensure_synced ev tn cid ws w = (None, w\<lparr> ow_env := e1 \<rparr>)"
proof -
  have "contains_sub p (a @ p @ b)" for p a b :: string
  proof (induction a)
    case Nil
    then show ?case using has_prefix_append[of p b] by (cases "p @ b") simp_all
  qed simp
  then have "contains_sub ''not found'' (before @ ''not found'' @ after)" by blast
  then show ?thesis using assms by (simp add: ensure_synced_def ops_call_def)
qed

section \<open>A concrete gateway\<close>

text \<open>The world is the clock; the lab knows one branch and answers the default tenant only.\<close>

definition demo_ops :: "int ops_env" where
  "demo_ops = \<lparr>
     oe_now = (\<lambda>e. e), oe_sha = (\<lambda>s. ''0123456789abcdef''), oe_timed_out = (\<lambda>err. False),
     oe_branches = (\<lambda>tn o' r e. (if tn = ''default'' then Inr [(''dev'', ''rev1'')]
                                 else Inl (ConnErr PermissionDenied ''no''), e)),
     oe_write_files = (\<lambda>tn o' r b m cs e. (Inr ''change123'', e)),
     oe_ensure_repo = (\<lambda>tn o' r e. (None, e)), oe_set_mirror = (\<lambda>tn o' r u e. (None, e)),
     oe_get_sandbox = (\<lambda>tn k e. (Inr (Some (k, ''Running'')), e)),
     oe_launch = (\<lambda>tn k i r p q b e. (Inr (Some (k, ''Running'')), e)),
     oe_sync = (\<lambda>tn k p q r b e. (None, e)), oe_execute = (\<lambda>tn k c e. (Inr ''j1'', e)),
     oe_job_wait = (\<lambda>tn k j t d e. (Inr (''running'', 0), e)), oe_job_output = (\<lambda>tn k j a z e. (Inr [], e)),
     oe_list_jobs_json = (\<lambda>tn k e. (Inr '''', e)), oe_output_json = (\<lambda>tn k j a z s e. (Inr '''', e)),
     oe_wait_json = (\<lambda>tn k j t e. (Inr '''', e)), oe_stdin = (\<lambda>tn k j d c e. (None, e)),
     oe_kill = (\<lambda>tn k j e. (None, e)), oe_file_read = (\<lambda>tn k p e. (Inr ''data'', e)),
     oe_file_write = (\<lambda>tn k p d e. (None, e)),
     oe_file_list = (\<lambda>tn k p e. (Inr (True, [(''a.txt'', False), (''sub'', True)]), e)),
     oe_agent_file = (\<lambda>tn c e. (Inr None, e)), oe_create_workflow = (\<lambda>tn n o' r b j e. (Inr ''w1'', e)),
     oe_trigger_run = (\<lambda>tn k e. (Inr ''r1'', e)), oe_run_file = (\<lambda>tn o' r b n as e. (Inr ('''', [], []), e)),
     oe_artifact_get = (\<lambda>tn u e. (Inr '''', e)), oe_query_escape = (\<lambda>s. s),
     oe_package_types = (\<lambda>tn e. (Inr [], e)),
     oe_get_service = (\<lambda>tn n e. (if n = ''busy'' then Inr (Some ''acme:web:main'') else Inl (ConnErr Internal ''down''), e)),
     oe_launch_service = (\<lambda>tn n i ns as e. (None, e)), oe_list_services = (\<lambda>tn ns e. (Inr [], e)),
     oe_has_vars = False, oe_set_var = (\<lambda>t s k v e. e), oe_clear_vars = (\<lambda>t s e. e) \<rparr>"

definition ops_start :: "int ops_world" where
  "ops_start = \<lparr> ow_cache = (\<lambda>_. None), ow_env = 0 \<rparr>"

definition demo_ops_args :: "(string \<times> string) list \<Rightarrow> ops_args" where
  "demo_ops_args kvs = \<lparr> oa_str = (\<lambda>k. case map_of kvs k of None \<Rightarrow> '''' | Some v \<Rightarrow> v), oa_int = (\<lambda>k d. d),
     oa_bool = (\<lambda>k. False) \<rparr>"

definition port_args :: ops_args where
  "port_args = demo_ops_args [(''sandbox-path'', ''out''), (''repo-path'', ''dist''), (''message'', ''port'')]"

definition dev_session :: string where
  "dev_session = ''acme:web:dev''"

lemma dev_session_parts: "parse_session_name dev_session = Some (''acme'', ''web'', ''dev'')"
  by code_simp

lemma pair_eq: "fst p = a \<Longrightarrow> p = (a, snd p)"
  by (cases p) simp

lemma sandbox_tools_confined_witness:
  "tool_sandbox_run (ops_confine demo_ops (demo_ops\<lparr> oe_now := (\<lambda>e. 1) \<rparr>) (session_key (oe_sha demo_ops) ''t1'' dev_session)
      (''acme'', ''web'', ''dev'')) ''t1'' dev_session (demo_ops_args [(''command'', ''ls'')]) ops_start
    = tool_sandbox_run demo_ops ''t1'' dev_session (demo_ops_args [(''command'', ''ls'')]) ops_start"
proof -
  have "ops_reach demo_ops ops_start" unfolding ops_start_def by (rule or_start)
  moreover have "answers_by_name demo_ops" by (auto simp: answers_by_name_def demo_ops_def)
  moreover have "(''sandbox-run'', tool_sandbox_run) \<in> set (take 12 (ops_tools \<lparr> oc_artifact = '''', oc_host = '''',
      oc_namespace = '''' \<rparr> (\<lambda>s. s)))" by (simp add: ops_tools_def)
  ultimately show ?thesis by (rule sandbox_tools_confined[OF _ _ dev_session_parts])
qed

lemma port_directory_empties_witness:
  "fst (tool_sandbox_port (\<lambda>s. s) demo_ops ''default'' dev_session port_args ops_start) =
    OpsOk [Localized ''ported_directory_arg_to_repo_arg_arg_file_s_change_arg'' [''out'', ''dist'', ''2'', ''change12'']] []"
proof -
  let ?en = "ensure_sandbox demo_ops ''default'' dev_session False ops_start"
  let ?k = "session_key (oe_sha demo_ops) ''default'' dev_session"
  let ?ws = "\<lparr> ow_org = ''acme'', ow_repo = ''web'', ow_branch = ''dev'', ow_rev = ''rev1'' \<rparr>"
  have en: "?en = (Inr (?k, ?ws), snd ?en)" by (rule pair_eq) code_simp
  have args: "oa_str port_args ''sandbox-path'' = ''out''" "oa_str port_args ''repo-path'' = ''dist''"
    "oa_str port_args ''message'' = ''port''" by code_simp+
  have fl: "oe_file_list demo_ops ''default'' ?k ''out'' e = (Inr (True, [(''a.txt'', False), (''sub'', True)]), e)" for e
    by (simp add: demo_ops_def)
  have wr: "oe_write_files demo_ops ''default'' (ow_org ?ws) (ow_repo ?ws) (branch_or_latest ?ws) ''port'' cs e
      = (Inr ''change123'', e)" for cs e by (simp add: demo_ops_def)
  have "dec_nat 2 = ''2''" "short_id ''change123'' = ''change12''" by code_simp+
  then show ?thesis
    using port_directory_empties[OF en, where args = port_args and decode = "\<lambda>s. s" and message = "''port''",
        unfolded args, OF fl fl _ refl _ refl wr]
    by (auto simp: numeral_2_eq_2)
qed

lemma workspace_cache_shared_witness:
  "let w1 = snd (resolve_workspace demo_ops ''default'' dev_session ops_start) in
     fst (resolve_workspace demo_ops ''other'' dev_session w1)
       = Inr \<lparr> ow_org = ''acme'', ow_repo = ''web'', ow_branch = ''dev'', ow_rev = ''rev1'' \<rparr>
     \<and> fst (resolve_workspace demo_ops ''other'' dev_session ops_start) = Inl ''easylab branchs acme/web: no''"
proof -
  let ?ws = "\<lparr> ow_org = ''acme'', ow_repo = ''web'', ow_branch = ''dev'', ow_rev = ''rev1'' \<rparr>"
  let ?r = "resolve_workspace demo_ops ''default'' dev_session ops_start"
  have r: "?r = (Inr ?ws, snd ?r)" by (rule pair_eq) code_simp
  have n: "\<not> (\<exists>ws t. ow_cache ops_start dev_session = Some (ws, t) \<and> oe_now demo_ops (ow_env ops_start) < t)"
    by (simp add: ops_start_def)
  have e: "(snd ?r)\<lparr> ow_env := ow_env (snd ?r) \<rparr> = snd ?r" by simp
  have "resolve_workspace demo_ops ''other'' dev_session (snd ?r) = (Inr ?ws, snd ?r)"
    using workspace_cache_shared[OF dev_session_parts n r, of "ow_env (snd ?r)" "''other''"]
    unfolding e by (simp add: cache_window_def)
  moreover have "fst (resolve_workspace demo_ops ''other'' dev_session ops_start) = Inl ''easylab branchs acme/web: no''"
    by code_simp
  ultimately show ?thesis by (simp add: Let_def)
qed

lemma deploy_guard_witness:
  "fst (tool_service_deploy \<lparr> oc_artifact = '''', oc_host = ''h'', oc_namespace = ''ns'' \<rparr> demo_ops ''default'' dev_session
      (demo_ops_args [(''name'', ''busy'')]) ops_start)
    = OpsErr (Localized ''service_arg_belongs_to_a_different_session_arg'' [''busy'', ''acme:web:main''])"
proof -
  let ?a = "demo_ops_args [(''name'', ''busy'')]"
  have "deploy_name (oe_sha demo_ops) ?a (''acme'', ''web'', ''dev'') = ''busy''" by code_simp
  moreover have "fst (fetch_service demo_ops ''default'' ''busy'' ops_start) = Inr (Some ''acme:web:main'')" by code_simp
  ultimately show ?thesis
    using deploy_guard[OF dev_session_parts pair_eq, of demo_ops "''default''" ?a ops_start] by (simp add: dev_session_def)
qed

end
