(* ===== verification/Repo_Tools_Correct.thy ===== *)
theory Repo_Tools_Correct
imports Repo_Tools Lifecycle_Correct
begin

text \<open>
  What the repository tools promise: a call changes nothing outside the repository of its session,
  files only on the branch of its session; only the session of the default branch merges or starts
  subsessions; together with the lifecycle handlers the tools keep sessions and branches in
  step; and what a failed start of a subsession leaves.
\<close>

lemmas tool_defs = tool_read_def tool_write_def tool_delete_def tool_edit_def tool_ls_def tool_grep_def
  tool_explore_def tool_graph_def tool_diff_def tool_rebase_def tool_resolve_def tool_blame_def
  tool_log_def tool_show_def tool_tag_list_def tool_tag_set_def tool_mr_create_def tool_mr_list_def
  tool_mr_comment_def tool_subsession_create_def tool_mr_merge_def

lemma repo_tool_cases:
  assumes "repo_tool name = Some f"
  shows "f \<in> {tool_read, tool_write, tool_delete, tool_edit, tool_ls, tool_grep, tool_explore, tool_graph,
    tool_diff, tool_rebase, tool_resolve, tool_blame, tool_log, tool_show, tool_tag_list, tool_tag_set,
    tool_mr_create, tool_mr_list, tool_mr_comment, tool_subsession_create, tool_mr_merge}"
proof -
  have "(name, f) \<in> set [(''read'', tool_read), (''write'', tool_write), (''delete'', tool_delete), (''edit'', tool_edit),
     (''ls'', tool_ls), (''grep'', tool_grep), (''explore'', tool_explore), (''vcs-graph'', tool_graph),
     (''vcs-diff'', tool_diff), (''vcs-rebase'', tool_rebase), (''vcs-resolve'', tool_resolve),
     (''vcs-blame'', tool_blame), (''vcs-log'', tool_log), (''vcs-show'', tool_show),
     (''vcs-tag-list'', tool_tag_list), (''vcs-tag-set'', tool_tag_set), (''vcs-mr-create'', tool_mr_create),
     (''vcs-mr-list'', tool_mr_list), (''vcs-mr-comment'', tool_mr_comment),
     (''subsession-create'', tool_subsession_create), (''vcs-mr-merge'', tool_mr_merge)]"
    using assms unfolding repo_tool_def by (rule map_of_SomeD)
  then have "f \<in> snd ` \<dots>" by force
  then show ?thesis by simp
qed

section \<open>Nothing outside the session's repository\<close>

text \<open>
  The calls that change something, kept for one repository and one branch of it and replaced by
  those of another environment everywhere else; the calls the tools have no use for are replaced
  altogether.
\<close>

definition confine :: "'e toolset \<Rightarrow> 'e toolset \<Rightarrow> string \<Rightarrow> string \<Rightarrow> string \<Rightarrow> 'e toolset" where
  "confine ts other o1 r b =
    ts\<lparr> ts_env := (ts_env ts)\<lparr>
          ev_ensure_repo := ev_ensure_repo (ts_env other),
          ev_create_branch := (\<lambda>tn p q. if p = o1 \<and> q = r then ev_create_branch (ts_env ts) tn p q
                                        else ev_create_branch (ts_env other) tn p q),
          ev_delete_branch := ev_delete_branch (ts_env other),
          ev_write_files := (\<lambda>tn p q c. if p = o1 \<and> q = r \<and> c = b then ev_write_files (ts_env ts) tn p q c
                                        else ev_write_files (ts_env other) tn p q c),
          ev_set_group := ev_set_group (ts_env other),
          ev_create_session := (\<lambda>sess p q. if p = o1 \<and> q = r then ev_create_session (ts_env ts) sess p q
                                           else ev_create_session (ts_env other) sess p q),
          ev_fork_session := ev_fork_session (ts_env other),
          ev_delete_session := ev_delete_session (ts_env other),
          ev_set_var := ev_set_var (ts_env other),
          ev_clear_vars := ev_clear_vars (ts_env other) \<rparr>,
       ts_rebase := (\<lambda>tn p q. if p = o1 \<and> q = r then ts_rebase ts tn p q else ts_rebase other tn p q),
       ts_set_tag := (\<lambda>tn p q. if p = o1 \<and> q = r then ts_set_tag ts tn p q else ts_set_tag other tn p q),
       ts_create_mr := (\<lambda>tn p q. if p = o1 \<and> q = r then ts_create_mr ts tn p q else ts_create_mr other tn p q),
       ts_add_comment := (\<lambda>tn p q. if p = o1 \<and> q = r then ts_add_comment ts tn p q
                                   else ts_add_comment other tn p q),
       ts_merge_mr := (\<lambda>tn p q. if p = o1 \<and> q = r then ts_merge_mr ts tn p q else ts_merge_mr other tn p q),
       ts_prompt := (\<lambda>sess. if has_prefix (naming_session o1 r '''') sess then ts_prompt ts sess
                            else ts_prompt other sess) \<rparr>"

lemma own_session: "has_prefix (naming_session o1 r '''') (naming_session o1 r c)"
  by (simp add: naming_session_def has_prefix_def)

lemma confine_env:
  "ev_now (ts_env (confine ts other o1 r b)) = ev_now (ts_env ts)"
  "ev_list_repos (ts_env (confine ts other o1 r b)) = ev_list_repos (ts_env ts)"
  "ev_branches (ts_env (confine ts other o1 r b)) = ev_branches (ts_env ts)"
  "ev_revisions (ts_env (confine ts other o1 r b)) = ev_revisions (ts_env ts)"
  "ev_list_sessions (ts_env (confine ts other o1 r b)) = ev_list_sessions (ts_env ts)"
  "ev_create_branch (ts_env (confine ts other o1 r b)) tn o1 r = ev_create_branch (ts_env ts) tn o1 r"
  "ev_write_files (ts_env (confine ts other o1 r b)) tn o1 r b = ev_write_files (ts_env ts) tn o1 r b"
  "ev_create_session (ts_env (confine ts other o1 r b)) s o1 r = ev_create_session (ts_env ts) s o1 r"
  by (simp_all add: confine_def)

lemma confine_calls:
  "ts_decode (confine ts other o1 r b) = ts_decode ts" "ts_encode (confine ts other o1 r b) = ts_encode ts"
  "ts_order (confine ts other o1 r b) = ts_order ts" "ts_read_blob (confine ts other o1 r b) = ts_read_blob ts"
  "ts_tree (confine ts other o1 r b) = ts_tree ts" "ts_search (confine ts other o1 r b) = ts_search ts"
  "ts_graph (confine ts other o1 r b) = ts_graph ts" "ts_compare (confine ts other o1 r b) = ts_compare ts"
  "ts_diff (confine ts other o1 r b) = ts_diff ts" "ts_blame (confine ts other o1 r b) = ts_blame ts"
  "ts_log (confine ts other o1 r b) = ts_log ts" "ts_tags (confine ts other o1 r b) = ts_tags ts"
  "ts_list_mrs (confine ts other o1 r b) = ts_list_mrs ts"
  "ts_list_repos (confine ts other o1 r b) = ts_list_repos ts"
  "ts_rebase (confine ts other o1 r b) tn o1 r = ts_rebase ts tn o1 r"
  "ts_set_tag (confine ts other o1 r b) tn o1 r = ts_set_tag ts tn o1 r"
  "ts_create_mr (confine ts other o1 r b) tn o1 r = ts_create_mr ts tn o1 r"
  "ts_add_comment (confine ts other o1 r b) tn o1 r = ts_add_comment ts tn o1 r"
  "ts_merge_mr (confine ts other o1 r b) tn o1 r = ts_merge_mr ts tn o1 r"
  "ts_prompt (confine ts other o1 r b) (naming_session o1 r c) = ts_prompt ts (naming_session o1 r c)"
  by (simp_all add: confine_def own_session)

lemma tree_confine:
  "get_branches_detail (ts_env (confine ts other o1 r b)) = get_branches_detail (ts_env ts)"
  "get_repo_tree (ts_env (confine ts other o1 r b)) = get_repo_tree (ts_env ts)"
proof -
  show detail: "get_branches_detail (ts_env (confine ts other o1 r b)) = get_branches_detail (ts_env ts)"
    by (intro ext) (simp add: get_branches_detail_def confine_env)
  have "tree_loop (ts_env (confine ts other o1 r b)) tn rs t e = tree_loop (ts_env ts) tn rs t e" for tn rs t e
  proof (induction rs arbitrary: t e)
    case (Cons x rs)
    then show ?case by (cases x) (simp only: tree_loop.simps detail)
  qed simp
  then have loop: "tree_loop (ts_env (confine ts other o1 r b)) = tree_loop (ts_env ts)" by (intro ext)
  show "get_repo_tree (ts_env (confine ts other o1 r b)) = get_repo_tree (ts_env ts)"
    by (unfold get_repo_tree_def confine_env loop) (rule refl)
qed

lemma base_confine:
  "session_base (confine ts other o1 r b) = session_base ts"
  "ref_base (confine ts other o1 r b) = ref_base ts"
  "session_base_xo (confine ts other o1 r b) = session_base_xo ts"
proof -
  show s: "session_base (confine ts other o1 r b) = session_base ts"
    by (intro ext) (simp only: session_base_def resolve_in_def confine_env)
  show "ref_base (confine ts other o1 r b) = ref_base ts"
    "session_base_xo (confine ts other o1 r b) = session_base_xo ts"
    by (unfold ref_base_def session_base_xo_def s, (rule refl)+)
qed

lemma reads_confine:
  "read_file_raw (confine ts other o1 r b) = read_file_raw ts"
  "base_sha (confine ts other o1 r b) = base_sha ts"
  "file_action (confine ts other o1 r b) = file_action ts"
  "client_blame (confine ts other o1 r b) = client_blame ts"
  "client_diff (confine ts other o1 r b) = client_diff ts"
  "repo_default_branch (confine ts other o1 r b) = repo_default_branch ts"
  "list_sessions (ts_env (confine ts other o1 r b)) = list_sessions (ts_env ts)"
  "get_branch_head (ts_env (confine ts other o1 r b)) = get_branch_head (ts_env ts)"
  by (unfold base_sha_def read_file_raw_def file_action_def client_blame_def client_diff_def
      repo_default_branch_def list_sessions_def get_branch_head_def confine_calls confine_env, (rule refl)+)

lemma changes_confine:
  "lab_rebase (confine ts other o1 r b) tn o1 r = lab_rebase ts tn o1 r"
  "agent_prompt (confine ts other o1 r b) (naming_session o1 r c) = agent_prompt ts (naming_session o1 r c)"
  "commit_in (confine ts other o1 r b) tn o1 r b = commit_in ts tn o1 r b"
  "ensure_branch (ts_env (confine ts other o1 r b)) tn o1 r = ensure_branch (ts_env ts) tn o1 r"
  "create_repo_session (ts_env (confine ts other o1 r b)) o1 r = create_repo_session (ts_env ts) o1 r"
  by (unfold lab_rebase_def agent_prompt_def commit_in_def commit_def ensure_branch_def
      create_repo_session_def, unfold confine_calls confine_env tree_confine, (rule refl)+)

lemma steps_confine:
  "notify_target_session (confine ts other o1 r b) o1 r = notify_target_session ts o1 r"
  "start_subsession (confine ts other o1 r b) tn o1 r b = start_subsession ts tn o1 r b"
  by (unfold notify_target_session_def start_subsession_def Let_def, unfold changes_confine, (rule refl)+)

text \<open>
  C33: Whatever an agent calls, with whatever arguments, nothing outside the repository of its own
  session changes: every tool of the table computes the same answer and the same world when all
  the changing calls of the lab and of the agent are replaced by arbitrary others for every
  other repository, file writes for every other branch of its own, and prompts for the sessions of other
  repositories; and it never uses the calls that delete branches or sessions, fork, group or create
  repositories at all.
\<close>

theorem tools_confined:
  assumes "repo_tool name = Some f"
    and "session_base ts tenant sess w = (Inr (o1, r, b), w1)"
  shows "f (confine ts other o1 r b) tenant sess args w = f ts tenant sess args w"
proof -
  have base: "session_base (confine ts other o1 r b) tenant sess w = (Inr (o1, r, b), w1)"
    unfolding base_confine by (rule assms(2))
  note own = with_base_def sum.case prod.case Let_def
  have reading: "f (confine ts other o1 r b) tenant sess args w = f ts tenant sess args w"
    if "f \<in> {tool_read, tool_ls, tool_grep, tool_explore, tool_graph, tool_diff, tool_blame, tool_log,
      tool_show, tool_tag_list, tool_mr_list}"
    using that by (elim insertE emptyE; hypsubst) (unfold tool_defs, unfold base_confine confine_calls reads_confine tree_confine, (rule refl)+)
  have writing: "f (confine ts other o1 r b) tenant sess args w = f ts tenant sess args w"
    if "f \<in> {tool_write, tool_delete, tool_edit, tool_resolve, tool_rebase, tool_tag_set, tool_mr_create,
      tool_mr_comment, tool_mr_merge, tool_subsession_create}"
    using that by (elim insertE emptyE; hypsubst)
      (unfold tool_defs base assms(2) own, unfold confine_calls reads_confine changes_confine steps_confine tree_confine, (rule refl)+)
  show ?thesis using repo_tool_cases[OF assms(1)] reading writing by blast
qed

section \<open>Sessions and branches stay in step\<close>

lemma on_env_inv: "on_env f w = (r, w') \<Longrightarrow> world_inv w' = world_inv w"
  by (auto simp: on_env_def split: prod.splits)

lemma helper_inv:
  "read_file_raw ts tn o1 r b path w = (x1, w') \<Longrightarrow> world_inv w' = world_inv w"
  "base_sha ts tn o1 r b path w = (x2, w') \<Longrightarrow> world_inv w' = world_inv w"
  "commit_in ts tn o1 r b m a w = (x3, w') \<Longrightarrow> world_inv w' = world_inv w"
  "lab_rebase ts tn o1 r rv ps w = (x4, w') \<Longrightarrow> world_inv w' = world_inv w"
  "client_blame ts tn o1 r path rv w = (x5, w') \<Longrightarrow> world_inv w' = world_inv w"
  "client_diff ts tn o1 r rv path w = (x6, w') \<Longrightarrow> world_inv w' = world_inv w"
  "agent_prompt ts s p w = (x7, w') \<Longrightarrow> world_inv w' = world_inv w"
  "repo_default_branch ts tn o1 r w = (x8, w') \<Longrightarrow> world_inv w' = world_inv w"
proof -
  show raw: "read_file_raw ts tn o1 r b path w = (x1, w') \<Longrightarrow> world_inv w' = world_inv w" for x1
    by (auto simp: read_file_raw_def Let_def split: prod.splits sum.splits dest: on_env_inv)
  show "base_sha ts tn o1 r b path w = (x2, w') \<Longrightarrow> world_inv w' = world_inv w"
    using raw by (auto simp: base_sha_def split: prod.splits sum.splits)
  show "agent_prompt ts s p w = (x7, w') \<Longrightarrow> world_inv w' = world_inv w"
    by (auto simp: agent_prompt_def split: prod.splits sum.splits option.splits dest: on_env_inv)
qed (auto simp: commit_in_def lab_rebase_def client_blame_def client_diff_def
      repo_default_branch_def split: prod.splits sum.splits option.splits dest: on_env_inv)

lemma notify_inv [simp]: "world_inv (notify_target_session ts o1 r target iid source w) = world_inv w"
  using helper_inv(7)[of ts _ _ w] by (simp add: notify_target_session_def) (metis prod.collapse)

lemma parse_session_clean:
  "parse_session s = Some (o1, r, b) \<Longrightarrow> CHR '':'' \<notin> set o1 \<and> CHR '':'' \<notin> set r \<and> CHR '':'' \<notin> set b"
  by (simp add: parse_session_iff)

lemma resolve_clean:
  assumes "world_inv w" "fst (resolve_in ev tenant sid w) = Inr (o1, r, b)"
  shows "CHR '':'' \<notin> set o1 \<and> CHR '':'' \<notin> set r \<and> CHR '':'' \<notin> set b"
  using resolved_named[OF assms] parse_session_clean by blast

lemma session_base_inv:
  assumes "world_inv w" "session_base ts tenant sess w = (x, w1)"
  shows "world_inv w1 \<and> (\<forall>o1 r b. x = Inr (o1, r, b) \<longrightarrow> CHR '':'' \<notin> set o1 \<and> CHR '':'' \<notin> set r)"
proof (cases "sess = ''''")
  case True
  then show ?thesis using assms by (auto simp: session_base_def)
next
  case False
  obtain y w' where y: "resolve_in (ts_env ts) tenant sess w = (y, w')" by (cases "resolve_in (ts_env ts) tenant sess w")
  have "world_inv w'" using resolve_inv[OF assms(1), of "ts_env ts" tenant sess] y by simp
  moreover have "w' = w1" "\<And>t. x = Inr t \<Longrightarrow> y = Inr t"
    using assms(2) False y by (auto simp: session_base_def split: sum.splits)
  moreover have "CHR '':'' \<notin> set o1 \<and> CHR '':'' \<notin> set r" if "y = Inr (o1, r, b)" for o1 r b
    using resolve_clean[OF assms(1), of "ts_env ts" tenant sess o1 r b] y that by simp
  ultimately show ?thesis by auto
qed

lemma with_base_inv:
  assumes "world_inv w1" "\<And>o1 r b. x = Inr (o1, r, b) \<Longrightarrow> world_inv (snd (k o1 r b w1))"
  shows "world_inv (snd (with_base (x, w1) k))"
  using assms by (cases x) (auto simp: with_base_def)

lemma ref_base_inv:
  assumes "world_inv w" "ref_base ts tenant sess args w = (x, w1)"
  shows "world_inv w1"
  using assms session_base_inv[of w ts tenant sess]
  by (auto simp: ref_base_def Let_def split: if_splits option.splits prod.splits)

lemma xo_base_inv:
  assumes "world_inv w" "session_base_xo ts tenant sess args w = (x, w1)"
  shows "world_inv w1"
  using assms session_base_inv[of w ts tenant sess]
  by (auto simp: session_base_xo_def split: prod.splits sum.splits)

lemma based_inv:
  assumes "world_inv w"
  shows "(\<And>o1 r b w1. world_inv w1 \<Longrightarrow> CHR '':'' \<notin> set o1 \<Longrightarrow> CHR '':'' \<notin> set r \<Longrightarrow> world_inv (snd (k o1 r b w1)))
      \<Longrightarrow> world_inv (snd (with_base (session_base ts tenant sess w) k))"
    and "(\<And>o1 r b w1. world_inv w1 \<Longrightarrow> world_inv (snd (k o1 r b w1)))
      \<Longrightarrow> world_inv (snd (with_base (ref_base ts tenant sess args w) k))"
    and "(\<And>o1 r b w1. world_inv w1 \<Longrightarrow> world_inv (snd (k o1 r b w1)))
      \<Longrightarrow> world_inv (snd (with_base (session_base_xo ts tenant sess args w) k))"
proof -
  assume k: "\<And>o1 r b w1. world_inv w1 \<Longrightarrow> CHR '':'' \<notin> set o1 \<Longrightarrow> CHR '':'' \<notin> set r \<Longrightarrow> world_inv (snd (k o1 r b w1))"
  obtain x w1 where b: "session_base ts tenant sess w = (x, w1)" by (cases "session_base ts tenant sess w")
  show "world_inv (snd (with_base (session_base ts tenant sess w) k))"
    unfolding b using session_base_inv[OF assms b] k by (intro with_base_inv) auto
next
  assume k: "\<And>o1 r b w1. world_inv w1 \<Longrightarrow> world_inv (snd (k o1 r b w1))"
  obtain x w1 where b: "ref_base ts tenant sess args w = (x, w1)" by (cases "ref_base ts tenant sess args w")
  show "world_inv (snd (with_base (ref_base ts tenant sess args w) k))"
    unfolding b using ref_base_inv[OF assms b] k by (intro with_base_inv) auto
next
  assume k: "\<And>o1 r b w1. world_inv w1 \<Longrightarrow> world_inv (snd (k o1 r b w1))"
  obtain x w1 where b: "session_base_xo ts tenant sess args w = (x, w1)"
    by (cases "session_base_xo ts tenant sess args w")
  show "world_inv (snd (with_base (session_base_xo ts tenant sess args w) k))"
    unfolding b using xo_base_inv[OF assms b] k by (intro with_base_inv) auto
qed

lemma start_subsession_inv:
  assumes "world_inv w" "CHR '':'' \<notin> set o1" "CHR '':'' \<notin> set r" "CHR '':'' \<notin> set branch"
  shows "world_inv (snd (start_subsession ts tenant o1 r b branch prompt def w))"
proof -
  have p: "parse_session (naming_session o1 r branch) = Some (o1, r, branch)"
    using assms(2-4) by (simp add: parse_session_iff)
  have bind: "world_inv (v\<lparr> w_store := snd (bind_row tenant o1 r branch (naming_session o1 r branch) (w_store v)) \<rparr>)"
    if "world_inv v" for v :: "'a world"
    using that bind_row_named[OF _ p, of "w_store v" tenant] by (simp add: world_inv_def)
  show ?thesis
    unfolding start_subsession_def Let_def
    using assms(1) bind_row_None[of tenant o1 r branch "naming_session o1 r branch"]
    by (auto split: prod.splits option.splits sum.splits dest!: on_env_inv helper_inv dest: bind)
qed

lemma tool_inv:
  assumes f: "repo_tool name = Some f" and w: "world_inv w"
  shows "world_inv (snd (f ts tenant sess args w))"
proof -
  note inv = on_env_inv helper_inv
  note splits = prod.splits sum.splits option.splits read_result.splits edit_result.splits
  have own: "world_inv (snd (f ts tenant sess args w))"
    if "f \<in> {tool_write, tool_delete, tool_edit, tool_resolve, tool_rebase, tool_tag_list, tool_tag_set,
      tool_mr_create, tool_mr_list, tool_mr_comment, tool_mr_merge}"
    using that by (elim insertE emptyE; hypsubst; unfold tool_defs; intro based_inv(1)[OF w])
      (auto simp: Let_def dest!: inv split: splits)
  have any: "world_inv (snd (f ts tenant sess args w))"
    if "f \<in> {tool_read, tool_ls, tool_grep, tool_graph, tool_blame, tool_log, tool_show}"
    using that by (elim insertE emptyE; hypsubst; unfold tool_defs; intro based_inv(2)[OF w])
      (auto simp: Let_def dest!: inv split: splits)
  have "world_inv (snd (tool_diff ts tenant sess args w))"
    unfolding tool_diff_def by (rule based_inv(3)[OF w]) (auto simp: Let_def dest!: inv split: splits)
  moreover have "world_inv (snd (tool_explore ts tenant sess args w))"
    using w by (auto simp: tool_explore_def Let_def dest!: inv split: prod.splits sum.splits)
  moreover have "world_inv (snd (tool_subsession_create ts tenant sess args w))"
    unfolding tool_subsession_create_def
  proof (rule based_inv(1)[OF w], goal_cases)
    case (1 o1 r b w1)
    have "CHR '':'' \<notin> set (ta_str args ''branch'')" if "valid_session_component (ta_str args ''branch'')"
      using that by (auto simp: valid_session_component_def split: if_splits)
    then show ?case
      using 1 by (auto simp: Let_def dest!: inv split: prod.splits sum.splits intro!: start_subsession_inv)
  qed
  ultimately show ?thesis using repo_tool_cases[OF f] own any by blast
qed

text \<open>
  The process as a whole: the steps of the lifecycle handlers and the tool calls of any agent, in any
  order and with any arguments.
\<close>

inductive agent_reach :: "'e toolset \<Rightarrow> 'e world \<Rightarrow> bool" for ts where
  ar_start: "agent_reach ts \<lparr> w_store = empty_store, w_cache = (\<lambda>_. None), w_env = e \<rparr>"
| ar_life: "agent_reach ts w \<Longrightarrow> life_step (ts_env ts) w w' \<Longrightarrow> agent_reach ts w'"
| ar_tool: "agent_reach ts w \<Longrightarrow> repo_tool name = Some f \<Longrightarrow> agent_reach ts (snd (f ts tenant sess args w))"

lemma agent_reach_inv: "agent_reach ts w \<Longrightarrow> world_inv w"
proof (induction rule: agent_reach.induct)
  case (ar_start e)
  show ?case by (rule life_reach_inv[OF lr_start])
next
  case (ar_life w w')
  from ar_life.hyps(2) ar_life.IH show ?case
    by cases (simp_all add: event_inv reconcile_inv adopt_inv resolve_inv)
next
  case (ar_tool w name f tenant sess args)
  then show ?case using tool_inv by blast
qed

text \<open>
  C34: Sessions and branches stay in step under everything that happens in the process: whatever the lab,
  the agent and the clock do, and in whatever order lifecycle events, reconciliations, adoptions and
  tool calls of any agent come - a session that resolves resolves to the workspace its own name
  spells, from the row and from the cache alike, and within a tenant the rows of the mapping stay
  one to one.
\<close>

theorem tools_keep_binding:
  assumes "agent_reach ts w"
    and "fst (resolve_in (ts_env ts) tenant sid w) = Inr (org, repo, b)"
    and "CHR 0x00 \<notin> set tenant" "CHR 0x00 \<notin> set sid"
  shows "parse_session sid = Some (org, repo, b) \<and> store_ok (w_store w)
    \<and> (\<forall>x\<in>set (rs_rows (w_store w)). parse_session (mr_session x) = Some (mr_org x, mr_repo x, mr_branch x))"
  using agent_reach_inv[OF assms(1)] resolved_own_name[OF _ assms(2-4)] inv_rows by blast

section \<open>The privileges of the default branch\<close>

text \<open>
  Only the session on the repository's default branch merges or starts subsessions: from any
  other branch both tools fail and have called nothing but the listing of the repositories (the
  subsession tool may fail earlier, on its arguments); and no argument of a call changes which
  repository or branch the session stands for.
\<close>

lemma only_default_branch:
  assumes "session_base ts tenant sess w = (Inr (o1, r, b), w1)"
    and "repo_default_branch ts tenant o1 r w1 = (Inr def, w2)"
    and "b \<noteq> main_branch def"
  shows "tool_mr_merge ts tenant sess args w
      = (ToolErr (Localized ''merge_is_only_allowed_from_the_arg_default_bra'' [main_branch def, b]), w2)
    \<and> (\<exists>m. tool_subsession_create ts tenant sess args w \<in> {(ToolErr m, w1), (ToolErr m, w2)})"
  using assms by (simp add: tool_mr_merge_def tool_subsession_create_def with_base_def Let_def) metis

section \<open>The lock that is none\<close>

text \<open>
  The writing tools read the blob's hash as the base of an optimistic lock, but the hash is always empty;
  and the commit sends the same change whatever the base.
\<close>

lemma no_optimistic_lock: "fst (base_sha ts tn o1 r b path w) = ''''"
  by (auto simp: base_sha_def read_file_raw_def Let_def split: prod.splits sum.splits)

section \<open>A subsession that fails half way\<close>

text \<open>
  C35: A subsession whose session cannot be created is lost: the branch has been made, the call fails
  with the agent's error and binds nothing; and from then on, as long as the lab lists that branch
  and the repository keeps its default branch, every retry with the same arguments is refused,
  because the branch exists.
\<close>

theorem failed_subsession_sticks:
  assumes "ta_str args ''branch'' \<noteq> ''''" "ta_str args ''prompt'' \<noteq> ''''"
    and "valid_session_component (ta_str args ''branch'')"
    and "session_base ts tenant sess w = (Inr (o1, r, b), w1)"
    and "repo_default_branch ts tenant o1 r w1 = (Inr def, w2)" "b = main_branch def"
    and "on_env (get_repo_tree (ts_env ts) tenant) w2 = (Inr tree, w3)"
    and "\<not> branch_exists tree o1 r (ta_str args ''branch'')"
    and "on_env (list_sessions (ts_env ts)) w3 = (Inl lerr, w4)
      \<or> (\<exists>names. on_env (list_sessions (ts_env ts)) w3 = (Inr names, w4)
           \<and> naming_session o1 r (ta_str args ''branch'') \<notin> set names)"
    and "on_env (ensure_branch (ts_env ts) tenant o1 r b (ta_str args ''branch'')) w4 = (None, w5)"
    and "on_env (create_repo_session (ts_env ts) o1 r (ta_str args ''branch'') ''build'') w5 = (Some err, w6)"
    and "session_base ts tenant sess v = (Inr (o1, r, b), v1)"
    and "repo_default_branch ts tenant o1 r v1 = (Inr def, v2)"
    and "on_env (get_repo_tree (ts_env ts) tenant) v2 = (Inr later, v3)"
    and "branch_exists later o1 r (ta_str args ''branch'')"
  shows "tool_subsession_create ts tenant sess args w = (ToolErr (Plain (downstream ''agent'' err)), w6)
    \<and> w_store w6 = w_store w
    \<and> tool_subsession_create ts tenant sess args v
      = (ToolErr (Localized ''branch_arg_already_exists'' [ta_str args ''branch'']), v3)"
proof -
  have store: "w_store w' = w_store u" if "on_env f u = (x, w')" for f :: "'a \<Rightarrow> 'z \<times> 'a" and u x w'
    using that by (auto simp: on_env_def split: prod.splits)
  have "w_store w1 = w_store w"
    using assms(4) by (auto simp: session_base_def resolve_in_def split: if_splits prod.splits sum.splits)
  moreover have "w_store w2 = w_store w1"
    using assms(5) by (auto simp: repo_default_branch_def split: prod.splits sum.splits option.splits dest: store)
  ultimately have "w_store w6 = w_store w"
    using assms(9) store[OF assms(7)] store[OF assms(10)] store[OF assms(11)]
    by (auto dest: store)
  moreover have "tool_subsession_create ts tenant sess args w = (ToolErr (Plain (downstream ''agent'' err)), w6)"
    using assms(1-11)
    by (auto simp: tool_subsession_create_def start_subsession_def with_base_def Let_def)
  moreover have "tool_subsession_create ts tenant sess args v
      = (ToolErr (Localized ''branch_arg_already_exists'' [ta_str args ''branch'']), v3)"
    using assms(1-3,6,12-15) by (simp add: tool_subsession_create_def with_base_def Let_def)
  ultimately show ?thesis by simp
qed

section \<open>A concrete agent\<close>

definition demo_agent :: "conn_err option \<Rightarrow> demo toolset" where
  "demo_agent broken = \<lparr>
     ts_env = demo_env\<lparr> ev_create_session := (\<lambda>n o' r b p g d. (broken, d)) \<rparr>,
     ts_encode = (\<lambda>s. s), ts_decode = Some, ts_order = (\<lambda>t. []),
     ts_read_blob = (\<lambda>tn o' r path ref d. (Inr (''one'' @ newline @ ''two'' @ newline, ''''), d)),
     ts_tree = (\<lambda>tn o' r ref path d. (Inr [], d)), ts_search = (\<lambda>tn o' r ref q d. (Inr [], d)),
     ts_graph = (\<lambda>tn o' r n d. (Inr [], d)), ts_compare = (\<lambda>tn o' r a z d. (Inr [], d)),
     ts_diff = (\<lambda>tn o' r c p d. (Inr [], d)), ts_rebase = (\<lambda>tn o' r v ps d. (Inr (''r'', ''s''), d)),
     ts_blame = (\<lambda>tn o' r p v d. (Inr [], d)), ts_log = (\<lambda>tn o' r b n d. (Inr [], d)),
     ts_tags = (\<lambda>tn o' r d. (Inr [], d)), ts_set_tag = (\<lambda>tn o' r n t d. (None, d)),
     ts_create_mr = (\<lambda>tn o' r t m s z d. (Inr ''1'', d)), ts_list_mrs = (\<lambda>tn o' r s d. (Inr [], d)),
     ts_add_comment = (\<lambda>tn o' r i m p d. (None, d)), ts_merge_mr = (\<lambda>tn o' r i d. (Inr (''r'', 0), d)),
     ts_list_repos = (\<lambda>tn d. (Inr [(''acme'', ''web'', ''dev'')], d)),
     ts_prompt = (\<lambda>s p d. (Inr ([(''accepted'', ''m'')], None), d)) \<rparr>"

definition demo_args :: "(string \<times> string) list \<Rightarrow> tool_args" where
  "demo_args kvs = \<lparr> ta_str = (\<lambda>k. case map_of kvs k of None \<Rightarrow> '''' | Some v \<Rightarrow> v), ta_int = (\<lambda>k d. d) \<rparr>"

definition sub_args :: tool_args where
  "sub_args = demo_args [(''branch'', ''fix''), (''prompt'', ''go'')]"

lemma pair_snd: "fst p = a \<Longrightarrow> p = (a, snd p)"
  by (cases p) simp

abbreviation down :: conn_err where
  "down \<equiv> ConnErr Unavailable ''down''"

definition agent_bound :: "conn_err option \<Rightarrow> demo world" where
  "agent_bound x = snd (handle_event (ts_env (demo_agent x)) ''created'' (demo_event dev) ''default'' (demo_start demo_lab))"

lemma agent_bound_reach: "agent_reach (demo_agent x) (agent_bound x)"
  unfolding agent_bound_def using ar_life[OF ar_start ls_event] unfolding demo_start_def .

lemma tools_keep_binding_witness:
  "fst (resolve_in (ts_env (demo_agent None)) ''default'' ''acme:web:fix''
      (snd (tool_subsession_create (demo_agent None) ''default'' dev sub_args (agent_bound None))))
      = Inr (''acme'', ''web'', ''fix'')
    \<and> parse_session ''acme:web:fix'' = Some (''acme'', ''web'', ''fix'')"
proof -
  have "repo_tool ''subsession-create'' = Some tool_subsession_create" by (simp add: repo_tool_def)
  note reach = ar_tool[OF agent_bound_reach[of None] this, of "''default''" dev sub_args]
  have "fst (resolve_in (ts_env (demo_agent None)) ''default'' ''acme:web:fix''
      (snd (tool_subsession_create (demo_agent None) ''default'' dev sub_args (agent_bound None))))
      = Inr (''acme'', ''web'', ''fix'')" by code_simp
  with tools_keep_binding[OF reach this] show ?thesis by simp
qed

lemma tools_confined_witness:
  "tool_edit (confine (demo_agent None) (demo_agent (Some down)) ''acme'' ''web'' ''dev'') ''default'' dev
      sub_args (agent_bound None)
    = tool_edit (demo_agent None) ''default'' dev sub_args (agent_bound None)"
proof -
  have "repo_tool ''edit'' = Some tool_edit" by (simp add: repo_tool_def)
  moreover have "fst (session_base (demo_agent None) ''default'' dev (agent_bound None))
      = Inr (''acme'', ''web'', ''dev'')" by code_simp
  ultimately show ?thesis by (intro tools_confined[OF _ pair_snd])
qed

lemma only_default_branch_witness:
  "\<exists>m. fst (tool_mr_merge (demo_agent None\<lparr> ts_list_repos := (\<lambda>tn d. (Inr [], d)) \<rparr>) ''default'' dev sub_args
      (agent_bound None)) = ToolErr m"
proof -
  let ?ts = "demo_agent None\<lparr> ts_list_repos := (\<lambda>tn d. (Inr [], d)) \<rparr>"
  have "fst (session_base ?ts ''default'' dev (agent_bound None)) = Inr (''acme'', ''web'', ''dev'')"
    by code_simp
  moreover have "fst (repo_default_branch ?ts ''default'' ''acme'' ''web''
      (snd (session_base ?ts ''default'' dev (agent_bound None)))) = Inr ''''" by code_simp
  ultimately show ?thesis
    using only_default_branch[OF pair_snd pair_snd, of ?ts "''default''" dev "agent_bound None"
        "''acme''" "''web''" "''dev''" "''''" sub_args]
    by (simp add: main_branch_def)
qed

lemma failed_subsession_sticks_witness:
  "let ts = demo_agent (Some down); first = tool_subsession_create ts ''default'' dev sub_args (agent_bound (Some down))
   in fst first = ToolErr (Plain (downstream ''agent'' down))
     \<and> fst (tool_subsession_create ts ''default'' dev sub_args (snd first))
       = ToolErr (Localized ''branch_arg_already_exists'' [''fix''])"
proof -
  let ?ts = "demo_agent (Some down)"
  let ?w = "agent_bound (Some down)"
  let ?ev = "ts_env ?ts"
  let ?w1 = "snd (session_base ?ts ''default'' dev ?w)"
  let ?w2 = "snd (repo_default_branch ?ts ''default'' ''acme'' ''web'' ?w1)"
  let ?t = "on_env (get_repo_tree ?ev ''default'') ?w2"
  let ?tree = "projr (fst ?t)"
  let ?w4 = "snd (on_env (list_sessions ?ev) (snd ?t))"
  let ?w5 = "snd (on_env (ensure_branch ?ev ''default'' ''acme'' ''web'' ''dev'' ''fix'') ?w4)"
  let ?w6 = "snd (on_env (create_repo_session ?ev ''acme'' ''web'' ''fix'' ''build'') ?w5)"
  let ?v1 = "snd (session_base ?ts ''default'' dev ?w6)"
  let ?v2 = "snd (repo_default_branch ?ts ''default'' ''acme'' ''web'' ?v1)"
  let ?s = "on_env (get_repo_tree ?ev ''default'') ?v2"
  have tree: "p = (Inr (projr (fst p)), snd p)" if "\<not> isl (fst p)" for p :: "(op_error + repo_tree) \<times> demo world"
    using that by (cases p; cases "fst p") auto
  have a: "ta_str sub_args ''branch'' = ''fix''" "ta_str sub_args ''prompt'' = ''go''" by code_simp+
  have f: "valid_session_component ''fix''" by code_simp
  have 1: "session_base ?ts ''default'' dev ?w = (Inr (''acme'', ''web'', ''dev''), ?w1)"
    by (rule pair_snd) code_simp
  have 2: "repo_default_branch ?ts ''default'' ''acme'' ''web'' ?w1 = (Inr ''dev'', ?w2)"
    by (rule pair_snd) code_simp
  have 3: "?t = (Inr ?tree, snd ?t)" by (rule tree) code_simp
  have 4: "\<not> branch_exists ?tree ''acme'' ''web'' ''fix''" by code_simp
  have 5: "on_env (list_sessions ?ev) (snd ?t) = (Inr [''acme:web:dev''], ?w4)" by (rule pair_snd) code_simp
  have 6: "on_env (ensure_branch ?ev ''default'' ''acme'' ''web'' ''dev'' ''fix'') ?w4 = (None, ?w5)"
    by (rule pair_snd) code_simp
  have 7: "on_env (create_repo_session ?ev ''acme'' ''web'' ''fix'' ''build'') ?w5 = (Some down, ?w6)"
    by (rule pair_snd) code_simp
  have 8: "session_base ?ts ''default'' dev ?w6 = (Inr (''acme'', ''web'', ''dev''), ?v1)"
    by (rule pair_snd) code_simp
  have 9: "repo_default_branch ?ts ''default'' ''acme'' ''web'' ?v1 = (Inr ''dev'', ?v2)"
    by (rule pair_snd) code_simp
  have 10: "?s = (Inr (projr (fst ?s)), snd ?s)" by (rule tree) code_simp
  have 11: "branch_exists (projr (fst ?s)) ''acme'' ''web'' ''fix''" by code_simp
  have m: "''dev'' = main_branch ''dev''" by (simp add: main_branch_def)
  have n: "naming_session ''acme'' ''web'' ''fix'' \<notin> set [''acme:web:dev'']" by code_simp
  have l: "on_env (list_sessions ?ev) (snd ?t) = (Inl down, ?w4)
      \<or> (\<exists>names. on_env (list_sessions ?ev) (snd ?t) = (Inr names, ?w4)
           \<and> naming_session ''acme'' ''web'' ''fix'' \<notin> set names)"
    using 5 n by blast
  note stuck = failed_subsession_sticks[of sub_args ?ts "''default''" dev ?w "''acme''" "''web''" "''dev''",
      unfolded a, OF _ _ f 1 2 m 3 4 l 6 7 8 9 10 11]
  have "tool_subsession_create ?ts ''default'' dev sub_args ?w = (ToolErr (Plain (downstream ''agent'' down)), ?w6)"
    "tool_subsession_create ?ts ''default'' dev sub_args ?w6
      = (ToolErr (Localized ''branch_arg_already_exists'' [''fix'']), snd ?s)"
    using stuck by simp_all
  then show ?thesis unfolding Let_def by (simp only: fst_conv snd_conv)
qed

end
