(* ===== verification/Accounts.thy ===== *)
theory Accounts
imports Act Authn
begin

text \<open>
  Accounts: the user service of the gateway (\<^verbatim>\<open>cmd/easylab/connuser.go\<close>), the client of the
  agent's administration and the credential a user's calls of the agent carry
  (\<^verbatim>\<open>user_admin.go\<close>), and the accounts made at start-up (\<^verbatim>\<open>bootstrap.go\<close>,
  \<^verbatim>\<open>bootstrap_agent.go\<close>).

  The store of users and tokens, the random source and the agent are third-party: the record
  \<^verbatim>\<open>account_env\<close> of their operations, over a state \<^verbatim>\<open>'e\<close> of their own.  Times are the texts
  that are sent.
\<close>

section \<open>The store\<close>

datatype store_err = NoRow string | NameTaken string | StoreFailed string

fun store_text :: "store_err \<Rightarrow> string" where
  "store_text (NoRow m) = m"
| "store_text (NameTaken m) = m"
| "store_text (StoreFailed m) = m"

fun status_err :: "store_err \<Rightarrow> conn_err" where
  "status_err (NoRow m) = ConnErr NotFound m"
| "status_err (NameTaken m) = ConnErr AlreadyExists m"
| "status_err (StoreFailed m) =
    (if contains_sub ''UNIQUE constraint failed'' m then ConnErr AlreadyExists m else ConnErr Internal m)"

record account =
  ac_id :: int
  ac_name :: string
  ac_display :: string
  ac_disabled :: bool
  ac_created :: string
  ac_tenant :: string
  ac_agent_token :: string

record token_row =
  tk_id :: int
  tk_token :: string
  tk_created :: string

record 'e account_env =
  an_create_user :: "string \<Rightarrow> string \<Rightarrow> 'e \<Rightarrow> (store_err + account) \<times> 'e"
  an_get_user :: "int \<Rightarrow> 'e \<Rightarrow> store_err + account"
  an_by_name :: "string \<Rightarrow> 'e \<Rightarrow> store_err + account"
  an_users :: "'e \<Rightarrow> store_err + account list"
  an_update_user :: "int \<Rightarrow> string option \<Rightarrow> bool option \<Rightarrow> 'e \<Rightarrow> (store_err + account) \<times> 'e"
  an_delete_user :: "int \<Rightarrow> 'e \<Rightarrow> (store_err + unit) \<times> 'e"
  an_lookup_token :: "string \<Rightarrow> 'e \<Rightarrow> bool"
  an_create_token :: "string \<Rightarrow> int \<Rightarrow> string \<Rightarrow> 'e \<Rightarrow> (store_err + token_row) \<times> 'e"
  an_tokens :: "int \<Rightarrow> 'e \<Rightarrow> store_err + token_row list"
  an_delete_token :: "string \<Rightarrow> 'e \<Rightarrow> (store_err + unit) \<times> 'e"
  an_binding :: "int \<Rightarrow> 'e \<Rightarrow> store_err + string \<times> string"
  an_set_binding :: "int \<Rightarrow> string \<Rightarrow> string \<Rightarrow> 'e \<Rightarrow> (store_err + unit) \<times> 'e"
  an_random :: "'e \<Rightarrow> (string + string) \<times> 'e"
  an_admin_url :: string
  an_admin_token :: string
  an_forward_token :: string
  an_create_tenant :: "string \<Rightarrow> string \<Rightarrow> 'e \<Rightarrow> (conn_err + string) \<times> 'e"
  an_disable_tenant :: "string \<Rightarrow> 'e \<Rightarrow> (conn_err + unit) \<times> 'e"
  an_delete_tenant :: "string \<Rightarrow> 'e \<Rightarrow> (conn_err + unit) \<times> 'e"

text \<open>A call of the store whose error is answered under its own code, or as internal.\<close>

definition store_call :: "('e \<Rightarrow> (store_err + 'b) \<times> 'e) \<Rightarrow> ('b \<Rightarrow> ('e, 'a) act) \<Rightarrow> ('e, 'a) act" where
  "store_call f k v = (case f v of (Inl err, v') \<Rightarrow> (Fail (status_err err), v') | (Inr b, v') \<Rightarrow> k b v')"

definition asked :: "('e \<Rightarrow> store_err + 'b) \<Rightarrow> ('b \<Rightarrow> ('e, 'a) act) \<Rightarrow> ('e, 'a) act" where
  "asked f k v = (case f v of Inl err \<Rightarrow> (Fail (status_err err), v) | Inr b \<Rightarrow> k b v)"

definition remote :: "('e \<Rightarrow> (conn_err + 'b) \<times> 'e) \<Rightarrow> (conn_err + 'b \<Rightarrow> ('e, 'a) act) \<Rightarrow> ('e, 'a) act" where
  "remote f k v = (case f v of (r, v') \<Rightarrow> k r v')"

section \<open>Credentials\<close>

definition token_prefix :: string where
  "token_prefix = ''elt_''"

definition generate_token :: "'e account_env \<Rightarrow> 'e \<Rightarrow> (string + string) \<times> 'e" where
  "generate_token ev v =
    (case an_random ev v of (Inl m, v') \<Rightarrow> (Inl m, v') | (Inr b, v') \<Rightarrow> (Inr (token_prefix @ b), v'))"

definition agent_admin :: "'e account_env \<Rightarrow> bool" where
  "agent_admin ev \<longleftrightarrow> an_admin_url ev \<noteq> '''' \<and> an_admin_token ev \<noteq> ''''"

definition agent_token_for_user :: "'e account_env \<Rightarrow> int \<Rightarrow> 'e \<Rightarrow> string" where
  "agent_token_for_user ev uid v =
    (if uid \<noteq> 0 then
       (case an_binding ev uid v of
          Inr (tenant, tok) \<Rightarrow> if tok \<noteq> '''' then tok else an_forward_token ev
        | Inl _ \<Rightarrow> an_forward_token ev)
     else an_forward_token ev)"

section \<open>The user service\<close>

record user_msg =
  um_id :: string
  um_name :: string
  um_display :: string
  um_disabled :: bool
  um_created :: string
  um_tenant :: string

definition user_msg_of :: "account \<Rightarrow> user_msg" where
  "user_msg_of u = \<lparr> um_id = dec_int (ac_id u), um_name = ac_name u, um_display = ac_display u,
     um_disabled = ac_disabled u, um_created = ac_created u, um_tenant = ac_tenant u \<rparr>"

definition parse_user_id :: "string \<Rightarrow> conn_err + int" where
  "parse_user_id i =
    (case parse_int64 (trim_space i) of
       None \<Rightarrow> Inl (ConnErr InvalidArgument (''invalid user id '' @ go_quote i))
     | Some n \<Rightarrow> Inr n)"

definition with_user_id :: "string \<Rightarrow> (int \<Rightarrow> ('e, 'a) act) \<Rightarrow> ('e, 'a) act" where
  "with_user_id i k = (case parse_user_id i of Inl err \<Rightarrow> flunk err | Inr n \<Rightarrow> k n)"

definition resolve_user :: "'e account_env \<Rightarrow> string \<Rightarrow> 'e \<Rightarrow> conn_err + account" where
  "resolve_user ev i v =
    (case (case parse_int64 i of Some n \<Rightarrow> an_get_user ev n v | None \<Rightarrow> Inl (NoRow '''')) of
       Inr u \<Rightarrow> Inr u
     | Inl _ \<Rightarrow>
         (case an_by_name ev i v of
            Inr u \<Rightarrow> Inr u
          | Inl _ \<Rightarrow> Inl (ConnErr NotFound (''user '' @ go_quote i @ '' not found''))))"

definition provision_tenant :: "'e account_env \<Rightarrow> account \<Rightarrow> (account \<Rightarrow> ('e, 'a) act) \<Rightarrow> ('e, 'a) act" where
  "provision_tenant ev u k =
    remote (an_create_tenant ev (ac_name u) (ac_display u)) (\<lambda>r. case r of
      Inl err \<Rightarrow> refuse Internal (''agent tenant create: '' @ conn_text err)
    | Inr tok \<Rightarrow>
        (\<lambda>v. case an_set_binding ev (ac_id u) (ac_name u) tok v of
           (Inl err, v') \<Rightarrow> (Fail (ConnErr Internal (store_text err)), v')
         | (Inr _, v') \<Rightarrow> k (u\<lparr> ac_tenant := ac_name u \<rparr>) v'))"

definition create_user :: "'e account_env \<Rightarrow> principal option \<Rightarrow> string \<Rightarrow> string \<Rightarrow> bool
    \<Rightarrow> ('e, user_msg \<times> string) act" where
  "create_user ev ctx username display provision =
    demand (\<lambda>_. require_admin ctx ''creating a user'')
      (store_call (an_create_user ev username display) (\<lambda>u.
        effect Internal (generate_token ev) (\<lambda>plain.
        store_call (an_create_token ev plain (ac_id u) ''write'') (\<lambda>_.
        if provision \<and> agent_admin ev
        then provision_tenant ev u (\<lambda>u'. give (user_msg_of u', plain))
        else give (user_msg_of u, plain)))))"

definition get_user :: "'e account_env \<Rightarrow> principal option \<Rightarrow> string \<Rightarrow> ('e, user_msg) act" where
  "get_user ev ctx i =
    demand (\<lambda>_. require_authenticated ctx ''reading a user'')
      (\<lambda>v. case resolve_user ev i v of Inl err \<Rightarrow> (Fail err, v) | Inr u \<Rightarrow> (Done (user_msg_of u), v))"

definition list_users :: "'e account_env \<Rightarrow> principal option \<Rightarrow> ('e, user_msg list) act" where
  "list_users ev ctx =
    demand (\<lambda>_. require_authenticated ctx ''listing users'') (asked (an_users ev) (\<lambda>us. give (map user_msg_of us)))"

text \<open>
  Disabling a user disables the bound tenant, whatever comes of it; enabling one does not touch the
  tenant.
\<close>

definition propagate_disabled :: "'e account_env \<Rightarrow> int \<Rightarrow> bool option \<Rightarrow> 'e \<Rightarrow> 'e" where
  "propagate_disabled ev uid disabled v =
    (if disabled = Some True \<and> agent_admin ev
     then (case an_binding ev uid v of
             Inr (tenant, tok) \<Rightarrow> if tenant \<noteq> '''' then snd (an_disable_tenant ev tenant v) else v
           | Inl _ \<Rightarrow> v)
     else v)"

definition update_user :: "'e account_env \<Rightarrow> principal option \<Rightarrow> string \<Rightarrow> string option \<Rightarrow> bool option
    \<Rightarrow> ('e, user_msg) act" where
  "update_user ev ctx i display disabled =
    demand (\<lambda>_. require_admin ctx ''updating a user'')
      (with_user_id i (\<lambda>uid. store_call (an_update_user ev uid display disabled) (\<lambda>u.
        alter (propagate_disabled ev uid disabled) (give (user_msg_of u)))))"

record delete_reply =
  dr_ok :: bool
  dr_agent :: bool
  dr_error :: string

definition delete_user :: "'e account_env \<Rightarrow> principal option \<Rightarrow> string \<Rightarrow> ('e, delete_reply) act" where
  "delete_user ev ctx i =
    demand (\<lambda>_. require_admin ctx ''deleting a user'')
      (with_user_id i (\<lambda>uid v.
        let finish = (\<lambda>agent. store_call (an_delete_user ev uid)
              (\<lambda>_. give \<lparr> dr_ok = True, dr_agent = agent, dr_error = '''' \<rparr>)) in
        case an_binding ev uid v of
          Inr (tenant, tok) \<Rightarrow>
            if tenant \<noteq> '''' \<and> agent_admin ev
            then remote (an_delete_tenant ev tenant) (\<lambda>r. case r of
                   Inl err \<Rightarrow> give \<lparr> dr_ok = False, dr_agent = False, dr_error = conn_text err \<rparr>
                 | Inr _ \<Rightarrow> finish True) v
            else finish False v
        | Inl _ \<Rightarrow> finish False v))"

definition list_user_tokens :: "'e account_env \<Rightarrow> principal option \<Rightarrow> string \<Rightarrow> ('e, (string \<times> string) list) act" where
  "list_user_tokens ev ctx i =
    demand (\<lambda>_. require_authenticated ctx ''listing tokens'')
      (with_user_id i (\<lambda>uid. asked (an_tokens ev uid)
        (\<lambda>ts. give (map (\<lambda>t. (dec_int (tk_id t), tk_created t)) ts))))"

definition create_user_token :: "'e account_env \<Rightarrow> principal option \<Rightarrow> string \<Rightarrow> string \<Rightarrow> ('e, string) act" where
  "create_user_token ev ctx i wanted =
    demand (\<lambda>_. require_admin ctx ''minting a token'')
      (with_user_id i (\<lambda>uid.
        let mint = (\<lambda>plain. store_call (an_create_token ev plain uid ''write'') (\<lambda>t. give (tk_token t))) in
        if wanted = '''' then effect Internal (generate_token ev) mint else mint wanted))"

definition delete_user_token :: "'e account_env \<Rightarrow> principal option \<Rightarrow> string \<Rightarrow> ('e, unit) act" where
  "delete_user_token ev ctx tok =
    demand (\<lambda>_. require_admin ctx ''revoking a token'') (store_call (an_delete_token ev tok) (\<lambda>_. give ()))"

section \<open>Accounts made at start-up\<close>

definition make_operator :: "'e account_env \<Rightarrow> string \<Rightarrow> 'e \<Rightarrow> account option \<times> 'e" where
  "make_operator ev username v =
    (case an_by_name ev username v of
       Inr u \<Rightarrow> (Some u, v)
     | Inl _ \<Rightarrow>
         (case an_create_user ev username ''EasyLab Operator'' v of
            (Inr u, v1) \<Rightarrow> (Some u, v1)
          | (Inl _, v1) \<Rightarrow>
              (case an_by_name ev username v1 of Inr u \<Rightarrow> (Some u, v1) | Inl _ \<Rightarrow> (None, v1))))"

definition bootstrap_operator :: "'e account_env \<Rightarrow> string \<Rightarrow> string \<Rightarrow> 'e \<Rightarrow> 'e" where
  "bootstrap_operator ev token username v =
    (if token = '''' then v
     else case make_operator ev username v of
            (None, v1) \<Rightarrow> v1
          | (Some u, v1) \<Rightarrow>
              if an_lookup_token ev token v1 then v1
              else snd (an_create_token ev token (ac_id u) ''write'' v1))"

definition bootstrap_agent_binding :: "'e account_env \<Rightarrow> string \<Rightarrow> string \<Rightarrow> string \<Rightarrow> 'e \<Rightarrow> 'e" where
  "bootstrap_agent_binding ev agent_url agent_tenant username v =
    (if agent_url = '''' \<or> agent_tenant = '''' \<or> an_forward_token ev = '''' then v
     else case an_by_name ev username v of
            Inl _ \<Rightarrow> v
          | Inr u \<Rightarrow>
              if ac_tenant u = agent_tenant \<and> ac_agent_token u \<noteq> '''' then v
              else snd (an_set_binding ev (ac_id u) agent_tenant (an_forward_token ev) v))"

end
