(* ===== verification/Agent_Gateway.thy ===== *)
theory Agent_Gateway
imports Accounts
begin

text \<open>
  The gateway's face of the agent (\<^verbatim>\<open>cmd/easylab/connagent.go\<close>): every call of the agent's service is
  checked here, or not, and sent on with the credential of the caller.

  A request is its headers and the message, of which the gateway reads the session, the repository and
  the group; the rest is passed on.  The agent is a parameter: for the name of a call and the request, its
  answer, or the messages of a stream and how it ended.  A stream that never ends is not modelled.
\<close>

section \<open>Calls of the agent\<close>

type_synonym headers = "(string \<times> string) list"

record 'm agent_req =
  am_headers :: headers
  am_id :: string
  am_org :: string
  am_repo :: string
  am_group :: string
  am_rest :: 'm

record ('e, 'r, 'm, 'p) agent_face =
  af_central :: "'r central"
  af_accounts :: "'e account_env"
  af_unary :: "string \<Rightarrow> 'm agent_req \<Rightarrow> 'e \<Rightarrow> (conn_err + 'p) \<times> 'e"
  af_stream :: "string \<Rightarrow> 'm agent_req \<Rightarrow> 'e \<Rightarrow> (conn_err + 'p list \<times> conn_err option) \<times> 'e"
  af_send :: "'p \<Rightarrow> 'e \<Rightarrow> conn_err option \<times> 'e"

type_synonym ('e, 'r, 'm, 'p) agent_rpc =
  "('e, 'r, 'm, 'p) agent_face \<Rightarrow> principal option \<Rightarrow> 'm agent_req \<Rightarrow> ('e, 'p) act"

type_synonym ('e, 'r, 'm, 'p) agent_stream_rpc =
  "('e, 'r, 'm, 'p) agent_face \<Rightarrow> principal option \<Rightarrow> 'm agent_req \<Rightarrow> ('e, unit) act"

text \<open>
  What is sent on is a new request: the message, and none of the headers that came in; the client then sets
  the credential of the caller, if there is one.
\<close>

definition fwd_req :: "'m agent_req \<Rightarrow> 'm agent_req" where
  "fwd_req q = q\<lparr> am_headers := [] \<rparr>"

definition set_header :: "string \<Rightarrow> string \<Rightarrow> headers \<Rightarrow> headers" where
  "set_header key value hs = filter (\<lambda>(k, _). k \<noteq> key) hs @ [(key, value)]"

definition agent_bearer :: "'e account_env \<Rightarrow> principal option \<Rightarrow> 'e \<Rightarrow> 'm agent_req \<Rightarrow> 'm agent_req" where
  "agent_bearer ev ctx v q =
    (let tok = agent_token_for_user ev (user_id_of ctx) v
     in if tok \<noteq> '''' then q\<lparr> am_headers := set_header ''Authorization'' (''Bearer '' @ tok) (am_headers q) \<rparr> else q)"

definition forward :: "string \<Rightarrow> ('e, 'r, 'm, 'p) agent_rpc" where
  "forward name S ctx q v =
    (case af_unary S name (agent_bearer (af_accounts S) ctx v (fwd_req q)) v of
       (Inl err, v') \<Rightarrow> (Fail err, v')
     | (Inr p, v') \<Rightarrow> (Done p, v'))"

fun relay :: "('p \<Rightarrow> 'e \<Rightarrow> conn_err option \<times> 'e) \<Rightarrow> 'p list \<Rightarrow> conn_err option \<Rightarrow> 'e \<Rightarrow> conn_err option \<times> 'e" where
  "relay send [] err v = (err, v)"
| "relay send (p # ps) err v =
    (case send p v of
       (Some e, v') \<Rightarrow> (Some e, v')
     | (None, v') \<Rightarrow> relay send ps err v')"

definition forward_stream :: "string \<Rightarrow> ('e, 'r, 'm, 'p) agent_stream_rpc" where
  "forward_stream name S ctx q v =
    (case af_stream S name (agent_bearer (af_accounts S) ctx v (fwd_req q)) v of
       (Inl err, v') \<Rightarrow> (Fail err, v')
     | (Inr (ps, err), v') \<Rightarrow>
         (case relay (af_send S) ps err v' of
            (Some e, v2) \<Rightarrow> (Fail e, v2)
          | (None, v2) \<Rightarrow> (Done (), v2)))"

section \<open>Calls about one session\<close>

definition on_session :: "('e, 'r, 'm, 'p) agent_face \<Rightarrow> principal option \<Rightarrow> 'm agent_req \<Rightarrow> ('e, 'a) act \<Rightarrow> ('e, 'a) act" where
  "on_session S ctx q m = demand (\<lambda>_. authorize_session (af_central S) ctx (am_id q)) m"

definition face_get_session :: "('e, 'r, 'm, 'p) agent_rpc" where
  "face_get_session S ctx q = on_session S ctx q (forward ''GetSession'' S ctx q)"

definition face_delete_session :: "('e, 'r, 'm, 'p) agent_rpc" where
  "face_delete_session S ctx q = on_session S ctx q (forward ''DeleteSession'' S ctx q)"

definition list_messages :: "('e, 'r, 'm, 'p) agent_rpc" where
  "list_messages S ctx q = on_session S ctx q (forward ''ListMessages'' S ctx q)"

definition session_prompt :: "('e, 'r, 'm, 'p) agent_stream_rpc" where
  "session_prompt S ctx q = on_session S ctx q (forward_stream ''Prompt'' S ctx q)"

definition watch_session :: "('e, 'r, 'm, 'p) agent_stream_rpc" where
  "watch_session S ctx q = on_session S ctx q (forward_stream ''WatchSession'' S ctx q)"

definition face_fork :: "('e, 'r, 'm, 'p) agent_rpc" where
  "face_fork S ctx q = on_session S ctx q (forward ''Fork'' S ctx q)"

definition rename_session :: "('e, 'r, 'm, 'p) agent_rpc" where
  "rename_session S ctx q = on_session S ctx q (forward ''Rename'' S ctx q)"

definition set_model :: "('e, 'r, 'm, 'p) agent_rpc" where
  "set_model S ctx q = on_session S ctx q (forward ''SetModel'' S ctx q)"

definition undo_turn :: "('e, 'r, 'm, 'p) agent_rpc" where
  "undo_turn S ctx q = on_session S ctx q (forward ''Undo'' S ctx q)"

definition session_state :: "('e, 'r, 'm, 'p) agent_rpc" where
  "session_state S ctx q = on_session S ctx q (forward ''State'' S ctx q)"

definition session_mailbox :: "('e, 'r, 'm, 'p) agent_rpc" where
  "session_mailbox S ctx q = on_session S ctx q (forward ''Mailbox'' S ctx q)"

definition update_settings :: "('e, 'r, 'm, 'p) agent_rpc" where
  "update_settings S ctx q = on_session S ctx q (forward ''UpdateSettings'' S ctx q)"

definition interrupt_session :: "('e, 'r, 'm, 'p) agent_rpc" where
  "interrupt_session S ctx q = on_session S ctx q (forward ''Interrupt'' S ctx q)"

definition compact_session :: "('e, 'r, 'm, 'p) agent_rpc" where
  "compact_session S ctx q = on_session S ctx q (forward ''Compact'' S ctx q)"

section \<open>Calls about all sessions\<close>

definition face_list_sessions :: "('e, 'r, 'm, 'p) agent_rpc" where
  "face_list_sessions S ctx q =
    demand (\<lambda>_. require_authenticated ctx ''listing sessions'') (forward ''ListSessions'' S ctx q)"

definition watch_sessions :: "('e, 'r, 'm, 'p) agent_stream_rpc" where
  "watch_sessions S ctx q =
    demand (\<lambda>_. require_authenticated ctx ''watching sessions'') (forward_stream ''WatchSessions'' S ctx q)"

definition create_session :: "('e, 'r, 'm, 'p) agent_rpc" where
  "create_session S ctx q =
    demand (\<lambda>_. require_authenticated ctx ''creating a session'')
      (if am_org q \<noteq> '''' \<or> am_repo q \<noteq> ''''
       then demand (\<lambda>_. require_repo_action (af_central S) ctx (am_org q) (am_repo q) (ro_push (af_central S))
                ''creating a repository session'')
              (forward ''CreateSession'' S ctx (q\<lparr> am_group := am_org q @ ''/'' @ am_repo q \<rparr>))
       else forward ''CreateSession'' S ctx q)"

section \<open>Calls sent on as they are\<close>

definition agent_health :: "('e, 'r, 'm, 'p) agent_rpc" where
  "agent_health = forward ''Health''"

definition get_identity :: "('e, 'r, 'm, 'p) agent_rpc" where
  "get_identity = forward ''GetIdentity''"

text \<open>The methods from \<^verbatim>\<open>ListProviders\<close> on: providers, presets, configuration, tools and files.\<close>

definition open_calls :: "string list" where
  "open_calls =
    [''ListProviders'', ''ListProvidersCatalog'', ''RegisterProvider'', ''DeleteProvider'', ''TestProvider'',
     ''ListModels'', ''ListPresets'', ''UpsertPreset'', ''DeletePreset'', ''PreviewPreset'', ''GetConfig'', ''SetConfig'',
     ''ListTools'', ''GetToolConfig'', ''SetToolConfig'', ''SetExtensionConfig'', ''UploadFile'', ''IngestFile'',
     ''GetFile'', ''GetFileMeta'', ''GetAgentConfig'']"

definition get_file_stream :: "('e, 'r, 'm, 'p) agent_stream_rpc" where
  "get_file_stream = forward_stream ''GetFileStream''"

section \<open>The service\<close>

definition agent_unary :: "(string \<times> ('e, 'r, 'm, 'p) agent_rpc) list" where
  "agent_unary =
    [(''Health'', agent_health), (''GetIdentity'', get_identity), (''ListSessions'', face_list_sessions),
     (''CreateSession'', create_session), (''GetSession'', face_get_session), (''DeleteSession'', face_delete_session),
     (''ListMessages'', list_messages), (''Fork'', face_fork), (''Rename'', rename_session),
     (''SetModel'', set_model), (''Undo'', undo_turn), (''State'', session_state), (''Mailbox'', session_mailbox),
     (''UpdateSettings'', update_settings), (''Interrupt'', interrupt_session), (''Compact'', compact_session)]
    @ map (\<lambda>name. (name, forward name)) open_calls"

definition agent_streams :: "(string \<times> ('e, 'r, 'm, 'p) agent_stream_rpc) list" where
  "agent_streams =
    [(''Prompt'', session_prompt), (''WatchSession'', watch_session), (''WatchSessions'', watch_sessions),
     (''GetFileStream'', get_file_stream)]"

text \<open>
  A call as the gateway receives it: the interceptor of unary calls honours the tenant header of a
  peer on the loopback, the interceptor of streams does not.
\<close>

definition serve_unary :: "('e, 'r, 'm, 'p) agent_face \<Rightarrow> string \<Rightarrow> header \<Rightarrow> string \<Rightarrow> string
    \<Rightarrow> 'm agent_req \<Rightarrow> ('e, 'p) act" where
  "serve_unary S admin_token h peer name q =
    (case wrap_unary (af_central S) admin_token (''/agent.v1.AgentService/'' @ name) h peer of
       Inl err \<Rightarrow> flunk err
     | Inr ctx \<Rightarrow>
         (case map_of agent_unary name of
            Some f \<Rightarrow> f S ctx q
          | None \<Rightarrow> refuse Unimplemented name))"

definition serve_stream :: "('e, 'r, 'm, 'p) agent_face \<Rightarrow> string \<Rightarrow> header \<Rightarrow> string \<Rightarrow> 'm agent_req \<Rightarrow> ('e, unit) act" where
  "serve_stream S admin_token h name q =
    (case wrap_streaming (af_central S) admin_token h of
       Inl err \<Rightarrow> flunk err
     | Inr ctx \<Rightarrow>
         (case map_of agent_streams name of
            Some f \<Rightarrow> f S ctx q
          | None \<Rightarrow> refuse Unimplemented name))"

end
