(* ===== verification/Accounts_Correct.thy ===== *)
theory Accounts_Correct
imports Accounts
begin

text \<open>
  What holds of the user service: who may change accounts, and what a creation that fails half-way
  leaves behind.
\<close>

section \<open>The calls of the service\<close>


datatype account_call =
    CreateUser string string bool | GetUser string | ListUsers
  | UpdateUser string "string option" "bool option" | DeleteUser string
  | ListUserTokens string | CreateUserToken string string | DeleteUserToken string

fun run_account :: "'e account_env \<Rightarrow> principal option \<Rightarrow> account_call \<Rightarrow> ('e, unit) act" where
  "run_account ev ctx (CreateUser n d p) = ignored (create_user ev ctx n d p)"
| "run_account ev ctx (GetUser i) = ignored (get_user ev ctx i)"
| "run_account ev ctx ListUsers = ignored (list_users ev ctx)"
| "run_account ev ctx (UpdateUser i d b) = ignored (update_user ev ctx i d b)"
| "run_account ev ctx (DeleteUser i) = ignored (delete_user ev ctx i)"
| "run_account ev ctx (ListUserTokens i) = ignored (list_user_tokens ev ctx i)"
| "run_account ev ctx (CreateUserToken i t) = ignored (create_user_token ev ctx i t)"
| "run_account ev ctx (DeleteUserToken t) = ignored (delete_user_token ev ctx t)"

fun run_accounts :: "'e account_env \<Rightarrow> (principal option \<times> account_call) list \<Rightarrow> 'e \<Rightarrow> 'e" where
  "run_accounts ev [] v = v"
| "run_accounts ev ((ctx, c) # cs) v = run_accounts ev cs (snd (run_account ev ctx c v))"

definition is_deletion :: "account_call \<Rightarrow> bool" where
  "is_deletion c = (case c of DeleteUser _ \<Rightarrow> True | _ \<Rightarrow> False)"

lemmas account_act_defs = store_call_def asked_def remote_def with_user_id_def act_defs ignored_def

section \<open>Who may change accounts\<close>

lemma guarded_ignored: "guarded_by P m \<Longrightarrow> guarded_by P (ignored m)"
  unfolding guarded_by_def ignored_def after_def attempt_def
  by (auto simp: act_defs split: prod.splits reply.splits)

lemma require_adminD: "require_admin ctx a = None \<Longrightarrow> pl_admin (principal_of ctx)"
  by (simp add: require_admin_def split: if_splits)

text \<open>A call that changes anything is made by the administrator.\<close>

lemma account_calls_guarded: "guarded_by (\<lambda>_. pl_admin (principal_of ctx)) (run_account ev ctx c)"
proof -
  have "guarded_by P (get_user ev ctx i)" for P i
    unfolding get_user_def by (intro guarded_demand_later) (simp add: guarded_by_def split: sum.split)
  moreover have "guarded_by P (list_users ev ctx)" for P
    unfolding list_users_def by (intro guarded_demand_later) (simp add: guarded_by_def asked_def give_def split: sum.split)
  moreover have "guarded_by P (list_user_tokens ev ctx i)" for P i
    unfolding list_user_tokens_def
    by (intro guarded_demand_later)
      (simp add: guarded_by_def with_user_id_def flunk_def asked_def give_def split: sum.split)
  ultimately show ?thesis
    by (cases c) (simp_all add: create_user_def update_user_def delete_user_def create_user_token_def
        delete_user_token_def guarded_ignored guarded_demand require_adminD)
qed

text \<open>Any authenticated caller reads the tokens' ids of any user.\<close>

lemma tokens_of_others:
  assumes "\<not> pl_anonymous (principal_of ctx)" "parse_user_id i = Inr uid" "an_tokens ev uid v = Inr ts"
  shows "list_user_tokens ev ctx i v = (Done (map (\<lambda>t. (dec_int (tk_id t), tk_created t)) ts), v)"
  using assms by (simp add: list_user_tokens_def require_authenticated_def account_act_defs)

section \<open>A contract of the store\<close>

text \<open>
  What the users of the store are: for each id the name and the bound tenant with its token.
  Names are unique, a new user has a new id and no binding, a failing call and the calls that are
  not about users change nothing of it.
\<close>

definition keeps_users :: "('e \<Rightarrow> 'u) \<Rightarrow> ('e \<Rightarrow> 'r \<times> 'e) \<Rightarrow> bool" where
  "keeps_users view f \<longleftrightarrow> (\<forall>v. view (snd (f v)) = view v)"

definition store_laws :: "'e account_env \<Rightarrow> ('e \<Rightarrow> int \<Rightarrow> (string \<times> string \<times> string) option) \<Rightarrow> bool" where
  "store_laws ev view \<longleftrightarrow>
    (\<forall>n d v u v'. an_create_user ev n d v = (Inr u, v') \<longrightarrow>
        view v (ac_id u) = None \<and> view v' = (view v)(ac_id u \<mapsto> (n, '''', ''''))) \<and>
    (\<forall>n d v err v'. an_create_user ev n d v = (Inl err, v') \<longrightarrow> view v' = view v) \<and>
    (\<forall>n d v i b. view v i = Some (n, b) \<longrightarrow> (\<exists>m. an_create_user ev n d v = (Inl (NameTaken m), v))) \<and>
    (\<forall>i t k v v'. an_set_binding ev i t k v = (Inr (), v') \<longrightarrow>
        view v' = (view v)(i := map_option (\<lambda>(n, b). (n, t, k)) (view v i))) \<and>
    (\<forall>i t k v err v'. an_set_binding ev i t k v = (Inl err, v') \<longrightarrow> view v' = view v) \<and>
    (\<forall>v i n b. view v i = Some (n, b) \<longrightarrow> an_binding ev i v = Inr b) \<and>
    (\<forall>i d b. keeps_users view (an_update_user ev i d b)) \<and>
    (\<forall>t i s. keeps_users view (an_create_token ev t i s)) \<and> (\<forall>t. keeps_users view (an_delete_token ev t)) \<and>
    keeps_users view (an_random ev) \<and> (\<forall>i n. keeps_users view (an_create_tenant ev i n)) \<and>
    (\<forall>i. keeps_users view (an_disable_tenant ev i))"

lemma keeps_usersD: "keeps_users view f \<Longrightarrow> f v = (r, v') \<Longrightarrow> view v' = view v"
  unfolding keeps_users_def by (metis snd_conv)

lemma store_created: "store_laws ev view \<Longrightarrow> an_create_user ev n d v = (Inr u, v') \<Longrightarrow>
    view v (ac_id u) = None \<and> view v' = (view v)(ac_id u \<mapsto> (n, '''', ''''))"
  unfolding store_laws_def by (elim conjE) blast

lemma store_not_created: "store_laws ev view \<Longrightarrow> an_create_user ev n d v = (Inl err, v') \<Longrightarrow> view v' = view v"
  unfolding store_laws_def by (elim conjE) blast

lemma store_taken: "store_laws ev view \<Longrightarrow> view v i = Some (n, b) \<Longrightarrow> \<exists>m. an_create_user ev n d v = (Inl (NameTaken m), v)"
  unfolding store_laws_def by (elim conjE) blast

lemma store_bound: "store_laws ev view \<Longrightarrow> an_set_binding ev i t k v = (Inr (), v') \<Longrightarrow>
    view v' = (view v)(i := map_option (\<lambda>(n, b). (n, t, k)) (view v i))"
  unfolding store_laws_def by (elim conjE) blast

lemma store_not_bound:
  assumes "store_laws ev view" "an_set_binding ev i t k v = (Inl err, v')"
  shows "view v' = view v"
proof -
  have "\<forall>i t k v err v'. an_set_binding ev i t k v = (Inl err, v') \<longrightarrow> view v' = view v"
    using assms(1) unfolding store_laws_def by (elim conjE)
  with assms(2) show ?thesis by blast
qed

lemma store_binding:
  assumes "store_laws ev view" "view v i = Some (n, b)"
  shows "an_binding ev i v = Inr b"
proof -
  have "\<forall>v i n b. view v i = Some (n, b) \<longrightarrow> an_binding ev i v = Inr b"
    using assms(1) unfolding store_laws_def by (elim conjE)
  with assms(2) show ?thesis by blast
qed

lemma store_keeps:
  assumes "store_laws ev view"
  shows "keeps_users view (an_update_user ev i d b)" "keeps_users view (an_create_token ev t i s)"
    "keeps_users view (an_delete_token ev t)" "keeps_users view (an_random ev)"
    "keeps_users view (an_create_tenant ev t n)" "keeps_users view (an_disable_tenant ev t)"
  using assms unfolding store_laws_def by simp_all

lemma generate_keeps: "store_laws ev view \<Longrightarrow> keeps_users view (generate_token ev)"
  using keeps_usersD[OF store_keeps(4)] by (auto simp: keeps_users_def generate_token_def split: prod.split sum.split)

section \<open>A user made by halves\<close>

lemma snd_ignored: "snd (ignored m v) = snd (m v)"
  by (simp add: ignored_def act_defs split: prod.split reply.split)

lemma binding_other:
  assumes "store_laws ev view" "an_set_binding ev j t k v = (r, v')" "j \<noteq> i"
  shows "view v' i = view v i"
proof (cases r)
  case (Inl err)
  then show ?thesis using store_not_bound[OF assms(1)] assms(2) by metis
next
  case (Inr u)
  then show ?thesis using store_bound[OF assms(1), of j t k v v'] assms(2,3) by simp
qed

lemma provision_keeps:
  assumes "store_laws ev view" "ac_id u \<noteq> i" "\<And>u' w. view (snd (k u' w)) i = view w i"
  shows "view (snd (provision_tenant ev u k v)) i = view v i"
proof -
  obtain r v1 where r: "an_create_tenant ev (ac_name u) (ac_display u) v = (r, v1)"
    by (cases "an_create_tenant ev (ac_name u) (ac_display u) v")
  have v1: "view v1 = view v" using keeps_usersD[OF store_keeps(5)[OF assms(1)] r] .
  show ?thesis
    using assms(3) binding_other[OF assms(1) _ assms(2)] v1
    by (auto simp: provision_tenant_def remote_def r refuse_def split: sum.split prod.split)
qed

lemma create_keeps:
  assumes laws: "store_laws ev view" and i: "view v i = Some (n, b)"
  shows "view (snd (create_user ev ctx name d p v)) i = Some (n, b)"
proof (cases "require_admin ctx ''creating a user''")
  case (Some err)
  then show ?thesis using i by (simp add: create_user_def demand_def)
next
  case None
  obtain r v1 where c: "an_create_user ev name d v = (r, v1)" by (cases "an_create_user ev name d v")
  show ?thesis
  proof (cases r)
    case (Inl err)
    then show ?thesis using None c i store_not_created[OF laws c[unfolded Inl]]
      by (simp add: create_user_def store_call_def demand_def)
  next
    case (Inr u)
    note new = store_created[OF laws c[unfolded Inr]]
    then have other: "ac_id u \<noteq> i" "view v1 i = Some (n, b)" using i by auto
    obtain g v2 where g: "generate_token ev v1 = (g, v2)" by (cases "generate_token ev v1")
    have v2: "view v2 = view v1" using keeps_usersD[OF generate_keeps[OF laws] g] .
    show ?thesis
    proof (cases g)
      case (Inl m)
      then show ?thesis using None c Inr g v2 other
        by (simp add: create_user_def store_call_def demand_def effect_def)
    next
      case (Inr plain)
      obtain t v3 where t: "an_create_token ev plain (ac_id u) ''write'' v2 = (t, v3)"
        by (cases "an_create_token ev plain (ac_id u) ''write'' v2")
      have "view v3 = view v2" using keeps_usersD[OF store_keeps(2)[OF laws] t] .
      then show ?thesis using None c \<open>r = Inr u\<close> g Inr t v2 other
        by (auto simp: create_user_def store_call_def demand_def effect_def give_def provision_keeps[OF laws]
            split: sum.split)
    qed
  qed
qed

lemma call_keeps:
  assumes laws: "store_laws ev view" and i: "view v i = Some (n, b)" and c: "\<not> is_deletion c"
  shows "view (snd (run_account ev ctx c v)) i = Some (n, b)"
proof -
  have disabled: "view (propagate_disabled ev j x w) = view w" for j x w
    using store_keeps(6)[OF laws] by (auto simp: propagate_disabled_def keeps_users_def split: sum.split)
  show ?thesis
  proof (cases c)
    case (CreateUser name d p)
    then show ?thesis using create_keeps[OF laws i] by (simp add: snd_ignored)
  next
    case (UpdateUser j d x)
    then show ?thesis
      using i keeps_usersD[OF store_keeps(1)[OF laws]]
      by (auto simp: snd_ignored update_user_def account_act_defs disabled split: option.split sum.split prod.split)
  next
    case (CreateUserToken j t)
    then show ?thesis
      using i keeps_usersD[OF store_keeps(2)[OF laws]] keeps_usersD[OF generate_keeps[OF laws]]
      by (auto simp: snd_ignored create_user_token_def account_act_defs Let_def split: option.split sum.split prod.split)
  next
    case (DeleteUserToken t)
    then show ?thesis
      using i keeps_usersD[OF store_keeps(3)[OF laws]]
      by (auto simp: snd_ignored delete_user_token_def account_act_defs split: option.split sum.split prod.split)
  next
    case (DeleteUser j)
    then show ?thesis using c by (simp add: is_deletion_def)
  next
    case (GetUser j)
    then show ?thesis using i
      by (auto simp: snd_ignored get_user_def demand_def split: option.split sum.split)
  next
    case ListUsers
    then show ?thesis using i
      by (auto simp: snd_ignored list_users_def demand_def asked_def give_def split: option.split sum.split)
  next
    case (ListUserTokens j)
    then show ?thesis using i
      by (auto simp: snd_ignored list_user_tokens_def demand_def with_user_id_def flunk_def asked_def give_def
          split: option.split sum.split)
  qed
qed

lemma calls_keep:
  assumes "store_laws ev view" "view v i = Some (n, b)" "\<forall>(ctx, c) \<in> set cs. \<not> is_deletion c"
  shows "view (run_accounts ev cs v) i = Some (n, b)"
  using assms(2,3)
proof (induction cs arbitrary: v)
  case (Cons x cs)
  obtain ctx c where "x = (ctx, c)" by (cases x)
  then show ?case using Cons call_keeps[OF assms(1)] by auto
qed simp

lemma create_fails:
  assumes laws: "store_laws ev view" and made: "an_create_user ev name display v = (Inr u, v1)"
    and run: "create_user ev ctx name display p v = (Fail err, v')" and admin: "require_admin ctx ''creating a user'' = None"
  shows "view v' (ac_id u) = Some (name, '''', '''')"
proof -
  have new: "view v1 (ac_id u) = Some (name, '''', '''')" using store_created[OF laws made] by simp
  obtain g v2 where g: "generate_token ev v1 = (g, v2)" by (cases "generate_token ev v1")
  have v2: "view v2 = view v1" using keeps_usersD[OF generate_keeps[OF laws] g] .
  show ?thesis
  proof (cases g)
    case (Inl m)
    then show ?thesis using run admin made g v2 new by (simp add: create_user_def store_call_def demand_def effect_def)
  next
    case (Inr plain)
    obtain t v3 where t: "an_create_token ev plain (ac_id u) ''write'' v2 = (t, v3)"
      by (cases "an_create_token ev plain (ac_id u) ''write'' v2")
    obtain r v4 where r: "an_create_tenant ev (ac_name u) (ac_display u) v3 = (r, v4)"
      by (cases "an_create_tenant ev (ac_name u) (ac_display u) v3")
    have "view v3 = view v2" "view v4 = view v3"
      using keeps_usersD[OF store_keeps(2)[OF laws] t] keeps_usersD[OF store_keeps(5)[OF laws] r] .
    then have "view v4 (ac_id u) = Some (name, '''', '''')" "view v3 (ac_id u) = Some (name, '''', '''')"
      using v2 new by simp_all
    then show ?thesis
      using run admin made g Inr t r store_not_bound[OF laws, of "ac_id u" "ac_name u" _ v4]
      by (auto simp: create_user_def store_call_def demand_def effect_def give_def refuse_def provision_tenant_def remote_def
          split: sum.splits if_splits prod.splits)
  qed
qed

text \<open>
  C37: A user whose creation fails after the store has made it - the token or the agent's tenant could not be
  made - is stuck: whatever calls of the service follow, as long as no user is deleted,
  the creation is refused as already done, no later call binds a tenant to the user, and its calls of the
  agent carry the credential of the deployment, which belongs to the operator's tenant.
\<close>

theorem half_made_user_sticks:
  assumes "store_laws ev view" "an_create_user ev name display v = (Inr u, v1)"
    and "create_user ev ctx name display provision v = (Fail err, v')" "pl_admin (principal_of ctx)"
    and "\<forall>(c, call) \<in> set calls. \<not> is_deletion call" "pl_admin (principal_of admin)"
  shows "(\<exists>m. create_user ev admin name display' again (run_accounts ev calls v')
      = (Fail (ConnErr AlreadyExists m), run_accounts ev calls v'))
    \<and> an_binding ev (ac_id u) (run_accounts ev calls v') = Inr ('''', '''')
    \<and> agent_token_for_user ev (ac_id u) (run_accounts ev calls v') = an_forward_token ev"
proof -
  have ok: "require_admin c a = None" if "pl_admin (principal_of c)" for c a
    using that by (simp add: require_admin_def)
  have "view v' (ac_id u) = Some (name, '''', '''')"
    using create_fails[OF assms(1-3) ok[OF assms(4)]] .
  then have i: "view (run_accounts ev calls v') (ac_id u) = Some (name, '''', '''')"
    using calls_keep[OF assms(1) _ assms(5)] by blast
  moreover have "\<exists>m. create_user ev admin name display' again (run_accounts ev calls v')
      = (Fail (ConnErr AlreadyExists m), run_accounts ev calls v')"
    using store_taken[OF assms(1) i, of display'] ok[OF assms(6)]
    by (auto simp: create_user_def demand_def store_call_def)
  ultimately show ?thesis
    using store_binding[OF assms(1) i] by (simp add: agent_token_for_user_def)
qed

section \<open>A concrete store\<close>

text \<open>
  The users by their ids from 1 on, each with its name, tenant and token; the agent cannot be
  reached.
\<close>

type_synonym users = "(string \<times> string \<times> string) list"

definition users_view :: "users \<Rightarrow> int \<Rightarrow> (string \<times> string \<times> string) option" where
  "users_view v i = (if 0 < i \<and> i \<le> int (length v) then Some (v ! nat (i - 1)) else None)"

definition new_account :: "int \<Rightarrow> string \<Rightarrow> string \<Rightarrow> account" where
  "new_account i n d = \<lparr> ac_id = i, ac_name = n, ac_display = d, ac_disabled = False, ac_created = '''', ac_tenant = '''',
     ac_agent_token = '''' \<rparr>"

definition demo_accounts :: "users account_env" where
  "demo_accounts = \<lparr>
     an_create_user = (\<lambda>n d v. if n \<in> fst ` set v then (Inl (NameTaken ''taken''), v)
        else (Inr (new_account (int (length v) + 1) n d), v @ [(n, '''', '''')])),
     an_get_user = (\<lambda>i v. Inl (NoRow ''none'')), an_by_name = (\<lambda>n v. Inl (NoRow ''none'')),
     an_users = (\<lambda>v. Inr []), an_update_user = (\<lambda>i d b v. (Inl (NoRow ''none''), v)),
     an_delete_user = (\<lambda>i v. (Inl (NoRow ''none''), v)), an_lookup_token = (\<lambda>t v. False),
     an_create_token = (\<lambda>t i s v. (Inr \<lparr> tk_id = 1, tk_token = t, tk_created = '''' \<rparr>, v)), an_tokens = (\<lambda>i v. Inr []),
     an_delete_token = (\<lambda>t v. (Inr (), v)),
     an_binding = (\<lambda>i v. case users_view v i of Some (n, b) \<Rightarrow> Inr b | None \<Rightarrow> Inl (NoRow ''none'')),
     an_set_binding = (\<lambda>i t k v. (Inr (), if users_view v i = None then v
        else v[nat (i - 1) := (fst (v ! nat (i - 1)), t, k)])),
     an_random = (\<lambda>v. (Inr ''abc'', v)), an_admin_url = ''http://agent'', an_admin_token = ''root'',
     an_forward_token = ''shared'', an_create_tenant = (\<lambda>i n v. (Inl (ConnErr Unavailable ''down''), v)),
     an_disable_tenant = (\<lambda>i v. (Inr (), v)), an_delete_tenant = (\<lambda>i v. (Inr (), v)) \<rparr>"

lemma view_append: "users_view (v @ [x]) = (users_view v)(int (length v) + 1 \<mapsto> x)"
  by (rule ext) (auto simp: users_view_def nth_append)

lemma view_update:
  assumes "users_view v i \<noteq> None"
  shows "users_view (v[nat (i - 1) := x]) = (users_view v)(i \<mapsto> x)"
proof
  fix j show "users_view (v[nat (i - 1) := x]) j = ((users_view v)(i \<mapsto> x)) j"
    using assms by (auto simp: users_view_def nth_list_update split: if_splits)
qed

lemma view_name: "users_view v i = Some (n, b) \<Longrightarrow> n \<in> fst ` set v"
proof -
  assume "users_view v i = Some (n, b)"
  then have "(n, b) = v ! nat (i - 1)" "nat (i - 1) < length v" by (auto simp: users_view_def split: if_splits)
  then show ?thesis by (metis fst_conv image_eqI nth_mem)
qed

lemma demo_store_laws: "store_laws demo_accounts users_view"
proof -
  have bind: "users_view (v[nat (i - 1) := (fst (v ! nat (i - 1)), t, k)])
      = (users_view v)(i := map_option (\<lambda>(n, b). (n, t, k)) (users_view v i))" if "users_view v i \<noteq> None" for v i t k
    using that view_update[OF that] by (auto simp: users_view_def split: prod.splits if_splits)
  have none: "(users_view v)(i := None) = users_view v" if "users_view v i = None" for v i
    using that by (rule fun_upd_idem)
  show ?thesis
    unfolding store_laws_def
    by (auto simp: demo_accounts_def new_account_def keeps_users_def view_append none bind dest: view_name
        split: if_splits) (auto simp: users_view_def)
qed

lemma half_made_user_sticks_witness:
  "let v' = snd (create_user demo_accounts (Some (nobody\<lparr> pl_admin := True \<rparr>)) ''ann'' ''Ann'' True []) in
     (\<exists>m. fst (create_user demo_accounts (Some (nobody\<lparr> pl_admin := True \<rparr>)) ''ann'' ''Ann'' True v')
        = Fail (ConnErr AlreadyExists m))
     \<and> agent_token_for_user demo_accounts 1 v' = ''shared''"
proof -
  let ?a = "Some (nobody\<lparr> pl_admin := True \<rparr>)"
  let ?r = "create_user demo_accounts ?a ''ann'' ''Ann'' True []"
  have "fst ?r = Fail (ConnErr Internal ''agent tenant create: down'')" by code_simp
  then have run: "?r = (Fail (ConnErr Internal ''agent tenant create: down''), snd ?r)" by (metis prod.collapse)
  have made: "an_create_user demo_accounts ''ann'' ''Ann'' [] = (Inr (new_account 1 ''ann'' ''Ann''), [(''ann'', '''', '''')])"
    by (simp add: demo_accounts_def)
  have admin: "pl_admin (principal_of ?a)" by (simp add: principal_of_def)
  have "(\<exists>m. create_user demo_accounts ?a ''ann'' ''Ann'' True (snd ?r) = (Fail (ConnErr AlreadyExists m), snd ?r))
      \<and> agent_token_for_user demo_accounts 1 (snd ?r) = ''shared''"
    using half_made_user_sticks[OF demo_store_laws made run admin _ admin, of "[]" "''Ann''" True]
    by (simp add: new_account_def) (simp add: demo_accounts_def)
  then show ?thesis by (auto simp: Let_def)
qed

end
