(* ===== verification/Agent_Gateway_Correct.thy ===== *)
theory Agent_Gateway_Correct
imports Agent_Gateway Accounts_Correct Access_Correct
begin

text \<open>
  What reaches the agent through the gateway: which call, with which credential, for whom; and
  which callers are not asked who they are.
\<close>

lemmas session_rpc_defs = face_get_session_def face_delete_session_def list_messages_def face_fork_def
  rename_session_def set_model_def undo_turn_def session_state_def session_mailbox_def update_settings_def
  interrupt_session_def compact_session_def

lemmas open_rpc_defs = agent_health_def get_identity_def

definition session_calls :: "string list" where
  "session_calls = [''GetSession'', ''DeleteSession'', ''ListMessages'', ''Fork'', ''Rename'', ''SetModel'', ''Undo'', ''State'',
     ''Mailbox'', ''UpdateSettings'', ''Interrupt'', ''Compact'', ''Prompt'', ''WatchSession'']"

text \<open>What a caller has to pass before a call of this name reaches the agent, on this message.\<close>

definition agent_demand :: "'r central \<Rightarrow> principal option \<Rightarrow> string \<Rightarrow> 'm agent_req \<Rightarrow> conn_err option" where
  "agent_demand cs ctx name q =
    (if name \<in> set session_calls then authorize_session cs ctx (am_id q)
     else if name = ''ListSessions'' then require_authenticated ctx ''listing sessions''
     else if name = ''WatchSessions'' then require_authenticated ctx ''watching sessions''
     else if name = ''CreateSession'' then
       (case require_authenticated ctx ''creating a session'' of
          Some err \<Rightarrow> Some err
        | None \<Rightarrow>
            if am_org q = '''' \<and> am_repo q = '''' then None
            else require_repo_action cs ctx (am_org q) (am_repo q) (ro_push cs) ''creating a repository session'')
     else None)"

definition sent_msg :: "string \<Rightarrow> 'm agent_req \<Rightarrow> 'm agent_req" where
  "sent_msg name q =
    (if name = ''CreateSession'' \<and> (am_org q \<noteq> '''' \<or> am_repo q \<noteq> '''')
     then q\<lparr> am_group := am_org q @ ''/'' @ am_repo q \<rparr> else q)"

lemma demand_None: "demand (\<lambda>_. None) m = m"
  by (rule ext) (simp add: demand_def)

lemma create_form: "create_session S ctx q =
    demand (\<lambda>_. agent_demand (af_central S) ctx ''CreateSession'' q) (forward ''CreateSession'' S ctx (sent_msg ''CreateSession'' q))"
  by (rule ext) (auto simp: create_session_def agent_demand_def sent_msg_def session_calls_def demand_def split: option.split)

lemma open_form: "name \<in> set open_calls \<Longrightarrow> agent_demand cs ctx name q = None \<and> sent_msg name q = q"
  unfolding open_calls_def by (elim set_ConsD[THEN disjE] insertE) 
    (auto simp: agent_demand_def sent_msg_def session_calls_def)

text \<open>Every call is its demand and then the call of the agent of the same name.\<close>

lemma unary_form:
  assumes "(name, f) \<in> set agent_unary"
  shows "f S ctx q = demand (\<lambda>_. agent_demand (af_central S) ctx name q) (forward name S ctx (sent_msg name q))"
proof -
  let ?ok = "\<lambda>name f. f S ctx q = demand (\<lambda>_. agent_demand (af_central S) ctx name q) (forward name S ctx (sent_msg name q))"
  have "?ok ''ListSessions'' face_list_sessions" "?ok ''Health'' agent_health" "?ok ''GetIdentity'' get_identity"
    by (simp_all add: face_list_sessions_def agent_demand_def sent_msg_def session_calls_def agent_health_def
        get_identity_def demand_None)
  moreover have "?ok ''GetSession'' face_get_session"
    "?ok ''DeleteSession'' face_delete_session"
    "?ok ''ListMessages'' list_messages"
    "?ok ''Fork'' face_fork"
    "?ok ''Rename'' rename_session"
    "?ok ''SetModel'' set_model"
    "?ok ''Undo'' undo_turn"
    "?ok ''State'' session_state"
    "?ok ''Mailbox'' session_mailbox"
    "?ok ''UpdateSettings'' update_settings"
    "?ok ''Interrupt'' interrupt_session"
    "?ok ''Compact'' compact_session"
    by (simp_all add: session_rpc_defs on_session_def agent_demand_def sent_msg_def session_calls_def)
  moreover have "\<forall>name \<in> set open_calls. ?ok name (forward name)"
  proof
    fix name :: string
    assume "name \<in> set open_calls"
    note open_form[OF this]
    then show "?ok name (forward name)" by (metis demand_None)
  qed
  ultimately have "\<forall>x \<in> set agent_unary. ?ok (fst x) (snd x)"
    unfolding agent_unary_def
    by (simp only: set_append ball_Un list.set ball_simps set_map fst_conv snd_conv create_form simp_thms)
  with assms show ?thesis by force
qed

section \<open>Which call, with which credential\<close>

text \<open>
  The headers a call may be sent on with: the credential bound to the caller's account, or
  else that of the deployment, or else nothing.
\<close>

definition own_token :: "'e account_env \<Rightarrow> int \<Rightarrow> 'e \<Rightarrow> string \<Rightarrow> bool" where
  "own_token ev uid v tok \<longleftrightarrow> uid \<noteq> 0 \<and> tok \<noteq> '''' \<and> (\<exists>tenant. an_binding ev uid v = Inr (tenant, tok))"

definition outgoing :: "'e account_env \<Rightarrow> int \<Rightarrow> 'e \<Rightarrow> headers \<Rightarrow> bool" where
  "outgoing ev uid v hs \<longleftrightarrow>
    (\<exists>tok. (own_token ev uid v tok \<or> (\<nexists>t. own_token ev uid v t) \<and> tok = an_forward_token ev)
      \<and> hs = (if tok = '''' then [] else [(''Authorization'', ''Bearer '' @ tok)]))"

text \<open>A stream's messages are sent in order up to the first that cannot be.\<close>

inductive relayed :: "('p \<Rightarrow> 'e \<Rightarrow> conn_err option \<times> 'e) \<Rightarrow> 'p list \<Rightarrow> conn_err option \<Rightarrow> 'e \<Rightarrow> conn_err option \<times> 'e \<Rightarrow> bool"
  for send where
  relayed_end: "relayed send [] err v (err, v)"
| relayed_stop: "send p v = (Some e, v') \<Longrightarrow> relayed send (p # ps) err v (Some e, v')"
| relayed_next: "send p v = (None, v') \<Longrightarrow> relayed send ps err v' result \<Longrightarrow> relayed send (p # ps) err v result"

lemma relay_relayed: "relayed send ps err v (relay send ps err v)"
proof (induction ps arbitrary: v)
  case (Cons p ps)
  obtain x v' where s: "send p v = (x, v')" by (cases "send p v")
  then show ?case by (cases x) (auto intro: relayed_stop relayed_next Cons)
qed (simp add: relayed_end)

lemma bearer_headers:
  "am_headers (agent_bearer ev ctx v (fwd_req q)) =
    (let tok = agent_token_for_user ev (user_id_of ctx) v
     in if tok = '''' then [] else [(''Authorization'', ''Bearer '' @ tok)])"
  by (simp add: agent_bearer_def fwd_req_def set_header_def Let_def)

lemma bearer_req: "agent_bearer ev ctx v (fwd_req q) = q\<lparr> am_headers := am_headers (agent_bearer ev ctx v (fwd_req q)) \<rparr>"
  by (simp add: agent_bearer_def fwd_req_def Let_def)

lemma bearer_outgoing: "outgoing ev (user_id_of ctx) v (am_headers (agent_bearer ev ctx v (fwd_req q)))"
proof -
  let ?tok = "agent_token_for_user ev (user_id_of ctx) v"
  have own: "own_token ev (user_id_of ctx) v t \<longleftrightarrow> user_id_of ctx \<noteq> 0 \<and> t \<noteq> [] \<and> (\<exists>n. an_binding ev (user_id_of ctx) v = Inr (n, t))" for t
    by (simp add: own_token_def)
  have "own_token ev (user_id_of ctx) v ?tok \<or> (\<nexists>t. own_token ev (user_id_of ctx) v t) \<and> ?tok = an_forward_token ev"
    unfolding own agent_token_for_user_def by (cases "an_binding ev (user_id_of ctx) v") (auto split: prod.split)
  then show ?thesis unfolding bearer_headers outgoing_def Let_def by blast
qed

lemma authorize_sessionD:
  assumes "authorize_session cs ctx sid = None"
  shows "\<not> pl_anonymous (principal_of ctx)"
    and "split_on CHR '':'' sid = [org, repo, x] \<Longrightarrow> \<exists>r. repo_role cs ctx org repo = Inr r \<and> ro_push cs r"
  using assms
  by (auto simp: authorize_session_def require_authenticated_def require_repo_action_def
      split: option.splits if_splits sum.splits)

lemma stream_form:
  assumes "(name, g) \<in> set agent_streams"
  shows "g S ctx q = demand (\<lambda>_. agent_demand (af_central S) ctx name q) (forward_stream name S ctx q)"
proof -
  let ?ok = "\<lambda>name g. g S ctx q = demand (\<lambda>_. agent_demand (af_central S) ctx name q) (forward_stream name S ctx q)"
  have "?ok ''Prompt'' session_prompt" "?ok ''WatchSession'' watch_session" "?ok ''WatchSessions'' watch_sessions"
    "?ok ''GetFileStream'' get_file_stream"
    by (simp_all add: session_prompt_def watch_session_def watch_sessions_def get_file_stream_def on_session_def
        agent_demand_def session_calls_def demand_None)
  then have "\<forall>x \<in> set agent_streams. ?ok (fst x) (snd x)"
    unfolding agent_streams_def by (simp only: list.set ball_simps fst_conv snd_conv simp_thms)
  with assms show ?thesis by force
qed

text \<open>
  C38: What reaches the agent.  A call of the gateway that does not pass its demand ends with that error and the agent
  hears nothing.  One that passes is one call of the agent's method of the same name, with the message that
  came in - the group of a session for a repository set by the gateway - and, of headers, whatever came in, the
  credential of the caller's own account if it has one and else the deployment's; the answer is the agent's, and a
  stream's messages are passed on in order.  The demand of a call about one session is met only by an authenticated caller, who
  may push to the repository if the session is named after one.
\<close>

theorem agent_calls_confined:
  fixes S :: "('e, 'r, 'm, 'p) agent_face"
  shows "(\<forall>(name, f) \<in> set agent_unary. \<forall>q. \<exists>hs. outgoing (af_accounts S) (user_id_of ctx) v hs \<and>
        f S ctx q v = (case agent_demand (af_central S) ctx name q of
            Some err \<Rightarrow> (Fail err, v)
          | None \<Rightarrow> (case af_unary S name ((sent_msg name q)\<lparr> am_headers := hs \<rparr>) v of
               (Inl err, v') \<Rightarrow> (Fail err, v')
             | (Inr p, v') \<Rightarrow> (Done p, v'))))
    \<and> (\<forall>(name, g) \<in> set agent_streams. \<forall>q. \<exists>hs. outgoing (af_accounts S) (user_id_of ctx) v hs \<and>
        (case agent_demand (af_central S) ctx name q of
            Some err \<Rightarrow> g S ctx q v = (Fail err, v)
          | None \<Rightarrow> (case af_stream S name (q\<lparr> am_headers := hs \<rparr>) v of
               (Inl err, v') \<Rightarrow> g S ctx q v = (Fail err, v')
             | (Inr (ps, err), v') \<Rightarrow> \<exists>e v2. relayed (af_send S) ps err v' (e, v2)
                 \<and> g S ctx q v = ((case e of Some m \<Rightarrow> Fail m | None \<Rightarrow> Done ()), v2))))
    \<and> (\<forall>name \<in> set session_calls. \<forall>q. agent_demand (af_central S) ctx name q = None \<longrightarrow>
        \<not> pl_anonymous (principal_of ctx)
        \<and> (\<forall>org repo x. split_on CHR '':'' (am_id q) = [org, repo, x] \<longrightarrow>
             (\<exists>r. repo_role (af_central S) ctx org repo = Inr r \<and> ro_push (af_central S) r)))"
proof (intro conjI)
  note out = bearer_outgoing[of "af_accounts S" ctx v]
  have "f S ctx q v = (case agent_demand (af_central S) ctx name q of
            Some err \<Rightarrow> (Fail err, v)
          | None \<Rightarrow> (case af_unary S name ((sent_msg name q)\<lparr> am_headers := am_headers (agent_bearer (af_accounts S) ctx v (fwd_req (sent_msg name q))) \<rparr>) v of
               (Inl err, v') \<Rightarrow> (Fail err, v')
             | (Inr p, v') \<Rightarrow> (Done p, v')))"
    if "(name, f) \<in> set agent_unary" for name q and f :: "('e, 'r, 'm, 'p) agent_rpc"
    unfolding unary_form[OF that] bearer_req[symmetric] by (simp add: demand_def forward_def split: option.split)
  then show "\<forall>(name, f) \<in> set agent_unary. \<forall>q. \<exists>hs. outgoing (af_accounts S) (user_id_of ctx) v hs \<and>
        f S ctx q v = (case agent_demand (af_central S) ctx name q of
            Some err \<Rightarrow> (Fail err, v)
          | None \<Rightarrow> (case af_unary S name ((sent_msg name q)\<lparr> am_headers := hs \<rparr>) v of
               (Inl err, v') \<Rightarrow> (Fail err, v')
             | (Inr p, v') \<Rightarrow> (Done p, v')))"
    using out by blast
  show "\<forall>(name, g) \<in> set agent_streams. \<forall>q. \<exists>hs. outgoing (af_accounts S) (user_id_of ctx) v hs \<and>
        (case agent_demand (af_central S) ctx name q of
            Some err \<Rightarrow> g S ctx q v = (Fail err, v)
          | None \<Rightarrow> (case af_stream S name (q\<lparr> am_headers := hs \<rparr>) v of
               (Inl err, v') \<Rightarrow> g S ctx q v = (Fail err, v')
             | (Inr (ps, err), v') \<Rightarrow> \<exists>e v2. relayed (af_send S) ps err v' (e, v2)
                 \<and> g S ctx q v = ((case e of Some m \<Rightarrow> Fail m | None \<Rightarrow> Done ()), v2)))"
  proof (clarify)
    fix name and g :: "('e, 'r, 'm, 'p) agent_stream_rpc" and q :: "'m agent_req"
    assume g: "(name, g) \<in> set agent_streams"
    let ?q = "agent_bearer (af_accounts S) ctx v (fwd_req q)"
    have "case agent_demand (af_central S) ctx name q of
            Some err \<Rightarrow> g S ctx q v = (Fail err, v)
          | None \<Rightarrow> (case af_stream S name (q\<lparr> am_headers := am_headers ?q \<rparr>) v of
               (Inl err, v') \<Rightarrow> g S ctx q v = (Fail err, v')
             | (Inr (ps, err), v') \<Rightarrow> \<exists>e v2. relayed (af_send S) ps err v' (e, v2)
                 \<and> g S ctx q v = ((case e of Some m \<Rightarrow> Fail m | None \<Rightarrow> Done ()), v2))"
      unfolding bearer_req[symmetric] stream_form[OF g]
      by (auto simp: demand_def forward_stream_def split: option.split prod.split sum.split)
        (metis relay_relayed option.simps(4,5))+
    then show "\<exists>hs. outgoing (af_accounts S) (user_id_of ctx) v hs \<and>
        (case agent_demand (af_central S) ctx name q of
            Some err \<Rightarrow> g S ctx q v = (Fail err, v)
          | None \<Rightarrow> (case af_stream S name (q\<lparr> am_headers := hs \<rparr>) v of
               (Inl err, v') \<Rightarrow> g S ctx q v = (Fail err, v')
             | (Inr (ps, err), v') \<Rightarrow> \<exists>e v2. relayed (af_send S) ps err v' (e, v2)
                 \<and> g S ctx q v = ((case e of Some m \<Rightarrow> Fail m | None \<Rightarrow> Done ()), v2)))"
      using out by blast
  qed
  show "\<forall>name \<in> set session_calls. \<forall>q. agent_demand (af_central S) ctx name q = None \<longrightarrow>
        \<not> pl_anonymous (principal_of ctx)
        \<and> (\<forall>org repo x. split_on CHR '':'' (am_id q) = [org, repo, x] \<longrightarrow>
             (\<exists>r. repo_role (af_central S) ctx org repo = Inr r \<and> ro_push (af_central S) r))"
    by (simp add: agent_demand_def) (blast dest: authorize_sessionD)
qed

section \<open>Calls without a credential\<close>

text \<open>
  A request without a credential is served as the anonymous caller: the calls on providers,
  configuration, tools and files reach the agent with the credential of the deployment.
\<close>

lemma anonymous_open_calls:
  fixes S :: "('e, 'r, 'm, 'p) agent_face"
  assumes "h ''Authorization'' = ''''" "h ''X-Agent-Tenant'' = ''''" "name \<in> set open_calls"
    and "an_forward_token (af_accounts S) \<noteq> ''''"
  shows "serve_unary S admin_token h peer name q v =
    (case af_unary S name (q\<lparr> am_headers := [(''Authorization'', ''Bearer '' @ an_forward_token (af_accounts S))] \<rparr>) v of
       (Inl err, v') \<Rightarrow> (Fail err, v') | (Inr p, v') \<Rightarrow> (Done p, v'))"
proof -
  have sp: "trim_space '''' = ''''" by code_simp
  have "\<not> is_health_rpc (''/agent.v1.AgentService/'' @ name)"
    using assms(3) unfolding open_calls_def by (elim set_ConsD[THEN disjE] insertE) (auto simp: is_health_rpc_def has_suffix_def)
  then have ctx: "wrap_unary (af_central S) admin_token (''/agent.v1.AgentService/'' @ name) h peer = Inr (Some anonymous)"
    using assms(1,2) sp
    by (simp add: wrap_unary_def authenticate_def credential_def authenticate_credential_def apply_loopback_override_def)
  have "map_of agent_unary name = Some (forward name :: ('e, 'r, 'm, 'p) agent_rpc)"
    using assms(3) unfolding open_calls_def by (elim set_ConsD[THEN disjE] insertE) (auto simp: agent_unary_def open_calls_def)
  then show ?thesis
    using assms(4) unfolding serve_unary_def ctx by (simp add: forward_def fwd_req_def agent_bearer_def set_header_def agent_token_for_user_def
        user_id_of_def principal_of_def anonymous_def nobody_def)
qed

text \<open>What a stream delivers: the messages in order, until one cannot be sent.\<close>

lemma relay_all: "(\<And>p v. fst (send p v) = None) \<Longrightarrow> relay send ps err v = (err, foldl (\<lambda>v p. snd (send p v)) v ps)"
proof (induction ps arbitrary: v)
  case (Cons p ps)
  obtain x v' where "send p v = (x, v')" by (cases "send p v")
  moreover have "x = None" using Cons.prems[of p v] calculation by simp
  ultimately show ?case using Cons by simp
qed simp

section \<open>Sessions by the name of a repository\<close>

lemma on_repository_session:
  assumes "CHR '':'' \<notin> set org" "CHR '':'' \<notin> set repo" "CHR '':'' \<notin> set bm" "\<not> pl_anonymous (principal_of ctx)"
    and "repo_role cs ctx org repo = Inr r" "\<not> ro_push cs r"
  shows "authorize_session cs ctx (naming_session org repo bm) =
    Some (ConnErr PermissionDenied (stronger_role cs ''accessing a repository session'' org repo r))"
  using assms by (simp add: authorize_session_def require_authenticated_def require_repo_action_def three_parts)

text \<open>
  C39: The gateway guards sessions by the name they have, not by the name they get.  A caller who is authenticated but may not
  push to a repository is refused every call about the repository's sessions and the creation of one that
  names the repository in its own members.  Yet a creation that leaves these members empty is sent to
  the agent as it came, whatever name and group it carries, and a session that is not
  named after a repository is renamed and forked on the caller's word, whatever the new name.
\<close>

theorem session_name_unguarded:
  fixes S :: "('e, 'r, 'm, 'p) agent_face"
  assumes "CHR '':'' \<notin> set org" "CHR '':'' \<notin> set repo" "CHR '':'' \<notin> set bm" "\<not> pl_anonymous (principal_of ctx)"
    and "repo_role (af_central S) ctx org repo = Inr r" "\<not> ro_push (af_central S) r" "org \<noteq> ''''"
  shows "(\<forall>(name, f) \<in> set agent_unary. \<forall>q. name \<in> set session_calls \<and> am_id q = naming_session org repo bm \<longrightarrow>
        f S ctx q v = (Fail (ConnErr PermissionDenied
          (stronger_role (af_central S) ''accessing a repository session'' org repo r)), v))
    \<and> (\<forall>q. am_org q = org \<and> am_repo q = repo \<longrightarrow>
        create_session S ctx q v = (Fail (ConnErr PermissionDenied
          (stronger_role (af_central S) ''creating a repository session'' org repo r)), v))
    \<and> (\<forall>q. am_org q = '''' \<and> am_repo q = '''' \<longrightarrow> create_session S ctx q v = forward ''CreateSession'' S ctx q v)
    \<and> (\<forall>q. length (split_on CHR '':'' (am_id q)) \<noteq> 3 \<longrightarrow>
        rename_session S ctx q v = forward ''Rename'' S ctx q v \<and> face_fork S ctx q v = forward ''Fork'' S ctx q v)"
proof (intro conjI)
  show "\<forall>(name, f) \<in> set agent_unary. \<forall>q. name \<in> set session_calls \<and> am_id q = naming_session org repo bm \<longrightarrow>
        f S ctx q v = (Fail (ConnErr PermissionDenied
          (stronger_role (af_central S) ''accessing a repository session'' org repo r)), v)"
  proof (clarify)
    fix name and q :: "'m agent_req" and f :: "('e, 'r, 'm, 'p) agent_rpc"
    assume f: "(name, f) \<in> set agent_unary" and "name \<in> set session_calls" "am_id q = naming_session org repo bm"
    then have "agent_demand (af_central S) ctx name q = Some (ConnErr PermissionDenied
          (stronger_role (af_central S) ''accessing a repository session'' org repo r))"
      using on_repository_session[OF assms(1-6)] by (simp add: agent_demand_def)
    then show "f S ctx q v = (Fail (ConnErr PermissionDenied
          (stronger_role (af_central S) ''accessing a repository session'' org repo r)), v)"
      unfolding unary_form[OF f] by (simp add: demand_def)
  qed
  have own: "authorize_session (af_central S) ctx sid = None" if "length (split_on CHR '':'' sid) \<noteq> 3" for sid
    using that assms(4) by (auto simp: authorize_session_def require_authenticated_def split: list.splits)
  show "\<forall>q. length (split_on CHR '':'' (am_id q)) \<noteq> 3 \<longrightarrow>
        rename_session S ctx q v = forward ''Rename'' S ctx q v \<and> face_fork S ctx q v = forward ''Fork'' S ctx q v"
    by (simp add: rename_session_def face_fork_def on_session_def demand_def own)
qed (use assms in \<open>auto simp: create_session_def demand_def require_authenticated_def require_repo_action_def\<close>)

section \<open>A concrete agent\<close>

text \<open>The agent counts the calls and answers their names.\<close>

definition demo_face :: "(users, nat, string, string) agent_face" where
  "demo_face = \<lparr> af_central = demo_central, af_accounts = demo_accounts,
     af_unary = (\<lambda>name q v. (Inr name, v @ [(name, am_rest q, concat (map snd (am_headers q)))])),
     af_stream = (\<lambda>name q v. (Inr ([''one'', ''two''], None), v)),
     af_send = (\<lambda>p v. (None, v @ [(p, '''', '''')])) \<rparr>"

definition stranger :: "principal option" where
  "stranger = Some (nobody\<lparr> pl_user := 2 \<rparr>)"

definition session_msg :: "string \<Rightarrow> string \<Rightarrow> string agent_req" where
  "session_msg i rest = \<lparr> am_headers = [(''Authorization'', ''Bearer forged''), (''Te'', ''trailers'')], am_id = i, am_org = '''', am_repo = '''', am_group = ''acme/web'', am_rest = rest \<rparr>"

lemma agent_calls_confined_witness:
  "rename_session demo_face stranger (session_msg ''notes'' ''acme:web:dev'') []
    = (Done ''Rename'', [(''Rename'', ''acme:web:dev'', ''Bearer shared'')])"
proof -
  let ?q = "session_msg ''notes'' ''acme:web:dev''"
  have m: "(''Rename'', rename_session) \<in> set agent_unary" by (simp add: agent_unary_def)
  have d: "agent_demand (af_central demo_face) stranger ''Rename'' ?q = None" by code_simp
  have n: "\<not> own_token (af_accounts demo_face) i [] t" for i t
    by (auto simp: own_token_def demo_face_def demo_accounts_def users_view_def)
  have f: "an_forward_token (af_accounts demo_face) = ''shared''" by (simp add: demo_face_def demo_accounts_def)
  have "\<exists>hs. outgoing (af_accounts demo_face) (user_id_of stranger) [] hs
    \<and> rename_session demo_face stranger ?q [] = (case af_unary demo_face ''Rename''
        ((sent_msg ''Rename'' ?q)\<lparr> am_headers := hs \<rparr>) [] of
          (Inl err, v') \<Rightarrow> (Fail err, v') | (Inr p, v') \<Rightarrow> (Done p, v'))"
    using bspec[OF conjunct1[OF agent_calls_confined[of demo_face stranger "[]"]] m, unfolded prod.case,
      THEN spec, of ?q] unfolding d option.case .
  then obtain hs where hs: "outgoing (af_accounts demo_face) (user_id_of stranger) [] hs"
    and r: "rename_session demo_face stranger ?q [] = (case af_unary demo_face ''Rename''
        ((sent_msg ''Rename'' ?q)\<lparr> am_headers := hs \<rparr>) [] of
          (Inl err, v') \<Rightarrow> (Fail err, v') | (Inr p, v') \<Rightarrow> (Done p, v'))" by blast
  have "hs = [(''Authorization'', ''Bearer shared'')]" using hs by (simp add: outgoing_def n f)
  then show ?thesis unfolding r by (simp add: demo_face_def sent_msg_def session_msg_def)
qed

lemma session_name_unguarded_witness:
  "fst (face_get_session demo_face stranger (session_msg ''acme:web:dev'' '''') [])
     \<noteq> fst (create_session demo_face stranger (session_msg '''' ''acme:web:dev'') [])
   \<and> create_session demo_face stranger (session_msg '''' ''acme:web:dev'') []
     = (Done ''CreateSession'', [(''CreateSession'', ''acme:web:dev'', ''Bearer shared'')])"
proof -
  have role: "repo_role (af_central demo_face) stranger ''acme'' ''web'' = Inr 0" "\<not> ro_push (af_central demo_face) 0"
    by (simp_all add: repo_role_def demo_face_def demo_central_def stranger_def user_id_of_def principal_of_def nobody_def)
  have anon: "\<not> pl_anonymous (principal_of stranger)" by (simp add: stranger_def principal_of_def nobody_def)
  have sess: "''acme:web:dev'' = naming_session ''acme'' ''web'' ''dev''" by (simp add: naming_session_def)
  note guard = session_name_unguarded[OF _ _ _ anon role, of "''dev''" "[]"]
  have "create_session demo_face stranger (session_msg '''' ''acme:web:dev'') []
      = forward ''CreateSession'' demo_face stranger (session_msg '''' ''acme:web:dev'') []"
    using guard by (simp add: session_msg_def)
  moreover have "forward ''CreateSession'' demo_face stranger (session_msg '''' ''acme:web:dev'') []
      = (Done ''CreateSession'', [(''CreateSession'', ''acme:web:dev'', ''Bearer shared'')])" by code_simp
  moreover have "(''GetSession'', face_get_session) \<in> set agent_unary" "''GetSession'' \<in> set session_calls"
    by (simp_all add: agent_unary_def session_calls_def)
  then have "\<exists>m. fst (face_get_session demo_face stranger (session_msg ''acme:web:dev'' '''') []) = Fail m"
    using guard sess by (fastforce simp: session_msg_def)
  ultimately show ?thesis by auto
qed

end
