(* ===== verification/Mirrors.thy ===== *)
theory Mirrors
imports Gateway
begin

text \<open>
  The scheduler of the mirrors (\<^verbatim>\<open>cmd/easylab/mirror_sched.go\<close>): on each tick it pulls the
  read-only mirrors whose interval has passed and pushes the branches that have moved since they
  were last pushed.

  The store and the transfer are third-party: \<^verbatim>\<open>mirror_env\<close> holds their operations over a state
  \<^verbatim>\<open>'e\<close>, times in milliseconds.  The interval arithmetic is that of 64-bit integers.
\<close>

section \<open>The store\<close>

record mirror_meta =
  mm_interval :: int
  mm_last :: int
  mm_url :: string
  mm_branch :: string
  mm_token :: string

record push_item =
  pm_name :: string
  pm_url :: string
  pm_branch :: string
  pm_token :: string
  pm_last :: string

type_synonym repo_ref = "string \<times> string"

record 'e mirror_env =
  me_now :: "'e \<Rightarrow> int"
  me_mirrors :: "'e \<Rightarrow> string + repo_ref list \<times> (string \<Rightarrow> mirror_meta option)"
  me_pull :: "repo_ref \<Rightarrow> string \<Rightarrow> string \<Rightarrow> string \<Rightarrow> 'e \<Rightarrow> (string + string) \<times> 'e"
  me_touch :: "repo_ref \<Rightarrow> string \<Rightarrow> int \<Rightarrow> string \<Rightarrow> 'e \<Rightarrow> 'e"
  me_push_items :: "'e \<Rightarrow> string + push_item list"
  me_open :: "repo_ref \<Rightarrow> 'e \<Rightarrow> bool"
  me_ref :: "repo_ref \<Rightarrow> string \<Rightarrow> 'e \<Rightarrow> string option"
  me_push :: "repo_ref \<Rightarrow> push_item \<Rightarrow> 'e \<Rightarrow> (string + string) \<times> 'e"
  me_pushed :: "repo_ref \<Rightarrow> string \<Rightarrow> string \<Rightarrow> string \<Rightarrow> 'e \<Rightarrow> 'e"

section \<open>Names\<close>

definition split_push_name :: "string \<Rightarrow> string \<times> string" where
  "split_push_name encoded = (case cut_last CHR ''|'' encoded of Some (a, b) \<Rightarrow> (a, b) | None \<Rightarrow> (encoded, ''''))"

definition parse_repo_ref :: "string \<Rightarrow> repo_ref" where
  "parse_repo_ref ns_repo = (case cut_at CHR ''/'' ns_repo of Some (a, b) \<Rightarrow> (a, b) | None \<Rightarrow> (ns_repo, ''''))"

definition env_bool :: "string \<Rightarrow> bool \<Rightarrow> bool" where
  "env_bool v def =
    (if v = '''' then def
     else v = ''1'' \<or> map lower_char v = ''true'' \<or> map lower_char v = ''on'')"

definition env_duration :: "(string \<Rightarrow> int option) \<Rightarrow> string \<Rightarrow> int \<Rightarrow> int" where
  "env_duration parse v def = (if v = '''' then def else case parse v of None \<Rightarrow> def | Some d \<Rightarrow> d)"

section \<open>Pulling\<close>

definition pull_one_mirror :: "'e mirror_env \<Rightarrow> repo_ref \<Rightarrow> mirror_meta \<Rightarrow> 'e \<Rightarrow> 'e" where
  "pull_one_mirror ev r meta v =
    (case me_pull ev r (mm_url meta) (mm_branch meta) (mm_token meta) v of
       (Inl err, v1) \<Rightarrow> me_touch ev r '''' (me_now ev v1) err v1
     | (Inr rev1, v1) \<Rightarrow> me_touch ev r rev1 (me_now ev v1) '''' v1)"

definition pull_due :: "int \<Rightarrow> mirror_meta \<Rightarrow> bool" where
  "pull_due now meta \<longleftrightarrow>
    mm_interval meta > 0 \<and> \<not> int64_of (now - mm_last meta) < int64_of (mm_interval meta * 1000)"

definition pull_due_mirrors :: "'e mirror_env \<Rightarrow> 'e \<Rightarrow> 'e" where
  "pull_due_mirrors ev v =
    (case me_mirrors ev v of
       Inl err \<Rightarrow> v
     | Inr (repos, metas) \<Rightarrow>
         (let now = me_now ev v in
          foldl (\<lambda>w r. case metas (fst r @ ''/'' @ snd r) of
                    Some meta \<Rightarrow> if pull_due now meta then pull_one_mirror ev r meta w else w
                  | None \<Rightarrow> w) v repos))"

section \<open>Pushing\<close>

definition push_one_mirror :: "'e mirror_env \<Rightarrow> repo_ref \<Rightarrow> push_item \<Rightarrow> string \<Rightarrow> 'e \<Rightarrow> 'e" where
  "push_one_mirror ev r m name v =
    (case me_push ev r m v of
       (Inl err, v1) \<Rightarrow> me_pushed ev r name (pm_last m) err v1
     | (Inr rev1, v1) \<Rightarrow> me_pushed ev r name rev1 '''' v1)"

definition push_if_dirty :: "'e mirror_env \<Rightarrow> 'e \<Rightarrow> push_item \<Rightarrow> 'e" where
  "push_if_dirty ev v m =
    (case split_push_name (pm_name m) of
       (ns_repo, name) \<Rightarrow>
         (let r = parse_repo_ref ns_repo in
          if \<not> me_open ev r v then v
          else if pm_last m = '''' then push_one_mirror ev r m name v
          else case me_ref ev r (pm_branch m) v of
                 None \<Rightarrow> v
               | Some target \<Rightarrow> if target = pm_last m then v else push_one_mirror ev r m name v))"

definition push_dirty_mirrors :: "'e mirror_env \<Rightarrow> 'e \<Rightarrow> 'e" where
  "push_dirty_mirrors ev v =
    (case me_push_items ev v of Inl err \<Rightarrow> v | Inr items \<Rightarrow> foldl (push_if_dirty ev) v items)"

definition mirror_tick :: "'e mirror_env \<Rightarrow> 'e \<Rightarrow> 'e" where
  "mirror_tick ev v = push_dirty_mirrors ev (pull_due_mirrors ev v)"

text \<open>The loop after so many ticks; the setting is the text of the environment variable.\<close>

definition run_mirror_loop :: "'e mirror_env \<Rightarrow> string \<Rightarrow> nat \<Rightarrow> 'e \<Rightarrow> 'e" where
  "run_mirror_loop ev setting ticks v = (if env_bool setting True then (mirror_tick ev ^^ ticks) v else v)"

section \<open>The encoded names\<close>

lemma push_name_decodes:
  "CHR ''/'' \<notin> set ns \<Longrightarrow> CHR ''|'' \<notin> set name \<Longrightarrow>
    split_push_name (ns @ ''/'' @ repo @ ''|'' @ name) = (ns @ ''/'' @ repo, name)
    \<and> parse_repo_ref (ns @ ''/'' @ repo) = (ns, repo)"
  using cut_last_append[of "CHR ''|''" name "ns @ ''/'' @ repo"] cut_at_append[of "CHR ''/''" ns repo]
  by (simp add: split_push_name_def parse_repo_ref_def)

section \<open>A contract of the store\<close>








definition item_repo :: "push_item \<Rightarrow> repo_ref" where
  "item_repo m = parse_repo_ref (fst (split_push_name (pm_name m)))"

definition item_name :: "push_item \<Rightarrow> string" where
  "item_name m = snd (split_push_name (pm_name m))"

definition dirty :: "'e mirror_env \<Rightarrow> 'e \<Rightarrow> push_item \<Rightarrow> bool" where
  "dirty ev v m \<longleftrightarrow> me_open ev (item_repo m) v
    \<and> (pm_last m = '''' \<or> (case me_ref ev (item_repo m) (pm_branch m) v of None \<Rightarrow> False | Some t \<Rightarrow> t \<noteq> pm_last m))"


definition delivered :: "'e mirror_env \<Rightarrow> ('e \<Rightarrow> push_item list) \<Rightarrow> 'e \<Rightarrow> push_item \<Rightarrow> string option" where
  "delivered ev view v m =
    (case me_push ev (item_repo m) m v of
       (Inl err, v1) \<Rightarrow> None
     | (Inr t, v1) \<Rightarrow> if view (me_pushed ev (item_repo m) (item_name m) t '''' v1) = view v then None else Some t)"

definition pushed_item :: "'e mirror_env \<Rightarrow> ('e \<Rightarrow> push_item list) \<Rightarrow> 'e \<Rightarrow> push_item \<Rightarrow> push_item" where
  "pushed_item ev view v m =
    (if dirty ev v m then (case delivered ev view v m of None \<Rightarrow> m | Some t \<Rightarrow> m\<lparr> pm_last := t \<rparr>) else m)"



lemma pushed_item_fields [simp]:
  "pm_name (pushed_item ev view v m) = pm_name m" "item_repo (pushed_item ev view v m) = item_repo m"
  "pm_branch (pushed_item ev view v m) = pm_branch m"
  by (simp_all add: pushed_item_def item_repo_def split: option.split)








section \<open>A concrete store\<close>







end
