(* ===== verification/Packages.thy ===== *)
theory Packages
imports Act Authn
begin

text \<open>
  The package registry's face in the gateway (\<^verbatim>\<open>cmd/easylab/connregistry.go\<close>): listings, versions,
  visibility and deletion of packages.

  The index of packages and the owners are third-party stores: the record \<^verbatim>\<open>package_env\<close> of their
  operations over a state \<^verbatim>\<open>'e\<close>.
\<close>

section \<open>The stores\<close>

record package_env_owner =
  po_visibility :: string
  po_owner :: int

record 'e package_env =
  pe_packages :: "'e \<Rightarrow> string + (string \<times> string) list"
  pe_versions :: "string \<Rightarrow> string \<Rightarrow> 'e \<Rightarrow> string + string list"
  pe_can_read :: "string \<Rightarrow> string \<Rightarrow> int \<Rightarrow> 'e \<Rightarrow> bool"
  pe_owner :: "string \<Rightarrow> string \<Rightarrow> 'e \<Rightarrow> package_env_owner option"
  pe_set_visibility :: "string \<Rightarrow> string \<Rightarrow> int \<Rightarrow> string \<Rightarrow> 'e \<Rightarrow> (string + unit) \<times> 'e"
  pe_delete_repo :: "string \<Rightarrow> string \<Rightarrow> 'e \<Rightarrow> (string + unit) \<times> 'e"
  pe_delete :: "string \<Rightarrow> string \<Rightarrow> string \<Rightarrow> 'e \<Rightarrow> (string + unit) \<times> 'e"
  pe_protocols :: "string list"
  pe_repositories :: "'e \<Rightarrow> string + string list"

section \<open>Listings\<close>

definition count_of :: "string \<Rightarrow> (string \<times> string) list \<Rightarrow> int" where
  "count_of format ps = int32_of (int (length (filter (\<lambda>p. fst p = format) ps)))"

text \<open>A failing index counts as an empty one.\<close>

definition list_package_types :: "'e package_env \<Rightarrow> ('e, (string \<times> int) list) act" where
  "list_package_types ev =
    peek (pe_packages ev) (\<lambda>r.
      let ps = (case r of Inl err \<Rightarrow> [] | Inr ps \<Rightarrow> ps)
      in give (map (\<lambda>f. (f, count_of f ps)) (sort (remdups (map fst ps)))))"

record package_info =
  pi_type :: string
  pi_name :: string
  pi_visibility :: string
  pi_owner :: string
  pi_versions :: "string list"

definition package_info_of :: "'e package_env \<Rightarrow> string \<times> string \<Rightarrow> string list \<Rightarrow> 'e \<Rightarrow> package_info" where
  "package_info_of ev p versions v =
    (case pe_owner ev (fst p) (snd p) v of
       None \<Rightarrow> \<lparr> pi_type = fst p, pi_name = snd p, pi_visibility = ''public'', pi_owner = '''', pi_versions = versions \<rparr>
     | Some own \<Rightarrow> \<lparr> pi_type = fst p, pi_name = snd p, pi_visibility = po_visibility own,
                     pi_owner = (if po_owner own \<noteq> 0 then dec_int (po_owner own) else ''''), pi_versions = versions \<rparr>)"

fun first_seen :: "'a list \<Rightarrow> 'a list \<Rightarrow> 'a list" where
  "first_seen seen [] = []"
| "first_seen seen (x # xs) = (if x \<in> set seen then first_seen seen xs else x # first_seen (x # seen) xs)"

definition listed_package :: "'e package_env \<Rightarrow> string \<Rightarrow> int \<Rightarrow> 'e \<Rightarrow> string \<times> string \<Rightarrow> package_info option" where
  "listed_package ev wanted uid v p =
    (if wanted \<noteq> '''' \<and> fst p \<noteq> wanted then None
     else if \<not> pe_can_read ev (fst p) (snd p) uid v then None
     else case pe_versions ev (fst p) (snd p) v of
            Inl err \<Rightarrow> None
          | Inr vs \<Rightarrow> Some (package_info_of ev p vs v))"

definition list_packages :: "'e package_env \<Rightarrow> principal option \<Rightarrow> string \<Rightarrow> ('e, package_info list) act" where
  "list_packages ev ctx wanted =
    look Internal (pe_packages ev) (\<lambda>ps.
      peek (\<lambda>v. List.map_filter (listed_package ev wanted (user_id_of ctx) v) (first_seen [] ps)) give)"

section \<open>Single packages\<close>

definition set_package_visibility :: "'e package_env \<Rightarrow> principal option \<Rightarrow> string \<Rightarrow> string \<Rightarrow> string \<Rightarrow> ('e, unit) act" where
  "set_package_visibility ev ctx type name visibility =
    demand (\<lambda>_. require_authenticated ctx ''changing package visibility'')
      (effect PermissionDenied (pe_set_visibility ev type name (user_id_of ctx) visibility) (\<lambda>_. give ()))"

definition package_versions :: "'e package_env \<Rightarrow> string \<Rightarrow> string \<Rightarrow> ('e, string list) act" where
  "package_versions ev type name = look NotFound (pe_versions ev type name) give"

definition delete_package :: "'e package_env \<Rightarrow> string \<Rightarrow> string \<Rightarrow> ('e, unit) act" where
  "delete_package ev type name = effect Internal (pe_delete_repo ev type name) (\<lambda>_. give ())"

definition delete_package_version :: "'e package_env \<Rightarrow> string \<Rightarrow> string \<Rightarrow> string \<Rightarrow> ('e, unit) act" where
  "delete_package_version ev type name version = effect Internal (pe_delete ev type name version) (\<lambda>_. give ())"

definition list_publish_specs :: "'e package_env \<Rightarrow> ('e, string list) act" where
  "list_publish_specs ev = give (pe_protocols ev)"

definition oci_catalog :: "'e package_env \<Rightarrow> ('e, string list) act" where
  "oci_catalog ev =
    look Internal (pe_repositories ev) (\<lambda>rs.
      give (map (trim_prefix ''oci/'') (filter (has_prefix ''oci/'') rs)))"

section \<open>What a listing shows\<close>

lemma first_seen_props: "distinct (first_seen seen xs) \<and> set (first_seen seen xs) = set xs - set seen"
  by (induction seen xs rule: first_seen.induct) auto

lemma map_filter_props:
  assumes "\<And>x y z. x \<in> set xs \<Longrightarrow> f x = Some z \<Longrightarrow> key z = x"
  shows "distinct xs \<Longrightarrow> distinct (map key (List.map_filter f xs))"
proof -
  assume "distinct xs"
  then show "distinct (map key (List.map_filter f xs))"
    using assms
  proof (induction xs)
    case (Cons x xs)
    have old: "key z \<noteq> x" if "z \<in> set (List.map_filter f xs)" for z
      using that Cons.prems in_map_filter[of z f xs] by (metis distinct.simps(2) list.set_intros(2))
    then show ?case
      using Cons old by (auto simp: List.map_filter_simps split: option.split) (metis list.set_intros(1))
  qed (simp add: List.map_filter_simps)
qed

text \<open>
  A listing shows every package of the type asked for that the caller may read and that has
  versions in the index, each once, with its versions; and its visibility, which is public when the
  package has no owner.
\<close>

lemma packages_listed:
  assumes "pe_packages ev v = Inr ps"
  shows "\<exists>out. list_packages ev ctx wanted v = (Done out, v)
    \<and> distinct (map (\<lambda>i. (pi_type i, pi_name i)) out)
    \<and> set out = {package_info_of ev p vs v | p vs. p \<in> set ps \<and> (wanted = '''' \<or> fst p = wanted)
        \<and> pe_can_read ev (fst p) (snd p) (user_id_of ctx) v \<and> pe_versions ev (fst p) (snd p) v = Inr vs}"
proof -
  let ?f = "listed_package ev wanted (user_id_of ctx) v"
  let ?out = "List.map_filter ?f (first_seen [] ps)"
  have f_iff: "?f p = Some z \<longleftrightarrow> (wanted = [] \<or> fst p = wanted) \<and> pe_can_read ev (fst p) (snd p) (user_id_of ctx) v
      \<and> (\<exists>vs. pe_versions ev (fst p) (snd p) v = Inr vs \<and> z = package_info_of ev p vs v)" for p z
    by (auto simp: listed_package_def split: sum.split)
  have key: "(pi_type z, pi_name z) = x" if "?f x = Some z" for x z
    using that by (auto simp: listed_package_def package_info_of_def split: if_splits sum.splits option.splits)
  have seen: "distinct (first_seen [] ps)" "set (first_seen [] ps) = set ps"
    using first_seen_props[of "[]" ps] by simp_all
  note f = map_filter_props[of "first_seen [] ps" ?f "\<lambda>i. (pi_type i, pi_name i)", OF key]
  have "set ?out = {package_info_of ev p vs v | p vs. p \<in> set ps \<and> (wanted = '''' \<or> fst p = wanted)
        \<and> pe_can_read ev (fst p) (snd p) (user_id_of ctx) v \<and> pe_versions ev (fst p) (snd p) v = Inr vs}"
    by (rule set_eqI, simp only: in_map_filter seen(2) f_iff mem_Collect_eq) blast
  moreover have "list_packages ev ctx wanted v = (Done ?out, v)"
    using assms by (simp add: list_packages_def look_def peek_def give_def)
  ultimately show ?thesis using f[OF _ seen(1)] by blast
qed

end
