(* ===== verification/Client_Headers.thy ===== *)
theory Client_Headers
imports Access_Correct
begin

text \<open>
  The headers of the program's own clients of the gateway: the credential
  (\<^verbatim>\<open>internal/easylabclient\<close>, \<^verbatim>\<open>internal/connectauth\<close>) and the tenant of a tool call
  (\<^verbatim>\<open>internal/ext/tenantctx.go\<close>), composed with the gateway's interceptors, which read them.
\<close>

section \<open>The interceptors of the clients\<close>

definition bearer_header :: "string \<Rightarrow> header \<Rightarrow> header" where
  "bearer_header token h = (if token \<noteq> '''' then h(''Authorization'' := ''Bearer '' @ token) else h)"

definition client_token :: "string \<Rightarrow> string" where
  "client_token token = (if token = '''' then ''devtoken'' else token)"

definition with_lab_tenant :: "string option \<Rightarrow> string \<Rightarrow> string option" where
  "with_lab_tenant ctx tenant = (if tenant = '''' then ctx else Some tenant)"

definition lab_tenant_of :: "string option \<Rightarrow> string" where
  "lab_tenant_of ctx = (case ctx of Some t \<Rightarrow> t | None \<Rightarrow> '''')"

definition tenant_header :: "string option \<Rightarrow> header \<Rightarrow> header" where
  "tenant_header ctx h = (if lab_tenant_of ctx \<noteq> '''' then h(''X-Agent-Tenant'' := lab_tenant_of ctx) else h)"

text \<open>A client of the gateway: the credential, and what the extensions add.\<close>

definition gateway_client :: "string \<Rightarrow> string option \<Rightarrow> header" where
  "gateway_client token ctx = tenant_header ctx (bearer_header (client_token token) (\<lambda>_. ''''))"

definition trim_slash :: "string \<Rightarrow> string" where
  "trim_slash s = rev (dropWhile (\<lambda>c. c = CHR ''/'') (rev s))"

section \<open>Whom a call of an extension acts as\<close>

lemma client_credential:
  assumes "trim_space (client_token token) = client_token token"
  shows "credential (gateway_client token ctx) = (client_token token, True)"
proof -
  have n: "client_token token \<noteq> ''''" by (simp add: client_token_def)
  have h: "gateway_client token ctx ''Authorization'' = ''Bearer '' @ client_token token"
    using n by (simp add: gateway_client_def tenant_header_def bearer_header_def)
  have p: "has_prefix ''Bearer '' (''Bearer '' @ client_token token)" by (rule has_prefix_append)
  then have f: "find (\<lambda>p. has_prefix p (''Bearer '' @ client_token token)) schemes = Some ''Bearer ''"
    by (simp add: schemes_def)
  have t: "trim_prefix ''Bearer '' (''Bearer '' @ client_token token) = client_token token"
    using p by (simp add: trim_prefix_def)
  show ?thesis
    unfolding credential_def h Let_def f using n assms by (simp add: t[simplified])
qed

text \<open>
  Whom a call of an extension acts as.  A call made for a tenant from the same host acts, when it is
  unary, as the enabled user who has that name or owns that tenant, and as the owner of the extension's own
  token if there is no such user or no tenant was given; but a stream acts as the owner of the
  extension's token whatever the tenant.
\<close>

lemma extension_call_identity:
  assumes "trim_space (client_token token) = client_token token"
    and "authenticate_credential cs admin_token (client_token token) = Some p" "\<not> pl_admin p"
    and "is_loopback_peer peer" "\<not> is_health_rpc procedure" "trim_space tenant = tenant"
  shows "wrap_unary cs admin_token procedure (gateway_client token (with_lab_tenant None tenant)) peer =
      Inr (Some (case (if tenant = '''' then None else asserted_owner cs tenant) of
                   Some u \<Rightarrow> p\<lparr> pl_user := us_id u, pl_name := us_name u \<rparr> | None \<Rightarrow> p))
    \<and> wrap_streaming cs admin_token (gateway_client token (with_lab_tenant None tenant)) = Inr (Some p)"
proof -
  let ?h = "gateway_client token (with_lab_tenant None tenant)"
  have a: "authenticate cs admin_token ?h = Some p"
    using assms(1,2) by (simp add: authenticate_def client_credential)
  have t: "?h ''X-Agent-Tenant'' = tenant"
    by (simp add: gateway_client_def tenant_header_def with_lab_tenant_def lab_tenant_of_def bearer_header_def)
  have sp: "trim_space '''' = ''''" by code_simp
  have "apply_loopback_override cs p ?h peer =
      (case (if tenant = '''' then None else asserted_owner cs tenant) of
         Some u \<Rightarrow> p\<lparr> pl_user := us_id u, pl_name := us_name u \<rparr> | None \<Rightarrow> p)"
    using assms(3,4,6) t by (simp add: apply_loopback_override_def Let_def)
  then show ?thesis
    using a assms(5) by (simp add: wrap_unary_def wrap_streaming_def)
qed

lemma extension_call_identity_witness:
  "wrap_unary demo_central '''' ''/easylab.v1.LabService/Tree'' (gateway_client ''t2'' (with_lab_tenant None ''ann''))
      ''127.0.0.1:4000'' = Inr (Some (nobody\<lparr> pl_user := 1, pl_name := ''ann'' \<rparr>))
   \<and> wrap_streaming demo_central '''' (gateway_client ''t2'' (with_lab_tenant None ''ann''))
      = Inr (Some (nobody\<lparr> pl_user := 2, pl_name := ''bob'' \<rparr>))"
proof -
  let ?p = "nobody\<lparr> pl_user := 2, pl_name := ''bob'' \<rparr>"
  have "trim_space (client_token ''t2'') = client_token ''t2''" by code_simp
  moreover have "authenticate_credential demo_central '''' (client_token ''t2'') = Some ?p" by code_simp
  moreover have "\<not> pl_admin ?p" by (simp add: nobody_def)
  moreover have "is_loopback_peer ''127.0.0.1:4000''" by code_simp
  moreover have "\<not> is_health_rpc ''/easylab.v1.LabService/Tree''" by code_simp
  moreover have "trim_space ''ann'' = ''ann''" by code_simp
  ultimately have "wrap_unary demo_central '''' ''/easylab.v1.LabService/Tree'' (gateway_client ''t2'' (with_lab_tenant None ''ann''))
      ''127.0.0.1:4000'' = Inr (Some (case (if ''ann'' = '''' then None else asserted_owner demo_central ''ann'') of
                   Some u \<Rightarrow> ?p\<lparr> pl_user := us_id u, pl_name := us_name u \<rparr> | None \<Rightarrow> ?p))
    \<and> wrap_streaming demo_central '''' (gateway_client ''t2'' (with_lab_tenant None ''ann'')) = Inr (Some ?p)"
    by (rule extension_call_identity)
  moreover have "asserted_owner demo_central ''ann'' = Some \<lparr> us_id = 1, us_name = ''ann'', us_disabled = False \<rparr>"
    by code_simp
  ultimately show ?thesis by simp
qed

end
