(* ===== verification/Repo_Migration.thy ===== *)
theory Repo_Migration
imports Repo_Store
begin

text \<open>
  The schema of the repository extension's database and its migration when the database is opened
  (\<^verbatim>\<open>Store.migrate\<close> in \<^verbatim>\<open>internal/ext/repo/pg.go\<close>).

  A database maps names to tables; a table has columns, keys (lists of columns on which no two rows
  agree) and rows, whose values are texts.  A statement fails as SQLite's does, without
  an effect; the statements of a script run one after the other, outside any transaction, and the
  first failure ends the script.  Whether the database can be reached is not modelled.
\<close>

section \<open>Statements\<close>

record sql_table =
  sq_cols :: "string list"
  sq_keys :: "string list list"
  sq_rows :: "(string \<Rightarrow> string) list"

type_synonym database = "string \<Rightarrow> sql_table option"

datatype sql_expr = Lit string | Col string

datatype sql_stmt =
    CreateIfMissing string "string list" "string list list"
  | CreateTable string "string list" "string list list"
  | RenameTable string string
  | InsertSelect string "(string \<times> sql_expr) list" string
  | DropTable string
  | RenameColumn string string string

definition keys_ok :: "sql_table \<Rightarrow> bool" where
  "keys_ok t \<longleftrightarrow> list_all (\<lambda>k. distinct (map (\<lambda>r. map r k) (sq_rows t))) (sq_keys t)"

definition expr_ok :: "sql_table \<Rightarrow> sql_expr \<Rightarrow> bool" where
  "expr_ok t e = (case e of Lit _ \<Rightarrow> True | Col c \<Rightarrow> c \<in> set (sq_cols t))"

definition eval_expr :: "(string \<Rightarrow> string) \<Rightarrow> sql_expr \<Rightarrow> string" where
  "eval_expr r e = (case e of Lit s \<Rightarrow> s | Col c \<Rightarrow> r c)"

definition project_row :: "(string \<times> sql_expr) list \<Rightarrow> (string \<Rightarrow> string) \<Rightarrow> string \<Rightarrow> string" where
  "project_row cs r c = (case map_of cs c of Some e \<Rightarrow> eval_expr r e | None \<Rightarrow> '''')"

definition rename_in :: "string \<Rightarrow> string \<Rightarrow> sql_table \<Rightarrow> sql_table" where
  "rename_in old new t =
    (let ren = (\<lambda>c. if c = old then new else c) in
     t\<lparr> sq_cols := map ren (sq_cols t), sq_keys := map (map ren) (sq_keys t),
        sq_rows := map (\<lambda>r c. if c = new then r old else if c = old then '''' else r c) (sq_rows t) \<rparr>)"

fun run_sql :: "sql_stmt \<Rightarrow> database \<Rightarrow> string + database" where
  "run_sql (CreateIfMissing n cols keys) db =
    Inr (if db n = None then db(n \<mapsto> \<lparr> sq_cols = cols, sq_keys = keys, sq_rows = [] \<rparr>) else db)"
| "run_sql (CreateTable n cols keys) db =
    (if db n \<noteq> None then Inl (''table '' @ n @ '' already exists'')
     else Inr (db(n \<mapsto> \<lparr> sq_cols = cols, sq_keys = keys, sq_rows = [] \<rparr>)))"
| "run_sql (RenameTable old new) db =
    (case db old of
       None \<Rightarrow> Inl (''no such table: '' @ old)
     | Some t \<Rightarrow>
         if db new \<noteq> None then Inl (''there is already another table or index with this name: '' @ new)
         else Inr (db(old := None, new \<mapsto> t)))"
| "run_sql (InsertSelect n cs src) db =
    (case (db n, db src) of
       (Some t, Some s) \<Rightarrow>
         (case find (\<lambda>(c, e). \<not> expr_ok s e) cs of
            Some (c, e) \<Rightarrow> Inl (''no such column: '' @ eval_expr (\<lambda>c. c) e)
          | None \<Rightarrow>
              (let t' = t\<lparr> sq_rows := sq_rows t @ map (project_row cs) (sq_rows s) \<rparr>
               in if keys_ok t' then Inr (db(n \<mapsto> t')) else Inl ''UNIQUE constraint failed''))
     | _ \<Rightarrow> Inl ''no such table'')"
| "run_sql (DropTable n) db = (if db n = None then Inl (''no such table: '' @ n) else Inr (db(n := None)))"
| "run_sql (RenameColumn n old new) db =
    (case db n of
       None \<Rightarrow> Inl (''no such table: '' @ n)
     | Some t \<Rightarrow>
         if old \<notin> set (sq_cols t) then Inl (''no such column: '' @ old)
         else if new \<in> set (sq_cols t) then Inl (''duplicate column name: '' @ new)
         else Inr (db(n \<mapsto> rename_in old new t)))"

fun run_script :: "sql_stmt list \<Rightarrow> database \<Rightarrow> string option \<times> database" where
  "run_script [] db = (None, db)"
| "run_script (s # ss) db = (case run_sql s db of Inl e \<Rightarrow> (Some e, db) | Inr db' \<Rightarrow> run_script ss db')"

section \<open>The schema\<close>

definition session_table :: string where
  "session_table = ''session_repos''"

definition managed_table :: string where
  "managed_table = ''managed_repos''"

definition session_cols :: "string list" where
  "session_cols = [''tenant'', ''org'', ''repo'', ''branch'', ''session_name'', ''created_at'', ''updated_at'']"

definition session_keys :: "string list list" where
  "session_keys = [[''tenant'', ''org'', ''repo'', ''branch''], [''tenant'', ''session_name'']]"

definition managed_cols :: "string list" where
  "managed_cols = [''tenant'', ''org'', ''repo'', ''created_at'']"

definition managed_keys :: "string list list" where
  "managed_keys = [[''tenant'', ''org'', ''repo'']]"

definition schema_script :: "sql_stmt list" where
  "schema_script =
    [CreateIfMissing managed_table managed_cols managed_keys, CreateIfMissing session_table session_cols session_keys]"

section \<open>The migration\<close>

definition rehomed :: "string list \<Rightarrow> (string \<times> sql_expr) list" where
  "rehomed cols = (''tenant'', Lit ''default'') # map (\<lambda>c. (c, Col c)) cols"

definition rebuild_script :: "sql_stmt list" where
  "rebuild_script =
    [RenameTable session_table ''session_repos_v1'',
     CreateTable session_table session_cols session_keys,
     InsertSelect session_table (rehomed (tl session_cols)) ''session_repos_v1'',
     DropTable ''session_repos_v1'',
     RenameTable managed_table ''managed_repos_v1'',
     CreateTable managed_table managed_cols managed_keys,
     InsertSelect managed_table (rehomed (tl managed_cols)) ''managed_repos_v1'',
     DropTable ''managed_repos_v1'']"

definition has_column :: "database \<Rightarrow> string \<Rightarrow> string \<Rightarrow> bool" where
  "has_column db n c = (case db n of None \<Rightarrow> False | Some t \<Rightarrow> c \<in> set (sq_cols t))"

definition rename_bookmark :: "database \<Rightarrow> string option \<times> database" where
  "rename_bookmark db =
    (if has_column db session_table ''bookmark''
     then (case run_sql (RenameColumn session_table ''bookmark'' ''branch'') db of
             Inl e \<Rightarrow> (Some (''migrate bookmark->branch: '' @ e), db)
           | Inr db' \<Rightarrow> (None, db'))
     else (None, db))"

definition migrate :: "database \<Rightarrow> string option \<times> database" where
  "migrate db =
    (case run_script schema_script db of
       (Some e, db1) \<Rightarrow> (Some (''ddl: '' @ e), db1)
     | (None, db1) \<Rightarrow>
         (if has_column db1 session_table ''tenant'' then rename_bookmark db1
          else case run_script rebuild_script db1 of
                 (Some e, db2) \<Rightarrow> (Some (''tenant rebuild: '' @ e), db2)
               | (None, db2) \<Rightarrow> rename_bookmark db2))"

text \<open>The rows a query of the extension sees, once the schema is the current one.\<close>

definition scanned_row :: "(string \<Rightarrow> string) \<Rightarrow> map_row" where
  "scanned_row r = \<lparr> mr_tenant = r ''tenant'', mr_org = r ''org'', mr_repo = r ''repo'', mr_branch = r ''branch'',
     mr_session = r ''session_name'' \<rparr>"

definition mapping_of :: "database \<Rightarrow> map_row list" where
  "mapping_of db = (case db session_table of None \<Rightarrow> [] | Some t \<Rightarrow> map scanned_row (sq_rows t))"

definition managed_of :: "database \<Rightarrow> (string \<times> string \<times> string) list" where
  "managed_of db =
    (case db managed_table of None \<Rightarrow> [] | Some t \<Rightarrow> map (\<lambda>r. (r ''tenant'', r ''org'', r ''repo'')) (sq_rows t))"

section \<open>Opening a database of an older schema\<close>

text \<open>
  A database from before tenants: its tables have no tenant, and the branch of a row stands in the column
  \<^verbatim>\<open>c\<close>.
\<close>

definition old_schema :: "string \<Rightarrow> (string \<Rightarrow> string) list \<Rightarrow> (string \<Rightarrow> string) list \<Rightarrow> database \<Rightarrow> bool" where
  "old_schema c rows managed db \<longleftrightarrow>
    db ''session_repos_v1'' = None \<and> db ''managed_repos_v1'' = None \<and>
    (\<exists>keys. db session_table = Some \<lparr> sq_cols = [''org'', ''repo'', c, ''session_name'', ''created_at'', ''updated_at''],
       sq_keys = keys, sq_rows = rows \<rparr>) \<and>
    (\<exists>keys. db managed_table = Some \<lparr> sq_cols = [''org'', ''repo'', ''created_at''], sq_keys = keys, sq_rows = managed \<rparr>) \<and>
    distinct (map (\<lambda>r. (r ''org'', r ''repo'', r c)) rows) \<and> distinct (map (\<lambda>r. r ''session_name'') rows) \<and>
    distinct (map (\<lambda>r. (r ''org'', r ''repo'')) managed)"

lemma distinct_rehomed:
  assumes "distinct (map f rows)" "\<And>r. f r = g (map (project_row (rehomed cols) r) k)"
  shows "distinct (map (\<lambda>r. map r k) (map (project_row (rehomed cols)) rows))"
proof -
  have "map f rows = map g (map (\<lambda>r. map r k) (map (project_row (rehomed cols)) rows))" using assms(2) by simp
  then show ?thesis using assms(1) by (metis distinct_map)
qed

lemma project_rehomed:
  "project_row (rehomed cols) r ''tenant'' = ''default''"
  "c \<in> set cols \<Longrightarrow> c \<noteq> ''tenant'' \<Longrightarrow> project_row (rehomed cols) r c = r c"
proof -
  show "c \<in> set cols \<Longrightarrow> c \<noteq> ''tenant'' \<Longrightarrow> project_row (rehomed cols) r c = r c"
  proof (induction cols)
    case (Cons d cols)
    then show ?case by (cases "c = d") (auto simp: project_row_def rehomed_def eval_expr_def split: option.splits)
  qed simp
qed (simp add: project_row_def rehomed_def eval_expr_def)

lemma find_None_list: "\<forall>x\<in>set xs. \<not> P x \<Longrightarrow> find P xs = None"
  by (simp add: find_None_iff)

lemma exprs_ok: "set cols \<subseteq> set (sq_cols t) \<Longrightarrow> find (\<lambda>(c, e). \<not> expr_ok t e) (rehomed cols) = None"
  by (rule find_None_list) (auto simp: rehomed_def expr_ok_def)

lemma bad_column: "find (\<lambda>(c, e). \<not> expr_ok t e) (rehomed cols) = None \<Longrightarrow> set cols \<subseteq> set (sq_cols t)"
  by (auto simp: find_None_iff rehomed_def expr_ok_def)

text \<open>The rows of the rebuilt tables keep their keys.\<close>

lemma session_keys_ok:
  assumes "distinct (map (\<lambda>r. (r ''org'', r ''repo'', r ''branch'')) rows)" "distinct (map (\<lambda>r. r ''session_name'') rows)"
  shows "keys_ok \<lparr> sq_cols = session_cols, sq_keys = session_keys,
    sq_rows = map (project_row (rehomed (tl session_cols))) rows \<rparr>"
proof -
  have "distinct (map (\<lambda>r. map r [''tenant'', ''org'', ''repo'', ''branch'']) (map (project_row (rehomed (tl session_cols))) rows))"
    by (rule distinct_rehomed[OF assms(1), where g = "\<lambda>xs. (xs ! 1, xs ! 2, xs ! 3)"])
      (simp add: project_rehomed session_cols_def)
  moreover have "distinct (map (\<lambda>r. map r [''tenant'', ''session_name'']) (map (project_row (rehomed (tl session_cols))) rows))"
    by (rule distinct_rehomed[OF assms(2), where g = "\<lambda>xs. xs ! 1"]) (simp add: project_rehomed session_cols_def)
  ultimately show ?thesis by (simp add: keys_ok_def session_keys_def del: map_map)
qed

lemma managed_keys_ok:
  assumes "distinct (map (\<lambda>r. (r ''org'', r ''repo'')) rows)"
  shows "keys_ok \<lparr> sq_cols = managed_cols, sq_keys = managed_keys,
    sq_rows = map (project_row (rehomed (tl managed_cols))) rows \<rparr>"
proof -
  have "distinct (map (\<lambda>r. map r [''tenant'', ''org'', ''repo'']) (map (project_row (rehomed (tl managed_cols))) rows))"
    by (rule distinct_rehomed[OF assms, where g = "\<lambda>xs. (xs ! 1, xs ! 2)"]) (simp add: project_rehomed managed_cols_def)
  then show ?thesis by (simp add: keys_ok_def managed_keys_def del: map_map)
qed

lemma schema_present:
  "db session_table \<noteq> None \<Longrightarrow> db managed_table \<noteq> None \<Longrightarrow> run_script schema_script db = (None, db)"
  by (auto simp: schema_script_def)

lemma table_names: "session_table \<noteq> managed_table" "session_table \<noteq> ''session_repos_v1''" "session_table \<noteq> ''managed_repos_v1''"
  "managed_table \<noteq> ''session_repos_v1''" "managed_table \<noteq> ''managed_repos_v1''" "''session_repos_v1'' \<noteq> ''managed_repos_v1''"
  by (simp_all add: session_table_def managed_table_def)

definition new_schema :: "(string \<Rightarrow> string) list \<Rightarrow> (string \<Rightarrow> string) list \<Rightarrow> database \<Rightarrow> database" where
  "new_schema rows managed db =
    db(''session_repos_v1'' := None, ''managed_repos_v1'' := None,
       session_table \<mapsto> \<lparr> sq_cols = session_cols, sq_keys = session_keys,
         sq_rows = map (project_row (rehomed (tl session_cols))) rows \<rparr>,
       managed_table \<mapsto> \<lparr> sq_cols = managed_cols, sq_keys = managed_keys,
         sq_rows = map (project_row (rehomed (tl managed_cols))) managed \<rparr>)"

lemma rebuild_runs:
  assumes "old_schema ''branch'' rows managed db"
  shows "run_script rebuild_script db = (None, new_schema rows managed db)"
proof -
  obtain k1 k2 where t: "db session_table = Some \<lparr> sq_cols = [''org'', ''repo'', ''branch'', ''session_name'', ''created_at'',
        ''updated_at''], sq_keys = k1, sq_rows = rows \<rparr>"
      "db managed_table = Some \<lparr> sq_cols = [''org'', ''repo'', ''created_at''], sq_keys = k2, sq_rows = managed \<rparr>"
    and v: "db ''session_repos_v1'' = None" "db ''managed_repos_v1'' = None"
    using assms unfolding old_schema_def by blast
  have exprs: "find (\<lambda>(c, e). \<not> expr_ok \<lparr> sq_cols = [''org'', ''repo'', ''branch'', ''session_name'', ''created_at'',
        ''updated_at''], sq_keys = k1, sq_rows = rows \<rparr> e) (rehomed (tl session_cols)) = None"
      "find (\<lambda>(c, e). \<not> expr_ok \<lparr> sq_cols = [''org'', ''repo'', ''created_at''], sq_keys = k2, sq_rows = managed \<rparr> e)
        (rehomed (tl managed_cols)) = None"
    by (rule exprs_ok, simp add: session_cols_def managed_cols_def)+
  note keys = session_keys_ok[of rows] managed_keys_ok[of managed]
  have ok: "keys_ok \<lparr> sq_cols = session_cols, sq_keys = session_keys, sq_rows = map (project_row (rehomed (tl session_cols))) rows \<rparr>"
    "keys_ok \<lparr> sq_cols = managed_cols, sq_keys = managed_keys, sq_rows = map (project_row (rehomed (tl managed_cols))) managed \<rparr>"
    using keys assms unfolding old_schema_def by blast+
  show ?thesis
    unfolding rebuild_script_def
    by (simp add: t v table_names table_names[symmetric] exprs ok)
      (auto simp: new_schema_def fun_eq_iff table_names)
qed

lemma rebuild_stops:
  assumes "old_schema ''bookmark'' rows managed db"
  obtains e t where "run_script rebuild_script db = (Some e, db(''session_repos_v1'' \<mapsto> t,
      session_table \<mapsto> \<lparr> sq_cols = session_cols, sq_keys = session_keys, sq_rows = [] \<rparr>))" "sq_rows t = rows"
proof -
  obtain k1 where t: "db session_table = Some \<lparr> sq_cols = [''org'', ''repo'', ''bookmark'', ''session_name'', ''created_at'',
        ''updated_at''], sq_keys = k1, sq_rows = rows \<rparr>"
    and v: "db ''session_repos_v1'' = None"
    using assms unfolding old_schema_def by blast
  let ?t = "\<lparr> sq_cols = [''org'', ''repo'', ''bookmark'', ''session_name'', ''created_at'', ''updated_at''], sq_keys = k1,
      sq_rows = rows \<rparr>"
  have "find (\<lambda>(c, e). \<not> expr_ok ?t e) (rehomed (tl session_cols)) = Some (''branch'', Col ''branch'')"
    by (simp add: rehomed_def session_cols_def expr_ok_def)
  then have "run_script rebuild_script db = (Some (''no such column: '' @ ''branch''), db(''session_repos_v1'' \<mapsto> ?t,
      session_table \<mapsto> \<lparr> sq_cols = session_cols, sq_keys = session_keys, sq_rows = [] \<rparr>))"
    unfolding rebuild_script_def
    by (simp add: t v table_names table_names[symmetric] eval_expr_def)
  then show thesis by (rule that) simp
qed

lemma current_stays:
  assumes "db session_table = Some t" "db managed_table \<noteq> None" "sq_cols t = session_cols"
  shows "migrate db = (None, db)"
proof -
  have "has_column db session_table ''tenant''" "\<not> has_column db session_table ''bookmark''"
    using assms by (simp_all add: has_column_def session_cols_def)
  then show ?thesis
    using schema_present[of db] assms by (simp add: migrate_def rename_bookmark_def)
qed

text \<open>
  What opening a database from before tenants does.  If the branches stand in the column \<^verbatim>\<open>branch\<close>, every
  row and every managed repository is kept as it was, under the default tenant, and opening the
  database again changes nothing.  If they still stand in the column \<^verbatim>\<open>bookmark\<close>, the first start fails
  half-way through the script and the second one succeeds: it finds no row at all - the old ones
  are left in a table nothing reads - and the managed repositories without a tenant, so that every
  later query of them fails.
\<close>

lemma migration_outcome:
  assumes "old_schema c rows managed db"
  shows "(c = ''branch'' \<longrightarrow> (\<exists>db'. migrate db = (None, db') \<and> migrate db' = (None, db')
        \<and> mapping_of db' = map (\<lambda>r. \<lparr> mr_tenant = ''default'', mr_org = r ''org'', mr_repo = r ''repo'',
              mr_branch = r ''branch'', mr_session = r ''session_name'' \<rparr>) rows
        \<and> managed_of db' = map (\<lambda>r. (''default'', r ''org'', r ''repo'')) managed))
    \<and> (c = ''bookmark'' \<longrightarrow> (\<exists>e db'. migrate db = (Some e, db') \<and> migrate db' = (None, db')
        \<and> mapping_of db' = [] \<and> \<not> has_column db' managed_table ''tenant''
        \<and> (\<exists>t. db' ''session_repos_v1'' = Some t \<and> sq_rows t = rows)))"
proof (intro conjI impI)
  have start: "run_script schema_script db = (None, db)" "\<not> has_column db managed_table ''tenant''"
    using assms unfolding old_schema_def by (auto intro!: schema_present simp: has_column_def)
  assume c: "c = ''branch''"
  let ?db = "new_schema rows managed db"
  have "\<not> has_column db session_table ''tenant''"
    using assms unfolding old_schema_def c by (auto simp: has_column_def)
  moreover have "\<not> has_column ?db session_table ''bookmark''"
    by (simp add: new_schema_def has_column_def table_names session_cols_def)
  ultimately have "migrate db = (None, ?db)"
    using start rebuild_runs[OF assms[unfolded c]] by (simp add: migrate_def rename_bookmark_def)
  moreover have "migrate ?db = (None, ?db)"
    by (rule current_stays, simp add: new_schema_def table_names, simp add: new_schema_def, simp)
  moreover have "scanned_row (project_row (rehomed (tl session_cols)) r) = \<lparr> mr_tenant = ''default'', mr_org = r ''org'',
      mr_repo = r ''repo'', mr_branch = r ''branch'', mr_session = r ''session_name'' \<rparr>" for r
    by (simp add: scanned_row_def project_rehomed session_cols_def)
  then have "mapping_of ?db = map (\<lambda>r. \<lparr> mr_tenant = ''default'', mr_org = r ''org'', mr_repo = r ''repo'',
              mr_branch = r ''branch'', mr_session = r ''session_name'' \<rparr>) rows"
    by (simp add: mapping_of_def new_schema_def table_names)
  moreover have "managed_of ?db = map (\<lambda>r. (''default'', r ''org'', r ''repo'')) managed"
    by (simp add: managed_of_def new_schema_def project_rehomed managed_cols_def)
  ultimately show "\<exists>db'. migrate db = (None, db') \<and> migrate db' = (None, db')
        \<and> mapping_of db' = map (\<lambda>r. \<lparr> mr_tenant = ''default'', mr_org = r ''org'', mr_repo = r ''repo'',
              mr_branch = r ''branch'', mr_session = r ''session_name'' \<rparr>) rows
        \<and> managed_of db' = map (\<lambda>r. (''default'', r ''org'', r ''repo'')) managed" by blast
next
  have start: "run_script schema_script db = (None, db)" "\<not> has_column db managed_table ''tenant''" "db managed_table \<noteq> None"
    using assms unfolding old_schema_def by (auto intro!: schema_present simp: has_column_def)
  assume c: "c = ''bookmark''"
  obtain e t where r: "run_script rebuild_script db = (Some e, db(''session_repos_v1'' \<mapsto> t,
      session_table \<mapsto> \<lparr> sq_cols = session_cols, sq_keys = session_keys, sq_rows = [] \<rparr>))" "sq_rows t = rows"
    using rebuild_stops[OF assms[unfolded c]] .
  let ?db = "db(''session_repos_v1'' \<mapsto> t,
      session_table \<mapsto> \<lparr> sq_cols = session_cols, sq_keys = session_keys, sq_rows = [] \<rparr>)"
  have "\<not> has_column db session_table ''tenant''"
    using assms unfolding old_schema_def c by (auto simp: has_column_def)
  then have "migrate db = (Some (''tenant rebuild: '' @ e), ?db)"
    using start r by (simp add: migrate_def)
  moreover have "migrate ?db = (None, ?db)"
    by (rule current_stays, simp, use start in \<open>simp add: table_names\<close>, simp)
  moreover have "mapping_of ?db = []" "\<not> has_column ?db managed_table ''tenant''" "?db ''session_repos_v1'' = Some t"
    using start by (simp_all add: mapping_of_def has_column_def table_names table_names[symmetric])
  ultimately show "\<exists>e db'. migrate db = (Some e, db') \<and> migrate db' = (None, db')
        \<and> mapping_of db' = [] \<and> \<not> has_column db' managed_table ''tenant''
        \<and> (\<exists>t. db' ''session_repos_v1'' = Some t \<and> sq_rows t = rows)"
    using r(2) by blast
qed

section \<open>A concrete database\<close>

definition old_row :: "string \<Rightarrow> string" where
  "old_row c = (if c = ''org'' then ''acme'' else if c = ''repo'' then ''web'' else if c = ''bookmark'' then ''dev''
     else if c = ''session_name'' then ''acme:web:dev'' else '''')"

definition old_database :: database where
  "old_database = [session_table \<mapsto> \<lparr> sq_cols = [''org'', ''repo'', ''bookmark'', ''session_name'', ''created_at'',
       ''updated_at''], sq_keys = [[''org'', ''repo'', ''bookmark''], [''session_name'']], sq_rows = [old_row] \<rparr>,
     managed_table \<mapsto> \<lparr> sq_cols = [''org'', ''repo'', ''created_at''], sq_keys = [[''org'', ''repo'']], sq_rows = [old_row] \<rparr>]"

lemma migration_outcome_witness:
  "\<exists>e db'. migrate old_database = (Some e, db') \<and> migrate db' = (None, db') \<and> mapping_of db' = []"
proof -
  have "old_schema ''bookmark'' [old_row] [old_row] old_database"
    by (simp add: old_schema_def old_database_def session_table_def managed_table_def)
  from migration_outcome[OF this] show ?thesis by blast
qed

end
