(* ===== verification/Protocol_Mounts.thy ===== *)
theory Protocol_Mounts
imports Gateway Workspace
begin

text \<open>
  What the package registry mounts on the two listeners of the gateway
  (\<^verbatim>\<open>mountPackageRegistry\<close>, \<^verbatim>\<open>buildProtocol\<close> and \<^verbatim>\<open>adminRouter\<close> in
  \<^verbatim>\<open>cmd/easylab/main.go\<close>): the protocols, each with its configuration, on the public one, and the
  operator's interface on the other.

  The protocols are third-party: their names, which of them can be built with a configuration, and
  the prefix of the dispatcher are parameters.
\<close>

record protocol_config =
  pc_self_base :: "string option"
  pc_upload_dir :: "string option"
  pc_dir :: "string option"

definition build_protocol :: "string \<Rightarrow> string \<Rightarrow> string \<Rightarrow> protocol_config" where
  "build_protocol self_base registry_dir name =
    \<lparr> pc_self_base = (if self_base = '''' then None
        else Some (if name = ''oci'' then self_base else self_base @ ''/artifacts/'' @ name)),
      pc_upload_dir = (if registry_dir \<noteq> '''' \<and> name = ''oci'' then Some (path_join registry_dir ''oci-uploads'') else None),
      pc_dir = (if registry_dir \<noteq> '''' \<and> name = ''git'' then Some (path_join registry_dir ''git'') else None) \<rparr>"

datatype mounted =
    OciToken
  | OciScoped protocol_config
  | Dispatcher "(string \<times> protocol_config) list"
  | SystemHandler

definition oci_mounts :: "protocol_config \<Rightarrow> (string \<times> mounted) list" where
  "oci_mounts c = [(''/v2/token'', OciToken), (''/token'', OciToken), (''/v2'', OciScoped c), (''/v2/'', OciScoped c)]"

fun collect_protocols :: "(string \<Rightarrow> protocol_config) \<Rightarrow> (string \<Rightarrow> protocol_config \<Rightarrow> bool) \<Rightarrow> string list
    \<Rightarrow> (string \<times> mounted) list \<times> (string \<times> protocol_config) list" where
  "collect_protocols cfg builds [] = ([], [])"
| "collect_protocols cfg builds (name # names) =
    (case collect_protocols cfg builds names of
       (mounts, handlers) \<Rightarrow>
         if name = ''system'' \<or> \<not> builds name (cfg name) then (mounts, handlers)
         else if name = ''oci'' then (oci_mounts (cfg name) @ mounts, handlers)
         else (mounts, (name, cfg name) # handlers))"

definition mount_package_registry :: "bool \<Rightarrow> string \<Rightarrow> string \<Rightarrow> string \<Rightarrow> (string \<Rightarrow> protocol_config \<Rightarrow> bool) \<Rightarrow> string list
    \<Rightarrow> (string \<times> mounted) list" where
  "mount_package_registry configured mount_base self_base registry_dir builds names =
    (if \<not> configured then [] else
     case collect_protocols (build_protocol self_base registry_dir) builds names of
       (mounts, handlers) \<Rightarrow>
         mounts @ (if handlers = [] then []
                   else [(mount_base @ ''/'', Dispatcher handlers), (mount_base, Dispatcher handlers)]))"

definition admin_router :: "string \<Rightarrow> bool \<Rightarrow> bool \<Rightarrow> (string \<times> mounted) list" where
  "admin_router mount_base configured system_builds =
    (if \<not> configured \<or> \<not> system_builds then []
     else [(mount_base @ ''/system/'', SystemHandler), (mount_base @ ''/system'', SystemHandler)])"

section \<open>What is reachable where\<close>

lemma collect_eq:
  "collect_protocols cfg builds names =
    (concat (map (\<lambda>n. if n = ''oci'' \<and> builds n (cfg n) then oci_mounts (cfg n) else []) names),
     map (\<lambda>n. (n, cfg n)) (filter (\<lambda>n. n \<noteq> ''system'' \<and> n \<noteq> ''oci'' \<and> builds n (cfg n)) names))"
proof (induction names)
  case (Cons name names)
  consider "name = ''system''" | "name = ''oci''" | "name \<noteq> ''system''" "name \<noteq> ''oci''" by blast
  then show ?case by cases (simp_all add: Cons.IH)
qed simp

lemma oci_mounted: "(path, h) \<in> set (oci_mounts c) \<Longrightarrow> h = OciToken \<or> h = OciScoped c"
  by (auto simp: oci_mounts_def)

text \<open>
  The operator's interface is never served by the public listener, neither under a path of its own
  nor through the dispatcher of the protocols; the other listener serves nothing else.
\<close>

lemma public_mounts:
  assumes "(path, h) \<in> set (mount_package_registry configured mount_base self_base registry_dir builds names)"
  shows "h \<noteq> SystemHandler \<and> (\<forall>hs. h = Dispatcher hs \<longrightarrow> ''system'' \<notin> fst ` set hs)"
proof -
  let ?c = "build_protocol self_base registry_dir"
  let ?hs = "map (\<lambda>n. (n, ?c n)) (filter (\<lambda>n. n \<noteq> ''system'' \<and> n \<noteq> ''oci'' \<and> builds n (?c n)) names)"
  have "(\<exists>n \<in> set names. (path, h) \<in> set (oci_mounts (?c n))) \<or> h = Dispatcher ?hs"
    using assms by (auto simp: mount_package_registry_def collect_eq simp del: filter.simps split: if_splits)
  moreover have "''system'' \<notin> fst ` set ?hs" by force
  ultimately show ?thesis by (blast dest: oci_mounted)
qed

lemma admin_mounts: "(path, h) \<in> set (admin_router mount_base configured system_builds) \<Longrightarrow> h = SystemHandler"
  by (auto simp: admin_router_def split: if_splits)

text \<open>Two protocols never share the address their answers name.\<close>

lemma self_bases_differ:
  "self_base \<noteq> '''' \<Longrightarrow> pc_self_base (build_protocol self_base d n) = pc_self_base (build_protocol self_base d m) \<Longrightarrow> n = m"
  by (auto simp: build_protocol_def split: if_splits)

end
