(* ===== verification/Artifact_Client.thy ===== *)
theory Artifact_Client
imports Rpc
begin

text \<open>
  The operations extension's client of the artifact registry (\<^verbatim>\<open>internal/ext/ops/httpclient.go\<close>): which
  credential a request carries and what a failed one shows.

  The transport is a parameter: for the address and the headers it gives an error, or a status and the
  decoded body, or that the body is no JSON.
\<close>

record artifact_config =
  ag_base :: string
  ag_easylab_token :: string
  ag_artifact :: string
  ag_artifact_token :: string

definition add_auth :: "artifact_config \<Rightarrow> string \<Rightarrow> string \<Rightarrow> (string \<times> string) list" where
  "add_auth cfg tenant u =
    (if tenant \<noteq> '''' then [(''X-Agent-Tenant'', tenant)] else [])
    @ (if (has_prefix (ag_base cfg @ ''/'') u \<or> u = ag_base cfg) \<and> ag_easylab_token cfg \<noteq> ''''
       then [(''Authorization'', ''Bearer '' @ ag_easylab_token cfg)]
       else if has_prefix (ag_artifact cfg @ ''/'') u \<and> ag_artifact_token cfg \<noteq> ''''
       then [(''Authorization'', ''Bearer '' @ ag_artifact_token cfg)] else [])"

definition redact_url :: "string \<Rightarrow> string" where
  "redact_url u = (case cut_at CHR ''?'' u of Some (a, _) \<Rightarrow> a | None \<Rightarrow> u)"

definition get_json_artifact :: "artifact_config \<Rightarrow> (string \<Rightarrow> (string \<times> string) list \<Rightarrow> string + int \<times> (string + 'j))
    \<Rightarrow> ('j \<Rightarrow> string) \<Rightarrow> string \<Rightarrow> string \<Rightarrow> string + string" where
  "get_json_artifact cfg fetch to_json tenant u =
    (case fetch u (add_auth cfg tenant u) of
       Inl err \<Rightarrow> Inl err
     | Inr (status, Inl err) \<Rightarrow> Inl err
     | Inr (status, Inr v) \<Rightarrow>
         if status \<ge> 400 then Inl (''GET '' @ redact_url u @ '': '' @ dec_int status @ '' '' @ to_json v)
         else Inr (to_json v))"

text \<open>
  A credential goes only to the service it is for: to an address below the base of the gateway or of the
  registry.  With the two bases different, the registry's credential goes nowhere below the gateway's.
\<close>

lemma credential_stays:
  assumes "(''Authorization'', ''Bearer '' @ tok) \<in> set (add_auth cfg tenant u)"
  shows "tok = ag_easylab_token cfg \<and> (u = ag_base cfg \<or> has_prefix (ag_base cfg @ ''/'') u)
    \<or> tok = ag_artifact_token cfg \<and> has_prefix (ag_artifact cfg @ ''/'') u"
  using assms by (auto simp: add_auth_def split: if_splits)

text \<open>The address in an error ends before its query.\<close>

lemma redacted: "CHR ''?'' \<notin> set (redact_url u) \<and> (\<exists>rest. u = redact_url u @ rest)"
proof (cases "cut_at CHR ''?'' u")
  case None
  then have "redact_url u = u" by (simp only: redact_url_def option.case)
  then show ?thesis using None by simp
next
  case (Some p)
  then obtain a b where s: "cut_at CHR ''?'' u = Some (a, b)" by (cases p) simp
  then have "redact_url u = a" by (simp add: redact_url_def)
  then show ?thesis using s by (simp add: cut_at_Some)
qed

end
