(* ===== verification/Spec2Isabelle.thy ===== *)
theory Spec2Isabelle
imports CI_Scheduler_Correct CI_LogHub CI_Workflow Registry_Ref Naming Lifecycle_Correct Services_Correct Sandboxes_Demo CI_Service_Demo Ops_Tools_Correct Repo_Tools_Correct Agent_Gateway_Correct Mirrors Packages Client_Headers Repo_Migration Protocol_Mounts Artifact_Client
begin

text \<open>
  Easylab is a development platform behind one gateway process: a lab (repositories, merge requests,
  mirrors, releases) over a version control library, continuous integration, container services and
  sandboxes on Kubernetes, a package and image registry, and two extension processes that give
  agents tools and keep agent sessions and repository branches in step.  This development models the
  decisions of that program: who may do what, what a call changes, in which order it changes it and
  what it answers, on every branch including the errors.

  \<^bold>\<open>How the program hangs together.\<close>  A request reaches the gateway
  (\<^verbatim>\<open>cmd/easylab\<close>), which turns the credential into a principal, checks the role and runs a handler.
  A handler of the lab reads and writes the version control library; a handler of the service and
  sandbox APIs drives the Kubernetes client (\<^verbatim>\<open>internal/k8s\<close>) and the sandbox table; a handler of the
  workflow API drives the scheduler (\<^verbatim>\<open>internal/ci\<close>), whose jobs run as pods and whose lines go to the
  log bus.  The repository extension (\<^verbatim>\<open>internal/ext/repo\<close>) listens to the agent's events and calls
  the lab to create, fork, rename and delete branches, and keeps the mapping of sessions to branches
  in its own table; a reconciler repairs what events missed.

  \<^bold>\<open>Theories.\<close>
  \<^item> \<^verbatim>\<open>Prelude\<close>: the string functions of Go, tables as a locale \<^verbatim>\<open>keyed_store\<close>, insertion sort.
  \<^item> \<^verbatim>\<open>Rpc\<close>, \<^verbatim>\<open>Act\<close>: error codes, decimal and quoted text; a handler as a function of the state that
    answers, fails, panics or never returns, with the rules for what it may change.
  \<^item> \<^verbatim>\<open>CI_Types\<close>, \<^verbatim>\<open>CI_Registry\<close>, \<^verbatim>\<open>CI_Scheduler\<close>, \<^verbatim>\<open>CI_Scheduler_Correct\<close>, \<^verbatim>\<open>CI_LogHub\<close>,
    \<^verbatim>\<open>CI_Workflow\<close>, \<^verbatim>\<open>Publish\<close>: \<^verbatim>\<open>internal/ci\<close> and \<^verbatim>\<open>internal/publish\<close>, one theory per file or two.
  \<^item> \<^verbatim>\<open>Registry_Ref\<close>: \<^verbatim>\<open>internal/registry/ref.go\<close>.  \<^verbatim>\<open>Naming\<close>: the names derived from a workspace
    (\<^verbatim>\<open>internal/ext/ops/naming.go\<close>, \<^verbatim>\<open>sessions.go\<close>, \<^verbatim>\<open>helpers_domain.go\<close>, \<^verbatim>\<open>internal/k8s/util.go\<close>).
  \<^item> \<^verbatim>\<open>Authn\<close>, \<^verbatim>\<open>Gateway\<close>, \<^verbatim>\<open>Access_Correct\<close>: \<^verbatim>\<open>authn.go\<close>, \<^verbatim>\<open>authscheme.go\<close>, \<^verbatim>\<open>lab.go\<close> and the routing
    table of \<^verbatim>\<open>main.go\<close>.
  \<^item> \<^verbatim>\<open>Lab_Vcs\<close>, \<^verbatim>\<open>Lab_Server\<close>, \<^verbatim>\<open>Lab_Hosting\<close>, \<^verbatim>\<open>Lab_Rest\<close>, \<^verbatim>\<open>Lab_Graph\<close>: the handlers of
    \<^verbatim>\<open>connlab.go\<close>, \<^verbatim>\<open>connlab_repo.go\<close>, \<^verbatim>\<open>connlab_mr.go\<close>, \<^verbatim>\<open>connlab_extra.go\<close>, \<^verbatim>\<open>merge_core.go\<close>,
    \<^verbatim>\<open>lab_helpers.go\<close> and of the plain routes in \<^verbatim>\<open>main.go\<close>; \<^verbatim>\<open>Dfs\<close>: the depth-first walk two of
    them share; \<^verbatim>\<open>Lab_Access\<close>, \<^verbatim>\<open>Lab_Correct\<close>: what they guarantee; \<^verbatim>\<open>Lab_Demo\<close>: a small library that
    satisfies the assumptions.
  \<^item> \<^verbatim>\<open>Repo_Store\<close>, \<^verbatim>\<open>Repo_Lab\<close>, \<^verbatim>\<open>Repo_Lab_Correct\<close>, \<^verbatim>\<open>Lifecycle\<close>, \<^verbatim>\<open>Lifecycle_Correct\<close>: the repository
    extension (\<^verbatim>\<open>pg.go\<close>, \<^verbatim>\<open>errs.go\<close>, \<^verbatim>\<open>client_easylab.go\<close>, \<^verbatim>\<open>client_agent.go\<close>, \<^verbatim>\<open>events_sub.go\<close>,
    \<^verbatim>\<open>reconcile.go\<close>, \<^verbatim>\<open>sessions_http.go\<close>, \<^verbatim>\<open>variables.go\<close>).
  \<^item> \<^verbatim>\<open>Kube_Pod\<close>, \<^verbatim>\<open>Kube_Egress\<close>, \<^verbatim>\<open>Kube_Client\<close>: \<^verbatim>\<open>internal/k8s\<close>: profiles, the client's
    configuration, the egress sidecar, pods, deployments and the polling loops.
  \<^item> \<^verbatim>\<open>Services\<close>, \<^verbatim>\<open>Services_Correct\<close>: the service API (\<^verbatim>\<open>connops.go\<close>, \<^verbatim>\<open>internal/ops\<close>).
  \<^item> \<^verbatim>\<open>Kube_Job\<close>: \<^verbatim>\<open>job.go\<close> and \<^verbatim>\<open>build.go\<close> of \<^verbatim>\<open>internal/k8s\<close>: a job's pod, its commands and image
    builds.  \<^verbatim>\<open>Workspace\<close>: the archives of \<^verbatim>\<open>internal/workspace\<close>.  \<^verbatim>\<open>Sbx_Registry\<close>: the sandbox table
    (\<^verbatim>\<open>internal/sbxreg\<close>).  \<^verbatim>\<open>CI_Backend\<close>: the execution engine of jobs (\<^verbatim>\<open>internal/ci/backend_k8s.go\<close>).
  \<^item> \<^verbatim>\<open>Sandboxes\<close>, \<^verbatim>\<open>Sandboxes_Correct\<close>, \<^verbatim>\<open>Sandboxes_Demo\<close>: the sandbox API, synchronisation and images
    (\<^verbatim>\<open>connsandbox.go\<close>, \<^verbatim>\<open>sandboxsync.go\<close>, \<^verbatim>\<open>sbximage_k8s.go\<close>, \<^verbatim>\<open>internal/k8s/image.go\<close>).
  \<^item> \<^verbatim>\<open>CI_Service\<close>, \<^verbatim>\<open>CI_Service_Correct\<close>, \<^verbatim>\<open>CI_Service_Demo\<close>: the workflow API and the task of a run
    (\<^verbatim>\<open>connworkflow.go\<close>).
  \<^item> \<^verbatim>\<open>Text_Edit\<close>: the line editors, the pages of the read tool and the patch of an edit.  \<^verbatim>\<open>Repo_Tools\<close>,
    \<^verbatim>\<open>Repo_Tools_Correct\<close>: the 21 tools of the repository extension (\<^verbatim>\<open>tools.go\<close>, \<^verbatim>\<open>tools_vcs.go\<close>).
    \<^verbatim>\<open>Ops_Tools\<close>, \<^verbatim>\<open>Ops_Tools_Correct\<close>: the 18 tools of the operations extension
    (\<^verbatim>\<open>internal/ext/ops\<close>).  \<^verbatim>\<open>Artifact_Client\<close>: its client of the registry (\<^verbatim>\<open>httpclient.go\<close>).
  \<^item> \<^verbatim>\<open>Accounts\<close>, \<^verbatim>\<open>Accounts_Correct\<close>: \<^verbatim>\<open>connuser.go\<close>, \<^verbatim>\<open>user_admin.go\<close>, \<^verbatim>\<open>bootstrap.go\<close>,
    \<^verbatim>\<open>bootstrap_agent.go\<close>.  \<^verbatim>\<open>Agent_Gateway\<close>, \<^verbatim>\<open>Agent_Gateway_Correct\<close>: \<^verbatim>\<open>connagent.go\<close>.  \<^verbatim>\<open>Packages\<close>:
    \<^verbatim>\<open>connregistry.go\<close>.  \<^verbatim>\<open>Mirrors\<close>: \<^verbatim>\<open>mirror_sched.go\<close>.  \<^verbatim>\<open>Client_Headers\<close>: the headers the program's own
    clients set (\<^verbatim>\<open>connectauth\<close>, \<^verbatim>\<open>easylabclient\<close>, \<^verbatim>\<open>tenantctx.go\<close>).
  \<^item> \<^verbatim>\<open>Repo_Migration\<close>: the schema of the repository extension's database and its migration (\<^verbatim>\<open>pg.go\<close>).
    \<^verbatim>\<open>Protocol_Mounts\<close>: what the package registry mounts on the two listeners (\<^verbatim>\<open>main.go\<close>).

  \<^bold>\<open>State and effects.\<close>  A record holds the state of a component; a mutex of the code makes one
  operation one step of the model.  Go maps whose order shows are lists of pairs with distinct keys,
  so a theorem holds for every iteration order.  What is not under \<^verbatim>\<open>src\<close> is a parameter: the version
  control library (a record of operations over an opaque state), the API server, the workers, the
  agent, the network, the clock, random bytes, digests and decoders.  A theorem that relies on such a
  part names what it relies on in a predicate (\<^verbatim>\<open>truthful\<close>, \<^verbatim>\<open>truthful_vcs\<close>, \<^verbatim>\<open>truthful_cluster\<close>,
  \<^verbatim>\<open>hex_digest\<close>), and a witness instantiates it.

  \<^bold>\<open>What the lemmas show.\<close>
  \<^item> The scheduler's walk refines a sequential run in dependency order; it succeeds on every acyclic
    workflow whose jobs succeed, stops at the first failure, and leaves exact job states.
  \<^item> The log bus keeps a bounded tail, gives every subscriber a prefix-free account of the lines and
    closes it at the end.
  \<^item> Names, references and keys round-trip, stay within the bounds of Kubernetes and separate tenants
    as far as digests do.
  \<^item> The mapping of sessions to branches stays one-to-one and named under every event, retry and
    reconciliation; creation converges, deletion is idempotent, and the reconciler heals what it lists.
  \<^item> Authentication decides whom a call acts as; every writing call of the lab, of the services and of
    the sandboxes was made by a caller who meets that call's demand, and the calls whose demand is too
    weak are shown by theorems of their own.
  \<^item> The lab's writes do to branches and trees what they report; following references ends exactly when
    there is no cycle; the revision graph is a topological order with exact heads.
  \<^item> Tool calls of an agent stay in the repository, branch and sandbox of its session; what reaches the agent
    carries the caller's credential and nothing of the inbound headers.
  \<^item> The patch of an edit, read back, is the edit; archives round-trip and unpack below their directory.
  \<^item> The egress sidecar leaves the workload's privileges alone; polling loops return.

  \<^bold>\<open>Bounds and fuel.\<close>  Loops that may run forever (following references, polling a cluster) are
  \<^verbatim>\<open>partial_function (option)\<close>, and the theorems say when they return: without a reference cycle, and
  whenever the clock goes on while the loop waits.  Passes over a workflow end because each pass runs a job.
  Two definitions count fuel: the depth-first walk of \<^verbatim>\<open>Dfs\<close>, given one more than
  there are nodes it can meet, which is proved to be enough, and the reader of pages in \<^verbatim>\<open>Text_Edit\<close>, a
  device of a theorem, whose result without enough fuel is None.  Integers are unbounded where the
  code's cannot overflow on the inputs that reach them; conversions to 32 and 64 bits wrap around as written in
  \<^verbatim>\<open>int32_of\<close> and \<^verbatim>\<open>int64_of\<close>.

  \<^bold>\<open>Not modelled.\<close>
  \<^item> Start-up and wiring (\<^verbatim>\<open>main\<close>, \<^verbatim>\<open>embed_ext.go\<close>, \<^verbatim>\<open>registry.go\<close>, the \<^verbatim>\<open>main.go\<close> of the extensions): reading
    the environment, opening databases, starting servers, tickers and child processes.
  \<^item> The generation of the egress certificate (\<^verbatim>\<open>egressca.go\<close>), packing a directory of the disk
    (\<^verbatim>\<open>tarDir\<close>) and publishing the worker binary: cryptography and file system work of libraries.
  \<^item> The English and Chinese texts of the tools (\<^verbatim>\<open>i18n.go\<close>): a message is its key with its arguments; texts
    printed as JSON, and the reading of arguments and bodies from it.
  \<^item> Code without a caller (\<^verbatim>\<open>sandboxconn.go\<close>, \<^verbatim>\<open>httphelpers.go\<close> and single functions the manifest names) and the
    end-to-end test driver (\<^verbatim>\<open>e2e\<close>).
  \<^item> Time limits of whole jobs and calls, which show as errors of single calls; streams that never end; failures of the
    extension's own database; and the data races of concurrent handlers: a handler is one step.
\<close>

end
